(* ===== verification/Prelude.thy ===== *)
theory Prelude
  imports Complex_Main "HOL-Library.Char_ord" "HOL-Library.List_Lexorder" "HOL-Library.Product_Lexorder"
begin

text \<open>
  What every component shares: results with errors as values, JSON values and the property reads
  JavaScript makes on them, the rendering of numbers, the SQL tables as lists of rows with their
  lookups and updates, and the ordering of strings that String.prototype.localeCompare uses.
\<close>

named_theorems row_simps "how the lookups of a table read an updated table"
named_theorems frame "what an operation leaves alone"
named_theorems keeps "what an operation preserves"

section \<open>Operations: state passing with errors as values\<close>

text \<open>
  An operation of a store runs in one transaction (\<open>tx\<close> of store.ts): a throw rolls every write
  back. So an operation is a function from the state to \<open>Inl\<close> of the error, or to \<open>Inr\<close> of the
  result and the new state; the rollback is the absence of a new state.
\<close>

type_synonym ('s, 'e, 'a) op = "'s \<Rightarrow> 'e + 'a \<times> 's"

definition returnM :: "'a \<Rightarrow> ('s, 'e, 'a) op" where
  "returnM x = (\<lambda>s. Inr (x, s))"

definition throwM :: "'e \<Rightarrow> ('s, 'e, 'a) op" where
  "throwM e = (\<lambda>s. Inl e)"

definition bindM :: "('s, 'e, 'a) op \<Rightarrow> ('a \<Rightarrow> ('s, 'e, 'b) op) \<Rightarrow> ('s, 'e, 'b) op" where
  "bindM m f = (\<lambda>s. case m s of Inl e \<Rightarrow> Inl e | Inr (x, s') \<Rightarrow> f x s')"

definition thenM :: "('s, 'e, 'a) op \<Rightarrow> ('s, 'e, 'b) op \<Rightarrow> ('s, 'e, 'b) op" where
  "thenM m m' = bindM m (\<lambda>_. m')"

definition readM :: "('s \<Rightarrow> 'a) \<Rightarrow> ('s, 'e, 'a) op" where
  "readM f = (\<lambda>s. Inr (f s, s))"

definition modifyM :: "('s \<Rightarrow> 's) \<Rightarrow> ('s, 'e, unit) op" where
  "modifyM f = (\<lambda>s. Inr ((), f s))"

definition whenM :: "bool \<Rightarrow> ('s, 'e, unit) op \<Rightarrow> ('s, 'e, unit) op" where
  "whenM b m = (if b then m else returnM ())"

definition requireM :: "bool \<Rightarrow> 'e \<Rightarrow> ('s, 'e, unit) op" where
  "requireM b e = (if b then returnM () else throwM e)"

text \<open>A loop over a list: \<open>for (const x of xs) f(x)\<close>, and the list of the results.\<close>

fun eachM :: "'a list \<Rightarrow> ('a \<Rightarrow> ('s, 'e, unit) op) \<Rightarrow> ('s, 'e, unit) op" where
  "eachM [] f = returnM ()"
| "eachM (x # xs) f = thenM (f x) (eachM xs f)"

fun collectM :: "'a list \<Rightarrow> ('a \<Rightarrow> ('s, 'e, 'b) op) \<Rightarrow> ('s, 'e, 'b list) op" where
  "collectM [] f = returnM []"
| "collectM (x # xs) f = bindM (f x) (\<lambda>y. bindM (collectM xs f) (\<lambda>ys. returnM (y # ys)))"

lemma op_simps [simp]:
  "returnM x s = Inr (x, s)"
  "throwM e s = Inl e"
  "readM f s = Inr (f s, s)"
  "modifyM g s = Inr ((), g s)"
  by (simp_all add: returnM_def throwM_def readM_def modifyM_def)

lemma bindM_simps [simp]:
  "bindM (returnM x) k = k x"
  "bindM (throwM e) k' = throwM e"
  "bindM (readM f) k s = k (f s) s"
  "bindM (modifyM g) k2 s = k2 () (g s)"
  by (simp_all add: bindM_def returnM_def throwM_def readM_def modifyM_def fun_eq_iff)

lemma thenM_simps [simp]:
  "thenM (returnM x) m = m"
  "thenM (throwM e) m' = throwM e"
  "thenM (modifyM g) m s = m (g s)"
  by (simp_all add: thenM_def)

lemma bindM_assoc: "bindM (bindM m f) g = bindM m (\<lambda>x. bindM (f x) g)"
  by (auto simp: bindM_def fun_eq_iff split: sum.split prod.split)

lemma bindM_Inr: "bindM m f s = Inr (y, s'') \<longleftrightarrow> (\<exists>x s'. m s = Inr (x, s') \<and> f x s' = Inr (y, s''))"
  by (auto simp: bindM_def split: sum.splits)

lemma bindM_InrE:
  assumes "bindM m f s = Inr (y, s'')"
  obtains x s' where "m s = Inr (x, s')" and "f x s' = Inr (y, s'')"
  using assms by (auto simp: bindM_Inr)

lemma requireM_Inr [simp]: "requireM b e s = Inr (u, s') \<longleftrightarrow> b \<and> s' = s"
  by (simp add: requireM_def eq_commute)

text \<open>
  \<open>hoare P m Q\<close>: from a state with \<open>P\<close>, a run of \<open>m\<close> that returns ends in \<open>Q\<close> of the result and the
  state. An error is no constraint, because its transaction is rolled back. \<open>frames f m\<close> says that
  \<open>m\<close> leaves the part \<open>f\<close> of the state alone.
\<close>

definition hoare :: "('s \<Rightarrow> bool) \<Rightarrow> ('s, 'e, 'a) op \<Rightarrow> ('a \<Rightarrow> 's \<Rightarrow> bool) \<Rightarrow> bool" where
  "hoare P m Q \<longleftrightarrow> (\<forall>s x s'. P s \<longrightarrow> m s = Inr (x, s') \<longrightarrow> Q x s')"

definition frames :: "('s \<Rightarrow> 'b) \<Rightarrow> ('s, 'e, 'a) op \<Rightarrow> bool" where
  "frames f m \<longleftrightarrow> (\<forall>s x s'. m s = Inr (x, s') \<longrightarrow> f s' = f s)"

lemma hoareI: "(\<And>s x s'. P s \<Longrightarrow> m s = Inr (x, s') \<Longrightarrow> Q x s') \<Longrightarrow> hoare P m Q"
  by (simp add: hoare_def)

lemma hoareD: "hoare P m Q \<Longrightarrow> m s = Inr (x, s') \<Longrightarrow> P s \<Longrightarrow> Q x s'"
  by (simp add: hoare_def)

lemma framesI: "(\<And>s x s'. m s = Inr (x, s') \<Longrightarrow> f s' = f s) \<Longrightarrow> frames f m"
  by (simp add: frames_def)

lemma framesD: "frames f m \<Longrightarrow> m s = Inr (x, s') \<Longrightarrow> f s' = f s"
  by (simp add: frames_def)

lemma hoare_bind: "hoare P m Q \<Longrightarrow> (\<And>x. hoare (Q x) (k x) R) \<Longrightarrow> hoare P (bindM m k) R"
  by (force simp: hoare_def bindM_Inr)

lemma hoare_weaken: "hoare P m Q \<Longrightarrow> (\<And>s. P' s \<Longrightarrow> P s) \<Longrightarrow> (\<And>x s. Q x s \<Longrightarrow> Q' x s) \<Longrightarrow> hoare P' m Q'"
  by (simp add: hoare_def) blast

lemma frames_return [frame]: "frames f (returnM x)"
  by (simp add: frames_def)

lemma frames_throw [frame]: "frames f (throwM e)"
  by (simp add: frames_def)

lemma frames_read [frame]: "frames f (readM g)"
  by (simp add: frames_def)

lemma frames_require [frame]: "frames f (requireM b e)"
  by (simp add: frames_def)

lemma frames_modify [frame]: "(\<And>s. f (g s) = f s) \<Longrightarrow> frames f (modifyM g)"
  by (simp add: frames_def)

lemma frames_bind [frame]: "frames f m \<Longrightarrow> (\<And>x. frames f (k x)) \<Longrightarrow> frames f (bindM m k)"
  by (force simp: frames_def bindM_Inr)

lemma frames_then [frame]: "frames f m \<Longrightarrow> frames f k \<Longrightarrow> frames f (thenM m k)"
  by (simp add: thenM_def frames_bind)

lemma frames_when [frame]: "(b \<Longrightarrow> frames f m) \<Longrightarrow> frames f (whenM b m)"
  by (simp add: whenM_def frames_return)

lemma frames_if [frame]: "(b \<Longrightarrow> frames f m) \<Longrightarrow> (\<not> b \<Longrightarrow> frames f k) \<Longrightarrow> frames f (if b then m else k)"
  by simp

lemma frames_option [frame]:
  "(x = None \<Longrightarrow> frames f m) \<Longrightarrow> (\<And>y. x = Some y \<Longrightarrow> frames f (k y)) \<Longrightarrow> frames f (case x of None \<Rightarrow> m | Some y \<Rightarrow> k y)"
  by (cases x) simp_all

lemma frames_prod [frame]: "(\<And>a b. frames f (k a b)) \<Longrightarrow> frames f (case x of (a, b) \<Rightarrow> k a b)"
  by (cases x) simp

lemma frames_let [frame]: "frames f (k x) \<Longrightarrow> frames f (let y = x in k y)"
  by simp

lemma frames_each [frame]: "(\<And>x. frames f (k x)) \<Longrightarrow> frames f (eachM xs k)"
  by (induction xs) (auto intro: frame)

lemma frames_collect [frame]: "(\<And>x. frames f (k x)) \<Longrightarrow> frames f (collectM xs k)"
  by (induction xs) (auto intro: frame)

text \<open>A read that depends on the state makes the rest of the operation depend on it.\<close>

lemma frames_state: "(\<And>s0. frames f (m s0)) \<Longrightarrow> frames f (\<lambda>s. m s s)"
  by (simp add: frames_def)

text \<open>
  \<open>runs_in R m\<close>: every run of \<open>m\<close> that returns is a sequence of steps of \<open>R\<close>, the writes that a component
  makes to its tables. An invariant of the steps is one of every run.
\<close>

named_theorems writing "operations whose runs are sequences of steps"

definition runs_in :: "('s \<Rightarrow> 's \<Rightarrow> bool) \<Rightarrow> ('s, 'e, 'a) op \<Rightarrow> bool" where
  "runs_in R m \<longleftrightarrow> (\<forall>s x s'. m s = Inr (x, s') \<longrightarrow> R\<^sup>*\<^sup>* s s')"

lemma runsI: "(\<And>s x s'. m s = Inr (x, s') \<Longrightarrow> R\<^sup>*\<^sup>* s s') \<Longrightarrow> runs_in R m"
  by (simp add: runs_in_def)

lemma runsD: "runs_in R m \<Longrightarrow> m s = Inr (x, s') \<Longrightarrow> R\<^sup>*\<^sup>* s s'"
  by (simp add: runs_in_def)

lemma runs_return [writing]: "runs_in R (returnM x)"
  by (simp add: runs_in_def)

lemma runs_throw [writing]: "runs_in R (throwM e)"
  by (simp add: runs_in_def)

lemma runs_read [writing]: "runs_in R (readM f)"
  by (simp add: runs_in_def)

lemma runs_require [writing]: "runs_in R (requireM b e)"
  by (simp add: runs_in_def)

lemma runs_bind [writing]: "runs_in R m \<Longrightarrow> (\<And>x. runs_in R (k x)) \<Longrightarrow> runs_in R (bindM m k)"
  by (rule runsI, elim bindM_InrE) (blast intro: rtranclp_trans dest: runsD)

lemma runs_then [writing]: "runs_in R m \<Longrightarrow> runs_in R k \<Longrightarrow> runs_in R (thenM m k)"
  by (simp add: thenM_def runs_bind)

lemma runs_when [writing]: "(b \<Longrightarrow> runs_in R m) \<Longrightarrow> runs_in R (whenM b m)"
  by (simp add: whenM_def runs_return)

lemma runs_if [writing]: "(b \<Longrightarrow> runs_in R m) \<Longrightarrow> (\<not> b \<Longrightarrow> runs_in R k) \<Longrightarrow> runs_in R (if b then m else k)"
  by simp

lemma runs_option [writing]:
  "(x = None \<Longrightarrow> runs_in R m) \<Longrightarrow> (\<And>y. x = Some y \<Longrightarrow> runs_in R (k y)) \<Longrightarrow> runs_in R (case x of None \<Rightarrow> m | Some y \<Rightarrow> k y)"
  by (cases x) simp_all

lemma runs_prod [writing]: "(\<And>a b. runs_in R (k a b)) \<Longrightarrow> runs_in R (case x of (a, b) \<Rightarrow> k a b)"
  by (cases x) simp

lemma runs_let [writing]: "runs_in R (k x) \<Longrightarrow> runs_in R (let y = x in k y)"
  by simp

lemma runs_each [writing]: "(\<And>x. runs_in R (k x)) \<Longrightarrow> runs_in R (eachM xs k)"
  by (induction xs) (auto intro: writing)

text \<open>What leaves the written part alone is a step, when the steps include those.\<close>

lemma runs_frame: "(\<And>s s'. f s' = f s \<Longrightarrow> R s s') \<Longrightarrow> frames f m \<Longrightarrow> runs_in R m"
  by (auto simp: runs_in_def intro: r_into_rtranclp dest: framesD)

text \<open>
  \<open>returns_in P m\<close>: from a state with \<open>P\<close> the operation returns, with no error, and \<open>P\<close> holds again.
\<close>

named_theorems returning "operations that return"

definition returns_in :: "('s \<Rightarrow> bool) \<Rightarrow> ('s, 'e, 'a) op \<Rightarrow> bool" where
  "returns_in P m \<longleftrightarrow> (\<forall>s. P s \<longrightarrow> (\<exists>x s'. m s = Inr (x, s') \<and> P s'))"

lemma returnsI: "(\<And>s. P s \<Longrightarrow> \<exists>x s'. m s = Inr (x, s') \<and> P s') \<Longrightarrow> returns_in P m"
  by (simp add: returns_in_def)

lemma returnsE:
  assumes "returns_in P m" "P s"
  obtains x s' where "m s = Inr (x, s')" and "P s'"
  using assms by (auto simp: returns_in_def)

lemma returns_return [returning]: "returns_in P (returnM x)"
  by (simp add: returns_in_def)

lemma returns_read [returning]: "returns_in P (readM f)"
  by (simp add: returns_in_def)

lemma returns_modify [returning]: "(\<And>s. P s \<Longrightarrow> P (f s)) \<Longrightarrow> returns_in P (modifyM f)"
  by (simp add: returns_in_def)

lemma returns_bind [returning]: "returns_in P m \<Longrightarrow> (\<And>x. returns_in P (k x)) \<Longrightarrow> returns_in P (bindM m k)"
  unfolding returns_in_def bindM_Inr by blast

lemma returns_then [returning]: "returns_in P m \<Longrightarrow> returns_in P k \<Longrightarrow> returns_in P (thenM m k)"
  by (simp add: thenM_def returns_bind)

lemma returns_when [returning]: "(b \<Longrightarrow> returns_in P m) \<Longrightarrow> returns_in P (whenM b m)"
  by (simp add: whenM_def returns_return)

lemma returns_if [returning]: "(b \<Longrightarrow> returns_in P m) \<Longrightarrow> (\<not> b \<Longrightarrow> returns_in P k) \<Longrightarrow> returns_in P (if b then m else k)"
  by simp

lemma returns_option [returning]:
  "(x = None \<Longrightarrow> returns_in P m) \<Longrightarrow> (\<And>y. x = Some y \<Longrightarrow> returns_in P (k y)) \<Longrightarrow> returns_in P (case x of None \<Rightarrow> m | Some y \<Rightarrow> k y)"
  by (cases x) simp_all

lemma returns_prod [returning]: "(\<And>a b. returns_in P (k a b)) \<Longrightarrow> returns_in P (case x of (a, b) \<Rightarrow> k a b)"
  by (cases x) simp

lemma returns_let [returning]: "returns_in P (k x) \<Longrightarrow> returns_in P (let y = x in k y)"
  by simp

lemma returns_each [returning]: "(\<And>x. returns_in P (k x)) \<Longrightarrow> returns_in P (eachM xs k)"
  by (induction xs) (auto intro: returning)

section \<open>JSON values\<close>

text \<open>
  A value of type \<open>unknown\<close> that came through JSON. Objects keep their insertion order. Numbers
  are integers here. \<open>JFun\<close> is the one value that is not JSON: a member of Object.prototype, which a
  property read such as \<open>outputs["toString"]\<close> finds on any object.
\<close>

datatype json =
    JNull
  | JBool bool
  | JNum int
  | JStr string
  | JArr "json list"
  | JObj "(string \<times> json) list"
  | JFun string

type_synonym jobject = "(string \<times> json) list"

definition object_prototype_members :: "string list" where
  "object_prototype_members =
     [''constructor'', ''toString'', ''toLocaleString'', ''valueOf'', ''hasOwnProperty'',
      ''isPrototypeOf'', ''propertyIsEnumerable'', ''__defineGetter__'', ''__defineSetter__'',
      ''__lookupGetter__'', ''__lookupSetter__'', ''__proto__'']"

text \<open>\<open>key in obj\<close> and \<open>obj[key]\<close> both look through the prototype; undefined is \<open>None\<close>.\<close>

definition js_in :: "string \<Rightarrow> jobject \<Rightarrow> bool" where
  "js_in k obj \<longleftrightarrow> k \<in> fst ` set obj \<or> k \<in> set object_prototype_members"

definition js_get :: "jobject \<Rightarrow> string \<Rightarrow> json option" where
  "js_get obj k =
     (case map_of obj k of
        Some v \<Rightarrow> Some v
      | None \<Rightarrow> if k \<in> set object_prototype_members then Some (JFun k) else None)"

text \<open>\<open>obj[key] = value\<close>: an existing key keeps its place, a new one goes last.\<close>

fun js_set :: "jobject \<Rightarrow> string \<Rightarrow> json \<Rightarrow> jobject" where
  "js_set [] k v = [(k, v)]"
| "js_set ((k', v') # obj) k v = (if k' = k then (k, v) # obj else (k', v') # js_set obj k v)"

text \<open>\<open>JSON.parse(JSON.stringify(obj))\<close> drops the members that are functions.\<close>

definition json_roundtrip :: "jobject \<Rightarrow> jobject" where
  "json_roundtrip obj = filter (\<lambda>(k, v). case v of JFun _ \<Rightarrow> False | _ \<Rightarrow> True) obj"

definition is_undef_or_null :: "json option \<Rightarrow> bool" where
  "is_undef_or_null v \<longleftrightarrow> v = None \<or> v = Some JNull"

lemma js_get_own: "map_of obj k = Some v \<Longrightarrow> js_get obj k = Some v"
  by (simp add: js_get_def)

lemma map_of_js_set: "map_of (js_set obj k v) = (map_of obj)(k \<mapsto> v)"
  by (induction obj k v rule: js_set.induct) auto

lemma js_get_set: "js_get (js_set obj k v) k' = (if k' = k then Some v else js_get obj k')"
  by (simp add: js_get_def map_of_js_set)

lemma keys_js_set: "fst ` set (js_set obj k v) = insert k (fst ` set obj)"
  by (induction obj k v rule: js_set.induct) auto

text \<open>A string that JavaScript takes as true.\<close>

definition non_empty :: "string option \<Rightarrow> string option" where
  "non_empty v = (case v of Some (c # cs) \<Rightarrow> Some (c # cs) | _ \<Rightarrow> None)"

section \<open>Rendering numbers\<close>

definition digit_char :: "nat \<Rightarrow> char" where
  "digit_char d = char_of (48 + d)"

fun nat_text :: "nat \<Rightarrow> string" where
  "nat_text n = (if n < 10 then [digit_char n] else nat_text (n div 10) @ [digit_char (n mod 10)])"

declare nat_text.simps [simp del]

definition int_text :: "int \<Rightarrow> string" where
  "int_text i = (if i < 0 then ''-'' @ nat_text (nat (- i)) else nat_text (nat i))"

definition hex_digit :: "nat \<Rightarrow> char" where
  "hex_digit n = (if n < 10 then char_of (48 + n) else char_of (87 + n))"

section \<open>Tables\<close>

text \<open>
  A table is the list of its rows in rowid order. \<open>find_row\<close> is the SELECT by primary key,
  \<open>update_rows\<close> the UPDATE with a WHERE clause.
\<close>

definition find_row :: "('r \<Rightarrow> 'k) \<Rightarrow> 'r list \<Rightarrow> 'k \<Rightarrow> 'r option" where
  "find_row key rows k = List.find (\<lambda>r. key r = k) rows"

definition update_rows :: "('r \<Rightarrow> bool) \<Rightarrow> ('r \<Rightarrow> 'r) \<Rightarrow> 'r list \<Rightarrow> 'r list" where
  "update_rows p f rows = map (\<lambda>r. if p r then f r else r) rows"

lemma find_row_Nil [simp]: "find_row key [] k = None"
  by (simp add: find_row_def)

lemma find_row_Cons [simp]:
  "find_row key (r # rows) k = (if key r = k then Some r else find_row key rows k)"
  by (simp add: find_row_def)

lemma find_row_Some: "find_row key rows k = Some r \<Longrightarrow> r \<in> set rows \<and> key r = k"
  by (induction rows) (auto split: if_splits)

lemma find_row_None: "find_row key rows k = None \<longleftrightarrow> k \<notin> key ` set rows"
  by (induction rows) auto

lemma find_row_append:
  "find_row key (xs @ ys) k = (case find_row key xs k of Some r \<Rightarrow> Some r | None \<Rightarrow> find_row key ys k)"
  by (induction xs) auto

lemma find_row_mem:
  "distinct (map key rows) \<Longrightarrow> r \<in> set rows \<Longrightarrow> find_row key rows (key r) = Some r"
  by (induction rows) (auto simp: image_iff)

lemma find_row_update_other:
  assumes "\<And>r. key (f r) = key r" and "\<And>r. r \<in> set rows \<Longrightarrow> key r = k \<Longrightarrow> \<not> p r"
  shows "find_row key (update_rows p f rows) k = find_row key rows k"
  using assms by (induction rows) (auto simp: update_rows_def)

lemma find_row_update_key:
  assumes "\<And>r. key (f r) = key r"
  shows "find_row key (update_rows (\<lambda>r. key r = k) f rows) k' =
    (if k' = k then map_option f (find_row key rows k) else find_row key rows k')"
  using assms by (induction rows) (auto simp: update_rows_def)

lemma map_update_rows:
  "(\<And>r. g (f r) = g r) \<Longrightarrow> map g (update_rows p f rows) = map g rows"
  by (induction rows) (auto simp: update_rows_def)

lemma set_update_rows:
  "set (update_rows p f rows) = {f r | r. r \<in> set rows \<and> p r} \<union> {r \<in> set rows. \<not> p r}"
  by (auto simp: update_rows_def)

lemma length_update_rows [simp]: "length (update_rows p f rows) = length rows"
  by (simp add: update_rows_def)

text \<open>The UPDATE of one row by its key to a given row.\<close>

definition put_row :: "('r \<Rightarrow> 'k) \<Rightarrow> 'r \<Rightarrow> 'r list \<Rightarrow> 'r list" where
  "put_row key r rows = update_rows (\<lambda>a. key a = key r) (\<lambda>_. r) rows"

lemma put_row_mem: "x \<in> set (put_row key r rows) \<Longrightarrow> x = r \<or> (x \<in> set rows \<and> key x \<noteq> key r)"
  by (auto simp: put_row_def update_rows_def)

lemma put_row_other: "x \<in> set rows \<Longrightarrow> key x \<noteq> key r \<Longrightarrow> x \<in> set (put_row key r rows)"
  by (auto simp: put_row_def update_rows_def image_iff)

lemma put_row_self: "key r \<in> key ` set rows \<Longrightarrow> r \<in> set (put_row key r rows)"
  by (auto simp: put_row_def update_rows_def image_iff)

lemma map_put_row: "distinct (map key rows) \<Longrightarrow> c \<in> set rows \<Longrightarrow> key c = key r \<Longrightarrow> g r = g c \<Longrightarrow>
    map g (put_row key r rows) = map g rows"
  by (auto simp: put_row_def update_rows_def distinct_map inj_on_def)

lemma keys_put_row [simp]: "map key (put_row key r rows) = map key rows"
  by (auto simp: put_row_def update_rows_def)

lemma find_row_put_row:
  "find_row key (put_row key r rows) k =
    (if k = key r then map_option (\<lambda>_. r) (find_row key rows k) else find_row key rows k)"
  by (induction rows) (auto simp: put_row_def update_rows_def)

lemma filter_put_row:
  "(\<And>a. a \<in> set rows \<Longrightarrow> key a = key r \<Longrightarrow> P a = P r) \<Longrightarrow>
    filter P (put_row key r rows) = put_row key r (filter P rows)"
  by (induction rows) (auto simp: put_row_def update_rows_def)

lemma put_row_absent: "key r \<notin> key ` set rows \<Longrightarrow> put_row key r rows = rows"
  by (induction rows) (auto simp: put_row_def update_rows_def)

text \<open>INSERT ... ON CONFLICT DO UPDATE\<close>

definition upsert_row :: "('r \<Rightarrow> 'k) \<Rightarrow> 'r \<Rightarrow> 'r list \<Rightarrow> 'r list" where
  "upsert_row key r rows = (if key r \<in> key ` set rows then put_row key r rows else rows @ [r])"

lemma find_row_upsert: "find_row key (upsert_row key r rows) k = (if k = key r then Some r else find_row key rows k)"
proof (cases "key r \<in> key ` set rows")
  case True
  with find_row_None [of key rows "key r"] show ?thesis
    by (auto simp: upsert_row_def find_row_put_row)
next
  case False
  then show ?thesis
    using find_row_None [of key rows "key r"] find_row_append [of key rows "[r]"]
    by (cases "find_row key rows k") (auto simp: upsert_row_def find_row_def)
qed

lemma bex_option_iff: "(case v of None \<Rightarrow> False | Some x \<Rightarrow> P x) \<longleftrightarrow> (\<exists>x. v = Some x \<and> P x)"
  by (cases v) auto

end
