(* ===== verification/Rows.thy ===== *)
theory Rows
  imports Prelude
begin

text \<open>
  The row shapes of v2/core/src/types.ts that the modelled operations read or write: bees, runtimes,
  mailbox messages, commands, moves, handoffs, questions, tasks and the action queue's rows. Closed
  string unions are datatypes, epoch milliseconds are integers, \<open>null\<close> is \<open>None\<close>. Columns that no
  modelled operation reads or writes are left out of the record.
\<close>

section \<open>Bees and runtimes\<close>

datatype lifecycle = LActive | LArchived

datatype runtime_state = RBooting | RRunning | RIdle | RStopped

datatype exit_cause = ExClean | ExCrashed | ExStoppedByUser | ExStoppedBySystem | ExMachineRestart

fun RUNTIME_TRANSITIONS :: "runtime_state \<Rightarrow> runtime_state list" where
  "RUNTIME_TRANSITIONS RBooting = [RRunning, RStopped]"
| "RUNTIME_TRANSITIONS RRunning = [RIdle, RStopped]"
| "RUNTIME_TRANSITIONS RIdle = [RRunning, RStopped]"
| "RUNTIME_TRANSITIONS RStopped = []"

definition INBOX_AGENT :: string where
  "INBOX_AGENT = ''inbox''"

definition isInboxAgent :: "string \<Rightarrow> bool" where
  "isInboxAgent agent \<longleftrightarrow> agent = INBOX_AGENT"

datatype turn_trigger_kind = TgHuman | TgAnswer | TgMail | TgOther

record turn_trigger =
  ttKind :: turn_trigger_kind
  ttFrom :: "string option"
  ttMessageId :: "nat option"
  ttGeneration :: nat
  ttStartedAt :: int
  ttHumanAt :: "int option"
  ttEndedAt :: "int option"
  ttEndedQuiet :: "bool option"

record bee_row =
  bId :: string
  bAgent :: string
  bSubstrate :: string
  bCwd :: string
  bLifecycle :: lifecycle
  bArchivedAt :: "int option"
  bSpawnFailures :: nat
  bPlacementVersion :: nat
  bActiveMoveId :: "string option"
  bActiveHandoffId :: "string option"
  bCellId :: "string option"
  bAuthControlFence :: nat
  bLastTurnTrigger :: "turn_trigger option"
  bName :: string
  bTitle :: "string option"
  bTags :: "string list"
  bArgs :: "string list option"
  bLastOutputAt :: "int option"
  bLastHumanOutputAt :: "int option"
  bAccount :: "string option"

datatype boot_evidence = BeSynthetic | BeReal

text \<open>The column process_identity: null, the mark of a new start, or the identity bound to the process.\<close>

record process_identity =
  piPid :: int
  piBirth :: string
  piBootId :: string

datatype identity_cell = IdPendingStart | IdBound process_identity

record runtime_row =
  rBeeId :: string
  rGeneration :: nat
  rState :: runtime_state
  rExitCause :: "exit_cause option"
  rUpdatedAt :: int
  rCredentialStamp :: bool
  rPid :: "int option"
  rPidStartedAt :: "int option"
  rBootEvidence :: "boot_evidence option"
  rStartedAt :: int
  rIdentity :: "identity_cell option"

section \<open>Mail\<close>

datatype urgency = UNow | UNext | UIdle

datatype sender_kind = SkHuman | SkAutomation

datatype automation_kind =
    AkTellReprompt | AkTellMode | AkRoleRefresh | AkObligationNotice | AkProofNotice
  | AkContextNotice | AkBlockingDecision | AkActionableWarning

datatype mail_delivery_class = HumanFollowup | Control | Bypass | Ordinary

fun automationDeliveryClass :: "automation_kind option \<Rightarrow> mail_delivery_class" where
  "automationDeliveryClass (Some AkTellReprompt) = HumanFollowup"
| "automationDeliveryClass (Some AkTellMode) = Control"
| "automationDeliveryClass (Some AkRoleRefresh) = Control"
| "automationDeliveryClass (Some AkContextNotice) = Control"
| "automationDeliveryClass (Some AkBlockingDecision) = Bypass"
| "automationDeliveryClass (Some AkActionableWarning) = Bypass"
| "automationDeliveryClass (Some AkObligationNotice) = Ordinary"
| "automationDeliveryClass (Some AkProofNotice) = Ordinary"
| "automationDeliveryClass None = Ordinary"

datatype mail_origin =
    OrMailSend | OrSpawnPrompt | OrLegacyUnknown | OrHandoffSeed | OrActionDispatch
  | OrAuthResume | OrQuotaResume

record message_row =
  mId :: nat
  mBeeId :: string
  mSender :: string
  mBody :: string
  mPriority :: int
  mUrgency :: urgency
  mEnqueuedAt :: int
  mDeliveredAt :: "int option"
  mDeliveredGeneration :: "nat option"
  mSenderKind :: "sender_kind option"
  mAutomationKind :: "automation_kind option"
  mHumanChat :: bool
  mMailBatchId :: "string option"
  mQueueOrder :: "nat option"

text \<open>What the modelled reads need of a row of multiline_delivery: the hold and the notices it names.\<close>

record multiline_row =
  mlMessageId :: nat
  mlHeldAt :: "int option"
  mlHeldSince :: "int option"
  mlStageHeld :: bool
  mlFallbackReady :: bool
  mlReceiptNotice :: "nat option"
  mlFallbackNotice :: "nat option"

section \<open>Commands\<close>

datatype verb =
    VSpawn | VSendWake | VReconnectTools | VStop | VRevive | VArchive | VUnarchive | VDelete

definition RUNTIME_VERBS :: "verb list" where
  "RUNTIME_VERBS = [VSpawn, VSendWake, VStop, VRevive, VReconnectTools]"

datatype command_status = CQueued | CRunning | CDone | CFailed

datatype flag_name = FAuthNeeded | FResourceBlocked | FSpawnFailed | FNodeUnreachable

record flag_row =
  fId :: nat
  fBeeId :: string
  fFlag :: flag_name
  fDetail :: string
  fSetAt :: int
  fClearedAt :: "int option"
  fResetsAt :: "int option"

record command_row =
  cId :: nat
  cVerb :: verb
  cBeeId :: string
  cArgs :: jobject
  cTargetGeneration :: "nat option"
  cStatus :: command_status
  cAttempts :: nat
  cNextAttemptAt :: int
  cEnqueuedAt :: int
  cFinishedAt :: "int option"
  cFailureCause :: "flag_name option"
  cIdempotencyKey :: "string option"

section \<open>Moves, handoffs and recoveries\<close>

datatype move_phase = MvStopping | MvPlacing | MvStarting | MvComplete | MvFailed

fun BEE_MOVE_TRANSITIONS :: "move_phase \<Rightarrow> move_phase list" where
  "BEE_MOVE_TRANSITIONS MvStopping = [MvPlacing, MvFailed]"
| "BEE_MOVE_TRANSITIONS MvPlacing = [MvStarting, MvFailed]"
| "BEE_MOVE_TRANSITIONS MvStarting = [MvComplete, MvFailed]"
| "BEE_MOVE_TRANSITIONS MvComplete = []"
| "BEE_MOVE_TRANSITIONS MvFailed = []"

definition beeMoveTransitionLegal :: "move_phase \<Rightarrow> move_phase \<Rightarrow> bool" where
  "beeMoveTransitionLegal from to \<longleftrightarrow> from = to \<or> to \<in> set (BEE_MOVE_TRANSITIONS from)"

record placement =
  plSubstrate :: string
  plCwd :: string
  plVersion :: nat

datatype stage = StValidate | StStop | StStart | StContext | StSwitch

record stage_failure =
  sfStage :: stage
  sfCode :: string
  sfDetail :: string

record move_row =
  mvId :: string
  mvBeeId :: string
  mvPhase :: move_phase
  mvSourceGeneration :: nat
  mvTo :: placement
  mvFailure :: "stage_failure option"
  mvStopCommandKey :: string
  mvReviveCommandKey :: string
  mvInstructionsPending :: bool
  mvCreatedAt :: int
  mvUpdatedAt :: int

datatype handoff_phase = HoStopping | HoSummarizing | HoStarting | HoComplete | HoFailed

fun BEE_HANDOFF_TRANSITIONS :: "handoff_phase \<Rightarrow> handoff_phase list" where
  "BEE_HANDOFF_TRANSITIONS HoStopping = [HoSummarizing, HoFailed]"
| "BEE_HANDOFF_TRANSITIONS HoSummarizing = [HoStarting, HoFailed]"
| "BEE_HANDOFF_TRANSITIONS HoStarting = [HoComplete, HoFailed]"
| "BEE_HANDOFF_TRANSITIONS HoComplete = []"
| "BEE_HANDOFF_TRANSITIONS HoFailed = []"

definition beeHandoffTransitionLegal :: "handoff_phase \<Rightarrow> handoff_phase \<Rightarrow> bool" where
  "beeHandoffTransitionLegal from to \<longleftrightarrow> from = to \<or> to \<in> set (BEE_HANDOFF_TRANSITIONS from)"

definition handoffFencesSource :: "handoff_phase \<Rightarrow> bool" where
  "handoffFencesSource phase \<longleftrightarrow> phase = HoStopping \<or> phase = HoSummarizing"

record handoff_row =
  hoId :: string
  hoBeeId :: string
  hoPhase :: handoff_phase
  hoSourceGeneration :: nat
  hoSeedMessageId :: "nat option"
  hoFailure :: "stage_failure option"
  hoStopCommandKey :: string
  hoReviveCommandKey :: string
  hoCreatedAt :: int
  hoUpdatedAt :: int

datatype thread_phase = ThReady | ThStarting | ThFailed | ThPreparing

record thread_row =
  thSuccessorBeeId :: string
  thPhase :: thread_phase

datatype auth_state = AuOpen | AuRestored | AuResumed | AuCompleted | AuCancelled | AuSuperseded

definition AUTH_INTERRUPTION_LIVE_STATES :: "auth_state list" where
  "AUTH_INTERRUPTION_LIVE_STATES = [AuOpen, AuRestored, AuResumed]"

record death_recovery =
  drReleasedWhilePaused :: bool
  drClaimedAt :: "int option"
  drCommandId :: "nat option"

record auth_row =
  auId :: nat
  auBeeId :: string
  auAccount :: string
  auGeneration :: nat
  auState :: auth_state
  auDeathRecovery :: "death_recovery option"
  auContinuationKind :: "string option"
  auContinuationMessageIds :: "nat list"
  auSettledAt :: "int option"
  auSettleReason :: "string option"

datatype quota_state = QWaiting | QRotating | QResumed | QCancelled

record quota_row =
  qrId :: string
  qrBeeId :: string
  qrState :: quota_state
  qrSourceGeneration :: nat
  qrContinuationMessageIds :: "nat list"
  qrReason :: "string option"
  qrRetryAt :: "int option"
  qrUpdatedAt :: int

section \<open>Questions\<close>

datatype question_status = QsOpen | QsAnswered | QsWithdrawn | QsDismissed

record question_row =
  qId :: string
  qBeeId :: string
  qGeneration :: "nat option"
  qText :: string
  qOptions :: "string list option"
  qStatus :: question_status
  qWithdrawalReason :: "string option"
  qWithdrawnAt :: "int option"
  qDismissedAt :: "int option"
  qDismissalMessageId :: "nat option"
  qAnswer :: "string option"
  qAskedAt :: int
  qAnsweredAt :: "int option"
  qAnsweredBy :: "string option"
  qDeliveryMessageId :: "nat option"

section \<open>Tasks\<close>

datatype task_status = TPending | TQueued | TInProgress | TDone | TBlocked | TCancelled

datatype task_origin = ToUser | ToSelf | ToBee

datatype task_transition = TtStart | TtDone | TtBlock | TtCancel

record task_row =
  tId :: string
  tList :: string
  tBeeId :: "string option"
  tTitle :: string
  tBody :: "string option"
  tContext :: "jobject option"
  tOriginKind :: task_origin
  tOriginSender :: string
  tAuto :: bool
  tStatus :: task_status
  tClaimedBy :: "string option"
  tOrder :: rat
  tQuestId :: "string option"
  tMailboxMessageId :: "nat option"
  tFedAt :: "int option"
  tStalledAt :: "int option"
  tBlockedReason :: "string option"
  tCreatedAt :: int
  tUpdatedAt :: int
  tClosedAt :: "int option"

record task_supply_row =
  tsBeeId :: string
  tsOn :: bool
  tsLimit :: nat
  tsFeeds :: nat
  tsPaused :: bool

section \<open>Keyed effects and fenced executions\<close>

text \<open>effectResolve.ts and the table rpc_idempotency\<close>

datatype effect_state = EfCommitted | EfFenced

record effect_receipt =
  ecKey :: string
  ecVerb :: string
  ecCommandId :: "nat option"
  ecResult :: json
  ecCreatedAt :: int

record effect_row =
  efKey :: string
  efVerb :: string
  efState :: effect_state
  efReceipt :: "effect_receipt option"

record rpc_result =
  rxKey :: string
  rxVerb :: string
  rxCommandId :: "nat option"
  rxResult :: json
  rxCreatedAt :: int

text \<open>executionFence.ts: a claim is the token and the request it is bound to.\<close>

datatype exec_verb = XvSend | XvArchive | XvSpawn

datatype exec_code = XcStale | XcBusy | XcHistoryUnknown | XcUnsupported | XcConflict | XcInvalid | XcUntrusted

datatype exec_status = XsPreparing | XsQueued | XsCompleted | XsRefusedStale | XsOutcomeUnknown

record exec_claim =
  xcIssuer :: string
  xcContinuation :: string
  xcGeneration :: nat
  xcClaimId :: string
  xcGrantDigest :: string
  xcOwnerStore :: string
  xcCoverage :: string
  xcVerb :: exec_verb
  xcBeeId :: string
  xcRequestDigest :: string
  xcKey :: string

record exec_receipt =
  xrClaim :: exec_claim
  xrStatus :: exec_status
  xrCommandId :: "nat option"
  xrResult :: json

text \<open>A row of rpc_execution_effects; \<open>xeCommand\<close> is its column command_id.\<close>

record exec_effect =
  xeKey :: string
  xeBinding :: exec_claim
  xeReceipt :: exec_receipt
  xeCommand :: "nat option"

record exec_transition =
  xtIssuer :: string
  xtTransition :: string
  xtRequest :: json
  xtClaim :: exec_claim

text \<open>executionStart.ts\<close>

datatype start_state = SsPrepared | SsDispatching | SsReleaseCommitted | SsStarted | SsHostExited | SsRefusedStale | SsOutcomeUnknown

record exec_process =
  epPid :: int
  epBirth :: string

record exec_start =
  esIntent :: string
  esBee :: string
  esGeneration :: nat
  esClaim :: exec_claim

record exec_start_row =
  esStart :: exec_start
  esState :: start_state
  esHost :: "exec_process option"
  esAgent :: "exec_process option"

datatype start_op_state = SoActive | SoQuiescent | SoUnknown

record exec_start_op =
  eoLease :: string
  eoIntent :: string
  eoOperation :: string
  eoState :: start_op_state

section \<open>Admissions of work to accounts\<close>

datatype admission_operation = AoSpawn | AoSwap | AoFork | AoHandoff

text \<open>The receipt is its JSON text.\<close>

record admission_row =
  amId :: string
  amRequestKey :: string
  amScope :: string
  amAccount :: string
  amSourceAccount :: "string option"
  amOperation :: admission_operation
  amUnits :: rat
  amBeeId :: "string option"
  amReconcileAfterGeneration :: int
  amReceipt :: string
  amCreatedAt :: int
  amExpiresAt :: int
  amConfirmedAt :: "int option"
  amReleasedAt :: "int option"

end
