(* ===== verification/Action_Rows.thy ===== *)
theory Action_Rows
  imports Rows
begin

text \<open>
  The rows of the action queue (schema v24, v2/core/src/types.ts from line 1557): the closed sets of
  executors, statuses, reasons and outcomes, the definition an action snapshots, the current
  attempt's dispatch, its progress, result and failure, and the status graph.
\<close>

datatype action_executor = XAgent | XCellCapture | XLifecycleArchive | XExternal

datatype action_status = AQueued | ARunning | AWaiting | ASucceeded | AFailed | ACancelled

fun ACTION_TRANSITIONS :: "action_status \<Rightarrow> action_status list" where
  "ACTION_TRANSITIONS AQueued = [ARunning, AWaiting, ASucceeded, AFailed, ACancelled]"
| "ACTION_TRANSITIONS ARunning = [AWaiting, ASucceeded, AFailed, ACancelled]"
| "ACTION_TRANSITIONS AWaiting = [ARunning, ASucceeded, AFailed, ACancelled, AQueued]"
| "ACTION_TRANSITIONS ASucceeded = []"
| "ACTION_TRANSITIONS AFailed = [AQueued, ASucceeded, ACancelled]"
| "ACTION_TRANSITIONS ACancelled = []"

datatype action_waiting_reason = WInput | WExecutor | WUncertain

datatype action_hold_reason = HPaused | HPredecessorActive | HPredecessorFailed | HLaneBusy

datatype action_attempt_outcome = OSucceeded | OFailed | OCancelled | OUncertain | OSuperseded

text \<open>The two patterns the built-in definitions use; \<open>None\<close> is any string.\<close>

datatype output_pattern = SHA_PATTERN | BRANCH_PATTERN

record action_output_spec =
  osName :: string
  osRequired :: bool
  osPattern :: "output_pattern option"
  osDescription :: string

record action_input_spec =
  isName :: string
  isRequired :: bool
  isDescription :: string

record action_definition =
  dKind :: string
  dVersion :: nat
  dExecutor :: action_executor
  dTitle :: string
  dDescription :: string
  dInputs :: "action_input_spec list"
  dOutputs :: "action_output_spec list"
  dInstruction :: "string option"

record action_dispatch =
  dpAttempt :: nat
  dpDispatchedAt :: int
  dpGeneration :: "nat option"
  dpMessageId :: "nat option"
  dpDeliveredAt :: "int option"
  dpDeliveredGeneration :: "nat option"
  dpOperationKey :: "string option"
  dpClaimedBy :: "string option"
  dpClaimedAt :: "int option"
  dpExpectedHead :: "string option"
  dpNudgedAt :: "int option"

record action_progress =
  apNote :: string
  apAt :: int
  apAttempt :: nat

record action_result =
  arOutputs :: jobject
  arReceipt :: "jobject option"
  arDetail :: "string option"
  arReconciled :: bool
  arAttempt :: nat
  arAt :: int

record action_failure =
  afCode :: string
  afDetail :: string
  afRetryable :: bool
  afAttempt :: nat
  afAt :: int

record action_attempt_record =
  atAttempt :: nat
  atDispatchedAt :: "int option"
  atGeneration :: "nat option"
  atMessageId :: "nat option"
  atDeliveredAt :: "int option"
  atClaimedBy :: "string option"
  atOperationKey :: "string option"
  atOutcome :: "action_attempt_outcome option"
  atFinishedAt :: "int option"

record action_hold =
  hReason :: action_hold_reason
  hActionId :: "string option"
  hActionStatus :: "action_status option"

record action_controls =
  kCancel :: bool
  kForceCancel :: bool
  kRetry :: bool
  kForceRetry :: bool
  kReorder :: bool
  kComplete :: bool

text \<open>
  A row of the table actions. The last two fields are columns of the table that the row mapped for
  the program (\<open>ActionRow\<close>) does not carry: the indexed copies of the dispatch's message and key.
\<close>

record action_row =
  aId :: string
  aBeeId :: string
  aPosition :: int
  aClientRef :: "string option"
  aKind :: string
  aDefinitionVersion :: nat
  aExecutor :: action_executor
  aTitle :: string
  aDefinition :: action_definition
  aInputs :: jobject
  aResolvedInputs :: "jobject option"
  aStatus :: action_status
  aWaitingReason :: "action_waiting_reason option"
  aWaitingDetail :: "string option"
  aAttempt :: nat
  aDispatch :: "action_dispatch option"
  aProgress :: "action_progress option"
  aQuestionId :: "string option"
  aResult :: "action_result option"
  aFailure :: "action_failure option"
  aAttempts :: "action_attempt_record list"
  aCreatedAt :: int
  aUpdatedAt :: int
  aFinishedAt :: "int option"
  aEnqueueKey :: string
  aAttemptToken :: "string option"
  aDispatchMessageId :: "nat option"
  aOperationKey :: "string option"

text \<open>
  The projection sent over RPC and to the mirror: the row without its token, its accepting key and
  the two store columns, with the derived hold and controls.
\<close>

record action_view =
  vRow :: action_row
  vHold :: "action_hold option"
  vControls :: action_controls

text \<open>The row of action_queues; the summary of the lane is computed when the row is read.\<close>

record action_queue_db =
  qdBeeId :: string
  qdPaused :: bool
  qdPausedAt :: "int option"
  qdNextPosition :: int
  qdCreatedAt :: int
  qdUpdatedAt :: int

record action_counts =
  nQueued :: nat
  nRunning :: nat
  nWaiting :: nat
  nSucceeded :: nat
  nFailed :: nat
  nCancelled :: nat

record action_queue_view =
  qvBeeId :: string
  qvPaused :: bool
  qvPausedAt :: "int option"
  qvActiveActionId :: "string option"
  qvCounts :: action_counts
  qvCreatedAt :: int
  qvUpdatedAt :: int

record action_queue_row =
  qrwView :: action_queue_view
  qrwNextPosition :: int

record action_enqueue_row =
  eIdempotencyKey :: string
  eRequestHash :: string
  eBeeId :: string
  eActionIds :: "string list"
  eCreatedAt :: int

lemma ACTION_TRANSITIONS_final:
  "ACTION_TRANSITIONS st = [] \<longleftrightarrow> st = ASucceeded \<or> st = ACancelled"
  by (cases st) auto

end
