(* ===== verification/Actions.thy ===== *)
theory Actions
  imports Action_Rows
begin

text \<open>
  v2/core/src/actions.ts: the built-in definition registry, \<open>$ref\<close> resolution, output validation, the
  instruction and reminder an agent receives, the derivation of holds and controls, and the view
  projection, in its two forms (one action against its lane, and a whole selection in one pass).
  Strings are their UTF-8 bytes.
\<close>

section \<open>Text\<close>

definition em_dash :: string where
  "em_dash = [CHR 0xE2, CHR 0x80, CHR 0x94]"

definition right_arrow :: string where
  "right_arrow = [CHR 0xE2, CHR 0x86, CHR 0x92]"

definition NL :: string where
  "NL = [CHR 0x0A]"

text \<open>The white space of String.prototype.trim and of \<open>\s\<close>, each character as its UTF-8 bytes.\<close>

definition js_white :: "string list" where
  "js_white =
     [[CHR 0x09], [CHR 0x0A], [CHR 0x0B], [CHR 0x0C], [CHR 0x0D], [CHR 0x20],
      [CHR 0xC2, CHR 0xA0], [CHR 0xE1, CHR 0x9A, CHR 0x80]]
     @ map (\<lambda>n. [CHR 0xE2, CHR 0x80, char_of (n :: nat)]) [128..<139]
     @ [[CHR 0xE2, CHR 0x80, CHR 0xA8], [CHR 0xE2, CHR 0x80, CHR 0xA9], [CHR 0xE2, CHR 0x80, CHR 0xAF],
        [CHR 0xE2, CHR 0x81, CHR 0x9F], [CHR 0xE3, CHR 0x80, CHR 0x80], [CHR 0xEF, CHR 0xBB, CHR 0xBF]]"

definition starts_with :: "string \<Rightarrow> string \<Rightarrow> bool" where
  "starts_with p s \<longleftrightarrow> take (length p) s = p"

definition white_prefix :: "string list \<Rightarrow> string \<Rightarrow> nat" where
  "white_prefix ws s = (case List.find (\<lambda>p. starts_with p s) ws of Some p \<Rightarrow> length p | None \<Rightarrow> 0)"

fun trim_front :: "string list \<Rightarrow> string \<Rightarrow> nat \<Rightarrow> string" where
  "trim_front ws s 0 = s"
| "trim_front ws s (Suc n) =
     (if white_prefix ws s = 0 then s else trim_front ws (drop (white_prefix ws s) s) n)"

text \<open>Every round of \<open>trim_front\<close> removes at least one byte, so the length of the string is enough fuel.\<close>

definition js_trim :: "string \<Rightarrow> string" where
  "js_trim s =
     (let front = trim_front js_white s (length s)
      in rev (trim_front (map rev js_white) (rev front) (length front)))"

definition has_white :: "string \<Rightarrow> bool" where
  "has_white s \<longleftrightarrow> list_ex (\<lambda>n. white_prefix js_white (drop n s) \<noteq> 0) [0..<length s]"

text \<open>The \<open>length\<close> of a JavaScript string, from its UTF-8 bytes: one unit per character, two above U+FFFF.\<close>

definition utf16_length :: "string \<Rightarrow> nat" where
  "utf16_length s =
     sum_list (map (\<lambda>c. let n = of_char c :: nat
                        in if 128 \<le> n \<and> n < 192 then 0 else if 240 \<le> n then 2 else 1) s)"

fun join_with :: "string \<Rightarrow> string list \<Rightarrow> string" where
  "join_with sep [] = ''''"
| "join_with sep [x] = x"
| "join_with sep (x # y # ys) = x @ sep @ join_with sep (y # ys)"

text \<open>JSON.stringify of a string and of a value.\<close>

definition json_escape :: "char \<Rightarrow> string" where
  "json_escape c =
     (if c = CHR 0x22 then [CHR 0x5C, CHR 0x22]
      else if c = CHR 0x5C then [CHR 0x5C, CHR 0x5C]
      else if c = CHR 0x08 then [CHR 0x5C, CHR ''b'']
      else if c = CHR 0x09 then [CHR 0x5C, CHR ''t'']
      else if c = CHR 0x0A then [CHR 0x5C, CHR ''n'']
      else if c = CHR 0x0C then [CHR 0x5C, CHR ''f'']
      else if c = CHR 0x0D then [CHR 0x5C, CHR ''r'']
      else if of_char c < (32 :: nat) then
        [CHR 0x5C, CHR ''u'', CHR ''0'', CHR ''0'', hex_digit (of_char c div 16), hex_digit (of_char c mod 16)]
      else [c])"

definition json_quote :: "string \<Rightarrow> string" where
  "json_quote s = [CHR 0x22] @ concat (map json_escape s) @ [CHR 0x22]"

definition js_is_fun :: "json \<Rightarrow> bool" where
  "js_is_fun v = (case v of JFun _ \<Rightarrow> True | _ \<Rightarrow> False)"

fun json_text :: "json \<Rightarrow> string" where
  "json_text JNull = ''null''"
| "json_text (JBool b) = (if b then ''true'' else ''false'')"
| "json_text (JNum n) = int_text n"
| "json_text (JStr s) = json_quote s"
| "json_text (JArr vs) =
     ''['' @ join_with '','' (map (\<lambda>v. if js_is_fun v then ''null'' else json_text v) vs) @ '']''"
| "json_text (JObj obj) =
     CHR 0x7B # join_with '',''
       (concat (map (\<lambda>(k, v). if js_is_fun v then [] else [json_quote k @ '':'' @ json_text v]) obj)) @ [CHR 0x7D]"
| "json_text (JFun _) = ''undefined''"

section \<open>The registry\<close>

definition ACTION_DISPATCH_SENDER :: string where
  "ACTION_DISPATCH_SENDER = ''hive:action''"

definition ACTION_DISPATCH_MARKER :: string where
  "ACTION_DISPATCH_MARKER = ''[Hive action]''"

definition ACTION_OPEN_STATUSES :: "action_status list" where
  "ACTION_OPEN_STATUSES = [AQueued, ARunning, AWaiting]"

definition ACTION_TERMINAL_STATUSES :: "action_status list" where
  "ACTION_TERMINAL_STATUSES = [ASucceeded, AFailed, ACancelled]"

definition input_spec :: "string \<Rightarrow> bool \<Rightarrow> string \<Rightarrow> action_input_spec" where
  "input_spec n req d = \<lparr>isName = n, isRequired = req, isDescription = d\<rparr>"

definition output_spec :: "string \<Rightarrow> bool \<Rightarrow> output_pattern option \<Rightarrow> string \<Rightarrow> action_output_spec" where
  "output_spec n req p d = \<lparr>osName = n, osRequired = req, osPattern = p, osDescription = d\<rparr>"

definition BUILTIN_ACTION_DEFINITIONS :: "action_definition list" where
  \<open>BUILTIN_ACTION_DEFINITIONS =
  [\<lparr>dKind = ''commit'',
    dVersion = 1,
    dExecutor = XAgent,
    dTitle = ''Commit'',
    dDescription = ''Commit the bee's current work in its checkout and report the resulting commit.'',
    dInputs =
      [input_spec ''message'' False ''Suggested commit message (the agent may refine it).'',
       input_spec ''instruction'' False ''Extra guidance appended to the instruction.'',
       input_spec ''urgency'' False ''Mailbox urgency for the instruction: now|next|idle (default next).''],
    dOutputs =
      [output_spec ''commitSha'' True (Some SHA_PATTERN) ''Full sha of the commit that was created (or the existing HEAD when nothing needed committing).'',
       output_spec ''branch'' False (Some BRANCH_PATTERN) ''Branch the commit is on.''],
    dInstruction = Some
      ''Commit the work in your checkout now. Stage only the changes that belong to your current task, write a clear commit message, and create exactly one commit (if there is nothing to commit, report the current HEAD as commitSha).''\<rparr>,
   \<lparr>dKind = ''name_branch'',
    dVersion = 1,
    dExecutor = XAgent,
    dTitle = ''Name branch'',
    dDescription = ''Create or rename the working branch to a descriptive name and report it.'',
    dInputs =
      [input_spec ''instruction'' False ''Extra guidance appended to the instruction.'',
       input_spec ''urgency'' False ''Mailbox urgency for the instruction: now|next|idle (default next).''],
    dOutputs = [output_spec ''branch'' True (Some BRANCH_PATTERN) ''The branch name now checked out.''],
    dInstruction = Some
      ''Give your working branch a short, descriptive name that reflects the change you are making (create it or rename the current branch), then report the branch name.''\<rparr>,
   \<lparr>dKind = ''fix'',
    dVersion = 1,
    dExecutor = XAgent,
    dTitle = ''Fix issues'',
    dDescription = ''Address review findings / failing checks in the checkout.'',
    dInputs =
      [input_spec ''instruction'' False ''What to fix (findings, failing checks).'',
       input_spec ''urgency'' False ''Mailbox urgency for the instruction: now|next|idle (default next).''],
    dOutputs = [output_spec ''summary'' False None ''One-line summary of what was fixed.''],
    dInstruction = Some ''Fix the issues described below in your checkout. Verify the fix (run the relevant checks) before reporting.''\<rparr>,
   \<lparr>dKind = ''instruction'',
    dVersion = 1,
    dExecutor = XAgent,
    dTitle = ''Instruction'',
    dDescription = ''A free-form agent instruction with a structured completion report.'',
    dInputs =
      [input_spec ''instruction'' True ''The instruction body.'',
       input_spec ''title'' False ''Display title for the queue.'',
       input_spec ''outputs'' False ''Names of outputs the agent must report (string[]).'',
       input_spec ''urgency'' False ''Mailbox urgency for the instruction: now|next|idle (default next).''],
    dOutputs = [],
    dInstruction = None\<rparr>,
   \<lparr>dKind = ''land'',
    dVersion = 1,
    dExecutor = XCellCapture,
    dTitle = ''Land'',
    dDescription = ''Land the Cell's HEAD onto a branch in the origin repository (Honeybee cell.capture receipt).'',
    dInputs =
      [input_spec ''targetBranch'' True ''Branch in the origin to land onto (created if absent).'',
       input_spec ''mode'' False ''merge|rebase (default merge).'',
       input_spec ''commit'' False ''The commit expected at the Cell HEAD (usually a $ref to a predecessor's commitSha); revalidated before the effect.''],
    dOutputs =
      [output_spec ''resultSha'' True (Some SHA_PATTERN) ''The commit the target branch points at after landing.'',
       output_spec ''targetBranch'' True (Some BRANCH_PATTERN) ''The branch that was landed onto.'',
       output_spec ''cellHead'' True (Some SHA_PATTERN) ''The Cell HEAD that was captured.'',
       output_spec ''alreadyLanded'' False None ''True when the target already contained the Cell HEAD (nothing_to_capture).''],
    dInstruction = None\<rparr>,
   \<lparr>dKind = ''land'',
    dVersion = 2,
    dExecutor = XExternal,
    dTitle = ''Land'',
    dDescription = ''Land committed Cell work through Apiary's destination landing queue.'',
    dInputs =
      [input_spec ''destination'' True ''Pinned destination {nodeId, root, branch}; executed by that Apiary workstation.'',
       input_spec ''commit'' False ''Expected source HEAD, optionally a predecessor commitSha reference.''],
    dOutputs =
      [output_spec ''resultSha'' True (Some SHA_PATTERN) ''Durably integrated result commit.'',
       output_spec ''targetBranch'' True (Some BRANCH_PATTERN) ''Destination branch.'',
       output_spec ''cellHead'' True (Some SHA_PATTERN) ''Pinned source commit.''],
    dInstruction = None\<rparr>,
   \<lparr>dKind = ''archive'',
    dVersion = 1,
    dExecutor = XLifecycleArchive,
    dTitle = ''Archive'',
    dDescription = ''Archive the bee (lifecycle active '' @ right_arrow @ '' archived) once its predecessors succeeded.'',
    dInputs = [],
    dOutputs = [output_spec ''archivedAt'' True None ''When the bee was archived.''],
    dInstruction = None\<rparr>,
   \<lparr>dKind = ''push'',
    dVersion = 1,
    dExecutor = XExternal,
    dTitle = ''Push'',
    dDescription = ''Push the branch to its remote (external executor: Apiary's git owner).'',
    dInputs =
      [input_spec ''branch'' False ''Branch to push (default: the bee's current branch).'',
       input_spec ''remote'' False ''Remote name (default origin).''],
    dOutputs =
      [output_spec ''remote'' False None ''Remote pushed to.'',
       output_spec ''branch'' False (Some BRANCH_PATTERN) ''Branch pushed.'',
       output_spec ''sha'' False (Some SHA_PATTERN) ''Remote tip after the push.''],
    dInstruction = None\<rparr>,
   \<lparr>dKind = ''open_pr'',
    dVersion = 1,
    dExecutor = XExternal,
    dTitle = ''Open PR'',
    dDescription = ''Open a pull request for the branch (external executor: Apiary's GitHub owner).'',
    dInputs =
      [input_spec ''branch'' False ''Head branch (default: the bee's current branch).'',
       input_spec ''base'' False ''Base branch.'',
       input_spec ''title'' False ''PR title.'',
       input_spec ''body'' False ''PR body.''],
    dOutputs =
      [output_spec ''prUrl'' True None ''URL of the opened pull request.'',
       output_spec ''prNumber'' False None ''Pull request number.''],
    dInstruction = None\<rparr>]\<close>

definition findActionDefinition :: "string \<Rightarrow> nat option \<Rightarrow> action_definition option" where
  "findActionDefinition kind version =
     (case filter (\<lambda>d. dKind d = kind) BUILTIN_ACTION_DEFINITIONS of
        [] \<Rightarrow> None
      | c # cs \<Rightarrow>
          (case version of
             None \<Rightarrow>
               if kind = ''land'' then List.find (\<lambda>d. dVersion d = 1) (c # cs)
               else Some (foldl (\<lambda>a b. if dVersion a < dVersion b then b else a) c cs)
           | Some v \<Rightarrow> List.find (\<lambda>d. dVersion d = v) (c # cs)))"

definition actionTransitionLegal :: "action_status \<Rightarrow> action_status \<Rightarrow> bool" where
  "actionTransitionLegal from to \<longleftrightarrow> from = to \<or> to \<in> set (ACTION_TRANSITIONS from)"

section \<open>References between actions\<close>

text \<open>\<open>{$ref: {action, output}}\<close>: the pair it names.\<close>

definition actionOutputRef :: "json \<Rightarrow> (string \<times> string) option" where
  "actionOutputRef value =
     (case value of
        JObj obj \<Rightarrow>
          (case js_get obj ''$ref'' of
             Some (JObj r) \<Rightarrow>
               (case (js_get r ''action'', js_get r ''output'') of
                  (Some (JStr a), Some (JStr out)) \<Rightarrow> if a \<noteq> [] \<and> out \<noteq> [] then Some (a, out) else None
                | _ \<Rightarrow> None)
           | _ \<Rightarrow> None)
      | _ \<Rightarrow> None)"

definition isActionOutputRef :: "json \<Rightarrow> bool" where
  "isActionOutputRef value \<longleftrightarrow> actionOutputRef value \<noteq> None"

text \<open>\<open>{$ref: {item, output}}\<close>: a reference to another item of the same request.\<close>

definition actionItemRef :: "json \<Rightarrow> (nat \<times> string) option" where
  "actionItemRef value =
     (case value of
        JObj obj \<Rightarrow>
          (case js_get obj ''$ref'' of
             Some (JObj r) \<Rightarrow>
               (case (js_get r ''item'', js_get r ''output'') of
                  (Some (JNum i), Some (JStr out)) \<Rightarrow> if 0 \<le> i \<and> out \<noteq> [] then Some (nat i, out) else None
                | _ \<Rightarrow> None)
           | _ \<Rightarrow> None)
      | _ \<Rightarrow> None)"

definition isActionItemRef :: "json \<Rightarrow> bool" where
  "isActionItemRef value \<longleftrightarrow> actionItemRef value \<noteq> None"

text \<open>The value the code writes for a rewritten item reference.\<close>

definition outputRefValue :: "string \<Rightarrow> string \<Rightarrow> json" where
  "outputRefValue a out = JObj [(''$ref'', JObj [(''action'', JStr a), (''output'', JStr out)])]"

definition actionRefTargets :: "jobject \<Rightarrow> (string \<times> string \<times> string) list" where
  "actionRefTargets inputs =
     concat (map (\<lambda>(name, value). case actionOutputRef value of
                                    Some (a, out) \<Rightarrow> [(name, a, out)]
                                  | None \<Rightarrow> []) inputs)"

datatype ref_refusal = MissingAction | NotSucceeded | MissingOutput

datatype resolve_result = Resolved jobject | Unresolved string string string ref_refusal

fun resolveFrom :: "(string \<Rightarrow> action_row option) \<Rightarrow> jobject \<Rightarrow> jobject \<Rightarrow> resolve_result" where
  "resolveFrom lookup resolved [] = Resolved resolved"
| "resolveFrom lookup resolved ((name, value) # rest) =
     (case actionOutputRef value of
        None \<Rightarrow> resolveFrom lookup (js_set resolved name value) rest
      | Some (a, out) \<Rightarrow>
          (case lookup a of
             None \<Rightarrow> Unresolved name a out MissingAction
           | Some target \<Rightarrow>
               (case (aStatus target, aResult target) of
                  (ASucceeded, Some res) \<Rightarrow>
                    (if \<not> js_in out (arOutputs res) then Unresolved name a out MissingOutput
                     else resolveFrom lookup (js_set resolved name (the (js_get (arOutputs res) out))) rest)
                | _ \<Rightarrow> Unresolved name a out NotSucceeded)))"

definition resolveActionInputs :: "jobject \<Rightarrow> (string \<Rightarrow> action_row option) \<Rightarrow> resolve_result" where
  "resolveActionInputs inputs lookup = resolveFrom lookup [] inputs"

section \<open>Outputs\<close>

datatype output_refusal = OutMissing | OutNotString | OutPattern

definition pattern_test :: "output_pattern \<Rightarrow> string \<Rightarrow> bool" where
  "pattern_test p s =
     (case p of
        SHA_PATTERN \<Rightarrow> 7 \<le> length s \<and> length s \<le> 64 \<and> list_all (\<lambda>c. c \<in> set ''0123456789abcdef'') s
      | BRANCH_PATTERN \<Rightarrow> s \<noteq> [] \<and> list_all (\<lambda>c. c \<notin> set (''~^:?*['' @ [CHR 0x5C])) s \<and> \<not> has_white s)"

definition checkOutputSpec :: "jobject \<Rightarrow> action_output_spec \<Rightarrow> (string \<times> output_refusal) option" where
  "checkOutputSpec outputs spec =
     (let value = js_get outputs (osName spec)
      in if is_undef_or_null value then (if osRequired spec then Some (osName spec, OutMissing) else None)
         else
           (case osPattern spec of
              None \<Rightarrow> None
            | Some p \<Rightarrow>
                (case value of
                   Some (JStr s) \<Rightarrow> if pattern_test p s then None else Some (osName spec, OutPattern)
                 | _ \<Rightarrow> Some (osName spec, OutNotString))))"

definition checkExtraOutput :: "jobject \<Rightarrow> string \<Rightarrow> (string \<times> output_refusal) option" where
  "checkExtraOutput outputs name =
     (let value = js_get outputs name
      in if is_undef_or_null value \<or> value = Some (JStr []) then Some (name, OutMissing) else None)"

definition first_some :: "('a \<Rightarrow> 'b option) \<Rightarrow> 'a list \<Rightarrow> 'b option" where
  "first_some f xs = (case List.find (\<lambda>x. f x \<noteq> None) xs of Some x \<Rightarrow> f x | None \<Rightarrow> None)"

text \<open>\<open>None\<close> is \<open>{ok: true}\<close>; otherwise the output that was refused first and why.\<close>

definition validateActionOutputs ::
  "action_definition \<Rightarrow> jobject \<Rightarrow> string list \<Rightarrow> (string \<times> output_refusal) option" where
  "validateActionOutputs d outputs extraRequired =
     (case first_some (checkOutputSpec outputs) (dOutputs d) of
        Some e \<Rightarrow> Some e
      | None \<Rightarrow> first_some (checkExtraOutput outputs) extraRequired)"

definition requestedOutputNames :: "jobject \<Rightarrow> string list" where
  "requestedOutputNames inputs =
     (case js_get inputs ''outputs'' of
        Some (JArr vs) \<Rightarrow> concat (map (\<lambda>v. case v of JStr s \<Rightarrow> if s = [] then [] else [s] | _ \<Rightarrow> []) vs)
      | _ \<Rightarrow> [])"

section \<open>What the agent reads\<close>

definition actionReportCommand :: "string \<Rightarrow> nat \<Rightarrow> string \<Rightarrow> string" where
  "actionReportCommand actionId attempt token =
     ''hive action report '' @ actionId @ '' --attempt '' @ nat_text attempt @ '' --token '' @ token"

definition actionOutputList :: "action_definition \<Rightarrow> jobject \<Rightarrow> (string \<times> bool \<times> string) list" where
  "actionOutputList d resolved =
     map (\<lambda>s. (osName s, osRequired s, osDescription s)) (dOutputs d)
     @ map (\<lambda>name. (name, True, '''')) (requestedOutputNames resolved)"

definition requiredOutputFlags :: "(string \<times> bool \<times> string) list \<Rightarrow> string" where
  "requiredOutputFlags outputs =
     concat (map (\<lambda>(n, req, d). '' --output '' @ n @ ''=<'' @ n @ ''>'') (filter (\<lambda>(n, req, d). req) outputs))"

definition js_string_or_json :: "json \<Rightarrow> string" where
  "js_string_or_json v = (case v of JStr s \<Rightarrow> s | _ \<Rightarrow> json_text v)"

definition js_trimmed_string :: "jobject \<Rightarrow> string \<Rightarrow> string" where
  "js_trimmed_string obj k = (case js_get obj k of Some (JStr s) \<Rightarrow> js_trim s | _ \<Rightarrow> '''')"

definition renderActionInstruction :: "action_row \<Rightarrow> jobject \<Rightarrow> string \<Rightarrow> nat \<Rightarrow> string" where
  \<open>renderActionInstruction action resolved token attempt =
     (let def = aDefinition action;
          extra = js_trimmed_string resolved ''instruction'';
          message = js_trimmed_string resolved ''message'';
          contextual = filter (\<lambda>(k, v). k \<notin> set [''instruction'', ''message'', ''urgency'', ''outputs'', ''title'']) resolved;
          outputs = actionOutputList def resolved;
          base = actionReportCommand (aId action) attempt token
      in join_with NL
           ([ACTION_DISPATCH_MARKER @ '' '' @ dTitle def @ '' '' @ em_dash @ '' action '' @ aId action
               @ '', attempt '' @ nat_text attempt, '''']
            @ (case dInstruction def of Some i \<Rightarrow> if i = [] then [] else [i] | None \<Rightarrow> [])
            @ (if extra = [] then [] else ['''', extra])
            @ (if message = [] then [] else ['''', ''Suggested commit message: '' @ message])
            @ (if contextual = [] then []
               else ['''', ''Inputs:''] @ map (\<lambda>(k, v). ''- '' @ k @ '': '' @ js_string_or_json v) contextual)
            @ ['''',
               ''When you are done, report the outcome with the hive CLI. Finishing your turn does NOT complete this action; only the report does:'',
               ''  '' @ base @ '' --succeeded'' @ requiredOutputFlags outputs,
               ''  '' @ base @ '' --failed --detail "<why>"'',
               ''  '' @ base @ '' --ask "<question for the operator>"    (holds the queue until answered; the answer arrives as mail)'',
               ''  '' @ base @ '' --progress "<short status>"'']
            @ (if outputs = [] then []
               else ['''', ''Outputs:'']
                 @ map (\<lambda>(n, req, d). ''- '' @ n @ (if req then '' (required)'' else '''')
                                       @ (if d = [] then '''' else '': '' @ d)) outputs)
            @ ['''', ''Queued actions after this one wait for your report; do not start them yourself.'']))\<close>

definition renderActionNudge :: "action_row \<Rightarrow> string \<Rightarrow> nat \<Rightarrow> string" where
  \<open>renderActionNudge action token attempt =
     (let base = actionReportCommand (aId action) attempt token;
          outputs = actionOutputList (aDefinition action)
                      (case aResolvedInputs action of Some r \<Rightarrow> r | None \<Rightarrow> aInputs action)
      in join_with NL
           [ACTION_DISPATCH_MARKER @ '' Reminder '' @ em_dash @ '' '' @ dTitle (aDefinition action) @ '' '' @ em_dash
              @ '' action '' @ aId action @ '', attempt '' @ nat_text attempt,
            '''',
            ''This action is still open and is holding the queue: the actions queued after it cannot start until you report it.'',
            '''',
            ''If you already did the work, report it now:'',
            ''  '' @ base @ '' --succeeded'' @ requiredOutputFlags outputs,
            ''Otherwise finish the work and then report it the same way. If you cannot do it, report the failure:'',
            ''  '' @ base @ '' --failed --detail "<why>"''])\<close>

definition ACTION_NUDGE_AFTER_MS :: "string \<Rightarrow> int option" where
  "ACTION_NUDGE_AFTER_MS kind = (if kind = ''commit'' then Some (30 * 60000) else None)"

definition actionNudgeDueAt :: "action_row \<Rightarrow> int list \<Rightarrow> int option" where
  "actionNudgeDueAt row signsOfLife =
     (case ACTION_NUDGE_AFTER_MS (aKind row) of
        None \<Rightarrow> None
      | Some after \<Rightarrow>
          if aExecutor row \<noteq> XAgent \<or> aStatus row \<noteq> ARunning then None
          else
            (case aDispatch row of
               None \<Rightarrow> None
             | Some dispatch \<Rightarrow>
                 if dpAttempt dispatch \<noteq> aAttempt row \<or> dpNudgedAt dispatch \<noteq> None then None
                 else
                   (case dpDeliveredAt dispatch of
                      None \<Rightarrow> None
                    | Some delivered \<Rightarrow>
                        let last = (case aProgress row of
                                      Some p \<Rightarrow> if apAttempt p = aAttempt row then max delivered (apAt p) else delivered
                                    | None \<Rightarrow> delivered)
                        in Some (foldl max last signsOfLife + after))))"

section \<open>Holds, controls and views\<close>

definition actionIsActive :: "action_row \<Rightarrow> bool" where
  "actionIsActive row \<longleftrightarrow> aStatus row = ARunning \<or> aStatus row = AWaiting"

fun predecessorFrom :: "action_row \<Rightarrow> action_row option \<Rightarrow> action_row list \<Rightarrow> action_row option" where
  "predecessorFrom row best [] = best"
| "predecessorFrom row best (other # lane) =
     (if aId other = aId row \<or> aBeeId other \<noteq> aBeeId row then predecessorFrom row best lane
      else if aPosition other \<ge> aPosition row \<or> aStatus other = ACancelled then predecessorFrom row best lane
      else if (case best of None \<Rightarrow> True | Some b \<Rightarrow> aPosition other > aPosition b)
      then predecessorFrom row (Some other) lane
      else predecessorFrom row best lane)"

definition actionPredecessor :: "action_row \<Rightarrow> action_row list \<Rightarrow> action_row option" where
  "actionPredecessor row lane = predecessorFrom row None lane"

text \<open>The queue argument is the flag \<open>paused\<close> of the queue row, or \<open>None\<close> when there is no row.\<close>

definition queuePaused :: "bool option \<Rightarrow> bool" where
  "queuePaused queue \<longleftrightarrow> queue = Some True"

definition holdOf :: "action_hold_reason \<Rightarrow> action_row \<Rightarrow> action_hold" where
  "holdOf reason a = \<lparr>hReason = reason, hActionId = Some (aId a), hActionStatus = Some (aStatus a)\<rparr>"

definition actionHold :: "action_row option \<Rightarrow> action_row option \<Rightarrow> bool option \<Rightarrow> action_hold option" where
  "actionHold pred active queue =
     (case pred of
        Some p \<Rightarrow>
          if aStatus p = AFailed then Some (holdOf HPredecessorFailed p)
          else if aStatus p \<noteq> ASucceeded then Some (holdOf HPredecessorActive p)
          else if queuePaused queue then Some \<lparr>hReason = HPaused, hActionId = None, hActionStatus = None\<rparr>
          else map_option (holdOf HLaneBusy) active
      | None \<Rightarrow>
          if queuePaused queue then Some \<lparr>hReason = HPaused, hActionId = None, hActionStatus = None\<rparr>
          else map_option (holdOf HLaneBusy) active)"

definition deriveActionHold :: "action_row \<Rightarrow> action_row list \<Rightarrow> bool option \<Rightarrow> action_hold option" where
  "deriveActionHold row lane queue =
     (if aStatus row \<noteq> AQueued then None
      else
        let pred = actionPredecessor row lane;
            active = (if pred = None \<or> aStatus (the pred) = ASucceeded
                      then (if queuePaused queue then None
                            else List.find (\<lambda>x. aId x \<noteq> aId row \<and> actionIsActive x) lane)
                      else None)
        in actionHold pred active queue)"

definition deriveActionControls :: "action_row \<Rightarrow> action_controls" where
  "deriveActionControls row =
     (let undeliveredAgent = (aExecutor row = XAgent \<and> aStatus row = ARunning
                              \<and> Option.bind (aDispatch row) dpDeliveredAt = None);
          unclaimedExternal = (aExecutor row = XExternal \<and> aStatus row = AWaiting
                               \<and> aWaitingReason row = Some WExecutor
                               \<and> Option.bind (aDispatch row) dpClaimedBy = None);
          cancel = (aStatus row = AQueued \<or> aStatus row = AFailed \<or> undeliveredAgent \<or> unclaimedExternal)
      in \<lparr>kCancel = cancel,
          kForceCancel = (\<not> cancel \<and> actionIsActive row \<and> aExecutor row \<noteq> XLifecycleArchive),
          kRetry = (aStatus row = AFailed),
          kForceRetry = (aStatus row = AWaiting \<and> aWaitingReason row = Some WUncertain),
          kReorder = (aStatus row = AQueued),
          kComplete = (aExecutor row = XAgent
                       \<and> (aStatus row = ARunning \<or> aStatus row = AFailed
                          \<or> (aStatus row = AWaiting \<and> aWaitingReason row = Some WInput)))\<rparr>)"

definition actionViewWithHold :: "action_row \<Rightarrow> action_hold option \<Rightarrow> action_view" where
  "actionViewWithHold row hold =
     \<lparr>vRow = row\<lparr>aAttemptToken := None, aEnqueueKey := [], aDispatchMessageId := None, aOperationKey := None\<rparr>,
      vHold = hold,
      vControls = deriveActionControls row\<rparr>"

definition toActionView :: "action_row \<Rightarrow> action_row list \<Rightarrow> bool option \<Rightarrow> action_view" where
  "toActionView row lane queue = actionViewWithHold row (deriveActionHold row lane queue)"

text \<open>
  One pass over a selection: the cursor into the lane is the part of the lane not yet passed, and
  \<open>pred\<close> the last row passed that is not cancelled.
\<close>

fun advanceCursor :: "action_row \<Rightarrow> action_row list \<Rightarrow> action_row option \<Rightarrow> action_row list \<times> action_row option" where
  "advanceCursor row [] pred = ([], pred)"
| "advanceCursor row (previous # lane) pred =
     (if aPosition previous \<ge> aPosition row then (previous # lane, pred)
      else advanceCursor row lane (if aStatus previous \<noteq> ACancelled then Some previous else pred))"

fun viewsFrom ::
  "action_row option \<Rightarrow> bool option \<Rightarrow> action_row list \<Rightarrow> action_row option \<Rightarrow> action_row list \<Rightarrow> action_view list" where
  "viewsFrom active queue lane pred [] = []"
| "viewsFrom active queue lane pred (row # rows) =
     (if aStatus row \<noteq> AQueued then actionViewWithHold row None # viewsFrom active queue lane pred rows
      else
        let (lane', pred') = advanceCursor row lane pred
        in actionViewWithHold row (actionHold pred' active queue) # viewsFrom active queue lane' pred' rows)"

definition toActionViews :: "action_row list \<Rightarrow> action_row list \<Rightarrow> bool option \<Rightarrow> action_view list" where
  "toActionViews rows lane queue =
     (let active = (if \<not> queuePaused queue \<and> list_ex (\<lambda>row. aStatus row = AQueued) rows
                    then List.find actionIsActive lane else None)
      in viewsFrom active queue lane None rows)"

definition toActionQueueView :: "action_queue_row \<Rightarrow> action_queue_view" where
  "toActionQueueView row = qrwView row"

definition emptyActionCounts :: action_counts where
  "emptyActionCounts = \<lparr>nQueued = 0, nRunning = 0, nWaiting = 0, nSucceeded = 0, nFailed = 0, nCancelled = 0\<rparr>"

definition actionOperationKey :: "string \<Rightarrow> nat \<Rightarrow> string" where
  "actionOperationKey actionId attempt = ''action:'' @ actionId @ '':a'' @ nat_text attempt"

definition executorIsInternal :: "action_executor \<Rightarrow> bool" where
  "executorIsInternal executor \<longleftrightarrow> executor = XAgent \<or> executor = XCellCapture \<or> executor = XLifecycleArchive"

section \<open>The lane in position order\<close>

text \<open>
  What the store hands to the projection: the lane of one bee in increasing position, ids distinct.
\<close>

definition ordered_lane :: "action_row list \<Rightarrow> bool" where
  "ordered_lane lane \<longleftrightarrow>
     sorted_wrt (\<lambda>a b. aPosition a < aPosition b) lane \<and> distinct (map aId lane)
     \<and> (\<forall>a \<in> set lane. \<forall>b \<in> set lane. aBeeId a = aBeeId b)"

definition before_row :: "action_row \<Rightarrow> action_row \<Rightarrow> bool" where
  "before_row row a \<longleftrightarrow> aPosition a < aPosition row \<and> aStatus a \<noteq> ACancelled"

definition last_or :: "'a option \<Rightarrow> 'a list \<Rightarrow> 'a option" where
  "last_or d xs = (if xs = [] then d else Some (last xs))"

lemma last_or_Nil [simp]: "last_or d [] = d"
  by (simp add: last_or_def)

lemma last_or_Cons [simp]: "last_or d (x # xs) = last_or (Some x) xs"
  by (simp add: last_or_def)

lemma predecessorFrom_sorted:
  assumes "sorted_wrt (\<lambda>a b. aPosition a < aPosition b) lane"
    and "list_all (\<lambda>a. aBeeId a = aBeeId row) lane"
    and "list_all (\<lambda>a. aId a = aId row \<longrightarrow> aPosition a \<ge> aPosition row) lane"
    and "pred_option (\<lambda>b. list_all (\<lambda>a. aPosition b < aPosition a) lane) best"
  shows "predecessorFrom row best lane = last_or best (filter (before_row row) lane)"
  using assms
proof (induction lane arbitrary: best)
  case Nil
  then show ?case by simp
next
  case (Cons other lane)
  have t1: "predecessorFrom row best lane = last_or best (filter (before_row row) lane)"
    by (rule Cons.IH) (use Cons.prems in \<open>simp_all, cases best, simp_all\<close>)
  have t2: "predecessorFrom row (Some other) lane = last_or (Some other) (filter (before_row row) lane)"
    by (rule Cons.IH) (use Cons.prems in \<open>simp_all add: list_all_iff\<close>)
  have later: "case best of None \<Rightarrow> True | Some b \<Rightarrow> aPosition b < aPosition other"
    using Cons.prems(4) by (cases best) simp_all
  show ?case
    using Cons.prems(2,3) by (auto simp: later before_row_def [of row other] t1 t2)
qed

lemma actionPredecessor_ordered:
  assumes "ordered_lane lane" and "row \<in> set lane"
  shows "actionPredecessor row lane = last_or None (filter (before_row row) lane)"
  unfolding actionPredecessor_def
proof (rule predecessorFrom_sorted)
  show "sorted_wrt (\<lambda>a b. aPosition a < aPosition b) lane"
    using assms by (simp add: ordered_lane_def)
  show "list_all (\<lambda>a. aBeeId a = aBeeId row) lane"
    using assms unfolding ordered_lane_def list_all_iff by blast
  show "list_all (\<lambda>a. aId a = aId row \<longrightarrow> aPosition a \<ge> aPosition row) lane"
    using assms unfolding ordered_lane_def list_all_iff distinct_map inj_on_def by blast
qed simp

lemma filter_before_none:
  assumes "\<forall>x \<in> set lane. aPosition a < aPosition x" and "\<not> aPosition a < aPosition row"
  shows "filter (before_row row) lane = []"
    and "takeWhile (\<lambda>a. aPosition a < aPosition row) lane = []"
proof -
  show "filter (before_row row) lane = []"
    unfolding filter_empty_conv
  proof
    fix x assume "x \<in> set lane"
    then have "aPosition a < aPosition x" using assms(1) by blast
    then show "\<not> before_row row x" using assms(2) by (simp add: before_row_def)
  qed
  show "takeWhile (\<lambda>a. aPosition a < aPosition row) lane = []"
    using assms by (cases lane) simp_all
qed

lemma advanceCursor_sorted:
  assumes "sorted_wrt (\<lambda>a b. aPosition a < aPosition b) lane"
  shows "advanceCursor row lane pred =
    (dropWhile (\<lambda>a. aPosition a < aPosition row) lane, last_or pred (filter (before_row row) lane))"
  using assms
proof (induction row lane pred rule: advanceCursor.induct)
  case (2 row previous lane pred)
  show ?case
  proof (cases "aPosition previous < aPosition row")
    case True
    then show ?thesis using 2 by (simp add: before_row_def [of row previous])
  next
    case False
    then show ?thesis using 2 filter_before_none(1) [of lane previous row] by (simp add: before_row_def [of row previous])
  qed
qed simp

lemma active_other_than_queued:
  assumes "ordered_lane lane" and "row \<in> set lane" and "aStatus row = AQueued"
  shows "List.find (\<lambda>x. aId x \<noteq> aId row \<and> actionIsActive x) lane = List.find actionIsActive lane"
proof (rule find_cong)
  show "(aId x \<noteq> aId row \<and> actionIsActive x) = actionIsActive x" if "x \<in> set lane" for x
  proof -
    have "x = row" if "aId x = aId row"
      using assms \<open>x \<in> set lane\<close> that unfolding ordered_lane_def distinct_map inj_on_def by blast
    then show ?thesis using assms by (auto simp: actionIsActive_def)
  qed
qed simp

lemma actionHold_active_irrelevant:
  assumes "queuePaused queue \<or> (pred \<noteq> None \<and> aStatus (the pred) \<noteq> ASucceeded)"
  shows "actionHold pred active queue = actionHold pred active' queue"
  using assms by (cases pred) (auto simp: actionHold_def)

lemma deriveActionHold_ordered:
  assumes "ordered_lane lane" and "row \<in> set lane" and "aStatus row = AQueued"
  shows "deriveActionHold row lane queue =
    actionHold (last_or None (filter (before_row row) lane)) (List.find actionIsActive lane) queue"
proof -
  let ?p = "last_or None (filter (before_row row) lane)"
  have unfolded: "deriveActionHold row lane queue =
      actionHold ?p (if ?p = None \<or> aStatus (the ?p) = ASucceeded
                     then (if queuePaused queue then None else List.find actionIsActive lane) else None) queue"
    using assms by (simp only: deriveActionHold_def actionPredecessor_ordered active_other_than_queued Let_def
        simp_thms if_False)
  show ?thesis
  proof (cases "(?p = None \<or> aStatus (the ?p) = ASucceeded) \<and> \<not> queuePaused queue")
    case True
    then show ?thesis unfolding unfolded by simp
  next
    case False
    then show ?thesis unfolding unfolded by (intro actionHold_active_irrelevant) argo
  qed
qed

lemma last_or_append: "last_or d (xs @ ys) = last_or (last_or d xs) ys"
  by (simp add: last_or_def)

lemma filter_before_takeWhile:
  assumes "sorted_wrt (\<lambda>a b. aPosition a < aPosition b) lane"
  shows "filter (before_row row) lane =
    filter (\<lambda>a. aStatus a \<noteq> ACancelled) (takeWhile (\<lambda>a. aPosition a < aPosition row) lane)"
  using assms
proof (induction lane)
  case (Cons a lane)
  show ?case
  proof (cases "aPosition a < aPosition row")
    case True
    then show ?thesis using Cons by (simp add: before_row_def [of row a])
  next
    case False
    then show ?thesis
      using Cons.prems filter_before_none [of lane a row] by (simp add: before_row_def [of row a])
  qed
qed simp

lemma filter_before_later:
  assumes "sorted_wrt (\<lambda>a b. aPosition a < aPosition b) lane" and "aPosition row \<le> aPosition row2"
  shows "filter (before_row row2) (takeWhile (\<lambda>a. aPosition a < aPosition row) lane) = filter (before_row row) lane"
  unfolding filter_before_takeWhile [OF assms(1)]
proof (rule filter_cong)
  fix x assume "x \<in> set (takeWhile (\<lambda>a. aPosition a < aPosition row) lane)"
  then have "aPosition x < aPosition row" by (rule set_takeWhileD [THEN conjunct2])
  then show "before_row row2 x = (aStatus x \<noteq> ACancelled)" using assms(2) by (simp add: before_row_def)
qed simp

lemma cursor_invariant:
  assumes "sorted_wrt (\<lambda>a b. aPosition a < aPosition b) lane" and "aPosition row \<le> aPosition row2"
  shows "last_or (last_or pred (filter (before_row row) lane))
           (filter (before_row row2) (dropWhile (\<lambda>a. aPosition a < aPosition row) lane))
         = last_or pred (filter (before_row row2) lane)"
proof -
  have "filter (before_row row2) lane =
      filter (before_row row2) (takeWhile (\<lambda>a. aPosition a < aPosition row) lane)
      @ filter (before_row row2) (dropWhile (\<lambda>a. aPosition a < aPosition row) lane)"
    by (simp flip: filter_append)
  then show ?thesis by (simp add: filter_before_later [OF assms] last_or_append)
qed

lemma viewsFrom_sorted:
  assumes "sorted_wrt (\<lambda>a b. aPosition a < aPosition b) lane" and "sorted (map aPosition rows)"
  shows "viewsFrom active queue lane pred rows =
    map (\<lambda>row. actionViewWithHold row
           (if aStatus row \<noteq> AQueued then None
            else actionHold (last_or pred (filter (before_row row) lane)) active queue)) rows"
  using assms
proof (induction rows arbitrary: lane pred)
  case (Cons row rows)
  let ?lane' = "dropWhile (\<lambda>a. aPosition a < aPosition row) lane"
  let ?pred' = "last_or pred (filter (before_row row) lane)"
  have sub: "sorted_wrt (\<lambda>a b. aPosition a < aPosition b) ?lane'"
    using Cons.prems(1) by (metis sorted_wrt_append takeWhile_dropWhile_id)
  have moved: "last_or ?pred' (filter (before_row r) ?lane') = last_or pred (filter (before_row r) lane)"
    if "r \<in> set rows" for r
    using Cons.prems that by (intro cursor_invariant) simp_all
  have rest: "viewsFrom active queue ?lane' ?pred' rows =
      map (\<lambda>row. actionViewWithHold row
           (if aStatus row \<noteq> AQueued then None
            else actionHold (last_or pred (filter (before_row row) lane)) active queue)) rows"
    unfolding Cons.IH [OF sub sorted_wrt.simps(2) [THEN iffD1, THEN conjunct2,
        OF Cons.prems(2) [unfolded list.map]]]
    by (rule map_cong) (simp_all add: moved)
  show ?case
    using Cons.prems Cons.IH [OF Cons.prems(1)] by (simp add: advanceCursor_sorted rest)
qed simp

section \<open>Sample rows\<close>

text \<open>Concrete rows, at which the properties are instantiated.\<close>

definition sampleAction :: "string \<Rightarrow> int \<Rightarrow> action_status \<Rightarrow> action_row" where
  "sampleAction i p st =
     \<lparr>aId = i, aBeeId = ''bee1'', aPosition = p, aClientRef = None, aKind = ''commit'', aDefinitionVersion = 1,
      aExecutor = XAgent, aTitle = ''Commit'', aDefinition = hd BUILTIN_ACTION_DEFINITIONS, aInputs = [],
      aResolvedInputs = None, aStatus = st, aWaitingReason = None, aWaitingDetail = None,
      aAttempt = (if st = AQueued then 0 else 1), aDispatch = None, aProgress = None, aQuestionId = None,
      aResult = (if st = ASucceeded then Some \<lparr>arOutputs = [(''commitSha'', JStr ''0123abc'')], arReceipt = None,
                   arDetail = None, arReconciled = False, arAttempt = 1, arAt = 900\<rparr> else None),
      aFailure = None, aAttempts = [], aCreatedAt = 500, aUpdatedAt = 900, aFinishedAt = None,
      aEnqueueKey = ''key1'', aAttemptToken = (if st = ARunning then Some ''tok1'' else None),
      aDispatchMessageId = None, aOperationKey = None\<rparr>"

definition sampleLane :: "action_row list" where
  "sampleLane = [sampleAction ''a1'' 1 ASucceeded, sampleAction ''a2'' 2 ARunning, sampleAction ''a3'' 3 AQueued]"

text \<open>
  C17. The projection of a whole selection of a bee's actions (one pass over the lane with a cursor)
  is the projection of each action against the lane: for a lane in position order and any selection
  of its rows in position order, toActionViews and toActionView give the same holds and controls.
\<close>

theorem toActionViews_correct:
  assumes "ordered_lane lane" and "sorted (map aPosition rows)" and "set rows \<subseteq> set lane"
  shows "toActionViews rows lane queue = map (\<lambda>row. toActionView row lane queue) rows"
proof -
  let ?active = "if \<not> queuePaused queue \<and> list_ex (\<lambda>row. aStatus row = AQueued) rows
                 then List.find actionIsActive lane else None"
  have strict: "sorted_wrt (\<lambda>a b. aPosition a < aPosition b) lane"
    using assms(1) by (simp add: ordered_lane_def)
  have one: "actionViewWithHold row (if aStatus row \<noteq> AQueued then None
       else actionHold (last_or None (filter (before_row row) lane)) ?active queue) = toActionView row lane queue"
    if "row \<in> set rows" for row
  proof (cases "aStatus row = AQueued")
    case True
    then have "list_ex (\<lambda>row. aStatus row = AQueued) rows"
      using that by (auto simp only: list_ex_iff)
    moreover have "row \<in> set lane" using that assms(3) by blast
    ultimately show ?thesis
      using True deriveActionHold_ordered [OF assms(1) \<open>row \<in> set lane\<close> True, of queue]
        actionHold_active_irrelevant [of queue _ None "List.find actionIsActive lane"]
      by (cases "queuePaused queue") (simp_all add: toActionView_def)
  next
    case False
    then show ?thesis by (simp add: toActionView_def deriveActionHold_def)
  qed
  show ?thesis
    unfolding toActionViews_def Let_def viewsFrom_sorted [OF strict assms(2)]
    by (rule map_cong [OF refl one])
qed

theorem toActionViews_correct_witness:
  "toActionViews (tl sampleLane) sampleLane (Some True) = map (\<lambda>row. toActionView row sampleLane (Some True)) (tl sampleLane)
   \<and> map vHold (toActionViews (tl sampleLane) sampleLane (Some True))
       = [None, Some \<lparr>hReason = HPredecessorActive, hActionId = Some ''a2'', hActionStatus = Some ARunning\<rparr>]"
proof -
  have views: "toActionViews (tl sampleLane) sampleLane (Some True)
      = map (\<lambda>row. toActionView row sampleLane (Some True)) (tl sampleLane)"
    by (rule toActionViews_correct) (simp_all add: sampleLane_def sampleAction_def ordered_lane_def)
  have holds: "map (\<lambda>row. deriveActionHold row sampleLane (Some True)) (tl sampleLane)
      = [None, Some \<lparr>hReason = HPredecessorActive, hActionId = Some ''a2'', hActionStatus = Some ARunning\<rparr>]"
    by code_simp
  have "vHold \<circ> (\<lambda>row. toActionView row sampleLane (Some True)) = (\<lambda>row. deriveActionHold row sampleLane (Some True))"
    by (simp add: fun_eq_iff toActionView_def actionViewWithHold_def)
  then show ?thesis unfolding views using holds by simp
qed

section \<open>Reference resolution\<close>

text \<open>A reference is met when its target succeeded and the result's outputs have the named output.\<close>

definition ref_met :: "(string \<Rightarrow> action_row option) \<Rightarrow> string \<Rightarrow> string \<Rightarrow> bool" where
  "ref_met lookup a out =
     (case lookup a of
        None \<Rightarrow> False
      | Some target \<Rightarrow> aStatus target = ASucceeded
          \<and> (case aResult target of None \<Rightarrow> False | Some res \<Rightarrow> js_in out (arOutputs res)))"

definition ref_value :: "(string \<Rightarrow> action_row option) \<Rightarrow> json \<Rightarrow> json" where
  "ref_value lookup value =
     (case actionOutputRef value of
        None \<Rightarrow> value
      | Some (a, out) \<Rightarrow> the (js_get (arOutputs (the (aResult (the (lookup a))))) out))"

definition refs_met :: "(string \<Rightarrow> action_row option) \<Rightarrow> jobject \<Rightarrow> bool" where
  "refs_met lookup inputs \<longleftrightarrow> list_all (\<lambda>(name, a, out). ref_met lookup a out) (actionRefTargets inputs)"

lemma actionRefTargets_Nil [simp]: "actionRefTargets [] = []"
  by (simp add: actionRefTargets_def)

lemma actionRefTargets_Cons [simp]:
  "actionRefTargets ((name, value) # rest) =
     (case actionOutputRef value of Some (a, out) \<Rightarrow> (name, a, out) # actionRefTargets rest
      | None \<Rightarrow> actionRefTargets rest)"
  by (simp add: actionRefTargets_def split: option.split)

lemma js_set_new: "k \<notin> fst ` set obj \<Longrightarrow> js_set obj k v = obj @ [(k, v)]"
  by (induction obj k v rule: js_set.induct) auto

lemma resolveFrom_distinct:
  assumes "distinct (map fst (acc @ inputs))"
  shows "if refs_met lookup inputs
         then resolveFrom lookup acc inputs = Resolved (acc @ map (\<lambda>(n, v). (n, ref_value lookup v)) inputs)
         else \<exists>n a out why. resolveFrom lookup acc inputs = Unresolved n a out why
              \<and> (n, a, out) \<in> set (actionRefTargets inputs) \<and> \<not> ref_met lookup a out"
  using assms
proof (induction lookup acc inputs rule: resolveFrom.induct)
  case (1 lookup acc)
  then show ?case by (simp add: refs_met_def)
next
  case (2 lookup acc name val rest)
  have new: "js_set acc name v = acc @ [(name, v)]" for v
    using 2(3) by (intro js_set_new) (auto simp: image_iff)
  have dist: "distinct (map fst (js_set acc name v @ rest))" for v
    using 2(3) by (auto simp: new)
  show ?case
  proof (cases "actionOutputRef val")
    case None
    then show ?thesis
      using 2(1) [OF None dist] by (auto simp: refs_met_def new ref_value_def)
  next
    case (Some r)
    obtain a out where r: "actionOutputRef val = Some (a, out)" using Some by (cases r) simp
    show ?thesis
    proof (cases "ref_met lookup a out")
      case False
      obtain why where "resolveFrom lookup acc ((name, val) # rest) = Unresolved name a out why"
      proof (cases "lookup a")
        case None
        then show ?thesis using that r by simp
      next
        case (Some t)
        then show ?thesis
          using that r False
          by (cases "aStatus t"; cases "aResult t") (simp_all add: ref_met_def)
      qed
      then show ?thesis using r False by (simp add: refs_met_def del: resolveFrom.simps)
    next
      case True
      then obtain t res where t: "lookup a = Some t" "aStatus t = ASucceeded" "aResult t = Some res"
          "js_in out (arOutputs res)"
        by (cases "lookup a"; cases "aResult (the (lookup a))") (simp_all add: ref_met_def)
      show ?thesis
        using 2(2) [OF r refl t(1) refl t(2) t(3) _ dist] True t r
        by (auto simp: refs_met_def new ref_value_def)
    qed
  qed
qed



end
