(* ===== verification/Store.thy ===== *)
theory Store
  imports Actions
begin

text \<open>
  The state of the core store (v2/core/src/store.ts, class CoreStore) that the modelled operations
  read or write: the tables as lists of rows in rowid order, the injected clock, random source and
  uuid source, and the audit log with one constructor per audited kind. The clock does not advance
  inside one operation. Then the reads, the mint operations and the mail insert.
\<close>

section \<open>The audit log\<close>

datatype report_kind = RkProgress | RkQuestion | RkResult | RkSettle

datatype reject_reason = RjStaleAttempt | RjUnknownAttempt | RjUnauthorized | RjRefused

text \<open>The events of runtimes, flags, bees and the command queue, and those of fenced executions.\<close>

datatype run_event =
    RvRuntimeCreated runtime_row
  | RvRuntimeStale string nat "nat option" "runtime_state option"
  | RvRuntimeUpdated "runtime_row option" "turn_trigger option"
  | RvSpawnFailures string nat "(nat \<times> exit_cause \<times> string option) option"
  | RvFlagSet flag_row
  | RvFlagCleared nat string flag_name int "string option"
  | RvFlagClearNoop string flag_name
  | RvOutputRecorded string int "int option"
  | RvBeeArgsSet string "string list option" "string list option"
  | RvBeeArchived string int
  | RvBeeRenamed string string string
  | RvBeeTitled string string "string option" string
  | RvBeeTagged string "string list" "string list" "string list" "string list"
  | RvAuthReleased string nat nat string
  | RvBootReconciled "(string \<times> nat) list" "(string \<times> nat \<times> int) list"
  | RvCommandClaimed string nat
  | RvCommandCompleted string nat int
  | RvCommandCompleteNoop string nat
  | RvCommandFailed string nat nat int flag_name
  | RvCommandRequeued string nat nat int "(flag_name \<times> string option) option"
  | RvCommandDeferred string nat "nat option" int
  | RvCommandIdentityPending string nat
  | RvCommandReady string nat "nat option"
  | RvCommandHeld string nat string
  | RvCommandArgs string nat jobject
  | RvPendingStartBound string nat
  | RvLegacyBound
  | RvIdentityUnresolved string nat int

datatype exec_event =
    XvRegistered string nat
  | XvClaimAdvanced string exec_claim
  | XvSpawnUnknown string string
  | XvRefusedAdmission exec_receipt
  | XvAdmitted exec_receipt
  | XvCompletedReplay string nat
  | XvCompleted string string nat
  | XvRefusedStale string string "nat option"
  | XvSpawnPreparationChecked string string string
  | XvStartIntent exec_start
  | XvPreparationChecked string string string
  | XvPreparationSettled string string string bool
  | XvHostDispatch string string
  | XvHostRelease string string exec_process
  | XvAgentStarted string string exec_process exec_process
  | XvStartUnknown string string
  | XvHostExited string string exec_process
  | XvCommandHeld string nat exec_code

datatype admission_event =
    AvReserved admission_row
  | AvBound string string
  | AvConfirmed "string option" string int
  | AvReleased "string option" string int

datatype audit_event =
    EvBeeUnarchived string
  | EvAuthControl string nat
  | EvMailEnqueued message_row mail_origin
  | EvMailCanceled string nat urgency "string option"
  | EvMailExpedited string nat urgency urgency
  | EvWakeFencedByMove string nat string
  | EvWakeFencedByHandoff string nat string
  | EvWakeSuppressed string nat nat
  | EvCommandEnqueued command_row
  | EvCommandDedup string nat string verb command_status
  | EvCommandMoot string nat verb "nat option" nat int string
  | EvMovePhase move_row move_phase
  | EvMoveFailed move_row stage_failure
  | EvHandoffPhase handoff_row handoff_phase
  | EvHandoffFailed handoff_row stage_failure
  | EvAuthInterruptionPut auth_row
  | EvQuotaRecovery quota_row bool
  | EvQuestionAsked question_row
  | EvQuestionAnswered string string string int string nat
  | EvQuestionWithdrawn string string string int
  | EvQuestionDismissed string string int nat
  | EvRun run_event
  | EvExec exec_event
  | EvAdmission admission_event
  | EvTaskPut task_row string
  | EvTaskSupplyPut task_supply_row
  | EvActionPut action_view "action_status option" string
  | EvActionQueuePut action_queue_view string
  | EvActionReportRejected string string nat nat report_kind "string option" "string option" reject_reason

section \<open>The tables\<close>

datatype account_status = AcOk | AcAuthNeeded | AcPaused

record core =
  clock :: int
  rng :: "nat \<Rightarrow> rat"
  rngPos :: nat
  uuids :: "nat \<Rightarrow> string"
  uuidPos :: nat
  backoffBaseMs :: int
  maxAttempts :: nat
  bees :: "bee_row list"
  runtimes :: "runtime_row list"
  observationCursors :: "((string \<times> nat) \<times> int) list"
  flags :: "flag_row list"
  nextFlagId :: nat
  accountStatuses :: "(string \<times> account_status) list"
  humanOutputModes :: "(string \<times> string) list"
  multilineActive :: "(nat \<times> string) list"
  mailbox :: "message_row list"
  nextMessageId :: nat
  mailOrigins :: "(nat \<times> mail_origin) list"
  batchingPolicies :: "(string \<times> bool) list"
  humanReceived :: "(string \<times> int) list"
  confirmationIntents :: "nat list"
  multilines :: "multiline_row list"
  commands :: "command_row list"
  nextCommandId :: nat
  moves :: "move_row list"
  handoffs :: "handoff_row list"
  threads :: "thread_row list"
  authRows :: "auth_row list"
  quotaRows :: "quota_row list"
  executionKey :: "string option"
  effectRows :: "effect_row list"
  rpcResults :: "rpc_result list"
  maxRpcResults :: nat
  ownerStoreId :: string
  coverageId :: string
  execCoordinators :: "(string \<times> nat) list"
  execClaims :: "exec_claim list"
  execTransitions :: "exec_transition list"
  execEffects :: "exec_effect list"
  execRefusals :: "exec_receipt list"
  execBees :: "exec_claim list"
  execStarts :: "exec_start_row list"
  execStartOps :: "exec_start_op list"
  questions :: "question_row list"
  actions :: "action_row list"
  actionQueues :: "action_queue_db list"
  actionEnqueues :: "action_enqueue_row list"
  tasks :: "task_row list"
  taskSupplies :: "task_supply_row list"
  admissions :: "admission_row list"
  auditLog :: "audit_event list"

section \<open>Errors\<close>

text \<open>
  One constructor per kind of error; the message text is kept only for the class CoreError itself.
  \<open>JsError\<close> is an Error that is no CoreError.
\<close>

datatype core_error =
    CoreError string
  | SqliteConstraintError
  | BeeNotFoundError string
  | IllegalTransitionError string
  | UnknownUrgencyError
  | UnknownVerbError
  | UnknownFailureCauseError
  | IdempotencyConflictError
  | CommandProtocolError
  | EffectFencedError
  | EffectConflictError
  | EffectHistoryUnknownError
  | EffectInvalidError
  | ExecutionFenceError exec_code
  | MoveNotFoundError string
  | HandoffNotFoundError string
  | QuestionNotFoundError string
  | QuestionWithdrawnError
  | QuestionDismissedError
  | QuestionNotOpenError
  | QuestionAlreadyAnsweredError
  | QuestionNotOwnerError
  | ActionNotFoundError string
  | ActionKindUnknownError string "nat option"
  | ActionRefusedError string
  | ActionReorderInvalidError
  | ActionClaimedError
  | ActionStaleAttemptError
  | ActionUnauthorizedError
  | TaskNotFoundError string
  | TaskConflictError string
  | AccountNotFoundError string
  | JsError string

type_synonym 'a store_op = "(core, core_error, 'a) op"

definition audit :: "audit_event \<Rightarrow> unit store_op" where
  "audit ev = modifyM (\<lambda>s. s\<lparr>auditLog := auditLog s @ [ev]\<rparr>)"

definition requireNonEmpty :: "string option \<Rightarrow> string \<Rightarrow> string store_op" where
  "requireNonEmpty v where' =
     (case v of
        Some (c # cs) \<Rightarrow> returnM (c # cs)
      | _ \<Rightarrow> throwM (CoreError (where' @ '': expected a non-empty string'')))"

section \<open>Reads\<close>

definition getBee :: "core \<Rightarrow> string \<Rightarrow> bee_row option" where
  "getBee s i = find_row bId (bees s) i"

definition mustGetBee :: "string \<Rightarrow> bee_row store_op" where
  "mustGetBee i = bindM (readM (\<lambda>s. getBee s i))
     (\<lambda>b. case b of Some b \<Rightarrow> returnM b | None \<Rightarrow> throwM (BeeNotFoundError i))"

text \<open>\<open>ORDER BY generation DESC LIMIT 1\<close>\<close>

definition currentRuntime :: "core \<Rightarrow> string \<Rightarrow> runtime_row option" where
  "currentRuntime s i =
     foldl (\<lambda>best r. if rBeeId r \<noteq> i then best
                     else case best of None \<Rightarrow> Some r
                          | Some b \<Rightarrow> if rGeneration b < rGeneration r then Some r else best) None (runtimes s)"

definition currentGeneration :: "core \<Rightarrow> string \<Rightarrow> nat option" where
  "currentGeneration s i = map_option rGeneration (currentRuntime s i)"

definition LIVE_STATES :: "runtime_state list" where
  "LIVE_STATES = [RBooting, RRunning, RIdle]"

definition getMessage :: "core \<Rightarrow> nat \<Rightarrow> message_row option" where
  "getMessage s i = find_row mId (mailbox s) i"

text \<open>\<open>ORDER BY COALESCE(queue_order, id), id\<close>\<close>

definition mail_key :: "message_row \<Rightarrow> nat \<times> nat" where
  "mail_key m = ((case mQueueOrder m of Some q \<Rightarrow> q | None \<Rightarrow> mId m), mId m)"

definition undeliveredMessages :: "core \<Rightarrow> string \<Rightarrow> message_row list" where
  "undeliveredMessages s i =
     sort_key mail_key (filter (\<lambda>m. mBeeId m = i \<and> mDeliveredAt m = None) (mailbox s))"

definition mailOrigin :: "core \<Rightarrow> nat \<Rightarrow> mail_origin" where
  "mailOrigin s i = (case map_of (mailOrigins s) i of Some orig \<Rightarrow> orig | None \<Rightarrow> OrLegacyUnknown)"

definition multilineDelivery :: "core \<Rightarrow> nat \<Rightarrow> multiline_row option" where
  "multilineDelivery s i = find_row mlMessageId (multilines s) i"

definition multilineSenderNotice :: "core \<Rightarrow> nat \<Rightarrow> bool" where
  "multilineSenderNotice s i \<longleftrightarrow>
     list_ex (\<lambda>r. mlReceiptNotice r = Some i \<or> mlFallbackNotice r = Some i) (multilines s)"

definition getCommand :: "core \<Rightarrow> nat \<Rightarrow> command_row option" where
  "getCommand s i = find_row cId (commands s) i"

definition getCommandByIdempotencyKey :: "core \<Rightarrow> string \<Rightarrow> command_row option" where
  "getCommandByIdempotencyKey s k = List.find (\<lambda>c. cIdempotencyKey c = Some k) (commands s)"

definition getBeeMove :: "core \<Rightarrow> string \<Rightarrow> move_row option" where
  "getBeeMove s i = find_row mvId (moves s) i"

definition getBeeHandoff :: "core \<Rightarrow> string \<Rightarrow> handoff_row option" where
  "getBeeHandoff s i = find_row hoId (handoffs s) i"

definition threadOperationForSuccessor :: "core \<Rightarrow> string \<Rightarrow> thread_row option" where
  "threadOperationForSuccessor s i = find_row thSuccessorBeeId (threads s) i"

definition getAuthInterruption :: "core \<Rightarrow> nat \<Rightarrow> auth_row option" where
  "getAuthInterruption s i = find_row auId (authRows s) i"

definition liveAuthInterruption :: "core \<Rightarrow> string \<Rightarrow> auth_row option" where
  "liveAuthInterruption s i =
     List.find (\<lambda>r. auBeeId r = i \<and> auState r \<in> set AUTH_INTERRUPTION_LIVE_STATES) (authRows s)"

definition listQuotaRecoveries :: "core \<Rightarrow> string \<Rightarrow> quota_row list" where
  "listQuotaRecoveries s i = sort_key qrId (filter (\<lambda>r. qrBeeId r = i) (quotaRows s))"

definition getQuestion :: "core \<Rightarrow> string \<Rightarrow> question_row option" where
  "getQuestion s i = find_row qId (questions s) i"

section \<open>Minted ids and tokens\<close>

definition random :: "rat store_op" where
  "random = bindM (readM (\<lambda>s. rng s (rngPos s)))
     (\<lambda>r. thenM (modifyM (\<lambda>s. s\<lparr>rngPos := rngPos s + 1\<rparr>)) (returnM r))"

definition randomNibble :: "nat \<Rightarrow> nat store_op" where
  "randomNibble n = bindM random (\<lambda>r. returnM (nat \<lfloor>r * of_nat n\<rfloor>))"

text \<open>A v4-shaped uuid: 32 nibbles, the 13th is 4 and the 17th one of 8..b, with four dashes.\<close>

definition mintId :: "string store_op" where
  "mintId = bindM
     (collectM [0..<32] (\<lambda>i.
        bindM (if i = 12 then returnM 4
               else if i = 16 then bindM (randomNibble 4) (\<lambda>n. returnM (8 + n))
               else randomNibble 16)
          (\<lambda>n. returnM (hex_digit n # (if i \<in> {7, 11, 15, 19} then ''-'' else [])))))
     (\<lambda>parts. returnM (concat parts))"

definition mintActionToken :: "string store_op" where
  "mintActionToken = collectM [0..<20] (\<lambda>_. bindM (randomNibble 16) (\<lambda>n. returnM (hex_digit n)))"

definition randomUUID :: "string store_op" where
  "randomUUID = bindM (readM (\<lambda>s. uuids s (uuidPos s)))
     (\<lambda>u. thenM (modifyM (\<lambda>s. s\<lparr>uuidPos := uuidPos s + 1\<rparr>)) (returnM u))"

end
