(* ===== verification/Action_Table.thy ===== *)
theory Action_Table
  imports Store
begin

text \<open>
  The tables actions, action_queues and action_enqueues (v2/core/src/store.ts from line 10556): the
  reads and projections, the wrapper \<open>withActionLaneAudit\<close> that every mutation of a lane runs in, the
  update of a row with its transition guard, and the hooks that mail delivery, mail cancellation and
  answered questions run.
\<close>

section \<open>Reads\<close>

definition getAction :: "core \<Rightarrow> string \<Rightarrow> action_row option" where
  "getAction s i = find_row aId (actions s) i"

definition mustGetAction :: "string \<Rightarrow> action_row store_op" where
  "mustGetAction i = bindM (readM (\<lambda>s. getAction s i))
     (\<lambda>a. case a of Some a \<Rightarrow> returnM a | None \<Rightarrow> throwM (ActionNotFoundError i))"

definition listActionsOf :: "core \<Rightarrow> string \<Rightarrow> action_row list" where
  "listActionsOf s b = sort_key aPosition (filter (\<lambda>a. aBeeId a = b) (actions s))"

definition listActions :: "core \<Rightarrow> string option \<Rightarrow> action_status list \<Rightarrow> action_row list" where
  "listActions s b statuses =
     sort_key (\<lambda>a. (aBeeId a, aPosition a))
       (filter (\<lambda>a. (case b of None \<Rightarrow> True | Some b \<Rightarrow> aBeeId a = b)
                    \<and> (statuses = [] \<or> aStatus a \<in> set statuses)) (actions s))"

definition is_landing_sha :: "string \<Rightarrow> bool" where
  "is_landing_sha s \<longleftrightarrow> (length s = 40 \<or> length s = 64) \<and> list_all (\<lambda>c. c \<in> set ''0123456789abcdef'') s"

definition listLandingReceipts :: "core \<Rightarrow> string \<Rightarrow> (string \<times> string \<times> string option) list" where
  "listLandingReceipts s b =
     concat (map (\<lambda>a. case aResult a of
         None \<Rightarrow> []
       | Some res \<Rightarrow>
           (case (js_get (arOutputs res) ''cellHead'', js_get (arOutputs res) ''resultSha'') of
              (Some (JStr cellHead), Some (JStr resultSha)) \<Rightarrow>
                if is_landing_sha cellHead \<and> is_landing_sha resultSha
                then [(cellHead, resultSha,
                       case js_get (arOutputs res) ''targetBranch'' of
                         Some (JStr t) \<Rightarrow> if t = [] then None else Some t
                       | _ \<Rightarrow> None)]
                else []
            | _ \<Rightarrow> []))
       (filter (\<lambda>a. aBeeId a = b \<and> aStatus a = ASucceeded \<and> aKind a = ''land'') (actions s)))"

definition listOpenActionBeeIds :: "core \<Rightarrow> string list" where
  "listOpenActionBeeIds s =
     sort (remdups (map aBeeId (filter (\<lambda>a. aStatus a \<in> set ACTION_OPEN_STATUSES) (actions s))))"

definition count_status :: "action_row list \<Rightarrow> action_status \<Rightarrow> nat" where
  "count_status rows st = length (filter (\<lambda>a. aStatus a = st) rows)"

definition mapActionQueue :: "core \<Rightarrow> action_queue_db \<Rightarrow> action_queue_row" where
  "mapActionQueue s q =
     (let rows = filter (\<lambda>a. aBeeId a = qdBeeId q) (actions s)
      in \<lparr>qrwView =
            \<lparr>qvBeeId = qdBeeId q,
             qvPaused = qdPaused q,
             qvPausedAt = qdPausedAt q,
             qvActiveActionId = map_option aId (List.find actionIsActive (sort_key aPosition rows)),
             qvCounts =
               \<lparr>nQueued = count_status rows AQueued, nRunning = count_status rows ARunning,
                nWaiting = count_status rows AWaiting, nSucceeded = count_status rows ASucceeded,
                nFailed = count_status rows AFailed, nCancelled = count_status rows ACancelled\<rparr>,
             qvCreatedAt = qdCreatedAt q,
             qvUpdatedAt = qdUpdatedAt q\<rparr>,
          qrwNextPosition = qdNextPosition q\<rparr>)"

definition getQueueDb :: "core \<Rightarrow> string \<Rightarrow> action_queue_db option" where
  "getQueueDb s b = find_row qdBeeId (actionQueues s) b"

definition getActionQueue :: "core \<Rightarrow> string \<Rightarrow> action_queue_row option" where
  "getActionQueue s b = map_option (mapActionQueue s) (getQueueDb s b)"

definition listActionQueues :: "core \<Rightarrow> action_queue_row list" where
  "listActionQueues s = map (mapActionQueue s) (sort_key qdBeeId (actionQueues s))"

definition listActionQueueViews :: "core \<Rightarrow> action_queue_view list" where
  "listActionQueueViews s = map toActionQueueView (listActionQueues s)"

definition lanePaused :: "core \<Rightarrow> string \<Rightarrow> bool option" where
  "lanePaused s b = map_option (\<lambda>q. qvPaused (qrwView q)) (getActionQueue s b)"

definition ensureActionQueue :: "string \<Rightarrow> action_queue_row store_op" where
  "ensureActionQueue b =
     bindM (readM (\<lambda>s. getActionQueue s b)) (\<lambda>existing.
       case existing of
         Some q \<Rightarrow> returnM q
       | None \<Rightarrow>
           bindM (mustGetBee b) (\<lambda>_.
           thenM (modifyM (\<lambda>s. s\<lparr>actionQueues := actionQueues s @
                    [\<lparr>qdBeeId = b, qdPaused = False, qdPausedAt = None, qdNextPosition = 1,
                      qdCreatedAt = clock s, qdUpdatedAt = clock s\<rparr>]\<rparr>))
             (readM (\<lambda>s. the (getActionQueue s b)))))"

definition actionViewOf :: "core \<Rightarrow> action_row \<Rightarrow> action_view" where
  "actionViewOf s row = toActionView row (listActionsOf s (aBeeId row)) (lanePaused s (aBeeId row))"

definition actionView :: "string \<Rightarrow> action_view store_op" where
  "actionView i = bindM (mustGetAction i) (\<lambda>row. readM (\<lambda>s. actionViewOf s row))"

definition listActionViews :: "core \<Rightarrow> string option \<Rightarrow> action_status list \<Rightarrow> action_view list" where
  "listActionViews s b statuses =
     (let rows = listActions s b statuses
      in concat (map (\<lambda>b. toActionViews (filter (\<lambda>a. aBeeId a = b) rows) (listActionsOf s b) (lanePaused s b))
           (rev (remdups (rev (map aBeeId rows))))))"

definition getActionEnqueue :: "core \<Rightarrow> string \<Rightarrow> action_enqueue_row option" where
  "getActionEnqueue s k = find_row eIdempotencyKey (actionEnqueues s) k"

section \<open>The audit of a lane mutation\<close>

definition auditActionViews :: "string \<Rightarrow> action_view list \<Rightarrow> action_view list \<Rightarrow> unit store_op" where
  "auditActionViews reason before after =
     eachM after (\<lambda>v.
       (let previous = find_row (\<lambda>v. aId (vRow v)) before (aId (vRow v))
        in whenM (previous \<noteq> Some v)
             (audit (EvActionPut v (map_option (\<lambda>p. aStatus (vRow p)) previous) reason))))"

definition auditActionQueue :: "string \<Rightarrow> action_queue_row option \<Rightarrow> action_queue_row option \<Rightarrow> unit store_op" where
  "auditActionQueue reason queueBefore queueAfter =
     (case queueAfter of
        None \<Rightarrow> returnM ()
      | Some q \<Rightarrow> whenM (map_option toActionQueueView queueBefore \<noteq> Some (toActionQueueView q))
                    (audit (EvActionQueuePut (toActionQueueView q) reason)))"

definition withActionLaneAudit :: "string \<Rightarrow> string \<Rightarrow> 'a store_op \<Rightarrow> 'a store_op" where
  "withActionLaneAudit b reason fn =
     bindM (readM (\<lambda>s. (listActionViews s (Some b) [], getActionQueue s b))) (\<lambda>(before, queueBefore).
     bindM fn (\<lambda>out.
     bindM (readM (\<lambda>s. listActionViews s (Some b) [])) (\<lambda>after.
     thenM (auditActionViews reason before after)
     (bindM (readM (\<lambda>s. getActionQueue s b)) (\<lambda>queueAfter.
     thenM (auditActionQueue reason queueBefore queueAfter)
     (returnM out))))))"

section \<open>Writes\<close>

text \<open>Up to eight more ids when one is taken, then an error.\<close>

fun mintFreeId :: "nat \<Rightarrow> string store_op" where
  "mintFreeId n =
     bindM mintId (\<lambda>i. bindM (readM (\<lambda>s. getAction s i)) (\<lambda>taken.
       if taken = None then returnM i
       else (case n of
               0 \<Rightarrow> throwM (CoreError ''enqueueActions: could not mint a free action id (broken rng?)'')
             | Suc n' \<Rightarrow> mintFreeId n')))"

declare mintFreeId.simps [simp del]

definition mintActionId :: "string store_op" where
  "mintActionId = mintFreeId 8"

text \<open>The columns the UPDATE of \<open>updateActionRow\<close> sets, as they read back from their JSON.\<close>

definition stored_result :: "action_result \<Rightarrow> action_result" where
  "stored_result r = r\<lparr>arOutputs := json_roundtrip (arOutputs r), arReceipt := map_option json_roundtrip (arReceipt r)\<rparr>"

definition actionColumns ::
  "action_row \<Rightarrow> action_row \<Rightarrow> nat option \<Rightarrow> string option \<Rightarrow> int \<Rightarrow> action_row" where
  "actionColumns current nxt messageId operationKey t =
     current\<lparr>aPosition := aPosition nxt,
             aResolvedInputs := map_option json_roundtrip (aResolvedInputs nxt),
             aStatus := aStatus nxt,
             aWaitingReason := aWaitingReason nxt,
             aWaitingDetail := aWaitingDetail nxt,
             aAttempt := aAttempt nxt,
             aAttemptToken := aAttemptToken nxt,
             aDispatch := aDispatch nxt,
             aDispatchMessageId := messageId,
             aOperationKey := operationKey,
             aProgress := aProgress nxt,
             aQuestionId := aQuestionId nxt,
             aResult := map_option stored_result (aResult nxt),
             aFailure := aFailure nxt,
             aAttempts := aAttempts nxt,
             aUpdatedAt := t,
             aFinishedAt := aFinishedAt nxt\<rparr>"

text \<open>The UPDATE, with the index UNIQUE(bee_id, position).\<close>

definition putAction :: "action_row \<Rightarrow> unit store_op" where
  "putAction row =
     bindM (readM (\<lambda>s. list_ex (\<lambda>a. aId a \<noteq> aId row \<and> aBeeId a = aBeeId row \<and> aPosition a = aPosition row)
                         (actions s)))
       (\<lambda>clash. thenM (requireM (\<not> clash) SqliteConstraintError)
          (modifyM (\<lambda>s. s\<lparr>actions := put_row aId row (actions s)\<rparr>)))"

text \<open>
  A patch is a function on the row. \<open>messageId\<close> and \<open>operationKey\<close> are the two store columns a patch
  may carry; when it does not, they follow the dispatch.
\<close>

definition updateActionRow ::
  "string \<Rightarrow> (action_row \<Rightarrow> action_row) \<Rightarrow> nat option option \<Rightarrow> string option option \<Rightarrow> action_row store_op" where
  "updateActionRow i patch messageId operationKey =
     bindM (mustGetAction i) (\<lambda>current.
     bindM (readM clock) (\<lambda>t.
       (let nxt = patch current;
            m = (case messageId of Some m \<Rightarrow> m | None \<Rightarrow> Option.bind (aDispatch nxt) dpMessageId);
            k = (case operationKey of Some k \<Rightarrow> k | None \<Rightarrow> Option.bind (aDispatch nxt) dpOperationKey)
        in thenM (requireM (actionTransitionLegal (aStatus current) (aStatus nxt)) (IllegalTransitionError i))
             (thenM (putAction (actionColumns current nxt m k t)) (mustGetAction i)))))"

definition closeActionAttempt :: "action_row \<Rightarrow> action_attempt_outcome \<Rightarrow> int \<Rightarrow> action_attempt_record list" where
  "closeActionAttempt row outcome t =
     (case aDispatch row of
        None \<Rightarrow> aAttempts row
      | Some d \<Rightarrow>
          if aAttempt row = 0 then aAttempts row
          else if list_ex (\<lambda>a. atAttempt a = aAttempt row) (aAttempts row) then aAttempts row
          else aAttempts row @
            [\<lparr>atAttempt = aAttempt row, atDispatchedAt = Some (dpDispatchedAt d), atGeneration = dpGeneration d,
              atMessageId = dpMessageId d, atDeliveredAt = dpDeliveredAt d, atClaimedBy = dpClaimedBy d,
              atOperationKey = dpOperationKey d, atOutcome = Some outcome, atFinishedAt = Some t\<rparr>])"

definition failActionRow :: "action_row \<Rightarrow> string \<Rightarrow> string \<Rightarrow> bool \<Rightarrow> int \<Rightarrow> action_row store_op" where
  "failActionRow row code detail retryable t =
     updateActionRow (aId row)
       (\<lambda>r. r\<lparr>aStatus := AFailed, aWaitingReason := None, aWaitingDetail := None,
              aFailure := Some \<lparr>afCode = code, afDetail = detail, afRetryable = retryable,
                                afAttempt = aAttempt row, afAt = t\<rparr>,
              aAttempts := closeActionAttempt row OFailed t,
              aFinishedAt := Some t\<rparr>) None None"

section \<open>Hooks of mail and questions\<close>

definition actionOfMessage :: "core \<Rightarrow> nat \<Rightarrow> action_row option" where
  "actionOfMessage s m =
     List.find (\<lambda>a. aDispatchMessageId a = Some m \<and> (aStatus a = ARunning \<or> aStatus a = AWaiting)) (actions s)"

definition applyActionDelivered :: "nat \<Rightarrow> nat \<Rightarrow> int \<Rightarrow> unit store_op" where
  "applyActionDelivered m generation t =
     bindM (readM (\<lambda>s. actionOfMessage s m)) (\<lambda>row.
       case row of
         None \<Rightarrow> returnM ()
       | Some action \<Rightarrow>
           (case aDispatch action of
              None \<Rightarrow> returnM ()
            | Some d \<Rightarrow>
                if dpMessageId d \<noteq> Some m then returnM ()
                else
                  bindM (actionView (aId action)) (\<lambda>v.
                  thenM (updateActionRow (aId action)
                           (\<lambda>r. r\<lparr>aDispatch := Some (d\<lparr>dpDeliveredAt := Some t, dpDeliveredGeneration := Some generation\<rparr>)\<rparr>)
                           None None)
                    (bindM (actionView (aId action)) (\<lambda>after.
                       audit (EvActionPut after (Some (aStatus (vRow v))) ''delivered''))))))"

definition applyActionDispatchCanceled :: "nat \<Rightarrow> int \<Rightarrow> unit store_op" where
  "applyActionDispatchCanceled m t =
     bindM (readM (\<lambda>s. actionOfMessage s m)) (\<lambda>row.
       case row of
         None \<Rightarrow> returnM ()
       | Some action \<Rightarrow>
           (case aDispatch action of
              None \<Rightarrow> returnM ()
            | Some d \<Rightarrow>
                if dpMessageId d \<noteq> Some m \<or> dpDeliveredAt d \<noteq> None then returnM ()
                else
                  withActionLaneAudit (aBeeId action) ''dispatch_cancelled''
                    (bindM (mustGetAction (aId action)) (\<lambda>fresh.
                     bindM (failActionRow fresh ''dispatch_cancelled''
                              (''mailbox message '' @ nat_text m
                               @ '' carrying the instruction was cancelled before delivery'') True t) (\<lambda>_.
                     returnM ())))))"

definition applyActionQuestionAnswered :: "string \<Rightarrow> unit store_op" where
  "applyActionQuestionAnswered q =
     bindM (readM (\<lambda>s. List.find (\<lambda>a. aQuestionId a = Some q \<and> aStatus a = AWaiting
                                      \<and> aWaitingReason a = Some WInput) (actions s))) (\<lambda>row.
       case row of
         None \<Rightarrow> returnM ()
       | Some action \<Rightarrow>
           withActionLaneAudit (aBeeId action) ''question_answered''
             (bindM (updateActionRow (aId action)
                       (\<lambda>r. r\<lparr>aStatus := ARunning, aWaitingReason := None, aWaitingDetail := None\<rparr>) None None)
                (\<lambda>_. returnM ())))"

end
