(* ===== verification/Mailbox.thy ===== *)
theory Mailbox
  imports Action_Table
begin

text \<open>
  Mail (v2/core/src/store.ts, \<open>send\<close> and around): the batching rules that decide whether mail may wake
  a bee, the one place a wake is scheduled, the insert of a command, sending, withdrawing and
  expediting a message. Sends with an authenticated human-chat admission, a phone origin or a replay
  are not modelled; they add rows of their own to the same transaction.
\<close>

definition TASK_SUPPLY_SENDER_NAME :: string where
  "TASK_SUPPLY_SENDER_NAME = ''task-supply''"

definition DEFAULT_TASK_SUPPLY_LIMIT :: nat where
  "DEFAULT_TASK_SUPPLY_LIMIT = 5"

definition defaultTaskSupply :: "string \<Rightarrow> task_supply_row" where
  "defaultTaskSupply b = \<lparr>tsBeeId = b, tsOn = False, tsLimit = DEFAULT_TASK_SUPPLY_LIMIT, tsFeeds = 0, tsPaused = False\<rparr>"

definition getTaskSupply :: "core \<Rightarrow> string \<Rightarrow> task_supply_row" where
  "getTaskSupply s b =
     (case find_row tsBeeId (taskSupplies s) b of Some r \<Rightarrow> r | None \<Rightarrow> defaultTaskSupply b)"

section \<open>Batching\<close>

definition mailBatchingEnabled :: "core \<Rightarrow> string \<Rightarrow> bool" where
  "mailBatchingEnabled s b \<longleftrightarrow> map_of (batchingPolicies s) b = Some True"

definition lastHumanReceivedAt :: "core \<Rightarrow> string \<Rightarrow> int option" where
  "lastHumanReceivedAt s b = map_of (humanReceived s) b"

definition humanTurnActive :: "core \<Rightarrow> string \<Rightarrow> nat \<Rightarrow> bool" where
  "humanTurnActive s b generation \<longleftrightarrow>
     (case Option.bind (getBee s b) bLastTurnTrigger of
        None \<Rightarrow> False
      | Some t \<Rightarrow> ttGeneration t = generation \<and> ttEndedAt t = None
          \<and> (case Option.bind (ttMessageId t) (getMessage s) of None \<Rightarrow> False | Some m \<Rightarrow> mHumanChat m))"

definition activeHumanWindow :: "core \<Rightarrow> string \<Rightarrow> bool" where
  "activeHumanWindow s b \<longleftrightarrow>
     (case lastHumanReceivedAt s b of None \<Rightarrow> False | Some received \<Rightarrow> clock s - received < 120000)
     \<or> (case currentRuntime s b of
          None \<Rightarrow> False
        | Some r \<Rightarrow> rState r \<noteq> RStopped \<and> humanTurnActive s b (rGeneration r))"

definition mailBatchControl :: "core \<Rightarrow> nat \<Rightarrow> bool" where
  "mailBatchControl s i \<longleftrightarrow> mailOrigin s i \<notin> {OrMailSend, OrLegacyUnknown} \<or> multilineSenderNotice s i"

text \<open>A hold that has not become a ready file fallback keeps its message out of a batch.\<close>

definition multilineHeld :: "core \<Rightarrow> nat \<Rightarrow> bool" where
  "multilineHeld s i \<longleftrightarrow>
     (case multilineDelivery s i of None \<Rightarrow> False | Some h \<Rightarrow> mlHeldSince h \<noteq> None \<and> \<not> mlFallbackReady h)"

definition mailBatchCandidate :: "core \<Rightarrow> nat \<Rightarrow> bool" where
  "mailBatchCandidate s i \<longleftrightarrow>
     (case getMessage s i of
        None \<Rightarrow> False
      | Some m \<Rightarrow> mDeliveredAt m = None \<and> \<not> mHumanChat m \<and> \<not> mailBatchControl s i
          \<and> automationDeliveryClass (mAutomationKind m) = Ordinary \<and> i \<notin> set (confirmationIntents s)
          \<and> \<not> multilineHeld s i)"

definition oldestMailBatchCandidateEnqueuedAt :: "core \<Rightarrow> string \<Rightarrow> int option" where
  "oldestMailBatchCandidateEnqueuedAt s b =
     map_option mEnqueuedAt
       (List.find (\<lambda>m. mMailBatchId m \<noteq> None \<or> \<not> mailBatchControl s (mId m))
          (sort_key (\<lambda>m. (mEnqueuedAt m, mId m))
             (filter (\<lambda>m. mBeeId m = b \<and> mDeliveredAt m = None \<and> \<not> mHumanChat m
                          \<and> automationDeliveryClass (mAutomationKind m) = Ordinary
                          \<and> (mMailBatchId m \<noteq> None
                             \<or> (mId m \<notin> set (confirmationIntents s) \<and> \<not> multilineHeld s (mId m))))
                (mailbox s))))"

datatype batch_release = ReleaseMaxAge | ReleaseIdle | ReleaseWindowClose

definition mailBatchReleaseReason :: "core \<Rightarrow> string \<Rightarrow> batch_release option" where
  "mailBatchReleaseReason s b =
     (if (case oldestMailBatchCandidateEnqueuedAt s b of None \<Rightarrow> False | Some oldest \<Rightarrow> clock s - oldest > 600000)
      then Some ReleaseMaxAge
      else if activeHumanWindow s b then None
      else Some (if lastHumanReceivedAt s b = None then ReleaseIdle else ReleaseWindowClose))"

definition mailBatchingWakeDueAt :: "core \<Rightarrow> string \<Rightarrow> int option" where
  "mailBatchingWakeDueAt s b =
     (let due = (case lastHumanReceivedAt s b of
                   Some received \<Rightarrow> if received + 120000 > clock s then [received + 120000] else []
                 | None \<Rightarrow> [])
              @ (case oldestMailBatchCandidateEnqueuedAt s b of
                   Some oldest \<Rightarrow> if oldest + 600001 > clock s then [oldest + 600001] else []
                 | None \<Rightarrow> [])
      in case due of [] \<Rightarrow> None | d # ds \<Rightarrow> Some (foldl min d ds))"

definition pendingHumanFirstSeedMessageId :: "core \<Rightarrow> string \<Rightarrow> nat option" where
  "pendingHumanFirstSeedMessageId s b =
     map_option mId (List.find (\<lambda>m. mailOrigin s (mId m) \<in> {OrSpawnPrompt, OrAuthResume}) (undeliveredMessages s b))"

text \<open>The newest handoff whose seed is still undelivered: created_at first, then rowid.\<close>

definition pendingHandoffSeedMessageId :: "core \<Rightarrow> string \<Rightarrow> nat option" where
  "pendingHandoffSeedMessageId s b =
     (case rev (sort_key hoCreatedAt
            (filter (\<lambda>h. hoBeeId h = b
               \<and> (case Option.bind (hoSeedMessageId h) (getMessage s) of
                    None \<Rightarrow> False | Some m \<Rightarrow> mDeliveredAt m = None)) (handoffs s))) of
        [] \<Rightarrow> None
      | h # _ \<Rightarrow> hoSeedMessageId h)"

definition batchingWakeEligible :: "core \<Rightarrow> string \<Rightarrow> bool" where
  "batchingWakeEligible s b \<longleftrightarrow>
     \<not> mailBatchingEnabled s b \<or> mailBatchReleaseReason s b \<noteq> None
     \<or> list_ex (\<lambda>m. mHumanChat m \<or> Some (mId m) = pendingHumanFirstSeedMessageId s b
                    \<or> Some (mId m) = pendingHandoffSeedMessageId s b \<or> mailBatchControl s (mId m)
                    \<or> automationDeliveryClass (mAutomationKind m) \<noteq> Ordinary) (undeliveredMessages s b)"

section \<open>Commands and wakes\<close>

definition MAILBOX_ONLY_REFUSED_VERBS :: "verb list" where
  "MAILBOX_ONLY_REFUSED_VERBS = [VSpawn, VSendWake, VRevive, VReconnectTools]"

definition refuseMailboxOnlyRuntime :: "bee_row \<Rightarrow> unit store_op" where
  "refuseMailboxOnlyRuntime b = requireM (\<not> isInboxAgent (bAgent b)) CommandProtocolError"

definition applyEnqueue ::
  "verb \<Rightarrow> string \<Rightarrow> jobject \<Rightarrow> nat option \<Rightarrow> string option \<Rightarrow> int option \<Rightarrow> command_row store_op" where
  "applyEnqueue v b args targetGeneration key notBefore =
     bindM (if v \<in> set MAILBOX_ONLY_REFUSED_VERBS then bindM (mustGetBee b) refuseMailboxOnlyRuntime else returnM ())
       (\<lambda>_.
     bindM (readM (\<lambda>s. list_ex (\<lambda>c. key \<noteq> None \<and> cIdempotencyKey c = key) (commands s))) (\<lambda>taken.
     bindM (requireM (\<not> taken) SqliteConstraintError) (\<lambda>_.
     bindM (readM (\<lambda>s.
        \<lparr>cId = nextCommandId s, cVerb = v, cBeeId = b, cArgs = args, cTargetGeneration = targetGeneration,
         cStatus = CQueued, cAttempts = 0,
         cNextAttemptAt = (case notBefore of None \<Rightarrow> clock s | Some n \<Rightarrow> max (clock s) n),
         cEnqueuedAt = clock s, cFinishedAt = None, cFailureCause = None, cIdempotencyKey = key\<rparr>)) (\<lambda>command.
     bindM (modifyM (\<lambda>s. s\<lparr>commands := commands s @ [command], nextCommandId := nextCommandId s + 1\<rparr>)) (\<lambda>_.
     thenM (audit (EvCommandEnqueued command)) (returnM command))))))"

definition wakeNotBefore :: "core \<Rightarrow> bee_row \<Rightarrow> runtime_row option \<Rightarrow> int option" where
  "wakeNotBefore s b current =
     (case current of
        None \<Rightarrow> None
      | Some r \<Rightarrow> if bSpawnFailures b = 0 then None
                  else Some (rUpdatedAt r + backoffBaseMs s * 2 ^ (bSpawnFailures b - 1)))"

datatype wake_outcome =
    WkMailboxOnly | WkNoMail | WkFenced | WkLive | WkPending | WkSuppressed | WkEnqueued

definition pendingWake :: "core \<Rightarrow> string \<Rightarrow> nat \<Rightarrow> command_row option" where
  "pendingWake s b targetGeneration =
     List.find (\<lambda>c. cBeeId c = b
        \<and> (cVerb c = VSendWake
           \<or> (cVerb c = VRevive \<and> (case map_of (cArgs c) ''authDeathRecoveryId'' of Some (JNum _) \<Rightarrow> True | _ \<Rightarrow> False)))
        \<and> (cStatus c = CQueued \<or> cStatus c = CRunning)
        \<and> cTargetGeneration c = Some targetGeneration) (commands s)"

definition spawnFailedFlag :: "core \<Rightarrow> string \<Rightarrow> bool" where
  "spawnFailedFlag s b \<longleftrightarrow> list_ex (\<lambda>f. fBeeId f = b \<and> fFlag f = FSpawnFailed \<and> fClearedAt f = None) (flags s)"

definition threadFences :: "core \<Rightarrow> string \<Rightarrow> bool" where
  "threadFences s b \<longleftrightarrow>
     (case threadOperationForSuccessor s b of
        None \<Rightarrow> False | Some t \<Rightarrow> thPhase t \<noteq> ThReady \<and> thPhase t \<noteq> ThStarting)"

definition moveFences :: "core \<Rightarrow> string \<Rightarrow> bool" where
  "moveFences s m \<longleftrightarrow>
     (case getBeeMove s m of None \<Rightarrow> True | Some mv \<Rightarrow> mvPhase mv = MvStopping \<or> mvPhase mv = MvPlacing)"

definition handoffFences :: "core \<Rightarrow> string \<Rightarrow> bool" where
  "handoffFences s h \<longleftrightarrow>
     (case getBeeHandoff s h of None \<Rightarrow> True | Some ho \<Rightarrow> handoffFencesSource (hoPhase ho))"

text \<open>The part of \<open>applyWakeIfNeeded\<close> after the fences.\<close>

definition scheduleWake :: "bee_row \<Rightarrow> (command_row option \<times> wake_outcome) store_op" where
  "scheduleWake bee =
     bindM (readM (\<lambda>s. s)) (\<lambda>s.
       (let b = bId bee;
            current = currentRuntime s b;
            targetGeneration = (case current of Some r \<Rightarrow> rGeneration r | None \<Rightarrow> 0)
        in if (case current of Some r \<Rightarrow> rState r \<in> set LIVE_STATES | None \<Rightarrow> False) then returnM (None, WkLive)
           else
             (case pendingWake s b targetGeneration of
                Some c \<Rightarrow> returnM (Some c, WkPending)
              | None \<Rightarrow>
                  if spawnFailedFlag s b
                  then thenM (audit (EvWakeSuppressed b targetGeneration (bSpawnFailures bee)))
                         (returnM (None, WkSuppressed))
                  else bindM (applyEnqueue VSendWake b [] (Some targetGeneration) None (wakeNotBefore s bee current))
                         (\<lambda>command. returnM (Some command, WkEnqueued)))))"

definition applyWakeIfNeeded :: "string \<Rightarrow> (command_row option \<times> wake_outcome) store_op" where
  "applyWakeIfNeeded b =
     bindM (mustGetBee b) (\<lambda>bee.
     bindM (readM (\<lambda>s. s)) (\<lambda>s.
       (let targetGeneration = (case currentRuntime s b of Some r \<Rightarrow> rGeneration r | None \<Rightarrow> 0)
        in if isInboxAgent (bAgent bee) then returnM (None, WkMailboxOnly)
           else if \<not> batchingWakeEligible s b then returnM (None, WkNoMail)
           else if threadFences s b then returnM (None, WkFenced)
           else if (case bActiveMoveId bee of Some m \<Rightarrow> moveFences s m | None \<Rightarrow> False)
           then thenM (audit (EvWakeFencedByMove b targetGeneration (the (bActiveMoveId bee)))) (returnM (None, WkFenced))
           else if (case bActiveHandoffId bee of Some h \<Rightarrow> handoffFences s h | None \<Rightarrow> False)
           then thenM (audit (EvWakeFencedByHandoff b targetGeneration (the (bActiveHandoffId bee)))) (returnM (None, WkFenced))
           else scheduleWake bee)))"

text \<open>\<open>message.deliveryHold?.stage !== "held"\<close> for some undelivered message.\<close>

definition wakeableMail :: "core \<Rightarrow> string \<Rightarrow> bool" where
  "wakeableMail s b \<longleftrightarrow>
     list_ex (\<lambda>m. case multilineDelivery s (mId m) of None \<Rightarrow> True | Some h \<Rightarrow> \<not> mlStageHeld h)
       (undeliveredMessages s b)"

definition enqueueWake :: "string \<Rightarrow> (command_row option \<times> wake_outcome) store_op" where
  "enqueueWake b =
     bindM (mustGetBee b) (\<lambda>_.
     bindM (readM (\<lambda>s. wakeableMail s b)) (\<lambda>some.
       if some then applyWakeIfNeeded b else returnM (None, WkNoMail)))"

section \<open>Sending, withdrawing, expediting\<close>

definition applyUnarchive :: "string \<Rightarrow> bee_row store_op" where
  "applyUnarchive b =
     thenM (modifyM (\<lambda>s. s\<lparr>bees := update_rows (\<lambda>r. bId r = b)
              (\<lambda>r. r\<lparr>bLifecycle := LActive, bArchivedAt := None\<rparr>) (bees s)\<rparr>))
     (thenM (audit (EvBeeUnarchived b)) (mustGetBee b))"

definition applyResetTaskSupplyFeeds :: "string \<Rightarrow> unit store_op" where
  "applyResetTaskSupplyFeeds b =
     bindM (readM (\<lambda>s. (getTaskSupply s b, find_row tsBeeId (taskSupplies s) b))) (\<lambda>(current, stored).
       if tsFeeds current = 0 then returnM ()
       else
         (let reset = current\<lparr>tsFeeds := 0\<rparr>
          in thenM (modifyM (\<lambda>s. s\<lparr>taskSupplies :=
                 (if stored = None then taskSupplies s @ [reset]
                  else update_rows (\<lambda>r. tsBeeId r = b) (\<lambda>r. r\<lparr>tsFeeds := 0\<rparr>) (taskSupplies s))\<rparr>))
               (bindM (readM (\<lambda>s. getTaskSupply s b)) (\<lambda>supply. audit (EvTaskSupplyPut supply)))))"

record send_opts =
  soSender :: string
  soUrgency :: urgency
  soOrigin :: mail_origin
  soSenderKind :: "sender_kind option"
  soAutomationKind :: "automation_kind option"

record send_result =
  srMessage :: message_row
  srWakeCommand :: "command_row option"
  srUnarchived :: bool

definition send :: "string \<Rightarrow> string \<Rightarrow> send_opts \<Rightarrow> send_result store_op" where
  "send b body opts =
     bindM (requireM (CHR 0x00 \<notin> set body) (CoreError ''send: body must not contain U+0000'')) (\<lambda>_.
     bindM (requireM (CHR 0x00 \<notin> set (soSender opts)) (CoreError ''send: sender must not contain U+0000'')) (\<lambda>_.
     bindM (mustGetBee b) (\<lambda>bee.
     bindM (if bLifecycle bee = LArchived then bindM (applyUnarchive b) (\<lambda>_. returnM True) else returnM False) (\<lambda>unarchived.
     bindM (readM (\<lambda>s.
        \<lparr>mId = nextMessageId s, mBeeId = b, mSender = soSender opts, mBody = body, mPriority = 0,
         mUrgency = soUrgency opts, mEnqueuedAt = clock s, mDeliveredAt = None, mDeliveredGeneration = None,
         mSenderKind = soSenderKind opts, mAutomationKind = soAutomationKind opts, mHumanChat = False,
         mMailBatchId = None, mQueueOrder = None\<rparr>)) (\<lambda>message.
     bindM (modifyM (\<lambda>s. s\<lparr>mailbox := mailbox s @ [message], nextMessageId := nextMessageId s + 1\<rparr>)) (\<lambda>_.
     bindM (audit (EvMailEnqueued message (soOrigin opts))) (\<lambda>_.
     bindM (modifyM (\<lambda>s. s\<lparr>mailOrigins := mailOrigins s @ [(mId message, soOrigin opts)]\<rparr>)) (\<lambda>_.
     bindM (if soSender opts \<noteq> TASK_SUPPLY_SENDER_NAME then applyResetTaskSupplyFeeds b else returnM ()) (\<lambda>_.
     bindM (applyWakeIfNeeded b) (\<lambda>(wakeCommand, _).
       returnM \<lparr>srMessage = message, srWakeCommand = wakeCommand, srUnarchived = unarchived\<rparr>))))))))))"

definition removeOwnedMessage :: "message_row \<Rightarrow> string \<Rightarrow> unit store_op" where
  "removeOwnedMessage message owner =
     bindM (requireM (mMailBatchId message = None \<or> owner = ''mail.batch.resolve'') (CoreError ''batch_frozen'')) (\<lambda>_.
     bindM (readM (\<lambda>s. mId message \<in> set (confirmationIntents s))) (\<lambda>intent.
     thenM (modifyM (\<lambda>s. s\<lparr>mailbox := filter (\<lambda>m. mId m \<noteq> mId message) (mailbox s)\<rparr>))
       (audit (EvMailCanceled (mBeeId message) (mId message) (mUrgency message)
                 (if intent then Some owner else None)))))"

datatype cancel_refusal = CrNotFound | CrBeeMismatch | CrDelivered | CrConfirmationPending | CrBatchFrozen

definition cancelRefusal :: "core \<Rightarrow> string \<Rightarrow> nat \<Rightarrow> bool \<Rightarrow> cancel_refusal option" where
  "cancelRefusal s b m explicitDecision =
     (case getMessage s m of
        None \<Rightarrow> Some CrNotFound
      | Some message \<Rightarrow>
          if mBeeId message \<noteq> b then Some CrBeeMismatch
          else if mDeliveredAt message \<noteq> None then Some CrDelivered
          else if mMailBatchId message \<noteq> None then Some CrBatchFrozen
          else if \<not> explicitDecision \<and> m \<in> set (confirmationIntents s) then Some CrConfirmationPending
          else None)"

definition cancelMessageInternal :: "string \<Rightarrow> nat \<Rightarrow> bool \<Rightarrow> string \<Rightarrow> cancel_refusal option store_op" where
  "cancelMessageInternal b m explicitDecision owner =
     bindM (readM (\<lambda>s. (cancelRefusal s b m explicitDecision, getMessage s m, clock s))) (\<lambda>(refusal, message, canceledAt).
       case refusal of
         Some r \<Rightarrow> returnM (Some r)
       | None \<Rightarrow>
           bindM (removeOwnedMessage (the message) owner) (\<lambda>_.
           bindM (applyActionDispatchCanceled m canceledAt) (\<lambda>_. returnM None)))"

definition cancelMessage :: "string \<Rightarrow> nat \<Rightarrow> cancel_refusal option store_op" where
  "cancelMessage b m = cancelMessageInternal b m False ''mail.delivery.drop''"

definition expediteMessage :: "string \<Rightarrow> nat \<Rightarrow> urgency \<Rightarrow> cancel_refusal option store_op" where
  "expediteMessage b m u =
     bindM (readM (\<lambda>s. (cancelRefusal s b m True, getMessage s m))) (\<lambda>(refusal, message).
       case refusal of
         Some r \<Rightarrow> returnM (Some r)
       | None \<Rightarrow>
           bindM (modifyM (\<lambda>s. s\<lparr>mailbox := update_rows (\<lambda>r. mId r = m) (\<lambda>r. r\<lparr>mUrgency := u\<rparr>) (mailbox s)\<rparr>)) (\<lambda>_.
           bindM (audit (EvMailExpedited (mBeeId (the message)) m (mUrgency (the message)) u)) (\<lambda>_. returnM None)))"

end
