(* ===== verification/Mail_Port.thy ===== *)
theory Mail_Port
  imports Mailbox
begin

text \<open>
  The mail port as the other components use it: the queue of actions, the questions and the task
  lists send and withdraw mail inside their own transactions. What they rely on is that mail and the
  wake it may cause leave their own part of the store alone. The locale states what such a part is;
  each of these components interprets it on its own part.
\<close>

lemma frames_requireNonEmpty [frame]: "frames f (requireNonEmpty v w)"
  unfolding requireNonEmpty_def by (cases v rule: option.exhaust) (auto intro: frame split: list.split)

lemma frames_mustGetBee [frame]: "frames f (mustGetBee b)"
  unfolding mustGetBee_def by (intro frame)

text \<open>The wake of a bee that runs returns.\<close>

lemma applyWakeIfNeeded_live:
  assumes "getBee s b = Some bee" and "bId bee = b" and "currentRuntime s b = Some r" and "rState r \<in> set LIVE_STATES"
  shows "\<exists>x s'. applyWakeIfNeeded b s = Inr (x, s')"
proof -
  have "scheduleWake bee s = Inr ((None, WkLive), s)"
    using assms by (simp add: scheduleWake_def bindM_Inr)
  then show ?thesis
    using assms(1) by (simp add: applyWakeIfNeeded_def mustGetBee_def bindM_def thenM_def audit_def Let_def)
qed

lemma applyResetTaskSupplyFeeds_returns:
  "\<exists>s'. applyResetTaskSupplyFeeds b s = Inr ((), s') \<and> bees s' = bees s \<and> runtimes s' = runtimes s"
  by (simp add: applyResetTaskSupplyFeeds_def bindM_def thenM_def audit_def Let_def)

text \<open>Mail to an active bee that runs is always accepted.\<close>

lemma send_live:
  assumes clean: "CHR 0x00 \<notin> set body" "CHR 0x00 \<notin> set (soSender opts)"
    and bee: "getBee s b = Some bee" "bId bee = b" "bLifecycle bee = LActive"
    and run: "currentRuntime s b = Some r" "rState r \<in> set LIVE_STATES"
  shows "\<exists>sent s'. send b body opts s = Inr (sent, s')"
proof -
  let ?m = "\<lparr>mId = nextMessageId s, mBeeId = b, mSender = soSender opts, mBody = body, mPriority = 0,
         mUrgency = soUrgency opts, mEnqueuedAt = clock s, mDeliveredAt = None, mDeliveredGeneration = None,
         mSenderKind = soSenderKind opts, mAutomationKind = soAutomationKind opts, mHumanChat = False,
         mMailBatchId = None, mQueueOrder = None\<rparr>"
  let ?s1 = "s\<lparr>mailbox := mailbox s @ [?m], nextMessageId := nextMessageId s + 1,
               auditLog := auditLog s @ [EvMailEnqueued ?m (soOrigin opts)],
               mailOrigins := mailOrigins s @ [(nextMessageId s, soOrigin opts)]\<rparr>"
  obtain s2 where reset: "(if soSender opts \<noteq> TASK_SUPPLY_SENDER_NAME then applyResetTaskSupplyFeeds b else returnM ()) ?s1 = Inr ((), s2)"
    and same: "bees s2 = bees s" "runtimes s2 = runtimes s"
    using applyResetTaskSupplyFeeds_returns [of b ?s1] by (cases "soSender opts \<noteq> TASK_SUPPLY_SENDER_NAME") auto
  obtain x s3 where "applyWakeIfNeeded b s2 = Inr (x, s3)"
    using applyWakeIfNeeded_live [of s2 b bee r] bee run same by (auto simp: getBee_def currentRuntime_def)
  then show ?thesis
    using clean bee reset
    by (simp add: send_def requireM_def mustGetBee_def bindM_def audit_def split: prod.splits)
qed

text \<open>The part of the store that mail leaves alone.\<close>

text \<open>
  The first locale is what any operation on bees and mail touches; the second what a wake may do: it enqueues a
  command whose key is in \<open>keyed\<close>.
\<close>

locale quiet_port =
  fixes part :: "core \<Rightarrow> 'p" and silent :: "audit_event \<Rightarrow> bool"
  assumes part_bees: "part (bees_update f1 s) = part s"
    and part_mailbox: "part (mailbox_update f2 s) = part s"
    and part_nextMessageId: "part (nextMessageId_update f3 s) = part s"
    and part_mailOrigins: "part (mailOrigins_update f4 s) = part s"
    and part_rngPos: "part (rngPos_update f7 s) = part s"
    and part_uuidPos: "part (uuidPos_update f8 s) = part s"
    and part_log: "silent ev \<Longrightarrow> part (s\<lparr>auditLog := auditLog s @ [ev]\<rparr>) = part s"
    and silent_mail: "silent (EvMailEnqueued m orig)" "silent (EvMailCanceled b i u owner)" "silent (EvBeeUnarchived b)"
begin

lemmas wake_simps = part_bees part_mailbox part_nextMessageId part_mailOrigins part_rngPos part_uuidPos

lemma frames_audit [frame]: "silent ev \<Longrightarrow> frames part (audit ev)"
  by (simp add: audit_def frames_def part_log)

lemma frames_random [frame]: "frames part random"
  unfolding random_def by (intro frame) (simp_all add: wake_simps)

lemma frames_randomNibble [frame]: "frames part (randomNibble n)"
  unfolding randomNibble_def by (intro frame)

lemma frames_mintId [frame]: "frames part mintId"
  unfolding mintId_def by (intro frame)

lemma frames_mintActionToken [frame]: "frames part mintActionToken"
  unfolding mintActionToken_def by (intro frame)

lemma frames_randomUUID [frame]: "frames part randomUUID"
  unfolding randomUUID_def by (intro frame) (simp_all add: wake_simps)

lemma frames_applyUnarchive [frame]: "frames part (applyUnarchive b)"
  unfolding applyUnarchive_def by (intro frame) (simp_all add: wake_simps silent_mail)

lemma frames_removeOwnedMessage [frame]: "frames part (removeOwnedMessage m owner)"
  unfolding removeOwnedMessage_def by (intro frame) (simp_all add: wake_simps silent_mail)

end

locale wake_port = quiet_port part silent for part :: "core \<Rightarrow> 'p" and silent +
  fixes keyed :: "string option \<Rightarrow> bool"
  assumes part_enqueue: "keyed (cIdempotencyKey c) \<Longrightarrow> part (s\<lparr>commands := commands s @ [c], nextCommandId := n\<rparr>) = part s"
    and keyed_wake: "keyed None"
    and silent_wake: "silent (EvWakeFencedByMove b g i')" "silent (EvWakeFencedByHandoff b g i')"
      "silent (EvWakeSuppressed b g n)" "silent (EvCommandEnqueued c)"
begin

lemma frames_enqueue:
  assumes key: "keyed k"
  shows "frames part (applyEnqueue v b args g k n)"
proof (rule framesI)
  fix s x s' assume run: "applyEnqueue v b args g k n s = Inr (x, s')"
  have guard: "(if v \<in> set MAILBOX_ONLY_REFUSED_VERBS then bindM (mustGetBee b) refuseMailboxOnlyRuntime else returnM ()) s0
      = Inr (u, s1) \<Longrightarrow> s1 = s0" for s0 u s1
    by (auto simp: bindM_Inr mustGetBee_def refuseMailboxOnlyRuntime_def split: if_splits option.splits)
  have "cIdempotencyKey x = k"
    and "s' = s\<lparr>commands := commands s @ [x], nextCommandId := nextCommandId s + 1, auditLog := auditLog s @ [EvCommandEnqueued x]\<rparr>"
    using run by (auto simp: applyEnqueue_def bindM_Inr thenM_def audit_def dest!: guard)
  then show "part s' = part s"
    using part_log [where ev = "EvCommandEnqueued x" and s = "s\<lparr>commands := commands s @ [x], nextCommandId := nextCommandId s + 1\<rparr>"]
      part_enqueue [where c = x and s = s and n = "nextCommandId s + 1"] key silent_wake by simp
qed

lemma frames_scheduleWake [frame]: "frames part (scheduleWake bee)"
  unfolding scheduleWake_def Let_def by (intro frame frames_enqueue) (simp_all add: silent_wake keyed_wake)

lemma frames_applyWakeIfNeeded [frame]: "frames part (applyWakeIfNeeded b)"
  unfolding applyWakeIfNeeded_def Let_def by (intro frame) (simp_all add: silent_wake)

lemma frames_enqueueWake [frame]: "frames part (enqueueWake b)"
  unfolding enqueueWake_def by (intro frame)

text \<open>The mail of the task supply does not reset the feeds of the task supply.\<close>

lemma frames_send_supply: "soSender opts = TASK_SUPPLY_SENDER_NAME \<Longrightarrow> frames part (send b body opts)"
  unfolding send_def by (intro frame) (simp_all add: wake_simps silent_mail)

end

text \<open>A part of the store in which there are no commands at all.\<close>

locale mail_port = wake_port part silent "\<lambda>_. True" for part :: "core \<Rightarrow> 'p" and silent +
  assumes part_commands: "part (commands_update f5 s) = part s"
    and part_nextCommandId: "part (nextCommandId_update f6 s) = part s"
begin

lemmas part_simps = wake_simps part_commands part_nextCommandId

lemma frames_applyEnqueue [frame]: "frames part (applyEnqueue v b args g k n)"
  by (rule frames_enqueue) simp

end

text \<open>Any other mail does; so a part that it leaves alone has no feeds in it.\<close>

locale supply_port = mail_port +
  assumes part_taskSupplies: "part (taskSupplies_update f9 s) = part s"
    and silent_supply: "silent (EvTaskSupplyPut r)"
begin

lemma frames_applyResetTaskSupplyFeeds [frame]: "frames part (applyResetTaskSupplyFeeds b)"
  unfolding applyResetTaskSupplyFeeds_def Let_def
  by (intro frame) (simp_all add: part_taskSupplies silent_supply)

lemma frames_send [frame]: "frames part (send b body opts)"
  unfolding send_def by (intro frame) (simp_all add: wake_simps silent_mail)

end

end
