(* ===== verification/Effects.thy ===== *)
theory Effects
  imports Mail_Port
begin

text \<open>
  The ledger of keyed effects (v2/core/src/effectResolve.ts) and the recorded results of keyed requests
  (\<open>lookupRpcResult\<close>, \<open>recordRpcResult\<close>, \<open>updateRpcResult\<close> and \<open>resolveEffect\<close> of store.ts). A key of a
  spawn, a send or an archive is committed with its receipt or fenced for ever. The text of a receipt is
  its value; a receipt that does not parse is \<open>None\<close> in a committed row.
\<close>

section \<open>Tests on received values\<close>

definition verb_text :: "verb \<Rightarrow> string" where
  "verb_text v =
     (case v of VSpawn \<Rightarrow> ''spawn'' | VSendWake \<Rightarrow> ''send_wake'' | VReconnectTools \<Rightarrow> ''reconnect_tools''
      | VStop \<Rightarrow> ''stop'' | VRevive \<Rightarrow> ''revive'' | VArchive \<Rightarrow> ''archive'' | VUnarchive \<Rightarrow> ''unarchive''
      | VDelete \<Rightarrow> ''delete'')"

definition MAX_SAFE_INTEGER :: int where "MAX_SAFE_INTEGER = 2 ^ 53 - 1"

definition is_text :: "json option \<Rightarrow> bool" where
  "is_text v \<longleftrightarrow> (case v of Some (JStr (c # cs)) \<Rightarrow> True | _ \<Rightarrow> False)"

definition is_number :: "json option \<Rightarrow> bool" where
  "is_number v \<longleftrightarrow> (case v of Some (JNum n) \<Rightarrow> 0 \<le> n | _ \<Rightarrow> False)"

definition is_positive :: "json option \<Rightarrow> bool" where
  "is_positive v \<longleftrightarrow> (case v of Some (JNum n) \<Rightarrow> 0 < n \<and> n \<le> MAX_SAFE_INTEGER | _ \<Rightarrow> False)"

definition is_bool :: "json option \<Rightarrow> bool" where
  "is_bool v \<longleftrightarrow> (case v of Some (JBool b) \<Rightarrow> True | _ \<Rightarrow> False)"

definition is_null :: "json option \<Rightarrow> bool" where
  "is_null v \<longleftrightarrow> v = Some JNull"

definition is_member :: "string list \<Rightarrow> json option \<Rightarrow> bool" where
  "is_member vs v \<longleftrightarrow> (case v of Some (JStr x) \<Rightarrow> x \<in> set vs | _ \<Rightarrow> False)"

definition object_and :: "(jobject \<Rightarrow> bool) \<Rightarrow> json option \<Rightarrow> bool" where
  "object_and p v \<longleftrightarrow> (case v of Some (JObj x) \<Rightarrow> p x | _ \<Rightarrow> False)"

text \<open>\<open>optional\<close>: an own property that is there passes the test.\<close>

definition optional_field :: "jobject \<Rightarrow> (json option \<Rightarrow> bool) \<Rightarrow> string \<Rightarrow> bool" where
  "optional_field row check name \<longleftrightarrow> map_of row name = None \<or> check (map_of row name)"

definition is_hex_char :: "char \<Rightarrow> bool" where
  "is_hex_char c \<longleftrightarrow> c \<in> set ''0123456789abcdef''"

definition is_sha256 :: "string \<Rightarrow> bool" where
  "is_sha256 x \<longleftrightarrow> starts_with ''sha256:'' x \<and> length (drop 7 x) = 64 \<and> list_all is_hex_char (drop 7 x)"

definition is_digest :: "json option \<Rightarrow> bool" where
  "is_digest v \<longleftrightarrow> (case v of Some (JStr x) \<Rightarrow> is_sha256 x | _ \<Rightarrow> False)"

section \<open>The results a receipt may hold\<close>

definition EFFECT_VERBS :: "string list" where
  "EFFECT_VERBS = [''spawn'', ''send'', ''archive'']"

datatype effect_field = FieldText | FieldPositive | FieldCommand | FieldBool

definition EFFECT_RESULT_REQUIRED_FIELDS :: "string \<Rightarrow> (string \<times> effect_field) list" where
  "EFFECT_RESULT_REQUIRED_FIELDS v =
     (if v = ''spawn'' then [(''beeId'', FieldText), (''commandId'', FieldCommand)]
      else if v = ''send'' then [(''messageId'', FieldPositive), (''commandId'', FieldCommand), (''unarchived'', FieldBool)]
      else [(''commandId'', FieldPositive)])"

fun required_field :: "json option \<Rightarrow> effect_field \<Rightarrow> bool" where
  "required_field v FieldText = is_text v"
| "required_field v FieldPositive = is_positive v"
| "required_field v FieldCommand = (is_null v \<or> is_positive v)"
| "required_field v FieldBool = is_bool v"

definition command_json :: "nat option \<Rightarrow> json" where
  "command_json c = (case c of None \<Rightarrow> JNull | Some n \<Rightarrow> JNum (int n))"

definition validRequestBinding :: "string \<Rightarrow> jobject \<Rightarrow> bool" where
  "validRequestBinding verb v \<longleftrightarrow>
     map_of v ''version'' = Some (JNum 1) \<and> map_of v ''verb'' = Some (JStr verb)
     \<and> is_member [''envelope-v1'', ''interim-v1'', ''legacy''] (map_of v ''lane'') \<and> is_text (map_of v ''requestDigest'')"

definition validPhoneAdmission :: "jobject \<Rightarrow> bool" where
  "validPhoneAdmission v \<longleftrightarrow>
     is_text (map_of v ''ownerStoreId'') \<and> is_text (map_of v ''admissionId'')
     \<and> (is_null (map_of v ''contentDigest'') \<or> is_digest (map_of v ''contentDigest''))
     \<and> map_of v ''lane'' = Some (JStr ''envelope-v1'')"

definition validRuntimeStartHold :: "jobject \<Rightarrow> bool" where
  "validRuntimeStartHold v \<longleftrightarrow>
     map_of v ''code'' = Some (JStr ''account_auth_needed'')
     \<and> map_of v ''message'' = Some (JStr ''Waiting for refreshed account material'')"

definition validCellBase :: "jobject \<Rightarrow> bool" where
  "validCellBase v \<longleftrightarrow>
     is_text (map_of v ''sha'') \<and> is_member [''pinned'', ''head'', ''upstream''] (map_of v ''source'')
     \<and> optional_field v is_text ''upstreamRef'' \<and> optional_field v is_text ''upstreamSha''
     \<and> optional_field v is_number ''fetchedAt''"

definition validCandidate :: "jobject \<Rightarrow> bool" where
  "validCandidate c \<longleftrightarrow>
     is_text (map_of c ''accountId'')
     \<and> is_member [''eligible'', ''ineligible'', ''uncertain'', ''protected''] (map_of c ''status'')
     \<and> optional_field c is_text ''reason''
     \<and> list_all (optional_field c is_number) [''rate'', ''fairFinish'', ''maxProjectedPercent'']"

definition validAllocation :: "jobject \<Rightarrow> bool" where
  "validAllocation v \<longleftrightarrow>
     map_of v ''version'' = Some (JNum 1) \<and> is_member [''shadow'', ''active''] (map_of v ''mode'')
     \<and> is_text (map_of v ''scope'') \<and> (is_null (map_of v ''revision'') \<or> is_text (map_of v ''revision''))
     \<and> is_number (map_of v ''observedAt'')
     \<and> is_member [''spawn'', ''fork'', ''handoff'', ''swap''] (map_of v ''operation'')
     \<and> is_member [''selected'', ''wait''] (map_of v ''outcome'')
     \<and> (is_null (map_of v ''account'') \<or> is_text (map_of v ''account'')) \<and> is_text (map_of v ''reason'')
     \<and> (is_null (map_of v ''retryAt'') \<or> is_number (map_of v ''retryAt''))
     \<and> (case map_of v ''candidates'' of
          Some (JArr cs) \<Rightarrow> list_all (\<lambda>c. object_and validCandidate (Some c)) cs
        | _ \<Rightarrow> False)"

definition validEffectObject :: "string \<Rightarrow> jobject \<Rightarrow> nat option \<Rightarrow> bool" where
  "validEffectObject verb result commandId \<longleftrightarrow>
     list_all (\<lambda>(name, ty). map_of result name \<noteq> None \<and> required_field (map_of result name) ty)
       (EFFECT_RESULT_REQUIRED_FIELDS verb)
     \<and> optional_field result is_positive ''generation''
     \<and> optional_field result (object_and (validRequestBinding verb)) ''requestBinding''
     \<and> optional_field result (object_and validPhoneAdmission) ''phoneAdmission''
     \<and> optional_field result (\<lambda>v. v = Some (command_json commandId)) ''commandId''
     \<and> optional_field result (\<lambda>v. is_null v \<or> is_positive v) ''messageId''
     \<and> list_all (optional_field result is_text) [''agent'', ''accountReason'', ''allocationClaimId'']
     \<and> list_all (optional_field result (\<lambda>v. is_null v \<or> is_text v)) [''handle'', ''humanRef'', ''issuingNamespace'', ''account'']
     \<and> list_all (optional_field result is_bool) [''unarchived'', ''deduped'']
     \<and> optional_field result (is_member [''queued'', ''running'', ''done'', ''failed'']) ''status''
     \<and> optional_field result (object_and validRuntimeStartHold) ''runtimeStartHold''
     \<and> optional_field result (object_and validCellBase) ''cellBase''
     \<and> optional_field result (object_and validAllocation) ''allocation''"

definition validEffectResult :: "string \<Rightarrow> json \<Rightarrow> nat option \<Rightarrow> bool" where
  "validEffectResult verb value commandId \<longleftrightarrow>
     (case value of JObj result \<Rightarrow> validEffectObject verb result commandId | _ \<Rightarrow> False)"

section \<open>The ledger\<close>

text \<open>
  \<open>covered\<close>: the key belongs to the store's current coverage and its tail is 1 to 128 characters of
  a-z, A-Z, 0-9, _ and -.
\<close>

definition is_token_char :: "char \<Rightarrow> bool" where
  "is_token_char c \<longleftrightarrow>
     (let n = of_char c :: nat
      in (48 \<le> n \<and> n \<le> 57) \<or> (65 \<le> n \<and> n \<le> 90) \<or> (97 \<le> n \<and> n \<le> 122) \<or> n = 95 \<or> n = 45)"

definition covered_key :: "string \<Rightarrow> string \<Rightarrow> bool" where
  "covered_key coverage k \<longleftrightarrow>
     (let prefix = ''effect-v1:'' @ coverage @ '':''; tail = drop (length prefix) k
      in starts_with prefix k \<and> 1 \<le> length tail \<and> length tail \<le> 128 \<and> list_all is_token_char tail)"

definition effectCovered :: "core \<Rightarrow> string \<Rightarrow> bool" where
  "effectCovered s k \<longleftrightarrow> covered_key (coverageId s) k"

definition rpcRow :: "core \<Rightarrow> string \<Rightarrow> rpc_result option" where
  "rpcRow s k = find_row rxKey (rpcResults s) k"

definition effectRow :: "core \<Rightarrow> string \<Rightarrow> effect_row option" where
  "effectRow s k = find_row efKey (effectRows s) k"

definition legacyEffect :: "core \<Rightarrow> string \<Rightarrow> rpc_result option" where
  "legacyEffect s k = (case rpcRow s k of Some r \<Rightarrow> if rxVerb r \<in> set EFFECT_VERBS then Some r else None | None \<Rightarrow> None)"

definition validCommandId :: "nat option \<Rightarrow> bool" where
  "validCommandId c \<longleftrightarrow> (case c of None \<Rightarrow> True | Some n \<Rightarrow> 0 < n \<and> int n \<le> MAX_SAFE_INTEGER)"

definition validReceipt :: "string \<Rightarrow> effect_row option \<Rightarrow> effect_receipt \<Rightarrow> bool" where
  "validReceipt k row v \<longleftrightarrow>
     ecKey v = k \<and> ecVerb v \<in> set EFFECT_VERBS \<and> (\<forall>r \<in> set_option row. ecVerb v = efVerb r) \<and> 0 \<le> ecCreatedAt v
     \<and> validCommandId (ecCommandId v) \<and> validEffectResult (ecVerb v) (ecResult v) (ecCommandId v)"

definition legacyReceipt :: "string \<Rightarrow> rpc_result \<Rightarrow> effect_receipt" where
  "legacyReceipt k r =
     \<lparr>ecKey = k, ecVerb = rxVerb r, ecCommandId = rxCommandId r, ecResult = rxResult r, ecCreatedAt = rxCreatedAt r\<rparr>"

text \<open>The receipt that \<open>raw\<close> reads: of the row when it is committed, of the recorded result otherwise.\<close>

definition rawReceipt :: "string \<Rightarrow> effect_row option \<Rightarrow> rpc_result option \<Rightarrow> effect_receipt option" where
  "rawReceipt k row legacy =
     (case row of
        Some r \<Rightarrow> if efState r = EfCommitted then efReceipt r else map_option (legacyReceipt k) legacy
      | None \<Rightarrow> map_option (legacyReceipt k) legacy)"

definition commitEffect :: "effect_receipt \<Rightarrow> unit store_op" where
  "commitEffect v =
     modifyM (\<lambda>s. s\<lparr>effectRows := upsert_row efKey \<lparr>efKey = ecKey v, efVerb = ecVerb v, efState = EfCommitted, efReceipt = Some v\<rparr> (effectRows s)\<rparr>)"

definition effectRaw :: "string \<Rightarrow> (string \<times> effect_state \<times> effect_receipt option) option store_op" where
  "effectRaw k =
     bindM (requireM (k \<noteq> []) EffectInvalidError) (\<lambda>_.
     bindM (readM (\<lambda>s. (effectRow s k, legacyEffect s k))) (\<lambda>(row, legacy).
       if row = None \<and> legacy = None then returnM None
       else
         bindM (requireM (\<forall>r \<in> set_option row. efVerb r \<in> set EFFECT_VERBS) EffectHistoryUnknownError) (\<lambda>_.
           if map_option efState row = Some EfFenced \<and> legacy = None
           then bindM (requireM (\<forall>r \<in> set_option row. efReceipt r = None) EffectHistoryUnknownError) (\<lambda>_.
                  returnM (Some (efVerb (the row), EfFenced, None)))
           else (case rawReceipt k row legacy of
                   None \<Rightarrow> throwM EffectHistoryUnknownError
                 | Some v \<Rightarrow>
                     bindM (requireM (validReceipt k row v) EffectHistoryUnknownError) (\<lambda>_.
                     bindM (whenM (map_option efState row \<noteq> Some EfCommitted) (commitEffect v)) (\<lambda>_.
                       returnM (Some (ecVerb v, EfCommitted, Some v))))))))"

definition effectLookup :: "string \<Rightarrow> string option \<Rightarrow> effect_receipt option store_op" where
  "effectLookup k verb =
     bindM (effectRaw k) (\<lambda>row.
       case row of
         None \<Rightarrow>
           bindM (readM (\<lambda>s. effectCovered s k)) (\<lambda>covered.
           bindM (requireM (starts_with ''effect-v1:'' k \<longrightarrow> covered) EffectHistoryUnknownError) (\<lambda>_. returnM None))
       | Some (v, state, receipt) \<Rightarrow>
           bindM (requireM (state \<noteq> EfFenced) EffectFencedError) (\<lambda>_.
           bindM (requireM (\<forall>x \<in> set_option verb. v = x) EffectConflictError) (\<lambda>_.
             returnM receipt)))"

definition effectRecord :: "effect_receipt \<Rightarrow> unit store_op" where
  "effectRecord receipt =
     (if ecVerb receipt \<notin> set EFFECT_VERBS then returnM ()
      else
        bindM (effectRaw (ecKey receipt)) (\<lambda>existing.
          case existing of
            Some (v, state, r) \<Rightarrow> throwM (if state = EfFenced then EffectFencedError else EffectConflictError)
          | None \<Rightarrow>
              modifyM (\<lambda>s. s\<lparr>effectRows := effectRows s @
                [\<lparr>efKey = ecKey receipt, efVerb = ecVerb receipt, efState = EfCommitted, efReceipt = Some receipt\<rparr>]\<rparr>)))"

datatype effect_resolution = ErCommitted effect_receipt | ErNeverSeenFenced | ErInFlight

definition effectObserve :: "string \<Rightarrow> string \<Rightarrow> effect_resolution store_op" where
  "effectObserve k verb =
     bindM (effectRaw k) (\<lambda>row.
     bindM (requireM (\<forall>(v, _, _) \<in> set_option row. v = verb) EffectConflictError) (\<lambda>_.
     bindM (readM (\<lambda>s. effectCovered s k)) (\<lambda>covered.
       case row of
         Some (v, state, Some receipt) \<Rightarrow> returnM (ErCommitted receipt)
       | Some (v, EfFenced, None) \<Rightarrow> if covered then returnM ErNeverSeenFenced else throwM EffectHistoryUnknownError
       | _ \<Rightarrow> throwM EffectHistoryUnknownError)))"

definition effectResolve :: "string \<Rightarrow> string \<Rightarrow> bool \<Rightarrow> bool \<Rightarrow> effect_resolution store_op" where
  "effectResolve k verb inFlight commandExists =
     bindM (effectRaw k) (\<lambda>row.
     bindM (requireM (\<forall>(v, _, _) \<in> set_option row. v = verb) EffectConflictError) (\<lambda>_.
       case row of
         Some (v, state, Some receipt) \<Rightarrow> returnM (ErCommitted receipt)
       | _ \<Rightarrow>
           bindM (readM (\<lambda>s. effectCovered s k)) (\<lambda>covered.
           bindM (requireM (covered \<and> \<not> commandExists) EffectHistoryUnknownError) (\<lambda>_.
             if map_option (\<lambda>(_, state, _). state) row = Some EfFenced then returnM ErNeverSeenFenced
             else if inFlight then returnM ErInFlight
             else thenM (modifyM (\<lambda>s. s\<lparr>effectRows := effectRows s @
                      [\<lparr>efKey = k, efVerb = verb, efState = EfFenced, efReceipt = None\<rparr>]\<rparr>))
                    (returnM ErNeverSeenFenced)))))"

text \<open>
  \<open>open\<close>: a store that opens its database keeps its owner identity (or takes one, when the meta row is
  missing: the empty string here) and takes a new coverage, so older keys are no longer covered.
\<close>

definition openEffects :: "unit store_op" where
  "openEffects =
     bindM (readM ownerStoreId) (\<lambda>o'.
     bindM (if o' = [] then randomUUID else returnM o') (\<lambda>owner.
     bindM (requireM (length owner = 36 \<and> list_all (\<lambda>c. is_hex_char c \<or> c = CHR ''-'') owner) EffectInvalidError) (\<lambda>_.
     bindM randomUUID (\<lambda>u. modifyM (\<lambda>s. s\<lparr>ownerStoreId := owner, coverageId := u\<rparr>)))))"

section \<open>Recorded results\<close>

definition resolveEffect :: "string \<Rightarrow> string \<Rightarrow> bool \<Rightarrow> (effect_resolution \<times> command_status option) store_op" where
  "resolveEffect k verb inFlight =
     bindM (readM (\<lambda>s. (rpcRow s k, getCommandByIdempotencyKey s k))) (\<lambda>(seen, command).
     bindM (requireM ((\<forall>r \<in> set_option seen. rxVerb r = verb) \<and> (\<forall>c \<in> set_option command. verb_text (cVerb c) = verb))
              EffectConflictError) (\<lambda>_.
     bindM (effectResolve k verb inFlight (command \<noteq> None)) (\<lambda>result.
     bindM (readM (\<lambda>s. case result of
              ErCommitted receipt \<Rightarrow> map_option cStatus (Option.bind (ecCommandId receipt) (getCommand s))
            | _ \<Rightarrow> None)) (\<lambda>status.
       returnM (result, status)))))"

text \<open>The recorded result of a key: of the ledger, or else of the table of recorded results.\<close>

definition lookupRpcResult :: "string \<Rightarrow> rpc_result option store_op" where
  "lookupRpcResult k =
     bindM (effectLookup k None) (\<lambda>effect.
       case effect of
         Some e \<Rightarrow> returnM (Some \<lparr>rxKey = ecKey e, rxVerb = ecVerb e, rxCommandId = ecCommandId e,
                                rxResult = ecResult e, rxCreatedAt = ecCreatedAt e\<rparr>)
       | None \<Rightarrow> readM (\<lambda>s. rpcRow s k))"

text \<open>
  \<open>assertLegacyKey\<close> of executionFence.ts: a key that an execution claim or a fenced execution owns takes
  no other path.
\<close>

definition fencedKey :: "core \<Rightarrow> string \<Rightarrow> bool" where
  "fencedKey s k \<longleftrightarrow> list_ex (\<lambda>c. xcKey c = k) (execClaims s) \<or> list_ex (\<lambda>e. xeKey e = k) (execEffects s)"

definition assertLegacyKey :: "string \<Rightarrow> unit store_op" where
  "assertLegacyKey k = bindM (readM (\<lambda>s. fencedKey s k)) (\<lambda>owned. requireM (\<not> owned) (ExecutionFenceError XcUnsupported))"

definition requireLegacyKey :: "string \<Rightarrow> unit store_op" where
  "requireLegacyKey k = bindM (readM executionKey) (\<lambda>own. whenM (own \<noteq> Some k) (assertLegacyKey k))"

text \<open>
  \<open>ORDER BY created_at, rowid LIMIT excess\<close>: the rows are in rowid order and \<open>sort_key\<close> is stable.
\<close>

definition evictResults :: "nat \<Rightarrow> rpc_result list \<Rightarrow> rpc_result list" where
  "evictResults bound rs =
     (let gone = map rxKey (take (length rs - bound) (sort_key rxCreatedAt rs))
      in filter (\<lambda>r. rxKey r \<notin> set gone) rs)"

definition recordRpcResult :: "string \<Rightarrow> string \<Rightarrow> nat option \<Rightarrow> json \<Rightarrow> unit store_op" where
  "recordRpcResult k verb commandId result =
     bindM (requireLegacyKey k) (\<lambda>_.
     bindM (effectLookup k (Some verb)) (\<lambda>_.
     bindM (readM clock) (\<lambda>t.
     bindM (effectRecord \<lparr>ecKey = k, ecVerb = verb, ecCommandId = commandId, ecResult = result, ecCreatedAt = t\<rparr>) (\<lambda>_.
     bindM (readM (\<lambda>s. rpcRow s k)) (\<lambda>clash.
     bindM (requireM (clash = None) SqliteConstraintError) (\<lambda>_.
       modifyM (\<lambda>s. s\<lparr>rpcResults := evictResults (maxRpcResults s)
         (rpcResults s @ [\<lparr>rxKey = k, rxVerb = verb, rxCommandId = commandId, rxResult = result, rxCreatedAt = t\<rparr>])\<rparr>)))))))"

text \<open>The settled receipt of a reserved key replaces the recorded one.\<close>

definition updateRpcResult :: "string \<Rightarrow> json \<Rightarrow> unit store_op" where
  "updateRpcResult k result =
     bindM (readM (\<lambda>s. rpcRow s k)) (\<lambda>row.
     bindM (requireM (row \<noteq> None) (CoreError ''rpc result is not recorded'')) (\<lambda>_.
       modifyM (\<lambda>s. s\<lparr>rpcResults := update_rows (\<lambda>r. rxKey r = k) (\<lambda>r. r\<lparr>rxResult := result\<rparr>) (rpcResults s)\<rparr>)))"

section \<open>What the operations leave alone\<close>

lemma frames_effectRaw [frame]: "(\<And>s g. f (effectRows_update g s) = f s) \<Longrightarrow> frames f (effectRaw k)"
  unfolding effectRaw_def commitEffect_def by (intro frame) simp

lemma frames_effectLookup [frame]: "(\<And>s g. f (effectRows_update g s) = f s) \<Longrightarrow> frames f (effectLookup k v)"
  unfolding effectLookup_def by (intro frame) simp

lemma frames_requireLegacyKey [frame]: "frames f (requireLegacyKey k)"
  unfolding requireLegacyKey_def assertLegacyKey_def by (intro frame)

end
