(* ===== verification/Executions.thy ===== *)
theory Executions
  imports Effects
begin

text \<open>
  Fenced executions (v2/core/src/executionFence.ts and executionStart.ts): a coordinator registers, moves
  a claim by compare-and-set, and admits a request at most once under the current claim; a fenced spawn
  keeps a durable start intent through preparation, dispatch, release and acknowledgement. The row texts
  are their values, so the tests of a row that only a corrupted text could fail are those on its fields.
\<close>

section \<open>Canonical data\<close>

text \<open>\<open>sortValue\<close> of canonical.ts. Two values have one digest exactly when they sort to one value.\<close>

fun sortValue :: "json \<Rightarrow> json" where
  "sortValue (JArr vs) = JArr (map sortValue vs)"
| "sortValue (JObj kvs) = JObj (sort_key fst (map (\<lambda>(k, v). (k, sortValue v)) kvs))"
| "sortValue v = v"

definition canonicalJson :: "json \<Rightarrow> string" where
  "canonicalJson v = json_text (sortValue v)"

text \<open>The hash is a parameter: from a text to the hexadecimal digits of its SHA-256.\<close>

definition canonicalDigest :: "(string \<Rightarrow> string) \<Rightarrow> json \<Rightarrow> string" where
  "canonicalDigest sha v = ''sha256:'' @ sha (canonicalJson v)"

text \<open>\<open>assertCanonicalData\<close>: a function is no data.\<close>

fun canonical_data :: "json \<Rightarrow> bool" where
  "canonical_data (JArr vs) = list_all canonical_data vs"
| "canonical_data (JObj kvs) = list_all (\<lambda>(k, v). canonical_data v) kvs"
| "canonical_data (JFun f) = False"
| "canonical_data v = True"

section \<open>Reading claims and requests\<close>

definition fenceInvalid :: "'a store_op" where
  "fenceInvalid = throwM (ExecutionFenceError XcInvalid)"

text \<open>\<open>object\<close>: exactly the given own properties.\<close>

definition closedObject :: "json \<Rightarrow> string list \<Rightarrow> jobject store_op" where
  "closedObject v keys =
     (case v of
        JObj row \<Rightarrow> if list_all (\<lambda>(k, _). k \<in> set keys) row \<and> list_all (\<lambda>k. map_of row k \<noteq> None) keys
                    then returnM row else fenceInvalid
      | _ \<Rightarrow> fenceInvalid)"

definition fence_text :: "json option \<Rightarrow> string option" where
  "fence_text v = (case v of Some (JStr x) \<Rightarrow> if js_trim x \<noteq> [] \<and> utf16_length x \<le> 1024 then Some x else None | _ \<Rightarrow> None)"

definition fence_digest :: "json option \<Rightarrow> string option" where
  "fence_digest v = (case v of Some (JStr x) \<Rightarrow> if is_sha256 x then Some x else None | _ \<Rightarrow> None)"

definition fence_generation :: "json option \<Rightarrow> nat option" where
  "fence_generation v =
     (case v of Some (JNum n) \<Rightarrow> if 1 \<le> n \<and> n \<le> MAX_SAFE_INTEGER then Some (nat n) else None | _ \<Rightarrow> None)"

definition orInvalid :: "'a option \<Rightarrow> 'a store_op" where
  "orInvalid x = (case x of Some v \<Rightarrow> returnM v | None \<Rightarrow> fenceInvalid)"

definition TOKEN_KEYS :: "string list" where
  "TOKEN_KEYS = [''version'', ''issuerId'', ''continuationId'', ''generation'', ''claimId'', ''grantDigest'',
                 ''ownerStoreId'', ''coverageId'']"

definition BINDING_KEYS :: "string list" where
  "BINDING_KEYS = [''verb'', ''resource'', ''digestVersion'', ''requestDigest'', ''idempotencyKey'']"

text \<open>A token, and the part of a claim that binds it to a request.\<close>

record exec_token =
  xkIssuer :: string
  xkContinuation :: string
  xkGeneration :: nat
  xkClaimId :: string
  xkGrantDigest :: string
  xkOwnerStore :: string
  xkCoverage :: string

record exec_binding =
  xbVerb :: exec_verb
  xbBeeId :: string
  xbRequestDigest :: string
  xbKey :: string

record exec_request =
  xqClaim :: exec_claim
  xqArgs :: jobject

definition claimOf :: "exec_token \<Rightarrow> exec_binding \<Rightarrow> exec_claim" where
  "claimOf t b =
     \<lparr>xcIssuer = xkIssuer t, xcContinuation = xkContinuation t, xcGeneration = xkGeneration t, xcClaimId = xkClaimId t,
      xcGrantDigest = xkGrantDigest t, xcOwnerStore = xkOwnerStore t, xcCoverage = xkCoverage t,
      xcVerb = xbVerb b, xcBeeId = xbBeeId b, xcRequestDigest = xbRequestDigest b, xcKey = xbKey b\<rparr>"

definition executionToken :: "json \<Rightarrow> exec_token store_op" where
  "executionToken v =
     bindM (closedObject v TOKEN_KEYS) (\<lambda>row.
     bindM (requireM (map_of row ''version'' = Some (JNum 1)) (ExecutionFenceError XcInvalid)) (\<lambda>_.
     bindM (orInvalid (fence_generation (map_of row ''generation''))) (\<lambda>generation.
     bindM (orInvalid (fence_text (map_of row ''issuerId''))) (\<lambda>issuer.
     bindM (orInvalid (fence_text (map_of row ''continuationId''))) (\<lambda>continuation.
     bindM (orInvalid (fence_text (map_of row ''claimId''))) (\<lambda>claimId.
     bindM (orInvalid (fence_digest (map_of row ''grantDigest''))) (\<lambda>grant.
     bindM (orInvalid (fence_text (map_of row ''ownerStoreId''))) (\<lambda>owner.
     bindM (orInvalid (fence_text (map_of row ''coverageId''))) (\<lambda>coverage.
       returnM \<lparr>xkIssuer = issuer, xkContinuation = continuation, xkGeneration = generation, xkClaimId = claimId,
                xkGrantDigest = grant, xkOwnerStore = owner, xkCoverage = coverage\<rparr>)))))))))"

definition exec_verb_text :: "exec_verb \<Rightarrow> string" where
  "exec_verb_text v = (case v of XvSend \<Rightarrow> ''send'' | XvArchive \<Rightarrow> ''archive'' | XvSpawn \<Rightarrow> ''spawn'')"

definition parse_exec_verb :: "json option \<Rightarrow> exec_verb option" where
  "parse_exec_verb v =
     (if v = Some (JStr ''send'') then Some XvSend
      else if v = Some (JStr ''archive'') then Some XvArchive
      else if v = Some (JStr ''spawn'') then Some XvSpawn else None)"

definition executionBinding :: "jobject \<Rightarrow> exec_binding store_op" where
  "executionBinding value =
     bindM (orInvalid (parse_exec_verb (map_of value ''verb''))) (\<lambda>verb.
     bindM (requireM (map_of value ''digestVersion'' = Some (JNum 1)) (ExecutionFenceError XcInvalid)) (\<lambda>_.
     bindM (closedObject (case map_of value ''resource'' of Some r \<Rightarrow> r | None \<Rightarrow> JNull) [''beeId'']) (\<lambda>resource.
     bindM (orInvalid (fence_text (map_of resource ''beeId''))) (\<lambda>bee.
     bindM (orInvalid (fence_digest (map_of value ''requestDigest''))) (\<lambda>digest.
     bindM (orInvalid (fence_text (map_of value ''idempotencyKey''))) (\<lambda>key.
       returnM \<lparr>xbVerb = verb, xbBeeId = bee, xbRequestDigest = digest, xbKey = key\<rparr>))))))"

definition executionClaim :: "json \<Rightarrow> exec_claim store_op" where
  "executionClaim v =
     bindM (closedObject v (TOKEN_KEYS @ BINDING_KEYS)) (\<lambda>row.
     bindM (executionToken (JObj (map (\<lambda>k. (k, case map_of row k of Some x \<Rightarrow> x | None \<Rightarrow> JNull)) TOKEN_KEYS))) (\<lambda>token.
     bindM (executionBinding row) (\<lambda>b. returnM (claimOf token b))))"

definition requestArgs :: "exec_verb \<Rightarrow> string list" where
  "requestArgs v =
     (case v of
        XvSpawn \<Rightarrow> [''id'', ''name'', ''agent'', ''substrate'', ''cwd'', ''account'', ''args'', ''env'', ''tags'', ''title'',
                    ''parentId'', ''parentExternal'', ''prompt'', ''cell'', ''allocationContext'', ''allocationClaim'']
      | XvArchive \<Rightarrow> [''beeId'']
      | XvSend \<Rightarrow> [''beeId'', ''body'', ''sender'', ''urgency'', ''senderKind''])"

definition requestMatches :: "exec_binding \<Rightarrow> jobject \<Rightarrow> bool" where
  "requestMatches b args \<longleftrightarrow>
     list_all (\<lambda>(k, _). k \<in> set (requestArgs (xbVerb b))) args
     \<and> map_of args (if xbVerb b = XvSpawn then ''id'' else ''beeId'') = Some (JStr (xbBeeId b))
     \<and> (xbVerb b = XvSend \<longrightarrow> (\<exists>x. map_of args ''body'' = Some (JStr x)))"

definition executionRequestDigest :: "(string \<Rightarrow> string) \<Rightarrow> exec_verb \<Rightarrow> string \<Rightarrow> jobject \<Rightarrow> string" where
  "executionRequestDigest sha v bee args =
     canonicalDigest sha (JObj [(''version'', JNum 1), (''verb'', JStr (exec_verb_text v)),
       (''resource'', JObj [(''beeId'', JStr bee)]), (''args'', JObj args)])"

definition executionRequest :: "(string \<Rightarrow> string) \<Rightarrow> json \<Rightarrow> exec_request store_op" where
  "executionRequest sha v =
     bindM (closedObject v (BINDING_KEYS @ [''executionFence'', ''args''])) (\<lambda>row.
     bindM (executionBinding row) (\<lambda>b.
       case map_of row ''args'' of
         Some (JObj args) \<Rightarrow>
           bindM (requireM (requestMatches b args \<and> canonical_data (JObj args)
                            \<and> executionRequestDigest sha (xbVerb b) (xbBeeId b) args = xbRequestDigest b)
                    (ExecutionFenceError XcInvalid)) (\<lambda>_.
           bindM (executionToken (the (map_of row ''executionFence''))) (\<lambda>token.
             returnM \<lparr>xqClaim = claimOf token b, xqArgs = args\<rparr>))
       | _ \<Rightarrow> fenceInvalid))"

text \<open>\<open>JSON.stringify\<close> of a claim, with its members in the order of the token and the binding.\<close>

definition claim_json :: "exec_claim \<Rightarrow> json" where
  "claim_json c =
     JObj [(''version'', JNum 1), (''issuerId'', JStr (xcIssuer c)), (''continuationId'', JStr (xcContinuation c)),
           (''generation'', JNum (int (xcGeneration c))), (''claimId'', JStr (xcClaimId c)),
           (''grantDigest'', JStr (xcGrantDigest c)), (''ownerStoreId'', JStr (xcOwnerStore c)),
           (''coverageId'', JStr (xcCoverage c)), (''digestVersion'', JNum 1), (''verb'', JStr (exec_verb_text (xcVerb c))),
           (''resource'', JObj [(''beeId'', JStr (xcBeeId c))]), (''requestDigest'', JStr (xcRequestDigest c)),
           (''idempotencyKey'', JStr (xcKey c))]"

section \<open>Coordinators and claims\<close>

definition registerCoordinator :: "json \<Rightarrow> nat \<Rightarrow> (string \<times> nat) store_op" where
  "registerCoordinator issuerId uid =
     bindM (orInvalid (fence_text (Some issuerId))) (\<lambda>issuer.
     bindM (readM (\<lambda>s. map_of (execCoordinators s) issuer)) (\<lambda>previous.
     bindM (requireM (previous = None \<or> previous = Some uid) (ExecutionFenceError XcUntrusted)) (\<lambda>_.
     bindM (whenM (previous = None)
              (thenM (modifyM (\<lambda>s. s\<lparr>execCoordinators := execCoordinators s @ [(issuer, uid)]\<rparr>))
                 (audit (EvExec (XvRegistered issuer uid))))) (\<lambda>_.
       returnM (issuer, uid)))))"

definition requireCoordinator :: "string \<Rightarrow> nat \<Rightarrow> unit store_op" where
  "requireCoordinator issuer uid =
     bindM (readM (\<lambda>s. map_of (execCoordinators s) issuer)) (\<lambda>row.
       requireM (row = Some uid) (ExecutionFenceError XcUntrusted))"

definition currentClaim :: "core \<Rightarrow> exec_claim \<Rightarrow> exec_claim option" where
  "currentClaim s token =
     List.find (\<lambda>c. xcIssuer c = xcIssuer token \<and> xcContinuation c = xcContinuation token) (execClaims s)"

definition claimCovered :: "core \<Rightarrow> exec_claim \<Rightarrow> bool" where
  "claimCovered s token \<longleftrightarrow> xcOwnerStore token = ownerStoreId s \<and> xcCoverage token = coverageId s"

definition validateCurrent :: "exec_claim \<Rightarrow> unit store_op" where
  "validateCurrent claim =
     bindM (readM (\<lambda>s. (claimCovered s claim, currentClaim s claim))) (\<lambda>(covered, current).
     bindM (requireM covered (ExecutionFenceError XcHistoryUnknown)) (\<lambda>_.
       requireM (current = Some claim) (ExecutionFenceError XcStale)))"

section \<open>Admitted executions\<close>

text \<open>\<open>row\<close>: the effect of a key; a row that contradicts itself is held.\<close>

definition execRowSound :: "string \<Rightarrow> exec_effect \<Rightarrow> bool" where
  "execRowSound key e \<longleftrightarrow>
     xcKey (xeBinding e) = key
     \<and> (xcVerb (xeBinding e) = XvArchive \<longrightarrow>
          xrCommandId (xeReceipt e) \<noteq> None \<and> xrCommandId (xeReceipt e) = xeCommand e)
     \<and> xrClaim (xeReceipt e) = xeBinding e"

definition execRow :: "string \<Rightarrow> exec_effect option store_op" where
  "execRow key =
     bindM (readM (\<lambda>s. find_row xeKey (execEffects s) key)) (\<lambda>row.
       case row of
         None \<Rightarrow> returnM None
       | Some e \<Rightarrow> bindM (requireM (execRowSound key e) (ExecutionFenceError XcHistoryUnknown)) (\<lambda>_. returnM (Some e)))"

definition updateExecEffect :: "string \<Rightarrow> (exec_effect \<Rightarrow> exec_effect) \<Rightarrow> unit store_op" where
  "updateExecEffect key f = modifyM (\<lambda>s. s\<lparr>execEffects := update_rows (\<lambda>e. xeKey e = key) f (execEffects s)\<rparr>)"

definition setReceipt :: "exec_receipt \<Rightarrow> exec_effect \<Rightarrow> exec_effect" where
  "setReceipt r e = e\<lparr>xeReceipt := r\<rparr>"

text \<open>The UPDATE that settles a pending command as done.\<close>

definition finishPending :: "nat option \<Rightarrow> unit store_op" where
  "finishPending i =
     bindM (readM clock) (\<lambda>t.
       modifyM (\<lambda>s. s\<lparr>commands := update_rows (\<lambda>c. Some (cId c) = i \<and> (cStatus c = CQueued \<or> cStatus c = CRunning))
         (\<lambda>c. c\<lparr>cStatus := CDone, cFinishedAt := Some t\<rparr>) (commands s)\<rparr>))"

definition refuseExecution :: "string \<Rightarrow> unit store_op" where
  "refuseExecution key =
     bindM (execRow key) (\<lambda>row.
       case row of
         None \<Rightarrow> throwM (JsError ''TypeError'')
       | Some e \<Rightarrow>
           whenM (xrStatus (xeReceipt e) = XsQueued)
             (bindM (updateExecEffect key (setReceipt ((xeReceipt e)\<lparr>xrStatus := XsRefusedStale\<rparr>))) (\<lambda>_.
              bindM (finishPending (xrCommandId (xeReceipt e))) (\<lambda>_.
                audit (EvExec (XvRefusedStale (xcBeeId (xeBinding e)) key (xrCommandId (xeReceipt e))))))))"

definition prepareExecution :: "exec_claim \<Rightarrow> exec_receipt option store_op" where
  "prepareExecution claim =
     bindM (execRow (xcKey claim)) (\<lambda>prior.
       case prior of
         Some e \<Rightarrow>
           bindM (requireM (xeBinding e = claim)
                    (ExecutionFenceError
                       (if xcGeneration (xeBinding e) \<noteq> xcGeneration claim \<or> xcClaimId (xeBinding e) \<noteq> xcClaimId claim
                        then XcStale else XcConflict))) (\<lambda>_.
             returnM (Some (xeReceipt e)))
       | None \<Rightarrow>
           bindM (readM (\<lambda>s. (claimCovered s claim, currentClaim s claim))) (\<lambda>(covered, current).
           bindM (requireM covered (ExecutionFenceError XcHistoryUnknown)) (\<lambda>_.
           bindM (requireM (current = Some claim) (ExecutionFenceError XcStale)) (\<lambda>_.
             returnM None))))"

definition recordExecution :: "exec_claim \<Rightarrow> nat option \<Rightarrow> json \<Rightarrow> exec_receipt store_op" where
  "recordExecution claim commandId result =
     (let receipt = \<lparr>xrClaim = claim, xrStatus = (if xcVerb claim = XvSend then XsCompleted else XsQueued),
                     xrCommandId = commandId, xrResult = result\<rparr>;
          column = (if xcVerb claim = XvSend then None else commandId)
      in bindM (readM (\<lambda>s. xcKey claim \<in> xeKey ` set (execEffects s)
                         \<or> (column \<noteq> None \<and> column \<in> xeCommand ` set (execEffects s)))) (\<lambda>clash.
         bindM (requireM (\<not> clash) SqliteConstraintError) (\<lambda>_.
         bindM (modifyM (\<lambda>s. s\<lparr>execEffects := execEffects s @
                  [\<lparr>xeKey = xcKey claim, xeBinding = claim, xeReceipt = receipt, xeCommand = column\<rparr>]\<rparr>)) (\<lambda>_.
         bindM (audit (EvExec (XvAdmitted receipt))) (\<lambda>_. returnM receipt)))))"

definition refusedAdmission :: "exec_claim \<Rightarrow> exec_receipt store_op" where
  "refusedAdmission claim =
     bindM (readM (\<lambda>s. find_row xrClaim (execRefusals s) claim)) (\<lambda>previous.
       case previous of
         Some r \<Rightarrow> returnM r
       | None \<Rightarrow>
           (let receipt = \<lparr>xrClaim = claim, xrStatus = XsRefusedStale, xrCommandId = None, xrResult = JNull\<rparr>
            in bindM (modifyM (\<lambda>s. s\<lparr>execRefusals := execRefusals s @ [receipt]\<rparr>)) (\<lambda>_.
               bindM (audit (EvExec (XvRefusedAdmission receipt))) (\<lambda>_. returnM receipt))))"

definition observeExecution :: "exec_claim \<Rightarrow> exec_receipt option store_op" where
  "observeExecution claim =
     bindM (readM (\<lambda>s. find_row xrClaim (execRefusals s) claim)) (\<lambda>refusal.
       case refusal of Some r \<Rightarrow> returnM (Some r) | None \<Rightarrow> prepareExecution claim)"

definition beginSpawn :: "exec_claim \<Rightarrow> exec_receipt store_op" where
  "beginSpawn claim =
     bindM (recordExecution claim None JNull) (\<lambda>receipt.
     bindM (updateExecEffect (xcKey claim) (setReceipt (receipt\<lparr>xrStatus := XsPreparing\<rparr>))) (\<lambda>_.
       returnM (receipt\<lparr>xrStatus := XsPreparing\<rparr>)))"

text \<open>\<open>command_id\<close> is UNIQUE.\<close>

definition admitSpawn :: "exec_claim \<Rightarrow> nat \<Rightarrow> json \<Rightarrow> exec_receipt store_op" where
  "admitSpawn claim commandId result =
     bindM (execRow (xcKey claim)) (\<lambda>old.
       case old of
         None \<Rightarrow> throwM (ExecutionFenceError XcHistoryUnknown)
       | Some e \<Rightarrow>
           bindM (requireM (xrStatus (xeReceipt e) = XsPreparing) (ExecutionFenceError XcHistoryUnknown)) (\<lambda>_.
           bindM (validateCurrent (xeBinding e)) (\<lambda>_.
           bindM (readM (\<lambda>s. list_ex (\<lambda>x. xeCommand x = Some commandId \<and> xeKey x \<noteq> xcKey claim) (execEffects s))) (\<lambda>clash.
           bindM (requireM (\<not> clash) SqliteConstraintError) (\<lambda>_.
             (let receipt = (xeReceipt e)\<lparr>xrStatus := XsQueued, xrCommandId := Some commandId, xrResult := result\<rparr>
              in bindM (updateExecEffect (xcKey claim) (\<lambda>x. x\<lparr>xeReceipt := receipt, xeCommand := Some commandId\<rparr>)) (\<lambda>_.
                   returnM receipt)))))))"

definition spawnUnknown :: "string \<Rightarrow> unit store_op" where
  "spawnUnknown key =
     bindM (execRow key) (\<lambda>old.
       case old of
         None \<Rightarrow> returnM ()
       | Some e \<Rightarrow>
           whenM (xrStatus (xeReceipt e) \<noteq> XsCompleted)
             (thenM (updateExecEffect key (setReceipt ((xeReceipt e)\<lparr>xrStatus := XsOutcomeUnknown\<rparr>)))
                (audit (EvExec (XvSpawnUnknown (xcBeeId (xeBinding e)) key)))))"

definition spawnStarted :: "string \<Rightarrow> unit store_op" where
  "spawnStarted key =
     bindM (execRow key) (\<lambda>old.
       case old of
         None \<Rightarrow> throwM (ExecutionFenceError XcHistoryUnknown)
       | Some e \<Rightarrow>
           bindM (requireM (xcVerb (xeBinding e) = XvSpawn \<and> xrStatus (xeReceipt e) = XsQueued)
                    (ExecutionFenceError XcHistoryUnknown)) (\<lambda>_.
             updateExecEffect key (setReceipt ((xeReceipt e)\<lparr>xrStatus := XsCompleted\<rparr>))))"

text \<open>Whether a command of the queue may run.\<close>

definition commandAllowed :: "nat \<Rightarrow> bool store_op" where
  "commandAllowed i =
     bindM (readM (\<lambda>s. (List.find (\<lambda>e. xeCommand e = Some i) (execEffects s), getCommand s i))) (\<lambda>(row, command).
       case row of
         None \<Rightarrow>
           (case Option.bind command cIdempotencyKey of
              None \<Rightarrow> returnM True
            | Some k \<Rightarrow>
                bindM (readM (\<lambda>s. k \<noteq> [] \<and> list_ex (\<lambda>c. xcKey c = k) (execClaims s))) (\<lambda>granted.
                bindM (requireM (\<not> granted) (ExecutionFenceError XcHistoryUnknown)) (\<lambda>_. returnM True)))
       | Some r \<Rightarrow>
           bindM (execRow (xeKey r)) (\<lambda>found.
             case found of
               None \<Rightarrow> throwM (JsError ''TypeError'')
             | Some e \<Rightarrow>
                 bindM (requireM (case command of
                          None \<Rightarrow> False
                        | Some c \<Rightarrow> verb_text (cVerb c) = exec_verb_text (xcVerb (xeBinding e))
                            \<and> cBeeId c = xcBeeId (xeBinding e) \<and> cIdempotencyKey c = Some (xcKey (xeBinding e)))
                          (ExecutionFenceError XcHistoryUnknown)) (\<lambda>_.
                   if xrStatus (xeReceipt e) = XsCompleted
                   then bindM (finishPending (Some i)) (\<lambda>_.
                        bindM (audit (EvExec (XvCompletedReplay (xcBeeId (xeBinding e)) i))) (\<lambda>_. returnM False))
                   else if xrStatus (xeReceipt e) = XsRefusedStale then returnM False
                   else
                     bindM (readM (\<lambda>s. claimCovered s (xeBinding e) \<and> currentClaim s (xeBinding e) = Some (xeBinding e))) (\<lambda>live.
                       if live then returnM True
                       else bindM (refuseExecution (xeKey r)) (\<lambda>_. returnM False)))))"

definition executionCompleted :: "nat \<Rightarrow> unit store_op" where
  "executionCompleted i =
     bindM (readM (\<lambda>s. List.find (\<lambda>e. xeCommand e = Some i) (execEffects s))) (\<lambda>row.
       case row of
         None \<Rightarrow> returnM ()
       | Some r \<Rightarrow>
           bindM (execRow (xeKey r)) (\<lambda>found.
             case found of
               None \<Rightarrow> throwM (JsError ''TypeError'')
             | Some e \<Rightarrow>
                 whenM (xrStatus (xeReceipt e) = XsQueued)
                   (thenM (updateExecEffect (xeKey r) (setReceipt ((xeReceipt e)\<lparr>xrStatus := XsCompleted\<rparr>)))
                      (audit (EvExec (XvCompleted (xcBeeId (xeBinding e)) (xeKey r) i))))))"

section \<open>The start intents of fenced spawns\<close>

definition startUnknown :: core_error where
  "startUnknown = ExecutionFenceError XcHistoryUnknown"

definition executionBee :: "core \<Rightarrow> string \<Rightarrow> exec_claim option" where
  "executionBee s b = find_row xcBeeId (execBees s) b"

definition bindBee :: "exec_claim \<Rightarrow> unit store_op" where
  "bindBee claim =
     bindM (readM (\<lambda>s. executionBee s (xcBeeId claim))) (\<lambda>previous.
     bindM (requireM (previous = None \<or> previous = Some claim) (ExecutionFenceError XcConflict)) (\<lambda>_.
       whenM (previous = None) (modifyM (\<lambda>s. s\<lparr>execBees := execBees s @ [claim]\<rparr>))))"

definition startContext :: "exec_start \<Rightarrow> unit store_op" where
  "startContext st = requireM (1 \<le> esGeneration st \<and> xcBeeId (esClaim st) = esBee st) startUnknown"

definition startOf :: "core \<Rightarrow> string \<Rightarrow> nat \<Rightarrow> exec_start_row option" where
  "startOf s b generation =
     List.find (\<lambda>r. esBee (esStart r) = b \<and> esGeneration (esStart r) = generation) (execStarts s)"

definition startRow :: "exec_start \<Rightarrow> exec_start_row store_op" where
  "startRow st =
     bindM (startContext st) (\<lambda>_.
     bindM (readM (\<lambda>s. List.find (\<lambda>r. esIntent (esStart r) = esIntent st) (execStarts s))) (\<lambda>row.
       case row of
         None \<Rightarrow> throwM startUnknown
       | Some r \<Rightarrow> bindM (requireM (esStart r = st) startUnknown) (\<lambda>_. returnM r)))"

definition updateStart :: "string \<Rightarrow> (exec_start_row \<Rightarrow> exec_start_row) \<Rightarrow> unit store_op" where
  "updateStart intent f =
     modifyM (\<lambda>s. s\<lparr>execStarts := update_rows (\<lambda>r. esIntent (esStart r) = intent) f (execStarts s)\<rparr>)"

definition is_digit_char :: "char \<Rightarrow> bool" where
  "is_digit_char c \<longleftrightarrow> c \<in> set ''0123456789''"

definition digits :: "string \<Rightarrow> bool" where
  "digits x \<longleftrightarrow> x \<noteq> [] \<and> list_all is_digit_char x"

text \<open>\<open>linux:N\<close> or \<open>darwin:N:N\<close>\<close>

definition processBirth :: "string \<Rightarrow> bool" where
  "processBirth b \<longleftrightarrow>
     (starts_with ''linux:'' b \<and> digits (drop 6 b))
     \<or> (starts_with ''darwin:'' b
        \<and> (let rest = drop 7 b; a = takeWhile (\<lambda>c. c \<noteq> CHR '':'') rest; tail = dropWhile (\<lambda>c. c \<noteq> CHR '':'') rest
           in digits a \<and> tail \<noteq> [] \<and> digits (tl tail)))"

definition exactProcess :: "exec_process \<Rightarrow> unit store_op" where
  "exactProcess p = requireM (0 < epPid p \<and> epPid p \<le> MAX_SAFE_INTEGER \<and> processBirth (epBirth p)) startUnknown"

definition existingStart :: "string \<Rightarrow> nat \<Rightarrow> exec_start option store_op" where
  "existingStart b generation =
     bindM (readM (\<lambda>s. (executionBee s b, startOf s b generation))) (\<lambda>(claim, row).
       case claim of
         None \<Rightarrow> returnM None
       | Some _ \<Rightarrow>
           (case row of
              None \<Rightarrow> throwM startUnknown
            | Some r \<Rightarrow> bindM (startContext (esStart r)) (\<lambda>_. returnM (Some (esStart r)))))"

definition startHost :: "exec_start \<Rightarrow> exec_process option store_op" where
  "startHost st =
     bindM (startRow st) (\<lambda>row.
       case esHost row of
         None \<Rightarrow> returnM None
       | Some h \<Rightarrow> bindM (exactProcess h) (\<lambda>_. returnM (Some h)))"

definition prepareStart :: "string \<Rightarrow> nat \<Rightarrow> exec_start option store_op" where
  "prepareStart b generation =
     bindM (readM (\<lambda>s. executionBee s b)) (\<lambda>bound.
       case bound of
         None \<Rightarrow> returnM None
       | Some claim \<Rightarrow>
           bindM (validateCurrent claim) (\<lambda>_.
           bindM (readM (\<lambda>s. (startOf s b generation, list_ex (\<lambda>r. esBee (esStart r) = b) (execStarts s)))) (\<lambda>(row, previous).
             case row of
               Some r \<Rightarrow>
                 bindM (startContext (esStart r)) (\<lambda>_.
                 bindM (requireM (esState r = SsPrepared) startUnknown) (\<lambda>_. returnM (Some (esStart r))))
             | None \<Rightarrow>
                 bindM (requireM (\<not> previous) startUnknown) (\<lambda>_.
                 bindM randomUUID (\<lambda>intent.
                   (let st = \<lparr>esIntent = intent, esBee = b, esGeneration = generation, esClaim = claim\<rparr>
                    in bindM (readM (\<lambda>s. list_ex (\<lambda>r. esIntent (esStart r) = intent) (execStarts s))) (\<lambda>clash.
                       bindM (requireM (\<not> clash) SqliteConstraintError) (\<lambda>_.
                       bindM (modifyM (\<lambda>s. s\<lparr>execStarts := execStarts s @
                                [\<lparr>esStart = st, esState = SsPrepared, esHost = None, esAgent = None\<rparr>]\<rparr>)) (\<lambda>_.
                       bindM (audit (EvExec (XvStartIntent st))) (\<lambda>_. returnM (Some st)))))))))))"

definition startOps :: "core \<Rightarrow> string \<Rightarrow> exec_start_op list" where
  "startOps s intent = filter (\<lambda>p. eoIntent p = intent) (execStartOps s)"

definition checkStart :: "exec_start \<Rightarrow> string \<Rightarrow> unit store_op" where
  "checkStart st operation =
     bindM (startRow st) (\<lambda>row.
     bindM (validateCurrent (esClaim st)) (\<lambda>_.
     bindM (readM (\<lambda>s. list_ex (\<lambda>p. eoState p = SoUnknown) (startOps s (esIntent st)))) (\<lambda>unknown.
     bindM (requireM (\<not> unknown) startUnknown) (\<lambda>_.
     bindM (requireM (esState row = SsPrepared) startUnknown) (\<lambda>_.
       audit (EvExec (XvPreparationChecked (esBee st) (esIntent st) operation)))))))"

text \<open>No preparation operation of the intent is under way.\<close>

definition quiescent :: "exec_start \<Rightarrow> unit store_op" where
  "quiescent st =
     bindM (readM (\<lambda>s. list_ex (\<lambda>p. eoState p \<noteq> SoQuiescent) (startOps s (esIntent st)))) (\<lambda>busy.
       requireM (\<not> busy) (ExecutionFenceError XcBusy))"

definition beginPreparation :: "exec_start \<Rightarrow> string \<Rightarrow> string store_op" where
  "beginPreparation st operation =
     bindM (checkStart st operation) (\<lambda>_.
     bindM (quiescent st) (\<lambda>_.
     bindM randomUUID (\<lambda>lease.
     bindM (readM (\<lambda>s. lease \<in> eoLease ` set (execStartOps s))) (\<lambda>clash.
     bindM (requireM (\<not> clash) SqliteConstraintError) (\<lambda>_.
     bindM (modifyM (\<lambda>s. s\<lparr>execStartOps := execStartOps s @
              [\<lparr>eoLease = lease, eoIntent = esIntent st, eoOperation = operation, eoState = SoActive\<rparr>]\<rparr>)) (\<lambda>_.
       returnM lease))))))"

definition finishPreparation :: "exec_start \<Rightarrow> string \<Rightarrow> bool \<Rightarrow> unit store_op" where
  "finishPreparation st lease still =
     bindM (startRow st) (\<lambda>_.
     bindM (readM (\<lambda>s. find_row eoLease (execStartOps s) lease)) (\<lambda>row.
       case row of
         None \<Rightarrow> throwM startUnknown
       | Some p \<Rightarrow>
           bindM (requireM (eoIntent p = esIntent st) startUnknown) (\<lambda>_.
             whenM (eoState p \<noteq> SoQuiescent)
               (thenM (modifyM (\<lambda>s. s\<lparr>execStartOps := update_rows (\<lambda>p. eoLease p = lease)
                        (\<lambda>p. p\<lparr>eoState := (if still then SoQuiescent else SoUnknown)\<rparr>) (execStartOps s)\<rparr>))
                  (audit (EvExec (XvPreparationSettled (esBee st) (esIntent st) lease still)))))))"

definition dispatchStart :: "exec_start \<Rightarrow> unit store_op" where
  "dispatchStart st =
     bindM (checkStart st ''host_dispatch'') (\<lambda>_.
     bindM (quiescent st) (\<lambda>_.
     bindM (updateStart (esIntent st) (\<lambda>r. r\<lparr>esState := SsDispatching\<rparr>)) (\<lambda>_.
       audit (EvExec (XvHostDispatch (esBee st) (esIntent st))))))"

definition bindAndRelease :: "exec_start \<Rightarrow> exec_process \<Rightarrow> unit store_op" where
  "bindAndRelease st host =
     bindM (startRow st) (\<lambda>row.
     bindM (validateCurrent (esClaim st)) (\<lambda>_.
     bindM (exactProcess host) (\<lambda>_.
       if esState row = SsReleaseCommitted then requireM (esHost row = Some host) startUnknown
       else
         bindM (requireM (esState row = SsDispatching) (ExecutionFenceError XcStale)) (\<lambda>_.
         bindM (updateStart (esIntent st) (\<lambda>r. r\<lparr>esState := SsReleaseCommitted, esHost := Some host\<rparr>)) (\<lambda>_.
           audit (EvExec (XvHostRelease (esBee st) (esIntent st) host)))))))"

definition agentStarted :: "exec_start \<Rightarrow> exec_process \<Rightarrow> exec_process \<Rightarrow> unit store_op" where
  "agentStarted st host agent =
     bindM (startRow st) (\<lambda>row.
     bindM (exactProcess host) (\<lambda>_.
     bindM (exactProcess agent) (\<lambda>_.
       if esState row = SsStarted \<and> esHost row = Some host \<and> esAgent row = Some agent then returnM ()
       else
         bindM (requireM (esState row = SsReleaseCommitted \<and> esHost row = Some host) startUnknown) (\<lambda>_.
         bindM (updateStart (esIntent st) (\<lambda>r. r\<lparr>esState := SsStarted, esAgent := Some agent\<rparr>)) (\<lambda>_.
         bindM (spawnStarted (xcKey (esClaim st))) (\<lambda>_.
           audit (EvExec (XvAgentStarted (esBee st) (esIntent st) host agent))))))))"

definition startOutcomeUnknown :: "exec_start \<Rightarrow> unit store_op" where
  "startOutcomeUnknown st =
     bindM (updateStart (esIntent st) (\<lambda>r. r\<lparr>esState := SsOutcomeUnknown\<rparr>)) (\<lambda>_.
     bindM (spawnUnknown (xcKey (esClaim st))) (\<lambda>_.
       audit (EvExec (XvStartUnknown (esBee st) (esIntent st)))))"

definition hostExited :: "exec_start \<Rightarrow> exec_process option \<Rightarrow> unit store_op" where
  "hostExited st host =
     bindM (startRow st) (\<lambda>row.
       if esState row = SsStarted then returnM ()
       else
         (case host of
            Some h \<Rightarrow>
              if esState row = SsReleaseCommitted \<or> esState row = SsOutcomeUnknown \<or> (esHost row \<noteq> None \<and> esHost row \<noteq> Some h)
              then startOutcomeUnknown st
              else bindM (updateStart (esIntent st) (\<lambda>r. r\<lparr>esState := SsHostExited, esHost := Some h\<rparr>)) (\<lambda>_.
                     audit (EvExec (XvHostExited (esBee st) (esIntent st) h)))
          | None \<Rightarrow> startOutcomeUnknown st))"

text \<open>What blocks moving a claim on, and the prepared intents the move refuses.\<close>

definition startsOf :: "core \<Rightarrow> exec_claim \<Rightarrow> exec_start_row list" where
  "startsOf s claim =
     filter (\<lambda>r. xcIssuer (esClaim (esStart r)) = xcIssuer claim
                 \<and> xcContinuation (esClaim (esStart r)) = xcContinuation claim) (execStarts s)"

definition startBusy :: "core \<Rightarrow> exec_start_row \<Rightarrow> bool" where
  "startBusy s r \<longleftrightarrow>
     list_ex (\<lambda>p. eoState p \<noteq> SoQuiescent) (startOps s (esIntent (esStart r)))
     \<or> esState r \<in> {SsDispatching, SsReleaseCommitted, SsOutcomeUnknown}"

definition assertAdvance :: "exec_claim \<Rightarrow> unit store_op" where
  "assertAdvance claim =
     bindM (readM (\<lambda>s. (startsOf s claim, list_ex (startBusy s) (startsOf s claim)))) (\<lambda>(rows, busy).
     bindM (requireM (\<not> busy) (ExecutionFenceError XcBusy)) (\<lambda>_.
       eachM (filter (\<lambda>r. esState r \<in> {SsPrepared, SsDispatching}) rows)
         (\<lambda>r. updateStart (esIntent (esStart r)) (\<lambda>r. r\<lparr>esState := SsRefusedStale\<rparr>))))"

section \<open>Moving a claim on\<close>

text \<open>The part of a claim that no advance changes.\<close>

definition sameGrant :: "exec_claim \<Rightarrow> exec_claim \<Rightarrow> bool" where
  "sameGrant old new \<longleftrightarrow> old\<lparr>xcGeneration := xcGeneration new, xcClaimId := xcClaimId new\<rparr> = new"

definition pendingExecutions :: "core \<Rightarrow> exec_claim \<Rightarrow> (exec_effect \<times> command_row) list" where
  "pendingExecutions s claim =
     concat (map (\<lambda>e. case Option.bind (xeCommand e) (getCommand s) of
                         None \<Rightarrow> []
                       | Some c \<Rightarrow>
                           if xcIssuer (xeBinding e) = xcIssuer claim \<and> xcContinuation (xeBinding e) = xcContinuation claim
                              \<and> xrStatus (xeReceipt e) = XsQueued then [(e, c)] else []) (execEffects s))"

definition unresolvedSpawn :: "core \<Rightarrow> exec_claim \<Rightarrow> bool" where
  "unresolvedSpawn s claim \<longleftrightarrow>
     list_ex (\<lambda>e. xcIssuer (xeBinding e) = xcIssuer claim \<and> xcContinuation (xeBinding e) = xcContinuation claim
                  \<and> xrStatus (xeReceipt e) \<in> {XsPreparing, XsOutcomeUnknown}) (execEffects s)"

definition advanceOver :: "exec_claim \<Rightarrow> exec_claim \<Rightarrow> unit store_op" where
  "advanceOver old claim =
     bindM (assertAdvance old) (\<lambda>_.
     bindM (readM (\<lambda>s. unresolvedSpawn s old)) (\<lambda>unresolved.
     bindM (requireM (\<not> unresolved) (ExecutionFenceError XcBusy)) (\<lambda>_.
     bindM (requireM (sameGrant old claim) (ExecutionFenceError XcConflict)) (\<lambda>_.
     bindM (readM (\<lambda>s. pendingExecutions s claim)) (\<lambda>pending.
     bindM (requireM (\<not> list_ex (\<lambda>(e, c). cStatus c \<noteq> CQueued \<and> xcVerb (xeBinding e) \<noteq> XvSpawn) pending)
              (ExecutionFenceError XcBusy)) (\<lambda>_.
       eachM pending (\<lambda>(e, c). refuseExecution (xeKey e))))))))"

definition nextGeneration :: "exec_claim option \<Rightarrow> nat" where
  "nextGeneration c = (case c of None \<Rightarrow> 0 | Some c \<Rightarrow> xcGeneration c) + 1"

definition installClaim :: "string \<Rightarrow> json \<Rightarrow> exec_claim \<Rightarrow> exec_claim option \<Rightarrow> exec_claim store_op" where
  "installClaim transition params claim expected =
     bindM (readM (\<lambda>s. currentClaim s claim)) (\<lambda>current.
     bindM (requireM (expected = current \<and> xcGeneration claim = nextGeneration current) (ExecutionFenceError XcStale)) (\<lambda>_.
     bindM (requireM (covered_key (xcCoverage claim) (xcKey claim)) (ExecutionFenceError XcInvalid)) (\<lambda>_.
     bindM (case current of None \<Rightarrow> returnM () | Some old \<Rightarrow> advanceOver old claim) (\<lambda>_.
     bindM (modifyM (\<lambda>s. s\<lparr>
              execClaims := upsert_row (\<lambda>c. (xcIssuer c, xcContinuation c)) claim (execClaims s),
              execTransitions := execTransitions s @
                [\<lparr>xtIssuer = xcIssuer claim, xtTransition = transition, xtRequest = params, xtClaim = claim\<rparr>]\<rparr>)) (\<lambda>_.
     bindM (audit (EvExec (XvClaimAdvanced transition claim))) (\<lambda>_.
       returnM claim))))))"

definition compareAndSet :: "json \<Rightarrow> nat \<Rightarrow> exec_claim store_op" where
  "compareAndSet value uid =
     bindM (closedObject value [''transitionId'', ''expectedClaim'', ''claim'']) (\<lambda>params.
     bindM (executionClaim (the (map_of params ''claim''))) (\<lambda>claim.
     bindM (orInvalid (fence_text (map_of params ''transitionId''))) (\<lambda>transition.
     bindM (requireCoordinator (xcIssuer claim) uid) (\<lambda>_.
     bindM (readM (\<lambda>s. List.find (\<lambda>r. xtIssuer r = xcIssuer claim \<and> xtTransition r = transition) (execTransitions s))) (\<lambda>prior.
       case prior of
         Some r \<Rightarrow>
           bindM (requireM (sortValue (xtRequest r) = sortValue value) (ExecutionFenceError XcConflict)) (\<lambda>_.
             returnM (xtClaim r))
       | None \<Rightarrow>
           bindM (readM (\<lambda>s. claimCovered s claim)) (\<lambda>covered.
           bindM (requireM covered (ExecutionFenceError XcHistoryUnknown)) (\<lambda>_.
           bindM (case map_of params ''expectedClaim'' of
                    Some JNull \<Rightarrow> returnM None
                  | v \<Rightarrow> bindM (executionClaim (the v)) (\<lambda>c. returnM (Some c))) (\<lambda>expected.
             installClaim transition value claim expected))))))))"

end
