(* ===== verification/Commands.thy ===== *)
theory Commands
  imports Executions
begin

text \<open>
  Commands (v2/core/src/store.ts \<open>enqueueCommand\<close> and what it calls): superseding an active move or
  handoff, cancelling the automatic recoveries an operator's command takes over, the effect and
  execution fences on a key, and the deduplication by key.
\<close>

section \<open>Moves and handoffs an operator's command supersedes\<close>

definition mustBeeMove :: "string \<Rightarrow> move_row store_op" where
  "mustBeeMove i = bindM (readM (\<lambda>s. getBeeMove s i))
     (\<lambda>m. case m of Some m \<Rightarrow> returnM m | None \<Rightarrow> throwM (MoveNotFoundError i))"

definition mustBeeHandoff :: "string \<Rightarrow> handoff_row store_op" where
  "mustBeeHandoff i = bindM (readM (\<lambda>s. getBeeHandoff s i))
     (\<lambda>m. case m of Some m \<Rightarrow> returnM m | None \<Rightarrow> throwM (HandoffNotFoundError i))"

definition updateMove :: "string \<Rightarrow> (move_row \<Rightarrow> move_row) \<Rightarrow> unit store_op" where
  "updateMove i f = modifyM (\<lambda>s. s\<lparr>moves := update_rows (\<lambda>m. mvId m = i) f (moves s)\<rparr>)"

definition updateHandoff :: "string \<Rightarrow> (handoff_row \<Rightarrow> handoff_row) \<Rightarrow> unit store_op" where
  "updateHandoff i f = modifyM (\<lambda>s. s\<lparr>handoffs := update_rows (\<lambda>h. hoId h = i) f (handoffs s)\<rparr>)"

definition updateBee :: "(bee_row \<Rightarrow> bool) \<Rightarrow> (bee_row \<Rightarrow> bee_row) \<Rightarrow> unit store_op" where
  "updateBee p f = modifyM (\<lambda>s. s\<lparr>bees := update_rows p f (bees s)\<rparr>)"

text \<open>The source generation must be the current one, stopped.\<close>

definition sourceStopped :: "core \<Rightarrow> string \<Rightarrow> nat \<Rightarrow> bool" where
  "sourceStopped s b g \<longleftrightarrow>
     (case currentRuntime s b of None \<Rightarrow> False | Some r \<Rightarrow> rGeneration r = g \<and> rState r = RStopped)"

definition applySetBeeMovePhase :: "string \<Rightarrow> move_phase \<Rightarrow> move_row store_op" where
  "applySetBeeMovePhase i phase =
     bindM (mustBeeMove i) (\<lambda>previous.
       if mvPhase previous = phase then returnM previous
       else
         bindM (requireM (beeMoveTransitionLegal (mvPhase previous) phase) (IllegalTransitionError i)) (\<lambda>_.
         bindM (if phase \<noteq> MvFailed \<and> phase \<noteq> MvComplete
                then bindM (mustGetBee (mvBeeId previous)) (\<lambda>bee.
                       requireM (bActiveMoveId bee = Some i) (IllegalTransitionError i))
                else returnM ()) (\<lambda>_.
         bindM (readM (\<lambda>s. phase = MvPlacing \<longrightarrow> sourceStopped s (mvBeeId previous) (mvSourceGeneration previous)))
           (\<lambda>stopped.
         bindM (requireM stopped (IllegalTransitionError i)) (\<lambda>_.
         bindM (readM clock) (\<lambda>t.
         bindM (updateMove i (\<lambda>m. m\<lparr>mvPhase := phase, mvUpdatedAt := t\<rparr>)) (\<lambda>_.
         bindM (mustBeeMove i) (\<lambda>move.
         bindM (audit (EvMovePhase move (mvPhase previous))) (\<lambda>_. returnM move)))))))))"

definition applyFailBeeMove :: "string \<Rightarrow> stage_failure \<Rightarrow> move_row store_op" where
  "applyFailBeeMove i failure =
     bindM (mustBeeMove i) (\<lambda>previous.
       if mvPhase previous = MvFailed then returnM previous
       else
         bindM (requireM (mvPhase previous \<noteq> MvComplete) (IllegalTransitionError i)) (\<lambda>_.
         bindM (mustGetBee (mvBeeId previous)) (\<lambda>bee.
         bindM (readM clock) (\<lambda>t.
         bindM (updateMove i (\<lambda>m. m\<lparr>mvFailure := Some failure,
                  mvInstructionsPending := (bSubstrate bee = plSubstrate (mvTo previous)
                     \<and> bCwd bee = plCwd (mvTo previous) \<and> bPlacementVersion bee = plVersion (mvTo previous)),
                  mvUpdatedAt := t\<rparr>)) (\<lambda>_.
         bindM (applySetBeeMovePhase i MvFailed) (\<lambda>_.
         bindM (updateBee (\<lambda>b. bId b = mvBeeId previous \<and> bActiveMoveId b = Some i)
                  (\<lambda>b. b\<lparr>bActiveMoveId := None\<rparr>)) (\<lambda>_.
         bindM (mustBeeMove i) (\<lambda>move.
         bindM (audit (EvMoveFailed move failure)) (\<lambda>_. returnM move)))))))))"

definition applySetBeeHandoffPhase :: "string \<Rightarrow> handoff_phase \<Rightarrow> handoff_row store_op" where
  "applySetBeeHandoffPhase i phase =
     bindM (mustBeeHandoff i) (\<lambda>previous.
       if hoPhase previous = phase then returnM previous
       else
         bindM (requireM (beeHandoffTransitionLegal (hoPhase previous) phase) (IllegalTransitionError i)) (\<lambda>_.
         bindM (if phase \<noteq> HoFailed \<and> phase \<noteq> HoComplete
                then bindM (mustGetBee (hoBeeId previous)) (\<lambda>bee.
                       requireM (bActiveHandoffId bee = Some i) (IllegalTransitionError i))
                else returnM ()) (\<lambda>_.
         bindM (readM (\<lambda>s. phase = HoSummarizing \<longrightarrow> sourceStopped s (hoBeeId previous) (hoSourceGeneration previous)))
           (\<lambda>stopped.
         bindM (requireM stopped (IllegalTransitionError i)) (\<lambda>_.
         bindM (readM clock) (\<lambda>t.
         bindM (updateHandoff i (\<lambda>h. h\<lparr>hoPhase := phase, hoUpdatedAt := t\<rparr>)) (\<lambda>_.
         bindM (mustBeeHandoff i) (\<lambda>handoff.
         bindM (audit (EvHandoffPhase handoff (hoPhase previous))) (\<lambda>_. returnM handoff)))))))))"

definition applyFailBeeHandoff :: "string \<Rightarrow> stage_failure \<Rightarrow> handoff_row store_op" where
  "applyFailBeeHandoff i failure =
     bindM (mustBeeHandoff i) (\<lambda>previous.
       if hoPhase previous = HoFailed then returnM previous
       else
         bindM (requireM (hoPhase previous \<noteq> HoComplete) (IllegalTransitionError i)) (\<lambda>_.
         bindM (readM clock) (\<lambda>t.
         bindM (updateHandoff i (\<lambda>h. h\<lparr>hoFailure := Some failure, hoUpdatedAt := t\<rparr>)) (\<lambda>_.
         bindM (applySetBeeHandoffPhase i HoFailed) (\<lambda>_.
         bindM (updateBee (\<lambda>b. bId b = hoBeeId previous \<and> bActiveHandoffId b = Some i)
                  (\<lambda>b. b\<lparr>bActiveHandoffId := None\<rparr>)) (\<lambda>_.
         bindM (mustBeeHandoff i) (\<lambda>handoff.
         bindM (audit (EvHandoffFailed handoff failure)) (\<lambda>_. returnM handoff))))))))"

text \<open>Settle a pending command as done because something took its place.\<close>

definition mootCommand :: "command_row \<Rightarrow> string \<Rightarrow> nat \<Rightarrow> string \<Rightarrow> unit store_op" where
  "mootCommand c b currentGen reason =
     bindM (readM clock) (\<lambda>t.
     thenM (modifyM (\<lambda>s. s\<lparr>commands := update_rows (\<lambda>r. cId r = cId c)
              (\<lambda>r. r\<lparr>cStatus := CDone, cFinishedAt := Some t\<rparr>) (commands s)\<rparr>))
       (audit (EvCommandMoot b (cId c) (cVerb c) (cTargetGeneration c) currentGen t reason)))"

definition supersedeCommands :: "string list \<Rightarrow> string \<Rightarrow> unit store_op" where
  "supersedeCommands keys reason =
     eachM keys (\<lambda>k.
       bindM (readM (\<lambda>s. (getCommandByIdempotencyKey s k, currentGeneration s))) (\<lambda>(cmd, gen).
         case cmd of
           None \<Rightarrow> returnM ()
         | Some c \<Rightarrow>
             whenM (cStatus c = CQueued \<or> cStatus c = CRunning)
               (mootCommand c (cBeeId c) (case gen (cBeeId c) of Some g \<Rightarrow> g | None \<Rightarrow> 0) reason)))"

definition applySupersedeBeeMove :: "string \<Rightarrow> stage_failure \<Rightarrow> move_row store_op" where
  "applySupersedeBeeMove i failure =
     bindM (mustBeeMove i) (\<lambda>previous.
     bindM (applyFailBeeMove i failure) (\<lambda>move.
     bindM (supersedeCommands [mvStopCommandKey previous, mvReviveCommandKey previous] ''move_superseded'') (\<lambda>_.
       returnM move)))"

definition applySupersedeBeeHandoff :: "string \<Rightarrow> stage_failure \<Rightarrow> handoff_row store_op" where
  "applySupersedeBeeHandoff i failure =
     bindM (mustBeeHandoff i) (\<lambda>previous.
     bindM (applyFailBeeHandoff i failure) (\<lambda>handoff.
     bindM (supersedeCommands [hoStopCommandKey previous, hoReviveCommandKey previous] ''handoff_superseded'') (\<lambda>_.
       returnM handoff)))"

definition rearmWakeIfFencedMail :: "string \<Rightarrow> unit store_op" where
  "rearmWakeIfFencedMail b =
     bindM (readM (\<lambda>s. wakeableMail s b)) (\<lambda>some.
       if some then bindM (applyWakeIfNeeded b) (\<lambda>_. returnM ()) else returnM ())"

section \<open>Automatic recoveries an operator's command cancels\<close>

definition getQuotaRecovery :: "core \<Rightarrow> string \<Rightarrow> quota_row option" where
  "getQuotaRecovery s i = find_row qrId (quotaRows s) i"

definition putQuotaRecovery :: "quota_row \<Rightarrow> quota_row store_op" where
  "putQuotaRecovery row =
     bindM (readM (\<lambda>s. (getQuotaRecovery s (qrId row), clock s))) (\<lambda>(previous, t).
       (let updated = row\<lparr>qrUpdatedAt := t\<rparr>;
            notify = (case previous of
                        None \<Rightarrow> True
                      | Some p \<Rightarrow> qrState p \<noteq> qrState updated \<or> qrRetryAt p \<noteq> qrRetryAt updated
                                  \<or> qrReason p \<noteq> qrReason updated)
        in thenM (modifyM (\<lambda>s. s\<lparr>quotaRows :=
               (if previous = None then quotaRows s @ [updated]
                else update_rows (\<lambda>r. qrId r = qrId row) (\<lambda>_. updated) (quotaRows s))\<rparr>))
             (thenM (audit (EvQuotaRecovery updated notify)) (returnM updated))))"

definition cancelQuotaRecovery :: "string \<Rightarrow> string \<Rightarrow> unit store_op" where
  "cancelQuotaRecovery i reason =
     bindM (readM (\<lambda>s. s)) (\<lambda>s.
       case getQuotaRecovery s i of
         None \<Rightarrow> returnM ()
       | Some row \<Rightarrow>
           (let pending = map mId (undeliveredMessages s (qrBeeId row))
            in if qrState row = QCancelled then returnM ()
               else if qrState row = QResumed \<and> \<not> list_ex (\<lambda>m. m \<in> set pending) (qrContinuationMessageIds row)
               then returnM ()
               else
                 bindM (eachM (filter (\<lambda>m. m \<in> set pending) (qrContinuationMessageIds row))
                          (\<lambda>m. bindM (cancelMessageInternal (qrBeeId row) m True ''quota.cancel'') (\<lambda>_. returnM ()))) (\<lambda>_.
                 bindM (putQuotaRecovery (row\<lparr>qrState := QCancelled, qrReason := Some reason, qrRetryAt := None\<rparr>))
                   (\<lambda>_. returnM ()))))"

definition cancelQuotaRecoveries :: "string \<Rightarrow> string \<Rightarrow> unit store_op" where
  "cancelQuotaRecoveries b reason =
     bindM (readM (\<lambda>s. listQuotaRecoveries s b)) (\<lambda>rows. eachM rows (\<lambda>r. cancelQuotaRecovery (qrId r) reason))"

definition putAuthInterruption :: "auth_row \<Rightarrow> auth_row store_op" where
  "putAuthInterruption row =
     thenM (modifyM (\<lambda>s. s\<lparr>authRows := update_rows (\<lambda>r. auId r = auId row) (\<lambda>_. row) (authRows s)\<rparr>))
       (thenM (audit (EvAuthInterruptionPut row)) (returnM row))"

definition settleAuthInterruption :: "nat \<Rightarrow> auth_state \<Rightarrow> string \<Rightarrow> (auth_row option \<times> bool) store_op" where
  "settleAuthInterruption i state reason =
     bindM (readM (\<lambda>s. (getAuthInterruption s i, clock s))) (\<lambda>(row, t).
       case row of
         None \<Rightarrow> returnM (None, False)
       | Some r \<Rightarrow>
           if auState r \<notin> set AUTH_INTERRUPTION_LIVE_STATES then returnM (Some r, False)
           else bindM (putAuthInterruption (r\<lparr>auState := state, auSettledAt := Some t, auSettleReason := Some reason\<rparr>))
                  (\<lambda>u. returnM (Some u, True)))"

definition cancelAuthDeathRecovery :: "string \<Rightarrow> string \<Rightarrow> unit store_op" where
  "cancelAuthDeathRecovery b reason =
     bindM (mustGetBee b) (\<lambda>bee.
     bindM (cancelQuotaRecoveries b ''operator_control'') (\<lambda>_.
     bindM (readM (\<lambda>s. (liveAuthInterruption s b,
                        case currentRuntime s b of Some r \<Rightarrow> rCredentialStamp r | None \<Rightarrow> False))) (\<lambda>(row, stamped).
       (let death = Option.bind row auDeathRecovery
        in if \<not> stamped \<and> death = None then returnM ()
           else
             bindM (updateBee (\<lambda>r. bId r = b) (\<lambda>r. r\<lparr>bAuthControlFence := bAuthControlFence bee + 1\<rparr>)) (\<lambda>_.
             bindM (audit (EvAuthControl b (bAuthControlFence bee + 1))) (\<lambda>_.
               case death of
                 None \<Rightarrow> returnM ()
               | Some d \<Rightarrow>
                   bindM (settleAuthInterruption (auId (the row)) AuCancelled reason) (\<lambda>_.
                   bindM (readM (\<lambda>s. (Option.bind (drCommandId d) (getCommand s), currentGeneration s b))) (\<lambda>(command, gen).
                   bindM (case command of
                            Some c \<Rightarrow> whenM (cStatus c = CQueued)
                                        (mootCommand c b (case gen of Some g \<Rightarrow> g | None \<Rightarrow> 0) ''auth_recovery_cancelled'')
                          | None \<Rightarrow> returnM ()) (\<lambda>_.
                     eachM (auContinuationMessageIds (the row))
                       (\<lambda>m. bindM (cancelMessageInternal b m True ''auth.cancel'') (\<lambda>_. returnM ())))))))))))"

section \<open>Enqueueing a command\<close>

definition hasStopThenReviveRequest :: "core \<Rightarrow> string \<Rightarrow> nat \<Rightarrow> bool" where
  "hasStopThenReviveRequest s b generation \<longleftrightarrow>
     list_ex (\<lambda>c. cBeeId c = b \<and> (cStatus c = CDone \<or> cStatus c = CRunning) \<and> cVerb c = VStop
                  \<and> cTargetGeneration c = Some generation
                  \<and> map_of (cArgs c) ''thenRevive'' = Some (JBool True)) (commands s)"

definition hasPendingReviveOrWakeCommand :: "core \<Rightarrow> string \<Rightarrow> nat \<Rightarrow> bool" where
  "hasPendingReviveOrWakeCommand s b minimumGeneration \<longleftrightarrow>
     list_ex (\<lambda>c. cBeeId c = b \<and> (cStatus c = CQueued \<or> cStatus c = CRunning) \<and> (cVerb c = VRevive \<or> cVerb c = VSendWake)
                  \<and> minimumGeneration \<le> (case cTargetGeneration c of Some g \<Rightarrow> g | None \<Rightarrow> 0)) (commands s)"

definition hasPendingStopCommand :: "core \<Rightarrow> string \<Rightarrow> nat \<Rightarrow> bool" where
  "hasPendingStopCommand s b generation \<longleftrightarrow>
     list_ex (\<lambda>c. cBeeId c = b \<and> (cStatus c = CQueued \<or> cStatus c = CRunning) \<and> cVerb c = VStop
                  \<and> cTargetGeneration c = Some generation) (commands s)"

definition lifecycleCommandSupersedesMove :: "verb \<Rightarrow> jobject \<Rightarrow> bool" where
  "lifecycleCommandSupersedesMove v args \<longleftrightarrow>
     v = VArchive \<or> v = VDelete \<or> v = VRevive
     \<or> (v = VStop \<and> js_get args ''cause'' = Some (JStr ''stopped_by_user''))"

text \<open>A revive the authentication recovery itself enqueues.\<close>

definition automaticRevive :: "core \<Rightarrow> verb \<Rightarrow> string \<Rightarrow> jobject \<Rightarrow> string option \<Rightarrow> bool" where
  "automaticRevive s v b args key \<longleftrightarrow>
     v = VRevive
     \<and> (case js_get args ''authDeathRecoveryId'' of
          Some (JNum n) \<Rightarrow>
            (case (if 0 \<le> n then getAuthInterruption s (nat n) else None) of
               None \<Rightarrow> False
             | Some r \<Rightarrow> auBeeId r = b
                 \<and> (case auDeathRecovery r of None \<Rightarrow> False
                    | Some d \<Rightarrow> drClaimedAt d \<noteq> None \<and> drCommandId d = None)
                 \<and> key = Some (''auth-death:'' @ b @ '':'' @ nat_text (auGeneration r)))
        | _ \<Rightarrow> False)"

text \<open>A revive the quota recovery itself enqueues.\<close>

definition quotaRevive :: "core \<Rightarrow> verb \<Rightarrow> string \<Rightarrow> jobject \<Rightarrow> bool" where
  "quotaRevive s v b args \<longleftrightarrow>
     v = VRevive
     \<and> (case List.find (\<lambda>r. qrState r = QRotating \<and> Some (qrSourceGeneration r) = currentGeneration s b)
               (listQuotaRecoveries s b) of
          None \<Rightarrow> False
        | Some q \<Rightarrow> js_get args ''reason'' = Some (JStr ''quota_recovery'')
            \<or> (js_get args ''reason'' = Some (JStr ''after_stop'') \<and> hasStopThenReviveRequest s b (qrSourceGeneration q)))"

definition takesOverRecovery :: "verb \<Rightarrow> jobject \<Rightarrow> bool" where
  "takesOverRecovery v args \<longleftrightarrow>
     (v = VStop \<and> js_get args ''cause'' \<noteq> Some (JStr ''stopped_by_system''))
     \<or> v = VRevive \<or> v = VArchive \<or> v = VDelete"

definition supersedeFailure :: "verb \<Rightarrow> stage_failure" where
  "supersedeFailure v =
     \<lparr>sfStage = (if v = VStop then StStop else StValidate), sfCode = ''superseded'',
      sfDetail = ''operator '' @ verb_text v\<rparr>"

text \<open>Returns whether an active move or handoff was superseded.\<close>

definition supersedePlacement :: "verb \<Rightarrow> string \<Rightarrow> string option \<Rightarrow> bool store_op" where
  "supersedePlacement v b key =
     bindM (mustGetBee b) (\<lambda>live.
     bindM (readM (\<lambda>s. Option.bind (bActiveMoveId live) (getBeeMove s))) (\<lambda>move.
     bindM (case move of
              None \<Rightarrow> returnM False
            | Some m \<Rightarrow>
                if key = Some (mvStopCommandKey m) \<or> key = Some (mvReviveCommandKey m) then returnM False
                else bindM (applySupersedeBeeMove (mvId m) (supersedeFailure v)) (\<lambda>_. returnM True)) (\<lambda>supersededMove.
     bindM (readM (\<lambda>s. Option.bind (bActiveHandoffId live) (getBeeHandoff s))) (\<lambda>handoff.
     bindM (case handoff of
              None \<Rightarrow> returnM False
            | Some h \<Rightarrow>
                if key = Some (hoStopCommandKey h) \<or> key = Some (hoReviveCommandKey h) then returnM False
                else bindM (applySupersedeBeeHandoff (hoId h) (supersedeFailure v)) (\<lambda>_. returnM True)) (\<lambda>supersededHandoff.
       returnM (supersededMove \<or> supersededHandoff))))))"

definition mootPendingStarts :: "string \<Rightarrow> nat option \<Rightarrow> unit store_op" where
  "mootPendingStarts b targetGeneration =
     bindM (readM (\<lambda>s. filter (\<lambda>c. cBeeId c = b \<and> cStatus c = CQueued
                \<and> (cVerb c = VSpawn \<or> cVerb c = VSendWake \<or> cVerb c = VRevive)
                \<and> targetGeneration \<noteq> None \<and> cTargetGeneration c = targetGeneration) (commands s))) (\<lambda>pending.
       eachM pending (\<lambda>c. mootCommand c b (case targetGeneration of Some g \<Rightarrow> g | None \<Rightarrow> 0) ''superseded_by_stop''))"

definition admitCommand :: "verb \<Rightarrow> string \<Rightarrow> jobject \<Rightarrow> string option \<Rightarrow> int option \<Rightarrow> command_row store_op" where
  "admitCommand v b args key notBefore =
     bindM (mustGetBee b) (\<lambda>_.
     bindM (readM (\<lambda>s. takesOverRecovery v args \<and> \<not> automaticRevive s v b args key \<and> \<not> quotaRevive s v b args)) (\<lambda>cancels.
     bindM (whenM cancels (cancelAuthDeathRecovery b ''auth_recovery_cancelled'')) (\<lambda>_.
     bindM (if lifecycleCommandSupersedesMove v args then supersedePlacement v b key else returnM False) (\<lambda>superseded.
     bindM (readM (\<lambda>s. if v \<in> set RUNTIME_VERBS
                        then Some (case currentGeneration s b of Some g \<Rightarrow> g | None \<Rightarrow> 0) else None)) (\<lambda>targetGeneration.
     bindM (whenM (v = VStop \<and> js_get args ''cause'' = Some (JStr ''stopped_by_user''))
              (mootPendingStarts b targetGeneration)) (\<lambda>_.
     bindM (applyEnqueue v b args targetGeneration key notBefore) (\<lambda>command.
     bindM (whenM (superseded \<and> v \<noteq> VDelete) (rearmWakeIfFencedMail b)) (\<lambda>_.
       returnM command))))))))"

text \<open>The command and whether it is an existing one the key names.\<close>

definition enqueueCommand ::
  "verb \<Rightarrow> string \<Rightarrow> jobject \<Rightarrow> string option \<Rightarrow> int option \<Rightarrow> (command_row \<times> bool) store_op" where
  "enqueueCommand v b args key notBefore =
     bindM (requireM (key \<noteq> Some []) (CoreError ''idempotencyKey must be a non-empty string when given'')) (\<lambda>_.
       case key of
         None \<Rightarrow> bindM (admitCommand v b args None notBefore) (\<lambda>c. returnM (c, False))
       | Some k \<Rightarrow>
           bindM (requireLegacyKey k) (\<lambda>_.
           bindM (effectLookup k (Some (verb_text v))) (\<lambda>_.
           bindM (readM (\<lambda>s. getCommandByIdempotencyKey s k)) (\<lambda>original.
             case original of
               Some c \<Rightarrow> thenM (audit (EvCommandDedup (cBeeId c) (cId c) k v (cStatus c))) (returnM (c, True))
             | None \<Rightarrow> bindM (admitCommand v b args key notBefore) (\<lambda>c. returnM (c, False))))))"

end
