(* ===== verification/Questions.thy ===== *)
theory Questions
  imports Commands
begin

text \<open>
  Questions a bee asks its operator (v2/core/src/store.ts from line 7014): asking, answering (the answer
  is mail, and an action that waits for it resumes) and withdrawing. Dismissal and the withdrawal
  receipts are not modelled.
\<close>

definition askQuestion :: "string \<Rightarrow> string \<Rightarrow> string list option \<Rightarrow> string option \<Rightarrow> question_row store_op" where
  "askQuestion b txt options givenId =
     bindM (requireNonEmpty (Some txt) ''askQuestion: text'') (\<lambda>text.
     bindM (mustGetBee b) (\<lambda>_.
     bindM (case givenId of Some i \<Rightarrow> returnM i | None \<Rightarrow> randomUUID) (\<lambda>i.
     bindM (readM (\<lambda>s. getQuestion s i = None)) (\<lambda>fresh.
     bindM (requireM fresh (CoreError (''question already exists: '' @ i))) (\<lambda>_.
     bindM (readM (\<lambda>s.
        \<lparr>qId = i, qBeeId = b, qGeneration = currentGeneration s b, qText = text, qOptions = options,
         qStatus = QsOpen, qWithdrawalReason = None, qWithdrawnAt = None, qDismissedAt = None,
         qDismissalMessageId = None, qAnswer = None, qAskedAt = clock s, qAnsweredAt = None,
         qAnsweredBy = None, qDeliveryMessageId = None\<rparr>)) (\<lambda>question.
     bindM (modifyM (\<lambda>s. s\<lparr>questions := questions s @ [question]\<rparr>)) (\<lambda>_.
     bindM (audit (EvQuestionAsked question)) (\<lambda>_. returnM question))))))))"

definition mustGetQuestion :: "string \<Rightarrow> question_row store_op" where
  "mustGetQuestion i = bindM (readM (\<lambda>s. getQuestion s i))
     (\<lambda>q. case q of Some q \<Rightarrow> returnM q | None \<Rightarrow> throwM (QuestionNotFoundError i))"

definition updateQuestion :: "string \<Rightarrow> (question_row \<Rightarrow> question_row) \<Rightarrow> unit store_op" where
  "updateQuestion i f = modifyM (\<lambda>s. s\<lparr>questions := update_rows (\<lambda>q. qId q = i) f (questions s)\<rparr>)"

definition answerBody :: "string \<Rightarrow> string \<Rightarrow> string \<Rightarrow> string" where
  "answerBody i text question =
     ''[answer to question '' @ i @ ''] '' @ text @ NL @ NL @ ''(question was: '' @ question @ '')''"

definition answerQuestion :: "string \<Rightarrow> string \<Rightarrow> string option \<Rightarrow> (question_row \<times> send_result) store_op" where
  "answerQuestion i answer by =
     bindM (requireNonEmpty (Some answer) ''answerQuestion: answer'') (\<lambda>text.
     bindM (mustGetQuestion i) (\<lambda>question.
     bindM (requireM (qStatus question \<noteq> QsWithdrawn) QuestionWithdrawnError) (\<lambda>_.
     bindM (requireM (qStatus question \<noteq> QsDismissed) QuestionDismissedError) (\<lambda>_.
     bindM (requireM (qStatus question = QsOpen) QuestionNotOpenError) (\<lambda>_.
       (let answeredBy = (case by of Some b \<Rightarrow> b | None \<Rightarrow> ''rpc'')
        in bindM (readM clock) (\<lambda>t.
           bindM (updateQuestion i (\<lambda>q. q\<lparr>qStatus := QsAnswered, qAnswer := Some text, qAnsweredAt := Some t,
                                          qAnsweredBy := Some answeredBy\<rparr>)) (\<lambda>_.
           bindM (send (qBeeId question) (answerBody i text (qText question))
                    \<lparr>soSender = answeredBy, soUrgency = UNext, soOrigin = OrMailSend, soSenderKind = None,
                     soAutomationKind = None\<rparr>) (\<lambda>sent.
           bindM (updateQuestion i (\<lambda>q. q\<lparr>qDeliveryMessageId := Some (mId (srMessage sent))\<rparr>)) (\<lambda>_.
           bindM (mustGetQuestion i) (\<lambda>updated.
           bindM (audit (EvQuestionAnswered i (qBeeId question) text t answeredBy (mId (srMessage sent)))) (\<lambda>_.
           bindM (applyActionQuestionAnswered i) (\<lambda>_.
             returnM (updated, sent))))))))))))))"

definition requireQuestionOwner :: "string \<Rightarrow> string \<Rightarrow> question_row store_op" where
  "requireQuestionOwner i caller =
     bindM (mustGetQuestion i) (\<lambda>q.
     thenM (requireM (qBeeId q = caller) QuestionNotOwnerError) (returnM q))"

definition normalizeWithdrawalReason :: "string \<Rightarrow> string store_op" where
  "normalizeWithdrawalReason reason =
     bindM (requireNonEmpty (Some reason) ''withdrawQuestion: reason'') (\<lambda>r.
       (let text = js_trim r
        in thenM (requireM (text \<noteq> [] \<and> utf16_length text \<le> 500)
                    (CoreError ''withdrawQuestion: reason must contain 1 to 500 characters after trimming''))
             (returnM text)))"

definition withdrawQuestion :: "string \<Rightarrow> string \<Rightarrow> string \<Rightarrow> question_row store_op" where
  "withdrawQuestion i caller reason =
     bindM (normalizeWithdrawalReason reason) (\<lambda>text.
     bindM (requireQuestionOwner i caller) (\<lambda>question.
       if qStatus question = QsWithdrawn \<or> qStatus question = QsDismissed then returnM question
       else
         bindM (requireM (qStatus question \<noteq> QsAnswered) QuestionAlreadyAnsweredError) (\<lambda>_.
         bindM (readM clock) (\<lambda>t.
         bindM (updateQuestion i (\<lambda>q. q\<lparr>qStatus := QsWithdrawn, qWithdrawalReason := Some text, qWithdrawnAt := Some t\<rparr>)) (\<lambda>_.
         bindM (audit (EvQuestionWithdrawn i (qBeeId question) text t)) (\<lambda>_. mustGetQuestion i))))))"

end
