(* ===== verification/Action_Queue.thy ===== *)
theory Action_Queue
  imports Questions
begin

text \<open>
  The operations on a bee's action queue (v2/core/src/store.ts from line 10755): accepting a sequence,
  pausing, cancelling, retrying and reordering, the dispatch of each executor, claims, reports,
  settlement, the operator's completion and the one reminder.
\<close>

section \<open>Accepting a sequence\<close>

record enqueue_item =
  eiKind :: string
  eiVersion :: "nat option"
  eiInputs :: "json option"
  eiClientRef :: "string option"
  eiTitle :: "string option"

text \<open>\<open>String(value)\<close>\<close>

fun js_to_string :: "json \<Rightarrow> string" where
  "js_to_string JNull = ''null''"
| "js_to_string (JBool b) = (if b then ''true'' else ''false'')"
| "js_to_string (JNum n) = int_text n"
| "js_to_string (JStr s) = s"
| "js_to_string (JArr vs) = join_with '','' (map (\<lambda>v. if v = JNull then '''' else js_to_string v) vs)"
| "js_to_string (JObj _) = ''[object Object]''"
| "js_to_string (JFun f) = ''function '' @ f @ ''() { [native code] }''"

definition MESSAGE_URGENCIES :: "string list" where
  "MESSAGE_URGENCIES = [''now'', ''next'', ''idle'']"

fun rewriteInputs ::
  "nat \<Rightarrow> string list \<Rightarrow> action_row list \<Rightarrow> jobject \<Rightarrow> jobject \<Rightarrow> jobject store_op" where
  "rewriteInputs index ids lane inputs [] = returnM inputs"
| "rewriteInputs index ids lane inputs ((name, v) # rest) =
     (case actionItemRef v of
        Some (target, out) \<Rightarrow>
          if index \<le> target
          then throwM (CoreError (''enqueueActions: input '' @ name @ '' refers to an item that is not earlier in the request''))
          else rewriteInputs index ids lane (js_set inputs name (outputRefValue (ids ! target) out)) rest
      | None \<Rightarrow>
          (case actionOutputRef v of
             Some (a, out) \<Rightarrow>
               if a \<notin> set (map aId lane)
               then throwM (CoreError (''enqueueActions: input '' @ name @ '' refers to unknown action '' @ a))
               else rewriteInputs index ids lane (js_set inputs name v) rest
           | None \<Rightarrow> rewriteInputs index ids lane (js_set inputs name v) rest))"

definition itemInputs :: "enqueue_item \<Rightarrow> jobject store_op" where
  "itemInputs item =
     (case eiInputs item of
        None \<Rightarrow> returnM []
      | Some JNull \<Rightarrow> returnM []
      | Some (JObj raw) \<Rightarrow> returnM raw
      | Some _ \<Rightarrow> throwM (CoreError ''enqueueActions: inputs must be an object''))"

definition missingInput :: "action_definition \<Rightarrow> jobject \<Rightarrow> bool" where
  "missingInput d inputs \<longleftrightarrow>
     list_ex (\<lambda>spec. isRequired spec
        \<and> (is_undef_or_null (js_get inputs (isName spec)) \<or> js_get inputs (isName spec) = Some (JStr []))) (dInputs d)"

definition itemTitle :: "enqueue_item \<Rightarrow> jobject \<Rightarrow> action_definition \<Rightarrow> string" where
  "itemTitle item inputs d =
     (case eiTitle item of
        Some (c # cs) \<Rightarrow> c # cs
      | _ \<Rightarrow> (case js_get inputs ''title'' of Some (JStr (c # cs)) \<Rightarrow> c # cs | _ \<Rightarrow> dTitle d))"

definition newActionRow ::
  "string \<Rightarrow> string \<Rightarrow> int \<Rightarrow> enqueue_item \<Rightarrow> action_definition \<Rightarrow> jobject \<Rightarrow> string \<Rightarrow> int \<Rightarrow> action_row" where
  "newActionRow i b position item d inputs key t =
     \<lparr>aId = i, aBeeId = b, aPosition = position, aClientRef = eiClientRef item, aKind = dKind d,
      aDefinitionVersion = dVersion d, aExecutor = dExecutor d, aTitle = itemTitle item inputs d, aDefinition = d,
      aInputs = inputs, aResolvedInputs = None, aStatus = AQueued, aWaitingReason = None, aWaitingDetail = None,
      aAttempt = 0, aDispatch = None, aProgress = None, aQuestionId = None, aResult = None, aFailure = None,
      aAttempts = [], aCreatedAt = t, aUpdatedAt = t, aFinishedAt = None, aEnqueueKey = key,
      aAttemptToken = None, aDispatchMessageId = None, aOperationKey = None\<rparr>"

text \<open>The INSERT, with the primary key and the index UNIQUE(bee_id, position).\<close>

definition insertAction :: "action_row \<Rightarrow> unit store_op" where
  "insertAction row =
     bindM (readM (\<lambda>s. list_ex (\<lambda>a. aId a = aId row \<or> (aBeeId a = aBeeId row \<and> aPosition a = aPosition row))
                         (actions s)))
       (\<lambda>clash. thenM (requireM (\<not> clash) SqliteConstraintError)
          (modifyM (\<lambda>s. s\<lparr>actions := actions s @ [row]\<rparr>)))"

definition acceptItem ::
  "string \<Rightarrow> string \<Rightarrow> string list \<Rightarrow> action_row list \<Rightarrow> int \<Rightarrow> int \<Rightarrow> nat \<Rightarrow> enqueue_item \<Rightarrow> unit store_op" where
  "acceptItem b key ids lane firstPosition t index item =
     (case findActionDefinition (eiKind item) (eiVersion item) of
        None \<Rightarrow> throwM (ActionKindUnknownError (eiKind item) (eiVersion item))
      | Some d \<Rightarrow>
          bindM (itemInputs item) (\<lambda>raw.
          bindM (rewriteInputs index ids lane [] raw) (\<lambda>inputs.
          bindM (requireM (\<not> missingInput d inputs) (CoreError ''enqueueActions: a required input is missing'')) (\<lambda>_.
          bindM (requireM (case js_get inputs ''urgency'' of None \<Rightarrow> True | Some u \<Rightarrow> js_to_string u \<in> set MESSAGE_URGENCIES)
                   UnknownUrgencyError) (\<lambda>_.
            insertAction (newActionRow (ids ! index) b (firstPosition + int index) item d inputs key t))))))"

record enqueue_request =
  erBeeId :: string
  erIdempotencyKey :: string
  erRequestHash :: string
  erItems :: "enqueue_item list"

definition replayEnqueue :: "enqueue_request \<Rightarrow> action_enqueue_row \<Rightarrow> (action_row list \<times> bool) store_op" where
  "replayEnqueue input existing =
     bindM (requireM (eRequestHash existing = erRequestHash input) IdempotencyConflictError) (\<lambda>_.
     bindM (readM (\<lambda>s. list_all (\<lambda>i. getAction s i \<noteq> None) (eActionIds existing))) (\<lambda>present.
     bindM (if present then returnM () else bindM (mustGetBee (erBeeId input)) (\<lambda>_. returnM ())) (\<lambda>_.
     bindM (collectM (eActionIds existing) mustGetAction) (\<lambda>rows. returnM (rows, True)))))"

definition acceptEnqueue :: "enqueue_request \<Rightarrow> (action_row list \<times> bool) store_op" where
  "acceptEnqueue input =
     (let b = erBeeId input; items = erItems input; key = erIdempotencyKey input
      in bindM (mustGetBee b) (\<lambda>_.
         bindM (ensureActionQueue b) (\<lambda>queue.
         bindM (readM (\<lambda>s. listActionsOf s b)) (\<lambda>lane.
         bindM (collectM items (\<lambda>_. mintActionId)) (\<lambda>ids.
         bindM (readM clock) (\<lambda>t.
         bindM (eachM [0..<length items]
                  (\<lambda>index. acceptItem b key ids lane (qrwNextPosition queue) t index (items ! index))) (\<lambda>_.
         bindM (collectM ids mustGetAction) (\<lambda>rows.
         bindM (modifyM (\<lambda>s. s\<lparr>actionQueues := update_rows (\<lambda>q. qdBeeId q = b)
                  (\<lambda>q. q\<lparr>qdNextPosition := qrwNextPosition queue + int (length items), qdUpdatedAt := t\<rparr>)
                  (actionQueues s)\<rparr>)) (\<lambda>_.
         bindM (modifyM (\<lambda>s. s\<lparr>actionEnqueues := actionEnqueues s @
                  [\<lparr>eIdempotencyKey = key, eRequestHash = erRequestHash input, eBeeId = b, eActionIds = ids, eCreatedAt = t\<rparr>]\<rparr>)) (\<lambda>_.
           returnM (rows, False)))))))))))"

definition enqueueActions :: "enqueue_request \<Rightarrow> (action_row list \<times> bool) store_op" where
  "enqueueActions input =
     bindM (requireM (erIdempotencyKey input \<noteq> []) (CoreError ''enqueueActions: idempotencyKey is required'')) (\<lambda>_.
     bindM (requireM (erItems input \<noteq> []) (CoreError ''enqueueActions: items must be a non-empty array'')) (\<lambda>_.
       withActionLaneAudit (erBeeId input) ''accepted''
         (bindM (readM (\<lambda>s. getActionEnqueue s (erIdempotencyKey input))) (\<lambda>existing.
            case existing of
              Some e \<Rightarrow> replayEnqueue input e
            | None \<Rightarrow> acceptEnqueue input))))"

section \<open>Pausing\<close>

definition setQueuePaused :: "string \<Rightarrow> bool \<Rightarrow> int \<Rightarrow> unit store_op" where
  "setQueuePaused b paused t =
     modifyM (\<lambda>s. s\<lparr>actionQueues := update_rows (\<lambda>q. qdBeeId q = b)
       (\<lambda>q. q\<lparr>qdPaused := paused, qdPausedAt := (if paused then Some t else None), qdUpdatedAt := t\<rparr>) (actionQueues s)\<rparr>)"

definition pauseActionQueue :: "string \<Rightarrow> (action_queue_view \<times> bool) store_op" where
  "pauseActionQueue b =
     withActionLaneAudit b ''paused''
       (bindM (ensureActionQueue b) (\<lambda>queue.
          if qvPaused (qrwView queue) then returnM (toActionQueueView queue, False)
          else
            bindM (readM clock) (\<lambda>t.
            bindM (setQueuePaused b True t) (\<lambda>_.
            bindM (readM (\<lambda>s. the (getActionQueue s b))) (\<lambda>after. returnM (toActionQueueView after, True))))))"

definition resumeActionQueue :: "string \<Rightarrow> (action_queue_view \<times> bool) store_op" where
  "resumeActionQueue b =
     withActionLaneAudit b ''resumed''
       (bindM (ensureActionQueue b) (\<lambda>queue.
          if \<not> qvPaused (qrwView queue) then returnM (toActionQueueView queue, False)
          else
            bindM (readM clock) (\<lambda>t.
            bindM (setQueuePaused b False t) (\<lambda>_.
            bindM (readM (\<lambda>s. the (getActionQueue s b))) (\<lambda>after. returnM (toActionQueueView after, True))))))"

section \<open>Cancelling, retrying, reordering\<close>

text \<open>An instruction that is still in the mailbox is withdrawn with its action.\<close>

definition withdrawInstruction :: "action_row \<Rightarrow> string \<Rightarrow> unit store_op" where
  "withdrawInstruction row owner =
     (case aDispatch row of
        None \<Rightarrow> returnM ()
      | Some d \<Rightarrow>
          (case dpMessageId d of
             None \<Rightarrow> returnM ()
           | Some m \<Rightarrow>
               if dpDeliveredAt d \<noteq> None then returnM ()
               else
                 bindM (readM (\<lambda>s. getMessage s m)) (\<lambda>message.
                   case message of
                     None \<Rightarrow> returnM ()
                   | Some msg \<Rightarrow> whenM (mDeliveredAt msg = None) (removeOwnedMessage msg owner))))"

definition is_terminal :: "action_row \<Rightarrow> bool" where
  "is_terminal row \<longleftrightarrow> aStatus row \<in> set ACTION_TERMINAL_STATUSES"

definition inLane :: "string \<Rightarrow> string \<Rightarrow> (action_row \<Rightarrow> 'a store_op) \<Rightarrow> 'a store_op" where
  "inLane i reason body =
     bindM (mustGetAction i) (\<lambda>target.
       withActionLaneAudit (aBeeId target) reason (bindM (mustGetAction i) body))"

definition cancelAction :: "string \<Rightarrow> bool \<Rightarrow> (action_view \<times> bool) store_op" where
  "cancelAction i force =
     inLane i ''cancelled'' (\<lambda>row.
       (let controls = deriveActionControls row
        in if is_terminal row \<and> \<not> kCancel controls then bindM (actionView i) (\<lambda>v. returnM (v, False))
           else
             bindM (requireM (kCancel controls \<or> kForceCancel controls) (ActionRefusedError i)) (\<lambda>_.
             bindM (requireM (kCancel controls \<or> force) (ActionRefusedError i)) (\<lambda>_.
             bindM (readM clock) (\<lambda>t.
             bindM (whenM (aExecutor row = XAgent) (withdrawInstruction row ''action.cancel'')) (\<lambda>_.
             bindM (updateActionRow i
                      (\<lambda>r. r\<lparr>aStatus := ACancelled, aWaitingReason := None, aWaitingDetail := None,
                             aAttemptToken := None, aAttempts := closeActionAttempt row OCancelled t,
                             aFailure := aFailure row, aFinishedAt := Some t\<rparr>) None None) (\<lambda>_.
             bindM (actionView i) (\<lambda>v. returnM (v, True)))))))))"

definition retryAction :: "string \<Rightarrow> bool \<Rightarrow> action_view store_op" where
  "retryAction i force =
     inLane i ''retried'' (\<lambda>row.
       (let controls = deriveActionControls row
        in bindM (requireM (kRetry controls \<or> kForceRetry controls) (ActionRefusedError i)) (\<lambda>_.
           bindM (requireM (kRetry controls \<or> force) (ActionRefusedError i)) (\<lambda>_.
           bindM (readM clock) (\<lambda>t.
           bindM (updateActionRow i
                    (\<lambda>r. r\<lparr>aStatus := AQueued, aWaitingReason := None, aWaitingDetail := None, aAttemptToken := None,
                           aDispatch := None, aProgress := None, aQuestionId := None, aResult := None,
                           aFailure := None, aResolvedInputs := None,
                           aAttempts := closeActionAttempt row (if aStatus row = AFailed then OFailed else OSuperseded) t,
                           aFinishedAt := None\<rparr>) (Some None) (Some None)) (\<lambda>_.
             actionView i))))))"

definition setPosition :: "string \<Rightarrow> int \<Rightarrow> int \<Rightarrow> unit store_op" where
  "setPosition i position t =
     bindM (readM (\<lambda>s. getAction s i)) (\<lambda>row.
       case row of
         None \<Rightarrow> returnM ()
       | Some r \<Rightarrow> putAction (r\<lparr>aPosition := position, aUpdatedAt := t\<rparr>))"

definition index_of :: "'a \<Rightarrow> 'a list \<Rightarrow> nat" where
  "index_of x xs = length (takeWhile (\<lambda>y. y \<noteq> x) xs)"

text \<open>Every reference into another queued action must still point backwards in the new order.\<close>

definition orderKeepsRefs :: "action_row list \<Rightarrow> string list \<Rightarrow> bool" where
  "orderKeepsRefs queued order \<longleftrightarrow>
     list_all (\<lambda>row. list_all (\<lambda>(input, a, out).
         a \<in> set (map aId queued) \<longrightarrow> index_of a order < index_of (aId row) order)
       (actionRefTargets (aInputs row))) queued"

definition reorderActions :: "string \<Rightarrow> string list \<Rightarrow> action_view list store_op" where
  "reorderActions b order =
     withActionLaneAudit b ''reordered''
       (bindM (mustGetBee b) (\<lambda>_.
        bindM (readM (\<lambda>s. filter (\<lambda>a. aStatus a = AQueued) (listActionsOf s b))) (\<lambda>queued.
        bindM (requireM (length order = length queued \<and> distinct order \<and> set order \<subseteq> set (map aId queued))
                 ActionReorderInvalidError) (\<lambda>_.
        bindM (requireM (orderKeepsRefs queued order) ActionReorderInvalidError) (\<lambda>_.
        bindM (readM clock) (\<lambda>t.
          (let positions = sort (map aPosition queued)
           in bindM (eachM [0..<length order] (\<lambda>k. setPosition (order ! k) (- (int k + 1)) t)) (\<lambda>_.
              bindM (eachM [0..<length order] (\<lambda>k. setPosition (order ! k) (positions ! k) t)) (\<lambda>_.
                readM (\<lambda>s. listActionViews s (Some b) []))))))))))"

section \<open>Dispatching\<close>

definition dispatchUrgency :: "jobject \<Rightarrow> urgency" where
  "dispatchUrgency inputs =
     (case js_get inputs ''urgency'' of
        Some (JStr s) \<Rightarrow> if s = ''now'' then UNow else if s = ''idle'' then UIdle else UNext
      | _ \<Rightarrow> UNext)"

definition refusal_text :: "ref_refusal \<Rightarrow> string" where
  "refusal_text why =
     (case why of MissingAction \<Rightarrow> ''missing_action'' | NotSucceeded \<Rightarrow> ''not_succeeded'' | MissingOutput \<Rightarrow> ''missing_output'')"

text \<open>\<open>None\<close> when a reference is not met: the action has then failed with \<open>input_unresolved\<close>.\<close>

definition resolveForDispatch :: "action_row \<Rightarrow> int \<Rightarrow> jobject option store_op" where
  \<open>resolveForDispatch row t =
     bindM (readM (\<lambda>s. resolveActionInputs (aInputs row) (getAction s))) (\<lambda>res.
       case res of
         Resolved r \<Rightarrow> returnM (Some r)
       | Unresolved name a out why \<Rightarrow>
           bindM (failActionRow row ''input_unresolved''
                    (''input '' @ [CHR 0x27] @ name @ [CHR 0x27] @ '' references action '' @ a @ '' output ''
                     @ [CHR 0x27] @ out @ [CHR 0x27] @ '': '' @ refusal_text why) True t) (\<lambda>_. returnM None))\<close>

definition newDispatch ::
  "nat \<Rightarrow> int \<Rightarrow> nat option \<Rightarrow> nat option \<Rightarrow> string option \<Rightarrow> string option \<Rightarrow> action_dispatch" where
  "newDispatch attempt t generation messageId operationKey expectedHead =
     \<lparr>dpAttempt = attempt, dpDispatchedAt = t, dpGeneration = generation, dpMessageId = messageId,
      dpDeliveredAt = None, dpDeliveredGeneration = None, dpOperationKey = operationKey, dpClaimedBy = None,
      dpClaimedAt = None, dpExpectedHead = expectedHead, dpNudgedAt = None\<rparr>"

definition actionMail :: "urgency \<Rightarrow> send_opts" where
  "actionMail u =
     \<lparr>soSender = ACTION_DISPATCH_SENDER, soUrgency = u, soOrigin = OrActionDispatch, soSenderKind = None,
      soAutomationKind = None\<rparr>"

definition dispatchAgentAction :: "string \<Rightarrow> (action_view \<times> nat option) store_op" where
  "dispatchAgentAction i =
     inLane i ''dispatched'' (\<lambda>row.
       bindM (requireM (aStatus row = AQueued) (ActionRefusedError i)) (\<lambda>_.
       bindM (requireM (aExecutor row = XAgent) (ActionRefusedError i)) (\<lambda>_.
       bindM (readM clock) (\<lambda>t.
       bindM (resolveForDispatch row t) (\<lambda>resolved.
         case resolved of
           None \<Rightarrow> bindM (actionView i) (\<lambda>v. returnM (v, None))
         | Some r \<Rightarrow>
             bindM mintActionToken (\<lambda>token.
             bindM (send (aBeeId row) (renderActionInstruction row r token (aAttempt row + 1))
                      (actionMail (dispatchUrgency r))) (\<lambda>sent.
             bindM (readM (\<lambda>s. currentGeneration s (aBeeId row))) (\<lambda>generation.
               (let m = mId (srMessage sent)
                in bindM (updateActionRow i
                      (\<lambda>a. a\<lparr>aStatus := ARunning, aWaitingReason := None, aWaitingDetail := None,
                             aAttempt := aAttempt row + 1, aAttemptToken := Some token, aResolvedInputs := Some r,
                             aDispatch := Some (newDispatch (aAttempt row + 1) t generation (Some m) None None),
                             aProgress := None, aQuestionId := None, aResult := None, aFailure := None\<rparr>)
                      (Some (Some m)) (Some None)) (\<lambda>_.
                   bindM (actionView i) (\<lambda>v. returnM (v, Some m))))))))))))"

definition archiveReceipt :: "(string \<times> json) list \<Rightarrow> json \<Rightarrow> string option \<Rightarrow> nat \<Rightarrow> int \<Rightarrow> action_result" where
  "archiveReceipt receipt archivedAt detail attempt t =
     \<lparr>arOutputs = [(''archivedAt'', archivedAt)], arReceipt = Some receipt, arDetail = detail,
      arReconciled = False, arAttempt = attempt, arAt = t\<rparr>"

definition json_time :: "int option \<Rightarrow> json" where
  "json_time t = (case t of Some n \<Rightarrow> JNum n | None \<Rightarrow> JNull)"

definition dispatchArchiveAction :: "string \<Rightarrow> (action_view \<times> nat option) store_op" where
  "dispatchArchiveAction i =
     inLane i ''dispatched'' (\<lambda>row.
       bindM (requireM (aStatus row = AQueued) (ActionRefusedError i)) (\<lambda>_.
       bindM (requireM (aExecutor row = XLifecycleArchive) (ActionRefusedError i)) (\<lambda>_.
       bindM (readM clock) (\<lambda>t.
       bindM (resolveForDispatch row t) (\<lambda>resolved.
         case resolved of
           None \<Rightarrow> bindM (actionView i) (\<lambda>v. returnM (v, None))
         | Some r \<Rightarrow>
             (let attempt = aAttempt row + 1; key = actionOperationKey i attempt
              in bindM (mustGetBee (aBeeId row)) (\<lambda>bee.
                 bindM (readM (\<lambda>s. currentGeneration s (aBeeId row))) (\<lambda>generation.
                   (let dispatch = newDispatch attempt t generation None (Some key) None
                    in if bLifecycle bee = LArchived
                       then
                         bindM (updateActionRow i
                            (\<lambda>a. a\<lparr>aStatus := ASucceeded, aAttempt := attempt, aAttemptToken := None,
                                   aResolvedInputs := Some r, aDispatch := Some dispatch,
                                   aResult := Some (archiveReceipt [(''alreadyArchived'', JBool True)]
                                                (json_time (bArchivedAt bee)) (Some ''bee was already archived'') attempt t),
                                   aFailure := None, aFinishedAt := Some t\<rparr>) (Some None) (Some (Some key))) (\<lambda>_.
                         bindM (actionView i) (\<lambda>v. returnM (v, None)))
                       else
                         bindM (enqueueCommand VArchive (aBeeId row)
                                  [(''reason'', JStr ''action''), (''actionId'', JStr i)] (Some key) None) (\<lambda>(cmd, _).
                         bindM (updateActionRow i
                            (\<lambda>a. a\<lparr>aStatus := ARunning, aWaitingReason := None, aWaitingDetail := None, aAttempt := attempt,
                                   aAttemptToken := None, aResolvedInputs := Some r, aDispatch := Some dispatch,
                                   aProgress := None, aQuestionId := None, aResult := None, aFailure := None\<rparr>)
                            (Some None) (Some (Some key))) (\<lambda>_.
                         bindM (actionView i) (\<lambda>v. returnM (v, Some (cId cmd))))))))))))))"

definition lifecycle_text :: "lifecycle \<Rightarrow> string" where
  "lifecycle_text l = (case l of LActive \<Rightarrow> ''active'' | LArchived \<Rightarrow> ''archived'')"

definition command_status_text :: "command_status \<Rightarrow> string" where
  "command_status_text st =
     (case st of CQueued \<Rightarrow> ''queued'' | CRunning \<Rightarrow> ''running'' | CDone \<Rightarrow> ''done'' | CFailed \<Rightarrow> ''failed'')"

definition flag_text :: "flag_name \<Rightarrow> string" where
  "flag_text f =
     (case f of FAuthNeeded \<Rightarrow> ''auth_needed'' | FResourceBlocked \<Rightarrow> ''resource_blocked''
      | FSpawnFailed \<Rightarrow> ''spawn_failed'' | FNodeUnreachable \<Rightarrow> ''node_unreachable'')"

definition settleArchive :: "string \<Rightarrow> action_row \<Rightarrow> string \<Rightarrow> command_row option \<Rightarrow> (action_view \<times> bool) store_op" where
  "settleArchive i row key cmd =
     bindM (readM clock) (\<lambda>t.
     bindM (case cmd of
              None \<Rightarrow> failActionRow row ''operation_missing''
                        (''archive command '' @ key @ '' is not in the command queue'') True t
            | Some c \<Rightarrow>
                if cStatus c = CFailed
                then failActionRow row (''command_'' @ (case cFailureCause c of Some f \<Rightarrow> flag_text f | None \<Rightarrow> ''failed''))
                       (''archive command '' @ nat_text (cId c) @ '' failed'') True t
                else
                  bindM (mustGetBee (aBeeId row)) (\<lambda>bee.
                    updateActionRow i
                      (\<lambda>a. a\<lparr>aStatus := ASucceeded,
                             aResult := Some (archiveReceipt
                                [(''commandId'', JNum (int (cId c))), (''commandStatus'', JStr (command_status_text (cStatus c))),
                                 (''lifecycle'', JStr (lifecycle_text (bLifecycle bee)))]
                                (JNum (case bArchivedAt bee of Some n \<Rightarrow> n
                                       | None \<Rightarrow> (case cFinishedAt c of Some n \<Rightarrow> n | None \<Rightarrow> t))) None (aAttempt row) t),
                             aAttempts := closeActionAttempt row OSucceeded t,
                             aFinishedAt := Some t\<rparr>) None None)) (\<lambda>_.
     bindM (actionView i) (\<lambda>v. returnM (v, True))))"

definition reconcileArchiveAction :: "string \<Rightarrow> (action_view \<times> bool) store_op" where
  "reconcileArchiveAction i =
     bindM (mustGetAction i) (\<lambda>row.
       case (if aStatus row = ARunning \<and> aExecutor row = XLifecycleArchive
             then Option.bind (aDispatch row) dpOperationKey else None) of
         None \<Rightarrow> bindM (actionView i) (\<lambda>v. returnM (v, False))
       | Some key \<Rightarrow>
           if key = [] then bindM (actionView i) (\<lambda>v. returnM (v, False))
           else
             bindM (readM (\<lambda>s. getCommandByIdempotencyKey s key)) (\<lambda>cmd.
               if (case cmd of Some c \<Rightarrow> cStatus c = CQueued \<or> cStatus c = CRunning | None \<Rightarrow> False)
               then bindM (actionView i) (\<lambda>v. returnM (v, False))
               else withActionLaneAudit (aBeeId row) ''reconciled'' (settleArchive i row key cmd)))"

text \<open>The part of \<open>holdActionForExecutor\<close> for a queued action.\<close>

definition offerAction :: "string \<Rightarrow> action_row \<Rightarrow> string \<Rightarrow> action_view store_op" where
  "offerAction i row detail =
     bindM (readM clock) (\<lambda>t.
     bindM (resolveForDispatch row t) (\<lambda>resolved.
       case resolved of
         None \<Rightarrow> actionView i
       | Some r \<Rightarrow>
           if aExecutor row = XExternal
           then
             (let attempt = aAttempt row + 1; key = actionOperationKey i attempt
              in bindM mintActionToken (\<lambda>token.
                 bindM (readM (\<lambda>s. currentGeneration s (aBeeId row))) (\<lambda>generation.
                 bindM (updateActionRow i
                    (\<lambda>a. a\<lparr>aStatus := AWaiting, aWaitingReason := Some WExecutor, aWaitingDetail := Some detail,
                           aAttempt := attempt, aAttemptToken := Some token, aResolvedInputs := Some r,
                           aDispatch := Some (newDispatch attempt t generation None (Some key) None),
                           aProgress := None, aQuestionId := None, aResult := None, aFailure := None\<rparr>)
                    (Some None) (Some (Some key))) (\<lambda>_. actionView i))))
           else
             bindM (updateActionRow i
                (\<lambda>a. a\<lparr>aStatus := AWaiting, aWaitingReason := Some WExecutor, aWaitingDetail := Some detail,
                       aResolvedInputs := Some r\<rparr>) None None) (\<lambda>_. actionView i)))"

definition holdActionForExecutor :: "string \<Rightarrow> string \<Rightarrow> action_view store_op" where
  "holdActionForExecutor i detail =
     bindM (mustGetAction i) (\<lambda>target.
       if aStatus target = AWaiting \<and> aWaitingReason target = Some WExecutor \<and> aWaitingDetail target = Some detail
       then actionView i
       else
         inLane i ''executor_unavailable'' (\<lambda>row.
           if aStatus row = AWaiting \<and> aWaitingReason row = Some WExecutor
           then bindM (if aWaitingDetail row \<noteq> Some detail
                       then bindM (updateActionRow i (\<lambda>a. a\<lparr>aWaitingDetail := Some detail\<rparr>) None None) (\<lambda>_. returnM ())
                       else returnM ()) (\<lambda>_. actionView i)
           else bindM (requireM (aStatus row = AQueued) (ActionRefusedError i)) (\<lambda>_. offerAction i row detail)))"

definition beginCellCaptureAttempt :: "string \<Rightarrow> string option \<Rightarrow> (action_view \<times> jobject option) store_op" where
  "beginCellCaptureAttempt i expectedHead =
     inLane i ''dispatched'' (\<lambda>row.
       bindM (requireM (aExecutor row = XCellCapture) (ActionRefusedError i)) (\<lambda>_.
       bindM (requireM (aStatus row = AQueued \<or> (aStatus row = AWaiting \<and> aWaitingReason row = Some WExecutor))
                (ActionRefusedError i)) (\<lambda>_.
       bindM (readM clock) (\<lambda>t.
       bindM (resolveForDispatch row t) (\<lambda>resolved.
         case resolved of
           None \<Rightarrow> bindM (actionView i) (\<lambda>v. returnM (v, None))
         | Some r \<Rightarrow>
             (let attempt = aAttempt row + 1; key = actionOperationKey i attempt
              in bindM (readM (\<lambda>s. currentGeneration s (aBeeId row))) (\<lambda>generation.
                 bindM (updateActionRow i
                    (\<lambda>a. a\<lparr>aStatus := ARunning, aWaitingReason := None, aWaitingDetail := None, aAttempt := attempt,
                           aAttemptToken := None, aResolvedInputs := Some r,
                           aDispatch := Some (newDispatch attempt t generation None (Some key) expectedHead),
                           aProgress := None, aQuestionId := None, aResult := None, aFailure := None\<rparr>)
                    (Some None) (Some (Some key))) (\<lambda>_.
                 bindM (actionView i) (\<lambda>v. returnM (v, Some r))))))))))"

definition markInFlightCaptureActionsUncertain :: "string \<Rightarrow> string list store_op" where
  "markInFlightCaptureActionsUncertain detail =
     bindM (readM (\<lambda>s. filter (\<lambda>a. aExecutor a = XCellCapture) (listActions s None [ARunning]))) (\<lambda>rows.
     bindM (eachM rows (\<lambda>row.
              withActionLaneAudit (aBeeId row) ''boot_uncertain''
                (bindM (updateActionRow (aId row)
                   (\<lambda>a. a\<lparr>aStatus := AWaiting, aWaitingReason := Some WUncertain, aWaitingDetail := Some detail\<rparr>) None None)
                   (\<lambda>_. returnM ())))) (\<lambda>_.
       returnM (map aId rows)))"

section \<open>Claims of external executors\<close>

definition isUncertain :: "action_row \<Rightarrow> bool" where
  "isUncertain row \<longleftrightarrow> aStatus row = AWaiting \<and> aWaitingReason row = Some WUncertain"

definition isOffered :: "action_row \<Rightarrow> bool" where
  "isOffered row \<longleftrightarrow> aStatus row = AWaiting \<and> aWaitingReason row = Some WExecutor"

text \<open>\<open>row.dispatch?.claimedBy\<close> when it is a non-empty string.\<close>

definition claimant :: "action_row \<Rightarrow> string option" where
  "claimant row = (case Option.bind (aDispatch row) dpClaimedBy of Some (c # cs) \<Rightarrow> Some (c # cs) | _ \<Rightarrow> None)"

record claim_input =
  ciExecutor :: string
  ciActionId :: "string option"
  ciKinds :: "string list"
  ciBeeId :: "string option"

record claim_result =
  crAction :: action_view
  crToken :: string
  crResolvedInputs :: jobject
  crDeduped :: bool

definition claimCandidates :: "core \<Rightarrow> claim_input \<Rightarrow> action_row list" where
  "claimCandidates s input =
     sort_key (\<lambda>a. (case aDispatch a of Some d \<Rightarrow> dpDispatchedAt d | None \<Rightarrow> 0, aPosition a))
       (filter (\<lambda>a. aExecutor a = XExternal
            \<and> ((isOffered a \<and> Option.bind (aDispatch a) dpClaimedBy = None)
               \<or> ((aStatus a = ARunning \<or> isUncertain a)
                  \<and> Option.bind (aDispatch a) dpClaimedBy = Some (ciExecutor input)))
            \<and> (ciKinds input = [] \<or> aKind a \<in> set (ciKinds input)))
          (listActions s (case ciBeeId input of Some (c # cs) \<Rightarrow> Some (c # cs) | _ \<Rightarrow> None) [AWaiting, ARunning]))"

definition claimNamed :: "claim_input \<Rightarrow> string \<Rightarrow> action_row option store_op" where
  "claimNamed input i =
     bindM (mustGetAction i) (\<lambda>row.
     bindM (requireM (aExecutor row = XExternal) (ActionRefusedError i)) (\<lambda>_.
     bindM (requireM (claimant row = None \<or> claimant row = Some (ciExecutor input) \<or> is_terminal row) ActionClaimedError) (\<lambda>_.
     bindM (requireM (isOffered row
              \<or> ((aStatus row = ARunning \<or> isUncertain row)
                 \<and> Option.bind (aDispatch row) dpClaimedBy = Some (ciExecutor input))) (ActionRefusedError i)) (\<lambda>_.
       returnM (Some row)))))"

text \<open>An attempt that was offered carries a dispatch and a non-empty token.\<close>

definition offeredAttempt :: "action_row \<Rightarrow> (action_dispatch \<times> string) option" where
  "offeredAttempt row =
     (case (aDispatch row, aAttemptToken row) of
        (Some d, Some (c # cs)) \<Rightarrow> Some (d, c # cs)
      | _ \<Rightarrow> None)"

definition claimFound :: "string \<Rightarrow> action_row \<Rightarrow> action_dispatch \<Rightarrow> string \<Rightarrow> claim_result option store_op" where
  "claimFound executor row d token =
     (let resolved = (case aResolvedInputs row of Some r \<Rightarrow> r | None \<Rightarrow> [])
      in bindM (requireM (claimant row = None \<or> claimant row = Some executor) ActionClaimedError) (\<lambda>_.
           if dpClaimedBy d = Some executor \<and> (aStatus row = ARunning \<or> isUncertain row)
           then bindM (actionView (aId row)) (\<lambda>v.
                  returnM (Some \<lparr>crAction = v, crToken = token, crResolvedInputs = resolved, crDeduped = True\<rparr>))
           else
             bindM (readM clock) (\<lambda>t.
             bindM (withActionLaneAudit (aBeeId row) ''claimed''
                      (updateActionRow (aId row)
                         (\<lambda>a. a\<lparr>aStatus := ARunning, aWaitingReason := None, aWaitingDetail := None,
                                aDispatch := Some (d\<lparr>dpClaimedBy := Some executor, dpClaimedAt := Some t\<rparr>)\<rparr>) None None)) (\<lambda>_.
             bindM (actionView (aId row)) (\<lambda>v.
               returnM (Some \<lparr>crAction = v, crToken = token, crResolvedInputs = resolved, crDeduped = False\<rparr>))))))"

definition claimTarget :: "claim_input \<Rightarrow> action_row option store_op" where
  "claimTarget input =
     (case ciActionId input of
        Some (c # cs) \<Rightarrow> claimNamed input (c # cs)
      | _ \<Rightarrow> readM (\<lambda>s. case claimCandidates s input of [] \<Rightarrow> None | a # _ \<Rightarrow> Some a))"

definition claimAction :: "claim_input \<Rightarrow> claim_result option store_op" where
  "claimAction input =
     bindM (requireNonEmpty (Some (ciExecutor input)) ''claimAction: executor'') (\<lambda>executor.
     bindM (claimTarget input) (\<lambda>found.
       case found of
         None \<Rightarrow> returnM None
       | Some row \<Rightarrow>
           (case offeredAttempt row of
              None \<Rightarrow> returnM None
            | Some (d, token) \<Rightarrow> claimFound executor row d token)))"

section \<open>Reports\<close>

datatype report_outcome = RoSucceeded | RoFailed | RoUncertain

record report_failure =
  rfCode :: "string option"
  rfDetail :: "string option"
  rfRetryable :: "bool option"

record action_report =
  rpActionId :: string
  rpAttempt :: int
  rpToken :: string
  rpBeeId :: "string option"
  rpExecutor :: "string option"
  rpKind :: report_kind
  rpNote :: "string option"
  rpQuestion :: "(string option \<times> string list option) option"
  rpOutcome :: "report_outcome option"
  rpOutputs :: "json option"
  rpReceipt :: "jobject option"
  rpDetail :: "string option"
  rpFailure :: "report_failure option"

record report_result =
  rrAction :: action_view
  rrApplied :: bool
  rrDeduped :: bool
  rrQuestion :: "question_row option"

text \<open>The outcome of a settled action that a repeated result may state again.\<close>

definition repeatsOutcome :: "action_row \<Rightarrow> report_outcome option \<Rightarrow> bool" where
  "repeatsOutcome row outcome \<longleftrightarrow>
     (aStatus row = ASucceeded \<and> outcome = Some RoSucceeded) \<or> (aStatus row = AFailed \<and> outcome = Some RoFailed)"

text \<open>Why a report is refused before any transaction; the checks are in the order of the code.\<close>

definition reporterRefusal :: "action_row \<Rightarrow> action_report \<Rightarrow> reject_reason option" where
  "reporterRefusal row input =
     (case aExecutor row of
        XAgent \<Rightarrow> if non_empty (rpBeeId input) = Some (aBeeId row) then None else Some RjUnauthorized
      | XExternal \<Rightarrow>
          if non_empty (rpExecutor input) \<noteq> None \<and> Option.bind (aDispatch row) dpClaimedBy = rpExecutor input
          then None else Some RjUnauthorized
      | _ \<Rightarrow> Some RjRefused)"

definition reportRefusal :: "action_row \<Rightarrow> action_report \<Rightarrow> reject_reason option" where
  "reportRefusal row input =
     (if rpAttempt input < int (aAttempt row) then Some RjStaleAttempt
      else if rpAttempt input > int (aAttempt row) \<or> aAttempt row = 0 then Some RjUnknownAttempt
      else if reporterRefusal row input \<noteq> None then reporterRefusal row input
      else if non_empty (aAttemptToken row) = None \<or> aAttemptToken row \<noteq> Some (rpToken input) then Some RjUnauthorized
      else if rpKind input = RkQuestion \<and> is_terminal row then Some RjRefused
      else if rpKind input = RkResult \<and> is_terminal row \<and> \<not> repeatsOutcome row (rpOutcome input)
              \<and> rpOutcome input \<noteq> None then Some RjRefused
      else None)"

definition rejectError :: "string \<Rightarrow> reject_reason \<Rightarrow> core_error" where
  "rejectError i why =
     (case why of RjStaleAttempt \<Rightarrow> ActionStaleAttemptError | RjUnauthorized \<Rightarrow> ActionUnauthorizedError
      | _ \<Rightarrow> ActionRefusedError i)"

definition finishReport :: "string \<Rightarrow> bool \<Rightarrow> bool \<Rightarrow> question_row option \<Rightarrow> report_result store_op" where
  "finishReport i applied deduped question =
     bindM (actionView i) (\<lambda>v.
       returnM \<lparr>rrAction = v, rrApplied = applied, rrDeduped = deduped, rrQuestion = question\<rparr>)"

definition reportProgress :: "action_report \<Rightarrow> action_row \<Rightarrow> report_result store_op" where
  "reportProgress input row =
     bindM (requireNonEmpty (rpNote input) ''reportAction: note'') (\<lambda>note.
       if is_terminal row then finishReport (aId row) False True None
       else
         bindM (readM clock) (\<lambda>t.
         bindM (withActionLaneAudit (aBeeId row) ''progress''
                  (updateActionRow (aId row)
                     (\<lambda>a. a\<lparr>aProgress := Some \<lparr>apNote = note, apAt = t, apAttempt = aAttempt row\<rparr>\<rparr>) None None)) (\<lambda>_.
           finishReport (aId row) True False None)))"

text \<open>The question the action already waits for, while it is open.\<close>

definition openActionQuestion :: "core \<Rightarrow> action_row \<Rightarrow> question_row option" where
  "openActionQuestion s row =
     (if aStatus row = AWaiting \<and> aWaitingReason row = Some WInput
      then (case Option.bind (non_empty (aQuestionId row)) (getQuestion s) of
              Some q \<Rightarrow> if qStatus q = QsOpen then Some q else None
            | None \<Rightarrow> None)
      else None)"

definition reportQuestion :: "action_report \<Rightarrow> action_row \<Rightarrow> report_result store_op" where
  "reportQuestion input row =
     bindM (requireNonEmpty (Option.bind (rpQuestion input) fst) ''reportAction: question.text'') (\<lambda>text.
     bindM (requireM (\<not> is_terminal row) (ActionRefusedError (aId row))) (\<lambda>_.
     bindM (readM (\<lambda>s. openActionQuestion s row)) (\<lambda>open.
       case open of
         Some q \<Rightarrow> finishReport (aId row) False True (Some q)
       | None \<Rightarrow>
           bindM (askQuestion (aBeeId row) text (Option.bind (rpQuestion input) snd) None) (\<lambda>question.
           bindM (withActionLaneAudit (aBeeId row) ''question''
                    (updateActionRow (aId row)
                       (\<lambda>a. a\<lparr>aStatus := AWaiting, aWaitingReason := Some WInput,
                              aWaitingDetail := Some (''question '' @ qId question),
                              aQuestionId := Some (qId question)\<rparr>) None None)) (\<lambda>_.
             finishReport (aId row) True False (Some question))))))"

definition objectOutputs :: "json option \<Rightarrow> string \<Rightarrow> jobject store_op" where
  "objectOutputs v where' =
     (case v of
        None \<Rightarrow> returnM []
      | Some JNull \<Rightarrow> returnM []
      | Some (JObj obj) \<Rightarrow> returnM obj
      | Some _ \<Rightarrow> throwM (CoreError (where' @ '': outputs must be an object'')))"

definition checkOutputs :: "action_row \<Rightarrow> jobject \<Rightarrow> unit store_op" where
  "checkOutputs row outputs =
     requireM (validateActionOutputs (aDefinition row) outputs
                 (requestedOutputNames (case aResolvedInputs row of Some r \<Rightarrow> r | None \<Rightarrow> aInputs row)) = None)
       (CoreError ''an output is missing or does not match'')"

definition reportSuccess :: "action_report \<Rightarrow> action_row \<Rightarrow> report_result store_op" where
  "reportSuccess input row =
     bindM (objectOutputs (rpOutputs input) ''reportAction'') (\<lambda>outputs.
     bindM (checkOutputs row outputs) (\<lambda>_.
     bindM (readM clock) (\<lambda>t.
     bindM (withActionLaneAudit (aBeeId row) ''succeeded''
              (updateActionRow (aId row)
                 (\<lambda>a. a\<lparr>aStatus := ASucceeded, aWaitingReason := None, aWaitingDetail := None,
                        aResult := Some \<lparr>arOutputs = outputs, arReceipt = rpReceipt input, arDetail = rpDetail input,
                                         arReconciled = isUncertain row, arAttempt = aAttempt row, arAt = t\<rparr>,
                        aFailure := None, aAttempts := closeActionAttempt row OSucceeded t,
                        aFinishedAt := Some t\<rparr>) None None)) (\<lambda>_.
       finishReport (aId row) True False None))))"

definition option_or :: "'a option \<Rightarrow> 'a \<Rightarrow> 'a" where
  "option_or v d = (case v of Some x \<Rightarrow> x | None \<Rightarrow> d)"

definition reportFailure :: "action_report \<Rightarrow> action_row \<Rightarrow> report_result store_op" where
  "reportFailure input row =
     bindM (readM clock) (\<lambda>t.
     bindM (withActionLaneAudit (aBeeId row) ''failed''
              (failActionRow row
                 (option_or (non_empty (Option.bind (rpFailure input) rfCode)) ''reported_failure'')
                 (case Option.bind (rpFailure input) rfDetail of
                    Some d \<Rightarrow> d
                  | None \<Rightarrow> option_or (rpDetail input) ''the executor reported failure'')
                 (option_or (Option.bind (rpFailure input) rfRetryable) True) t)) (\<lambda>_.
       finishReport (aId row) True False None))"

definition reportUncertain :: "action_report \<Rightarrow> action_row \<Rightarrow> report_result store_op" where
  "reportUncertain input row =
     (if isUncertain row then finishReport (aId row) False True None
      else
        bindM (withActionLaneAudit (aBeeId row) ''uncertain''
                 (updateActionRow (aId row)
                    (\<lambda>a. a\<lparr>aStatus := AWaiting, aWaitingReason := Some WUncertain,
                           aWaitingDetail := Some (option_or (rpDetail input) ''reporter could not establish the outcome'')\<rparr>)
                    None None)) (\<lambda>_.
          finishReport (aId row) True False None))"

definition reportTx :: "action_report \<Rightarrow> report_result store_op" where
  "reportTx input =
     bindM (mustGetAction (rpActionId input)) (\<lambda>row.
       case rpKind input of
         RkProgress \<Rightarrow> reportProgress input row
       | RkQuestion \<Rightarrow> reportQuestion input row
       | _ \<Rightarrow>
           (case rpOutcome input of
              None \<Rightarrow> throwM (CoreError ''reportAction: result outcome must be succeeded|failed|uncertain'')
            | Some outcome \<Rightarrow>
                if is_terminal row
                then (if repeatsOutcome row (Some outcome) then finishReport (aId row) False True None
                      else throwM (ActionRefusedError (aId row)))
                else (case outcome of
                        RoUncertain \<Rightarrow> reportUncertain input row
                      | RoSucceeded \<Rightarrow> reportSuccess input row
                      | RoFailed \<Rightarrow> reportFailure input row)))"

text \<open>
  A refused report is audited in a transaction of its own, which the throw does not roll back: the
  result is the error or the reply, together with the state afterwards.
\<close>

definition reportAction :: "action_report \<Rightarrow> core \<Rightarrow> (core_error + report_result) \<times> core" where
  "reportAction input s =
     (case getAction s (rpActionId input) of
        None \<Rightarrow> (Inl (ActionNotFoundError (rpActionId input)), s)
      | Some target \<Rightarrow>
          if rpAttempt input < 1 then (Inl (CoreError ''reportAction: attempt must be a positive integer''), s)
          else
            (case reportRefusal target input of
               Some why \<Rightarrow>
                 (Inl (rejectError (aId target) why),
                  s\<lparr>auditLog := auditLog s @
                     [EvActionReportRejected (aBeeId target) (aId target) (nat (rpAttempt input)) (aAttempt target)
                        (rpKind input) (rpBeeId input) (rpExecutor input) why]\<rparr>)
             | None \<Rightarrow>
                 (case reportTx input s of Inl e \<Rightarrow> (Inl e, s) | Inr (r, s') \<Rightarrow> (Inr r, s'))))"

section \<open>Settlement, completion, reminder\<close>

datatype settle_outcome =
    SettleSucceeded jobject "jobject option" "string option" bool
  | SettleFailed string string bool "jobject option"
  | SettleUncertain string

definition settle_reason :: "settle_outcome \<Rightarrow> string" where
  "settle_reason outcome =
     (case outcome of SettleSucceeded _ _ _ _ \<Rightarrow> ''settled_succeeded'' | SettleFailed _ _ _ _ \<Rightarrow> ''settled_failed''
      | SettleUncertain _ \<Rightarrow> ''settled_uncertain'')"

definition executor_text :: "action_executor \<Rightarrow> string" where
  "executor_text x =
     (case x of XAgent \<Rightarrow> ''agent'' | XCellCapture \<Rightarrow> ''cell.capture'' | XLifecycleArchive \<Rightarrow> ''lifecycle.archive''
      | XExternal \<Rightarrow> ''external'')"

definition settlePatch :: "settle_outcome \<Rightarrow> action_row \<Rightarrow> int \<Rightarrow> action_row \<Rightarrow> action_row" where
  "settlePatch outcome row t a =
     (case outcome of
        SettleUncertain detail \<Rightarrow>
          a\<lparr>aStatus := AWaiting, aWaitingReason := Some WUncertain, aWaitingDetail := Some detail\<rparr>
      | SettleFailed code detail retryable receipt \<Rightarrow>
          a\<lparr>aStatus := AFailed, aWaitingReason := None, aWaitingDetail := None,
            aFailure := Some \<lparr>afCode = code, afDetail = detail, afRetryable = retryable, afAttempt = aAttempt row, afAt = t\<rparr>,
            aResult := map_option (\<lambda>r. \<lparr>arOutputs = [], arReceipt = Some r, arDetail = Some detail, arReconciled = False,
                                        arAttempt = aAttempt row, arAt = t\<rparr>) receipt,
            aAttempts := closeActionAttempt row OFailed t, aFinishedAt := Some t\<rparr>
      | SettleSucceeded outputs receipt detail reconciled \<Rightarrow>
          a\<lparr>aStatus := ASucceeded, aWaitingReason := None, aWaitingDetail := None,
            aResult := Some \<lparr>arOutputs = outputs, arReceipt = receipt, arDetail = detail, arReconciled = reconciled,
                             arAttempt = aAttempt row, arAt = t\<rparr>,
            aFailure := None, aAttempts := closeActionAttempt row OSucceeded t, aFinishedAt := Some t\<rparr>)"

definition settleAction :: "string \<Rightarrow> nat \<Rightarrow> settle_outcome \<Rightarrow> (action_view \<times> bool) store_op" where
  "settleAction i attempt outcome =
     inLane i (settle_reason outcome) (\<lambda>row.
       if aAttempt row \<noteq> attempt
       then
         bindM (audit (EvActionReportRejected (aBeeId row) i attempt (aAttempt row) RkSettle None
                  (Some (executor_text (aExecutor row)))
                  (if attempt < aAttempt row then RjStaleAttempt else RjUnknownAttempt))) (\<lambda>_.
         bindM (actionView i) (\<lambda>v. returnM (v, False)))
       else if is_terminal row then bindM (actionView i) (\<lambda>v. returnM (v, False))
       else
         bindM (readM clock) (\<lambda>t.
         bindM (updateActionRow i (settlePatch outcome row t) None None) (\<lambda>_.
         bindM (actionView i) (\<lambda>v. returnM (v, True)))))"

definition operatorReceipt :: "action_row \<Rightarrow> jobject" where
  "operatorReceipt row =
     (''completedBy'', JStr ''operator'') #
     (case (if aStatus row = AFailed then aFailure row else None) of
        None \<Rightarrow> []
      | Some f \<Rightarrow>
          [(''overrodeFailure'', JObj [(''code'', JStr (afCode f)), (''detail'', JStr (afDetail f)),
                                      (''attempt'', JNum (int (afAttempt f))), (''at'', JNum (afAt f))])])"

definition answerActionQuestion :: "action_row \<Rightarrow> unit store_op" where
  "answerActionQuestion row =
     (case non_empty (aQuestionId row) of
        None \<Rightarrow> returnM ()
      | Some q \<Rightarrow>
          bindM (readM (\<lambda>s. getQuestion s q)) (\<lambda>question.
            case question of
              None \<Rightarrow> returnM ()
            | Some qu \<Rightarrow>
                if qStatus qu \<noteq> QsOpen then returnM ()
                else bindM (answerQuestion (qId qu)
                              (''Action '' @ aId row @ '' ('' @ dTitle (aDefinition row)
                               @ '') was completed by the operator; you do not need to report it.'') None) (\<lambda>_. returnM ())))"

definition completeRow :: "string \<Rightarrow> jobject \<Rightarrow> string option \<Rightarrow> action_row \<Rightarrow> (action_view \<times> bool) store_op" where
  "completeRow i outputs detail row =
     (let completable = kComplete (deriveActionControls row)
      in if is_terminal row \<and> \<not> completable then bindM (actionView i) (\<lambda>v. returnM (v, False))
         else
           bindM (requireM completable (ActionRefusedError i)) (\<lambda>_.
           bindM (checkOutputs row outputs) (\<lambda>_.
           bindM (readM clock) (\<lambda>t.
           bindM (withdrawInstruction row ''action.complete'') (\<lambda>_.
           bindM (updateActionRow i
                    (\<lambda>a. a\<lparr>aStatus := ASucceeded, aWaitingReason := None, aWaitingDetail := None,
                           aAttemptToken := (if aStatus row = AFailed then None else aAttemptToken a),
                           aResult := Some \<lparr>arOutputs = outputs, arReceipt = Some (operatorReceipt row), arDetail = detail,
                                            arReconciled = False, arAttempt = aAttempt row, arAt = t\<rparr>,
                           aFailure := None, aAttempts := closeActionAttempt row OSucceeded t,
                           aFinishedAt := Some t\<rparr>) None None) (\<lambda>_.
           bindM (answerActionQuestion row) (\<lambda>_.
           bindM (actionView i) (\<lambda>v. returnM (v, True)))))))))"

definition completeAction :: "string \<Rightarrow> json option \<Rightarrow> string option \<Rightarrow> (action_view \<times> bool) store_op" where
  "completeAction i givenOutputs detail =
     bindM (mustGetAction i) (\<lambda>_.
     bindM (objectOutputs givenOutputs ''completeAction'') (\<lambda>outputs.
       inLane i ''operator_complete'' (completeRow i outputs detail)))"

definition nudgeEligible :: "core \<Rightarrow> action_row \<Rightarrow> nat \<Rightarrow> bool" where
  "nudgeEligible s row attempt \<longleftrightarrow>
     aExecutor row = XAgent \<and> aStatus row = ARunning \<and> aAttempt row = attempt \<and> aAttemptToken row \<noteq> None
     \<and> (case aDispatch row of
          None \<Rightarrow> False
        | Some d \<Rightarrow> dpAttempt d = attempt \<and> dpDeliveredAt d \<noteq> None \<and> dpNudgedAt d = None)
     \<and> (case getBee s (aBeeId row) of None \<Rightarrow> False | Some b \<Rightarrow> bLifecycle b = LActive)"

definition nudgeAgentAction :: "string \<Rightarrow> nat \<Rightarrow> (action_view \<times> nat) option store_op" where
  "nudgeAgentAction i attempt =
     bindM (readM (\<lambda>s. case getAction s i of
                         None \<Rightarrow> None | Some row \<Rightarrow> if nudgeEligible s row attempt then Some row else None)) (\<lambda>target.
       case target of
         None \<Rightarrow> returnM None
       | Some row \<Rightarrow>
           withActionLaneAudit (aBeeId row) ''nudged''
             (bindM (send (aBeeId row) (renderActionNudge row (the (aAttemptToken row)) attempt) (actionMail UIdle)) (\<lambda>sent.
              bindM (readM clock) (\<lambda>t.
              bindM (updateActionRow i (\<lambda>a. a\<lparr>aDispatch := map_option (\<lambda>d. d\<lparr>dpNudgedAt := Some t\<rparr>) (aDispatch row)\<rparr>) None None) (\<lambda>_.
              bindM (actionView i) (\<lambda>v. returnM (Some (v, mId (srMessage sent)))))))))"

end
