(* ===== verification/Action_Lane.thy ===== *)
theory Action_Lane
  imports Action_Queue
begin

text \<open>
  The invariant of the lanes and the rules that carry it through the operations. The invariant says:
  ids and positions are unique, positions are below the queue's cursor, every row before a row that
  has started is succeeded or cancelled, a queued row carries no attempt, and references point
  backwards.
\<close>

section \<open>The invariant\<close>

definition finished :: "action_row \<Rightarrow> bool" where
  "finished a \<longleftrightarrow> aStatus a = ASucceeded \<or> aStatus a = ACancelled"

definition started :: "action_row \<Rightarrow> bool" where
  "started a \<longleftrightarrow> aStatus a \<noteq> AQueued \<and> aStatus a \<noteq> ACancelled"

definition comes_before :: "action_row \<Rightarrow> action_row \<Rightarrow> bool" where
  "comes_before a b \<longleftrightarrow> aBeeId a = aBeeId b \<and> aPosition a < aPosition b"

definition lane_ids :: "action_row list \<Rightarrow> bool" where
  "lane_ids acts \<longleftrightarrow> distinct (map aId acts) \<and> distinct (map (\<lambda>a. (aBeeId a, aPosition a)) acts)"

definition below_cursor :: "action_queue_db list \<Rightarrow> action_row \<Rightarrow> bool" where
  "below_cursor qs a \<longleftrightarrow> 1 \<le> aPosition a \<and> (\<exists>q \<in> set qs. qdBeeId q = aBeeId a \<and> aPosition a < qdNextPosition q)"

definition lane_bounds :: "action_row list \<Rightarrow> action_queue_db list \<Rightarrow> bool" where
  "lane_bounds acts qs \<longleftrightarrow> distinct (map qdBeeId qs) \<and> (\<forall>p \<in> set (map qdNextPosition qs). 1 \<le> p)
     \<and> (\<forall>a \<in> set acts. below_cursor qs a)"

definition earlier_finished :: "action_row list \<Rightarrow> action_row \<Rightarrow> bool" where
  "earlier_finished acts b \<longleftrightarrow> (\<forall>a \<in> set acts. comes_before a b \<longrightarrow> finished a)"

definition lane_progress :: "action_row list \<Rightarrow> bool" where
  "lane_progress acts \<longleftrightarrow> (\<forall>b \<in> set acts. started b \<longrightarrow> earlier_finished acts b)"

definition blank_attempt :: "action_row \<Rightarrow> bool" where
  "blank_attempt a \<longleftrightarrow> (aStatus a = AQueued \<longrightarrow> aAttemptToken a = None \<and> aDispatch a = None)"

definition ref_target :: "action_row \<Rightarrow> string \<Rightarrow> action_row \<Rightarrow> bool" where
  "ref_target a i b \<longleftrightarrow> aId b = i \<and> aBeeId b = aBeeId a \<and> aId b \<noteq> aId a
     \<and> (aStatus a \<noteq> ACancelled \<longrightarrow> aStatus b \<noteq> ACancelled \<longrightarrow> aPosition b < aPosition a)"

definition refs_backward :: "action_row list \<Rightarrow> action_row \<Rightarrow> bool" where
  "refs_backward acts a \<longleftrightarrow>
     (\<forall>i \<in> (\<lambda>r. fst (snd r)) ` set (actionRefTargets (aInputs a)). \<exists>b \<in> set acts. ref_target a i b)"

definition lane_ok :: "action_row list \<Rightarrow> action_queue_db list \<Rightarrow> bool" where
  "lane_ok acts qs \<longleftrightarrow>
     lane_ids acts \<and> lane_bounds acts qs \<and> lane_progress acts
     \<and> (\<forall>a \<in> set acts. blank_attempt a) \<and> (\<forall>a \<in> set acts. refs_backward acts a)"

definition lane_inv :: "core \<Rightarrow> bool" where
  "lane_inv s \<longleftrightarrow> lane_ok (actions s) (actionQueues s)"

section \<open>One row changes\<close>

text \<open>What an update of \<open>c\<close> to \<open>r\<close> must keep.\<close>

definition lane_step :: "action_row list \<Rightarrow> action_row \<Rightarrow> action_row \<Rightarrow> bool" where
  "lane_step acts c r \<longleftrightarrow>
     aId r = aId c \<and> aBeeId r = aBeeId c \<and> aPosition r = aPosition c \<and> aInputs r = aInputs c
     \<and> actionTransitionLegal (aStatus c) (aStatus r) \<and> blank_attempt r
     \<and> (aStatus c = AQueued \<longrightarrow> started r \<longrightarrow> earlier_finished acts c)"

lemma legal_final:
  assumes "actionTransitionLegal st st'"
  shows "st = ASucceeded \<Longrightarrow> st' = ASucceeded" and "st = ACancelled \<Longrightarrow> st' = ACancelled"
  using assms by (auto simp: actionTransitionLegal_def)

lemma finished_step: "lane_step acts c r \<Longrightarrow> finished c \<Longrightarrow> finished r"
  using legal_final by (auto simp: lane_step_def finished_def)

lemma before_step:
  "lane_step acts c r \<Longrightarrow> comes_before r x = comes_before c x"
  "lane_step acts c r \<Longrightarrow> comes_before x r = comes_before x c"
  by (simp_all add: lane_step_def comes_before_def)

lemma started_step: "lane_step acts c r \<Longrightarrow> started r \<Longrightarrow> started c \<or> earlier_finished acts c"
  using legal_final(2) [of "aStatus c" "aStatus r"] unfolding lane_step_def started_def by blast

lemma earlier_finished_step:
  assumes step: "lane_step acts c r" and c: "c \<in> set acts" and "earlier_finished acts b"
  shows "earlier_finished (put_row aId r acts) b"
  unfolding earlier_finished_def
proof (intro ballI impI)
  fix x assume x: "x \<in> set (put_row aId r acts)" and bef: "comes_before x b"
  from put_row_mem [OF x] show "finished x"
  proof
    assume "x = r"
    then have "comes_before c b" using bef before_step(1) [OF step] by simp
    then have "finished c" using assms(3) c unfolding earlier_finished_def by blast
    then show "finished x" using finished_step [OF step] \<open>x = r\<close> by simp
  next
    assume "x \<in> set acts \<and> aId x \<noteq> aId r"
    then show "finished x" using bef assms(3) unfolding earlier_finished_def by blast
  qed
qed

lemma earlier_finished_same: "lane_step acts c r \<Longrightarrow> earlier_finished acts' r = earlier_finished acts' c"
  by (simp add: earlier_finished_def before_step)

lemma lane_progress_step:
  assumes step: "lane_step acts c r" and c: "c \<in> set acts" and prog: "lane_progress acts"
  shows "lane_progress (put_row aId r acts)"
  unfolding lane_progress_def
proof (intro ballI impI)
  fix b assume b: "b \<in> set (put_row aId r acts)" and st: "started b"
  from put_row_mem [OF b] show "earlier_finished (put_row aId r acts) b"
  proof
    assume "b = r"
    then have "started c \<or> earlier_finished acts c" using started_step [OF step] st by simp
    then have "earlier_finished acts c" using prog c unfolding lane_progress_def by blast
    then show ?thesis
      using earlier_finished_step [OF step c] earlier_finished_same [OF step] \<open>b = r\<close> by simp
  next
    assume "b \<in> set acts \<and> aId b \<noteq> aId r"
    then have "earlier_finished acts b" using prog st unfolding lane_progress_def by blast
    then show ?thesis by (rule earlier_finished_step [OF step c])
  qed
qed

lemma not_cancelled_step: "lane_step acts c r \<Longrightarrow> aStatus r \<noteq> ACancelled \<Longrightarrow> aStatus c \<noteq> ACancelled"
  using legal_final(2) by (auto simp: lane_step_def)

lemma ref_target_step:
  assumes step: "lane_step acts c r"
  shows "ref_target c i b \<Longrightarrow> ref_target r i b" and "ref_target a i c \<Longrightarrow> ref_target a i r"
  using not_cancelled_step [OF step] step unfolding ref_target_def lane_step_def by auto

lemma refs_backward_step:
  assumes step: "lane_step acts c r" and c: "c \<in> set acts" and ids: "distinct (map aId acts)"
    and all: "\<forall>a \<in> set acts. refs_backward acts a" and a: "a \<in> set (put_row aId r acts)"
  shows "refs_backward (put_row aId r acts) a"
proof -
  have r: "r \<in> set (put_row aId r acts)"
    using c step by (intro put_row_self) (simp add: lane_step_def image_iff, metis)
  have moved: "\<exists>b' \<in> set (put_row aId r acts). ref_target x i b'" if "b \<in> set acts" "ref_target x i b" for x i b
  proof (cases "aId b = aId r")
    case True
    then have "b = c" using that(1) c ids step unfolding distinct_map inj_on_def lane_step_def by metis
    then show ?thesis using ref_target_step(2) [OF step] that(2) r by blast
  next
    case False
    then show ?thesis using that put_row_other [of b acts aId r] by blast
  qed
  from put_row_mem [OF a] consider "a = r" | "a \<in> set acts" by blast
  then show ?thesis
  proof cases
    case 1
    have same: "aInputs r = aInputs c" using step by (simp add: lane_step_def)
    have "refs_backward acts c" using all c by blast
    then show ?thesis
      unfolding refs_backward_def 1 same
      using ref_target_step(1) [OF step] moved by metis
  next
    case 2
    then have "refs_backward acts a" using all by blast
    then show ?thesis unfolding refs_backward_def using moved by metis
  qed
qed

theorem lane_ok_put_row:
  assumes "lane_ok acts qs" and step: "lane_step acts c r" and c: "c \<in> set acts"
  shows "lane_ok (put_row aId r acts) qs"
proof -
  have ids: "distinct (map aId acts)" and inv: "lane_bounds acts qs" "lane_progress acts"
      "\<forall>a \<in> set acts. blank_attempt a" "\<forall>a \<in> set acts. refs_backward acts a"
    using assms(1) unfolding lane_ok_def lane_ids_def by blast+
  have pos: "map (\<lambda>a. (aBeeId a, aPosition a)) (put_row aId r acts) = map (\<lambda>a. (aBeeId a, aPosition a)) acts"
    using step by (intro map_put_row [OF ids c]) (simp_all add: lane_step_def)
  have "lane_ids (put_row aId r acts)"
    using assms(1) unfolding lane_ok_def lane_ids_def pos by simp
  moreover have "lane_bounds (put_row aId r acts) qs"
  proof -
    have "below_cursor qs r = below_cursor qs c" using step by (simp add: lane_step_def below_cursor_def)
    then have "\<forall>a \<in> set (put_row aId r acts). below_cursor qs a"
      using put_row_mem [of _ aId r acts] inv(1) c unfolding lane_bounds_def by metis
    then show ?thesis using inv(1) by (simp add: lane_bounds_def)
  qed
  moreover have "lane_progress (put_row aId r acts)" by (rule lane_progress_step [OF step c inv(2)])
  moreover have "\<forall>a \<in> set (put_row aId r acts). blank_attempt a"
    using put_row_mem [of _ aId r acts] inv(3) step unfolding lane_step_def by metis
  moreover have "\<forall>a \<in> set (put_row aId r acts). refs_backward (put_row aId r acts) a"
    using refs_backward_step [OF step c ids inv(4)] by blast
  ultimately show ?thesis by (simp add: lane_ok_def)
qed

section \<open>Hoare rules for the lane\<close>

text \<open>
  What the other tables' operations leave alone: the actions, the queues, the receipts of the
  enqueues, and the audited views.
\<close>

definition action_events :: "audit_event list \<Rightarrow> audit_event list" where
  "action_events evs = filter (\<lambda>ev. case ev of EvActionPut _ _ _ \<Rightarrow> True | EvActionQueuePut _ _ \<Rightarrow> True | _ \<Rightarrow> False) evs"

definition action_part ::
  "core \<Rightarrow> action_row list \<times> action_queue_db list \<times> action_enqueue_row list \<times> audit_event list" where
  "action_part s = (actions s, actionQueues s, actionEnqueues s, action_events (auditLog s))"

text \<open>A predicate on actions and queues, read as one on states.\<close>

definition on_lane :: "(action_row list \<Rightarrow> action_queue_db list \<Rightarrow> bool) \<Rightarrow> core \<Rightarrow> bool" where
  "on_lane P s \<longleftrightarrow> P (actions s) (actionQueues s)"

lemma on_lane_part: "action_part s' = action_part s \<Longrightarrow> on_lane P s' = on_lane P s"
  by (simp add: on_lane_def action_part_def)

lemma hoare_frame:
  assumes "frames action_part m"
  shows "hoare (on_lane P) m (\<lambda>_. on_lane P)"
proof (rule hoareI)
  fix s x s' assume P: "on_lane P s" and run: "m s = Inr (x, s')"
  have "action_part s' = action_part s" by (rule framesD [OF assms run])
  from on_lane_part [OF this] show "on_lane P s'" using P by simp
qed

interpretation lane_port: supply_port action_part "\<lambda>ev. action_events [ev] = []"
  by unfold_locales (simp_all add: action_part_def action_events_def)

lemma hoare_audit: "hoare (on_lane P) (audit ev) (\<lambda>_. on_lane P)"
  by (simp add: audit_def hoare_def on_lane_def)

text \<open>The rules of \<open>keeps\<close>: an operation that preserves a predicate on the lane.\<close>

definition preserves :: "('s \<Rightarrow> bool) \<Rightarrow> ('s, 'e, 'a) op \<Rightarrow> bool" where
  "preserves P m \<longleftrightarrow> hoare P m (\<lambda>_. P)"

lemma preservesD: "preserves P m \<Longrightarrow> P s \<Longrightarrow> m s = Inr (x, s') \<Longrightarrow> P s'"
  by (simp add: preserves_def hoare_def)

lemma preservesI: "(\<And>s x s'. P s \<Longrightarrow> m s = Inr (x, s') \<Longrightarrow> P s') \<Longrightarrow> preserves P m"
  by (simp add: preserves_def hoare_def)

lemma preserves_frame: "frames action_part m \<Longrightarrow> preserves (on_lane P) m"
  by (simp add: preserves_def hoare_frame)

lemma preserves_audit [keeps]: "preserves (on_lane P) (audit ev)"
  by (simp add: preserves_def hoare_audit)

lemma preserves_return [keeps]: "preserves P (returnM x)"
  by (simp add: preserves_def hoare_def)

lemma preserves_throw [keeps]: "preserves P (throwM e)"
  by (simp add: preserves_def hoare_def)

lemma preserves_read [keeps]: "preserves P (readM g)"
  by (simp add: preserves_def hoare_def)

lemma preserves_require [keeps]: "preserves P (requireM b e)"
  by (simp add: preserves_def hoare_def)

lemma preserves_bind [keeps]: "preserves P m \<Longrightarrow> (\<And>x. preserves P (k x)) \<Longrightarrow> preserves P (bindM m k)"
  unfolding preserves_def by (rule hoare_bind)

lemma preserves_then [keeps]: "preserves P m \<Longrightarrow> preserves P k \<Longrightarrow> preserves P (thenM m k)"
  by (simp add: thenM_def preserves_bind)

lemma preserves_when [keeps]: "(b \<Longrightarrow> preserves P m) \<Longrightarrow> preserves P (whenM b m)"
  by (simp add: whenM_def preserves_return)

lemma preserves_if [keeps]: "(b \<Longrightarrow> preserves P m) \<Longrightarrow> (\<not> b \<Longrightarrow> preserves P k) \<Longrightarrow> preserves P (if b then m else k)"
  by simp

lemma preserves_option [keeps]:
  "(x = None \<Longrightarrow> preserves P m) \<Longrightarrow> (\<And>y. x = Some y \<Longrightarrow> preserves P (k y)) \<Longrightarrow>
    preserves P (case x of None \<Rightarrow> m | Some y \<Rightarrow> k y)"
  by (cases x) simp_all

lemma preserves_prod [keeps]: "(\<And>a b. preserves P (k a b)) \<Longrightarrow> preserves P (case x of (a, b) \<Rightarrow> k a b)"
  by (cases x) simp

lemma preserves_let [keeps]: "preserves P (k x) \<Longrightarrow> preserves P (let y = x in k y)"
  by simp

lemma preserves_each [keeps]: "(\<And>x. preserves P (k x)) \<Longrightarrow> preserves P (eachM xs k)"
  by (induction xs) (simp_all add: preserves_return preserves_then)

lemma preserves_collect [keeps]: "(\<And>x. preserves P (k x)) \<Longrightarrow> preserves P (collectM xs k)"
  by (induction xs) (simp_all add: preserves_return preserves_bind)

text \<open>The audit wrapper adds only audit rows to what its body does.\<close>

lemma preserves_auditActionViews [keeps]: "preserves (on_lane P) (auditActionViews reason bef aft)"
  unfolding auditActionViews_def by (intro keeps)

lemma preserves_auditActionQueue [keeps]: "preserves (on_lane P) (auditActionQueue reason bef aft)"
  unfolding auditActionQueue_def by (intro keeps)

lemma preserves_withActionLaneAudit [keeps]:
  "preserves (on_lane P) fn \<Longrightarrow> preserves (on_lane P) (withActionLaneAudit b reason fn)"
  unfolding withActionLaneAudit_def by (intro keeps)

lemma preserves_actionView [keeps]: "preserves P (actionView i)"
  unfolding actionView_def mustGetAction_def by (intro keeps)

lemma preserves_mustGetAction [keeps]: "preserves P (mustGetAction i)"
  unfolding mustGetAction_def by (intro keeps)

section \<open>The update of one row\<close>

lemma getAction_Some: "getAction s i = Some c \<Longrightarrow> c \<in> set (actions s) \<and> aId c = i"
  unfolding getAction_def by (rule find_row_Some)

lemma mustGetAction_Inr [simp]:
  "mustGetAction i s = Inr (c, s') \<longleftrightarrow> getAction s i = Some c \<and> s' = s"
  unfolding mustGetAction_def by (cases "getAction s i") (simp_all, blast)

lemma putAction_Inr:
  "putAction row s = Inr (u, s') \<Longrightarrow>
    s' = s\<lparr>actions := put_row aId row (actions s)\<rparr>
    \<and> \<not> list_ex (\<lambda>a. aId a \<noteq> aId row \<and> aBeeId a = aBeeId row \<and> aPosition a = aPosition row) (actions s)"
  by (simp add: putAction_def thenM_def bindM_Inr)

lemma actionColumns_keys [simp]:
  "aId (actionColumns c n m k t) = aId c"
  "aBeeId (actionColumns c n m k t) = aBeeId c"
  "aInputs (actionColumns c n m k t) = aInputs c"
  "aKind (actionColumns c n m k t) = aKind c"
  "aExecutor (actionColumns c n m k t) = aExecutor c"
  "aPosition (actionColumns c n m k t) = aPosition n"
  "aStatus (actionColumns c n m k t) = aStatus n"
  "aWaitingReason (actionColumns c n m k t) = aWaitingReason n"
  "aAttempt (actionColumns c n m k t) = aAttempt n"
  "aAttempts (actionColumns c n m k t) = aAttempts n"
  "aAttemptToken (actionColumns c n m k t) = aAttemptToken n"
  "aDispatch (actionColumns c n m k t) = aDispatch n"
  "aDispatchMessageId (actionColumns c n m k t) = m"
  "aOperationKey (actionColumns c n m k t) = k"
  "aFailure (actionColumns c n m k t) = aFailure n"
  "aResult (actionColumns c n m k t) = map_option stored_result (aResult n)"
  by (simp_all add: actionColumns_def)

text \<open>The row an update writes.\<close>

definition patched :: "(action_row \<Rightarrow> action_row) \<Rightarrow> nat option option \<Rightarrow> string option option \<Rightarrow> int \<Rightarrow> action_row \<Rightarrow> action_row" where
  "patched patch messageId operationKey t c =
     actionColumns c (patch c)
       (case messageId of Some m \<Rightarrow> m | None \<Rightarrow> Option.bind (aDispatch (patch c)) dpMessageId)
       (case operationKey of Some k \<Rightarrow> k | None \<Rightarrow> Option.bind (aDispatch (patch c)) dpOperationKey) t"

lemma updateActionRow_Inr:
  assumes "updateActionRow i patch m k s = Inr (r, s')"
  obtains c where "getAction s i = Some c" and "r = patched patch m k (clock s) c"
    and "actionTransitionLegal (aStatus c) (aStatus (patch c))"
    and "s' = s\<lparr>actions := put_row aId r (actions s)\<rparr>"
proof -
  from assms obtain c u s1 where c: "getAction s i = Some c"
    and legal: "actionTransitionLegal (aStatus c) (aStatus (patch c))"
    and put: "putAction (patched patch m k (clock s) c) s = Inr (u, s1)"
    and get: "getAction s1 i = Some r" "s' = s1"
    unfolding updateActionRow_def patched_def
    by (simp add: bindM_Inr thenM_def Let_def) blast
  have id: "aId (patched patch m k (clock s) c) = i"
    using getAction_Some [OF c] by (simp add: patched_def)
  have s1: "s1 = s\<lparr>actions := put_row aId (patched patch m k (clock s) c) (actions s)\<rparr>"
    using putAction_Inr [OF put] by simp
  have "r = patched patch m k (clock s) c"
    using get(1) c unfolding s1 getAction_def by (simp add: find_row_put_row id)
  then show ?thesis using that c legal s1 get(2) by simp
qed

text \<open>\<open>patch_ok\<close>: what a patch does to every row it may be given.\<close>

definition patch_ok :: "(action_row \<Rightarrow> action_row) \<Rightarrow> bool" where
  "patch_ok patch \<longleftrightarrow> (\<forall>c. aPosition (patch c) = aPosition c \<and>
     (aStatus (patch c) = AQueued \<longrightarrow>
        (aAttemptToken (patch c) = None \<or> aAttemptToken (patch c) = aAttemptToken c \<and> aStatus c = AQueued)
        \<and> (aDispatch (patch c) = None \<or> aDispatch (patch c) = aDispatch c \<and> aStatus c = AQueued)))"

lemma lane_step_patched:
  assumes "patch_ok patch" and "blank_attempt c"
    and "actionTransitionLegal (aStatus c) (aStatus (patch c))"
    and "aStatus c = AQueued \<Longrightarrow> aStatus (patch c) \<in> {AQueued, ACancelled} \<or> earlier_finished acts c"
  shows "lane_step acts c (patched patch m k t c)"
  using assms unfolding lane_step_def patched_def blank_attempt_def patch_ok_def started_def by auto

lemma lane_ok_blank: "lane_ok acts qs \<Longrightarrow> c \<in> set acts \<Longrightarrow> blank_attempt c"
  by (simp add: lane_ok_def)

text \<open>The update keeps the invariant when it does not start a row that has unfinished rows before it.\<close>

lemma lane_ok_patched:
  assumes inv: "lane_ok acts qs" and c: "c \<in> set acts" and patch: "patch_ok patch"
    and legal: "actionTransitionLegal (aStatus c) (aStatus (patch c))"
    and ready: "aStatus c = AQueued \<Longrightarrow> aStatus (patch c) \<in> {AQueued, ACancelled} \<or> earlier_finished acts c"
  shows "lane_ok (put_row aId (patched patch m k t c) acts) qs"
  by (rule lane_ok_put_row [OF inv lane_step_patched [OF patch lane_ok_blank [OF inv c] legal ready] c]) 

lemma lane_inv_update:
  assumes inv: "lane_inv s" and run: "updateActionRow i patch m k s = Inr (r, s')" and patch: "patch_ok patch"
    and ready: "\<And>c. getAction s i = Some c \<Longrightarrow> aStatus c = AQueued \<Longrightarrow>
                 aStatus (patch c) \<in> {AQueued, ACancelled} \<or> earlier_finished (actions s) c"
  shows "lane_inv s'"
proof -
  obtain c where c: "getAction s i = Some c" and r: "r = patched patch m k (clock s) c"
    and legal: "actionTransitionLegal (aStatus c) (aStatus (patch c))"
    and s': "s' = s\<lparr>actions := put_row aId r (actions s)\<rparr>"
    by (rule updateActionRow_Inr [OF run])
  have "lane_ok (put_row aId r (actions s)) (actionQueues s)"
    unfolding r using inv getAction_Some [OF c] patch legal ready [OF c]
    by (intro lane_ok_patched) (simp_all add: lane_inv_def)
  then show ?thesis by (simp add: lane_inv_def s')
qed

section \<open>The operations of the other tables\<close>

lemma frames_modify_part [frame]:
  "(\<And>s. action_part (g s) = action_part s) \<Longrightarrow> frames action_part (modifyM g)"
  by (rule frames_modify)

lemma frames_bind_read: "(\<And>x. frames f (k x)) \<Longrightarrow> frames f (bindM (readM g) k)"
  by (intro frame)

lemma frames_mintFreeId [frame]: "frames action_part (mintFreeId n)"
proof (induction n)
  case 0
  show ?case by (subst mintFreeId.simps) (intro frame, simp_all add: frames_return frames_throw)
next
  case (Suc n)
  then show ?case by (subst mintFreeId.simps) (intro frame, simp_all)
qed

lemma frames_mintActionId [frame]: "frames action_part mintActionId"
  unfolding mintActionId_def by (rule frames_mintFreeId)

lemma frames_mustGetAction [frame]: "frames f (mustGetAction i)"
  unfolding mustGetAction_def by (intro frame)

lemma frames_actionView [frame]: "frames f (actionView i)"
  unfolding actionView_def by (intro frame)

lemma frames_withdrawInstruction [frame]: "frames action_part (withdrawInstruction row owner)"
  unfolding withdrawInstruction_def by (intro frame)

lemma frames_askQuestion [frame]: "frames action_part (askQuestion b t opts g)"
  unfolding askQuestion_def by (intro frame) (simp_all add: action_part_def action_events_def)

lemma frames_objectOutputs [frame]: "frames f (objectOutputs v w)"
  unfolding objectOutputs_def by (auto intro: frame split: option.split json.split)

lemma frames_checkOutputs [frame]: "frames f (checkOutputs row outputs)"
  unfolding checkOutputs_def by (intro frame)

lemma frames_finishReport [frame]: "frames f (finishReport i a d q)"
  unfolding finishReport_def by (intro frame)

lemmas preserves_others [keeps] =
  preserves_frame [OF frames_mustGetBee] preserves_frame [OF frames_requireNonEmpty]
  preserves_frame [OF lane_port.frames_mintActionToken] preserves_frame [OF frames_mintActionId]
  preserves_frame [OF lane_port.frames_send] preserves_frame [OF lane_port.frames_removeOwnedMessage]
  preserves_frame [OF frames_withdrawInstruction] preserves_frame [OF frames_askQuestion]
  preserves_frame [OF frames_objectOutputs] preserves_frame [OF frames_checkOutputs]
  preserves_frame [OF frames_finishReport] preserves_frame [OF lane_port.frames_applyWakeIfNeeded]
  preserves_frame [OF lane_port.frames_applyEnqueue]

section \<open>Hooks and commands\<close>

text \<open>
  A predicate that stays true when a running or waiting row moves on to another status. The hooks of
  mail and questions do no more than that, so they preserve every such predicate.
\<close>

definition active_closed :: "(action_row list \<Rightarrow> action_queue_db list \<Rightarrow> bool) \<Rightarrow> bool" where
  "active_closed P \<longleftrightarrow>
     (\<forall>acts qs. P acts qs \<longrightarrow> distinct (map aId acts))
     \<and> (\<forall>acts qs c r. P acts qs \<longrightarrow> c \<in> set acts \<longrightarrow> actionIsActive c \<longrightarrow> aStatus r \<noteq> AQueued \<longrightarrow>
          lane_step acts c r \<longrightarrow> P (put_row aId r acts) qs)"

lemma active_closed_ids: "active_closed P \<Longrightarrow> P acts qs \<Longrightarrow> distinct (map aId acts)"
  unfolding active_closed_def by blast

lemma active_closed_put:
  "active_closed P \<Longrightarrow> P acts qs \<Longrightarrow> c \<in> set acts \<Longrightarrow> actionIsActive c \<Longrightarrow> aStatus r \<noteq> AQueued \<Longrightarrow>
    lane_step acts c r \<Longrightarrow> P (put_row aId r acts) qs"
  unfolding active_closed_def by blast

lemma active_closed_lane_ok: "active_closed lane_ok"
  unfolding active_closed_def by (meson lane_ok_def lane_ids_def lane_ok_put_row)

definition moves_on :: "(action_row \<Rightarrow> action_row) \<Rightarrow> bool" where
  "moves_on patch \<longleftrightarrow> (\<forall>c. aPosition (patch c) = aPosition c \<and> aStatus (patch c) \<noteq> AQueued)"

lemma lane_step_active:
  assumes "actionIsActive c" and "aPosition (patch c) = aPosition c" and "aStatus (patch c) \<noteq> AQueued"
    and "actionTransitionLegal (aStatus c) (aStatus (patch c))"
  shows "lane_step acts c (patched patch m k t c)"
  using assms unfolding lane_step_def patched_def blank_attempt_def actionIsActive_def by auto

lemma update_active:
  assumes P: "active_closed P" "on_lane P s" and run: "updateActionRow i patch m k s = Inr (r, s')"
    and c: "getAction s i = Some c" "actionIsActive c" and patch: "moves_on patch"
  shows "on_lane P s'"
proof -
  obtain c' where c': "getAction s i = Some c'" and r: "r = patched patch m k (clock s) c'"
    and legal: "actionTransitionLegal (aStatus c') (aStatus (patch c'))"
    and s': "s' = s\<lparr>actions := put_row aId r (actions s)\<rparr>"
    by (rule updateActionRow_Inr [OF run])
  have [simp]: "c' = c" using c' c(1) by simp
  have "lane_step (actions s) c (patched patch m k (clock s) c)"
    using c(2) legal patch by (intro lane_step_active) (simp_all add: moves_on_def)
  then show ?thesis
    using active_closed_put [OF P(1) P(2) [unfolded on_lane_def] _ c(2)] getAction_Some [OF c(1)] patch
    by (simp add: s' r on_lane_def patched_def moves_on_def)
qed

text \<open>What a run in the audit wrapper does to the lane is what its body does.\<close>

lemma frames_auditViews: "frames (\<lambda>s. (actions s, actionQueues s)) (auditActionViews reason bef aft)"
  unfolding auditActionViews_def audit_def Let_def by (intro frame) simp

lemma frames_auditQueue: "frames (\<lambda>s. (actions s, actionQueues s)) (auditActionQueue reason bef aft)"
  unfolding auditActionQueue_def audit_def by (intro frame) simp_all

lemma withActionLaneAudit_Inr:
  assumes "withActionLaneAudit b reason fn s = Inr (x, s')"
  obtains s1 where "fn s = Inr (x, s1)" and "actions s' = actions s1" and "actionQueues s' = actionQueues s1"
proof -
  from assms obtain s1 s2 u where fn: "fn s = Inr (x, s1)"
    and views: "auditActionViews reason (listActionViews s (Some b) []) (listActionViews s1 (Some b) []) s1 = Inr (u, s2)"
    and q: "\<exists>u. auditActionQueue reason (getActionQueue s b) (getActionQueue s2 b) s2 = Inr (u, s')"
    unfolding withActionLaneAudit_def by (simp add: bindM_Inr thenM_def) blast
  show ?thesis
    using that [OF fn] framesD [OF frames_auditViews views] framesD [OF frames_auditQueue, of reason] q by auto
qed

lemma withActionLaneAudit_discard:
  assumes "withActionLaneAudit b reason (bindM fn (\<lambda>_. returnM ())) s = Inr (x, s')"
  obtains r s1 where "fn s = Inr (r, s1)" and "actions s' = actions s1" and "actionQueues s' = actionQueues s1"
proof -
  obtain s1 where fn: "bindM fn (\<lambda>_. returnM ()) s = Inr (x, s1)"
    and same: "actions s' = actions s1" "actionQueues s' = actionQueues s1"
    by (rule withActionLaneAudit_Inr [OF assms])
  from fn obtain r where "fn s = Inr (r, s1)" by (rule bindM_InrE) simp
  then show ?thesis using that same by blast
qed

lemma on_lane_cong: "actions s' = actions s \<Longrightarrow> actionQueues s' = actionQueues s \<Longrightarrow> on_lane P s' = on_lane P s"
  by (simp add: on_lane_def)

lemma getAction_mem:
  assumes "active_closed P" and "on_lane P s" and "a \<in> set (actions s)"
  shows "getAction s (aId a) = Some a"
  using assms active_closed_ids unfolding getAction_def on_lane_def by (intro find_row_mem) blast+

lemma find_some: "List.find p xs = Some x \<Longrightarrow> x \<in> set xs \<and> p x"
  by (auto simp: find_Some_iff)

lemma preserves_applyActionDispatchCanceled [keeps]:
  assumes P: "active_closed P"
  shows "preserves (on_lane P) (applyActionDispatchCanceled m t)"
proof (rule preservesI)
  fix s x s' assume inv: "on_lane P s" and run: "applyActionDispatchCanceled m t s = Inr (x, s')"
  show "on_lane P s'"
  proof (cases "actionOfMessage s m")
    case None
    then show ?thesis using run inv by (simp add: applyActionDispatchCanceled_def)
  next
    case (Some a)
    have a: "a \<in> set (actions s)" "actionIsActive a"
      using find_some [OF Some [unfolded actionOfMessage_def]] by (auto simp: actionIsActive_def)
    note get = getAction_mem [OF P inv a(1)]
    show ?thesis
    proof (cases "\<exists>d. aDispatch a = Some d \<and> dpMessageId d = Some m \<and> dpDeliveredAt d = None")
      case False
      then show ?thesis
        using run inv Some by (auto simp: applyActionDispatchCanceled_def split: option.splits if_splits)
    next
      case True
      then obtain body where body: "applyActionDispatchCanceled m t s =
          withActionLaneAudit (aBeeId a) ''dispatch_cancelled''
            (bindM (bindM (mustGetAction (aId a)) (\<lambda>fresh. failActionRow fresh ''dispatch_cancelled'' body True t))
               (\<lambda>_. returnM ())) s"
        using Some by (auto simp: applyActionDispatchCanceled_def bindM_assoc)
      obtain s1 r where found: "bindM (mustGetAction (aId a)) (\<lambda>fresh. failActionRow fresh ''dispatch_cancelled'' body True t) s = Inr (r, s1)"
        and same: "actions s' = actions s1" "actionQueues s' = actionQueues s1"
        by (rule withActionLaneAudit_discard [OF run [unfolded body]])
      have upd: "failActionRow a ''dispatch_cancelled'' body True t s = Inr (r, s1)"
        using found by (simp add: bindM_Inr get)
      have "on_lane P s1"
        by (rule update_active [OF P inv upd [unfolded failActionRow_def] get a(2)]) (simp add: moves_on_def)
      then show ?thesis using on_lane_cong [OF same] by simp
    qed
  qed
qed

lemma preserves_applyActionQuestionAnswered [keeps]:
  assumes P: "active_closed P"
  shows "preserves (on_lane P) (applyActionQuestionAnswered q)"
proof (rule preservesI)
  fix s x s' assume inv: "on_lane P s" and run: "applyActionQuestionAnswered q s = Inr (x, s')"
  let ?found = "List.find (\<lambda>a. aQuestionId a = Some q \<and> aStatus a = AWaiting \<and> aWaitingReason a = Some WInput) (actions s)"
  show "on_lane P s'"
  proof (cases ?found)
    case None
    then show ?thesis using run inv by (simp add: applyActionQuestionAnswered_def)
  next
    case (Some a)
    have a: "a \<in> set (actions s)" "actionIsActive a"
      using find_some [OF Some] by (auto simp: actionIsActive_def)
    have body: "withActionLaneAudit (aBeeId a) ''question_answered''
        (bindM (updateActionRow (aId a) (\<lambda>r. r\<lparr>aStatus := ARunning, aWaitingReason := None, aWaitingDetail := None\<rparr>) None None)
          (\<lambda>_. returnM ())) s = Inr (x, s')"
      using run Some unfolding applyActionQuestionAnswered_def by simp
    obtain s1 r where
      upd: "updateActionRow (aId a) (\<lambda>r. r\<lparr>aStatus := ARunning, aWaitingReason := None, aWaitingDetail := None\<rparr>) None None s = Inr (r, s1)"
      and same: "actions s' = actions s1" "actionQueues s' = actionQueues s1"
      by (rule withActionLaneAudit_discard [OF body])
    have "on_lane P s1"
      by (rule update_active [OF P inv upd getAction_mem [OF P inv a(1)] a(2)]) (simp add: moves_on_def)
    then show ?thesis using on_lane_cong [OF same] by simp
  qed
qed

lemma preserves_cancelMessageInternal [keeps]:
  "active_closed P \<Longrightarrow> preserves (on_lane P) (cancelMessageInternal b m e owner)"
  unfolding cancelMessageInternal_def by (intro keeps)

lemma frames_mustBeeMove [frame]: "frames f (mustBeeMove i)"
  unfolding mustBeeMove_def by (intro frame)

lemma frames_mustBeeHandoff [frame]: "frames f (mustBeeHandoff i)"
  unfolding mustBeeHandoff_def by (intro frame)

lemma frames_updateMove [frame]: "frames action_part (updateMove i g)"
  unfolding updateMove_def by (intro frame) (simp add: action_part_def)

lemma frames_updateHandoff [frame]: "frames action_part (updateHandoff i g)"
  unfolding updateHandoff_def by (intro frame) (simp add: action_part_def)

lemma frames_updateBee [frame]: "frames action_part (updateBee p g)"
  unfolding updateBee_def by (intro frame) (simp add: action_part_def)

lemma frames_mootCommand [frame]: "frames action_part (mootCommand c b g reason)"
  unfolding mootCommand_def by (intro frame) (simp_all add: action_part_def action_events_def)

lemma frames_supersedeCommands [frame]: "frames action_part (supersedeCommands keys reason)"
  unfolding supersedeCommands_def by (intro frame)

lemma frames_applySetBeeMovePhase [frame]: "frames action_part (applySetBeeMovePhase i ph)"
  unfolding applySetBeeMovePhase_def by (intro frame) (simp_all add: action_events_def)

lemma frames_applyFailBeeMove [frame]: "frames action_part (applyFailBeeMove i f)"
  unfolding applyFailBeeMove_def by (intro frame) (simp_all add: action_events_def)

lemma frames_applySetBeeHandoffPhase [frame]: "frames action_part (applySetBeeHandoffPhase i ph)"
  unfolding applySetBeeHandoffPhase_def by (intro frame) (simp_all add: action_events_def)

lemma frames_applyFailBeeHandoff [frame]: "frames action_part (applyFailBeeHandoff i f)"
  unfolding applyFailBeeHandoff_def by (intro frame) (simp_all add: action_events_def)

lemma frames_applySupersedeBeeMove [frame]: "frames action_part (applySupersedeBeeMove i f)"
  unfolding applySupersedeBeeMove_def by (intro frame)

lemma frames_applySupersedeBeeHandoff [frame]: "frames action_part (applySupersedeBeeHandoff i f)"
  unfolding applySupersedeBeeHandoff_def by (intro frame)

lemma frames_rearmWakeIfFencedMail [frame]: "frames action_part (rearmWakeIfFencedMail b)"
  unfolding rearmWakeIfFencedMail_def by (intro frame)

lemma frames_supersedePlacement [frame]: "frames action_part (supersedePlacement v b k)"
  unfolding supersedePlacement_def by (intro frame)

lemma frames_putQuotaRecovery [frame]: "frames action_part (putQuotaRecovery row)"
  unfolding putQuotaRecovery_def Let_def by (intro frame) (simp_all add: action_part_def action_events_def)

lemma frames_settleAuthInterruption [frame]: "frames action_part (settleAuthInterruption i st reason)"
  unfolding settleAuthInterruption_def putAuthInterruption_def
  by (intro frame) (simp_all add: action_part_def action_events_def)

lemma frames_mootPendingStarts [frame]: "frames action_part (mootPendingStarts b g)"
  unfolding mootPendingStarts_def by (intro frame)

lemma frames_keyedLookup [frame]: "frames action_part (effectLookup k v)"
  by (intro frame) (simp add: action_part_def)

lemmas preserves_command_parts [keeps] =
  preserves_frame [OF frames_supersedePlacement] preserves_frame [OF frames_putQuotaRecovery]
  preserves_frame [OF frames_settleAuthInterruption] preserves_frame [OF frames_mootPendingStarts]
  preserves_frame [OF frames_requireLegacyKey] preserves_frame [OF frames_keyedLookup]
  preserves_frame [OF frames_mootCommand] preserves_frame [OF frames_rearmWakeIfFencedMail]
  preserves_frame [OF frames_updateBee]

lemma preserves_cancelQuotaRecovery [keeps]:
  "active_closed P \<Longrightarrow> preserves (on_lane P) (cancelQuotaRecovery i reason)"
  unfolding cancelQuotaRecovery_def Let_def by (intro keeps)

lemma preserves_cancelAuthDeathRecovery [keeps]:
  "active_closed P \<Longrightarrow> preserves (on_lane P) (cancelAuthDeathRecovery b reason)"
  unfolding cancelAuthDeathRecovery_def cancelQuotaRecoveries_def Let_def by (intro keeps)

lemma preserves_admitCommand [keeps]:
  "active_closed P \<Longrightarrow> preserves (on_lane P) (admitCommand v b args k n)"
  unfolding admitCommand_def by (intro keeps)

lemma preserves_enqueueCommand [keeps]:
  "active_closed P \<Longrightarrow> preserves (on_lane P) (enqueueCommand v b args k n)"
  unfolding enqueueCommand_def by (intro keeps)

lemma frames_mustGetQuestion [frame]: "frames f (mustGetQuestion i)"
  unfolding mustGetQuestion_def by (intro frame)

lemma frames_updateQuestion [frame]: "frames action_part (updateQuestion i g)"
  unfolding updateQuestion_def by (intro frame) (simp add: action_part_def)

lemmas preserves_question_parts [keeps] =
  preserves_frame [OF frames_mustGetQuestion] preserves_frame [OF frames_updateQuestion]

lemma preserves_answerQuestion [keeps]:
  "active_closed P \<Longrightarrow> preserves (on_lane P) (answerQuestion i answer who)"
  unfolding answerQuestion_def Let_def by (intro keeps)

lemma preserves_answerActionQuestion [keeps]:
  "active_closed P \<Longrightarrow> preserves (on_lane P) (answerActionQuestion row)"
  unfolding answerActionQuestion_def by (intro keeps)

section \<open>Running an operation inside a lane\<close>

lemma inLane_Inr:
  assumes "inLane i reason body s = Inr (x, s')"
  obtains row s1 where "getAction s i = Some row" and "body row s = Inr (x, s1)"
    and "actions s' = actions s1" and "actionQueues s' = actionQueues s1"
proof -
  obtain row where row: "getAction s i = Some row"
    and run: "withActionLaneAudit (aBeeId row) reason (bindM (mustGetAction i) body) s = Inr (x, s')"
    using assms unfolding inLane_def by (auto simp: bindM_Inr)
  obtain s1 where fn: "bindM (mustGetAction i) body s = Inr (x, s1)"
    and same: "actions s' = actions s1" "actionQueues s' = actionQueues s1"
    by (rule withActionLaneAudit_Inr [OF run])
  have "body row s = Inr (x, s1)" using fn row by (simp add: bindM_Inr)
  then show ?thesis using that row same by blast
qed

text \<open>
  To show that an operation in a lane keeps the invariant: its body does, for the row it finds.
\<close>

lemma inLane_keeps:
  assumes "\<And>s row. getAction s i = Some row \<Longrightarrow> on_lane P s \<Longrightarrow> hoare (\<lambda>s'. s' = s) (body row) (\<lambda>_. on_lane Q)"
  shows "hoare (on_lane P) (inLane i reason body) (\<lambda>_. on_lane Q)"
proof (rule hoareI)
  fix s x s' assume P: "on_lane P s" and run: "inLane i reason body s = Inr (x, s')"
  obtain row s1 where row: "getAction s i = Some row" and body: "body row s = Inr (x, s1)"
    and same: "actions s' = actions s1" "actionQueues s' = actionQueues s1"
    by (rule inLane_Inr [OF run])
  have "on_lane Q s1" by (rule hoareD [OF assms [OF row P] body refl])
  then show "on_lane Q s'" using on_lane_cong [OF same] by simp
qed

text \<open>The row a body works on, still in the table and as it was read.\<close>

definition holds_row :: "string \<Rightarrow> action_row \<Rightarrow> action_row list \<Rightarrow> action_queue_db list \<Rightarrow> bool" where
  "holds_row i row acts qs \<longleftrightarrow> lane_ok acts qs \<and> find_row aId acts i = Some row"

lemma holds_row_start: "getAction s i = Some row \<Longrightarrow> on_lane lane_ok s \<Longrightarrow> on_lane (holds_row i row) s"
  by (simp add: on_lane_def holds_row_def getAction_def)

lemma update_held:
  assumes patch: "patch_ok patch"
    and ready: "aStatus row = AQueued \<Longrightarrow> aStatus (patch row) \<in> {AQueued, ACancelled} \<or>
                 (\<forall>acts qs. Pre acts qs \<longrightarrow> earlier_finished acts row)"
    and pre: "\<And>acts qs. Pre acts qs \<Longrightarrow> holds_row i row acts qs"
  shows "hoare (on_lane Pre) (updateActionRow i patch m k) (\<lambda>_. on_lane lane_ok)"
proof (rule hoareI)
  fix s r s' assume P: "on_lane Pre s" and run: "updateActionRow i patch m k s = Inr (r, s')"
  have held: "lane_ok (actions s) (actionQueues s)" "getAction s i = Some row"
    using pre P unfolding on_lane_def holds_row_def getAction_def by blast+
  have "lane_inv s'"
  proof (rule lane_inv_update [OF _ run patch])
    show "lane_inv s" using held by (simp add: lane_inv_def)
    show "aStatus (patch c) \<in> {AQueued, ACancelled} \<or> earlier_finished (actions s) c"
      if "getAction s i = Some c" "aStatus c = AQueued" for c
      using that held(2) ready P unfolding on_lane_def by auto
  qed
  then show "on_lane lane_ok s'" by (simp add: lane_inv_def on_lane_def)
qed

end
