(* ===== verification/Action_Invariant.thy ===== *)
theory Action_Invariant
  imports Action_Lane
begin

text \<open>
  Every operation of the action queue keeps the invariant of the lanes. A dispatch needs what the
  scheduler checks first: the rows before the dispatched one are succeeded or cancelled. A settlement
  needs that the action is not queued.
\<close>

section \<open>Walking through a body\<close>

named_theorems walk "steps of an operation under a predicate on the lane"

lemma walk_require [walk]: "(b \<Longrightarrow> hoare P (k ()) Q) \<Longrightarrow> hoare P (bindM (requireM b e) k) Q"
  by (simp add: hoare_def bindM_Inr)

lemma walk_read [walk]: "(\<And>x. hoare P (k x) Q) \<Longrightarrow> hoare P (bindM (readM g) k) Q"
  by (simp add: hoare_def)

lemma walk_when: "preserves P m \<Longrightarrow> (\<And>x. hoare P (k x) Q) \<Longrightarrow> hoare P (bindM m k) Q"
  unfolding preserves_def by (rule hoare_bind)

lemma walk_if [walk]: "(b \<Longrightarrow> hoare P m Q) \<Longrightarrow> (\<not> b \<Longrightarrow> hoare P m' Q) \<Longrightarrow> hoare P (if b then m else m') Q"
  by simp

lemma walk_let [walk]: "hoare P (m x) Q \<Longrightarrow> hoare P (let y = x in m y) Q"
  by simp

lemma walk_update:
  "hoare P m (\<lambda>_. R) \<Longrightarrow> (\<And>x. preserves R (k x)) \<Longrightarrow> hoare P (bindM m k) (\<lambda>_. R)"
  unfolding preserves_def by (rule hoare_bind)

lemma walk_done: "preserves P m \<Longrightarrow> (\<And>s. P s \<Longrightarrow> Q s) \<Longrightarrow> hoare P m (\<lambda>_. Q)"
  by (simp add: preserves_def hoare_def)

lemma holds_row_ok: "on_lane (holds_row i row) s \<Longrightarrow> on_lane lane_ok s"
  by (simp add: on_lane_def holds_row_def)

lemma held_start:
  "getAction s i = Some row \<Longrightarrow> on_lane lane_ok s \<Longrightarrow> hoare (on_lane (holds_row i row)) m Q \<Longrightarrow> hoare (\<lambda>s'. s' = s) m Q"
  using holds_row_start by (auto simp: hoare_def)

lemma held_update:
  "patch_ok patch \<Longrightarrow> aStatus row \<noteq> AQueued \<or> aStatus (patch row) \<in> {AQueued, ACancelled} \<Longrightarrow>
    hoare (on_lane (holds_row i row)) (updateActionRow i patch m k) (\<lambda>_. on_lane lane_ok)"
  by (rule update_held) auto

text \<open>The row of the body is still queued and everything before it is finished.\<close>

definition held_ready :: "string \<Rightarrow> action_row \<Rightarrow> action_row list \<Rightarrow> action_queue_db list \<Rightarrow> bool" where
  "held_ready i row acts qs \<longleftrightarrow> holds_row i row acts qs \<and> earlier_finished acts row"

lemma held_ready_row: "held_ready i row acts qs \<Longrightarrow> holds_row i row acts qs"
  by (simp add: held_ready_def)

lemma held_ready_ok: "on_lane (held_ready i row) s \<Longrightarrow> on_lane lane_ok s"
  by (simp add: on_lane_def held_ready_def holds_row_def)

lemma held_ready_start:
  "getAction s i = Some row \<Longrightarrow> on_lane lane_ok s \<Longrightarrow> earlier_finished (actions s) row \<Longrightarrow>
    hoare (on_lane (held_ready i row)) m Q \<Longrightarrow> hoare (\<lambda>s'. s' = s) m Q"
  by (auto simp: hoare_def on_lane_def held_ready_def holds_row_def getAction_def)

lemma ready_update:
  "patch_ok patch \<Longrightarrow> hoare (on_lane (held_ready i row)) (updateActionRow i patch m k) (\<lambda>_. on_lane lane_ok)"
  by (rule update_held) (auto simp: held_ready_def)

lemma patch_okI:
  "(\<And>c. aPosition (patch c) = aPosition c) \<Longrightarrow> (\<And>c. aStatus (patch c) \<noteq> AQueued) \<Longrightarrow> patch_ok patch"
  by (simp add: patch_ok_def)

lemma failActionRow_held:
  "aId row = i \<Longrightarrow> aStatus row \<noteq> AQueued \<Longrightarrow>
    hoare (on_lane (holds_row i row)) (failActionRow row code detail b t) (\<lambda>_. on_lane lane_ok)"
  unfolding failActionRow_def by (auto intro!: held_update patch_okI)

lemma failActionRow_ready:
  "aId row = i \<Longrightarrow> hoare (on_lane (held_ready i row)) (failActionRow row code detail b t) (\<lambda>_. on_lane lane_ok)"
  unfolding failActionRow_def by (auto intro!: ready_update patch_okI)

text \<open>Resolution either fails the row or leaves it as it was.\<close>

lemma resolveForDispatch_ready:
  assumes "aId row = i"
    and "hoare (on_lane lane_ok) (k None) Q" and "\<And>r. hoare (on_lane (held_ready i row)) (k (Some r)) Q"
  shows "hoare (on_lane (held_ready i row)) (bindM (resolveForDispatch row t) k) Q"
proof (rule hoareI)
  fix s x s' assume P: "on_lane (held_ready i row) s" and run: "bindM (resolveForDispatch row t) k s = Inr (x, s')"
  show "Q x s'"
  proof (cases "resolveActionInputs (aInputs row) (getAction s)")
    case (Resolved r)
    then have "k (Some r) s = Inr (x, s')" using run by (simp add: resolveForDispatch_def bindM_Inr)
    then show ?thesis using hoareD [OF assms(3) _ P] by blast
  next
    case (Unresolved n a out why)
    then obtain code detail r s1 where "failActionRow row code detail True t s = Inr (r, s1)" and k: "k None s1 = Inr (x, s')"
      using run by (auto simp: resolveForDispatch_def bindM_Inr)
    then have "on_lane lane_ok s1" using hoareD [OF failActionRow_ready [OF assms(1)] _ P] by blast
    then show ?thesis using hoareD [OF assms(2) k] by blast
  qed
qed

lemma getAction_id: "getAction s i = Some row \<Longrightarrow> aId row = i"
  using getAction_Some by blast

lemma inLane_held:
  assumes "\<And>row. aId row = i \<Longrightarrow> hoare (on_lane (holds_row i row)) (body row) (\<lambda>_. on_lane lane_ok)"
  shows "preserves (on_lane lane_ok) (inLane i reason body)"
  unfolding preserves_def
  by (rule inLane_keeps, rule held_start) (use assms getAction_id in blast)+

text \<open>What the scheduler knows of the action it dispatches.\<close>

definition lane_ready :: "core \<Rightarrow> string \<Rightarrow> bool" where
  "lane_ready s i \<longleftrightarrow> (case getAction s i of None \<Rightarrow> True | Some row \<Rightarrow> earlier_finished (actions s) row)"

lemma inLane_ready:
  assumes "\<And>row. aId row = i \<Longrightarrow> hoare (on_lane (held_ready i row)) (body row) (\<lambda>_. on_lane lane_ok)"
  shows "hoare (\<lambda>s. on_lane lane_ok s \<and> lane_ready s i) (inLane i reason body) (\<lambda>_. on_lane lane_ok)"
proof (rule hoareI)
  fix s x s' assume P: "on_lane lane_ok s \<and> lane_ready s i" and run: "inLane i reason body s = Inr (x, s')"
  obtain row s1 where row: "getAction s i = Some row" and body: "body row s = Inr (x, s1)"
    and same: "actions s' = actions s1" "actionQueues s' = actionQueues s1"
    by (rule inLane_Inr [OF run])
  have "hoare (\<lambda>s'. s' = s) (body row) (\<lambda>_. on_lane lane_ok)"
    by (rule held_ready_start [OF row _ _ assms]) (use P row getAction_id in \<open>auto simp: lane_ready_def\<close>)
  from hoareD [OF this body refl] show "on_lane lane_ok s'" using on_lane_cong [OF same] by simp
qed

lemmas walks = walk walk_done [OF _ holds_row_ok] walk_done [OF _ held_ready_ok] walk_when walk_update

section \<open>Cancel and retry\<close>

lemma cancelAction_keeps: "preserves (on_lane lane_ok) (cancelAction i force)"
  unfolding cancelAction_def
  by (rule inLane_held, intro walk walk_done [OF _ holds_row_ok] walk_when walk_update held_update keeps)
    (auto intro!: patch_okI)

lemma retryAction_keeps: "preserves (on_lane lane_ok) (retryAction i force)"
  unfolding retryAction_def
  by (rule inLane_held, intro walk walk_done [OF _ holds_row_ok] walk_update held_update keeps)
    (auto simp: patch_ok_def)

section \<open>Dispatches\<close>

lemma walk_resolved:
  assumes "aId row = i" and "hoare (on_lane lane_ok) m Q" and "\<And>r. hoare (on_lane (held_ready i row)) (k r) Q"
  shows "hoare (on_lane (held_ready i row))
    (bindM (resolveForDispatch row t) (\<lambda>resolved. case resolved of None \<Rightarrow> m | Some r \<Rightarrow> k r)) Q"
  by (rule resolveForDispatch_ready) (use assms in simp_all)

lemma walk_keep:
  "preserves (on_lane lane_ok) m \<Longrightarrow> hoare (on_lane lane_ok) m (\<lambda>_. on_lane lane_ok)"
  by (simp add: preserves_def)

lemma dispatchAgentAction_keeps:
  "hoare (\<lambda>s. on_lane lane_ok s \<and> lane_ready s i) (dispatchAgentAction i) (\<lambda>_. on_lane lane_ok)"
  unfolding dispatchAgentAction_def Let_def
  by (rule inLane_ready,
      intro walk walk_resolved walk_keep walk_update [OF ready_update] walk_when [where m = mintActionToken]
        walk_when [where m = "send _ _ _"] keeps patch_okI) simp_all

lemma beginCellCaptureAttempt_keeps:
  "hoare (\<lambda>s. on_lane lane_ok s \<and> lane_ready s i) (beginCellCaptureAttempt i h) (\<lambda>_. on_lane lane_ok)"
  unfolding beginCellCaptureAttempt_def Let_def
  by (rule inLane_ready, intro walk walk_resolved walk_keep walk_update [OF ready_update] keeps patch_okI) simp_all

lemma offerAction_ready:
  "aId row = i \<Longrightarrow> hoare (on_lane (held_ready i row)) (offerAction i row detail) (\<lambda>_. on_lane lane_ok)"
  unfolding offerAction_def Let_def
  by (intro walk walk_resolved walk_keep walk_update [OF ready_update] walk_when [where m = mintActionToken]
        keeps patch_okI) simp_all

lemma holdActionForExecutor_keeps:
  "hoare (\<lambda>s. on_lane lane_ok s \<and> lane_ready s i) (holdActionForExecutor i detail) (\<lambda>_. on_lane lane_ok)"
proof (rule hoareI)
  fix s x s' assume P: "on_lane lane_ok s \<and> lane_ready s i" and run: "holdActionForExecutor i detail s = Inr (x, s')"
  let ?inner = "inLane i ''executor_unavailable'' (\<lambda>row.
           if aStatus row = AWaiting \<and> aWaitingReason row = Some WExecutor
           then bindM (if aWaitingDetail row \<noteq> Some detail
                       then bindM (updateActionRow i (\<lambda>a. a\<lparr>aWaitingDetail := Some detail\<rparr>) None None) (\<lambda>_. returnM ())
                       else returnM ()) (\<lambda>_. actionView i)
           else bindM (requireM (aStatus row = AQueued) (ActionRefusedError i)) (\<lambda>_. offerAction i row detail))"
  have inner: "hoare (\<lambda>s. on_lane lane_ok s \<and> lane_ready s i) ?inner (\<lambda>_. on_lane lane_ok)"
  proof (rule inLane_ready, rule walk_if, rule walk_update)
    show "hoare (on_lane (held_ready i row))
        (if aWaitingDetail row \<noteq> Some detail
         then bindM (updateActionRow i (\<lambda>a. a\<lparr>aWaitingDetail := Some detail\<rparr>) None None) (\<lambda>_. returnM ())
         else returnM ()) (\<lambda>_. on_lane lane_ok)" for row
      by (intro walk_if walk_update [OF ready_update] keeps walk_done [OF preserves_return held_ready_ok])
        (simp_all add: patch_ok_def)
    show "hoare (on_lane (held_ready i row))
        (bindM (requireM (aStatus row = AQueued) (ActionRefusedError i)) (\<lambda>_. offerAction i row detail)) (\<lambda>_. on_lane lane_ok)"
      if "aId row = i" for row
      by (intro walk_require offerAction_ready that)
  qed (rule keeps)
  show "on_lane lane_ok s'"
    using run P hoareD [OF inner _ P]
      preservesD [OF preserves_actionView [of "on_lane lane_ok" i], of s x s']
    by (auto simp: holdActionForExecutor_def bindM_Inr split: if_splits)
qed

lemma active_closed_held_ready:
  assumes "aStatus row = AQueued"
  shows "active_closed (held_ready i row)"
  unfolding active_closed_def
proof (intro conjI allI impI)
  fix acts qs assume "held_ready i row acts qs"
  then show "distinct (map aId acts)" by (simp add: held_ready_def holds_row_def lane_ok_def lane_ids_def)
next
  fix acts qs c r
  assume held: "held_ready i row acts qs" and c: "c \<in> set acts" "actionIsActive c" and "aStatus r \<noteq> AQueued"
    and step: "lane_step acts c r"
  have ok: "lane_ok acts qs" and found: "find_row aId acts i = Some row" and early: "earlier_finished acts row"
    using held by (simp_all add: held_ready_def holds_row_def)
  have ids: "distinct (map aId acts)" using ok by (simp add: lane_ok_def lane_ids_def)
  have "find_row aId acts (aId c) = Some c" by (rule find_row_mem [OF ids c(1)])
  then have "aId r \<noteq> i" using found c(2) assms step by (auto simp: actionIsActive_def lane_step_def)
  then have "find_row aId (put_row aId r acts) i = Some row" using found by (simp add: find_row_put_row)
  then show "held_ready i row (put_row aId r acts) qs"
    using lane_ok_put_row [OF ok step c(1)] earlier_finished_step [OF step c(1) early]
    by (simp add: held_ready_def holds_row_def)
qed

lemma walk_archived:
  "preserves P m \<Longrightarrow> (\<And>x y. hoare P (k x y) Q) \<Longrightarrow> hoare P (bindM m (\<lambda>(x, y). k x y)) Q"
  unfolding preserves_def by (rule hoare_bind) auto

lemma dispatchArchiveAction_keeps:
  "hoare (\<lambda>s. on_lane lane_ok s \<and> lane_ready s i) (dispatchArchiveAction i) (\<lambda>_. on_lane lane_ok)"
  unfolding dispatchArchiveAction_def Let_def
  by (rule inLane_ready,
      intro walk walk_resolved walk_keep walk_update [OF ready_update] walk_when [where m = "mustGetBee _"]
        walk_archived [where m = "enqueueCommand _ _ _ _ _"] preserves_enqueueCommand active_closed_held_ready keeps patch_okI)
    simp_all

section \<open>Operations on an action that has started\<close>

text \<open>The rows with these ids have left the queued state.\<close>

definition left_queue :: "string set \<Rightarrow> action_row list \<Rightarrow> action_queue_db list \<Rightarrow> bool" where
  "left_queue ids acts qs \<longleftrightarrow> lane_ok acts qs \<and> (\<forall>i \<in> ids. \<forall>c. find_row aId acts i = Some c \<longrightarrow> aStatus c \<noteq> AQueued)"

lemma left_queue_ok: "on_lane (left_queue ids) s \<Longrightarrow> on_lane lane_ok s"
  by (simp add: on_lane_def left_queue_def)

lemma left_queue_update:
  assumes i: "i \<in> ids" and patch: "moves_on patch"
  shows "preserves (on_lane (left_queue ids)) (updateActionRow i patch m k)"
proof (rule preservesI)
  fix s r s' assume P: "on_lane (left_queue ids) s" and run: "updateActionRow i patch m k s = Inr (r, s')"
  obtain c where c: "getAction s i = Some c" and r: "r = patched patch m k (clock s) c"
    and legal: "actionTransitionLegal (aStatus c) (aStatus (patch c))"
    and s': "s' = s\<lparr>actions := put_row aId r (actions s)\<rparr>"
    by (rule updateActionRow_Inr [OF run])
  have left: "aStatus c \<noteq> AQueued" using P c i by (auto simp: on_lane_def left_queue_def getAction_def)
  have "lane_inv s'"
    by (rule lane_inv_update [OF _ run])
      (use P patch c left in \<open>auto simp: lane_inv_def on_lane_def left_queue_def patch_ok_def moves_on_def\<close>)
  moreover have "aId r = i" "aStatus r \<noteq> AQueued"
    using r patch getAction_Some [OF c] by (simp_all add: patched_def moves_on_def)
  ultimately show "on_lane (left_queue ids) s'"
    using P unfolding on_lane_def left_queue_def lane_inv_def s'
    by (auto simp: find_row_put_row split: if_splits)
qed

lemma left_queue_start:
  "getAction s i = Some row \<Longrightarrow> aStatus row \<noteq> AQueued \<Longrightarrow> on_lane lane_ok s \<Longrightarrow> on_lane (left_queue {i}) s"
  by (simp add: on_lane_def left_queue_def getAction_def)

lemma active_closed_left_queue: "active_closed (left_queue ids)"
  unfolding active_closed_def
proof (intro conjI allI impI)
  fix acts qs assume "left_queue ids acts qs"
  then show "distinct (map aId acts)" by (simp add: left_queue_def lane_ok_def lane_ids_def)
next
  fix acts qs c r
  assume "left_queue ids acts qs" and c: "c \<in> set acts" "actionIsActive c" and "aStatus r \<noteq> AQueued"
    and step: "lane_step acts c r"
  then show "left_queue ids (put_row aId r acts) qs"
    using lane_ok_put_row [OF _ step c(1)]
    by (auto simp: left_queue_def find_row_put_row split: if_splits)
qed

lemma left_queue_preserves:
  "preserves (on_lane (left_queue ids)) m \<Longrightarrow> hoare (on_lane (left_queue ids)) m (\<lambda>_. on_lane lane_ok)"
  using left_queue_ok by (auto simp: preserves_def hoare_def)

lemma left_queue_update_lane:
  "i \<in> ids \<Longrightarrow> moves_on patch \<Longrightarrow>
    preserves (on_lane (left_queue ids)) (withActionLaneAudit b reason (updateActionRow i patch m k))"
  by (intro keeps left_queue_update)

definition found_row :: "action_row option \<Rightarrow> core \<Rightarrow> bool" where
  "found_row found s \<longleftrightarrow> on_lane lane_ok s
     \<and> pred_option (\<lambda>row. getAction s (aId row) = Some row \<and> aStatus row \<noteq> AQueued) found"

lemma found_row_left:
  "found_row (Some row) s \<Longrightarrow> on_lane (left_queue {aId row}) s"
  by (simp add: found_row_def left_queue_start)

lemma lane_ok_getAction: "on_lane lane_ok s \<Longrightarrow> a \<in> set (actions s) \<Longrightarrow> getAction s (aId a) = Some a"
  by (rule getAction_mem [OF active_closed_lane_ok])

lemma claimNamed_found: "hoare (on_lane lane_ok) (claimNamed input i) found_row"
proof (rule hoareI)
  fix s found s' assume ok: "on_lane lane_ok s" and run: "claimNamed input i s = Inr (found, s')"
  then obtain row where row: "getAction s i = Some row" and found: "found = Some row" "s' = s"
    and st: "isOffered row \<or> aStatus row = ARunning \<or> isUncertain row"
    by (auto simp: claimNamed_def bindM_Inr)
  show "found_row found s'"
    using ok row st getAction_id [OF row] by (auto simp: found found_row_def isOffered_def isUncertain_def)
qed

lemma listActions_mem: "a \<in> set (listActions s b sts) \<Longrightarrow> a \<in> set (actions s)"
  by (simp add: listActions_def)

lemma claimCandidates_found:
  "hoare (on_lane lane_ok) (readM (\<lambda>s. case claimCandidates s input of [] \<Rightarrow> None | a # _ \<Rightarrow> Some a)) found_row"
proof (rule hoareI)
  fix s found s'
  assume ok: "on_lane lane_ok s"
    and run: "readM (\<lambda>s. case claimCandidates s input of [] \<Rightarrow> None | a # _ \<Rightarrow> Some a) s = Inr (found, s')"
  show "found_row found s'"
  proof (cases "claimCandidates s input")
    case Nil
    then show ?thesis using run ok by (simp add: found_row_def)
  next
    case (Cons a rest)
    then have mem: "a \<in> set (claimCandidates s input)" by simp
    then have "a \<in> set (actions s)" "aStatus a \<noteq> AQueued"
      using listActions_mem by (auto simp: claimCandidates_def isOffered_def isUncertain_def)
    moreover have "found = Some a" "s' = s" using run Cons by simp_all
    ultimately show ?thesis using ok lane_ok_getAction by (simp add: found_row_def)
  qed
qed

lemma claimTarget_found: "hoare (on_lane lane_ok) (claimTarget input) found_row"
proof (cases "ciActionId input")
  case None
  then show ?thesis using claimCandidates_found [of input] by (simp add: claimTarget_def)
next
  case (Some i)
  then show ?thesis
    using claimCandidates_found [of input] claimNamed_found [of input i] by (cases i) (simp_all add: claimTarget_def)
qed

lemma moves_onI:
  "(\<And>c. aPosition (patch c) = aPosition c) \<Longrightarrow> (\<And>c. aStatus (patch c) \<noteq> AQueued) \<Longrightarrow> moves_on patch"
  by (simp add: moves_on_def)

lemma claimFound_left: "preserves (on_lane (left_queue {aId row})) (claimFound executor row d token)"
  unfolding claimFound_def Let_def
  by (intro keeps left_queue_update moves_onI) simp_all

lemma claimAction_keeps: "preserves (on_lane lane_ok) (claimAction input)"
  unfolding preserves_def claimAction_def
proof (rule hoare_bind [OF preserves_frame [OF frames_requireNonEmpty, unfolded preserves_def]],
    rule hoare_bind [OF claimTarget_found])
  fix executor found
  let ?rest = "case found of None \<Rightarrow> returnM None
     | Some row \<Rightarrow> (case offeredAttempt row of None \<Rightarrow> returnM None
                    | Some (d, token) \<Rightarrow> claimFound executor row d token)"
  show "hoare (found_row found) ?rest (\<lambda>_. on_lane lane_ok)"
  proof (cases found)
    case None
    then show ?thesis by (simp add: found_row_def hoare_def)
  next
    case (Some row)
    have "preserves (on_lane (left_queue {aId row})) ?rest"
      unfolding Some option.case by (intro keeps claimFound_left)
    from left_queue_preserves [OF this] show ?thesis
      by (rule hoare_weaken) (simp_all add: Some found_row_left)
  qed
qed

lemma settlePatch_moves_on: "moves_on (settlePatch outcome row t)"
  by (intro moves_onI) (cases outcome; simp add: settlePatch_def)+

lemma settleAction_keeps:
  "hoare (\<lambda>s. on_lane lane_ok s \<and> (\<forall>row. getAction s i = Some row \<longrightarrow> aStatus row \<noteq> AQueued))
     (settleAction i attempt outcome) (\<lambda>_. on_lane lane_ok)"
proof (rule hoareI)
  fix s x s'
  assume P: "on_lane lane_ok s \<and> (\<forall>row. getAction s i = Some row \<longrightarrow> aStatus row \<noteq> AQueued)"
    and run: "settleAction i attempt outcome s = Inr (x, s')"
  have keep: "preserves (on_lane (left_queue {i})) (settleAction i attempt outcome)"
    unfolding settleAction_def inLane_def
    by (intro keeps left_queue_update settlePatch_moves_on) simp
  have "on_lane (left_queue {i}) s"
    using P by (simp add: on_lane_def left_queue_def getAction_def)
  from left_queue_ok [OF preservesD [OF keep this run]] show "on_lane lane_ok s'" .
qed

section \<open>Reports, completion, reconciliation\<close>

lemma lane_run: "preserves (on_lane P) m \<Longrightarrow> on_lane P s \<Longrightarrow> m s = Inr (x, s') \<Longrightarrow> on_lane P s'"
  by (simp add: preserves_def hoare_def)

lemma left_queue_run:
  "preserves (on_lane (left_queue ids)) m \<Longrightarrow> on_lane (left_queue ids) s \<Longrightarrow> m s = Inr (x, s') \<Longrightarrow> on_lane lane_ok s'"
  by (rule left_queue_ok, rule lane_run)

text \<open>A progress note does not change the status.\<close>

definition same_status :: "(action_row \<Rightarrow> action_row) \<Rightarrow> bool" where
  "same_status patch \<longleftrightarrow> (\<forall>c. aPosition (patch c) = aPosition c \<and> aStatus (patch c) = aStatus c)"

lemma left_queue_update':
  assumes i: "i \<in> ids" and pos: "\<And>c. aPosition (patch c) = aPosition c"
    and st: "\<And>c. aStatus c \<noteq> AQueued \<Longrightarrow> aStatus (patch c) \<noteq> AQueued"
    and blank: "\<And>c. aStatus (patch c) = AQueued \<Longrightarrow> aAttemptToken (patch c) = aAttemptToken c \<and> aDispatch (patch c) = aDispatch c \<and> aStatus c = AQueued"
  shows "preserves (on_lane (left_queue ids)) (updateActionRow i patch m k)"
proof (rule preservesI)
  fix s r s' assume P: "on_lane (left_queue ids) s" and run: "updateActionRow i patch m k s = Inr (r, s')"
  obtain c where c: "getAction s i = Some c" and r: "r = patched patch m k (clock s) c"
    and legal: "actionTransitionLegal (aStatus c) (aStatus (patch c))"
    and s': "s' = s\<lparr>actions := put_row aId r (actions s)\<rparr>"
    by (rule updateActionRow_Inr [OF run])
  have left: "aStatus c \<noteq> AQueued" using P c i by (auto simp: on_lane_def left_queue_def getAction_def)
  have "lane_inv s'"
  proof (rule lane_inv_update [OF _ run])
    show "lane_inv s" using P by (simp add: lane_inv_def on_lane_def left_queue_def)
    show "patch_ok patch" unfolding patch_ok_def using pos blank by blast
  qed (use c left in simp)
  moreover have "aId r = i" "aStatus r \<noteq> AQueued"
    using r st [OF left] getAction_Some [OF c] by (simp_all add: patched_def)
  ultimately show "on_lane (left_queue ids) s'"
    using P unfolding on_lane_def left_queue_def lane_inv_def s'
    by (auto simp: find_row_put_row split: if_splits)
qed

lemma reportProgress_left: "preserves (on_lane (left_queue {aId row})) (reportProgress input row)"
  unfolding reportProgress_def
  by (intro keeps left_queue_update') simp_all

lemma reportQuestion_left: "preserves (on_lane (left_queue {aId row})) (reportQuestion input row)"
  unfolding reportQuestion_def
  by (intro keeps left_queue_update moves_onI) simp_all

lemma reportSuccess_left: "preserves (on_lane (left_queue {aId row})) (reportSuccess input row)"
  unfolding reportSuccess_def
  by (intro keeps left_queue_update moves_onI) simp_all

lemma reportFailure_left: "preserves (on_lane (left_queue {aId row})) (reportFailure input row)"
  unfolding reportFailure_def failActionRow_def
  by (intro keeps left_queue_update moves_onI) simp_all

lemma reportUncertain_left: "preserves (on_lane (left_queue {aId row})) (reportUncertain input row)"
  unfolding reportUncertain_def
  by (intro keeps left_queue_update moves_onI) simp_all

lemma preserves_kind [keeps]:
  "preserves P a \<Longrightarrow> preserves P b \<Longrightarrow> preserves P c \<Longrightarrow> preserves P d \<Longrightarrow>
    preserves P (case k of RkProgress \<Rightarrow> a | RkQuestion \<Rightarrow> b | RkResult \<Rightarrow> c | RkSettle \<Rightarrow> d)"
  by (cases k) simp_all

lemma preserves_outcome [keeps]:
  "preserves P a \<Longrightarrow> preserves P b \<Longrightarrow> preserves P c \<Longrightarrow>
    preserves P (case k of RoSucceeded \<Rightarrow> a | RoFailed \<Rightarrow> b | RoUncertain \<Rightarrow> c)"
  by (cases k) simp_all

lemmas report_parts = reportProgress_left reportQuestion_left reportSuccess_left reportFailure_left reportUncertain_left

lemma reportTx_keeps:
  assumes ok: "on_lane lane_ok s" and row: "getAction s (rpActionId input) = Some row"
    and left: "aStatus row \<noteq> AQueued" and run: "reportTx input s = Inr (x, s')"
  shows "on_lane lane_ok s'"
proof -
  let ?body = "case rpKind input of
         RkProgress \<Rightarrow> reportProgress input row
       | RkQuestion \<Rightarrow> reportQuestion input row
       | _ \<Rightarrow>
           (case rpOutcome input of
              None \<Rightarrow> throwM (CoreError ''reportAction: result outcome must be succeeded|failed|uncertain'')
            | Some outcome \<Rightarrow>
                if is_terminal row
                then (if repeatsOutcome row (Some outcome) then finishReport (aId row) False True None
                      else throwM (ActionRefusedError (aId row)))
                else (case outcome of
                        RoUncertain \<Rightarrow> reportUncertain input row
                      | RoSucceeded \<Rightarrow> reportSuccess input row
                      | RoFailed \<Rightarrow> reportFailure input row))"
  have "preserves (on_lane (left_queue {aId row})) ?body"
    by (intro keeps report_parts)
  moreover have "on_lane (left_queue {aId row}) s"
    by (rule left_queue_start [OF _ left ok]) (use row getAction_id [OF row] in simp)
  moreover have "?body s = Inr (x, s')"
    using run row unfolding reportTx_def by (simp add: bindM_Inr)
  ultimately show ?thesis by (rule left_queue_run)
qed

lemma report_accepted_started:
  assumes "on_lane lane_ok s" and "getAction s i = Some row" and "reportRefusal row input = None"
  shows "aStatus row \<noteq> AQueued"
proof
  assume "aStatus row = AQueued"
  then have "aAttemptToken row = None"
    using assms(1) getAction_Some [OF assms(2)] lane_ok_blank by (auto simp: on_lane_def blank_attempt_def)
  then show False using assms(3) by (auto simp: reportRefusal_def non_empty_def split: if_splits)
qed

lemma reportAction_keeps:
  assumes ok: "on_lane lane_ok s"
  shows "on_lane lane_ok (snd (reportAction input s))"
proof (cases "getAction s (rpActionId input)")
  case None
  then show ?thesis using ok by (simp add: reportAction_def)
next
  case (Some row)
  show ?thesis
  proof (cases "reportRefusal row input")
    case None
    then show ?thesis
      using ok Some reportTx_keeps [OF ok Some report_accepted_started [OF ok Some None]]
      by (auto simp: reportAction_def split: sum.split)
  next
    case (Some why)
    then show ?thesis using ok \<open>getAction s (rpActionId input) = Some row\<close>
      by (simp add: reportAction_def on_lane_def)
  qed
qed

text \<open>An operation that refuses a queued action works on one that has started.\<close>

lemma preserves_require_bind: "(b \<Longrightarrow> preserves P (k ())) \<Longrightarrow> preserves P (bindM (requireM b e) k)"
  by (simp add: preserves_def hoare_def bindM_Inr)

lemma inLane_started:
  assumes started: "\<And>row. aId row = i \<Longrightarrow> aStatus row \<noteq> AQueued \<Longrightarrow> preserves (on_lane (left_queue {i})) (body row)"
    and queued: "\<And>row. aStatus row = AQueued \<Longrightarrow> preserves (on_lane lane_ok) (body row)"
  shows "preserves (on_lane lane_ok) (inLane i reason body)"
  unfolding preserves_def
proof (rule inLane_keeps)
  fix s row assume row: "getAction s i = Some row" and ok: "on_lane lane_ok s"
  show "hoare (\<lambda>s'. s' = s) (body row) (\<lambda>_. on_lane lane_ok)"
  proof (cases "aStatus row = AQueued")
    case True
    then show ?thesis using queued ok by (auto simp: hoare_def dest: lane_run)
  next
    case False
    then show ?thesis
      using started [OF getAction_id [OF row] False] left_queue_start [OF row False ok]
      by (auto simp: hoare_def dest: left_queue_run)
  qed
qed

lemma completable_started: "kComplete (deriveActionControls row) \<Longrightarrow> aStatus row \<noteq> AQueued"
  by (auto simp: deriveActionControls_def Let_def)

lemma completeRow_left: "preserves (on_lane (left_queue {i})) (completeRow i outputs detail row)"
  unfolding completeRow_def Let_def
  by (intro preserves_answerActionQuestion active_closed_left_queue left_queue_update moves_onI keeps) simp_all

lemma completeRow_queued: "aStatus row = AQueued \<Longrightarrow> preserves (on_lane lane_ok) (completeRow i outputs detail row)"
  using completable_started [of row] unfolding completeRow_def Let_def
  by (cases "kComplete (deriveActionControls row)", simp) (simp add: preserves_bind preserves_actionView preserves_return requireM_def preserves_throw)

lemma completeAction_keeps: "preserves (on_lane lane_ok) (completeAction i outputs detail)"
  unfolding completeAction_def
  by (intro preserves_bind preserves_mustGetAction preserves_others inLane_started completeRow_left completeRow_queued)

lemma settleArchive_left:
  "aId row = i \<Longrightarrow> preserves (on_lane (left_queue {i})) (settleArchive i row key cmd)"
  unfolding settleArchive_def failActionRow_def
  by (intro keeps left_queue_update moves_onI) simp_all

lemma reconcileArchiveAction_keeps: "preserves (on_lane lane_ok) (reconcileArchiveAction i)"
proof (rule preservesI)
  fix s x s' assume ok: "on_lane lane_ok s" and run: "reconcileArchiveAction i s = Inr (x, s')"
  obtain row where row: "getAction s i = Some row" using run by (auto simp: reconcileArchiveAction_def bindM_Inr)
  have keep: "preserves (on_lane lane_ok) (bindM (actionView i) (\<lambda>v. returnM (v, False)))" by (intro keeps)
  have view: "on_lane lane_ok s1" if "bindM (actionView i) (\<lambda>v. returnM (v, False)) s = Inr (x, s1)" for s1
    by (rule lane_run [OF keep ok that])
  show "on_lane lane_ok s'"
  proof (cases "aStatus row = ARunning")
    case False
    then show ?thesis using run row view by (simp add: reconcileArchiveAction_def bindM_Inr)
  next
    case True
    have left: "on_lane (left_queue {i}) s" by (rule left_queue_start [OF row _ ok]) (simp add: True)
    have settle: "on_lane lane_ok s1"
      if "withActionLaneAudit (aBeeId row) ''reconciled'' (settleArchive i row key cmd) s = Inr (x, s1)" for key cmd s1
      by (rule left_queue_run [OF preserves_withActionLaneAudit [OF settleArchive_left [OF getAction_id [OF row]]] left that])
    show ?thesis
      using run row view settle by (auto simp: reconcileArchiveAction_def bindM_Inr split: option.splits if_splits)
  qed
qed

lemma preserves_each_mem: "(\<And>x. x \<in> set xs \<Longrightarrow> preserves P (k x)) \<Longrightarrow> preserves P (eachM xs k)"
  by (induction xs) (simp_all add: preserves_return preserves_then)

lemma markInFlight_keeps: "preserves (on_lane lane_ok) (markInFlightCaptureActionsUncertain detail)"
proof (rule preservesI)
  fix s x s'
  assume ok: "on_lane lane_ok s" and run: "markInFlightCaptureActionsUncertain detail s = Inr (x, s')"
  let ?rows = "filter (\<lambda>a. aExecutor a = XCellCapture) (listActions s None [ARunning])"
  let ?body = "bindM (eachM ?rows (\<lambda>row.
              withActionLaneAudit (aBeeId row) ''boot_uncertain''
                (bindM (updateActionRow (aId row)
                   (\<lambda>a. a\<lparr>aStatus := AWaiting, aWaitingReason := Some WUncertain, aWaitingDetail := Some detail\<rparr>) None None)
                   (\<lambda>_. returnM ())))) (\<lambda>_. returnM (map aId ?rows))"
  have keep: "preserves (on_lane (left_queue (aId ` set ?rows))) ?body"
    by (intro preserves_bind preserves_each_mem preserves_withActionLaneAudit left_queue_update moves_onI preserves_return)
      simp_all
  have run': "?body s = Inr (x, s')" using run unfolding markInFlightCaptureActionsUncertain_def by simp
  have running: "aStatus a = ARunning" "getAction s (aId a) = Some a" if "a \<in> set ?rows" for a
    using that lane_ok_getAction [OF ok] by (simp_all add: listActions_def)
  have "on_lane (left_queue (aId ` set ?rows)) s"
    unfolding on_lane_def left_queue_def
  proof (intro conjI ballI allI impI)
    show "lane_ok (actions s) (actionQueues s)" using ok by (simp add: on_lane_def)
    fix i c assume i: "i \<in> aId ` set ?rows" and c: "find_row aId (actions s) i = Some c"
    from i obtain a where a: "i = aId a" "a \<in> set ?rows" by (rule imageE)
    then have "c = a" using c running(2) [OF a(2)] by (simp add: getAction_def)
    then show "aStatus c \<noteq> AQueued" using running(1) [OF a(2)] by simp
  qed
  from left_queue_run [OF keep this run'] show "on_lane lane_ok s'" .
qed

lemma nudgeAgentAction_keeps: "preserves (on_lane lane_ok) (nudgeAgentAction i attempt)"
proof (rule preservesI)
  fix s x s' assume ok: "on_lane lane_ok s" and run: "nudgeAgentAction i attempt s = Inr (x, s')"
  show "on_lane lane_ok s'"
  proof (cases "case getAction s i of None \<Rightarrow> None | Some row \<Rightarrow> if nudgeEligible s row attempt then Some row else None")
    case None
    then show ?thesis using run ok by (simp add: nudgeAgentAction_def)
  next
    case (Some row)
    then have row: "getAction s i = Some row" "nudgeEligible s row attempt" by (auto split: option.splits if_splits)
    let ?body = "withActionLaneAudit (aBeeId row) ''nudged''
             (bindM (send (aBeeId row) (renderActionNudge row (the (aAttemptToken row)) attempt) (actionMail UIdle)) (\<lambda>sent.
              bindM (readM clock) (\<lambda>t.
              bindM (updateActionRow i (\<lambda>a. a\<lparr>aDispatch := map_option (\<lambda>d. d\<lparr>dpNudgedAt := Some t\<rparr>) (aDispatch row)\<rparr>) None None) (\<lambda>_.
              bindM (actionView i) (\<lambda>v. returnM (Some (v, mId (srMessage sent))))))))"
    have left: "on_lane (left_queue {i}) s"
      by (rule left_queue_start [OF row(1) _ ok]) (use row(2) in \<open>simp add: nudgeEligible_def\<close>)
    have upd: "preserves (on_lane (left_queue {i}))
        (updateActionRow i (\<lambda>a. a\<lparr>aDispatch := map_option (\<lambda>d. d\<lparr>dpNudgedAt := Some t\<rparr>) (aDispatch row)\<rparr>) None None)" for t
    proof (rule preservesI)
      fix s1 r s2
      assume P: "on_lane (left_queue {i}) s1"
        and run: "updateActionRow i (\<lambda>a. a\<lparr>aDispatch := map_option (\<lambda>d. d\<lparr>dpNudgedAt := Some t\<rparr>) (aDispatch row)\<rparr>) None None s1 = Inr (r, s2)"
      obtain c where c: "getAction s1 i = Some c"
        and r: "r = patched (\<lambda>a. a\<lparr>aDispatch := map_option (\<lambda>d. d\<lparr>dpNudgedAt := Some t\<rparr>) (aDispatch row)\<rparr>) None None (clock s1) c"
        and s2: "s2 = s1\<lparr>actions := put_row aId r (actions s1)\<rparr>"
        by (rule updateActionRow_Inr [OF run])
      have nq: "aStatus c \<noteq> AQueued" using P c by (simp add: on_lane_def left_queue_def getAction_def)
      have "lane_step (actions s1) c r"
        using nq by (simp add: lane_step_def r patched_def blank_attempt_def actionTransitionLegal_def)
      moreover have "aId r = i" "aStatus r \<noteq> AQueued" using nq getAction_Some [OF c] by (simp_all add: r patched_def)
      ultimately show "on_lane (left_queue {i}) s2"
        using P lane_ok_put_row [of "actions s1" "actionQueues s1" c r] getAction_Some [OF c]
        by (simp add: on_lane_def left_queue_def s2 find_row_put_row)
    qed
    have keep: "preserves (on_lane (left_queue {i})) ?body" by (intro upd keeps)
    have "?body s = Inr (x, s')" using run Some by (simp add: nudgeAgentAction_def)
    from left_queue_run [OF keep left this] show ?thesis .
  qed
qed

section \<open>The queue row\<close>

lemma below_cursor_mono:
  "below_cursor qs a \<Longrightarrow> set qs \<subseteq> set qs' \<Longrightarrow> below_cursor qs' a"
  unfolding below_cursor_def by blast

lemma getActionQueue_None: "getActionQueue s b = None \<longleftrightarrow> b \<notin> qdBeeId ` set (actionQueues s)"
  by (simp add: getActionQueue_def getQueueDb_def find_row_None)

lemma ensureActionQueue_keeps [keeps]: "preserves (on_lane lane_ok) (ensureActionQueue b)"
proof (rule preservesI)
  fix s x s' assume ok: "on_lane lane_ok s" and run: "ensureActionQueue b s = Inr (x, s')"
  show "on_lane lane_ok s'"
  proof (cases "getActionQueue s b")
    case (Some q)
    then show ?thesis using ok run by (simp add: ensureActionQueue_def)
  next
    case None
    define q where "q = \<lparr>qdBeeId = b, qdPaused = False, qdPausedAt = None, qdNextPosition = 1,
        qdCreatedAt = clock s, qdUpdatedAt = clock s\<rparr>"
    have q: "qdBeeId q = b" "qdNextPosition q = 1" "actions s' = actions s" "actionQueues s' = actionQueues s @ [q]"
      using run None by (auto simp: q_def ensureActionQueue_def bindM_Inr thenM_def mustGetBee_def split: option.splits)
    have "lane_bounds (actions s) (actionQueues s @ [q])"
      using ok None below_cursor_mono [of "actionQueues s" _ "actionQueues s @ [q]"]
      by (auto simp: on_lane_def lane_ok_def lane_bounds_def getActionQueue_None q(1,2))
    then show ?thesis using ok by (simp add: on_lane_def lane_ok_def q)
  qed
qed

lemma below_cursor_pairs:
  "below_cursor qs a \<longleftrightarrow> 1 \<le> aPosition a
     \<and> (\<exists>p \<in> set (map (\<lambda>q. (qdBeeId q, qdNextPosition q)) qs). fst p = aBeeId a \<and> aPosition a < snd p)"
  by (simp add: below_cursor_def)

lemma lane_ok_pairs:
  assumes "map (\<lambda>q. (qdBeeId q, qdNextPosition q)) qs' = map (\<lambda>q. (qdBeeId q, qdNextPosition q)) qs"
  shows "lane_ok acts qs' = lane_ok acts qs"
proof -
  have "map qdBeeId qs' = map qdBeeId qs"
    using arg_cong [OF assms, of "map fst"] by (simp add: comp_def)
  moreover have "map qdNextPosition qs' = map qdNextPosition qs"
    using arg_cong [OF assms, of "map snd"] by (simp add: comp_def)
  ultimately show ?thesis
    unfolding lane_ok_def lane_bounds_def below_cursor_pairs by (simp only: assms)
qed

lemma setQueuePaused_keeps [keeps]: "preserves (on_lane lane_ok) (setQueuePaused b p t)"
proof (rule preservesI)
  fix s x s' assume ok: "on_lane lane_ok s" and run: "setQueuePaused b p t s = Inr (x, s')"
  have s': "s' = s\<lparr>actionQueues := update_rows (\<lambda>q. qdBeeId q = b)
       (\<lambda>q. q\<lparr>qdPaused := p, qdPausedAt := (if p then Some t else None), qdUpdatedAt := t\<rparr>) (actionQueues s)\<rparr>"
    using run by (simp add: setQueuePaused_def)
  have "map (\<lambda>q. (qdBeeId q, qdNextPosition q)) (update_rows (\<lambda>q. qdBeeId q = b)
       (\<lambda>q. q\<lparr>qdPaused := p, qdPausedAt := (if p then Some t else None), qdUpdatedAt := t\<rparr>) (actionQueues s))
      = map (\<lambda>q. (qdBeeId q, qdNextPosition q)) (actionQueues s)"
    by (rule map_update_rows) simp
  from lane_ok_pairs [OF this] show "on_lane lane_ok s'" using ok by (simp add: on_lane_def s')
qed

lemma pauseActionQueue_keeps: "preserves (on_lane lane_ok) (pauseActionQueue b)"
  unfolding pauseActionQueue_def by (intro keeps)

lemma resumeActionQueue_keeps: "preserves (on_lane lane_ok) (resumeActionQueue b)"
  unfolding resumeActionQueue_def by (intro keeps)

end
