(* ===== verification/Action_Accept.thy ===== *)
theory Action_Accept
  imports Action_Invariant
begin

text \<open>
  Accepting a sequence and reordering the queued rows keep the invariant of the lanes. These are the
  two operations that set positions.
\<close>

section \<open>Accepting\<close>

definition ref_ids :: "jobject \<Rightarrow> string set" where
  "ref_ids inputs = (\<lambda>r. fst (snd r)) ` set (actionRefTargets inputs)"

lemma ref_ids_Nil [simp]: "ref_ids [] = {}"
  by (simp add: ref_ids_def)

lemma ref_ids_Cons:
  "ref_ids ((n, v) # rest) = (case actionOutputRef v of Some (a, _) \<Rightarrow> {a} | None \<Rightarrow> {}) \<union> ref_ids rest"
  by (auto simp: ref_ids_def split: option.split)

lemma ref_ids_js_set:
  "ref_ids (js_set inputs n v) \<subseteq> ref_ids inputs \<union> (case actionOutputRef v of Some (a, _) \<Rightarrow> {a} | None \<Rightarrow> {})"
  by (induction inputs n v rule: js_set.induct) (auto simp: ref_ids_Cons split: if_splits option.splits)

lemma actionOutputRef_value:
  "actionOutputRef (outputRefValue a out) = (if a \<noteq> [] \<and> out \<noteq> [] then Some (a, out) else None)"
  by (simp add: actionOutputRef_def outputRefValue_def js_get_def)

text \<open>The references of rewritten inputs name earlier items of the request or actions of the lane.\<close>

lemma rewriteInputs_refs:
  assumes "rewriteInputs index ids lane inputs raw s = Inr (out, s')" and "index \<le> length ids"
  shows "s' = s \<and> ref_ids out \<subseteq> ref_ids inputs \<union> set (take index ids) \<union> set (map aId lane)"
  using assms
proof (induction raw arbitrary: inputs)
  case Nil
  then show ?case by auto
next
  case (Cons nv raw)
  obtain n v where nv: "nv = (n, v)" by (cases nv)
  have step: "s' = s \<and> ref_ids out \<subseteq> ref_ids inputs \<union> set (take index ids) \<union> set (map aId lane)"
    if "rewriteInputs index ids lane (js_set inputs n w) raw s = Inr (out, s')"
      and "(case actionOutputRef w of Some (a, _) \<Rightarrow> {a} | None \<Rightarrow> {}) \<subseteq> set (take index ids) \<union> set (map aId lane)" for w
    using Cons.IH [OF that(1) Cons.prems(2)] ref_ids_js_set [of inputs n w] that(2) by blast
  show ?case
  proof (cases "actionItemRef v")
    case (Some r)
    obtain target o' where r: "actionItemRef v = Some (target, o')" using Some by (cases r) simp
    then have lt: "target < index"
      and run: "rewriteInputs index ids lane (js_set inputs n (outputRefValue (ids ! target) o')) raw s = Inr (out, s')"
      using Cons.prems(1) nv by (auto split: if_splits)
    have "ids ! target \<in> set (take index ids)"
      using lt Cons.prems(2) by (auto simp: in_set_conv_nth intro!: exI [of _ target])
    then show ?thesis by (intro step [OF run]) (auto simp: actionOutputRef_value)
  next
    case None
    show ?thesis
    proof (cases "actionOutputRef v")
      case None
      then show ?thesis
        using Cons.prems(1) nv \<open>actionItemRef v = None\<close> by (intro step [of v]) simp_all
    next
      case (Some r)
      obtain a o' where r: "actionOutputRef v = Some (a, o')" using Some by (cases r) simp
      then have "a \<in> set (map aId lane)" and "rewriteInputs index ids lane (js_set inputs n v) raw s = Inr (out, s')"
        using Cons.prems(1) nv \<open>actionItemRef v = None\<close> by (auto split: if_splits)
      then show ?thesis by (intro step [of v]) (simp_all add: r)
    qed
  qed
qed

lemma rewriteInputs_state: "rewriteInputs index ids lane inputs raw s = Inr (out, s') \<Longrightarrow> s' = s"
  by (induction index ids lane inputs raw rule: rewriteInputs.induct) (auto split: if_splits option.splits prod.splits)

text \<open>The queue of a bee with its cursor set.\<close>

definition set_cursor :: "string \<Rightarrow> int \<Rightarrow> action_queue_db list \<Rightarrow> action_queue_db list" where
  "set_cursor b n qs = update_rows (\<lambda>q. qdBeeId q = b) (\<lambda>q. q\<lparr>qdNextPosition := n\<rparr>) qs"

definition known_before :: "action_row list \<Rightarrow> string \<Rightarrow> int \<Rightarrow> string \<Rightarrow> bool" where
  "known_before acts b n i \<longleftrightarrow> (\<exists>a \<in> set acts. aId a = i \<and> aBeeId a = b \<and> aPosition a < n)"

definition accepting :: "string \<Rightarrow> int \<Rightarrow> string set \<Rightarrow> action_row list \<Rightarrow> action_queue_db list \<Rightarrow> bool" where
  "accepting b n known acts qs \<longleftrightarrow>
     lane_ok acts (set_cursor b n qs) \<and> 1 \<le> n \<and> b \<in> qdBeeId ` set qs \<and> (\<forall>i \<in> known. known_before acts b n i)"

lemma set_cursor_ids [simp]: "map qdBeeId (set_cursor b n qs) = map qdBeeId qs"
  unfolding set_cursor_def by (rule map_update_rows) simp

lemma set_cursor_positions:
  "p \<in> qdNextPosition ` set (set_cursor b n qs) \<longleftrightarrow>
    (\<exists>q \<in> set qs. qdBeeId q \<noteq> b \<and> p = qdNextPosition q) \<or> (b \<in> qdBeeId ` set qs \<and> p = n)"
  by (induction qs) (auto simp: set_cursor_def update_rows_def)

lemma set_cursor_ex:
  "(\<exists>q \<in> set (set_cursor b n qs). qdBeeId q = x \<and> p < qdNextPosition q) \<longleftrightarrow>
    (if x = b then b \<in> qdBeeId ` set qs \<and> p < n else (\<exists>q \<in> set qs. qdBeeId q = x \<and> p < qdNextPosition q))"
proof (induction qs)
  case (Cons q qs)
  have "set_cursor b n (q # qs) = (if qdBeeId q = b then q\<lparr>qdNextPosition := n\<rparr> else q) # set_cursor b n qs"
    by (simp add: set_cursor_def update_rows_def)
  then show ?case using Cons by (cases "qdBeeId q = b"; cases "x = b"; simp; blast)
qed (simp add: set_cursor_def update_rows_def)

lemma below_set_cursor:
  assumes "b \<in> qdBeeId ` set qs"
  shows "below_cursor (set_cursor b n qs) a \<longleftrightarrow>
    (if aBeeId a = b then 1 \<le> aPosition a \<and> aPosition a < n else below_cursor qs a)"
  using assms by (simp add: below_cursor_def set_cursor_ex)

lemma refs_backward_mono: "refs_backward acts a \<Longrightarrow> set acts \<subseteq> set acts' \<Longrightarrow> refs_backward acts' a"
  unfolding refs_backward_def by blast

text \<open>The INSERT of a queued row at the cursor.\<close>

lemma accepting_insert:
  assumes acc: "accepting b n known acts qs"
    and row: "aBeeId row = b" "aPosition row = n" "aStatus row = AQueued" "aAttemptToken row = None" "aDispatch row = None"
    and refs: "ref_ids (aInputs row) \<subseteq> known"
    and fresh: "\<not> list_ex (\<lambda>a. aId a = aId row \<or> (aBeeId a = aBeeId row \<and> aPosition a = aPosition row)) acts"
  shows "accepting b (n + 1) (insert (aId row) known) (acts @ [row]) qs"
proof -
  have ok: "lane_ok acts (set_cursor b n qs)" and n: "1 \<le> n" and q: "b \<in> qdBeeId ` set qs"
    and known: "\<forall>i \<in> known. known_before acts b n i"
    using acc by (simp_all add: accepting_def)
  have dq: "distinct (map qdBeeId qs)" using ok by (simp add: lane_ok_def lane_bounds_def)
  have cursors: "\<forall>p \<in> set (map qdNextPosition (set_cursor b n qs)). 1 \<le> p"
    using ok unfolding lane_ok_def lane_bounds_def by blast
  have below: "below_cursor (set_cursor b n qs) a" if "a \<in> set acts" for a
    using ok that by (simp add: lane_ok_def lane_bounds_def)
  have lower: "aPosition a < n" if "a \<in> set acts" "aBeeId a = b" for a
    using below [OF that(1)] that(2) by (simp add: below_set_cursor [OF q])
  have "lane_ids (acts @ [row])"
    using ok fresh by (force simp: lane_ok_def lane_ids_def list_ex_iff)
  moreover have "lane_bounds (acts @ [row]) (set_cursor b (n + 1) qs)"
    unfolding lane_bounds_def
  proof (intro conjI ballI)
    show "distinct (map qdBeeId (set_cursor b (n + 1) qs))" using dq by simp
    show "1 \<le> p" if "p \<in> set (map qdNextPosition (set_cursor b (n + 1) qs))" for p
    proof -
      have "p \<in> qdNextPosition ` set (set_cursor b n qs) \<or> p = n + 1"
        using that unfolding set_map set_cursor_positions by blast
      then show ?thesis using cursors n by auto
    qed
    fix a assume "a \<in> set (acts @ [row])"
    then consider "a = row" | "a \<in> set acts" by auto
    then show "below_cursor (set_cursor b (n + 1) qs) a"
    proof cases
      case 1
      then show ?thesis using row n by (simp add: below_set_cursor [OF q])
    next
      case 2
      then show ?thesis using below [OF 2] by (simp add: below_set_cursor [OF q] split: if_splits)
    qed
  qed
  moreover have "lane_progress (acts @ [row])"
  proof -
    have "\<not> comes_before row c" if "c \<in> set acts" for c
      using lower [OF that] row by (auto simp: comes_before_def)
    then have "earlier_finished (acts @ [row]) c" if "c \<in> set acts" "started c" for c
      using ok that unfolding lane_ok_def lane_progress_def earlier_finished_def by simp
    then show ?thesis using row(3) by (simp add: lane_progress_def started_def)
  qed
  moreover have "\<forall>a \<in> set (acts @ [row]). blank_attempt a"
    using ok row by (simp add: lane_ok_def blank_attempt_def)
  moreover have "refs_backward (acts @ [row]) row"
    unfolding refs_backward_def
  proof
    fix i assume "i \<in> (\<lambda>r. fst (snd r)) ` set (actionRefTargets (aInputs row))"
    then have "known_before acts b n i" using refs known by (auto simp: ref_ids_def)
    then obtain c where c: "c \<in> set acts" "aId c = i" "aBeeId c = b" "aPosition c < n"
      unfolding known_before_def by blast
    moreover have "aId c \<noteq> aId row" using fresh c(1) by (simp add: list_ex_iff)
    ultimately have "ref_target row i c" using row by (simp add: ref_target_def)
    then show "\<exists>c \<in> set (acts @ [row]). ref_target row i c" using c(1) by (intro bexI [of _ c]) simp_all
  qed
  moreover have "\<forall>a \<in> set acts. refs_backward (acts @ [row]) a"
  proof
    fix a assume "a \<in> set acts"
    then have "refs_backward acts a" using ok by (simp add: lane_ok_def)
    then show "refs_backward (acts @ [row]) a" by (rule refs_backward_mono) (simp, blast)
  qed
  moreover have "\<forall>i \<in> insert (aId row) known. known_before (acts @ [row]) b (n + 1) i"
  proof
    fix i assume "i \<in> insert (aId row) known"
    then consider "i = aId row" | "known_before acts b n i" using known by blast
    then show "known_before (acts @ [row]) b (n + 1) i"
    proof cases
      case 1
      then show ?thesis using row unfolding known_before_def by simp
    next
      case 2
      then obtain c where "c \<in> set acts" "aId c = i" "aBeeId c = b" "aPosition c < n"
        unfolding known_before_def by blast
      then show ?thesis unfolding known_before_def by (intro bexI [of _ c]) simp_all
    qed
  qed
  ultimately show ?thesis using n q by (simp add: accepting_def lane_ok_def)
qed

lemma insertAction_Inr:
  "insertAction row s = Inr (u, s') \<Longrightarrow>
    s' = s\<lparr>actions := actions s @ [row]\<rparr>
    \<and> \<not> list_ex (\<lambda>a. aId a = aId row \<or> (aBeeId a = aBeeId row \<and> aPosition a = aPosition row)) (actions s)"
  by (simp add: insertAction_def thenM_def bindM_Inr)

lemma itemInputs_Inr: "itemInputs item s = Inr (raw, s') \<Longrightarrow> s' = s"
  by (auto simp: itemInputs_def split: option.splits json.splits)

lemma newActionRow_simps [simp]:
  "aId (newActionRow i b p item d inputs key t) = i"
  "aBeeId (newActionRow i b p item d inputs key t) = b"
  "aPosition (newActionRow i b p item d inputs key t) = p"
  "aInputs (newActionRow i b p item d inputs key t) = inputs"
  "aStatus (newActionRow i b p item d inputs key t) = AQueued"
  "aAttemptToken (newActionRow i b p item d inputs key t) = None"
  "aDispatch (newActionRow i b p item d inputs key t) = None"
  "aAttempt (newActionRow i b p item d inputs key t) = 0"
  "aEnqueueKey (newActionRow i b p item d inputs key t) = key"
  by (simp_all add: newActionRow_def)

text \<open>What accepting one item does.\<close>

lemma acceptItem_Inr:
  assumes "acceptItem b key ids lane n0 t index item s = Inr (u, s')"
  obtains d raw inputs where "findActionDefinition (eiKind item) (eiVersion item) = Some d"
    and "itemInputs item s = Inr (raw, s)" and "rewriteInputs index ids lane [] raw s = Inr (inputs, s)"
    and "\<not> missingInput d inputs"
    and "insertAction (newActionRow (ids ! index) b (n0 + int index) item d inputs key t) s = Inr (u, s')"
proof -
  obtain d where d: "findActionDefinition (eiKind item) (eiVersion item) = Some d"
    using assms by (auto simp: acceptItem_def split: option.splits)
  obtain raw s1 inputs s2 where raw: "itemInputs item s = Inr (raw, s1)"
    and inputs: "rewriteInputs index ids lane [] raw s1 = Inr (inputs, s2)" and ok: "\<not> missingInput d inputs"
    and ins: "insertAction (newActionRow (ids ! index) b (n0 + int index) item d inputs key t) s2 = Inr (u, s')"
    using assms d by (auto simp: acceptItem_def bindM_Inr)
  have "s2 = s1" by (rule rewriteInputs_state [OF inputs])
  then show ?thesis using that d raw inputs ok ins itemInputs_Inr [OF raw] by simp
qed

definition known_ids :: "action_row list \<Rightarrow> string list \<Rightarrow> nat \<Rightarrow> string set" where
  "known_ids lane ids k = set (take k ids) \<union> set (map aId lane)"

lemma known_ids_Suc: "k < length ids \<Longrightarrow> known_ids lane ids (Suc k) = insert (ids ! k) (known_ids lane ids k)"
  by (auto simp: known_ids_def take_Suc_conv_app_nth)

lemma acceptItem_step:
  assumes "index < length ids"
  shows "hoare (on_lane (accepting b (n0 + int index) (known_ids lane ids index)))
    (acceptItem b key ids lane n0 t index item)
    (\<lambda>_. on_lane (accepting b (n0 + int (Suc index)) (known_ids lane ids (Suc index))))"
proof (rule hoareI)
  fix s u s'
  assume P: "on_lane (accepting b (n0 + int index) (known_ids lane ids index)) s"
    and run: "acceptItem b key ids lane n0 t index item s = Inr (u, s')"
  obtain d raw inputs where inputs: "rewriteInputs index ids lane [] raw s = Inr (inputs, s)"
    and ins: "insertAction (newActionRow (ids ! index) b (n0 + int index) item d inputs key t) s = Inr (u, s')"
    by (rule acceptItem_Inr [OF run])
  have refs: "ref_ids inputs \<subseteq> known_ids lane ids index"
    using rewriteInputs_refs [OF inputs] assms by (auto simp: known_ids_def)
  have "accepting b (n0 + int index + 1) (insert (ids ! index) (known_ids lane ids index))
      (actions s @ [newActionRow (ids ! index) b (n0 + int index) item d inputs key t]) (actionQueues s)"
    using accepting_insert [OF P [unfolded on_lane_def], of "newActionRow (ids ! index) b (n0 + int index) item d inputs key t"]
      refs insertAction_Inr [OF ins] by simp
  then show "on_lane (accepting b (n0 + int (Suc index)) (known_ids lane ids (Suc index))) s'"
    using insertAction_Inr [OF ins] assms by (simp add: on_lane_def known_ids_Suc add.commute add.left_commute)
qed

lemma eachM_append: "eachM (xs @ ys) f = thenM (eachM xs f) (eachM ys f)"
proof (induction xs)
  case Nil
  show ?case by (simp only: append_Nil eachM.simps thenM_simps)
next
  case (Cons x xs)
  then show ?case by (simp add: thenM_def bindM_assoc)
qed

lemma eachM_upt:
  assumes "\<And>k. k < n \<Longrightarrow> hoare (P k) (f k) (\<lambda>_. P (Suc k))"
  shows "hoare (P 0) (eachM [0..<n] f) (\<lambda>_. P n)"
  using assms
proof (induction n)
  case 0
  then show ?case by (simp add: hoare_def)
next
  case (Suc n)
  have one: "hoare (P n) (eachM [n] f) (\<lambda>_. P (Suc n))"
    using Suc.prems [of n] by (simp add: thenM_def hoare_def bindM_Inr)
  have "hoare (P 0) (eachM [0..<n] f) (\<lambda>_. P n)" by (rule Suc.IH) (simp add: Suc.prems)
  then show ?case
    unfolding upt_Suc_append [OF le0] eachM_append thenM_def by (rule hoare_bind) (rule one)
qed

lemma collectM_length: "collectM xs f s = Inr (ys, s') \<Longrightarrow> length ys = length xs"
  by (induction xs arbitrary: ys s s') (auto simp: bindM_Inr)

lemma set_cursor_same:
  "distinct (map qdBeeId qs) \<Longrightarrow> q \<in> set qs \<Longrightarrow> qdBeeId q = b \<Longrightarrow> qdNextPosition q = n \<Longrightarrow> set_cursor b n qs = qs"
proof -
  assume q: "distinct (map qdBeeId qs)" "q \<in> set qs" "qdBeeId q = b" "qdNextPosition q = n"
  then have "x = q" if "x \<in> set qs" "qdBeeId x = b" for x
    using that unfolding distinct_map inj_on_def by metis
  then show ?thesis using q(4) unfolding set_cursor_def update_rows_def by (intro map_idI) auto
qed

text \<open>Before the first item: the queue exists and its cursor is the first position.\<close>

lemma accepting_start:
  assumes ok: "lane_ok acts qs" and q: "find_row qdBeeId qs b = Some q" and lane: "\<And>a. a \<in> set lane \<Longrightarrow> a \<in> set acts \<and> aBeeId a = b"
  shows "accepting b (qdNextPosition q) (known_ids lane ids 0) acts qs"
proof -
  have mem: "q \<in> set qs" "qdBeeId q = b" using find_row_Some [OF q] by simp_all
  have bounds: "distinct (map qdBeeId qs)" "\<forall>p \<in> set (map qdNextPosition qs). 1 \<le> p" "\<forall>a \<in> set acts. below_cursor qs a"
    using ok unfolding lane_ok_def lane_bounds_def by blast+
  have same: "set_cursor b (qdNextPosition q) qs = qs"
    by (rule set_cursor_same [OF bounds(1) mem(1)]) (simp_all add: mem)
  have bq: "b \<in> qdBeeId ` set qs" using mem by blast
  have "known_before acts b (qdNextPosition q) i" if "i \<in> known_ids lane ids 0" for i
  proof -
    from that obtain a where a: "a \<in> set lane" "aId a = i" by (auto simp: known_ids_def)
    then have "below_cursor (set_cursor b (qdNextPosition q) qs) a" using bounds(3) lane same by metis
    then have "aPosition a < qdNextPosition q" using lane [OF a(1)] by (simp add: below_set_cursor [OF bq])
    then show ?thesis using lane [OF a(1)] a(2) unfolding known_before_def by blast
  qed
  then show ?thesis using ok bounds(2) mem bq unfolding accepting_def same by simp
qed

lemma cursor_mapActionQueue: "qrwNextPosition (mapActionQueue s q) = qdNextPosition q"
  by (simp add: mapActionQueue_def Let_def)

lemma ensureActionQueue_row:
  assumes "ensureActionQueue b s = Inr (queue, s')"
  obtains q where "find_row qdBeeId (actionQueues s') b = Some q" and "qrwNextPosition queue = qdNextPosition q"
proof (cases "getQueueDb s b")
  case (Some q)
  then have "s' = s \<and> queue = mapActionQueue s q" using assms by (auto simp: ensureActionQueue_def getActionQueue_def)
  then show ?thesis using that Some by (simp add: getQueueDb_def cursor_mapActionQueue)
next
  case None
  then have "qrwNextPosition queue = qdNextPosition (the (getQueueDb s' b)) \<and> getQueueDb s' b \<noteq> None"
    using assms
    by (auto simp: ensureActionQueue_def getActionQueue_def getQueueDb_def bindM_Inr thenM_def mustGetBee_def
        cursor_mapActionQueue find_row_append split: option.splits)
  then show ?thesis using that by (auto simp: getQueueDb_def)
qed

lemma acceptItems_keeps:
  assumes "length ids = length items"
  shows "hoare (on_lane (accepting b n0 (known_ids lane ids 0)))
    (eachM [0..<length items] (\<lambda>index. acceptItem b key ids lane n0 t index (items ! index)))
    (\<lambda>_. on_lane (accepting b (n0 + int (length items)) (known_ids lane ids (length items))))"
proof -
  have "hoare (on_lane (accepting b (n0 + int 0) (known_ids lane ids 0)))
    (eachM [0..<length items] (\<lambda>index. acceptItem b key ids lane n0 t index (items ! index)))
    (\<lambda>_. on_lane (accepting b (n0 + int (length items)) (known_ids lane ids (length items))))"
    by (rule eachM_upt) (rule acceptItem_step, simp add: assms)
  then show ?thesis by simp
qed

lemma lane_ok_set_cursor:
  assumes "accepting b n known acts qs"
  shows "lane_ok acts (update_rows (\<lambda>q. qdBeeId q = b) (\<lambda>q. q\<lparr>qdNextPosition := n, qdUpdatedAt := t\<rparr>) qs)"
proof -
  have "map (\<lambda>q. (qdBeeId q, qdNextPosition q)) (update_rows (\<lambda>q. qdBeeId q = b) (\<lambda>q. q\<lparr>qdNextPosition := n, qdUpdatedAt := t\<rparr>) qs)
      = map (\<lambda>q. (qdBeeId q, qdNextPosition q)) (set_cursor b n qs)"
    by (simp add: update_rows_def set_cursor_def)
  from lane_ok_pairs [OF this] show ?thesis using assms by (simp add: accepting_def)
qed

lemma acceptEnqueue_keeps: "preserves (on_lane lane_ok) (acceptEnqueue input)"
proof (rule preservesI)
  fix s x s' assume ok: "on_lane lane_ok s" and run: "acceptEnqueue input s = Inr (x, s')"
  let ?b = "erBeeId input" let ?items = "erItems input" let ?key = "erIdempotencyKey input"
  obtain queue s1 where ens: "ensureActionQueue ?b s = Inr (queue, s1)"
    and rest: "bindM (readM (\<lambda>s. listActionsOf s ?b)) (\<lambda>lane.
         bindM (collectM ?items (\<lambda>_. mintActionId)) (\<lambda>ids.
         bindM (readM clock) (\<lambda>t.
         bindM (eachM [0..<length ?items]
                  (\<lambda>index. acceptItem ?b ?key ids lane (qrwNextPosition queue) t index (?items ! index))) (\<lambda>_.
         bindM (collectM ids mustGetAction) (\<lambda>rows.
         bindM (modifyM (\<lambda>s. s\<lparr>actionQueues := update_rows (\<lambda>q. qdBeeId q = ?b)
                  (\<lambda>q. q\<lparr>qdNextPosition := qrwNextPosition queue + int (length ?items), qdUpdatedAt := t\<rparr>)
                  (actionQueues s)\<rparr>)) (\<lambda>_.
         bindM (modifyM (\<lambda>s. s\<lparr>actionEnqueues := actionEnqueues s @
                  [\<lparr>eIdempotencyKey = ?key, eRequestHash = erRequestHash input, eBeeId = ?b, eActionIds = ids, eCreatedAt = t\<rparr>]\<rparr>)) (\<lambda>_.
           returnM (rows, False)))))))) s1 = Inr (x, s')"
    using run unfolding acceptEnqueue_def Let_def by (auto simp: bindM_Inr mustGetBee_def split: option.splits)
  let ?lane = "listActionsOf s1 ?b"
  obtain ids s2 u s3 rows s4 where ids: "collectM ?items (\<lambda>_. mintActionId) s1 = Inr (ids, s2)"
    and loop: "eachM [0..<length ?items]
        (\<lambda>index. acceptItem ?b ?key ids ?lane (qrwNextPosition queue) (clock s2) index (?items ! index)) s2 = Inr (u, s3)"
    and rows: "collectM ids mustGetAction s3 = Inr (rows, s4)"
    and s': "actions s' = actions s4" "actionQueues s' = update_rows (\<lambda>q. qdBeeId q = ?b)
        (\<lambda>q. q\<lparr>qdNextPosition := qrwNextPosition queue + int (length ?items), qdUpdatedAt := clock s2\<rparr>) (actionQueues s4)"
    using rest by (auto simp: bindM_Inr)
  have len: "length ids = length ?items" by (rule collectM_length [OF ids])
  obtain q where q: "find_row qdBeeId (actionQueues s1) ?b = Some q" "qrwNextPosition queue = qdNextPosition q"
    by (rule ensureActionQueue_row [OF ens])
  have ok1: "on_lane lane_ok s1" by (rule lane_run [OF ensureActionQueue_keeps ok ens])
  have "on_lane (accepting ?b (qrwNextPosition queue) (known_ids ?lane ids 0)) s1"
    unfolding on_lane_def q(2)
    by (rule accepting_start [OF ok1 [unfolded on_lane_def] q(1)]) (simp add: listActionsOf_def)
  moreover have minted: "preserves (on_lane P) (collectM ?items (\<lambda>_. mintActionId))" for P
    by (intro keeps)
  ultimately have "on_lane (accepting ?b (qrwNextPosition queue) (known_ids ?lane ids 0)) s2"
    using lane_run [OF minted _ ids] by blast
  then have "on_lane (accepting ?b (qrwNextPosition queue + int (length ?items)) (known_ids ?lane ids (length ?items))) s3"
    by (rule hoareD [OF acceptItems_keeps [OF len] loop])
  moreover have read: "preserves (on_lane P) (collectM ids mustGetAction)" for P
    by (intro keeps)
  ultimately have "on_lane (accepting ?b (qrwNextPosition queue + int (length ?items)) (known_ids ?lane ids (length ?items))) s4"
    using lane_run [OF read _ rows] by blast
  then show "on_lane lane_ok s'" using s' by (simp add: on_lane_def lane_ok_set_cursor)
qed

lemma replayEnqueue_keeps: "preserves P (replayEnqueue input e)"
proof -
  have get: "preserves P (mustGetBee b)" for b
    unfolding mustGetBee_def by (intro keeps)
  show ?thesis unfolding replayEnqueue_def by (intro keeps get)
qed

lemma enqueueActions_keeps: "preserves (on_lane lane_ok) (enqueueActions input)"
  unfolding enqueueActions_def by (intro keeps acceptEnqueue_keeps replayEnqueue_keeps)

section \<open>Reordering\<close>

text \<open>Rows whose position was overwritten.\<close>

definition moved :: "(string \<Rightarrow> int option) \<Rightarrow> int \<Rightarrow> action_row \<Rightarrow> action_row" where
  "moved m t a = (case m (aId a) of None \<Rightarrow> a | Some p \<Rightarrow> a\<lparr>aPosition := p, aUpdatedAt := t\<rparr>)"

lemma moved_simps [simp]:
  "aId (moved m t a) = aId a" "aBeeId (moved m t a) = aBeeId a" "aStatus (moved m t a) = aStatus a"
  "aInputs (moved m t a) = aInputs a" "aAttemptToken (moved m t a) = aAttemptToken a"
  "aDispatch (moved m t a) = aDispatch a"
  "aPosition (moved m t a) = (case m (aId a) of None \<Rightarrow> aPosition a | Some p \<Rightarrow> p)"
  by (simp_all add: moved_def split: option.split)

lemma moved_empty: "map (moved (\<lambda>x. None) t) acts = acts"
  by (rule map_idI) (simp add: moved_def)

lemma moved_upd: "moved (m(i \<mapsto> p)) t a = (if aId a = i then (moved m t a)\<lparr>aPosition := p, aUpdatedAt := t\<rparr> else moved m t a)"
  by (simp add: moved_def split: option.split)

lemma distinct_put_row:
  "distinct (map key rows) \<Longrightarrow> distinct (map g rows) \<Longrightarrow>
    \<forall>a \<in> set rows. key a \<noteq> key r \<longrightarrow> g a \<noteq> g r \<Longrightarrow> distinct (map g (put_row key r rows))"
proof (induction rows)
  case (Cons x rows)
  have rest: "set (map g (put_row key r rows)) \<subseteq> insert (g r) (g ` {a \<in> set rows. key a \<noteq> key r})"
    using put_row_mem [of _ key r rows] by auto
  show ?case
  proof (cases "key x = key r")
    case True
    then have "key r \<notin> key ` set rows" using Cons.prems(1) by auto
    then have "put_row key r (x # rows) = r # rows"
      using put_row_absent [of key r rows] True by (simp add: put_row_def update_rows_def)
    moreover have "g r \<notin> g ` set rows" using Cons.prems(3) \<open>key r \<notin> key ` set rows\<close> by (force simp: image_iff)
    ultimately show ?thesis using Cons.prems by simp
  next
    case False
    have "put_row key r (x # rows) = x # put_row key r rows" using False by (simp add: put_row_def update_rows_def)
    then show ?thesis using Cons.IH Cons.prems rest False by auto
  qed
qed (simp add: put_row_def update_rows_def)

lemma setPosition_moved:
  assumes acts: "actions s = map (moved m t) acts" and ids: "lane_ids (actions s)"
    and run: "setPosition i p t s = Inr (u, s')"
  shows "actions s' = map (moved (m(i \<mapsto> p)) t) acts \<and> lane_ids (actions s') \<and> actionQueues s' = actionQueues s"
proof (cases "getAction s i")
  case None
  then have "i \<notin> aId ` set acts" by (simp add: getAction_def find_row_None acts image_image)
  then have "map (moved (m(i \<mapsto> p)) t) acts = map (moved m t) acts" by (auto simp: moved_upd)
  then show ?thesis using None run acts ids by (simp add: setPosition_def)
next
  case (Some r)
  let ?r = "r\<lparr>aPosition := p, aUpdatedAt := t\<rparr>"
  have r: "r \<in> set (actions s)" "aId r = i" using getAction_Some [OF Some] by simp_all
  have put: "putAction ?r s = Inr (u, s')" using run Some by (simp add: setPosition_def)
  have s': "s' = s\<lparr>actions := put_row aId ?r (actions s)\<rparr>"
    and clash: "\<not> list_ex (\<lambda>a. aId a \<noteq> i \<and> aBeeId a = aBeeId r \<and> aPosition a = p) (actions s)"
    using put r(2) by (simp_all add: putAction_def thenM_def bindM_Inr)
  have dist: "distinct (map aId (actions s))" "distinct (map (\<lambda>a. (aBeeId a, aPosition a)) (actions s))"
    using ids by (simp_all add: lane_ids_def)
  have "put_row aId ?r (actions s) = map (moved (m(i \<mapsto> p)) t) acts"
  proof -
    have "(if aId x = i then ?r else x) = (if aId x = i then x\<lparr>aPosition := p, aUpdatedAt := t\<rparr> else x)"
      if "x \<in> set (actions s)" for x
    proof (cases "aId x = i")
      case True
      then have "x = r" using that r dist(1) unfolding distinct_map inj_on_def by metis
      then show ?thesis by simp
    qed simp
    then have "put_row aId ?r (actions s)
        = map (\<lambda>x. if aId x = i then x\<lparr>aPosition := p, aUpdatedAt := t\<rparr> else x) (actions s)"
      using r(2) unfolding put_row_def update_rows_def by (intro map_cong) simp_all
    then show ?thesis by (simp add: acts moved_upd)
  qed
  moreover have "lane_ids (put_row aId ?r (actions s))"
    unfolding lane_ids_def
  proof
    show "distinct (map aId (put_row aId ?r (actions s)))" using dist(1) by simp
    show "distinct (map (\<lambda>a. (aBeeId a, aPosition a)) (put_row aId ?r (actions s)))"
      by (rule distinct_put_row [OF dist]) (use clash r(2) in \<open>simp add: list_ex_iff; blast\<close>)
  qed
  ultimately show ?thesis by (simp add: s')
qed

definition placing :: "string list \<Rightarrow> int list \<Rightarrow> int \<Rightarrow> action_row list \<Rightarrow> action_queue_db list \<Rightarrow> nat \<Rightarrow> core \<Rightarrow> bool" where
  "placing order ps t acts qs k s \<longleftrightarrow>
     (\<exists>m. actions s = map (moved m t) acts \<and> dom m \<subseteq> set order \<and> (\<forall>j < k. m (order ! j) = Some (ps ! j)))
     \<and> lane_ids (actions s) \<and> actionQueues s = qs"

lemma placing_step:
  assumes "distinct order" and "k < length order"
  shows "hoare (placing order ps t acts qs k) (setPosition (order ! k) (ps ! k) t) (\<lambda>_. placing order ps t acts qs (Suc k))"
proof (rule hoareI)
  fix s u s' assume P: "placing order ps t acts qs k s" and run: "setPosition (order ! k) (ps ! k) t s = Inr (u, s')"
  obtain m where m: "actions s = map (moved m t) acts" "dom m \<subseteq> set order" "\<forall>j < k. m (order ! j) = Some (ps ! j)"
    and ids: "lane_ids (actions s)" "actionQueues s = qs"
    using P unfolding placing_def by blast
  let ?m = "m(order ! k \<mapsto> ps ! k)"
  have s': "actions s' = map (moved ?m t) acts" "lane_ids (actions s')" "actionQueues s' = actionQueues s"
    using setPosition_moved [OF m(1) ids(1) run] by blast+
  have "\<forall>j < Suc k. ?m (order ! j) = Some (ps ! j)"
    using m(3) assms by (auto simp: less_Suc_eq nth_eq_iff_index_eq)
  moreover have "dom ?m \<subseteq> set order" using m(2) assms(2) by simp
  ultimately show "placing order ps t acts qs (Suc k) s'"
    unfolding placing_def using s' ids(2) by blast
qed

lemma placing_loop:
  assumes "distinct order"
  shows "hoare (placing order ps t acts qs 0) (eachM [0..<length order] (\<lambda>k. setPosition (order ! k) (ps ! k) t))
    (\<lambda>_. placing order ps t acts qs (length order))"
  by (rule eachM_upt) (rule placing_step [OF assms])

lemma eachM_cong: "(\<And>x. x \<in> set xs \<Longrightarrow> f x = g x) \<Longrightarrow> eachM xs f = eachM xs g"
  by (induction xs) simp_all

lemma placing_restart: "placing order ps t acts qs k s \<Longrightarrow> placing order ps' t acts qs 0 s"
  unfolding placing_def by blast

lemma setPositions_place:
  assumes "distinct order" and ids: "lane_ids (actions s)"
    and first: "eachM [0..<length order] (\<lambda>k. setPosition (order ! k) (- (int k + 1)) t) s = Inr (u, s1)"
    and second: "eachM [0..<length order] (\<lambda>k. setPosition (order ! k) (ps ! k) t) s1 = Inr (v, s2)"
  shows "placing order ps t (actions s) (actionQueues s) (length order) s2"
proof -
  let ?neg = "map (\<lambda>k. - (int k + 1)) [0..<length order]"
  have start: "placing order ?neg t (actions s) (actionQueues s) 0 s"
    unfolding placing_def using ids by (intro conjI exI [of _ Map.empty]) (simp_all add: moved_empty)
  have "eachM [0..<length order] (\<lambda>k. setPosition (order ! k) (?neg ! k) t) s = Inr (u, s1)"
    unfolding first [symmetric] by (rule fun_cong [OF eachM_cong]) simp
  then have "placing order ?neg t (actions s) (actionQueues s) (length order) s1"
    by (rule hoareD [OF placing_loop [OF assms(1)] _ start])
  from placing_restart [OF this] show ?thesis
    by (rule hoareD [OF placing_loop [OF assms(1)] second])
qed

text \<open>A started row lies before every queued row of its lane.\<close>

lemma started_before_queued:
  assumes ok: "lane_ok acts qs" and x: "x \<in> set acts" "started x" and c: "c \<in> set acts" "aStatus c = AQueued"
    and bee: "aBeeId c = aBeeId x"
  shows "aPosition x < aPosition c"
proof -
  have "\<not> comes_before c x"
    using ok x c unfolding lane_ok_def lane_progress_def earlier_finished_def finished_def by (metis action_status.distinct(5,9))
  moreover have "aPosition c \<noteq> aPosition x"
  proof
    assume "aPosition c = aPosition x"
    then have "c = x"
      using ok x(1) c(1) bee unfolding lane_ok_def lane_ids_def distinct_map inj_on_def by blast
    then show False using x(2) c(2) by (simp add: started_def)
  qed
  ultimately show ?thesis using bee by (simp add: comes_before_def)
qed

text \<open>What a permutation of the queued rows' positions must satisfy.\<close>

definition reorders :: "(string \<Rightarrow> int option) \<Rightarrow> string \<Rightarrow> action_row list \<Rightarrow> bool" where
  "reorders m b acts \<longleftrightarrow>
     (\<forall>a \<in> set acts. m (aId a) \<noteq> None \<longleftrightarrow> aBeeId a = b \<and> aStatus a = AQueued)
     \<and> (\<forall>a \<in> set acts. \<forall>p. m (aId a) = Some p \<longrightarrow> (\<exists>c \<in> set acts. aBeeId c = b \<and> aStatus c = AQueued \<and> aPosition c = p))
     \<and> (\<forall>a \<in> set acts. \<forall>c \<in> set acts. \<forall>p q. m (aId a) = Some p \<longrightarrow> m (aId c) = Some q \<longrightarrow>
          aId c \<in> ref_ids (aInputs a) \<longrightarrow> q < p)"

lemma reorders_status: "reorders m b acts \<Longrightarrow> a \<in> set acts \<Longrightarrow> m (aId a) = Some p \<Longrightarrow> aBeeId a = b \<and> aStatus a = AQueued"
  unfolding reorders_def by (metis option.distinct(1))

lemma reorders_slot:
  assumes "reorders m b acts" and "a \<in> set acts" and "m (aId a) = Some p"
  obtains c where "c \<in> set acts" and "aBeeId c = b" and "aStatus c = AQueued" and "aPosition c = p"
  using assms unfolding reorders_def by blast

lemma reorders_started: "reorders m b acts \<Longrightarrow> a \<in> set acts \<Longrightarrow> started a \<Longrightarrow> m (aId a) = None"
  unfolding reorders_def started_def by blast

lemma reorders_unmoved:
  "reorders m b acts \<Longrightarrow> a \<in> set acts \<Longrightarrow> m (aId a) = None \<Longrightarrow> aBeeId a = b \<Longrightarrow> aStatus a \<noteq> ACancelled \<Longrightarrow> started a"
  unfolding reorders_def started_def by blast

lemma ref_target_moved:
  assumes ok: "lane_ok acts qs" and re: "reorders m b acts" and a: "a \<in> set acts" and c: "c \<in> set acts"
    and ref: "i \<in> ref_ids (aInputs a)" and target: "ref_target a i c"
  shows "ref_target (moved m t a) i (moved m t c)"
proof -
  have parts: "aId c = i" "aBeeId c = aBeeId a" "aId c \<noteq> aId a"
    and order: "aStatus a \<noteq> ACancelled \<Longrightarrow> aStatus c \<noteq> ACancelled \<Longrightarrow> aPosition c < aPosition a"
    using target unfolding ref_target_def by blast+
  have "aPosition (moved m t c) < aPosition (moved m t a)" if live: "aStatus a \<noteq> ACancelled" "aStatus c \<noteq> ACancelled"
  proof (cases "m (aId a)")
    case None
    have "m (aId c) = None"
    proof (rule ccontr)
      assume "m (aId c) \<noteq> None"
      then have c': "aBeeId c = b" "aStatus c = AQueued" using reorders_status [OF re c] by auto
      then have "started a" using reorders_unmoved [OF re a None _ live(1)] parts(2) by simp
      from started_before_queued [OF ok a this c c'(2) parts(2)] show False using order [OF live] by simp
    qed
    then show ?thesis using None order [OF live] by simp
  next
    case (Some p)
    obtain d where d: "d \<in> set acts" "aBeeId d = b" "aStatus d = AQueued" "aPosition d = p"
      by (rule reorders_slot [OF re a Some])
    have b: "aBeeId a = b" using reorders_status [OF re a Some] by simp
    show ?thesis
    proof (cases "m (aId c)")
      case None
      then have "started c" using reorders_unmoved [OF re c None _ live(2)] parts(2) b by simp
      then show ?thesis
        using started_before_queued [OF ok c _ d(1) d(3)] d parts(2) b None Some by simp
    next
      case (Some q)
      then have "q < p" using re a c \<open>m (aId a) = Some p\<close> ref parts(1) unfolding reorders_def by blast
      then show ?thesis using Some \<open>m (aId a) = Some p\<close> by simp
    qed
  qed
  then show ?thesis using parts by (simp add: ref_target_def)
qed

lemma below_cursor_moved:
  assumes ok: "lane_ok acts qs" and re: "reorders m b acts" and a: "a \<in> set acts"
  shows "below_cursor qs (moved m t a)"
proof (cases "m (aId a)")
  case None
  then have "moved m t a = a" by (simp add: moved_def)
  then show ?thesis using ok a by (simp add: lane_ok_def lane_bounds_def)
next
  case (Some p)
  obtain d where d: "d \<in> set acts" "aBeeId d = b" "aPosition d = p"
    by (rule reorders_slot [OF re a Some])
  have "below_cursor qs d" using ok d(1) by (simp add: lane_ok_def lane_bounds_def)
  then show ?thesis using d Some reorders_status [OF re a Some] by (simp add: below_cursor_def)
qed

lemma earlier_finished_moved:
  assumes ok: "lane_ok acts qs" and re: "reorders m b acts" and x: "x \<in> set acts" "started x"
  shows "earlier_finished (map (moved m t) acts) (moved m t x)"
  unfolding earlier_finished_def
proof (intro ballI impI)
  fix y assume "y \<in> set (map (moved m t) acts)" and bef: "comes_before y (moved m t x)"
  then obtain a where a: "a \<in> set acts" "y = moved m t a" by auto
  have xm: "m (aId x) = None" by (rule reorders_started [OF re x])
  have "m (aId a) = None"
  proof (rule ccontr)
    assume "m (aId a) \<noteq> None"
    then obtain p where p: "m (aId a) = Some p" by auto
    obtain d where d: "d \<in> set acts" "aBeeId d = b" "aStatus d = AQueued" "aPosition d = p"
      by (rule reorders_slot [OF re a(1) p])
    have "aBeeId a = b" using reorders_status [OF re a(1) p] by simp
    then show False
      using started_before_queued [OF ok x d(1) d(3)] bef d p xm a(2) by (simp add: comes_before_def)
  qed
  then have "comes_before a x" using bef xm a(2) by (simp add: comes_before_def)
  then have "finished a"
    using ok x a(1) unfolding lane_ok_def lane_progress_def earlier_finished_def by blast
  then show "finished y" using a(2) by (simp add: finished_def)
qed

lemma lane_ok_moved:
  assumes ok: "lane_ok acts qs" and re: "reorders m b acts" and ids: "lane_ids (map (moved m t) acts)"
  shows "lane_ok (map (moved m t) acts) qs"
proof -
  have "lane_bounds (map (moved m t) acts) qs"
    using ok below_cursor_moved [OF ok re] by (simp add: lane_ok_def lane_bounds_def)
  moreover have "lane_progress (map (moved m t) acts)"
    unfolding lane_progress_def
  proof (intro ballI impI)
    fix y assume "y \<in> set (map (moved m t) acts)" and st: "started y"
    then obtain x where x: "x \<in> set acts" "y = moved m t x" by auto
    then have "started x" using st by (simp add: started_def)
    then show "earlier_finished (map (moved m t) acts) y" using earlier_finished_moved [OF ok re x(1)] x(2) by simp
  qed
  moreover have "\<forall>a \<in> set (map (moved m t) acts). blank_attempt a"
    using ok by (simp add: lane_ok_def blank_attempt_def)
  moreover have "\<forall>a \<in> set (map (moved m t) acts). refs_backward (map (moved m t) acts) a"
  proof
    fix y assume "y \<in> set (map (moved m t) acts)"
    then obtain a where a: "a \<in> set acts" "y = moved m t a" by auto
    show "refs_backward (map (moved m t) acts) y"
      unfolding refs_backward_def
    proof
      fix i assume "i \<in> (\<lambda>r. fst (snd r)) ` set (actionRefTargets (aInputs y))"
      then have i: "i \<in> ref_ids (aInputs a)" using a(2) by (simp add: ref_ids_def)
      then obtain c where c: "c \<in> set acts" "ref_target a i c"
        using ok a(1) unfolding lane_ok_def refs_backward_def ref_ids_def by blast
      show "\<exists>c \<in> set (map (moved m t) acts). ref_target y i c"
        using ref_target_moved [OF ok re a(1) c(1) i c(2)] c(1) a(2) by auto
    qed
  qed
  ultimately show ?thesis using ids by (simp add: lane_ok_def)
qed

lemma index_of_nth: "distinct xs \<Longrightarrow> j < length xs \<Longrightarrow> index_of (xs ! j) xs = j"
  unfolding index_of_def
  by (induction xs arbitrary: j) (auto simp: nth_Cons split: nat.split)

lemma placed_reorders:
  assumes ids: "lane_ids acts"
    and queued: "set queued = {a \<in> set acts. aBeeId a = b \<and> aStatus a = AQueued}" "distinct queued"
    and order: "length order = length queued" "distinct order" "set order \<subseteq> aId ` set queued"
    and refs: "orderKeepsRefs queued order"
    and m: "dom m \<subseteq> set order" "\<forall>j < length order. m (order ! j) = Some (sort (map aPosition queued) ! j)"
  shows "reorders m b acts"
proof -
  let ?ps = "sort (map aPosition queued)"
  have ids': "x = y" if "x \<in> set acts" "y \<in> set acts" "aId x = aId y" for x y
    using ids that unfolding lane_ids_def distinct_map inj_on_def by blast
  have all: "set order = aId ` set queued"
  proof (rule card_seteq)
    show "card (aId ` set queued) \<le> card (set order)"
      using card_image_le [of "set queued" aId] card_length [of queued] order(1,2) by (simp add: distinct_card)
  qed (simp_all add: order(3))
  have dom: "dom m = set order" using m by (force simp: in_set_conv_nth)
  have at_index: "\<exists>j < length order. aId a = order ! j \<and> p = ?ps ! j" if "m (aId a) = Some p" for a :: action_row and p
  proof -
    have "aId a \<in> set order" using that dom by blast
    then obtain j where "j < length order" "aId a = order ! j" by (metis in_set_conv_nth)
    then show ?thesis using m(2) that by auto
  qed
  have strict: "?ps ! k < ?ps ! j" if "k < j" "j < length order" for k j
  proof -
    have "inj_on aPosition (set queued)"
      using ids unfolding lane_ids_def distinct_map inj_on_def queued(1) by blast
    then have "distinct ?ps" using queued(2) by (simp add: distinct_map)
    then have "sorted_wrt (<) ?ps" by (simp add: strict_sorted_iff)
    then show ?thesis using that order(1) by (simp add: sorted_wrt_iff_nth_less)
  qed
  have member: "m (aId a) \<noteq> None \<longleftrightarrow> aBeeId a = b \<and> aStatus a = AQueued" if "a \<in> set acts" for a
  proof -
    have "m (aId a) \<noteq> None \<longleftrightarrow> aId a \<in> set order" using dom by blast
    also have "\<dots> \<longleftrightarrow> a \<in> set queued" using all that ids' queued(1) by (auto simp: image_iff)
    finally show ?thesis using that queued(1) by simp
  qed
  have slot: "\<exists>c \<in> set acts. aBeeId c = b \<and> aStatus c = AQueued \<and> aPosition c = p"
    if p: "m (aId a) = Some p" for a :: action_row and p
  proof -
    obtain j where "j < length order" "p = ?ps ! j" using at_index [OF p] by blast
    then have "p \<in> set ?ps" using order(1) by (metis length_map length_sort nth_mem)
    then have "p \<in> aPosition ` set queued" by simp
    then show ?thesis using queued(1) by blast
  qed
  have smaller: "q < p" if a: "a \<in> set acts" and p: "m (aId a) = Some p" and q: "m (aId c) = Some q"
    and ref: "aId c \<in> ref_ids (aInputs a)" for a c :: action_row and p q
  proof -
    obtain j where j: "j < length order" "aId a = order ! j" "p = ?ps ! j" using at_index [OF p] by blast
    obtain k where k: "k < length order" "aId c = order ! k" "q = ?ps ! k" using at_index [OF q] by blast
    have "a \<in> set queued" using member [OF a] p queued(1) a by simp
    moreover obtain n out where "(n, aId c, out) \<in> set (actionRefTargets (aInputs a))" using ref by (auto simp: ref_ids_def)
    moreover have "aId c \<in> set (map aId queued)" using q dom all by auto
    ultimately have "index_of (aId c) order < index_of (aId a) order"
      using refs unfolding orderKeepsRefs_def list_all_iff by fast
    then have "k < j" using index_of_nth [OF order(2)] j k by simp
    then show ?thesis using strict j k by simp
  qed
  show ?thesis unfolding reorders_def using member slot smaller by blast
qed

lemma listActionsOf_set: "set (listActionsOf s b) = {a \<in> set (actions s). aBeeId a = b}"
  by (auto simp: listActionsOf_def)

lemma reorderActions_keeps: "preserves (on_lane lane_ok) (reorderActions b order)"
proof (rule preservesI)
  fix s x s' assume ok: "on_lane lane_ok s" and run: "reorderActions b order s = Inr (x, s')"
  let ?queued = "filter (\<lambda>a. aStatus a = AQueued) (listActionsOf s b)"
  let ?ps = "sort (map aPosition ?queued)"
  obtain s2 where fn: "bindM (mustGetBee b) (\<lambda>_.
        bindM (readM (\<lambda>s. filter (\<lambda>a. aStatus a = AQueued) (listActionsOf s b))) (\<lambda>queued.
        bindM (requireM (length order = length queued \<and> distinct order \<and> set order \<subseteq> set (map aId queued))
                 ActionReorderInvalidError) (\<lambda>_.
        bindM (requireM (orderKeepsRefs queued order) ActionReorderInvalidError) (\<lambda>_.
        bindM (readM clock) (\<lambda>t.
          (let positions = sort (map aPosition queued)
           in bindM (eachM [0..<length order] (\<lambda>k. setPosition (order ! k) (- (int k + 1)) t)) (\<lambda>_.
              bindM (eachM [0..<length order] (\<lambda>k. setPosition (order ! k) (positions ! k) t)) (\<lambda>_.
                readM (\<lambda>s. listActionViews s (Some b) []))))))))) s = Inr (x, s2)"
    and same: "actions s' = actions s2" "actionQueues s' = actionQueues s2"
    by (rule withActionLaneAudit_Inr [OF run [unfolded reorderActions_def]])
  obtain s1 u v where order: "length order = length ?queued" "distinct order" "set order \<subseteq> set (map aId ?queued)"
    and refs: "orderKeepsRefs ?queued order"
    and first: "eachM [0..<length order] (\<lambda>k. setPosition (order ! k) (- (int k + 1)) (clock s)) s = Inr (u, s1)"
    and second: "eachM [0..<length order] (\<lambda>k. setPosition (order ! k) (?ps ! k) (clock s)) s1 = Inr (v, s2)"
    using fn by (auto simp: bindM_Inr mustGetBee_def Let_def split: option.splits)
  have inv: "lane_ok (actions s) (actionQueues s)" using ok by (simp add: on_lane_def)
  have ids: "lane_ids (actions s)" using inv by (simp add: lane_ok_def)
  have "placing order ?ps (clock s) (actions s) (actionQueues s) (length order) s2"
    by (rule setPositions_place [OF order(2) ids first second])
  then obtain m where m: "actions s2 = map (moved m (clock s)) (actions s)" "dom m \<subseteq> set order"
      "\<forall>j < length order. m (order ! j) = Some (?ps ! j)"
    and placed: "lane_ids (actions s2)" "actionQueues s2 = actionQueues s"
    unfolding placing_def by blast
  have "set ?queued = {a \<in> set (actions s). aBeeId a = b \<and> aStatus a = AQueued}"
    by (auto simp: listActionsOf_set)
  moreover have "distinct ?queued"
    using ids by (simp add: listActionsOf_def lane_ids_def distinct_map)
  ultimately have "reorders m b (actions s)"
    using order(3) by (intro placed_reorders [OF ids _ _ order(1,2) _ refs m(2,3)]) simp_all
  then have "lane_ok (actions s2) (actionQueues s)"
    unfolding m(1) by (rule lane_ok_moved [OF inv]) (use placed(1) m(1) in simp)
  then show "on_lane lane_ok s'" using same placed(2) by (simp add: on_lane_def)
qed

end
