(* ===== verification/Action_Scheduler.thy ===== *)
theory Action_Scheduler
  imports Action_Queue
begin

text \<open>
  The action scheduler of the daemon's core loop (v2/daemon/src/loops.ts, from line 1564): one pass
  over the bees with open actions. A pass settles the active action of a lane from its owner's
  receipt, or releases the head of the queue. The Cell landing owner is the parameter \<open>executor\<close>.
\<close>

section \<open>The loop's state\<close>

text \<open>
  What the pass keeps besides the store: the bees with open actions, the bees to look at again in the
  next step, the wake-ups it scheduled, and the calls it made to the Cell owner (the record of what it
  did outside the store). A store operation that throws is rolled back, but what earlier operations
  of the same pass committed stays: so an error carries the state reached.
\<close>

datatype capture_mode = CapMerge | CapRebase

datatype exec_call =
    CallInspect string
  | CallCapture string string capture_mode string
  | CallLanded string string string

record sched =
  scStore :: core
  scActionBees :: "string list"
  scHot :: "string list"
  scDeadlines :: "(string \<times> int) list"
  scCalls :: "exec_call list"

datatype loop_error = StoreThrow core_error | ExecThrow string

type_synonym 'a pass = "sched \<Rightarrow> (loop_error + 'a) \<times> sched"

definition returnP :: "'a \<Rightarrow> 'a pass" where
  "returnP x = (\<lambda>s. (Inr x, s))"

definition bindP :: "'a pass \<Rightarrow> ('a \<Rightarrow> 'b pass) \<Rightarrow> 'b pass" where
  "bindP m f = (\<lambda>s. case m s of (Inl e, s') \<Rightarrow> (Inl e, s') | (Inr x, s') \<Rightarrow> f x s')"

definition readP :: "(sched \<Rightarrow> 'a) \<Rightarrow> 'a pass" where
  "readP f = (\<lambda>s. (Inr (f s), s))"

definition modifyP :: "(sched \<Rightarrow> sched) \<Rightarrow> unit pass" where
  "modifyP f = (\<lambda>s. (Inr (), f s))"

definition set_add :: "'a list \<Rightarrow> 'a \<Rightarrow> 'a list" where
  "set_add xs x = (if x \<in> set xs then xs else xs @ [x])"

text \<open>\<open>noteChange\<close> for the changes whose kind starts with \<open>action\<close>: their bee is looked at.\<close>

definition event_action_bee :: "audit_event \<Rightarrow> string option" where
  "event_action_bee ev =
     (case ev of
        EvActionPut v _ _ \<Rightarrow> Some (aBeeId (vRow v))
      | EvActionQueuePut q _ \<Rightarrow> Some (qvBeeId q)
      | EvActionReportRejected b _ _ _ _ _ _ _ \<Rightarrow> Some b
      | _ \<Rightarrow> None)"

definition noteChanges :: "audit_event list \<Rightarrow> string list \<Rightarrow> string list" where
  "noteChanges evs noted = foldl set_add noted (List.map_filter event_action_bee evs)"

text \<open>The audit rows of one operation are the ones it appended.\<close>

definition storeP :: "'a store_op \<Rightarrow> 'a pass" where
  "storeP m = (\<lambda>s.
     case m (scStore s) of
       Inl e \<Rightarrow> (Inl (StoreThrow e), s)
     | Inr (x, st) \<Rightarrow>
         (Inr x, s\<lparr>scStore := st,
                   scActionBees := noteChanges (drop (length (auditLog (scStore s))) (auditLog st)) (scActionBees s)\<rparr>))"

section \<open>The Cell owner\<close>

record capture_facts =
  cfHead :: "string option"
  cfBusy :: bool

datatype capture_status = CsLanded | CsNothing | CsConflict | CsRefused

datatype refuse_reason = RrCheckedOut | RrMoved | RrNoHead

record capture_report =
  cpStatus :: capture_status
  cpTargetBranch :: string
  cpMode :: capture_mode
  cpCellHead :: "string option"
  cpBaseTarget :: "string option"
  cpResultSha :: "string option"
  cpConflicts :: "string list"
  cpReason :: "refuse_reason option"

text \<open>
  The Cell owner answers a call from the calls made so far (the checkout and the target branch move
  between calls), or throws.
\<close>

record executor =
  exInspect :: "exec_call list \<Rightarrow> string \<Rightarrow> string + capture_facts option"
  exCapture :: "exec_call list \<Rightarrow> string \<Rightarrow> string \<Rightarrow> capture_mode \<Rightarrow> string \<Rightarrow> string + capture_report"
  exLanded :: "exec_call list \<Rightarrow> string \<Rightarrow> string \<Rightarrow> string \<Rightarrow> string + (bool \<times> string option) option"

definition callP :: "exec_call \<Rightarrow> (exec_call list \<Rightarrow> string + 'a) \<Rightarrow> 'a pass" where
  "callP c ask = (\<lambda>s.
     let s' = s\<lparr>scCalls := scCalls s @ [c]\<rparr>
     in (case ask (scCalls s) of Inl e \<Rightarrow> (Inl (ExecThrow e), s') | Inr x \<Rightarrow> (Inr x, s')))"

section \<open>Captures\<close>

record capture_inputs =
  cnTargetBranch :: string
  cnMode :: capture_mode
  cnCommit :: "string option"

definition captureInputs :: "jobject \<Rightarrow> string + capture_inputs" where
  "captureInputs resolved =
     (case js_get resolved ''targetBranch'' of
        Some (JStr t) \<Rightarrow>
          if js_trim t = [] then Inl ''targetBranch must be a non-empty string''
          else
            (let mode = (if is_undef_or_null (js_get resolved ''mode'') then Some CapMerge
                         else if js_get resolved ''mode'' = Some (JStr ''merge'') then Some CapMerge
                         else if js_get resolved ''mode'' = Some (JStr ''rebase'') then Some CapRebase
                         else None)
             in (case mode of
                   None \<Rightarrow> Inl ''mode must be merge|rebase''
                 | Some m \<Rightarrow>
                     if is_undef_or_null (js_get resolved ''commit'')
                     then Inr \<lparr>cnTargetBranch = js_trim t, cnMode = m, cnCommit = None\<rparr>
                     else (case js_get resolved ''commit'' of
                             Some (JStr c) \<Rightarrow> Inr \<lparr>cnTargetBranch = js_trim t, cnMode = m, cnCommit = Some c\<rparr>
                           | _ \<Rightarrow> Inl ''commit must be a string'')))
      | _ \<Rightarrow> Inl ''targetBranch must be a non-empty string'')"

definition json_text_option :: "string option \<Rightarrow> json" where
  "json_text_option v = (case v of Some t \<Rightarrow> JStr t | None \<Rightarrow> JNull)"

definition capture_status_text :: "capture_status \<Rightarrow> string" where
  "capture_status_text st =
     (case st of CsLanded \<Rightarrow> ''landed'' | CsNothing \<Rightarrow> ''nothing_to_capture''
      | CsConflict \<Rightarrow> ''conflict'' | CsRefused \<Rightarrow> ''refused'')"

definition capture_mode_text :: "capture_mode \<Rightarrow> string" where
  "capture_mode_text m = (case m of CapMerge \<Rightarrow> ''merge'' | CapRebase \<Rightarrow> ''rebase'')"

definition refuse_reason_text :: "refuse_reason \<Rightarrow> string" where
  "refuse_reason_text r =
     (case r of RrCheckedOut \<Rightarrow> ''target_checked_out'' | RrMoved \<Rightarrow> ''target_moved'' | RrNoHead \<Rightarrow> ''no_cell_head'')"

definition captureReceipt :: "capture_report \<Rightarrow> jobject" where
  "captureReceipt r =
     [(''cellHead'', json_text_option (cpCellHead r)), (''baseTarget'', json_text_option (cpBaseTarget r)),
      (''resultSha'', json_text_option (cpResultSha r)), (''conflicts'', JArr (map JStr (cpConflicts r))),
      (''reason'', json_text_option (map_option refuse_reason_text (cpReason r))),
      (''status'', JStr (capture_status_text (cpStatus r))), (''targetBranch'', JStr (cpTargetBranch r)),
      (''mode'', JStr (capture_mode_text (cpMode r)))]"

definition landOutputs :: "json \<Rightarrow> string \<Rightarrow> string \<Rightarrow> bool \<Rightarrow> json \<Rightarrow> jobject" where
  "landOutputs resultSha targetBranch cellHead already baseTarget =
     [(''resultSha'', resultSha), (''targetBranch'', JStr targetBranch), (''cellHead'', JStr cellHead),
      (''alreadyLanded'', JBool already), (''baseTarget'', baseTarget)]"

definition reportOutcome :: "capture_report \<Rightarrow> string \<Rightarrow> settle_outcome" where
  "reportOutcome r cellHead =
     (let head = (case cpCellHead r of Some h \<Rightarrow> h | None \<Rightarrow> cellHead);
          base = json_text_option (cpBaseTarget r);
          why = (case cpReason r of Some x \<Rightarrow> refuse_reason_text x | None \<Rightarrow> ''unknown'')
      in case cpStatus r of
           CsLanded \<Rightarrow>
             SettleSucceeded (landOutputs (json_text_option (cpResultSha r)) (cpTargetBranch r) head False base)
               (Some (captureReceipt r)) None False
         | CsNothing \<Rightarrow>
             SettleSucceeded (landOutputs base (cpTargetBranch r) head True base)
               (Some (captureReceipt r)) (Some ''the target branch already contained the Cell HEAD'') False
         | CsConflict \<Rightarrow>
             SettleFailed ''conflict'' (''conflicts in '' @ join_with '', '' (cpConflicts r)) True (Some (captureReceipt r))
         | CsRefused \<Rightarrow>
             SettleFailed (''refused_'' @ why) (''capture refused: '' @ why) True (Some (captureReceipt r)))"

definition settleP :: "string \<Rightarrow> nat \<Rightarrow> settle_outcome \<Rightarrow> unit pass" where
  "settleP i attempt outcome = bindP (storeP (settleAction i attempt outcome)) (\<lambda>_. returnP ())"

definition captureOpId :: "string \<Rightarrow> nat \<Rightarrow> string" where
  "captureOpId i attempt = ''action-'' @ i @ ''-a'' @ nat_text attempt"

definition executeCapture :: "executor \<Rightarrow> action_row \<Rightarrow> nat \<Rightarrow> string \<Rightarrow> capture_inputs \<Rightarrow> unit pass" where
  "executeCapture ex row attempt cellHead inputs = (\<lambda>s.
     let op = captureOpId (aId row) attempt
     in (case callP (CallCapture (aBeeId row) (cnTargetBranch inputs) (cnMode inputs) op)
                (\<lambda>calls. exCapture ex calls (aBeeId row) (cnTargetBranch inputs) (cnMode inputs) op) s of
           (Inl (ExecThrow detail), s') \<Rightarrow> settleP (aId row) attempt (SettleFailed ''capture_error'' detail True None) s'
         | (Inl (StoreThrow e), s') \<Rightarrow> (Inl (StoreThrow e), s')
         | (Inr report, s') \<Rightarrow> settleP (aId row) attempt (reportOutcome report cellHead) s'))"

definition holdP :: "string \<Rightarrow> string \<Rightarrow> unit pass" where
  "holdP i detail = bindP (storeP (holdActionForExecutor i detail)) (\<lambda>_. returnP ())"

text \<open>\<open>head.startsWith(commit)\<close> in either direction\<close>

definition heads_agree :: "string \<Rightarrow> string \<Rightarrow> bool" where
  "heads_agree head commit \<longleftrightarrow> take (length commit) head = commit \<or> take (length head) commit = head"

definition captureBegun ::
  "executor \<Rightarrow> action_row \<Rightarrow> bee_row \<Rightarrow> capture_facts option \<Rightarrow> nat \<Rightarrow> jobject \<Rightarrow> unit pass" where
  "captureBegun ex row bee facts attempt resolved =
     (case (if bSubstrate bee = ''cell'' then facts else None) of
        None \<Rightarrow>
          settleP (aId row) attempt (SettleFailed ''placement_changed''
            (''bee '' @ aBeeId row @ '' is not on an active Cell (substrate '' @ bSubstrate bee
             @ '', cell '' @ option_or (bCellId bee) ''none'' @ ''); land applies to Cell work only'') False None)
      | Some f \<Rightarrow>
          (case captureInputs resolved of
             Inl e \<Rightarrow> settleP (aId row) attempt (SettleFailed ''invalid_input'' e False None)
           | Inr inputs \<Rightarrow>
               (case cfHead f of
                  None \<Rightarrow>
                    settleP (aId row) attempt
                      (SettleFailed ''no_cell_head'' ''the Cell checkout has no HEAD commit'' True None)
                | Some head \<Rightarrow>
                    (case cnCommit inputs of
                       Some commit \<Rightarrow>
                         if heads_agree head commit then executeCapture ex row attempt head inputs
                         else settleP (aId row) attempt (SettleFailed ''precondition_failed''
                                (''Cell HEAD is '' @ head @ '', not the intended commit '' @ commit
                                 @ ''; the work moved after it was committed'') True None)
                     | None \<Rightarrow> executeCapture ex row attempt head inputs))))"

definition runCellCapture :: "executor option \<Rightarrow> action_row \<Rightarrow> unit pass" where
  "runCellCapture exec row =
     (case exec of
        None \<Rightarrow> holdP (aId row) ''the cell.capture executor is not available on this daemon''
      | Some ex \<Rightarrow>
          bindP (readP (\<lambda>s. getBee (scStore s) (aBeeId row))) (\<lambda>found.
          case found of
            None \<Rightarrow> returnP ()
          | Some bee \<Rightarrow>
              bindP (callP (CallInspect (aBeeId row)) (\<lambda>calls. exInspect ex calls (aBeeId row))) (\<lambda>facts.
              if (case facts of Some f \<Rightarrow> cfBusy f | None \<Rightarrow> False)
              then holdP (aId row) ''the Cell has an in-flight operation; the capture waits for it''
              else
                bindP (storeP (beginCellCaptureAttempt (aId row) (Option.bind facts cfHead))) (\<lambda>(v, resolved).
                case resolved of
                  None \<Rightarrow> returnP ()
                | Some r \<Rightarrow> captureBegun ex row bee facts (aAttempt (vRow v)) r))))"

text \<open>The recovery of a capture whose receipt was lost.\<close>

definition rerunCapture :: "executor \<Rightarrow> action_row \<Rightarrow> string \<Rightarrow> capture_inputs \<Rightarrow> unit pass" where
  "rerunCapture ex row expectedHead inputs =
     bindP (callP (CallInspect (aBeeId row)) (\<lambda>calls. exInspect ex calls (aBeeId row))) (\<lambda>facts.
     case facts of
       None \<Rightarrow> returnP ()
     | Some f \<Rightarrow>
         if cfBusy f then returnP ()
         else if cfHead f \<noteq> Some expectedHead
         then settleP (aId row) (aAttempt row) (SettleFailed ''precondition_failed''
                (''Cell HEAD is '' @ option_or (cfHead f) ''absent'' @ '', not the captured '' @ expectedHead
                 @ ''; the capture did not land and the work moved'') True None)
         else executeCapture ex row (aAttempt row) expectedHead inputs)"

definition reconcileUncertainCapture :: "executor option \<Rightarrow> action_row \<Rightarrow> unit pass" where
  "reconcileUncertainCapture exec row =
     (case (exec, non_empty (Option.bind (aDispatch row) dpExpectedHead), aResolvedInputs row) of
        (Some ex, Some expectedHead, Some resolved) \<Rightarrow>
          (case captureInputs resolved of
             Inl e \<Rightarrow> returnP ()
           | Inr inputs \<Rightarrow>
               bindP (callP (CallLanded (aBeeId row) (cnTargetBranch inputs) expectedHead)
                        (\<lambda>calls. exLanded ex calls (aBeeId row) (cnTargetBranch inputs) expectedHead)) (\<lambda>probe.
               case probe of
                 None \<Rightarrow> returnP ()
               | Some (landed, tip) \<Rightarrow>
                   if landed
                   then settleP (aId row) (aAttempt row)
                          (SettleSucceeded (landOutputs (json_text_option tip) (cnTargetBranch inputs) expectedHead True JNull)
                             (Some [(''probe'', JStr ''landed''), (''targetTip'', json_text_option tip)])
                             (Some ''reconciled after a lost receipt: the target branch contains the captured HEAD'') True)
                   else rerunCapture ex row expectedHead inputs))
      | _ \<Rightarrow> returnP ())"

section \<open>One lane\<close>

definition scheduleBee :: "string \<Rightarrow> int \<Rightarrow> unit pass" where
  "scheduleBee b at_time = modifyP (\<lambda>s. s\<lparr>scDeadlines := scDeadlines s @ [(b, at_time)]\<rparr>)"

definition answeredAt :: "core \<Rightarrow> action_row \<Rightarrow> int option" where
  "answeredAt s row = Option.bind (Option.bind (non_empty (aQuestionId row)) (getQuestion s)) qAnsweredAt"

definition nudgeSilentAgentAction :: "action_row \<Rightarrow> unit pass" where
  "nudgeSilentAgentAction row =
     (if actionNudgeDueAt row [] = None then returnP ()
      else
        bindP (readP (\<lambda>s. (clock (scStore s),
                           actionNudgeDueAt row (case answeredAt (scStore s) row of None \<Rightarrow> [] | Some t \<Rightarrow> [t])))) (\<lambda>(now, due).
        case due of
          None \<Rightarrow> returnP ()
        | Some d \<Rightarrow>
            if now < d then scheduleBee (aBeeId row) d
            else bindP (storeP (nudgeAgentAction (aId row) (aAttempt row))) (\<lambda>_. returnP ())))"

definition reconcileActive :: "executor option \<Rightarrow> action_row \<Rightarrow> unit pass" where
  "reconcileActive exec row =
     (case aExecutor row of
        XLifecycleArchive \<Rightarrow>
          if aStatus row = ARunning then bindP (storeP (reconcileArchiveAction (aId row))) (\<lambda>_. returnP ()) else returnP ()
      | XCellCapture \<Rightarrow>
          bindP (modifyP (\<lambda>s. s\<lparr>scHot := set_add (scHot s) (aBeeId row)\<rparr>)) (\<lambda>_.
            if isUncertain row then reconcileUncertainCapture exec row
            else if isOffered row then runCellCapture exec row
            else if aStatus row = ARunning
            then settleP (aId row) (aAttempt row)
                   (SettleUncertain ''capture attempt has no receipt; reconciling with the Cell owner'')
            else returnP ())
      | XAgent \<Rightarrow> if aStatus row = ARunning then nudgeSilentAgentAction row else returnP ()
      | XExternal \<Rightarrow> returnP ())"

definition dispatchAction :: "executor option \<Rightarrow> action_row \<Rightarrow> unit pass" where
  "dispatchAction exec head =
     (case aExecutor head of
        XAgent \<Rightarrow> bindP (storeP (dispatchAgentAction (aId head))) (\<lambda>_. returnP ())
      | XLifecycleArchive \<Rightarrow> bindP (storeP (dispatchArchiveAction (aId head))) (\<lambda>_. returnP ())
      | XCellCapture \<Rightarrow> runCellCapture exec head
      | XExternal \<Rightarrow>
          holdP (aId head) (''no external executor has claimed kind '' @ [CHR 0x27] @ aKind head @ [CHR 0x27]
                            @ '' yet (claim through action.claim)''))"

text \<open>The action a free lane releases: the first queued one, when its predecessor succeeded.\<close>

definition releasedAction :: "action_row list \<Rightarrow> action_row option" where
  "releasedAction lane =
     (case sort_key aPosition (filter (\<lambda>a. aStatus a = AQueued) lane) of
        [] \<Rightarrow> None
      | head # _ \<Rightarrow>
          (case actionPredecessor head lane of
             Some p \<Rightarrow> if aStatus p \<noteq> ASucceeded then None else Some head
           | None \<Rightarrow> Some head))"

definition reconcileActionLane :: "executor option \<Rightarrow> string \<Rightarrow> unit pass" where
  "reconcileActionLane exec b = (\<lambda>s.
     if getBee (scStore s) b = None then (Inr (), s\<lparr>scActionBees := removeAll b (scActionBees s)\<rparr>)
     else
       (let lane = listActionsOf (scStore s) b;
            s' = (if list_ex (\<lambda>a. actionIsActive a \<or> aStatus a = AQueued) lane then s
                  else s\<lparr>scActionBees := removeAll b (scActionBees s)\<rparr>)
        in case List.find actionIsActive lane of
             Some active \<Rightarrow> reconcileActive exec active s'
           | None \<Rightarrow>
               if lanePaused (scStore s) b = Some True then (Inr (), s')
               else (case releasedAction lane of
                       None \<Rightarrow> (Inr (), s')
                     | Some head \<Rightarrow> dispatchAction exec head s')))"

section \<open>One pass\<close>

text \<open>Every modelled error is a CoreError but the database's own and \<open>JsError\<close>.\<close>

definition isCoreError :: "loop_error \<Rightarrow> bool" where
  "isCoreError e =
     (case e of StoreThrow SqliteConstraintError \<Rightarrow> False | StoreThrow (JsError _) \<Rightarrow> False
      | StoreThrow _ \<Rightarrow> True | ExecThrow _ \<Rightarrow> False)"

fun reconcileLanes :: "executor option \<Rightarrow> string list \<Rightarrow> unit pass" where
  "reconcileLanes exec [] s = (Inr (), s)"
| "reconcileLanes exec (b # bs) s =
     (case reconcileActionLane exec b s of
        (Inl e, s') \<Rightarrow> if isCoreError e then reconcileLanes exec bs s' else (Inl e, s')
      | (Inr u, s') \<Rightarrow> reconcileLanes exec bs s')"

text \<open>\<open>None\<close> is the scope of a full pass.\<close>

definition reconcileActions :: "executor option \<Rightarrow> string list option \<Rightarrow> unit pass" where
  "reconcileActions exec scope s =
     (case scope of
        None \<Rightarrow>
          (let all = foldl set_add [] (listOpenActionBeeIds (scStore s))
           in reconcileLanes exec all (s\<lparr>scActionBees := all\<rparr>))
      | Some bs \<Rightarrow> reconcileLanes exec (filter (\<lambda>b. b \<in> set (scActionBees s)) bs) s)"

end
