(* ===== verification/Action_System.thy ===== *)
theory Action_System
  imports Action_Accept Action_Scheduler
begin

text \<open>
  The store and the scheduler together. The scheduler's pass keeps the invariant of the lanes; so do
  the operations the daemon's requests run; hence every reachable state has it. What follows for the
  program: the order in which a lane executes, and that it executes one action at a time.
\<close>

section \<open>The scheduler releases only ready actions\<close>

lemma listActionsOf_ordered:
  assumes "lane_ok (actions s) qs"
  shows "ordered_lane (listActionsOf s b)"
proof -
  let ?rows = "filter (\<lambda>a. aBeeId a = b) (actions s)"
  have "inj_on aPosition (set ?rows)"
    using assms unfolding lane_ok_def lane_ids_def distinct_map inj_on_def by auto
  moreover have "distinct ?rows" "distinct (map aId ?rows)"
    using assms unfolding lane_ok_def lane_ids_def by (auto simp: distinct_map distinct_map_filter inj_on_def)
  ultimately have "distinct (map aPosition (sort_key aPosition ?rows))" by (simp add: distinct_map)
  then have "sorted_wrt (\<lambda>x y. x < y) (map aPosition (sort_key aPosition ?rows))" by (simp add: strict_sorted_iff)
  moreover have "distinct (map aId (sort_key aPosition ?rows))"
    using \<open>distinct (map aId ?rows)\<close> by (simp add: distinct_map)
  ultimately show ?thesis
    unfolding ordered_lane_def listActionsOf_def by (simp add: sorted_wrt_map)
qed

text \<open>Nothing between a row and its predecessor but cancelled rows.\<close>

lemma last_or_sorted:
  assumes "sorted_wrt (\<lambda>a b. aPosition a < aPosition b) xs" and "last_or None xs = Some p" and "a \<in> set xs" and "a \<noteq> p"
  shows "aPosition a < aPosition p"
proof -
  have xs: "xs = butlast xs @ [p]" using assms(2,3) by (auto simp: last_or_def split: if_splits)
  then have "a \<in> set (butlast xs)" using assms(3,4) by (metis in_set_conv_decomp insertE rotate1.simps(2) set_ConsD set_rotate1)
  then show ?thesis using assms(1) xs by (metis list.set_intros(1) sorted_wrt_append)
qed

lemma predecessor_ready:
  assumes ok: "lane_ok (actions s) qs" and row: "row \<in> set (actions s)" "aBeeId row = b"
    and pred: "pred_option (\<lambda>p. aStatus p = ASucceeded) (actionPredecessor row (listActionsOf s b))"
  shows "earlier_finished (actions s) row"
  unfolding earlier_finished_def
proof (intro ballI impI)
  fix a assume a: "a \<in> set (actions s)" and bef: "comes_before a row"
  let ?lane = "listActionsOf s b"
  have ord: "ordered_lane ?lane" by (rule listActionsOf_ordered [OF ok])
  have mem: "row \<in> set ?lane" "a \<in> set ?lane" using row a bef by (simp_all add: listActionsOf_set comes_before_def)
  let ?xs = "filter (before_row row) ?lane"
  have p: "actionPredecessor row ?lane = last_or None ?xs" by (rule actionPredecessor_ordered [OF ord mem(1)])
  show "finished a"
  proof (cases "aStatus a = ACancelled")
    case True
    then show ?thesis by (simp add: finished_def)
  next
    case False
    then have ax: "a \<in> set ?xs" using mem(2) bef by (simp add: before_row_def comes_before_def)
    then obtain q where q: "last_or None ?xs = Some q" by (cases "?xs = []") (simp_all add: last_or_def)
    then have succ: "aStatus q = ASucceeded" using pred p by simp
    have qx: "q \<in> set ?xs" using q last_in_set [of ?xs] unfolding last_or_def by (metis option.distinct(1) option.inject)
    show ?thesis
    proof (cases "a = q")
      case True
      then show ?thesis using succ by (simp add: finished_def)
    next
      case False
      have "sorted_wrt (\<lambda>a b. aPosition a < aPosition b) ?xs"
        using ord by (simp add: ordered_lane_def sorted_wrt_filter)
      from last_or_sorted [OF this q ax False] have "comes_before a q"
        using qx ax by (simp add: comes_before_def listActionsOf_set)
      moreover have "started q" "q \<in> set (actions s)" using succ qx by (simp_all add: started_def listActionsOf_set)
      ultimately show ?thesis
        using ok a unfolding lane_ok_def lane_progress_def earlier_finished_def by blast
    qed
  qed
qed

lemma lane_ready_row:
  "lane_ok (actions s) qs \<Longrightarrow> row \<in> set (actions s) \<Longrightarrow> earlier_finished (actions s) row \<Longrightarrow> lane_ready s (aId row)"
  using find_row_mem [of aId "actions s" row] unfolding lane_ready_def getAction_def lane_ok_def lane_ids_def by simp

lemma released_ready:
  assumes ok: "lane_ok (actions s) qs" and head: "releasedAction (listActionsOf s b) = Some head"
  shows "head \<in> set (actions s) \<and> aBeeId head = b \<and> aStatus head = AQueued \<and> lane_ready s (aId head)"
proof -
  let ?queued = "sort_key aPosition (filter (\<lambda>a. aStatus a = AQueued) (listActionsOf s b))"
  obtain rest where rest: "?queued = head # rest"
    and pred: "pred_option (\<lambda>p. aStatus p = ASucceeded) (actionPredecessor head (listActionsOf s b))"
    using head unfolding releasedAction_def by (auto split: list.splits option.splits if_splits)
  have "head \<in> set ?queued" using rest by simp
  then have "head \<in> set (actions s)" "aBeeId head = b" "aStatus head = AQueued" by (auto simp: listActionsOf_set)
  then show ?thesis using predecessor_ready [OF ok _ _ pred] lane_ready_row [OF ok] by blast
qed

lemma active_ready: "lane_ok (actions s) qs \<Longrightarrow> row \<in> set (actions s) \<Longrightarrow> actionIsActive row \<Longrightarrow> lane_ready s (aId row)"
  by (rule lane_ready_row) (auto simp: lane_ok_def lane_progress_def started_def actionIsActive_def)

section \<open>The pass keeps the invariant\<close>

definition sched_ok :: "sched \<Rightarrow> bool" where
  "sched_ok s \<longleftrightarrow> on_lane lane_ok (scStore s)"

text \<open>From \<open>P\<close>, a return ends in \<open>Q\<close>, and a throw leaves the invariant.\<close>

definition passes :: "(sched \<Rightarrow> bool) \<Rightarrow> 'a pass \<Rightarrow> ('a \<Rightarrow> sched \<Rightarrow> bool) \<Rightarrow> bool" where
  "passes P m Q \<longleftrightarrow> (\<forall>s. P s \<longrightarrow> (case m s of (Inl e, s') \<Rightarrow> sched_ok s' | (Inr x, s') \<Rightarrow> Q x s'))"

named_theorems pass

lemma passesI: "(\<And>s. P s \<Longrightarrow> case m s of (Inl e, s') \<Rightarrow> sched_ok s' | (Inr x, s') \<Rightarrow> Q x s') \<Longrightarrow> passes P m Q"
  by (simp add: passes_def)

lemma passes_bind [pass]:
  assumes "passes P m Q" and "\<And>x. passes (Q x) (k x) R"
  shows "passes P (bindP m k) R"
proof (rule passesI)
  fix s assume "P s"
  then have m: "case m s of (Inl e, s') \<Rightarrow> sched_ok s' | (Inr x, s') \<Rightarrow> Q x s'" using assms(1) by (simp add: passes_def)
  obtain r s1 where run: "m s = (r, s1)" by fastforce
  show "case bindP m k s of (Inl e, s') \<Rightarrow> sched_ok s' | (Inr x, s') \<Rightarrow> R x s'"
  proof (cases r)
    case (Inl e)
    then show ?thesis using m run by (simp add: bindP_def)
  next
    case (Inr x)
    then show ?thesis using m run assms(2) [of x] by (simp add: bindP_def passes_def)
  qed
qed

lemma passes_return: "(\<And>s. P s \<Longrightarrow> Q x s) \<Longrightarrow> passes P (returnP x) Q"
  by (simp add: passes_def returnP_def)

lemma passes_read: "(\<And>s. P s \<Longrightarrow> Q (f s) s) \<Longrightarrow> passes P (readP f) Q"
  by (simp add: passes_def readP_def)

lemma passes_modify: "(\<And>s. P s \<Longrightarrow> Q () (f s)) \<Longrightarrow> passes P (modifyP f) Q"
  by (simp add: passes_def modifyP_def)

lemma passes_weaken: "passes P m Q \<Longrightarrow> (\<And>s. P' s \<Longrightarrow> P s) \<Longrightarrow> (\<And>x s. Q x s \<Longrightarrow> Q' x s) \<Longrightarrow> passes P' m Q'"
  unfolding passes_def by (fastforce split: prod.splits sum.splits)

lemma passes_store:
  assumes "hoare P m Q" and "\<And>s. P s \<Longrightarrow> on_lane lane_ok s"
  shows "passes (\<lambda>s. P (scStore s)) (storeP m) (\<lambda>x s. Q x (scStore s))"
  using assms unfolding passes_def storeP_def sched_ok_def hoare_def by (auto split: sum.splits)

lemma passes_call:
  assumes "\<And>s calls. P (s\<lparr>scCalls := calls\<rparr>) = P s" and "\<And>s. P s \<Longrightarrow> sched_ok s"
  shows "passes P (callP c ask) (\<lambda>_. P)"
  using assms unfolding passes_def callP_def Let_def by (auto split: sum.splits)

definition left :: "string \<Rightarrow> sched \<Rightarrow> bool" where
  "left i s \<longleftrightarrow> on_lane (left_queue {i}) (scStore s)"

definition ready :: "string \<Rightarrow> sched \<Rightarrow> bool" where
  "ready i s \<longleftrightarrow> on_lane lane_ok (scStore s) \<and> lane_ready (scStore s) i"

lemma left_ok: "left i s \<Longrightarrow> sched_ok s"
  by (simp add: left_def sched_ok_def left_queue_ok)

lemma ready_ok: "ready i s \<Longrightarrow> sched_ok s"
  by (simp add: ready_def sched_ok_def)

lemma settleP_pass: "passes (left i) (settleP i n outcome) (\<lambda>_. sched_ok)"
  unfolding settleP_def
proof (rule passes_bind)
  have "hoare (on_lane (left_queue {i})) (settleAction i n outcome) (\<lambda>_. on_lane lane_ok)"
    by (rule hoare_weaken [OF settleAction_keeps])
      (simp_all add: on_lane_def left_queue_def getAction_def)
  from passes_store [OF this left_queue_ok]
  show "passes (left i) (storeP (settleAction i n outcome)) (\<lambda>_. sched_ok)"
    by (rule passes_weaken) (simp_all add: left_def sched_ok_def)
qed (rule passes_return)

lemma executeCapture_pass: "aId row = i \<Longrightarrow> passes (left i) (executeCapture ex row n h inputs) (\<lambda>_. sched_ok)"
proof (rule passesI)
  fix s assume i: "aId row = i" and P: "left i s"
  let ?op = "captureOpId (aId row) n"
  let ?c = "CallCapture (aBeeId row) (cnTargetBranch inputs) (cnMode inputs) ?op"
  let ?s = "s\<lparr>scCalls := scCalls s @ [?c]\<rparr>"
  have P': "left i ?s" using P by (simp add: left_def)
  have settle: "case settleP i n oc ?s of (Inl e, s') \<Rightarrow> sched_ok s' | (Inr x, s') \<Rightarrow> sched_ok s'" for oc
    using settleP_pass [of i n oc] P' by (simp add: passes_def)
  show "case executeCapture ex row n h inputs s of (Inl e, s') \<Rightarrow> sched_ok s' | (Inr x, s') \<Rightarrow> sched_ok s'"
    using settle i by (simp add: executeCapture_def callP_def Let_def split: sum.split)
qed

lemma holdP_pass: "passes (ready i) (holdP i detail) (\<lambda>_. sched_ok)"
  unfolding holdP_def
proof (rule passes_bind)
  show "passes (ready i) (storeP (holdActionForExecutor i detail)) (\<lambda>_. sched_ok)"
    by (rule passes_weaken [OF passes_store [OF holdActionForExecutor_keeps]]) (simp_all add: ready_def sched_ok_def)
qed (rule passes_return)

text \<open>An attempt that was opened is a row that has left the queue.\<close>

lemma begin_left:
  assumes run: "beginCellCaptureAttempt i h s = Inr ((v, Some r), s')"
  shows "\<exists>row. getAction s' i = Some row \<and> aStatus row = ARunning"
proof -
  obtain row s1 where body: "(bindM (requireM (aExecutor row = XCellCapture) (ActionRefusedError i)) (\<lambda>_.
       bindM (requireM (aStatus row = AQueued \<or> (aStatus row = AWaiting \<and> aWaitingReason row = Some WExecutor))
                (ActionRefusedError i)) (\<lambda>_.
       bindM (readM clock) (\<lambda>t.
       bindM (resolveForDispatch row t) (\<lambda>resolved.
         case resolved of
           None \<Rightarrow> bindM (actionView i) (\<lambda>v. returnM (v, None))
         | Some r \<Rightarrow>
             (let attempt = aAttempt row + 1; key = actionOperationKey i attempt
              in bindM (readM (\<lambda>s. currentGeneration s (aBeeId row))) (\<lambda>generation.
                 bindM (updateActionRow i
                    (\<lambda>a. a\<lparr>aStatus := ARunning, aWaitingReason := None, aWaitingDetail := None, aAttempt := attempt,
                           aAttemptToken := None, aResolvedInputs := Some r,
                           aDispatch := Some (newDispatch attempt t generation None (Some key) h),
                           aProgress := None, aQuestionId := None, aResult := None, aFailure := None\<rparr>)
                    (Some None) (Some (Some key))) (\<lambda>_.
                 bindM (actionView i) (\<lambda>v. returnM (v, Some r)))))))))) s = Inr ((v, Some r), s1)"
    and same: "actions s' = actions s1"
    by (rule inLane_Inr [OF run [unfolded beginCellCaptureAttempt_def]])
  then obtain patch m k s2 a where upd: "updateActionRow i patch m k s2 = Inr (a, s1)" and st: "\<And>c. aStatus (patch c) = ARunning"
    by (auto simp: bindM_Inr Let_def actionView_def split: option.splits)
  obtain c where c: "getAction s2 i = Some c" and a: "a = patched patch m k (clock s2) c"
    and s1: "s1 = s2\<lparr>actions := put_row aId a (actions s2)\<rparr>"
    by (rule updateActionRow_Inr [OF upd])
  have "aId a = i" "aStatus a = ARunning" using a st getAction_Some [OF c] by (simp_all add: patched_def)
  then show ?thesis using c same s1 by (simp add: getAction_def find_row_put_row)
qed

lemma captureBegun_pass: "aId row = i \<Longrightarrow> passes (left i) (captureBegun ex row bee facts n r) (\<lambda>_. sched_ok)"
  unfolding captureBegun_def
  using settleP_pass [of i] executeCapture_pass [of row i]
  by (simp split: option.split sum.split)

lemma runCellCapture_pass: "aId row = i \<Longrightarrow> passes (ready i) (runCellCapture exec row) (\<lambda>_. sched_ok)"
proof (cases exec)
  case None
  then show "aId row = i \<Longrightarrow> ?thesis" using holdP_pass [of i] by (simp add: runCellCapture_def)
next
  case (Some ex)
  assume i: "aId row = i"
  have opened: "passes (ready i) (storeP (beginCellCaptureAttempt i h)) (\<lambda>(v, r) s. if r = None then sched_ok s else left i s)" for h
  proof -
    have "hoare (\<lambda>s. on_lane lane_ok s \<and> lane_ready s i) (beginCellCaptureAttempt i h)
        (\<lambda>(v, r) s. if r = None then on_lane lane_ok s else on_lane (left_queue {i}) s)"
    proof (rule hoareI)
      fix s x s' assume P: "on_lane lane_ok s \<and> lane_ready s i" and run: "beginCellCaptureAttempt i h s = Inr (x, s')"
      have ok: "on_lane lane_ok s'" by (rule hoareD [OF beginCellCaptureAttempt_keeps run P])
      show "(case x of (v, r) \<Rightarrow> \<lambda>s. if r = None then on_lane lane_ok s else on_lane (left_queue {i}) s) s'"
      proof (cases x)
        case (Pair v res)
        show ?thesis
        proof (cases res)
          case None
          then show ?thesis using ok Pair by simp
        next
          case (Some r)
          obtain row where "getAction s' i = Some row" "aStatus row = ARunning"
            using begin_left run Pair Some by blast
          then have "on_lane (left_queue {i}) s'" using left_queue_start ok by simp
          then show ?thesis using Pair Some by simp
        qed
      qed
    qed
    from passes_store [OF this] show ?thesis
      by (rule passes_weaken) (auto simp: ready_def sched_ok_def left_def split: prod.splits if_splits)
  qed
  show ?thesis
    unfolding runCellCapture_def Some option.case i
  proof (rule passes_bind)
    show "passes (ready i) (readP (\<lambda>s. getBee (scStore s) (aBeeId row))) (\<lambda>_. ready i)" by (rule passes_read)
  next
    fix found
    show "passes (ready i) (case found of None \<Rightarrow> returnP ()
        | Some bee \<Rightarrow>
            bindP (callP (CallInspect (aBeeId row)) (\<lambda>calls. exInspect ex calls (aBeeId row))) (\<lambda>facts.
            if (case facts of Some f \<Rightarrow> cfBusy f | None \<Rightarrow> False)
            then holdP i ''the Cell has an in-flight operation; the capture waits for it''
            else bindP (storeP (beginCellCaptureAttempt i (Option.bind facts cfHead))) (\<lambda>(v, resolved).
                case resolved of None \<Rightarrow> returnP ()
                | Some r \<Rightarrow> captureBegun ex row bee facts (aAttempt (vRow v)) r))) (\<lambda>_. sched_ok)"
    proof (cases found)
      case None
      then show ?thesis using ready_ok by (simp add: passes_return)
    next
      case (Some bee)
      have call: "passes (ready i) (callP (CallInspect (aBeeId row)) (\<lambda>calls. exInspect ex calls (aBeeId row))) (\<lambda>_. ready i)"
        by (rule passes_call) (simp_all add: ready_def sched_ok_def)
      have rest: "passes (\<lambda>s. if resolved = None then sched_ok s else left i s)
          (case resolved of None \<Rightarrow> returnP () | Some r \<Rightarrow> captureBegun ex row bee facts n r) (\<lambda>_. sched_ok)" for resolved facts n
        by (cases resolved) (simp_all add: passes_return captureBegun_pass [OF i])
      show ?thesis
        unfolding Some option.case
        by (rule passes_bind [OF call]) (auto intro!: holdP_pass passes_bind [OF opened] rest split: prod.splits)
    qed
  qed
qed

lemma passes_keeps:
  "preserves (on_lane lane_ok) m \<Longrightarrow> passes sched_ok (storeP m) (\<lambda>_. sched_ok)"
  using passes_store [of "on_lane lane_ok" m "\<lambda>_. on_lane lane_ok"] by (simp add: preserves_def sched_ok_def [abs_def])

lemma passes_stop: "passes sched_ok (returnP ()) (\<lambda>_. sched_ok)"
  by (rule passes_return)

lemma rerunCapture_pass: "aId row = i \<Longrightarrow> passes (left i) (rerunCapture ex row h inputs) (\<lambda>_. sched_ok)"
  unfolding rerunCapture_def
proof (rule passes_bind)
  show "passes (left i) (callP (CallInspect (aBeeId row)) (\<lambda>calls. exInspect ex calls (aBeeId row))) (\<lambda>_. left i)"
    by (rule passes_call) (simp_all add: left_def sched_ok_def left_queue_ok)
  show "aId row = i \<Longrightarrow> passes (left i) (case facts of None \<Rightarrow> returnP ()
      | Some f \<Rightarrow> if cfBusy f then returnP ()
          else if cfHead f \<noteq> Some h
          then settleP (aId row) (aAttempt row) (SettleFailed ''precondition_failed''
                (''Cell HEAD is '' @ option_or (cfHead f) ''absent'' @ '', not the captured '' @ h
                 @ ''; the capture did not land and the work moved'') True None)
          else executeCapture ex row (aAttempt row) h inputs) (\<lambda>_. sched_ok)" for facts
    by (cases facts) (auto intro: passes_return left_ok settleP_pass executeCapture_pass)
qed

lemma reconcileUncertainCapture_left:
  "passes (left (aId row)) (reconcileUncertainCapture exec row) (\<lambda>_. sched_ok)"
proof (cases "(exec, non_empty (Option.bind (aDispatch row) dpExpectedHead), aResolvedInputs row)")
  case (fields ex head resolved)
  have stop: "passes (left (aId row)) (returnP ()) (\<lambda>_. sched_ok)" by (rule passes_return) (rule left_ok)
  show ?thesis
  proof (cases "\<exists>e h r inputs. ex = Some e \<and> head = Some h \<and> resolved = Some r \<and> captureInputs r = Inr inputs")
    case False
    then show ?thesis
      using stop by (auto simp: reconcileUncertainCapture_def fields split: option.split sum.split)
  next
    case True
    then obtain e h r inputs where parts: "ex = Some e" "head = Some h" "resolved = Some r" "captureInputs r = Inr inputs"
      by blast
    have call: "passes (left (aId row)) (callP c ask) (\<lambda>_. left (aId row))" for c and ask :: "exec_call list \<Rightarrow> string + 'a"
      by (rule passes_call) (simp_all add: left_def sched_ok_def left_queue_ok)
    show ?thesis
      using fields parts
      by (auto simp: reconcileUncertainCapture_def intro!: passes_bind [OF call] stop settleP_pass rerunCapture_pass
          split: option.split)
  qed
qed

lemma reconcileUncertainCapture_pass: "aId row = i \<Longrightarrow> passes (left i) (reconcileUncertainCapture exec row) (\<lambda>_. sched_ok)"
  using reconcileUncertainCapture_left by blast

lemma nudge_pass: "passes sched_ok (nudgeSilentAgentAction row) (\<lambda>_. sched_ok)"
proof (cases "actionNudgeDueAt row [] = None")
  case True
  then show ?thesis by (simp add: nudgeSilentAgentAction_def passes_stop)
next
  case False
  have nudged: "passes sched_ok (bindP (storeP (nudgeAgentAction (aId row) (aAttempt row))) (\<lambda>_. returnP ())) (\<lambda>_. sched_ok)"
    by (rule passes_bind [OF passes_keeps [OF nudgeAgentAction_keeps]]) (rule passes_stop)
  have sched: "passes sched_ok (scheduleBee b d) (\<lambda>_. sched_ok)" for b d
    unfolding scheduleBee_def by (rule passes_modify) (simp add: sched_ok_def)
  have read: "passes sched_ok (readP f) (\<lambda>_. sched_ok)" for f :: "sched \<Rightarrow> int \<times> int option"
    by (rule passes_read)
  show ?thesis
    using False
    by (auto simp: nudgeSilentAgentAction_def intro!: passes_bind [OF read] nudged sched passes_stop split: option.split)
qed

lemma reconcileActive_pass:
  assumes i: "aId row = i"
  shows "passes (\<lambda>s. left i s \<and> ready i s) (reconcileActive exec row) (\<lambda>_. sched_ok)"
proof -
  have stop: "passes (\<lambda>s. left i s \<and> ready i s) (returnP ()) (\<lambda>_. sched_ok)"
    by (rule passes_return) (auto intro: left_ok)
  have ok: "passes sched_ok m (\<lambda>_. sched_ok) \<Longrightarrow> passes (\<lambda>s. left i s \<and> ready i s) m (\<lambda>_. sched_ok)" for m :: "unit pass"
    by (erule passes_weaken) (auto intro: left_ok)
  show ?thesis
  proof (cases "aExecutor row")
    case XAgent
    then show ?thesis using ok [OF nudge_pass] stop by (simp add: reconcileActive_def)
  next
    case XLifecycleArchive
    have "passes sched_ok (bindP (storeP (reconcileArchiveAction i)) (\<lambda>_. returnP ())) (\<lambda>_. sched_ok)"
      by (rule passes_bind [OF passes_keeps [OF reconcileArchiveAction_keeps]]) (rule passes_stop)
    then show ?thesis using XLifecycleArchive ok stop i by (simp add: reconcileActive_def)
  next
    case XExternal
    then show ?thesis using stop by (simp add: reconcileActive_def)
  next
    case XCellCapture
    have hot: "passes (\<lambda>s. left i s \<and> ready i s) (modifyP (\<lambda>s. s\<lparr>scHot := set_add (scHot s) (aBeeId row)\<rparr>))
        (\<lambda>_ s. left i s \<and> ready i s)"
      by (rule passes_modify) (simp add: left_def ready_def)
    have l: "passes (left i) m (\<lambda>_. sched_ok) \<Longrightarrow> passes (\<lambda>s. left i s \<and> ready i s) m (\<lambda>_. sched_ok)" for m :: "unit pass"
      by (erule passes_weaken) simp_all
    have r: "passes (ready i) m (\<lambda>_. sched_ok) \<Longrightarrow> passes (\<lambda>s. left i s \<and> ready i s) m (\<lambda>_. sched_ok)" for m :: "unit pass"
      by (erule passes_weaken) simp_all
    show ?thesis
      unfolding reconcileActive_def XCellCapture action_executor.case i
      by (rule passes_bind [OF hot])
        (simp add: l [OF reconcileUncertainCapture_pass [OF i]] r [OF runCellCapture_pass [OF i]] l [OF settleP_pass] stop)
  qed
qed

lemma dispatchAction_pass: "aId row = i \<Longrightarrow> passes (ready i) (dispatchAction exec row) (\<lambda>_. sched_ok)"
proof -
  assume i: "aId row = i"
  have op: "passes (ready i) (bindP (storeP m) (\<lambda>_. returnP ())) (\<lambda>_. sched_ok)"
    if "hoare (\<lambda>s. on_lane lane_ok s \<and> lane_ready s i) m (\<lambda>_. on_lane lane_ok)" for m :: "'a store_op"
  proof (rule passes_bind)
    show "passes (ready i) (storeP m) (\<lambda>_. sched_ok)"
      by (rule passes_weaken [OF passes_store [OF that]]) (simp_all add: ready_def sched_ok_def)
  qed (rule passes_stop)
  show ?thesis
    using op [OF dispatchAgentAction_keeps] op [OF dispatchArchiveAction_keeps] runCellCapture_pass [OF i] holdP_pass i
    by (simp add: dispatchAction_def split: action_executor.split)
qed

lemma find_active: "List.find actionIsActive (listActionsOf st b) = Some a \<Longrightarrow> a \<in> set (actions st) \<and> actionIsActive a"
  using find_some [of actionIsActive "listActionsOf st b" a] by (auto simp: listActionsOf_set)

lemma reconcileActionLane_pass: "passes sched_ok (reconcileActionLane exec b) (\<lambda>_. sched_ok)"
proof (rule passesI)
  fix s assume ok: "sched_ok s"
  let ?st = "scStore s" let ?lane = "listActionsOf ?st b"
  let ?s' = "if list_ex (\<lambda>a. actionIsActive a \<or> aStatus a = AQueued) ?lane then s
             else s\<lparr>scActionBees := removeAll b (scActionBees s)\<rparr>"
  have inv: "lane_ok (actions ?st) (actionQueues ?st)" using ok by (simp add: sched_ok_def on_lane_def)
  have same: "scStore ?s' = ?st" by simp
  then have ok': "sched_ok ?s'" using ok by (simp add: sched_ok_def)
  have active: "left (aId a) ?s' \<and> ready (aId a) ?s'" if "List.find actionIsActive ?lane = Some a" for a
  proof -
    have a: "a \<in> set (actions ?st)" "actionIsActive a" using find_active [OF that] by simp_all
    have "getAction ?st (aId a) = Some a" using lane_ok_getAction ok a(1) by (simp add: sched_ok_def)
    then have "on_lane (left_queue {aId a}) ?st"
      using a(2) ok by (intro left_queue_start) (auto simp: actionIsActive_def sched_ok_def)
    then show ?thesis using active_ready [OF inv a] ok same by (simp add: left_def ready_def sched_ok_def)
  qed
  have released: "ready (aId a) ?s'" if "releasedAction ?lane = Some a" for a
    using released_ready [OF inv that] ok same by (simp add: ready_def sched_ok_def)
  show "case reconcileActionLane exec b s of (Inl e, s') \<Rightarrow> sched_ok s' | (Inr x, s') \<Rightarrow> sched_ok s'"
  proof (cases "getBee ?st b = None")
    case True
    then show ?thesis using ok by (simp add: reconcileActionLane_def sched_ok_def)
  next
    case False
    note lane = reconcileActionLane_def [of exec b] if_not_P [OF False] Let_def
    show ?thesis
    proof (cases "List.find actionIsActive ?lane")
      case (Some a)
      then show ?thesis
        using reconcileActive_pass [OF refl, of a exec] active [OF Some] by (simp add: lane passes_def)
    next
      case None
      show ?thesis
      proof (cases "lanePaused ?st b = Some True \<or> releasedAction ?lane = None")
        case True
        then show ?thesis using None ok' by (auto simp: lane)
      next
        case False
        then obtain a where a: "releasedAction ?lane = Some a" by blast
        then show ?thesis
          using False None released [OF a] dispatchAction_pass [OF refl, of a exec] by (simp add: lane passes_def)
      qed
    qed
  qed
qed

lemma reconcileLanes_pass: "passes sched_ok (reconcileLanes exec bs) (\<lambda>_. sched_ok)"
proof (induction bs)
  case Nil
  then show ?case by (simp add: passes_def)
next
  case (Cons b bs)
  show ?case
  proof (rule passesI)
    fix s assume "sched_ok s"
    then have step: "case reconcileActionLane exec b s of (Inl e, s') \<Rightarrow> sched_ok s' | (Inr x, s') \<Rightarrow> sched_ok s'"
      using reconcileActionLane_pass [of exec b] by (simp add: passes_def)
    obtain r s1 where run: "reconcileActionLane exec b s = (r, s1)" by fastforce
    have "sched_ok s1" using step run by (cases r) simp_all
    then show "case reconcileLanes exec (b # bs) s of (Inl e, s') \<Rightarrow> sched_ok s' | (Inr x, s') \<Rightarrow> sched_ok s'"
      using Cons.IH run by (cases r) (simp_all add: passes_def)
  qed
qed

lemma reconcileActions_pass: "passes sched_ok (reconcileActions exec scope) (\<lambda>_. sched_ok)"
proof (rule passesI)
  fix s assume ok: "sched_ok s"
  have "sched_ok (s\<lparr>scActionBees := bs\<rparr>)" for bs using ok by (simp add: sched_ok_def)
  then show "case reconcileActions exec scope s of (Inl e, s') \<Rightarrow> sched_ok s' | (Inr x, s') \<Rightarrow> sched_ok s'"
    using reconcileLanes_pass [of exec] ok by (cases scope) (simp_all add: reconcileActions_def passes_def Let_def)
qed

section \<open>Mail delivery\<close>

lemma update_active':
  assumes P: "active_closed P" "on_lane P s" and run: "updateActionRow i patch m k s = Inr (r, s')"
    and c: "getAction s i = Some c" "actionIsActive c"
    and patch: "aPosition (patch c) = aPosition c" "aStatus (patch c) \<noteq> AQueued"
  shows "on_lane P s'"
proof -
  obtain c' where c': "getAction s i = Some c'" and r: "r = patched patch m k (clock s) c'"
    and legal: "actionTransitionLegal (aStatus c') (aStatus (patch c'))"
    and s': "s' = s\<lparr>actions := put_row aId r (actions s)\<rparr>"
    by (rule updateActionRow_Inr [OF run])
  have [simp]: "c' = c" using c' c(1) by simp
  have "lane_step (actions s) c (patched patch m k (clock s) c)"
    using c(2) legal patch by (intro lane_step_active) simp_all
  then show ?thesis
    using active_closed_put [OF P(1) P(2) [unfolded on_lane_def] _ c(2)] getAction_Some [OF c(1)] patch
    by (simp add: s' r on_lane_def patched_def)
qed

lemma applyActionDelivered_keeps: "preserves (on_lane lane_ok) (applyActionDelivered m g t)"
proof (rule preservesI)
  fix s x s' assume inv: "on_lane lane_ok s" and run: "applyActionDelivered m g t s = Inr (x, s')"
  show "on_lane lane_ok s'"
  proof (cases "actionOfMessage s m")
    case None
    then show ?thesis using run inv by (simp add: applyActionDelivered_def)
  next
    case (Some a)
    have a: "a \<in> set (actions s)" "actionIsActive a"
      using find_some [OF Some [unfolded actionOfMessage_def]] by (auto simp: actionIsActive_def)
    show ?thesis
    proof (cases "\<exists>d. aDispatch a = Some d \<and> dpMessageId d = Some m")
      case False
      then show ?thesis using run inv Some by (auto simp: applyActionDelivered_def split: option.splits if_splits)
    next
      case True
      then obtain d where d: "aDispatch a = Some d" "dpMessageId d = Some m" by blast
      let ?upd = "updateActionRow (aId a)
          (\<lambda>r. r\<lparr>aDispatch := Some (d\<lparr>dpDeliveredAt := Some t, dpDeliveredGeneration := Some g\<rparr>)\<rparr>) None None"
      obtain r s1 where upd: "?upd s = Inr (r, s1)" and same: "actions s' = actions s1" "actionQueues s' = actionQueues s1"
        using run Some d by (auto simp: applyActionDelivered_def bindM_Inr thenM_def actionView_def audit_def)
      have "on_lane lane_ok s1"
        by (rule update_active' [OF active_closed_lane_ok inv upd getAction_mem [OF active_closed_lane_ok inv a(1)] a(2)])
          (use a(2) in \<open>auto simp: actionIsActive_def\<close>)
      then show ?thesis using on_lane_cong [OF same] by simp
    qed
  qed
qed

section \<open>The system\<close>

text \<open>
  A step is a request of a client, a hook of mail or questions, the boot of the daemon, a pass of the
  scheduler, or anything else that leaves the two tables of the lanes alone (the clock, mail, other
  tables).
\<close>

inductive system_step :: "sched \<Rightarrow> sched \<Rightarrow> bool" where
  enqueue: "storeP (enqueueActions input) s = (r, s') \<Longrightarrow> system_step s s'"
| pause: "storeP (pauseActionQueue b) s = (r, s') \<Longrightarrow> system_step s s'"
| resume: "storeP (resumeActionQueue b) s = (r, s') \<Longrightarrow> system_step s s'"
| cancel: "storeP (cancelAction i force) s = (r, s') \<Longrightarrow> system_step s s'"
| retry: "storeP (retryAction i force) s = (r, s') \<Longrightarrow> system_step s s'"
| reorder: "storeP (reorderActions b order) s = (r, s') \<Longrightarrow> system_step s s'"
| claim: "storeP (claimAction input) s = (r, s') \<Longrightarrow> system_step s s'"
| report: "snd (reportAction input (scStore s)) = st \<Longrightarrow> system_step s (s\<lparr>scStore := st\<rparr>)"
| complete: "storeP (completeAction i outputs detail) s = (r, s') \<Longrightarrow> system_step s s'"
| deliver: "storeP (applyActionDelivered m g t) s = (r, s') \<Longrightarrow> system_step s s'"
| undeliver: "storeP (applyActionDispatchCanceled m t) s = (r, s') \<Longrightarrow> system_step s s'"
| answer: "storeP (answerQuestion q answer who) s = (r, s') \<Longrightarrow> system_step s s'"
| command: "storeP (enqueueCommand v b args k n) s = (r, s') \<Longrightarrow> system_step s s'"
| boot: "storeP (markInFlightCaptureActionsUncertain detail) s = (r, s') \<Longrightarrow> system_step s s'"
| pass: "reconcileActions exec scope s = (r, s') \<Longrightarrow> system_step s s'"
| other: "actions (scStore s') = actions (scStore s) \<Longrightarrow> actionQueues (scStore s') = actionQueues (scStore s) \<Longrightarrow>
    system_step s s'"

inductive reachable :: "sched \<Rightarrow> bool" where
  start: "actions (scStore s) = [] \<Longrightarrow> actionQueues (scStore s) = [] \<Longrightarrow> reachable s"
| step: "reachable s \<Longrightarrow> system_step s s' \<Longrightarrow> reachable s'"

inductive_cases system_stepE: "system_step s s'"

lemma storeP_ok:
  assumes "preserves (on_lane lane_ok) m" and "sched_ok s" and "storeP m s = (r, s')"
  shows "sched_ok s'"
  using passes_keeps [OF assms(1)] assms(2,3) unfolding passes_def by (cases r) force+

lemma pass_ok: "sched_ok s \<Longrightarrow> reconcileActions exec scope s = (r, s') \<Longrightarrow> sched_ok s'"
  using reconcileActions_pass [of exec scope] unfolding passes_def by (cases r) force+

lemmas system_keeps =
  enqueueActions_keeps pauseActionQueue_keeps resumeActionQueue_keeps cancelAction_keeps retryAction_keeps
  reorderActions_keeps claimAction_keeps completeAction_keeps applyActionDelivered_keeps
  preserves_applyActionDispatchCanceled [OF active_closed_lane_ok] preserves_answerQuestion [OF active_closed_lane_ok]
  preserves_enqueueCommand [OF active_closed_lane_ok] markInFlight_keeps

lemma system_step_ok: "system_step s s' \<Longrightarrow> sched_ok s \<Longrightarrow> sched_ok s'"
proof (induction rule: system_step.induct)
  case (report input s st)
  then show ?case using reportAction_keeps [of "scStore s" input] by (simp add: sched_ok_def)
next
  case (pass exec scope s r s')
  then show ?case using pass_ok by blast
next
  case (other s' s)
  then show ?case by (simp add: sched_ok_def on_lane_def)
qed (erule storeP_ok [rotated -1], rule system_keeps, assumption)+

lemma reachable_ok: "reachable s \<Longrightarrow> lane_ok (actions (scStore s)) (actionQueues (scStore s))"
proof (induction rule: reachable.induct)
  case (start s)
  then show ?case by (simp add: lane_ok_def lane_ids_def lane_bounds_def lane_progress_def)
next
  case (step s s')
  then show ?case using system_step_ok by (auto simp: sched_ok_def on_lane_def)
qed

section \<open>What follows for the program\<close>

text \<open>
  C8. In every state the daemon can reach, by any interleaving of client requests, mail and question
  hooks, boots and scheduler passes, the lanes are well formed: action ids are unique and so are
  positions within a bee, positions are below the queue's cursor, every row before one that has
  started is succeeded or cancelled, a queued row carries no token and no dispatch, and every
  reference names an earlier action of the same bee.
\<close>

theorem reachable_lane_inv:
  assumes "reachable s"
  shows "lane_inv (scStore s)"
  using reachable_ok [OF assms] by (simp add: lane_inv_def)

text \<open>
  C5. A bee's lane executes one action at a time: in every reachable state, two actions of a bee that
  are running or waiting are the same action.
\<close>

theorem reachable_one_active:
  assumes "reachable s" and "a \<in> set (actions (scStore s))" and "b \<in> set (actions (scStore s))"
    and "aBeeId a = aBeeId b" and "actionIsActive a" and "actionIsActive b"
  shows "a = b"
proof (rule ccontr)
  assume "a \<noteq> b"
  have ok: "lane_ok (actions (scStore s)) (actionQueues (scStore s))" by (rule reachable_ok [OF assms(1)])
  have active: "started x \<and> \<not> finished x" if "actionIsActive x" for x
    using that by (auto simp: actionIsActive_def started_def finished_def)
  have "aPosition a \<noteq> aPosition b"
    using ok assms(2-4) \<open>a \<noteq> b\<close> unfolding lane_ok_def lane_ids_def distinct_map inj_on_def by blast
  then consider "comes_before a b" | "comes_before b a" using assms(4) by (force simp: comes_before_def)
  then show False
    using ok assms active unfolding lane_ok_def lane_progress_def earlier_finished_def by cases blast+
qed

text \<open>
  C6. An action never starts before what comes before it is done: in every reachable state, when an
  action has left the queue (and was not cancelled), every earlier action of its bee has succeeded or
  was cancelled.
\<close>

theorem reachable_in_order:
  assumes "reachable s" and "a \<in> set (actions (scStore s))" and "b \<in> set (actions (scStore s))"
    and "aBeeId a = aBeeId b" and "aPosition a < aPosition b" and "aStatus b \<notin> {AQueued, ACancelled}"
  shows "aStatus a \<in> {ASucceeded, ACancelled}"
proof -
  have "finished a"
    using reachable_ok [OF assms(1)] assms(2-6)
    unfolding lane_ok_def lane_progress_def earlier_finished_def comes_before_def started_def by blast
  then show ?thesis by (simp add: finished_def)
qed

text \<open>The target of a reference of an action that the scheduler releases.\<close>

lemma ready_target:
  assumes ok: "lane_ok acts qs" and row: "row \<in> set acts" "aStatus row = AQueued" "earlier_finished acts row"
    and ref: "(n, a, out) \<in> set (actionRefTargets (aInputs row))"
  obtains b where "find_row aId acts a = Some b" and "aStatus b \<in> {ASucceeded, ACancelled}"
proof -
  have "a \<in> (\<lambda>r. fst (snd r)) ` set (actionRefTargets (aInputs row))" using ref by force
  then obtain b where b: "b \<in> set acts" "ref_target row a b"
    using ok row(1) unfolding lane_ok_def refs_backward_def by blast
  have "find_row aId acts (aId b) = Some b"
    using ok b(1) unfolding lane_ok_def lane_ids_def by (blast intro: find_row_mem)
  moreover have "aId b = a" using b(2) by (simp add: ref_target_def)
  moreover have "aStatus b \<in> {ASucceeded, ACancelled}"
  proof (cases "aStatus b = ACancelled")
    case False
    then have "comes_before b row" using b(2) row(2) by (simp add: ref_target_def comes_before_def)
    then show ?thesis using row(3) b(1) unfolding earlier_finished_def finished_def by blast
  qed simp
  ultimately show ?thesis using that by simp
qed

text \<open>
  C7. What the scheduler releases is ready: in every reachable state, the action that a free lane
  releases is queued, all earlier actions of its bee have succeeded or were cancelled, and each of
  its references names an existing action that has succeeded or was cancelled. So the dispatch never
  finds a missing or an unfinished predecessor.
\<close>

theorem reachable_release:
  assumes "reachable s" and "releasedAction (listActionsOf (scStore s) b) = Some head"
  shows "aStatus head = AQueued \<and> aBeeId head = b
    \<and> (\<forall>a \<in> set (actions (scStore s)). aBeeId a = b \<longrightarrow> aPosition a < aPosition head \<longrightarrow> aStatus a \<in> {ASucceeded, ACancelled})
    \<and> (\<forall>(n, a, out) \<in> set (actionRefTargets (aInputs head)).
         \<exists>t. getAction (scStore s) a = Some t \<and> aStatus t \<in> {ASucceeded, ACancelled})"
proof -
  have ok: "lane_ok (actions (scStore s)) (actionQueues (scStore s))" by (rule reachable_ok [OF assms(1)])
  have head: "head \<in> set (actions (scStore s))" "aBeeId head = b" "aStatus head = AQueued" "lane_ready (scStore s) (aId head)"
    using released_ready [OF ok assms(2)] by simp_all
  have "getAction (scStore s) (aId head) = Some head"
    using lane_ok_getAction [of "scStore s" head] ok head(1) by (simp add: on_lane_def)
  then have early: "earlier_finished (actions (scStore s)) head" using head(4) by (simp add: lane_ready_def)
  have refs: "\<exists>t. getAction (scStore s) a = Some t \<and> aStatus t \<in> {ASucceeded, ACancelled}"
    if ref: "(n, a, out) \<in> set (actionRefTargets (aInputs head))" for n a out
  proof -
    obtain t where "find_row aId (actions (scStore s)) a = Some t" "aStatus t \<in> {ASucceeded, ACancelled}"
      by (rule ready_target [OF ok head(1,3) early ref])
    then show ?thesis by (simp add: getAction_def)
  qed
  have order: "aStatus a \<in> {ASucceeded, ACancelled}"
    if "a \<in> set (actions (scStore s))" "aBeeId a = b" "aPosition a < aPosition head" for a
  proof -
    have "comes_before a head" using that head(2) by (simp add: comes_before_def)
    then have "finished a" using early that(1) unfolding earlier_finished_def by blast
    then show ?thesis by (simp add: finished_def)
  qed
  have "\<forall>(n, a, out) \<in> set (actionRefTargets (aInputs head)).
      \<exists>t. getAction (scStore s) a = Some t \<and> aStatus t \<in> {ASucceeded, ACancelled}"
  proof
    fix r assume mem: "r \<in> set (actionRefTargets (aInputs head))"
    obtain n a out where r: "r = (n, a, out)" by (rule prod_cases3)
    show "case r of (n, a, out) \<Rightarrow> \<exists>t. getAction (scStore s) a = Some t \<and> aStatus t \<in> {ASucceeded, ACancelled}"
      unfolding r prod.case by (rule refs) (use mem r in simp)
  qed
  then show ?thesis using head(2,3) order by simp
qed

end
