(* ===== verification/Samples.thy ===== *)
theory Samples
  imports Store
begin

text \<open>
  A concrete store, at which the properties of the store's operations are instantiated: one active
  bee, its lane with a finished, a waiting and a queued action, and an idle runtime.
\<close>

definition sampleBee :: bee_row where
  "sampleBee =
     \<lparr>bId = ''bee1'', bAgent = ''codex'', bSubstrate = ''hsr'', bCwd = ''/src'', bLifecycle = LActive, bArchivedAt = None,
      bSpawnFailures = 0, bPlacementVersion = 1, bActiveMoveId = None, bActiveHandoffId = None, bCellId = Some ''cell1'',
      bAuthControlFence = 0, bLastTurnTrigger = None, bName = ''worker'', bTitle = None, bTags = [], bArgs = None,
      bLastOutputAt = None, bLastHumanOutputAt = None, bAccount = Some ''acc1''\<rparr>"

definition sampleRuntime :: runtime_row where
  "sampleRuntime =
     \<lparr>rBeeId = ''bee1'', rGeneration = 1, rState = RIdle, rExitCause = None, rUpdatedAt = 500, rCredentialStamp = False,
      rPid = None, rPidStartedAt = None, rBootEvidence = Some BeReal, rStartedAt = 400, rIdentity = None\<rparr>"

definition sampleLaneQueue :: action_queue_db where
  "sampleLaneQueue =
     \<lparr>qdBeeId = ''bee1'', qdPaused = False, qdPausedAt = None, qdNextPosition = 4, qdCreatedAt = 500, qdUpdatedAt = 500\<rparr>"

text \<open>The store with the given lane; its source of randomness always answers zero.\<close>

definition sampleCore :: "action_row list \<Rightarrow> core" where
  "sampleCore acts =
     \<lparr>clock = 1000, rng = (\<lambda>_. 0), rngPos = 0, uuids = (\<lambda>n. ''uuid-'' @ nat_text n), uuidPos = 0, backoffBaseMs = 1000, maxAttempts = 5,
      bees = [sampleBee], runtimes = [sampleRuntime], observationCursors = [], flags = [], nextFlagId = 1, accountStatuses = [],
      humanOutputModes = [], multilineActive = [], mailbox = [], nextMessageId = 1, mailOrigins = [],
      batchingPolicies = [], humanReceived = [], confirmationIntents = [], multilines = [], commands = [],
      nextCommandId = 1, moves = [], handoffs = [], threads = [], authRows = [], quotaRows = [], executionKey = None,
      effectRows = [], rpcResults = [], maxRpcResults = 10000, ownerStoreId = ''owner'', coverageId = ''coverage'',
      execCoordinators = [], execClaims = [], execTransitions = [], execEffects = [], execRefusals = [], execBees = [],
      execStarts = [], execStartOps = [], questions = [], actions = acts,
      actionQueues = [sampleLaneQueue], actionEnqueues = [], tasks = [], taskSupplies = [], admissions = [], auditLog = []\<rparr>"

text \<open>An action whose outcome is not known: it was started, and then nothing was heard of it.\<close>

definition uncertainAction :: action_row where
  "uncertainAction = (sampleAction ''a2'' 2 AWaiting)\<lparr>aWaitingReason := Some WUncertain, aAttemptToken := Some ''tok2''\<rparr>"

definition uncertainCore :: core where
  "uncertainCore = sampleCore [sampleAction ''a1'' 1 ASucceeded, uncertainAction, sampleAction ''a3'' 3 AQueued]"

lemma sampleCore_simps [simp]:
  "actions (sampleCore acts) = acts" "actionQueues (sampleCore acts) = [sampleLaneQueue]" "clock (sampleCore acts) = 1000"
  "bees (sampleCore acts) = [sampleBee]" "runtimes (sampleCore acts) = [sampleRuntime]"
  by (simp_all add: sampleCore_def)

end
