(* ===== verification/Action_Fencing.thy ===== *)
theory Action_Fencing
  imports Action_System Samples
begin

text \<open>
  What single operations on an action guarantee: reports are fenced by attempt, token and reporter;
  retry closes the attempt to every report; a stale settlement changes nothing; the controls a view
  advertises are the operations the store accepts; the one reminder.
\<close>

section \<open>Operations that return\<close>

lemma auditActionViews_total: "\<exists>s'. auditActionViews reason bef aft s = Inr ((), s')"
proof -
  have "\<exists>s'. eachM xs (\<lambda>v. let previous = find_row (\<lambda>v. aId (vRow v)) bef (aId (vRow v))
        in whenM (previous \<noteq> Some v)
             (audit (EvActionPut v (map_option (\<lambda>p. aStatus (vRow p)) previous) reason))) s = Inr ((), s')" for xs
  proof (induction xs arbitrary: s)
    case (Cons v xs)
    then show ?case
      by (simp add: Let_def whenM_def audit_def thenM_def bindM_Inr)
  qed simp
  then show ?thesis unfolding auditActionViews_def by blast
qed

lemma auditActionQueue_total: "\<exists>s'. auditActionQueue reason bef aft s = Inr ((), s')"
  by (cases aft) (simp_all add: auditActionQueue_def whenM_def audit_def)

text \<open>The audit of a lane never fails, and leaves the rows as the body left them.\<close>

lemma withActionLaneAudit_returns:
  assumes "fn s = Inr (x, s1)"
  obtains s' where "withActionLaneAudit b reason fn s = Inr (x, s')"
    and "actions s' = actions s1" and "actionQueues s' = actionQueues s1"
proof -
  obtain s2 where views: "auditActionViews reason (listActionViews s (Some b) []) (listActionViews s1 (Some b) []) s1 = Inr ((), s2)"
    using auditActionViews_total by blast
  obtain s3 where q: "auditActionQueue reason (getActionQueue s b) (getActionQueue s2 b) s2 = Inr ((), s3)"
    using auditActionQueue_total by blast
  have run: "withActionLaneAudit b reason fn s = Inr (x, s3)"
    using assms views q unfolding withActionLaneAudit_def by (simp add: bindM_Inr thenM_def)
  show ?thesis
    using that [OF run] framesD [OF frames_auditViews views] framesD [OF frames_auditQueue q] by simp
qed

lemma updateActionRow_returns:
  assumes ids: "lane_ids (actions s)" and c: "getAction s i = Some c"
    and legal: "actionTransitionLegal (aStatus c) (aStatus (patch c))" and pos: "aPosition (patch c) = aPosition c"
  shows "updateActionRow i patch m k s = Inr (patched patch m k (clock s) c, s\<lparr>actions := put_row aId (patched patch m k (clock s) c) (actions s)\<rparr>)"
proof -
  let ?r = "patched patch m k (clock s) c"
  have mem: "c \<in> set (actions s)" "aId c = i" using getAction_Some [OF c] by simp_all
  have keys: "aId ?r = i" "aBeeId ?r = aBeeId c" "aPosition ?r = aPosition c" using mem pos by (simp_all add: patched_def)
  have "\<not> list_ex (\<lambda>a. aId a \<noteq> aId ?r \<and> aBeeId a = aBeeId ?r \<and> aPosition a = aPosition ?r) (actions s)"
    using ids mem unfolding keys lane_ids_def distinct_map inj_on_def list_ex_iff by blast
  then have put: "putAction ?r s = Inr ((), s\<lparr>actions := put_row aId ?r (actions s)\<rparr>)"
    by (simp add: putAction_def thenM_def bindM_Inr)
  have get: "getAction (s\<lparr>actions := put_row aId ?r (actions s)\<rparr>) i = Some ?r"
    using c keys(1) unfolding getAction_def by (simp add: find_row_put_row)
  show ?thesis
    using c legal put get unfolding updateActionRow_def patched_def
    by (simp add: bindM_Inr thenM_def Let_def)
qed

lemma actionView_returns: "getAction s i = Some row \<Longrightarrow> actionView i s = Inr (actionViewOf s row, s)"
  by (simp add: actionView_def bindM_Inr)

section \<open>Retry\<close>

lemma getAction_put:
  "getAction s i = Some c \<Longrightarrow> aId r = i \<Longrightarrow> actions s' = put_row aId r (actions s) \<Longrightarrow> getAction s' i = Some r"
  by (simp add: getAction_def find_row_put_row)


text \<open>The row a retry leaves.\<close>

definition retriedRow :: "action_row \<Rightarrow> int \<Rightarrow> action_row" where
  "retriedRow row t =
     row\<lparr>aStatus := AQueued, aWaitingReason := None, aWaitingDetail := None, aAttemptToken := None,
         aDispatch := None, aDispatchMessageId := None, aOperationKey := None, aProgress := None, aQuestionId := None,
         aResult := None, aFailure := None, aResolvedInputs := None,
         aAttempts := closeActionAttempt row (if aStatus row = AFailed then OFailed else OSuperseded) t,
         aUpdatedAt := t, aFinishedAt := None\<rparr>"

lemma retriedRow_simps [simp]:
  "aId (retriedRow row t) = aId row" "aStatus (retriedRow row t) = AQueued"
  "aAttemptToken (retriedRow row t) = None" "aAttempt (retriedRow row t) = aAttempt row"
  "aBeeId (retriedRow row t) = aBeeId row" "aPosition (retriedRow row t) = aPosition row"
  by (simp_all add: retriedRow_def)

definition retryAllowed :: "action_row \<Rightarrow> bool \<Rightarrow> bool" where
  "retryAllowed row force \<longleftrightarrow> kRetry (deriveActionControls row) \<or> (force \<and> kForceRetry (deriveActionControls row))"

lemma retryAllowed_iff:
  "retryAllowed row force \<longleftrightarrow> aStatus row = AFailed \<or> (force \<and> aStatus row = AWaiting \<and> aWaitingReason row = Some WUncertain)"
  by (simp add: retryAllowed_def deriveActionControls_def Let_def)


lemma withActionLaneAudit_throws: "fn s = Inl e \<Longrightarrow> withActionLaneAudit b reason fn s = Inl e"
  by (simp add: withActionLaneAudit_def bindM_def)

lemma inLane_throws: "getAction s i = Some row \<Longrightarrow> body row s = Inl e \<Longrightarrow> inLane i reason body s = Inl e"
  by (simp add: inLane_def bindM_def mustGetAction_def withActionLaneAudit_def)

lemma inLane_returns:
  assumes "getAction s i = Some row" and "body row s = Inr (x, s1)"
  obtains s' where "inLane i reason body s = Inr (x, s')" and "actions s' = actions s1" and "actionQueues s' = actionQueues s1"
proof -
  have "bindM (mustGetAction i) body s = Inr (x, s1)" using assms by (simp add: bindM_Inr)
  then obtain s' where "withActionLaneAudit (aBeeId row) reason (bindM (mustGetAction i) body) s = Inr (x, s')"
    and "actions s' = actions s1" "actionQueues s' = actionQueues s1"
    by (rule withActionLaneAudit_returns)
  then show ?thesis using that assms(1) by (simp add: inLane_def bindM_Inr)
qed

lemma inLane_run:
  "getAction s i = Some row \<Longrightarrow> body row s = Inr (x, s1) \<Longrightarrow>
    \<exists>s'. inLane i reason body s = Inr (x, s') \<and> actions s' = actions s1 \<and> actionQueues s' = actionQueues s1"
  by (rule inLane_returns [where reason = reason], assumption, assumption) (intro exI conjI)

lemma retryAction_run:
  assumes "lane_inv s" and "getAction s i = Some row"
  shows "if retryAllowed row force
         then \<exists>v s'. retryAction i force s = Inr (v, s') \<and> actions s' = put_row aId (retriedRow row (clock s)) (actions s)
         else retryAction i force s = Inl (ActionRefusedError i)"
proof -
  let ?patch = "\<lambda>r. r\<lparr>aStatus := AQueued, aWaitingReason := None, aWaitingDetail := None, aAttemptToken := None,
                           aDispatch := None, aProgress := None, aQuestionId := None, aResult := None,
                           aFailure := None, aResolvedInputs := None,
                           aAttempts := closeActionAttempt row (if aStatus row = AFailed then OFailed else OSuperseded) (clock s),
                           aFinishedAt := None\<rparr>"
  let ?r = "patched ?patch (Some None) (Some None) (clock s) row"
  let ?s1 = "s\<lparr>actions := put_row aId ?r (actions s)\<rparr>"
  let ?body = "\<lambda>row. (let controls = deriveActionControls row
        in bindM (requireM (kRetry controls \<or> kForceRetry controls) (ActionRefusedError i)) (\<lambda>_.
           bindM (requireM (kRetry controls \<or> force) (ActionRefusedError i)) (\<lambda>_.
           bindM (readM clock) (\<lambda>t.
           bindM (updateActionRow i
                    (\<lambda>r. r\<lparr>aStatus := AQueued, aWaitingReason := None, aWaitingDetail := None, aAttemptToken := None,
                           aDispatch := None, aProgress := None, aQuestionId := None, aResult := None,
                           aFailure := None, aResolvedInputs := None,
                           aAttempts := closeActionAttempt row (if aStatus row = AFailed then OFailed else OSuperseded) t,
                           aFinishedAt := None\<rparr>) (Some None) (Some None)) (\<lambda>_.
             actionView i)))))"
  have r: "?r = retriedRow row (clock s)"
    by (simp add: patched_def actionColumns_def retriedRow_def)
  show ?thesis
  proof (cases "retryAllowed row force")
    case False
    then have "?body row s = Inl (ActionRefusedError i)"
      by (auto simp: retryAllowed_def Let_def requireM_def)
    then have "retryAction i force s = Inl (ActionRefusedError i)"
      unfolding retryAction_def by (rule inLane_throws [OF assms(2)])
    then show ?thesis using False by simp
  next
    case True
    then have legal: "actionTransitionLegal (aStatus row) (aStatus (?patch row))"
      by (auto simp: retryAllowed_iff actionTransitionLegal_def)
    have ids: "lane_ids (actions s)" using assms(1) by (simp add: lane_inv_def lane_ok_def)
    have upd: "updateActionRow i ?patch (Some None) (Some None) s = Inr (?r, ?s1)"
      by (rule updateActionRow_returns [where patch = ?patch, OF ids assms(2)]) (use legal in simp_all)
    have "getAction ?s1 i = Some ?r"
      using assms(2) getAction_Some [OF assms(2)] by (simp add: getAction_def find_row_put_row patched_def)
    note view = actionView_returns [OF this]
    have "?body row s = Inr (actionViewOf ?s1 ?r, ?s1)"
      using True upd view by (auto simp: retryAllowed_def Let_def requireM_def bindM_def)
    then obtain s' where "inLane i ''retried'' ?body s = Inr (actionViewOf ?s1 ?r, s')" "actions s' = actions ?s1"
      by (rule inLane_returns [OF assms(2)])
    then have "retryAction i force s = Inr (actionViewOf ?s1 ?r, s')
        \<and> actions s' = put_row aId (retriedRow row (clock s)) (actions s)"
      unfolding retryAction_def by (simp add: r)
    then show ?thesis using True by auto
  qed
qed

text \<open>
  C2. Retry does exactly what the controls advertise: on a well-formed lane it succeeds if and only if
  the action failed, or its outcome is uncertain and the operator forces it; then the row is queued
  again with its attempt closed in the history, without token, dispatch, progress, result or failure,
  and no other row changes; otherwise it is refused.
\<close>

theorem retryAction_correct:
  assumes "lane_inv s" and "getAction s i = Some row"
  shows "if retryAllowed row force
         then \<exists>v s'. retryAction i force s = Inr (v, s') \<and> actions s' = put_row aId (retriedRow row (clock s)) (actions s)
         else retryAction i force s = Inl (ActionRefusedError i)"
  using assms by (rule retryAction_run)

lemma uncertainCore_ok: "lane_inv uncertainCore"
  unfolding lane_inv_def lane_ok_def
  by (simp add: uncertainCore_def uncertainAction_def sampleAction_def sampleLaneQueue_def lane_ids_def lane_bounds_def
      below_cursor_def lane_progress_def earlier_finished_def started_def finished_def comes_before_def blank_attempt_def
      refs_backward_def actionRefTargets_Nil)

lemma uncertainCore_get: "getAction uncertainCore ''a2'' = Some uncertainAction"
  by (simp add: getAction_def uncertainCore_def uncertainAction_def sampleAction_def find_row_def)

theorem retryAction_correct_witness:
  "retryAction ''a2'' False uncertainCore = Inl (ActionRefusedError ''a2'')
   \<and> (\<exists>v s'. retryAction ''a2'' True uncertainCore = Inr (v, s') \<and> getAction s' ''a2'' = Some (retriedRow uncertainAction 1000))"
proof -
  have "\<not> retryAllowed uncertainAction False" "retryAllowed uncertainAction True"
    by (simp_all add: retryAllowed_iff uncertainAction_def sampleAction_def)
  moreover have "getAction s' ''a2'' = Some (retriedRow uncertainAction 1000)"
    if "actions s' = put_row aId (retriedRow uncertainAction (clock uncertainCore)) (actions uncertainCore)" for s'
    using getAction_put [OF uncertainCore_get _ that] by (simp add: uncertainAction_def sampleAction_def uncertainCore_def)
  ultimately show ?thesis
    using retryAction_correct [OF uncertainCore_ok uncertainCore_get, of False]
      retryAction_correct [OF uncertainCore_ok uncertainCore_get, of True] by auto
qed

section \<open>Reports\<close>

lemma reportRefusal_None:
  "reportRefusal row input = None \<Longrightarrow>
    rpAttempt input = int (aAttempt row) \<and> aAttempt row \<noteq> 0 \<and> reporterRefusal row input = None
    \<and> non_empty (aAttemptToken row) \<noteq> None \<and> aAttemptToken row = Some (rpToken input)"
  by (auto simp: reportRefusal_def split: if_splits)

lemma reporterRefusal_None:
  "reporterRefusal row input = None \<longleftrightarrow>
    (aExecutor row = XAgent \<and> non_empty (rpBeeId input) = Some (aBeeId row))
    \<or> (aExecutor row = XExternal \<and> non_empty (rpExecutor input) \<noteq> None
        \<and> Option.bind (aDispatch row) dpClaimedBy = rpExecutor input)"
  by (cases "aExecutor row") (auto simp: reporterRefusal_def)

text \<open>
  C1. Reports are fenced: whatever report arrives, either it is answered, and then it named the current
  attempt of an existing action, carried that attempt's token, and came from the bee of an agent
  action or from the executor that claimed an external one; or it throws, and then no table changed
  and the audit log gained at most the record of the rejection.
\<close>

theorem reportAction_fenced:
  "case reportAction input s of
     (Inr r, s') \<Rightarrow>
       (\<exists>row. getAction s (rpActionId input) = Some row \<and> rpAttempt input = int (aAttempt row) \<and> 0 < aAttempt row
          \<and> aAttemptToken row = Some (rpToken input) \<and> rpToken input \<noteq> []
          \<and> (aExecutor row = XAgent \<and> rpBeeId input = Some (aBeeId row)
             \<or> aExecutor row = XExternal \<and> rpExecutor input \<noteq> None
               \<and> Option.bind (aDispatch row) dpClaimedBy = rpExecutor input))
   | (Inl e, s') \<Rightarrow> \<exists>evs. s' = s\<lparr>auditLog := auditLog s @ evs\<rparr> \<and> length evs \<le> 1"
proof (cases "getAction s (rpActionId input)")
  case None
  then show ?thesis by (auto simp: reportAction_def intro: exI [of _ "[]"])
next
  case (Some row)
  have same: "\<exists>evs. s = s\<lparr>auditLog := auditLog s @ evs\<rparr> \<and> length evs \<le> 1" by (rule exI [of _ "[]"]) simp
  show ?thesis
  proof (cases "rpAttempt input < 1")
    case True
    then show ?thesis using Some same by (simp add: reportAction_def)
  next
    case False
    show ?thesis
    proof (cases "reportRefusal row input")
      case (Some why)
      then show ?thesis using \<open>getAction s (rpActionId input) = Some row\<close> False by (auto simp: reportAction_def)
    next
      case None
      note checks = reportRefusal_None [OF None]
      have "rpToken input \<noteq> []" using checks by (auto simp: non_empty_def)
      moreover have "aExecutor row = XAgent \<and> rpBeeId input = Some (aBeeId row)
             \<or> aExecutor row = XExternal \<and> rpExecutor input \<noteq> None
               \<and> Option.bind (aDispatch row) dpClaimedBy = rpExecutor input"
        using checks unfolding reporterRefusal_None by (auto simp: non_empty_def split: option.splits list.splits)
      ultimately have answered: "\<exists>row. getAction s (rpActionId input) = Some row \<and> rpAttempt input = int (aAttempt row) \<and> 0 < aAttempt row
          \<and> aAttemptToken row = Some (rpToken input) \<and> rpToken input \<noteq> []
          \<and> (aExecutor row = XAgent \<and> rpBeeId input = Some (aBeeId row)
             \<or> aExecutor row = XExternal \<and> rpExecutor input \<noteq> None
               \<and> Option.bind (aDispatch row) dpClaimedBy = rpExecutor input)"
        using Some checks by (intro exI [of _ row]) simp
      have run: "reportAction input s = (case reportTx input s of Inl e \<Rightarrow> (Inl e, s) | Inr (r, s') \<Rightarrow> (Inr r, s'))"
        using Some False None by (simp add: reportAction_def)
      show ?thesis
      proof (cases "reportTx input s")
        case (Inl e)
        then show ?thesis using same by (simp add: run)
      next
        case (Inr p)
        obtain r s' where "p = (r, s')" by fastforce
        then show ?thesis using answered Inr by (simp add: run)
      qed
    qed
  qed
qed

text \<open>
  C3. A retry closes the action to every report: once retried, any report naming the action throws,
  whatever attempt, token and reporter it states, until the action is dispatched again.
\<close>

theorem retry_closes_reports:
  assumes "lane_inv s" and "retryAction i force s = Inr (v, s')" and "rpActionId input = i"
  shows "\<exists>e. fst (reportAction input s') = Inl e"
proof -
  obtain row where row: "getAction s i = Some row"
    using assms(2) by (auto simp: retryAction_def inLane_def bindM_Inr)
  have "actions s' = put_row aId (retriedRow row (clock s)) (actions s)"
    using retryAction_run [OF assms(1) row, of force] assms(2) by (auto split: if_splits)
  then have "getAction s' i = Some (retriedRow row (clock s))"
    using getAction_put [OF row] getAction_Some [OF row] by simp
  moreover have "reportRefusal (retriedRow row (clock s)) input \<noteq> None"
    using reportRefusal_None [of "retriedRow row (clock s)" input] by (auto simp: non_empty_def)
  ultimately show ?thesis using assms(3) by (auto simp: reportAction_def)
qed

definition sampleReport :: action_report where
  "sampleReport =
     \<lparr>rpActionId = ''a2'', rpAttempt = 1, rpToken = ''tok2'', rpBeeId = Some ''bee1'', rpExecutor = None,
      rpKind = RkResult, rpNote = None, rpQuestion = None, rpOutcome = Some RoSucceeded,
      rpOutputs = Some (JObj [(''commitSha'', JStr ''0123abc'')]), rpReceipt = None, rpDetail = None, rpFailure = None\<rparr>"

theorem retry_closes_reports_witness:
  "\<exists>v s'. retryAction ''a2'' True uncertainCore = Inr (v, s') \<and> (\<exists>e. fst (reportAction sampleReport s') = Inl e)"
proof -
  have "retryAllowed uncertainAction True"
    by (simp add: retryAllowed_iff uncertainAction_def sampleAction_def)
  then obtain v s' where run: "retryAction ''a2'' True uncertainCore = Inr (v, s')"
    using retryAction_run [OF uncertainCore_ok uncertainCore_get, of True] by auto
  have "\<exists>e. fst (reportAction sampleReport s') = Inl e"
    by (rule retry_closes_reports [OF uncertainCore_ok run]) (simp add: sampleReport_def)
  then show ?thesis using run by blast
qed

section \<open>Settlement\<close>

text \<open>
  A settlement that names another attempt than the current one changes no action: it is recorded
  in the audit log and answered as not applied.
\<close>

theorem settleAction_stale:
  assumes "getAction s i = Some row" and "aAttempt row \<noteq> attempt"
  shows "\<exists>v s'. settleAction i attempt outcome s = Inr ((v, False), s') \<and> actions s' = actions s"
proof -
  let ?ev = "EvActionReportRejected (aBeeId row) i attempt (aAttempt row) RkSettle None
      (Some (executor_text (aExecutor row))) (if attempt < aAttempt row then RjStaleAttempt else RjUnknownAttempt)"
  let ?s1 = "s\<lparr>auditLog := auditLog s @ [?ev]\<rparr>"
  let ?body = "\<lambda>row. if aAttempt row \<noteq> attempt
       then
         bindM (audit (EvActionReportRejected (aBeeId row) i attempt (aAttempt row) RkSettle None
                  (Some (executor_text (aExecutor row)))
                  (if attempt < aAttempt row then RjStaleAttempt else RjUnknownAttempt))) (\<lambda>_.
         bindM (actionView i) (\<lambda>v. returnM (v, False)))
       else if is_terminal row then bindM (actionView i) (\<lambda>v. returnM (v, False))
       else
         bindM (readM clock) (\<lambda>t.
         bindM (updateActionRow i (settlePatch outcome row t) None None) (\<lambda>_.
         bindM (actionView i) (\<lambda>v. returnM (v, True))))"
  have "getAction ?s1 i = Some row" using assms(1) by (simp add: getAction_def)
  note view = actionView_returns [OF this]
  have "?body row s = Inr ((actionViewOf ?s1 row, False), ?s1)"
    using assms(2) view by (simp add: audit_def bindM_def)
  then obtain s' where "inLane i (settle_reason outcome) ?body s = Inr ((actionViewOf ?s1 row, False), s')" "actions s' = actions ?s1"
    by (rule inLane_returns [OF assms(1)])
  then show ?thesis unfolding settleAction_def by auto
qed

theorem settleAction_stale_witness:
  "\<exists>v s'. settleAction ''a2'' 4 (SettleFailed ''capture_refused'' ''moved'' True None) uncertainCore = Inr ((v, False), s')
     \<and> actions s' = actions uncertainCore"
  by (rule settleAction_stale [OF uncertainCore_get]) (simp add: uncertainAction_def sampleAction_def)

lemma settleAction_applies:
  assumes inv: "lane_inv s" and row: "getAction s i = Some row" and live: "\<not> is_terminal row"
    and legal: "actionTransitionLegal (aStatus row) (aStatus (settlePatch outcome row (clock s) row))"
  obtains v s' where "settleAction i (aAttempt row) outcome s = Inr ((v, True), s')"
    and "actions s' = put_row aId (patched (settlePatch outcome row (clock s)) None None (clock s) row) (actions s)"
proof -
  let ?r = "patched (settlePatch outcome row (clock s)) None None (clock s) row"
  let ?s1 = "s\<lparr>actions := put_row aId ?r (actions s)\<rparr>"
  have ids: "lane_ids (actions s)" using inv by (simp add: lane_inv_def lane_ok_def)
  have pos: "aPosition (settlePatch outcome row (clock s) row) = aPosition row" by (cases outcome) (simp_all add: settlePatch_def)
  have upd: "updateActionRow i (settlePatch outcome row (clock s)) None None s = Inr (?r, ?s1)"
    by (rule updateActionRow_returns [where patch = "settlePatch outcome row (clock s)", OF ids row legal pos])
  have "getAction ?s1 i = Some ?r"
    by (rule getAction_put [OF row]) (use getAction_Some [OF row] in \<open>simp_all add: patched_def\<close>)
  note view = actionView_returns [OF this]
  have "bindM (readM clock) (\<lambda>t.
         bindM (updateActionRow i (settlePatch outcome row t) None None) (\<lambda>_.
         bindM (actionView i) (\<lambda>v. returnM (v, True)))) s = Inr ((actionViewOf ?s1 ?r, True), ?s1)"
    using upd view by (simp add: bindM_def)
  then have "\<exists>s'. settleAction i (aAttempt row) outcome s = Inr ((actionViewOf ?s1 ?r, True), s')
      \<and> actions s' = actions ?s1 \<and> actionQueues s' = actionQueues ?s1"
    unfolding settleAction_def by (intro inLane_run [OF row]) (simp add: live)
  then show ?thesis using that by auto
qed

text \<open>
  C4. The fence of settlements is the attempt number alone. After the operator forces a retry of an
  action whose outcome is uncertain, the number is the same until the next dispatch, so a settlement
  of the abandoned attempt still applies: the action that the retry queued again becomes succeeded
  with the old attempt's result.
\<close>

theorem settle_after_forced_retry:
  assumes "lane_inv s" and "getAction s i = Some row" and "isUncertain row" and "retryAction i True s = Inr (v, s1)"
  shows "\<exists>queued v' s2 settled.
      getAction s1 i = Some queued \<and> aStatus queued = AQueued
    \<and> settleAction i (aAttempt row) (SettleSucceeded outputs receipt detail reconciled) s1 = Inr ((v', True), s2)
    \<and> getAction s2 i = Some settled \<and> aStatus settled = ASucceeded"
proof -
  let ?q = "retriedRow row (clock s)"
  have "retryAllowed row True" using assms(3) by (simp add: retryAllowed_iff isUncertain_def)
  then have acts: "actions s1 = put_row aId ?q (actions s)"
    using retryAction_run [OF assms(1,2), of True] assms(4) by simp
  have q: "getAction s1 i = Some ?q"
    by (rule getAction_put [OF assms(2) _ acts]) (use getAction_Some [OF assms(2)] in simp)
  have inv: "lane_inv s1"
    using lane_run [OF retryAction_keeps _ assms(4)] assms(1) by (simp add: lane_inv_def on_lane_def)
  let ?r = "patched (settlePatch (SettleSucceeded outputs receipt detail reconciled) ?q (clock s1)) None None (clock s1) ?q"
  obtain v' s2 where settle: "settleAction i (aAttempt ?q) (SettleSucceeded outputs receipt detail reconciled) s1 = Inr ((v', True), s2)"
    and acts2: "actions s2 = put_row aId ?r (actions s1)"
  proof (rule settleAction_applies [OF inv q])
    show "\<not> is_terminal ?q" by (simp add: is_terminal_def ACTION_TERMINAL_STATUSES_def)
    show "actionTransitionLegal (aStatus ?q)
        (aStatus (settlePatch (SettleSucceeded outputs receipt detail reconciled) ?q (clock s1) ?q))"
      by (simp add: settlePatch_def actionTransitionLegal_def)
  qed
  have "getAction s2 i = Some ?r"
    by (rule getAction_put [OF q _ acts2]) (use getAction_Some [OF assms(2)] in \<open>simp add: patched_def\<close>)
  moreover have "aStatus ?r = ASucceeded" by (simp add: patched_def settlePatch_def)
  ultimately show ?thesis
    using q settle by (intro exI [of _ ?q] exI [of _ v'] exI [of _ s2] exI [of _ ?r]) simp
qed

theorem settle_after_forced_retry_witness:
  "\<exists>v s1 v' s2 settled. retryAction ''a2'' True uncertainCore = Inr (v, s1)
     \<and> settleAction ''a2'' 1 (SettleSucceeded [] None None False) s1 = Inr ((v', True), s2)
     \<and> getAction s2 ''a2'' = Some settled \<and> aStatus settled = ASucceeded"
proof -
  have uncertain: "isUncertain uncertainAction" "retryAllowed uncertainAction True" "aAttempt uncertainAction = 1"
    by (simp_all add: isUncertain_def retryAllowed_iff uncertainAction_def sampleAction_def)
  then obtain v s1 where run: "retryAction ''a2'' True uncertainCore = Inr (v, s1)"
    using retryAction_run [OF uncertainCore_ok uncertainCore_get, of True] by auto
  show ?thesis
    using settle_after_forced_retry [OF uncertainCore_ok uncertainCore_get uncertain(1) run, of "[]" None None False]
      run uncertain(3) by auto
qed

section \<open>The reminder\<close>

lemma nudge_framed:
  assumes "send b body opts s = Inr (x, s1)"
  shows "actions s1 = actions s"
  using framesD [OF lane_port.frames_send assms] by (simp add: action_part_def)

lemma nudge_sends:
  assumes get: "getAction s i = Some row" and el: "nudgeEligible s row attempt" and ids: "lane_ids (actions s)"
    and sent: "send (aBeeId row) (renderActionNudge row (the (aAttemptToken row)) attempt) (actionMail UIdle) s = Inr (sent, s1)"
  shows "\<exists>r s'. nudgeAgentAction i attempt s = Inr (Some r, s')"
proof -
  have same: "actions s1 = actions s" by (rule nudge_framed [OF sent])
  have get1: "getAction s1 i = Some row" using get same by (simp add: getAction_def)
  let ?patch = "\<lambda>a. a\<lparr>aDispatch := map_option (\<lambda>d. d\<lparr>dpNudgedAt := Some (clock s1)\<rparr>) (aDispatch row)\<rparr>"
  let ?r = "patched ?patch None None (clock s1) row"
  let ?s2 = "s1\<lparr>actions := put_row aId ?r (actions s1)\<rparr>"
  have upd: "updateActionRow i ?patch None None s1 = Inr (?r, ?s2)"
    by (rule updateActionRow_returns [where patch = ?patch, OF _ get1]) (simp_all add: ids same actionTransitionLegal_def)
  have "getAction ?s2 i = Some ?r"
    by (rule getAction_put [OF get1]) (simp_all add: patched_def getAction_Some [OF get1])
  note view = actionView_returns [OF this]
  let ?out = "Some (actionViewOf ?s2 ?r, mId (srMessage sent))"
  have "bindM (send (aBeeId row) (renderActionNudge row (the (aAttemptToken row)) attempt) (actionMail UIdle)) (\<lambda>sent.
              bindM (readM clock) (\<lambda>t.
              bindM (updateActionRow i (\<lambda>a. a\<lparr>aDispatch := map_option (\<lambda>d. d\<lparr>dpNudgedAt := Some t\<rparr>) (aDispatch row)\<rparr>) None None) (\<lambda>_.
              bindM (actionView i) (\<lambda>v. returnM (Some (v, mId (srMessage sent))))))) s = Inr (?out, ?s2)"
    using sent upd view by (simp add: bindM_def)
  then obtain s' where "withActionLaneAudit (aBeeId row) ''nudged''
             (bindM (send (aBeeId row) (renderActionNudge row (the (aAttemptToken row)) attempt) (actionMail UIdle)) (\<lambda>sent.
              bindM (readM clock) (\<lambda>t.
              bindM (updateActionRow i (\<lambda>a. a\<lparr>aDispatch := map_option (\<lambda>d. d\<lparr>dpNudgedAt := Some t\<rparr>) (aDispatch row)\<rparr>) None None) (\<lambda>_.
              bindM (actionView i) (\<lambda>v. returnM (Some (v, mId (srMessage sent)))))))) s = Inr (?out, s')"
    by (rule withActionLaneAudit_returns)
  then show ?thesis using get el by (simp add: nudgeAgentAction_def bindM_def)
qed

text \<open>
  At most one reminder per attempt: after a reminder was sent, the same request for the same
  attempt sends none and changes nothing, even after a restart, because the row itself says so.
\<close>

theorem nudge_once:
  assumes "nudgeAgentAction i attempt s = Inr (Some r, s')"
  shows "nudgeAgentAction i attempt s' = Inr (None, s')"
proof -
  obtain row where row: "getAction s i = Some row" and el: "nudgeEligible s row attempt"
    and run: "withActionLaneAudit (aBeeId row) ''nudged''
             (bindM (send (aBeeId row) (renderActionNudge row (the (aAttemptToken row)) attempt) (actionMail UIdle)) (\<lambda>sent.
              bindM (readM clock) (\<lambda>t.
              bindM (updateActionRow i (\<lambda>a. a\<lparr>aDispatch := map_option (\<lambda>d. d\<lparr>dpNudgedAt := Some t\<rparr>) (aDispatch row)\<rparr>) None None) (\<lambda>_.
              bindM (actionView i) (\<lambda>v. returnM (Some (v, mId (srMessage sent)))))))) s = Inr (Some r, s')"
    using assms by (auto simp: nudgeAgentAction_def bindM_Inr split: option.splits if_splits)
  from run obtain s3 where body: "bindM (send (aBeeId row) (renderActionNudge row (the (aAttemptToken row)) attempt) (actionMail UIdle)) (\<lambda>sent.
              bindM (readM clock) (\<lambda>t.
              bindM (updateActionRow i (\<lambda>a. a\<lparr>aDispatch := map_option (\<lambda>d. d\<lparr>dpNudgedAt := Some t\<rparr>) (aDispatch row)\<rparr>) None None) (\<lambda>_.
              bindM (actionView i) (\<lambda>v. returnM (Some (v, mId (srMessage sent))))))) s = Inr (Some r, s3)"
    and same: "actions s' = actions s3"
    by (rule withActionLaneAudit_Inr)
  from body obtain sent s1 where sent: "send (aBeeId row) (renderActionNudge row (the (aAttemptToken row)) attempt) (actionMail UIdle) s = Inr (sent, s1)"
    and rest: "bindM (readM clock) (\<lambda>t.
              bindM (updateActionRow i (\<lambda>a. a\<lparr>aDispatch := map_option (\<lambda>d. d\<lparr>dpNudgedAt := Some t\<rparr>) (aDispatch row)\<rparr>) None None) (\<lambda>_.
              bindM (actionView i) (\<lambda>v. returnM (Some (v, mId (srMessage sent)))))) s1 = Inr (Some r, s3)"
    by (rule bindM_InrE)
  let ?patch = "\<lambda>a. a\<lparr>aDispatch := map_option (\<lambda>d. d\<lparr>dpNudgedAt := Some (clock s1)\<rparr>) (aDispatch row)\<rparr>"
  from rest obtain a where upd: "updateActionRow i ?patch None None s1 = Inr (a, s3)"
    by (auto simp: bindM_Inr actionView_def)
  obtain c where c: "getAction s1 i = Some c" and a: "a = patched ?patch None None (clock s1) c"
    and s3: "s3 = s1\<lparr>actions := put_row aId a (actions s1)\<rparr>"
    by (rule updateActionRow_Inr [OF upd])
  have after: "getAction s' i = Some a"
    by (rule getAction_put [OF c]) (use a getAction_Some [OF c] same s3 in \<open>simp_all add: patched_def\<close>)
  obtain d where "aDispatch row = Some d" using el by (auto simp: nudgeEligible_def split: option.splits)
  then have "aDispatch a = Some (d\<lparr>dpNudgedAt := Some (clock s1)\<rparr>)" by (simp add: a patched_def)
  then have "\<not> nudgeEligible s' a attempt" by (simp add: nudgeEligible_def)
  then show ?thesis using after by (simp add: nudgeAgentAction_def)
qed

definition nudgeCore :: core where
  "nudgeCore = sampleCore
     [(sampleAction ''a2'' 2 ARunning)\<lparr>aDispatch := Some ((newDispatch 1 600 (Some 1) (Some 7) None None)\<lparr>dpDeliveredAt := Some 610\<rparr>)\<rparr>]"

lemma nudgeCore_sends: "\<exists>r s'. nudgeAgentAction ''a2'' 1 nudgeCore = Inr (Some r, s')"
proof -
  let ?row = "(sampleAction ''a2'' 2 ARunning)\<lparr>aDispatch := Some ((newDispatch 1 600 (Some 1) (Some 7) None None)\<lparr>dpDeliveredAt := Some 610\<rparr>)\<rparr>"
  let ?body = "renderActionNudge ?row (the (aAttemptToken ?row)) 1"
  have row: "aBeeId ?row = ''bee1''" "aStatus ?row = ARunning" "aPosition ?row = 2" by (simp_all add: sampleAction_def)
  have get: "getAction nudgeCore ''a2'' = Some ?row"
    by (simp add: getAction_def nudgeCore_def sampleAction_def find_row_def)
  have el: "nudgeEligible nudgeCore ?row 1"
    by (simp add: nudgeEligible_def sampleAction_def newDispatch_def getBee_def nudgeCore_def find_row_def sampleBee_def)
  have clean: "CHR 0x00 \<notin> set ?body" "CHR 0x00 \<notin> set (soSender (actionMail UIdle))"
    by code_simp+
  have bee: "getBee nudgeCore ''bee1'' = Some sampleBee" "currentRuntime nudgeCore ''bee1'' = Some sampleRuntime"
    by (simp_all add: getBee_def currentRuntime_def nudgeCore_def find_row_def sampleBee_def sampleRuntime_def)
  have "lane_ids (actions nudgeCore)" by (simp add: nudgeCore_def lane_ids_def)
  moreover have "\<exists>sent s1. send (aBeeId ?row) ?body (actionMail UIdle) nudgeCore = Inr (sent, s1)"
    using send_live [OF clean bee(1) _ _ bee(2)] row by (auto simp: sampleBee_def sampleRuntime_def LIVE_STATES_def)
  ultimately show ?thesis using nudge_sends [OF get el] by blast
qed

theorem nudge_once_witness:
  "\<exists>r s'. nudgeAgentAction ''a2'' 1 nudgeCore = Inr (Some r, s') \<and> nudgeAgentAction ''a2'' 1 s' = Inr (None, s')"
  using nudgeCore_sends nudge_once [of "''a2''" 1 nudgeCore] by blast

end
