(* ===== verification/Action_Enqueue.thy ===== *)
theory Action_Enqueue
  imports Action_Fencing
begin

text \<open>
  What accepting a sequence does: the rows it appends, and that repeating an accepted request answers
  the same rows and leaves the store as it is. The audit of a lane writes nothing when the body changed
  nothing.
\<close>

section \<open>The audit of an idle mutation\<close>

lemma viewsFrom_ids: "map (\<lambda>v. aId (vRow v)) (viewsFrom active queue lane pred rows) = map aId rows"
proof (induction rows arbitrary: lane pred)
  case (Cons row rows)
  then show ?case by (simp add: actionViewWithHold_def split: prod.splits)
qed simp

lemma toActionViews_ids: "map (\<lambda>v. aId (vRow v)) (toActionViews rows lane queue) = map aId rows"
  by (simp add: toActionViews_def viewsFrom_ids Let_def)

lemma remdups_same: "set xs \<subseteq> {b} \<Longrightarrow> remdups xs = (if xs = [] then [] else [b])"
proof (induction xs)
  case (Cons x xs)
  then have "x = b" and "set xs \<subseteq> {b}" by simp_all
  then show ?case using Cons.IH by (cases xs) auto
qed simp

lemma laneViews_ids:
  "map (\<lambda>v. aId (vRow v)) (listActionViews s (Some b) []) = map aId (listActions s (Some b) [])"
proof -
  let ?rows = "listActions s (Some b) []"
  have bee: "aBeeId a = b" if "a \<in> set ?rows" for a using that by (simp add: listActions_def)
  then have own: "filter (\<lambda>a. aBeeId a = b) ?rows = ?rows" by simp
  have "remdups (rev (map aBeeId ?rows)) = (if ?rows = [] then [] else [b])"
    using remdups_same [of "rev (map aBeeId ?rows)" b] bee by (simp add: image_subset_iff)
  then show ?thesis
    by (simp add: listActionViews_def Let_def own toActionViews_ids)
qed

lemma laneViews_distinct:
  assumes "lane_ids (actions s)"
  shows "distinct (map (\<lambda>v. aId (vRow v)) (listActionViews s (Some b) []))"
proof -
  have "distinct (actions s)" "inj_on aId (set (actions s))"
    using assms by (auto simp: lane_ids_def distinct_map)
  then show ?thesis
    unfolding laneViews_ids by (auto simp: listActions_def distinct_map intro: inj_on_subset)
qed

lemma auditActionViews_same:
  assumes "distinct (map (\<lambda>v. aId (vRow v)) views)"
  shows "auditActionViews reason views views s = Inr ((), s)"
proof -
  have "eachM vs (\<lambda>v.
       (let previous = find_row (\<lambda>v. aId (vRow v)) views (aId (vRow v))
        in whenM (previous \<noteq> Some v) (audit (EvActionPut v (map_option (\<lambda>p. aStatus (vRow p)) previous) reason)))) s
      = Inr ((), s)" if "set vs \<subseteq> set views" for vs
    using that
  proof (induction vs)
    case (Cons v vs)
    then have "find_row (\<lambda>v. aId (vRow v)) views (aId (vRow v)) = Some v"
      using find_row_mem [OF assms, of v] by simp
    then show ?case using Cons by (simp add: whenM_def)
  qed simp
  then show ?thesis by (simp add: auditActionViews_def)
qed

text \<open>A mutation that changes nothing leaves no trace.\<close>

lemma withActionLaneAudit_idle:
  assumes "lane_ids (actions s)" and "fn s = Inr (x, s)"
  shows "withActionLaneAudit b reason fn s = Inr (x, s)"
proof -
  have "auditActionQueue reason (getActionQueue s b) (getActionQueue s b) s = Inr ((), s)"
    by (auto simp: auditActionQueue_def whenM_def split: option.split)
  then show ?thesis
    using assms auditActionViews_same [OF laneViews_distinct [OF assms(1)], of reason b s]
    unfolding withActionLaneAudit_def by (simp add: bindM_Inr thenM_def)
qed

section \<open>The rows of a request\<close>

text \<open>The row that item \<open>k\<close> of a request becomes.\<close>

definition accepted_row ::
  "enqueue_request \<Rightarrow> string list \<Rightarrow> int \<Rightarrow> int \<Rightarrow> nat \<Rightarrow> action_row \<Rightarrow> bool" where
  "accepted_row input ids n0 t k r \<longleftrightarrow>
     (\<exists>d inputs. findActionDefinition (eiKind (erItems input ! k)) (eiVersion (erItems input ! k)) = Some d
        \<and> \<not> missingInput d inputs
        \<and> r = newActionRow (ids ! k) (erBeeId input) (n0 + int k) (erItems input ! k) d inputs (erIdempotencyKey input) t)"

definition appended :: "enqueue_request \<Rightarrow> string list \<Rightarrow> int \<Rightarrow> int \<Rightarrow> action_row list \<Rightarrow> nat \<Rightarrow> core \<Rightarrow> bool" where
  "appended input ids n0 t acts k s \<longleftrightarrow>
     (\<exists>rows. actions s = acts @ rows \<and> length rows = k \<and> (\<forall>j < k. accepted_row input ids n0 t j (rows ! j))
       \<and> distinct (map aId rows) \<and> (\<forall>r \<in> set rows. aId r \<notin> aId ` set acts))"

lemma appended_step:
  assumes "k < length ids"
  shows "hoare (appended input ids n0 t acts k)
    (acceptItem (erBeeId input) (erIdempotencyKey input) ids lane n0 t k (erItems input ! k))
    (\<lambda>_. appended input ids n0 t acts (Suc k))"
proof (rule hoareI)
  fix s u s' assume P: "appended input ids n0 t acts k s"
    and run: "acceptItem (erBeeId input) (erIdempotencyKey input) ids lane n0 t k (erItems input ! k) s = Inr (u, s')"
  obtain rows where rows: "actions s = acts @ rows" "length rows = k" "\<forall>j < k. accepted_row input ids n0 t j (rows ! j)"
    "distinct (map aId rows)" "\<forall>r \<in> set rows. aId r \<notin> aId ` set acts"
    using P by (auto simp: appended_def)
  obtain d raw inputs where d: "findActionDefinition (eiKind (erItems input ! k)) (eiVersion (erItems input ! k)) = Some d"
    and ok: "\<not> missingInput d inputs"
    and ins: "insertAction (newActionRow (ids ! k) (erBeeId input) (n0 + int k) (erItems input ! k) d inputs
                (erIdempotencyKey input) t) s = Inr (u, s')"
    by (rule acceptItem_Inr [OF run])
  let ?r = "newActionRow (ids ! k) (erBeeId input) (n0 + int k) (erItems input ! k) d inputs (erIdempotencyKey input) t"
  have s': "actions s' = acts @ (rows @ [?r])" and fresh: "aId ?r \<notin> aId ` set (acts @ rows)"
    using insertAction_Inr [OF ins] rows(1) by (auto simp: list_ex_iff)
  have acc: "accepted_row input ids n0 t j ((rows @ [?r]) ! j)" if "j < Suc k" for j
  proof (cases "j = k")
    case True
    then show ?thesis using rows(2) d ok by (auto simp: accepted_row_def nth_append)
  next
    case False
    then show ?thesis using rows(2,3) that by (simp add: nth_append)
  qed
  show "appended input ids n0 t acts (Suc k) s'"
    unfolding appended_def
    by (rule exI [of _ "rows @ [?r]"]) (use s' acc rows fresh in auto)
qed

lemma collect_rows:
  assumes "list_all (\<lambda>r. find_row aId acts (aId r) = Some r) rows" and "actions s = acts"
  shows "collectM (map aId rows) mustGetAction s = Inr (rows, s)"
  using assms by (induction rows) (simp_all add: bindM_Inr mustGetAction_def getAction_def)

lemma accepted_row_id: "accepted_row input ids n0 t k r \<Longrightarrow> aId r = ids ! k"
  by (auto simp: accepted_row_def)

lemma appended_ids:
  assumes "appended input ids n0 t acts (length ids) s"
  obtains rows where "actions s = acts @ rows" and "map aId rows = ids"
    and "\<forall>k < length ids. accepted_row input ids n0 t k (rows ! k)"
    and "list_all (\<lambda>r. find_row aId (actions s) (aId r) = Some r) rows"
proof -
  obtain rows where rows: "actions s = acts @ rows" "length rows = length ids"
    "\<forall>j < length ids. accepted_row input ids n0 t j (rows ! j)"
    "distinct (map aId rows)" "\<forall>r \<in> set rows. aId r \<notin> aId ` set acts"
    using assms by (auto simp: appended_def)
  have "map aId rows = ids"
    using rows(2,3) accepted_row_id by (intro nth_equalityI) auto
  moreover have "find_row aId (acts @ rows) (aId r) = Some r" if "r \<in> set rows" for r
    using rows(4,5) that find_row_mem [OF rows(4) that] find_row_None [of aId acts "aId r"]
    by (auto simp: find_row_append)
  ultimately show ?thesis using that rows by (simp add: list_all_iff)
qed

section \<open>What the other steps leave alone\<close>

lemma frames_mint:
  assumes "\<And>s n. f (s\<lparr>rngPos := n\<rparr>) = f s"
  shows "frames f mintActionId"
proof -
  have id: "frames f mintId"
    unfolding mintId_def randomNibble_def random_def by (intro frame assms)
  have "frames f (mintFreeId n)" for n
  proof (induction n)
    case 0
    show ?case unfolding mintFreeId.simps [of 0] by (intro frame id) (simp add: frames_throw)
  next
    case (Suc n)
    show ?case unfolding mintFreeId.simps [of "Suc n"] by (intro frame id) (simp add: Suc)
  qed
  then show ?thesis by (simp add: mintActionId_def)
qed

lemma frames_acceptItem:
  assumes "\<And>s a. f (s\<lparr>actions := a\<rparr>) = f s"
  shows "frames f (acceptItem b key ids lane n0 t k item)"
proof (rule framesI)
  fix s u s' assume "acceptItem b key ids lane n0 t k item s = Inr (u, s')"
  then obtain d raw inputs where "insertAction (newActionRow (ids ! k) b (n0 + int k) item d inputs key t) s = Inr (u, s')"
    by (rule acceptItem_Inr)
  from insertAction_Inr [OF this] show "f s' = f s" using assms by simp
qed

lemma frames_ensure:
  assumes "\<And>s q. f (s\<lparr>actionQueues := q\<rparr>) = f s"
  shows "frames f (ensureActionQueue b)"
  unfolding ensureActionQueue_def mustGetBee_def by (intro frame assms)

lemma acceptEnqueue_run:
  assumes run: "acceptEnqueue input s = Inr (x, s')"
  obtains rows ids n0 t where "x = (rows, False)" and "actions s' = actions s @ rows" and "map aId rows = ids"
    and "length rows = length (erItems input)" and "\<forall>k < length rows. accepted_row input ids n0 t k (rows ! k)"
    and "list_all (\<lambda>r. find_row aId (actions s') (aId r) = Some r) rows"
    and "actionEnqueues s' = actionEnqueues s @
      [\<lparr>eIdempotencyKey = erIdempotencyKey input, eRequestHash = erRequestHash input, eBeeId = erBeeId input,
        eActionIds = ids, eCreatedAt = t\<rparr>]"
    and "\<exists>q. find_row qdBeeId (actionQueues s') (erBeeId input) = Some q \<and> qdNextPosition q = n0 + int (length rows)"
proof -
  let ?b = "erBeeId input" let ?items = "erItems input" let ?key = "erIdempotencyKey input"
  obtain queue s1 where ens: "ensureActionQueue ?b s = Inr (queue, s1)"
    and rest: "bindM (readM (\<lambda>s. listActionsOf s ?b)) (\<lambda>lane.
         bindM (collectM ?items (\<lambda>_. mintActionId)) (\<lambda>ids.
         bindM (readM clock) (\<lambda>t.
         bindM (eachM [0..<length ?items]
                  (\<lambda>index. acceptItem ?b ?key ids lane (qrwNextPosition queue) t index (?items ! index))) (\<lambda>_.
         bindM (collectM ids mustGetAction) (\<lambda>rows.
         bindM (modifyM (\<lambda>s. s\<lparr>actionQueues := update_rows (\<lambda>q. qdBeeId q = ?b)
                  (\<lambda>q. q\<lparr>qdNextPosition := qrwNextPosition queue + int (length ?items), qdUpdatedAt := t\<rparr>)
                  (actionQueues s)\<rparr>)) (\<lambda>_.
         bindM (modifyM (\<lambda>s. s\<lparr>actionEnqueues := actionEnqueues s @
                  [\<lparr>eIdempotencyKey = ?key, eRequestHash = erRequestHash input, eBeeId = ?b, eActionIds = ids, eCreatedAt = t\<rparr>]\<rparr>)) (\<lambda>_.
           returnM (rows, False)))))))) s1 = Inr (x, s')"
    using run unfolding acceptEnqueue_def Let_def by (auto simp: bindM_Inr mustGetBee_def split: option.splits)
  let ?n0 = "qrwNextPosition queue"
  obtain ids s2 u s3 rows s4 where ids: "collectM ?items (\<lambda>_. mintActionId) s1 = Inr (ids, s2)"
    and loop: "eachM [0..<length ?items]
        (\<lambda>index. acceptItem ?b ?key ids (listActionsOf s1 ?b) ?n0 (clock s2) index (?items ! index)) s2 = Inr (u, s3)"
    and got: "collectM ids mustGetAction s3 = Inr (rows, s4)" and x: "x = (rows, False)"
    and s': "actions s' = actions s4" "actionQueues s' = update_rows (\<lambda>q. qdBeeId q = ?b)
        (\<lambda>q. q\<lparr>qdNextPosition := ?n0 + int (length ?items), qdUpdatedAt := clock s2\<rparr>) (actionQueues s4)"
      "actionEnqueues s' = actionEnqueues s4 @
         [\<lparr>eIdempotencyKey = ?key, eRequestHash = erRequestHash input, eBeeId = ?b, eActionIds = ids, eCreatedAt = clock s2\<rparr>]"
    using rest by (auto simp: bindM_Inr)
  have len: "length ids = length ?items" by (rule collectM_length [OF ids])
  have acts2: "actions s2 = actions s"
    using framesD [OF frames_collect [OF frames_mint [of actions]] ids] framesD [OF frames_ensure [of actions] ens] by simp
  have "appended input ids ?n0 (clock s2) (actions s) 0 s2" by (simp add: appended_def acts2)
  moreover have items: "hoare (appended input ids ?n0 (clock s2) (actions s) 0)
      (eachM [0..<length ?items]
        (\<lambda>index. acceptItem ?b ?key ids (listActionsOf s1 ?b) ?n0 (clock s2) index (?items ! index)))
      (\<lambda>_. appended input ids ?n0 (clock s2) (actions s) (length ?items))"
    by (rule eachM_upt) (simp add: appended_step len)
  ultimately have "appended input ids ?n0 (clock s2) (actions s) (length ids) s3"
    using hoareD [OF items loop] len by simp
  then obtain rows' where rows': "actions s3 = actions s @ rows'" "map aId rows' = ids"
    "\<forall>k < length ids. accepted_row input ids ?n0 (clock s2) k (rows' ! k)"
    "list_all (\<lambda>r. find_row aId (actions s3) (aId r) = Some r) rows'"
    by (rule appended_ids)
  have "rows = rows' \<and> s4 = s3"
    using collect_rows [OF rows'(4) refl] got rows'(2) by simp
  moreover have "length rows' = length ?items" using rows'(2) len by (metis length_map)
  moreover have "actionEnqueues s4 = actionEnqueues s" "actionQueues s4 = actionQueues s1"
    using framesD [OF frames_ensure [of actionEnqueues] ens]
      framesD [OF frames_collect [OF frames_mint [of actionEnqueues]] ids]
      framesD [OF frames_collect [OF frames_mint [of actionQueues]] ids]
      framesD [OF frames_each [OF frames_acceptItem [of actionEnqueues]] loop]
      framesD [OF frames_each [OF frames_acceptItem [of actionQueues]] loop] \<open>rows = rows' \<and> s4 = s3\<close> by simp_all
  moreover obtain q where "find_row qdBeeId (actionQueues s1) ?b = Some q" by (rule ensureActionQueue_row [OF ens])
  ultimately show ?thesis
    using that [of rows ids ?n0 "clock s2"] x s' rows' len by (auto simp: find_row_update_key)
qed

section \<open>Accepted once\<close>

lemma withActionLaneAudit_body:
  assumes run: "withActionLaneAudit b reason fn s = Inr (x, s')" and log: "\<And>s l. f (s\<lparr>auditLog := l\<rparr>) = f s"
  obtains s1 where "fn s = Inr (x, s1)" and "f s' = f s1"
proof -
  from run obtain s1 s2 u v where fn: "fn s = Inr (x, s1)"
    and views: "auditActionViews reason (listActionViews s (Some b) []) (listActionViews s1 (Some b) []) s1 = Inr (u, s2)"
    and q: "auditActionQueue reason (getActionQueue s b) (getActionQueue s2 b) s2 = Inr (v, s')"
    unfolding withActionLaneAudit_def by (simp add: bindM_Inr thenM_def) blast
  have "frames f (auditActionViews r xs ys)" for r xs ys
    unfolding auditActionViews_def audit_def by (intro frame log)
  moreover have "frames f (auditActionQueue r xs ys)" for r xs ys
    unfolding auditActionQueue_def audit_def by (intro frame log)
  ultimately show ?thesis using that [OF fn] framesD views q by metis
qed

lemma enqueueActions_run:
  assumes "enqueueActions input s = Inr ((rows, False), s')"
  obtains n0 t where "getActionEnqueue s (erIdempotencyKey input) = None" and "erItems input \<noteq> []" and "erIdempotencyKey input \<noteq> []"
    and "actions s' = actions s @ rows" and "length rows = length (erItems input)"
    and "\<forall>k < length rows. accepted_row input (map aId rows) n0 t k (rows ! k)"
    and "list_all (\<lambda>r. find_row aId (actions s') (aId r) = Some r) rows"
    and "actionEnqueues s' = actionEnqueues s @
      [\<lparr>eIdempotencyKey = erIdempotencyKey input, eRequestHash = erRequestHash input, eBeeId = erBeeId input,
        eActionIds = map aId rows, eCreatedAt = t\<rparr>]"
    and "\<exists>q. find_row qdBeeId (actionQueues s') (erBeeId input) = Some q \<and> qdNextPosition q = n0 + int (length rows)"
proof -
  let ?f = "\<lambda>s. (actions s, actionQueues s, actionEnqueues s)"
  have ok: "erIdempotencyKey input \<noteq> []" "erItems input \<noteq> []"
    and run: "withActionLaneAudit (erBeeId input) ''accepted''
         (bindM (readM (\<lambda>s. getActionEnqueue s (erIdempotencyKey input))) (\<lambda>existing.
            case existing of Some e \<Rightarrow> replayEnqueue input e | None \<Rightarrow> acceptEnqueue input)) s = Inr ((rows, False), s')"
    using assms by (auto simp: enqueueActions_def bindM_Inr)
  obtain s1 where body: "bindM (readM (\<lambda>s. getActionEnqueue s (erIdempotencyKey input))) (\<lambda>existing.
            case existing of Some e \<Rightarrow> replayEnqueue input e | None \<Rightarrow> acceptEnqueue input) s = Inr ((rows, False), s1)"
    and same: "?f s' = ?f s1"
    by (rule withActionLaneAudit_body [OF run, where f = ?f]) simp_all
  have none: "getActionEnqueue s (erIdempotencyKey input) = None"
    using body by (cases "getActionEnqueue s (erIdempotencyKey input)") (auto simp: replayEnqueue_def bindM_Inr)
  then have acc: "acceptEnqueue input s = Inr ((rows, False), s1)" using body by simp
  show ?thesis
  proof (rule acceptEnqueue_run [OF acc])
    fix rows' ids n0 t
    assume "(rows, False) = (rows', False)" and "actions s1 = actions s @ rows'" and "map aId rows' = ids"
      and "length rows' = length (erItems input)" and "\<forall>k < length rows'. accepted_row input ids n0 t k (rows' ! k)"
      and "list_all (\<lambda>r. find_row aId (actions s1) (aId r) = Some r) rows'"
      and "actionEnqueues s1 = actionEnqueues s @
        [\<lparr>eIdempotencyKey = erIdempotencyKey input, eRequestHash = erRequestHash input, eBeeId = erBeeId input,
          eActionIds = ids, eCreatedAt = t\<rparr>]"
      and "\<exists>q. find_row qdBeeId (actionQueues s1) (erBeeId input) = Some q \<and> qdNextPosition q = n0 + int (length rows')"
    then show ?thesis using that [of n0 t] none ok same by simp
  qed
qed


text \<open>
  C10. A request is accepted once: the same request, sent again after it was accepted, answers the same
  rows, says that they are a repetition, and leaves the whole store as it is, the audit log included.
\<close>

theorem enqueueActions_replays:
  assumes "lane_inv s" and "enqueueActions input s = Inr ((rows, False), s')"
  shows "enqueueActions input s' = Inr ((rows, True), s')"
proof -
  obtain n0 t where ok: "getActionEnqueue s (erIdempotencyKey input) = None" "erItems input \<noteq> []" "erIdempotencyKey input \<noteq> []"
    and rows: "list_all (\<lambda>r. find_row aId (actions s') (aId r) = Some r) rows"
    and log: "actionEnqueues s' = actionEnqueues s @
      [\<lparr>eIdempotencyKey = erIdempotencyKey input, eRequestHash = erRequestHash input, eBeeId = erBeeId input,
        eActionIds = map aId rows, eCreatedAt = t\<rparr>]"
    by (rule enqueueActions_run [OF assms(2)])
  let ?e = "\<lparr>eIdempotencyKey = erIdempotencyKey input, eRequestHash = erRequestHash input, eBeeId = erBeeId input,
        eActionIds = map aId rows, eCreatedAt = t\<rparr>"
  have "getActionEnqueue s' (erIdempotencyKey input) = Some ?e"
    using ok(1) by (simp add: getActionEnqueue_def log find_row_append)
  moreover have present: "list_all (\<lambda>i. getAction s' i \<noteq> None) (map aId rows)"
    using rows by (simp add: list_all_iff getAction_def)
  then have "replayEnqueue input ?e s' = Inr ((rows, True), s')"
    using collect_rows [OF rows refl] by (simp add: replayEnqueue_def bindM_Inr)
  moreover have "lane_ids (actions s')"
    using lane_run [OF enqueueActions_keeps _ assms(2)] assms(1) by (simp add: lane_inv_def on_lane_def lane_ok_def)
  ultimately show ?thesis
    using ok by (simp add: enqueueActions_def withActionLaneAudit_idle bindM_Inr)
qed

end
