(* ===== verification/Action_Runs.thy ===== *)
theory Action_Runs
  imports Action_Enqueue
begin

text \<open>
  Concrete runs: with a source of randomness that always answers the same number, an id can be read
  off, and a request of one item is accepted. From these runs come the reachable states at which the
  properties of all reachable states are instantiated.
\<close>

section \<open>Minting with a constant source\<close>

definition nibble :: "rat \<Rightarrow> nat \<Rightarrow> nat" where
  "nibble c i = (if i = 12 then 4 else if i = 16 then 8 + nat \<lfloor>c * 4\<rfloor> else nat \<lfloor>c * 16\<rfloor>)"

definition constantId :: "rat \<Rightarrow> string" where
  "constantId c = concat (map (\<lambda>i. hex_digit (nibble c i) # (if i \<in> {7, 11, 15, 19} then ''-'' else [])) [0..<32])"

definition nibble_op :: "nat \<Rightarrow> string store_op" where
  "nibble_op = (\<lambda>i. bindM (if i = 12 then returnM 4
               else if i = 16 then bindM (randomNibble 4) (\<lambda>n. returnM (8 + n))
               else randomNibble 16)
          (\<lambda>n. returnM (hex_digit n # (if i \<in> {7, 11, 15, 19} then ''-'' else []))))"

lemma nibble_op_constant:
  assumes "\<And>n. rng s n = c"
  shows "\<exists>p. nibble_op i s = Inr (hex_digit (nibble c i) # (if i \<in> {7, 11, 15, 19} then ''-'' else []), s\<lparr>rngPos := p\<rparr>)"
proof (cases "i = 12")
  case True
  then show ?thesis by (intro exI [of _ "rngPos s"]) (simp add: nibble_op_def nibble_def)
next
  case False
  then show ?thesis
    using assms by (intro exI [of _ "Suc (rngPos s)"]) (simp add: nibble_op_def nibble_def bindM_def randomNibble_def random_def thenM_def)
qed

lemma collect_nibbles:
  assumes "\<And>n. rng s n = c"
  shows "\<exists>p. collectM xs nibble_op s
   = Inr (map (\<lambda>i. hex_digit (nibble c i) # (if i \<in> {7, 11, 15, 19} then ''-'' else [])) xs, s\<lparr>rngPos := p\<rparr>)"
  using assms
proof (induction xs arbitrary: s)
  case Nil
  then show ?case by (intro exI [of _ "rngPos s"]) simp
next
  case (Cons x xs)
  obtain p where x: "nibble_op x s = Inr (hex_digit (nibble c x) # (if x \<in> {7, 11, 15, 19} then ''-'' else []), s\<lparr>rngPos := p\<rparr>)"
    using nibble_op_constant [OF Cons.prems] by blast
  have "rng (s\<lparr>rngPos := p\<rparr>) k = c" for k using Cons.prems by simp
  from Cons.IH [OF this] obtain p' where
    "collectM xs nibble_op (s\<lparr>rngPos := p\<rparr>)
      = Inr (map (\<lambda>i. hex_digit (nibble c i) # (if i \<in> {7, 11, 15, 19} then ''-'' else [])) xs, s\<lparr>rngPos := p'\<rparr>)"
    by auto
  then show ?case using x by (intro exI [of _ p']) (simp add: bindM_def)
qed

lemma mintActionId_constant:
  assumes "\<And>n. rng s n = c" and "constantId c \<notin> aId ` set (actions s)"
  shows "\<exists>p. mintActionId s = Inr (constantId c, s\<lparr>rngPos := p\<rparr>)"
proof -
  obtain p where "mintId s = Inr (constantId c, s\<lparr>rngPos := p\<rparr>)"
    using collect_nibbles [of s c "[0..<32]", OF assms(1)]
    unfolding mintId_def constantId_def nibble_op_def [symmetric] by (auto simp: bindM_def)
  moreover have "getAction (s\<lparr>rngPos := p\<rparr>) (constantId c) = None"
    using assms(2) by (simp add: getAction_def find_row_None)
  ultimately show ?thesis
    by (intro exI [of _ p]) (simp add: mintActionId_def mintFreeId.simps [of 8] bindM_def)
qed

section \<open>A request of one item\<close>

definition sampleItem :: "string \<Rightarrow> enqueue_item" where
  "sampleItem kind = \<lparr>eiKind = kind, eiVersion = None, eiInputs = None, eiClientRef = None, eiTitle = None\<rparr>"

definition sampleRequest :: "string \<Rightarrow> string \<Rightarrow> string \<Rightarrow> enqueue_request" where
  "sampleRequest b key kind =
     \<lparr>erBeeId = b, erIdempotencyKey = key, erRequestHash = ''hash'',
      erItems = [sampleItem kind]\<rparr>"

lemma sampleRequest_simps [simp]:
  "erBeeId (sampleRequest b key kind) = b" "erIdempotencyKey (sampleRequest b key kind) = key"
  "erItems (sampleRequest b key kind) = [sampleItem kind]"
  "eiKind (sampleItem kind) = kind" "eiVersion (sampleItem kind) = None"
  by (simp_all add: sampleRequest_def sampleItem_def)

lemma acceptEnqueue_one:
  assumes ens: "ensureActionQueue b s0 = Inr (queue, s)" and bee: "getBee s0 b = Some bee"
    and rng: "\<And>n. rng s n = c" and fresh: "constantId c \<notin> aId ` set (actions s)"
    and pos: "\<And>a. a \<in> set (actions s) \<Longrightarrow> aBeeId a = b \<Longrightarrow> aPosition a \<noteq> qrwNextPosition queue"
    and d: "findActionDefinition kind None = Some d" "\<not> missingInput d []"
  shows "\<exists>s'. acceptEnqueue (sampleRequest b key kind) s0
      = Inr (([newActionRow (constantId c) b (qrwNextPosition queue) (sampleItem kind) d [] key (clock s)], False), s')
    \<and> actions s' = actions s @ [newActionRow (constantId c) b (qrwNextPosition queue) (sampleItem kind) d [] key (clock s)]
    \<and> actionQueues s' = update_rows (\<lambda>q. qdBeeId q = b)
        (\<lambda>q. q\<lparr>qdNextPosition := qrwNextPosition queue + 1, qdUpdatedAt := clock s\<rparr>) (actionQueues s)"
proof -
  obtain p where mint: "mintActionId s = Inr (constantId c, s\<lparr>rngPos := p\<rparr>)"
    using mintActionId_constant [OF rng fresh] by blast
  let ?s1 = "s\<lparr>rngPos := p\<rparr>"
  let ?r = "newActionRow (constantId c) b (qrwNextPosition queue) (sampleItem kind) d [] key (clock s)"
  let ?s2 = "?s1\<lparr>actions := actions s @ [?r]\<rparr>"
  have "\<not> list_ex (\<lambda>a. aId a = aId ?r \<or> (aBeeId a = aBeeId ?r \<and> aPosition a = aPosition ?r)) (actions s)"
    unfolding list_ex_iff newActionRow_simps using fresh pos by (metis imageI)
  then have item: "acceptItem b key [constantId c] lane (qrwNextPosition queue) (clock s) 0 (sampleItem kind) ?s1 = Inr ((), ?s2)" for lane
    using d by (simp add: acceptItem_def itemInputs_def insertAction_def thenM_def bindM_def requireM_def js_get_def
        object_prototype_members_def sampleItem_def)
  have "getAction ?s2 (constantId c) = Some ?r"
    using fresh find_row_None [of aId "actions s" "constantId c"] by (simp add: getAction_def find_row_append)
  then show ?thesis
    using bee ens mint item unfolding acceptEnqueue_def sampleRequest_simps Let_def
    by (simp add: mustGetBee_def mustGetAction_def bindM_def thenM_def)
qed

lemma enqueueActions_one:
  assumes "ensureActionQueue b s0 = Inr (queue, s)" and "getBee s0 b = Some bee"
    and "\<And>n. rng s n = c" and "constantId c \<notin> aId ` set (actions s)"
    and "\<And>a. a \<in> set (actions s) \<Longrightarrow> aBeeId a = b \<Longrightarrow> aPosition a \<noteq> qrwNextPosition queue"
    and "findActionDefinition kind None = Some d" and "\<not> missingInput d []"
    and key: "key \<noteq> []" "getActionEnqueue s0 key = None"
  shows "\<exists>s'. enqueueActions (sampleRequest b key kind) s0
      = Inr (([newActionRow (constantId c) b (qrwNextPosition queue) (sampleItem kind) d [] key (clock s)], False), s')
    \<and> actions s' = actions s @ [newActionRow (constantId c) b (qrwNextPosition queue) (sampleItem kind) d [] key (clock s)]
    \<and> actionQueues s' = update_rows (\<lambda>q. qdBeeId q = b)
        (\<lambda>q. q\<lparr>qdNextPosition := qrwNextPosition queue + 1, qdUpdatedAt := clock s\<rparr>) (actionQueues s)"
proof -
  let ?body = "bindM (readM (\<lambda>s. getActionEnqueue s key)) (\<lambda>existing.
            case existing of Some e \<Rightarrow> replayEnqueue (sampleRequest b key kind) e
            | None \<Rightarrow> acceptEnqueue (sampleRequest b key kind))"
  let ?row = "newActionRow (constantId c) b (qrwNextPosition queue) (sampleItem kind) d [] key (clock s)"
  obtain s1 where body: "?body s0 = Inr (([?row], False), s1)" and s1: "actions s1 = actions s @ [?row]"
      "actionQueues s1 = update_rows (\<lambda>q. qdBeeId q = b)
        (\<lambda>q. q\<lparr>qdNextPosition := qrwNextPosition queue + 1, qdUpdatedAt := clock s\<rparr>) (actionQueues s)"
    using acceptEnqueue_one [OF assms(1-7), of key] key(2) by auto
  from body obtain s' where "withActionLaneAudit b ''accepted'' ?body s0 = Inr (([?row], False), s')"
    and "actions s' = actions s1" "actionQueues s' = actionQueues s1"
    by (rule withActionLaneAudit_returns)
  then show ?thesis
    using key(1) s1 by (simp add: enqueueActions_def requireM_def)
qed

section \<open>Cancelling\<close>

text \<open>The row a cancellation leaves.\<close>

definition cancelledRow :: "action_row \<Rightarrow> int \<Rightarrow> action_row" where
  "cancelledRow row t =
     row\<lparr>aStatus := ACancelled, aWaitingReason := None, aWaitingDetail := None, aAttemptToken := None,
         aAttempts := closeActionAttempt row OCancelled t, aUpdatedAt := t, aFinishedAt := Some t,
         aResolvedInputs := map_option json_roundtrip (aResolvedInputs row), aResult := map_option stored_result (aResult row),
         aDispatchMessageId := Option.bind (aDispatch row) dpMessageId,
         aOperationKey := Option.bind (aDispatch row) dpOperationKey\<rparr>"

lemma withdrawInstruction_returns:
  assumes "\<forall>m \<in> set (mailbox s). mMailBatchId m = None"
  shows "\<exists>s'. withdrawInstruction row owner s = Inr ((), s') \<and> actions s' = actions s \<and> actionQueues s' = actionQueues s
    \<and> clock s' = clock s"
proof -
  have "\<exists>s'. removeOwnedMessage msg owner s = Inr ((), s') \<and> actions s' = actions s \<and> actionQueues s' = actionQueues s
      \<and> clock s' = clock s"
    if "getMessage s m = Some msg" for m msg
  proof -
    have "msg \<in> set (mailbox s)" using that find_row_Some [of mId "mailbox s" m msg] by (simp add: getMessage_def)
    then show ?thesis
      using assms by (simp add: removeOwnedMessage_def bindM_def thenM_def requireM_def audit_def)
  qed
  then show ?thesis
    by (auto simp: withdrawInstruction_def whenM_def bindM_def split: option.split)
qed

lemma cancelAction_run:
  assumes inv: "lane_inv s" and row: "getAction s i = Some row" and mail: "\<forall>m \<in> set (mailbox s). mMailBatchId m = None"
    and allowed: "kCancel (deriveActionControls row) \<or> (force \<and> kForceCancel (deriveActionControls row))"
  shows "\<exists>v s'. cancelAction i force s = Inr ((v, True), s') \<and> actions s' = put_row aId (cancelledRow row (clock s)) (actions s)
    \<and> actionQueues s' = actionQueues s"
proof -
  let ?c = "deriveActionControls row"
  obtain s1 where w: "(whenM (aExecutor row = XAgent) (withdrawInstruction row ''action.cancel'')) s = Inr ((), s1)"
    and same: "actions s1 = actions s" "clock s1 = clock s" "actionQueues s1 = actionQueues s"
    using withdrawInstruction_returns [OF mail, of row "''action.cancel''"] by (cases "aExecutor row = XAgent") (auto simp: whenM_def)
  let ?patch = "\<lambda>r. r\<lparr>aStatus := ACancelled, aWaitingReason := None, aWaitingDetail := None,
                             aAttemptToken := None, aAttempts := closeActionAttempt row OCancelled (clock s),
                             aFailure := aFailure row, aFinishedAt := Some (clock s)\<rparr>"
  let ?r = "patched ?patch None None (clock s1) row"
  let ?s2 = "s1\<lparr>actions := put_row aId ?r (actions s1)\<rparr>"
  have get1: "getAction s1 i = Some row" using row same by (simp add: getAction_def)
  have live: "aStatus row \<noteq> ASucceeded" "aStatus row \<noteq> ACancelled"
    using allowed by (auto simp: deriveActionControls_def Let_def actionIsActive_def)
  then have legal: "actionTransitionLegal (aStatus row) (aStatus (?patch row))"
    by (cases "aStatus row") (simp_all add: actionTransitionLegal_def)
  have ids: "lane_ids (actions s1)" using inv same by (simp add: lane_inv_def lane_ok_def)
  have upd: "updateActionRow i ?patch None None s1 = Inr (?r, ?s2)"
    by (rule updateActionRow_returns [where patch = ?patch, OF ids get1 legal]) simp
  have "getAction ?s2 i = Some ?r"
    by (rule getAction_put [OF get1]) (simp_all add: patched_def getAction_Some [OF get1])
  note view = actionView_returns [OF this]
  have r: "?r = cancelledRow row (clock s)"
    by (simp add: patched_def actionColumns_def cancelledRow_def same)
  have terminal: "\<not> (is_terminal row \<and> \<not> kCancel ?c)"
    using live by (auto simp: is_terminal_def ACTION_TERMINAL_STATUSES_def deriveActionControls_def Let_def)
  have "\<exists>s'. cancelAction i force s = Inr ((actionViewOf ?s2 ?r, True), s')
      \<and> actions s' = actions ?s2 \<and> actionQueues s' = actionQueues ?s2"
    unfolding cancelAction_def Let_def
    by (rule inLane_run [OF row]) (use allowed terminal w upd view in \<open>auto simp: requireM_def bindM_def\<close>)
  then obtain s' where c: "cancelAction i force s = Inr ((actionViewOf ?s2 ?r, True), s')" "actions s' = actions ?s2" "actionQueues s' = actionQueues ?s2"
    by blast
  have "actions s' = put_row aId (cancelledRow row (clock s)) (actions s)" using c(2) unfolding r by (simp add: same)
  moreover have "actionQueues s' = actionQueues s" using c(3) by (simp add: same)
  ultimately show ?thesis using c(1) by blast
qed

definition cancelAllowed :: "action_row \<Rightarrow> bool \<Rightarrow> bool" where
  "cancelAllowed row force \<longleftrightarrow> kCancel (deriveActionControls row) \<or> (force \<and> kForceCancel (deriveActionControls row))"



section \<open>Offering\<close>

lemma mintActionToken_returns: "\<exists>token p. mintActionToken s = Inr (token, s\<lparr>rngPos := p\<rparr>)"
proof -
  have "\<exists>token p. collectM xs (\<lambda>_. bindM (randomNibble 16) (\<lambda>n. returnM (hex_digit n))) s = Inr (token, s\<lparr>rngPos := p\<rparr>)"
    for xs :: "nat list"
  proof (induction xs arbitrary: s)
    case Nil
    then show ?case by (intro exI [of _ "[]"] exI [of _ "rngPos s"]) simp
  next
    case (Cons x xs)
    let ?s1 = "s\<lparr>rngPos := rngPos s + 1\<rparr>"
    obtain token p where "collectM xs (\<lambda>_. bindM (randomNibble 16) (\<lambda>n. returnM (hex_digit n))) ?s1 = Inr (token, ?s1\<lparr>rngPos := p\<rparr>)"
      using Cons.IH [of ?s1] by blast
    then show ?case
      by (intro exI [of _ "hex_digit (nat \<lfloor>rng s (rngPos s) * 16\<rfloor>) # token"] exI [of _ p])
        (simp add: bindM_def randomNibble_def random_def thenM_def)
  qed
  then show ?thesis unfolding mintActionToken_def by blast
qed

text \<open>The row an offer to an external executor leaves: a new attempt, with a new token, that waits to be claimed.\<close>

definition offeredRow :: "action_row \<Rightarrow> string \<Rightarrow> string \<Rightarrow> jobject \<Rightarrow> nat option \<Rightarrow> int \<Rightarrow> action_row" where
  "offeredRow row detail token r generation t =
     (let attempt = aAttempt row + 1; key = actionOperationKey (aId row) attempt
      in row\<lparr>aStatus := AWaiting, aWaitingReason := Some WExecutor, aWaitingDetail := Some detail,
             aAttempt := attempt, aAttemptToken := Some token, aResolvedInputs := Some (json_roundtrip r),
             aDispatch := Some (newDispatch attempt t generation None (Some key) None),
             aDispatchMessageId := None, aOperationKey := Some key,
             aProgress := None, aQuestionId := None, aResult := None, aFailure := None, aUpdatedAt := t\<rparr>)"

lemma holdActionForExecutor_run:
  assumes inv: "lane_inv s" and row: "getAction s i = Some row" "aStatus row = AQueued" "aExecutor row = XExternal"
    and inputs: "resolveActionInputs (aInputs row) (getAction s) = Resolved r"
  shows "\<exists>token v s'. holdActionForExecutor i detail s = Inr (v, s')
    \<and> actions s' = put_row aId (offeredRow row detail token r (currentGeneration s (aBeeId row)) (clock s)) (actions s)
    \<and> actionQueues s' = actionQueues s"
proof -
  obtain token p where token: "mintActionToken s = Inr (token, s\<lparr>rngPos := p\<rparr>)"
    using mintActionToken_returns by blast
  let ?s1 = "s\<lparr>rngPos := p\<rparr>"
  let ?attempt = "aAttempt row + 1" let ?key = "actionOperationKey i ?attempt"
  let ?patch = "\<lambda>a. a\<lparr>aStatus := AWaiting, aWaitingReason := Some WExecutor, aWaitingDetail := Some detail,
                           aAttempt := ?attempt, aAttemptToken := Some token, aResolvedInputs := Some r,
                           aDispatch := Some (newDispatch ?attempt (clock s) (currentGeneration s (aBeeId row)) None (Some ?key) None),
                           aProgress := None, aQuestionId := None, aResult := None, aFailure := None\<rparr>"
  let ?r = "patched ?patch (Some None) (Some (Some ?key)) (clock ?s1) row"
  let ?s2 = "?s1\<lparr>actions := put_row aId ?r (actions ?s1)\<rparr>"
  have id: "aId row = i" using getAction_Some [OF row(1)] by simp
  have get1: "getAction ?s1 i = Some row" using row(1) by (simp add: getAction_def)
  have ids: "lane_ids (actions ?s1)" using inv by (simp add: lane_inv_def lane_ok_def)
  have upd: "updateActionRow i ?patch (Some None) (Some (Some ?key)) ?s1 = Inr (?r, ?s2)"
    by (rule updateActionRow_returns [where patch = ?patch, OF ids get1]) (simp_all add: row(2) actionTransitionLegal_def)
  have "getAction ?s2 i = Some ?r"
    by (rule getAction_put [OF get1]) (simp_all add: patched_def id)
  note view = actionView_returns [OF this]
  have gen: "currentGeneration ?s1 b = currentGeneration s b" for b by (simp add: currentGeneration_def currentRuntime_def)
  have offer: "offerAction i row detail s = Inr (actionViewOf ?s2 ?r, ?s2)"
    using row inputs token upd view gen
    by (simp add: offerAction_def resolveForDispatch_def bindM_def Let_def)
  have r: "?r = offeredRow row detail token r (currentGeneration s (aBeeId row)) (clock s)"
    by (simp add: patched_def actionColumns_def offeredRow_def Let_def id)
  have "\<exists>s'. inLane i ''executor_unavailable'' (\<lambda>row.
           if aStatus row = AWaiting \<and> aWaitingReason row = Some WExecutor
           then bindM (if aWaitingDetail row \<noteq> Some detail
                       then bindM (updateActionRow i (\<lambda>a. a\<lparr>aWaitingDetail := Some detail\<rparr>) None None) (\<lambda>_. returnM ())
                       else returnM ()) (\<lambda>_. actionView i)
           else bindM (requireM (aStatus row = AQueued) (ActionRefusedError i)) (\<lambda>_. offerAction i row detail)) s
      = Inr (actionViewOf ?s2 ?r, s') \<and> actions s' = actions ?s2 \<and> actionQueues s' = actionQueues ?s2"
    by (rule inLane_run [OF row(1)]) (simp add: row(2) requireM_def offer)
  then obtain s' where "holdActionForExecutor i detail s = Inr (actionViewOf ?s2 ?r, s')"
      and acts: "actions s' = actions ?s2" "actionQueues s' = actionQueues ?s2"
    using row by (auto simp: holdActionForExecutor_def bindM_def mustGetAction_def)
  moreover have "actions s' = put_row aId (offeredRow row detail token r (currentGeneration s (aBeeId row)) (clock s)) (actions s)"
    using acts(1) unfolding r by simp
  ultimately show ?thesis using acts(2) by (intro exI [of _ token] exI [of _ "actionViewOf ?s2 ?r"] exI [of _ s']) simp
qed

section \<open>Reachable states\<close>

text \<open>
  A run of the system: a request queues a push, a second one another push, the first is cancelled, and
  a pass of the scheduler offers the second to the external executors.
\<close>

definition sampleSched :: "core \<Rightarrow> sched" where
  "sampleSched c = \<lparr>scStore = c, scActionBees = [], scHot = [], scDeadlines = [], scCalls = []\<rparr>"

definition pushDefinition :: action_definition where
  "pushDefinition = the (findActionDefinition ''push'' None)"

lemma pushDefinition: "findActionDefinition ''push'' None = Some pushDefinition" "\<not> missingInput pushDefinition []"
  "dExecutor pushDefinition = XExternal" "dKind pushDefinition = ''push''"
  unfolding pushDefinition_def by code_simp+

definition pushQueue :: "int \<Rightarrow> action_queue_db list" where
  "pushQueue n = [\<lparr>qdBeeId = ''bee1'', qdPaused = False, qdPausedAt = None, qdNextPosition = n, qdCreatedAt = 1000, qdUpdatedAt = 1000\<rparr>]"

definition pushCore :: "rat \<Rightarrow> action_queue_db list \<Rightarrow> action_row list \<Rightarrow> core" where
  "pushCore c qs acts = (sampleCore acts)\<lparr>rng := (\<lambda>_. c), actionQueues := qs\<rparr>"

lemma pushCore_simps [simp]:
  "actions (pushCore c qs acts) = acts" "actionQueues (pushCore c qs acts) = qs" "clock (pushCore c qs acts) = 1000"
  "rng (pushCore c qs acts) n = c" "bees (pushCore c qs acts) = [sampleBee]" "getActionEnqueue (pushCore c qs acts) k = None"
  "getBee (pushCore c qs acts) ''bee1'' = Some sampleBee" "mailbox (pushCore c qs acts) = []"
  by (simp_all add: pushCore_def getActionEnqueue_def getBee_def sampleCore_def sampleBee_def)

definition push1 :: action_row where
  "push1 = newActionRow (constantId 0) ''bee1'' 1 (sampleItem ''push'') pushDefinition [] ''k1'' 1000"

definition push2 :: action_row where
  "push2 = newActionRow (constantId (1/2)) ''bee1'' 2 (sampleItem ''push'') pushDefinition [] ''k2'' 1000"

lemma push_ids [simp]: "aId push1 = constantId 0" "aId push2 = constantId (1/2)" "constantId 0 \<noteq> constantId (1/2)"
proof -
  have "constantId 0 = ''00000000-0000-4000-8000-000000000000''" "constantId (1/2) = ''88888888-8888-4888-a888-888888888888''"
    by (simp_all add: constantId_def nibble_def upt_rec hex_digit_def) (code_simp+)
  then show "constantId 0 \<noteq> constantId (1/2)" by simp
qed (simp_all add: push1_def push2_def)

lemma reachable_same:
  assumes "reachable s" and "actions c = actions (scStore s)" and "actionQueues c = actionQueues (scStore s)"
  shows "reachable (sampleSched c)"
  using reachable.step [OF assms(1) system_step.other] assms(2,3) by (simp add: sampleSched_def)

lemma storeP_store: "m (scStore s) = Inr (x, st) \<Longrightarrow> scStore (snd (storeP m s)) = st"
  by (simp add: storeP_def)

lemma enqueue_push1:
  "\<exists>s'. enqueueActions (sampleRequest ''bee1'' ''k1'' ''push'') (pushCore 0 [] []) = Inr (([push1], False), s')
    \<and> actions s' = [push1] \<and> actionQueues s' = pushQueue 2"
proof -
  let ?c0 = "pushCore 0 [] []"
  let ?c1 = "?c0\<lparr>actionQueues := pushQueue 1\<rparr>"
  have ens: "ensureActionQueue ''bee1'' ?c0 = Inr (mapActionQueue ?c1 (hd (pushQueue 1)), ?c1)"
    by (simp add: ensureActionQueue_def getActionQueue_def getQueueDb_def bindM_def mustGetBee_def thenM_def pushQueue_def)
  have next1: "qrwNextPosition (mapActionQueue ?c1 (hd (pushQueue 1))) = 1"
    unfolding cursor_mapActionQueue by (simp add: pushQueue_def)
  show ?thesis
    using enqueueActions_one [OF ens, where c = 0 and kind = "''push''" and key = "''k1''" and d = pushDefinition]
    unfolding next1 push1_def by (auto simp: pushDefinition update_rows_def pushQueue_def)
qed

lemma reachable_push1: "reachable (sampleSched (pushCore c (pushQueue 2) [push1]))"
proof -
  let ?c0 = "pushCore 0 [] []"
  have start: "reachable (sampleSched ?c0)" by (rule reachable.start) (simp_all add: sampleSched_def)
  obtain s' where run: "enqueueActions (sampleRequest ''bee1'' ''k1'' ''push'') ?c0 = Inr (([push1], False), s')"
    and s': "actions s' = [push1]" "actionQueues s' = pushQueue 2"
    using enqueue_push1 by blast
  let ?m = "enqueueActions (sampleRequest ''bee1'' ''k1'' ''push'')"
  have "reachable (snd (storeP ?m (sampleSched ?c0)))"
    by (rule reachable.step [OF start], rule system_step.enqueue) (rule prod.collapse [symmetric])
  then show ?thesis
    by (rule reachable_same) (use s' run storeP_store [of ?m "sampleSched ?c0"] in \<open>simp_all add: sampleSched_def\<close>)
qed

text \<open>Both pushes queued.\<close>

lemma reachable_pushes: "reachable (sampleSched (pushCore c (pushQueue 3) [push1, push2]))"
proof -
  let ?c0 = "pushCore (1/2) (pushQueue 2) [push1]"
  have start: "reachable (sampleSched ?c0)" by (rule reachable_push1)
  have ens: "ensureActionQueue ''bee1'' ?c0 = Inr (mapActionQueue ?c0 (hd (pushQueue 2)), ?c0)"
    by (simp add: ensureActionQueue_def getActionQueue_def getQueueDb_def pushQueue_def)
  have next2: "qrwNextPosition (mapActionQueue ?c0 (hd (pushQueue 2))) = 2"
    unfolding cursor_mapActionQueue by (simp add: pushQueue_def)
  have pos: "aPosition a \<noteq> 2" if "a \<in> set (actions ?c0)" for a
    using that by (simp add: push1_def)
  obtain s' where run: "enqueueActions (sampleRequest ''bee1'' ''k2'' ''push'') ?c0 = Inr (([push2], False), s')"
    and s': "actions s' = [push1, push2]" "actionQueues s' = pushQueue 3"
    using enqueueActions_one [OF ens, where c = "1/2" and kind = "''push''" and key = "''k2''" and d = pushDefinition] pos
    unfolding next2 push2_def by (auto simp: pushDefinition update_rows_def pushQueue_def push_ids(3) [symmetric])
  let ?m = "enqueueActions (sampleRequest ''bee1'' ''k2'' ''push'')"
  have "reachable (snd (storeP ?m (sampleSched ?c0)))"
    by (rule reachable.step [OF start], rule system_step.enqueue) (rule prod.collapse [symmetric])
  then show ?thesis
    by (rule reachable_same) (use s' run storeP_store [of ?m "sampleSched ?c0"] in \<open>simp_all add: sampleSched_def\<close>)
qed

text \<open>The first one cancelled: the second one is now the head of the lane.\<close>

definition releaseCore :: core where
  "releaseCore = pushCore 0 (pushQueue 3) [cancelledRow push1 1000, push2]"

lemma reachable_releaseCore: "reachable (sampleSched releaseCore)"
proof -
  let ?c0 = "pushCore 0 (pushQueue 3) [push1, push2]"
  have start: "reachable (sampleSched ?c0)" by (rule reachable_pushes)
  have inv: "lane_inv ?c0" using reachable_ok [OF start] by (simp add: lane_inv_def sampleSched_def)
  have row: "getAction ?c0 (constantId 0) = Some push1" by (simp add: getAction_def)
  have queued: "kCancel (deriveActionControls push1)"
    by (simp add: deriveActionControls_def Let_def push1_def newActionRow_def)
  obtain v s' where run: "cancelAction (constantId 0) False ?c0 = Inr ((v, True), s')"
    and acts: "actions s' = put_row aId (cancelledRow push1 1000) [push1, push2]"
    and queues: "actionQueues s' = pushQueue 3"
    using cancelAction_run [OF inv row, of False] queued by auto
  let ?m = "cancelAction (constantId 0) False"
  have "reachable (snd (storeP ?m (sampleSched ?c0)))"
    by (rule reachable.step [OF start], rule system_step.cancel) (rule prod.collapse [symmetric])
  moreover have "put_row aId (cancelledRow push1 1000) [push1, push2] = [cancelledRow push1 1000, push2]"
    by (simp add: put_row_def update_rows_def cancelledRow_def push_ids(3) [symmetric])
  ultimately show ?thesis
    unfolding releaseCore_def
    by (elim reachable_same) (use acts queues run storeP_store [of ?m "sampleSched ?c0"] in \<open>simp_all add: sampleSched_def\<close>)
qed

text \<open>The pass offers the second one; it is then the active action of the lane.\<close>

definition pushHold :: string where
  "pushHold = ''no external executor has claimed kind '' @ [CHR 0x27] @ ''push'' @ [CHR 0x27] @ '' yet (claim through action.claim)''"

definition offeredCore :: "string \<Rightarrow> core" where
  "offeredCore token = pushCore 0 (pushQueue 3)
     [cancelledRow push1 1000, offeredRow push2 pushHold token [] (Some 1) 1000]"

lemma releaseCore_rows:
  "getAction releaseCore (constantId (1/2)) = Some push2" "lanePaused releaseCore ''bee1'' = Some False"
  "currentGeneration releaseCore ''bee1'' = Some 1"
  unfolding releaseCore_def
  by (simp_all add: cancelledRow_def getAction_def lanePaused_def getActionQueue_def getQueueDb_def pushQueue_def
      mapActionQueue_def Let_def currentGeneration_def currentRuntime_def pushCore_def sampleRuntime_def)

lemma releaseCore_bee: "getBee releaseCore ''bee1'' = Some sampleBee"
  unfolding releaseCore_def by (rule pushCore_simps)

lemma releaseCore_lane:
  "listActionsOf releaseCore ''bee1'' = [cancelledRow push1 1000, push2]" "listOpenActionBeeIds releaseCore = [''bee1'']"
  unfolding releaseCore_def
  by (simp_all add: listOpenActionBeeIds_def listActionsOf_def cancelledRow_def push1_def push2_def newActionRow_def
      ACTION_OPEN_STATUSES_def)

lemma releaseCore_release:
  "List.find actionIsActive [cancelledRow push1 1000, push2] = None" "releasedAction [cancelledRow push1 1000, push2] = Some push2"
  by (simp_all add: releasedAction_def cancelledRow_def push1_def push2_def newActionRow_def actionIsActive_def
      actionPredecessor_def)

lemma push2_row:
  "aStatus push2 = AQueued" "aExecutor push2 = XExternal" "aBeeId push2 = ''bee1''" "aInputs push2 = []"
  "dispatchAction exec push2 = holdP (constantId (1/2)) pushHold"
  by (simp_all add: push2_def newActionRow_def pushDefinition dispatchAction_def pushHold_def)

lemma reachable_offeredCore: "\<exists>token. reachable (sampleSched (offeredCore token))"
proof -
  let ?s0 = "(sampleSched releaseCore)\<lparr>scActionBees := [''bee1'']\<rparr>"
  have start: "reachable (sampleSched releaseCore)" by (rule reachable_releaseCore)
  have inv: "lane_inv releaseCore" using reachable_ok [OF start] by (simp add: lane_inv_def sampleSched_def)
  have res: "resolveActionInputs (aInputs push2) (getAction releaseCore) = Resolved []"
    unfolding push2_row by (simp add: resolveActionInputs_def)
  have base: "clock releaseCore = 1000" "actions releaseCore = [cancelledRow push1 1000, push2]" "actionQueues releaseCore = pushQueue 3"
    by (simp_all add: releaseCore_def)
  obtain token v s' where run: "holdActionForExecutor (constantId (1/2)) pushHold releaseCore = Inr (v, s')"
    and acts: "actions s' = put_row aId (offeredRow push2 pushHold token [] (Some 1) 1000) [cancelledRow push1 1000, push2]"
    and queues: "actionQueues s' = pushQueue 3"
    using holdActionForExecutor_run [OF inv releaseCore_rows(1) push2_row(1,2) res, of pushHold]
    unfolding base push2_row releaseCore_rows by blast
  have lane: "reconcileActionLane None ''bee1'' ?s0 = holdP (constantId (1/2)) pushHold ?s0"
    using releaseCore_rows(2) releaseCore_bee releaseCore_lane(1) releaseCore_release push2_row
    by (simp add: reconcileActionLane_def sampleSched_def)
  have pass: "scStore (snd (reconcileActions None None (sampleSched releaseCore))) = s'"
    using lane run releaseCore_lane(2)
    by (simp add: reconcileActions_def holdP_def storeP_def bindP_def returnP_def sampleSched_def set_add_def)
  have step: "reachable (snd (reconcileActions None None (sampleSched releaseCore)))"
    by (rule reachable.step [OF start], rule system_step.pass) (rule prod.collapse [symmetric])
  have "actions s' = [cancelledRow push1 1000, offeredRow push2 pushHold token [] (Some 1) 1000]"
    unfolding acts by (simp add: put_row_def update_rows_def offeredRow_def Let_def cancelledRow_def)
  then have "reachable (sampleSched (offeredCore token))"
    using queues by (intro reachable_same [OF step]) (simp_all add: pass offeredCore_def)
  then show ?thesis by blast
qed

section \<open>The properties at these states\<close>

lemma offered_active: "actionIsActive (offeredRow push2 pushHold token [] (Some 1) 1000)"
  by (simp add: actionIsActive_def offeredRow_def Let_def)

theorem reachable_lane_inv_witness: "lane_inv releaseCore"
  using reachable_lane_inv [OF reachable_releaseCore] by (simp add: sampleSched_def)

theorem reachable_one_active_witness:
  "\<exists>token. reachable (sampleSched (offeredCore token))
    \<and> (\<forall>a \<in> set (actions (offeredCore token)). actionIsActive a \<and> aBeeId a = ''bee1''
         \<longrightarrow> a = offeredRow push2 pushHold token [] (Some 1) 1000)"
proof -
  obtain token where token: "reachable (sampleSched (offeredCore token))" using reachable_offeredCore by blast
  let ?b = "offeredRow push2 pushHold token [] (Some 1) 1000"
  have b: "?b \<in> set (actions (scStore (sampleSched (offeredCore token))))" "aBeeId ?b = ''bee1''"
    by (simp_all add: sampleSched_def offeredCore_def) (simp add: offeredRow_def Let_def push2_row)
  have "a = ?b" if "a \<in> set (actions (offeredCore token))" "actionIsActive a" "aBeeId a = ''bee1''" for a
    by (rule reachable_one_active [OF token _ b(1) _ that(2) offered_active]) (use that b in \<open>simp_all add: sampleSched_def\<close>)
  then show ?thesis using token by blast
qed

theorem reachable_in_order_witness: "aStatus (cancelledRow push1 1000) \<in> {ASucceeded, ACancelled}"
proof -
  obtain token where token: "reachable (sampleSched (offeredCore token))" using reachable_offeredCore by blast
  show ?thesis
    by (rule reachable_in_order [OF token, where b = "offeredRow push2 pushHold token [] (Some 1) 1000"])
      (simp_all add: sampleSched_def offeredCore_def offeredRow_def Let_def cancelledRow_def push1_def push2_def newActionRow_def)
qed

theorem reachable_release_witness:
  "aStatus push2 = AQueued \<and> aStatus (cancelledRow push1 1000) \<in> {ASucceeded, ACancelled}"
proof -
  have "releasedAction (listActionsOf (scStore (sampleSched releaseCore)) ''bee1'') = Some push2"
    using releaseCore_lane(1) releaseCore_release by (simp add: sampleSched_def)
  note release = reachable_release [OF reachable_releaseCore this]
  have "cancelledRow push1 1000 \<in> set (actions (scStore (sampleSched releaseCore)))" "aBeeId (cancelledRow push1 1000) = ''bee1''"
    "aPosition (cancelledRow push1 1000) < aPosition push2"
    by (simp_all add: sampleSched_def releaseCore_def cancelledRow_def push1_def push2_def newActionRow_def)
  then show ?thesis using release by blast
qed


theorem enqueueActions_replays_witness:
  "\<exists>s'. enqueueActions (sampleRequest ''bee1'' ''k1'' ''push'') (pushCore 0 [] []) = Inr (([push1], False), s')
     \<and> enqueueActions (sampleRequest ''bee1'' ''k1'' ''push'') s' = Inr (([push1], True), s')"
proof -
  obtain s' where run: "enqueueActions (sampleRequest ''bee1'' ''k1'' ''push'') (pushCore 0 [] []) = Inr (([push1], False), s')"
    using enqueue_push1 by blast
  have "reachable (sampleSched (pushCore 0 [] []))" by (rule reachable.start) (simp_all add: sampleSched_def)
  then have "lane_inv (pushCore 0 [] [])" using reachable_ok by (fastforce simp: lane_inv_def sampleSched_def)
  from enqueueActions_replays [OF this run] run show ?thesis by blast
qed

end
