(* ===== verification/Task_Lists.thy ===== *)
theory Task_Lists
  imports Tasks Samples
begin

text \<open>
  What the task lists promise. A reference to a list survives formatting and parsing; every operation
  changes the table by steps of one small abstract lifecycle (\<open>task_write\<close>); from the lifecycle follow
  the invariants of the table, the finality of closed tasks and the exclusiveness of claims; moving a
  task places it next to its anchor; and the supply feeds a task only under its six conditions, at most
  as often as its limit allows.
\<close>

section \<open>Trimming\<close>

lemma white_prefix_zero: "[] \<notin> set ws \<Longrightarrow> white_prefix ws s = 0 \<longleftrightarrow> (\<forall>p \<in> set ws. \<not> starts_with p s)"
  by (auto simp: white_prefix_def starts_with_def find_None_iff find_Some_iff split: option.split) (metis nth_mem)

lemma white_prefix_take: "[] \<notin> set ws \<Longrightarrow> white_prefix ws s = 0 \<Longrightarrow> white_prefix ws (take k s) = 0"
  unfolding white_prefix_zero starts_with_def by (metis length_take min.absorb_iff2 nle_le take_all_iff take_take)

lemma white_prefix_hd: "[] \<notin> set ws \<Longrightarrow> c \<notin> hd ` set ws \<Longrightarrow> white_prefix ws (c # s) = 0"
  unfolding white_prefix_zero starts_with_def
  by (metis image_eqI length_greater_0_conv list.sel(1) neq_Nil_conv take_Suc_Cons length_Cons)

lemma trim_front_stops: "[] \<notin> set ws \<Longrightarrow> length s \<le> n \<Longrightarrow> white_prefix ws (trim_front ws s n) = 0"
proof (induction ws s n rule: trim_front.induct)
  case (1 ws s)
  then show ?case by (auto simp: white_prefix_zero starts_with_def)
qed auto

lemma trim_front_drop: "\<exists>k. trim_front ws s n = drop k s"
proof (induction ws s n rule: trim_front.induct)
  case (1 ws s)
  then show ?case by (intro exI [of _ 0]) simp
next
  case (2 ws s n)
  then show ?case by (cases "white_prefix ws s = 0") (auto intro: exI [of _ 0] simp: drop_drop)
qed

definition trimmed :: "string \<Rightarrow> bool" where
  "trimmed s \<longleftrightarrow> white_prefix js_white s = 0 \<and> white_prefix (map rev js_white) (rev s) = 0"

lemma js_white_nonempty: "[] \<notin> set js_white" "[] \<notin> set (map rev js_white)"
  by (auto simp: js_white_def)

lemma trim_front_fixed: "white_prefix ws s = 0 \<Longrightarrow> trim_front ws s n = s"
  by (cases n) simp_all

lemma js_trim_fixed: "trimmed s \<Longrightarrow> js_trim s = s"
  by (simp add: js_trim_def trimmed_def trim_front_fixed)

lemma trimmed_js_trim: "trimmed (js_trim s)"
proof -
  let ?front = "trim_front js_white s (length s)"
  obtain k where k: "trim_front (map rev js_white) (rev ?front) (length ?front) = drop k (rev ?front)"
    using trim_front_drop by blast
  have "js_trim s = take (length ?front - k) ?front"
    by (simp add: js_trim_def Let_def k rev_drop)
  moreover have "white_prefix js_white ?front = 0"
    by (rule trim_front_stops [OF js_white_nonempty(1)]) simp
  moreover have "white_prefix (map rev js_white) (rev (js_trim s)) = 0"
    unfolding js_trim_def Let_def rev_rev_ident by (rule trim_front_stops [OF js_white_nonempty(2)]) simp
  ultimately show ?thesis
    unfolding trimmed_def using white_prefix_take [OF js_white_nonempty(1)] by simp
qed

section \<open>References to lists\<close>

lemma trimmed_bare:
  assumes "list_name v"
  shows "trimmed (''bee:'' @ v)"
proof -
  obtain c w where v: "rev v = c # w" and c: "list_name_char c"
    using assms by (cases "rev v") (auto simp: list_name_def list_all_iff simp flip: set_rev [of v])
  have "list_all (\<lambda>p. \<not> list_name_char (hd p)) (map rev js_white)" "list_all (\<lambda>p. hd p \<noteq> CHR ''b'') js_white"
    by code_simp+
  then have "c \<notin> hd ` set (map rev js_white)" "CHR ''b'' \<notin> hd ` set js_white"
    using c by (auto simp: list_all_iff)
  then show ?thesis
    using white_prefix_hd [OF js_white_nonempty(1)] white_prefix_hd [OF js_white_nonempty(2)] v by (simp add: trimmed_def)
qed

lemma format_split:
  "takeWhile (\<lambda>c. c \<noteq> CHR '':'') (formatTaskList k n) = list_kind_text k"
  "dropWhile (\<lambda>c. c \<noteq> CHR '':'') (formatTaskList k n) = CHR '':'' # n"
  by (cases k; simp add: formatTaskList_def list_kind_text_def)+

lemma parse_format:
  assumes "trimmed (formatTaskList k n)" and "n \<noteq> []" and "k = LkShared \<longrightarrow> list_name n"
  shows "parseTaskListRef (formatTaskList k n) = Inr (k, n)"
  unfolding parseTaskListRef_def js_trim_fixed [OF assms(1)] Let_def format_split
  using assms(2,3) by (cases k) (auto simp: list_kind_text_def formatTaskList_def)

text \<open>
  A reference to a task list has one normal form: whatever a client wrote, the list it names
  formats to a reference that parses to the same list again, and this reference is trimmed text of the
  form kind, colon, name.
\<close>

theorem parseTaskListRef_roundtrip:
  assumes "parseTaskListRef raw = Inr (k, n)"
  shows "parseTaskListRef (formatTaskList k n) = Inr (k, n) \<and> n \<noteq> [] \<and> (k = LkShared \<longrightarrow> list_name n)"
proof -
  let ?v = "js_trim raw"
  have trim: "trimmed ?v" by (rule trimmed_js_trim)
  have split: "?v = takeWhile (\<lambda>c. c \<noteq> CHR '':'') ?v @ dropWhile (\<lambda>c. c \<noteq> CHR '':'') ?v" by simp
  have "trimmed (formatTaskList k n) \<and> n \<noteq> [] \<and> (k = LkShared \<longrightarrow> list_name n)"
  proof (cases "dropWhile (\<lambda>c. c \<noteq> CHR '':'') ?v")
    case Nil
    then have "k = LkBee" "n = ?v" "list_name ?v"
      using assms [unfolded parseTaskListRef_def Let_def Nil list.case] by (simp_all split: if_splits)
    then show ?thesis using trimmed_bare [of ?v] by (simp add: formatTaskList_def list_kind_text_def list_name_def)
  next
    case (Cons c name)
    then have c: "c = CHR '':''" using hd_dropWhile [of "\<lambda>c. c \<noteq> CHR '':''" ?v] unfolding Cons by (simp only: list.sel list.distinct simp_thms)
    have kind: "takeWhile (\<lambda>c. c \<noteq> CHR '':'') ?v = list_kind_text k" "name = n" "n \<noteq> []" "k = LkShared \<longrightarrow> list_name n"
      using assms [unfolded parseTaskListRef_def Let_def Cons list.case]
      by (auto simp: list_kind_text_def split: if_splits)
    then have "formatTaskList k n = ?v" using split Cons c by (simp add: formatTaskList_def)
    then show ?thesis using trim kind by simp
  qed
  then show ?thesis using parse_format by simp
qed

theorem parseTaskListRef_roundtrip_witness:
  "parseTaskListRef (formatTaskList LkShared ''release-1'') = Inr (LkShared, ''release-1'')
   \<and> parseTaskListRef (formatTaskList LkBee ''worker'') = Inr (LkBee, ''worker'')"
proof -
  have "parseTaskListRef '' shared:release-1 '' = Inr (LkShared, ''release-1'')" "parseTaskListRef ''worker'' = Inr (LkBee, ''worker'')"
    by code_simp+
  then show ?thesis
    using parseTaskListRef_roundtrip [of "'' shared:release-1 ''"] parseTaskListRef_roundtrip [of "''worker''"] by blast
qed

section \<open>The lifecycle of a task\<close>

text \<open>
  The abstract lifecycle. A row is well formed when its columns agree with its status; a step rewrites
  one row as \<open>task_change\<close> allows, to an order that no other row of its list has, or appends a new
  pending row, or replaces message ids (the store does so when it merges mail into a batch).
\<close>

definition list_owner_ok :: "string option \<Rightarrow> string \<Rightarrow> bool" where
  "list_owner_ok b l = (case b of Some b \<Rightarrow> l = beeTaskList b | None \<Rightarrow> isSharedTaskList l)"

definition task_row_ok :: "task_row \<Rightarrow> bool" where
  "task_row_ok t \<longleftrightarrow>
     (tOriginKind t = ToSelf \<longrightarrow> \<not> tAuto t)
     \<and> (tClosedAt t = None \<longleftrightarrow> tStatus t \<in> {TPending, TQueued, TInProgress})
     \<and> (tStatus t = TPending \<longrightarrow> tClaimedBy t = None \<and> tFedAt t = None)
     \<and> (tStatus t = TQueued \<longrightarrow> tFedAt t \<noteq> None)
     \<and> list_owner_ok (tBeeId t) (tList t)"

definition task_ok :: "task_row list \<Rightarrow> bool" where
  "task_ok ts \<longleftrightarrow> distinct (map tId ts) \<and> distinct (map (\<lambda>t. (tList t, tOrder t)) ts) \<and> (\<forall>t \<in> set ts. task_row_ok t)"

definition closed_task :: "task_row \<Rightarrow> bool" where
  "closed_task t \<longleftrightarrow> tStatus t \<in> {TDone, TCancelled}"

text \<open>What no operation ever changes of a task.\<close>

definition task_identity :: "task_row \<Rightarrow> string \<times> string \<times> string option \<times> jobject option \<times> task_origin \<times> string \<times> string option \<times> int" where
  "task_identity t = (tId t, tList t, tBeeId t, tContext t, tOriginKind t, tOriginSender t, tQuestId t, tCreatedAt t)"

definition task_change :: "task_row \<Rightarrow> task_row \<Rightarrow> bool" where
  "task_change t t' \<longleftrightarrow>
     task_identity t' = task_identity t
     \<and> (closed_task t \<longrightarrow> tStatus t' = tStatus t \<and> tClosedAt t' = tClosedAt t)
     \<and> (tStatus t \<noteq> TPending \<longrightarrow> tStatus t' \<noteq> TPending \<and> tClaimedBy t' = tClaimedBy t \<and> tFedAt t' = tFedAt t)
     \<and> task_row_ok t'"

inductive task_write :: "task_row list \<Rightarrow> task_row list \<Rightarrow> bool" where
  rewrite: "\<lbrakk>t \<in> set ts; task_change t r; \<forall>u \<in> set ts. tId u \<noteq> tId t \<longrightarrow> tList u = tList t \<longrightarrow> tOrder u \<noteq> tOrder r\<rbrakk> \<Longrightarrow>
    task_write ts (put_row tId r ts)"
| append: "\<lbrakk>tId r \<notin> tId ` set ts; tStatus r = TPending; task_row_ok r; \<forall>u \<in> set ts. tList u = tList r \<longrightarrow> tOrder u < tOrder r\<rbrakk> \<Longrightarrow>
    task_write ts (ts @ [r])"
| relink: "task_write ts (map (\<lambda>t. t\<lparr>tMailboxMessageId := g (tMailboxMessageId t)\<rparr>) ts)"

lemma task_ok_find: "task_ok ts \<Longrightarrow> t \<in> set ts \<Longrightarrow> find_row tId ts (tId t) = Some t"
  by (simp add: task_ok_def find_row_mem)

lemma put_row_at: "distinct (map tId ts) \<Longrightarrow> ts = xs @ t # ys \<Longrightarrow> tId r = tId t \<Longrightarrow> put_row tId r ts = xs @ r # ys"
  by (force simp: put_row_def update_rows_def image_iff intro!: map_idI)

lemma task_write_ok: "task_write ts ts' \<Longrightarrow> task_ok ts \<Longrightarrow> task_ok ts'"
proof (induction rule: task_write.induct)
  case (rewrite t ts r)
  then obtain xs ys where ts: "ts = xs @ t # ys" by (meson split_list)
  have same: "tId r = tId t" "tList r = tList t" "task_row_ok r"
    using rewrite.hyps(2) by (simp_all add: task_change_def task_identity_def)
  have put: "put_row tId r ts = xs @ r # ys"
    using put_row_at [OF _ ts same(1)] rewrite.prems by (simp add: task_ok_def)
  have other: "u \<in> set xs \<union> set ys \<Longrightarrow> tList u = tList t \<Longrightarrow> tOrder u \<noteq> tOrder r" for u
    using rewrite.hyps(3) rewrite.prems ts by (auto simp: task_ok_def image_iff)
  have fresh: "(tList r, tOrder r) \<notin> (\<lambda>t. (tList t, tOrder t)) ` (set xs \<union> set ys)"
  proof
    assume "(tList r, tOrder r) \<in> (\<lambda>t. (tList t, tOrder t)) ` (set xs \<union> set ys)"
    then obtain u where "u \<in> set xs \<union> set ys" "tList u = tList r" "tOrder u = tOrder r" by force
    then show False using other same(2) by metis
  qed
  show ?case
    using rewrite.prems same fresh unfolding put by (simp add: task_ok_def ts image_Un)
next
  case (append r ts)
  then have "(tList r, tOrder r) \<notin> (\<lambda>t. (tList t, tOrder t)) ` set ts" by auto
  then show ?case using append by (auto simp: task_ok_def)
next
  case (relink ts g)
  then show ?case by (simp add: task_ok_def o_def task_row_ok_def)
qed

text \<open>What a run of steps does to one task.\<close>

definition task_evolves :: "task_row \<Rightarrow> task_row \<Rightarrow> bool" where
  "task_evolves t t' \<longleftrightarrow>
     task_identity t' = task_identity t
     \<and> (closed_task t \<longrightarrow> tStatus t' = tStatus t \<and> tClosedAt t' = tClosedAt t)
     \<and> (tStatus t \<noteq> TPending \<longrightarrow> tStatus t' \<noteq> TPending \<and> tClaimedBy t' = tClaimedBy t \<and> tFedAt t' = tFedAt t)"

lemma task_evolves_refl: "task_evolves t t"
  by (simp add: task_evolves_def)

lemma task_evolves_trans: "task_evolves t u \<Longrightarrow> task_evolves u v \<Longrightarrow> task_evolves t v"
  by (auto simp: task_evolves_def closed_task_def)

lemma task_write_evolves:
  "task_write ts ts' \<Longrightarrow> task_ok ts \<Longrightarrow> t \<in> set ts \<Longrightarrow> \<exists>t' \<in> set ts'. task_evolves t t'"
proof (induction rule: task_write.induct)
  case (rewrite u ts r)
  have r: "task_evolves u r" "tId r = tId u"
    using rewrite.hyps(2) by (auto simp: task_change_def task_evolves_def task_identity_def)
  show ?case
  proof (cases "tId t = tId u")
    case True
    then have "t = u" using rewrite.prems rewrite.hyps(1) by (auto simp: task_ok_def distinct_map inj_on_def)
    then show ?thesis using r rewrite.hyps(1) put_row_self [of tId r ts] by auto
  next
    case False
    then show ?thesis using r rewrite.prems(2) put_row_other [of t ts tId r] task_evolves_refl by auto
  qed
next
  case (append r ts)
  then show ?case using task_evolves_refl by auto
next
  case (relink ts g)
  then show ?case by (auto simp: task_evolves_def task_identity_def)
qed

lemma task_writes:
  "task_write\<^sup>*\<^sup>* ts ts' \<Longrightarrow> task_ok ts \<Longrightarrow> task_ok ts' \<and> (\<forall>t \<in> set ts. \<exists>t' \<in> set ts'. task_evolves t t')"
proof (induction rule: rtranclp_induct)
  case base
  then show ?case using task_evolves_refl by blast
next
  case (step ts1 ts2)
  then have ok: "task_ok ts1" "\<forall>t \<in> set ts. \<exists>t' \<in> set ts1. task_evolves t t'" by blast+
  have "\<exists>t' \<in> set ts2. task_evolves t t'" if "t \<in> set ts" for t
    using that ok task_write_evolves [OF step.hyps(2) ok(1)] task_evolves_trans by meson
  then show ?case using task_write_ok [OF step.hyps(2) ok(1)] by blast
qed

section \<open>The operations follow the lifecycle\<close>

interpretation task_tables: mail_port "\<lambda>s. (tasks s, taskSupplies s, questions s)" "\<lambda>_. True"
  by unfold_locales simp_all

interpretation task_table: supply_port tasks "\<lambda>_. True"
  by unfold_locales simp_all

lemma task_tables_audit [frame]: "frames (\<lambda>s. (tasks s, taskSupplies s, questions s)) (audit ev)"
  by (rule task_tables.frames_audit) simp

lemma frames_laneAudit [frame]:
  assumes "frames (\<lambda>s. (tasks s, taskSupplies s, questions s)) m"
  shows "frames (\<lambda>s. (tasks s, taskSupplies s, questions s)) (withActionLaneAudit b reason m)"
  unfolding withActionLaneAudit_def auditActionViews_def auditActionQueue_def Let_def
  using assms by (intro frame)

lemma frames_dispatchCanceled [frame]: "frames (\<lambda>s. (tasks s, taskSupplies s, questions s)) (applyActionDispatchCanceled m t)"
  unfolding applyActionDispatchCanceled_def failActionRow_def updateActionRow_def putAction_def mustGetAction_def Let_def
  by (intro frame) simp_all

lemma frames_withdrawFeed: "frames (\<lambda>s. (tasks s, taskSupplies s, questions s)) (withdrawFeed t)"
  unfolding withdrawFeed_def cancelMessageInternal_def by (intro frame)

lemma getTask_Some: "getTask s i = Some t \<Longrightarrow> t \<in> set (tasks s) \<and> tId t = i"
  unfolding getTask_def by (rule find_row_Some)

lemma mustGetTask_Inr: "mustGetTask i s = Inr (t, s') \<longleftrightarrow> getTask s i = Some t \<and> s' = s"
  by (auto simp: mustGetTask_def bindM_def split: option.split)

lemma update_task:
  assumes "distinct (map tId ts)" and "find_row tId ts i = Some t" and "tId (f t) = i"
  shows "update_rows (\<lambda>t. tId t = i) f ts = put_row tId (f t) ts"
proof -
  have "r = t" if "r \<in> set ts" "tId r = i" for r
    using find_row_mem [OF assms(1) that(1)] assms(2) that(2) by simp
  then show ?thesis using assms(3) by (simp add: put_row_def update_rows_def)
qed

lemma writeTask_Inr:
  assumes run: "writeTask i f s = Inr (r, s')" and ids: "distinct (map tId (tasks s))" and key: "\<And>t. tId (f t) = tId t"
  obtains t where "getTask s i = Some t" and "r = f t" and "tasks s' = put_row tId r (tasks s)"
    and "taskSupplies s' = taskSupplies s" and "questions s' = questions s"
proof -
  let ?s1 = "s\<lparr>tasks := update_rows (\<lambda>t. tId t = i) f (tasks s)\<rparr>"
  from run have r: "getTask ?s1 i = Some r" and s': "s' = ?s1\<lparr>auditLog := auditLog s @ [EvTaskPut r ''updated'']\<rparr>"
    by (auto simp: writeTask_def bindM_Inr mustGetTask_Inr audit_def)
  from r key obtain t where t: "getTask s i = Some t" "r = f t"
    by (auto simp: getTask_def find_row_update_key)
  have "update_rows (\<lambda>t. tId t = i) f (tasks s) = put_row tId r (tasks s)"
    using update_task [OF ids, of i t f] t key getTask_Some [OF t(1)] by (simp add: getTask_def)
  then show thesis using that [OF t] by (simp add: s')
qed

text \<open>A rewrite that leaves the order alone is a step of the lifecycle.\<close>

lemma task_write_put:
  assumes "task_ok ts" and "t \<in> set ts" and "task_change t r" and "tOrder r = tOrder t"
  shows "task_write ts (put_row tId r ts)"
proof (rule task_write.rewrite [OF assms(2,3)], intro ballI impI)
  fix u assume "u \<in> set ts" "tId u \<noteq> tId t" "tList u = tList t"
  then show "tOrder u \<noteq> tOrder r"
    using assms by (auto simp: task_ok_def distinct_map inj_on_def)
qed

lemma withdrawFeed_tables:
  assumes "whenM w (withdrawFeed t) s = Inr (x, s')"
  shows "tasks s' = tasks s" and "taskSupplies s' = taskSupplies s" and "questions s' = questions s"
  using framesD [OF frames_when [OF frames_withdrawFeed] assms] by simp_all

text \<open>The row a transition leaves.\<close>

definition transitioned :: "task_row \<Rightarrow> task_transition \<Rightarrow> string option \<Rightarrow> int \<Rightarrow> task_row" where
  "transitioned cur act reason t =
     (let closing = act \<in> set CLOSING_TASK_ACTIONS;
          withdraw = (tStatus cur = TQueued \<and> closing \<and> tMailboxMessageId cur \<noteq> None)
      in cur\<lparr>tStatus := fst (TASK_TRANSITIONS act), tUpdatedAt := t,
             tClosedAt := (if closing then Some t else if act = TtStart then None else tClosedAt cur),
             tBlockedReason := (if act = TtBlock then (case reason of Some x \<Rightarrow> Some x | None \<Rightarrow> tBlockedReason cur)
                                else if act = TtStart then None else tBlockedReason cur),
             tMailboxMessageId := (if withdraw then None else tMailboxMessageId cur)\<rparr>)"

lemma transitionTask_run:
  assumes run: "transitionTask i act reason s = Inr (r, s')" and ids: "distinct (map tId (tasks s))"
  obtains cur where "getTask s i = Some cur" and "tStatus cur \<in> set (snd (TASK_TRANSITIONS act))"
    and "r = transitioned cur act reason (clock s)" and "tasks s' = put_row tId r (tasks s)"
    and "taskSupplies s' = taskSupplies s"
proof -
  from run obtain cur s1 where cur: "getTask s i = Some cur" "tStatus cur \<in> set (snd (TASK_TRANSITIONS act))"
    and w: "whenM (tStatus cur = TQueued \<and> act \<in> set CLOSING_TASK_ACTIONS \<and> tMailboxMessageId cur \<noteq> None) (withdrawFeed cur) s = Inr ((), s1)"
    and wr: "writeTask i (\<lambda>r. r\<lparr>tStatus := fst (TASK_TRANSITIONS act), tUpdatedAt := clock s,
                tClosedAt := (if act \<in> set CLOSING_TASK_ACTIONS then Some (clock s) else if act = TtStart then None else tClosedAt cur),
                tBlockedReason := (if act = TtBlock then (case reason of Some x \<Rightarrow> Some x | None \<Rightarrow> tBlockedReason cur)
                                   else if act = TtStart then None else tBlockedReason cur),
                tMailboxMessageId := (if tStatus cur = TQueued \<and> act \<in> set CLOSING_TASK_ACTIONS \<and> tMailboxMessageId cur \<noteq> None
                                      then None else tMailboxMessageId cur)\<rparr>) s1 = Inr (r, s')"
    by (auto simp: transitionTask_def bindM_Inr mustGetTask_Inr Let_def)
  note same = withdrawFeed_tables [OF w]
  have ids1: "distinct (map tId (tasks s1))" using ids same by simp
  obtain t where t: "getTask s1 i = Some t" "tasks s' = put_row tId r (tasks s1)" "taskSupplies s' = taskSupplies s1"
    and r: "r = t\<lparr>tStatus := fst (TASK_TRANSITIONS act), tUpdatedAt := clock s,
                tClosedAt := (if act \<in> set CLOSING_TASK_ACTIONS then Some (clock s) else if act = TtStart then None else tClosedAt cur),
                tBlockedReason := (if act = TtBlock then (case reason of Some x \<Rightarrow> Some x | None \<Rightarrow> tBlockedReason cur)
                                   else if act = TtStart then None else tBlockedReason cur),
                tMailboxMessageId := (if tStatus cur = TQueued \<and> act \<in> set CLOSING_TASK_ACTIONS \<and> tMailboxMessageId cur \<noteq> None
                                      then None else tMailboxMessageId cur)\<rparr>"
    by (rule writeTask_Inr [OF wr ids1]) simp_all
  have "t = cur" using t(1) cur(1) same by (simp add: getTask_def)
  then have "r = transitioned cur act reason (clock s)" using r by (simp only: transitioned_def Let_def)
  then show thesis by (rule that [OF cur]) (simp_all only: t same)
qed

lemma transitioned_change:
  assumes "task_row_ok cur" and "tStatus cur \<in> set (snd (TASK_TRANSITIONS act))"
  shows "task_change cur (transitioned cur act reason t)"
proof -
  let ?r = "transitioned cur act reason t"
  have act: "fst (TASK_TRANSITIONS act) \<noteq> TPending" "fst (TASK_TRANSITIONS act) \<noteq> TQueued"
    "act \<in> set CLOSING_TASK_ACTIONS \<longleftrightarrow> fst (TASK_TRANSITIONS act) \<noteq> TInProgress" "act \<notin> set CLOSING_TASK_ACTIONS \<Longrightarrow> act = TtStart"
    by (cases act; simp add: CLOSING_TASK_ACTIONS_def)+
  have cur: "\<not> closed_task cur"
    using assms(2) by (cases act) (auto simp: closed_task_def)
  have row: "tStatus ?r = fst (TASK_TRANSITIONS act)" "tClosedAt ?r = (if act \<in> set CLOSING_TASK_ACTIONS then Some t else None)"
    using act(4) by (auto simp: transitioned_def Let_def)
  have same: "task_identity ?r = task_identity cur" "tClaimedBy ?r = tClaimedBy cur" "tFedAt ?r = tFedAt cur" "tAuto ?r = tAuto cur"
    "tOriginKind ?r = tOriginKind cur" "tBeeId ?r = tBeeId cur" "tList ?r = tList cur"
    by (simp_all add: transitioned_def Let_def task_identity_def)
  show ?thesis
    using assms(1) act cur unfolding task_change_def task_row_ok_def same row by simp
qed

lemma transitionTask_writes:
  assumes "transitionTask i act reason s = Inr (r, s')" and ok: "task_ok (tasks s)"
  shows "task_write (tasks s) (tasks s')"
proof -
  obtain cur where cur: "getTask s i = Some cur" "tStatus cur \<in> set (snd (TASK_TRANSITIONS act))"
    and r: "r = transitioned cur act reason (clock s)" and s': "tasks s' = put_row tId r (tasks s)"
    using transitionTask_run [OF assms(1)] ok by (auto simp: task_ok_def)
  have "cur \<in> set (tasks s)" "task_row_ok cur" using getTask_Some [OF cur(1)] ok by (auto simp: task_ok_def)
  then show ?thesis
    unfolding s' r by (intro task_write_put [OF ok, of cur] transitioned_change cur(2)) (simp_all add: transitioned_def Let_def)
qed

lemma set_listTasks:
  "set (listTasks s l b sts) = {t \<in> set (tasks s). (case l of None \<Rightarrow> True | Some l \<Rightarrow> tList t = l)
     \<and> (case b of None \<Rightarrow> True | Some b \<Rightarrow> tBeeId t = Some b) \<and> (sts = [] \<or> tStatus t \<in> set sts)}"
  by (simp add: listTasks_def)

lemma find_SomeD: "List.find P xs = Some x \<Longrightarrow> x \<in> set xs \<and> P x"
  by (auto simp: find_Some_iff)

lemma task_row_of: "task_ok ts \<Longrightarrow> t \<in> set ts \<Longrightarrow> task_row_ok t"
  by (simp add: task_ok_def)

text \<open>The row a claim leaves.\<close>

definition claimedTask :: "task_row \<Rightarrow> string \<Rightarrow> int \<Rightarrow> task_row" where
  "claimedTask task who t = task\<lparr>tStatus := TInProgress, tClaimedBy := Some who, tUpdatedAt := t\<rparr>"

lemma claimTask_run:
  assumes run: "claimTask l who s = Inr (out, s')" and ok: "task_ok (tasks s)"
  shows "case List.find (\<lambda>t. tClaimedBy t = None) (listTasks s (Some l) None [TPending]) of
           None \<Rightarrow> out = None \<and> s' = s
         | Some t \<Rightarrow> out = Some (claimedTask t who (clock s)) \<and> tasks s' = put_row tId (claimedTask t who (clock s)) (tasks s)
             \<and> taskSupplies s' = taskSupplies s \<and> t \<in> set (tasks s) \<and> tStatus t = TPending"
proof (cases "List.find (\<lambda>t. tClaimedBy t = None) (listTasks s (Some l) None [TPending])")
  case None
  then show ?thesis using run by (auto simp: claimTask_def bindM_Inr requireNonEmpty_def split: option.splits list.splits)
next
  case (Some t)
  then have t: "t \<in> set (tasks s)" "tStatus t = TPending"
    using find_SomeD [OF Some] by (auto simp: set_listTasks)
  have get: "getTask s (tId t) = Some t" using task_ok_find [OF ok t(1)] by (simp add: getTask_def)
  have ids: "distinct (map tId (tasks s))" using ok by (simp add: task_ok_def)
  obtain r where wr: "writeTask (tId t) (\<lambda>r. r\<lparr>tStatus := TInProgress, tClaimedBy := Some who, tUpdatedAt := clock s\<rparr>) s = Inr (r, s')"
    and out: "out = Some r"
    using run Some by (auto simp: claimTask_def bindM_Inr requireNonEmpty_def split: list.splits)
  obtain t' where t': "getTask s (tId t) = Some t'" "r = t'\<lparr>tStatus := TInProgress, tClaimedBy := Some who, tUpdatedAt := clock s\<rparr>"
    and s': "tasks s' = put_row tId r (tasks s)" "taskSupplies s' = taskSupplies s"
    by (rule writeTask_Inr [OF wr ids]) simp_all
  have "r = claimedTask t who (clock s)" using t' get by (simp add: claimedTask_def)
  then show ?thesis using Some out s' t by simp
qed

lemma claimedTask_change: "task_row_ok t \<Longrightarrow> tStatus t = TPending \<Longrightarrow> task_change t (claimedTask t who c)"
  by (simp add: task_change_def task_identity_def task_row_ok_def closed_task_def claimedTask_def)

lemma claimTask_writes:
  assumes "claimTask l who s = Inr (out, s')" and ok: "task_ok (tasks s)"
  shows "task_write\<^sup>*\<^sup>* (tasks s) (tasks s')"
proof (cases "List.find (\<lambda>t. tClaimedBy t = None) (listTasks s (Some l) None [TPending])")
  case None
  then show ?thesis using claimTask_run [OF assms] by simp
next
  case (Some t)
  then have t: "t \<in> set (tasks s)" "tStatus t = TPending" and s': "tasks s' = put_row tId (claimedTask t who (clock s)) (tasks s)"
    using claimTask_run [OF assms] by simp_all
  have "task_change t (claimedTask t who (clock s))"
    using claimedTask_change task_row_of [OF ok t(1)] t(2) by blast
  then show ?thesis unfolding s' by (intro r_into_rtranclp task_write_put [OF ok t(1)]) (simp_all add: claimedTask_def)
qed

lemma editTask_writes:
  assumes run: "editTask i title body auto s = Inr (r, s')" and ok: "task_ok (tasks s)"
  shows "task_write (tasks s) (tasks s')" and "taskSupplies s' = taskSupplies s"
proof -
  have ids: "distinct (map tId (tasks s))" using ok by (simp add: task_ok_def)
  have check: "x = Inr (u, s1) \<Longrightarrow> s1 = s" if "x = (case title of
              None \<Rightarrow> returnM y
            | Some v \<Rightarrow> bindM (requireNonEmpty (Some v) ''editTask: title'') (\<lambda>v. bindM (checkTitle v) (\<lambda>_. returnM v))) s" for x y u s1
    using that by (auto simp: bindM_Inr requireNonEmpty_def checkTitle_def split: option.splits list.splits)
  from run obtain cur title' s1 where cur: "getTask s i = Some cur"
    and title: "(case title of
              None \<Rightarrow> returnM (tTitle cur)
            | Some v \<Rightarrow> bindM (requireNonEmpty (Some v) ''editTask: title'') (\<lambda>v. bindM (checkTitle v) (\<lambda>_. returnM v))) s = Inr (title', s1)"
    and wr: "writeTask i (\<lambda>r. r\<lparr>tTitle := title', tBody := (case body of Some b \<Rightarrow> b | None \<Rightarrow> tBody cur),
         tAuto := (case auto of None \<Rightarrow> tAuto cur | Some a \<Rightarrow> a \<and> tOriginKind cur \<noteq> ToSelf), tUpdatedAt := clock s1\<rparr>) s1 = Inr (r, s')"
    unfolding editTask_def bindM_Inr mustGetTask_Inr by auto
  have s1: "s1 = s" using check [OF title [symmetric]] by simp
  obtain t where t: "getTask s i = Some t" "tasks s' = put_row tId r (tasks s)" "taskSupplies s' = taskSupplies s"
    and r: "r = t\<lparr>tTitle := title', tBody := (case body of Some b \<Rightarrow> b | None \<Rightarrow> tBody cur),
         tAuto := (case auto of None \<Rightarrow> tAuto cur | Some a \<Rightarrow> a \<and> tOriginKind cur \<noteq> ToSelf), tUpdatedAt := clock s\<rparr>"
    by (rule writeTask_Inr [OF wr [unfolded s1] ids]) simp_all
  have t': "t = cur" "cur \<in> set (tasks s)" using t(1) cur getTask_Some [OF cur] by simp_all
  have row: "task_row_ok cur" using task_row_of [OF ok t'(2)] .
  then have "tAuto r \<longrightarrow> tOriginKind cur \<noteq> ToSelf"
    by (auto simp: r task_row_ok_def split: option.splits)
  then have "task_change cur r"
    using row unfolding r t'(1) by (simp add: task_change_def task_identity_def task_row_ok_def closed_task_def split: option.splits)
  then show "task_write (tasks s) (tasks s')"
    unfolding t(2) by (rule task_write_put [OF ok t'(2)]) (simp add: r t'(1))
  show "taskSupplies s' = taskSupplies s" by (rule t(3))
qed

lemma maybeStall_writes:
  assumes run: "maybeStallFedTask b s = Inr (out, s')" and ok: "task_ok (tasks s)"
  shows "task_write\<^sup>*\<^sup>* (tasks s) (tasks s')" and "taskSupplies s' = taskSupplies s"
proof -
  have ids: "distinct (map tId (tasks s))" using ok by (simp add: task_ok_def)
  have "task_write\<^sup>*\<^sup>* (tasks s) (tasks s') \<and> taskSupplies s' = taskSupplies s"
  proof (cases "tasks s' = tasks s \<and> taskSupplies s' = taskSupplies s")
    case False
    then obtain t r where t: "t \<in> set (tasks s)"
      and wr: "writeTask (tId t) (\<lambda>r. r\<lparr>tStalledAt := Some (clock s), tUpdatedAt := clock s\<rparr>) s = Inr (r, s')"
      using run by (auto simp: maybeStallFedTask_def bindM_Inr set_listTasks dest!: find_SomeD split: if_splits option.splits)
    have get: "getTask s (tId t) = Some t" using task_ok_find [OF ok t] by (simp add: getTask_def)
    obtain t' where t': "getTask s (tId t) = Some t'" "tasks s' = put_row tId r (tasks s)" "taskSupplies s' = taskSupplies s"
      and r: "r = t'\<lparr>tStalledAt := Some (clock s), tUpdatedAt := clock s\<rparr>"
      by (rule writeTask_Inr [OF wr ids]) simp_all
    have [simp]: "t' = t" using t'(1) get by simp
    have "task_change t r"
      using task_row_of [OF ok t] by (simp add: r task_change_def task_identity_def task_row_ok_def closed_task_def)
    then have "task_write (tasks s) (tasks s')" unfolding t'(2) by (rule task_write_put [OF ok t]) (simp add: r)
    then show ?thesis using t'(3) by blast
  qed simp
  then show "task_write\<^sup>*\<^sup>* (tasks s) (tasks s')" and "taskSupplies s' = taskSupplies s" by simp_all
qed

section \<open>Adding\<close>

lemma maxOrder_ge: "t \<in> set ts \<Longrightarrow> tOrder t \<le> maxOrder ts"
proof -
  have "m \<le> foldl (\<lambda>m t. max m (tOrder t)) m ts \<and> (\<forall>t \<in> set ts. tOrder t \<le> foldl (\<lambda>m t. max m (tOrder t)) m ts)" for m
  proof (induction ts arbitrary: m)
    case (Cons t ts)
    from Cons.IH [of "max m (tOrder t)"] show ?case by auto
  qed simp
  then show "t \<in> set ts \<Longrightarrow> tOrder t \<le> maxOrder ts" by (simp add: maxOrder_def)
qed

lemma insertTask_run:
  assumes run: "insertTask input title ref ctx auto s = Inr (r, s')"
  shows "\<exists>i. r = newTask i (if fst ref = LkBee then beeTaskList (snd ref) else formatTaskList LkShared (snd ref))
        (if fst ref = LkBee then Some (snd ref) else None) title ctx auto
        (maxOrder (listTasks s (Some (if fst ref = LkBee then beeTaskList (snd ref) else formatTaskList LkShared (snd ref))) None []) + ORDER_STEP)
        input (clock s)
      \<and> getTask s i = None \<and> tasks s' = tasks s @ [r] \<and> taskSupplies s' = taskSupplies s"
  using run unfolding insertTask_def Let_def bindM_Inr
  by (auto simp: bindM_Inr mustGetBee_def audit_def randomUUID_def thenM_def getTask_def listTasks_def split: if_splits option.splits)

lemma addTask_run:
  assumes run: "addTask input s = Inr ((r, warned), s')"
  obtains k n title ctx i where "parseTaskListRef (adList input) = Inr (k, n)" and "adTitle input = Some title" and "title \<noteq> []"
    and "utf16_length title \<le> MAX_TASK_TITLE_LENGTH" and "getTask s i = None"
    and "r = newTask i (formatTaskList k n) (if k = LkBee then Some n else None) title ctx
        (fst (resolveTaskAuto (adOriginKind input) (adAutoRequested input)))
        (maxOrder (listTasks s (Some (formatTaskList k n)) None []) + ORDER_STEP) input (clock s)"
    and "warned = snd (resolveTaskAuto (adOriginKind input) (adAutoRequested input))"
    and "tasks s' = tasks s @ [r]" and "taskSupplies s' = taskSupplies s"
proof -
  from run obtain title ref ctx where title: "adTitle input = Some title" "title \<noteq> []" "utf16_length title \<le> MAX_TASK_TITLE_LENGTH"
    and ref: "parseTaskListRef (adList input) = Inr ref"
    and ins: "insertTask input title ref ctx (fst (resolveTaskAuto (adOriginKind input) (adAutoRequested input))) s = Inr (r, s')"
    and warned: "warned = snd (resolveTaskAuto (adOriginKind input) (adAutoRequested input))"
    unfolding addTask_def bindM_Inr
    by (auto simp: bindM_Inr requireNonEmpty_def checkTitle_def liftError_def Let_def case_prod_unfold
        split: option.splits list.splits sum.splits json.splits)
  have l: "(if fst ref = LkBee then beeTaskList (snd ref) else formatTaskList LkShared (snd ref)) = formatTaskList (fst ref) (snd ref)"
    by (cases "fst ref") (simp_all add: beeTaskList_def formatTaskList_def BEE_PREFIX_def list_kind_text_def)
  from insertTask_run [OF ins] show thesis
    unfolding l using that [of "fst ref" "snd ref" title] title ref warned by auto
qed

lemma newTask_ok: "task_row_ok (newTask i (formatTaskList k n) (if k = LkBee then Some n else None) title ctx
    (fst (resolveTaskAuto (adOriginKind input) requested)) ord input t)"
  by (cases k) (auto simp: task_row_ok_def newTask_def resolveTaskAuto_def list_owner_ok_def formatTaskList_def beeTaskList_def
      BEE_PREFIX_def list_kind_text_def isSharedTaskList_def SHARED_PREFIX_def starts_with_def)

lemma addTask_writes:
  assumes run: "addTask input s = Inr (out, s')"
  shows "task_write (tasks s) (tasks s')" and "taskSupplies s' = taskSupplies s"
proof -
  obtain r warned where out: "out = (r, warned)" by fastforce
  obtain k n title ctx i where fresh: "getTask s i = None"
    and r: "r = newTask i (formatTaskList k n) (if k = LkBee then Some n else None) title ctx
        (fst (resolveTaskAuto (adOriginKind input) (adAutoRequested input)))
        (maxOrder (listTasks s (Some (formatTaskList k n)) None []) + ORDER_STEP) input (clock s)"
    and s': "tasks s' = tasks s @ [r]" "taskSupplies s' = taskSupplies s"
    by (rule addTask_run [OF run [unfolded out]]) blast
  have "tOrder u < tOrder r" if "u \<in> set (tasks s)" "tList u = tList r" for u
  proof -
    have "u \<in> set (listTasks s (Some (formatTaskList k n)) None [])"
      using that by (simp add: set_listTasks r newTask_def)
    from maxOrder_ge [OF this] show ?thesis by (simp add: r newTask_def ORDER_STEP_def)
  qed
  moreover have "tId r \<notin> tId ` set (tasks s)" "tStatus r = TPending"
    using fresh by (simp_all add: r newTask_def getTask_def find_row_None)
  moreover have "task_row_ok r" unfolding r by (rule newTask_ok)
  ultimately show "task_write (tasks s) (tasks s')" unfolding s' by (intro task_write.append) auto
  show "taskSupplies s' = taskSupplies s" by (rule s'(2))
qed

section \<open>Moving\<close>

lemma sort_key_eqI:
  assumes "distinct xs" and "distinct ys" and "set xs = set ys" and "sorted (map k xs)" and "inj_on k (set xs)"
  shows "sort_key k ys = xs"
proof -
  have "map k (sort_key k ys) = map k xs"
    by (rule sorted_distinct_set_unique) (use assms in \<open>simp_all add: distinct_map\<close>)
  then show ?thesis by (rule map_inj_on) (use assms in simp)
qed

lemma sort_key_strict:
  assumes "distinct (map f xs)"
  shows "sorted_wrt (\<lambda>a b. (f a :: rat) < f b) (sort_key (\<lambda>t. (f t, g t :: string)) xs)"
proof -
  let ?ys = "sort_key (\<lambda>t. (f t, g t)) xs"
  have "inj_on f (set xs)" "distinct xs" using assms by (simp_all add: distinct_map)
  then have "distinct (map f ?ys)" by (simp add: distinct_map)
  moreover have "sorted_wrt (\<lambda>a b. f a \<le> f b) ?ys"
  proof -
    have "sorted_wrt (\<lambda>a b. (f a, g a) \<le> (f b, g b)) ?ys"
      using sorted_sort_key [of "\<lambda>t. (f t, g t)" xs] by (simp add: sorted_wrt_map)
    then show ?thesis by (rule sorted_wrt_mono_rel [rotated]) (auto simp: less_eq_prod_def)
  qed
  moreover have "distinct (map f zs) \<Longrightarrow> sorted_wrt (\<lambda>a b. f a \<le> f b) zs \<Longrightarrow> sorted_wrt (\<lambda>a b. f a < f b) zs" for zs
    by (induction zs) (auto simp: less_le image_iff)
  ultimately show ?thesis by blast
qed

lemma strict_distinct: "sorted_wrt (\<lambda>a b. (f a :: rat) < f b) zs \<Longrightarrow> distinct (map f zs)"
  by (induction zs) (auto simp: image_iff)

lemma listTasks_strict:
  assumes "task_ok (tasks s)"
  shows "sorted_wrt (\<lambda>a b. tOrder a < tOrder b) (listTasks s (Some l) None [])"
proof -
  have "distinct (map (\<lambda>t. (tList t, tOrder t)) (filter (\<lambda>t. tList t = l) (tasks s)))"
    using assms by (simp add: task_ok_def distinct_map_filter)
  then have "distinct (map tOrder (filter (\<lambda>t. tList t = l) (tasks s)))"
    by (auto simp: distinct_map inj_on_def)
  then show ?thesis using sort_key_strict by (simp add: listTasks_def)
qed

lemma orderBefore_splits:
  assumes "orderBefore i prev ts = Some x" and "sorted_wrt (\<lambda>a b. tOrder a < tOrder b) ts"
    and "case prev of Some p \<Rightarrow> \<forall>t \<in> set ts. tOrder p < tOrder t | None \<Rightarrow> True"
  shows "\<exists>xs ys. ts = xs @ ys \<and> ys \<noteq> [] \<and> tId (hd ys) = i \<and> (\<forall>u \<in> set xs. tOrder u < x) \<and> (\<forall>u \<in> set ys. x < tOrder u)
    \<and> (case prev of Some p \<Rightarrow> tOrder p < x | None \<Rightarrow> True)"
  using assms
proof (induction i prev ts rule: orderBefore.induct)
  case (2 i prev t ts)
  show ?case
  proof (cases "tId t = i")
    case True
    have "x < tOrder t" "case prev of Some p \<Rightarrow> tOrder p < x | None \<Rightarrow> True"
      using 2(2-4) True by (auto simp: ORDER_STEP_def field_simps split: option.splits)
    then show ?thesis using 2(3) True by (intro exI [of _ "[]"] exI [of _ "t # ts"]) auto
  next
    case False
    obtain xs ys where IH: "ts = xs @ ys" "ys \<noteq> []" "tId (hd ys) = i" "\<forall>u \<in> set xs. tOrder u < x" "\<forall>u \<in> set ys. x < tOrder u" "tOrder t < x"
      using 2(1) [OF False] 2(2,3) False by auto
    have "case prev of Some p \<Rightarrow> tOrder p < x | None \<Rightarrow> True"
      using 2(4) IH(6) by (auto split: option.splits)
    then show ?thesis using IH by (intro exI [of _ "t # xs"] exI [of _ ys]) auto
  qed
qed simp

lemma orderAfter_splits:
  assumes "orderAfter i ts = Some x" and "sorted_wrt (\<lambda>a b. tOrder a < tOrder b) ts"
  shows "\<exists>xs ys. ts = xs @ ys \<and> xs \<noteq> [] \<and> tId (last xs) = i \<and> (\<forall>u \<in> set xs. tOrder u < x) \<and> (\<forall>u \<in> set ys. x < tOrder u)"
  using assms
proof (induction i ts rule: orderAfter.induct)
  case (2 i t ts)
  show ?case
  proof (cases "tId t = i")
    case True
    have "tOrder t < x" "\<forall>u \<in> set ts. x < tOrder u"
      using 2(2,3) True by (auto simp: ORDER_STEP_def field_simps split: list.splits)
    then show ?thesis using True by (intro exI [of _ "[t]"] exI [of _ ts]) auto
  next
    case False
    obtain xs ys where IH: "ts = xs @ ys" "xs \<noteq> []" "tId (last xs) = i" "\<forall>u \<in> set xs. tOrder u < x" "\<forall>u \<in> set ys. x < tOrder u"
      using 2(1) [OF False] 2(2,3) False by auto
    have "tOrder t < x" using IH 2(3) by (cases xs) auto
    then show ?thesis using IH by (intro exI [of _ "t # xs"] exI [of _ ys]) auto
  qed
qed simp

definition anchored :: "task_anchor \<Rightarrow> task_row list \<Rightarrow> task_row list \<Rightarrow> bool" where
  "anchored a xs ys \<longleftrightarrow> (case a of Before b \<Rightarrow> ys \<noteq> [] \<and> tId (hd ys) = b | After b \<Rightarrow> xs \<noteq> [] \<and> tId (last xs) = b)"

lemma anchoredOrder_splits:
  assumes "anchoredOrder a ts = Some x" and "sorted_wrt (\<lambda>a b. tOrder a < tOrder b) ts"
  obtains xs ys where "ts = xs @ ys" and "anchored a xs ys" and "\<forall>u \<in> set xs. tOrder u < x" and "\<forall>u \<in> set ys. x < tOrder u"
proof (cases a)
  case (Before b)
  then show thesis
    using orderBefore_splits [of b None ts x] assms that by (auto simp: anchoredOrder_def anchored_def)
next
  case (After b)
  then show thesis
    using orderAfter_splits [of b ts x] assms that by (auto simp: anchoredOrder_def anchored_def)
qed

lemma moveTask_run:
  assumes run: "moveTask i bef aft s = Inr (r, s')" and ok: "task_ok (tasks s)"
  obtains cur a x where "getTask s i = Some cur" and "a = (case bef of Some b \<Rightarrow> Before b | None \<Rightarrow> After (the aft))"
    and "(bef = None) \<noteq> (aft = None)"
    and "anchoredOrder a (filter (\<lambda>t. tId t \<noteq> i) (listTasks s (Some (tList cur)) None [])) = Some x"
    and "r = cur\<lparr>tOrder := x, tUpdatedAt := clock s\<rparr>" and "tasks s' = put_row tId r (tasks s)" and "taskSupplies s' = taskSupplies s"
proof -
  have ids: "distinct (map tId (tasks s))" using ok by (simp add: task_ok_def)
  from run obtain cur a x where a: "a = (case bef of Some b \<Rightarrow> Before b | None \<Rightarrow> After (the aft))" "(bef = None) \<noteq> (aft = None)"
    and cur: "getTask s i = Some cur"
    and x: "anchoredOrder a (filter (\<lambda>t. tId t \<noteq> i) (listTasks s (Some (tList cur)) None [])) = Some x"
    and wr: "writeTask i (\<lambda>r. r\<lparr>tOrder := x, tUpdatedAt := clock s\<rparr>) s = Inr (r, s')"
    by (auto simp: moveTask_def bindM_Inr mustGetTask_Inr split: option.splits)
  obtain t where "getTask s i = Some t" "tasks s' = put_row tId r (tasks s)" "taskSupplies s' = taskSupplies s"
    and "r = t\<lparr>tOrder := x, tUpdatedAt := clock s\<rparr>"
    by (rule writeTask_Inr [OF wr ids]) simp_all
  then show thesis using that [OF cur a x] cur by simp
qed

lemma moveTask_writes:
  assumes run: "moveTask i bef aft s = Inr (r, s')" and ok: "task_ok (tasks s)"
  shows "task_write (tasks s) (tasks s')" and "taskSupplies s' = taskSupplies s"
proof -
  obtain cur a x where cur: "getTask s i = Some cur"
    and x: "anchoredOrder a (filter (\<lambda>t. tId t \<noteq> i) (listTasks s (Some (tList cur)) None [])) = Some x"
    and r: "r = cur\<lparr>tOrder := x, tUpdatedAt := clock s\<rparr>" and s': "tasks s' = put_row tId r (tasks s)" "taskSupplies s' = taskSupplies s"
    by (rule moveTask_run [OF run ok]) blast
  let ?M = "filter (\<lambda>t. tId t \<noteq> i) (listTasks s (Some (tList cur)) None [])"
  have strict: "sorted_wrt (\<lambda>a b. tOrder a < tOrder b) ?M"
    using listTasks_strict [OF ok] by (simp add: sorted_wrt_filter)
  obtain xs ys where M: "?M = xs @ ys" "\<forall>u \<in> set xs. tOrder u < x" "\<forall>u \<in> set ys. x < tOrder u"
    by (rule anchoredOrder_splits [OF x strict])
  have fresh: "tOrder u \<noteq> x" if "u \<in> set (tasks s)" "tId u \<noteq> i" "tList u = tList cur" for u
  proof -
    have "u \<in> set ?M" using that by (simp add: set_listTasks)
    then show ?thesis using M by auto
  qed
  have c: "cur \<in> set (tasks s)" "tId cur = i" using getTask_Some [OF cur] by simp_all
  have "task_change cur r"
    using task_row_of [OF ok c(1)] by (simp add: r task_change_def task_identity_def task_row_ok_def closed_task_def)
  then show "task_write (tasks s) (tasks s')"
    unfolding s' by (rule task_write.rewrite [OF c(1)]) (use fresh c(2) r in auto)
  show "taskSupplies s' = taskSupplies s" by (rule s'(2))
qed


section \<open>The supply gate\<close>

definition supply_open :: "core \<Rightarrow> string \<Rightarrow> bool" where
  "supply_open s b \<longleftrightarrow>
     tsOn (getTaskSupply s b) \<and> \<not> tsPaused (getTaskSupply s b) \<and> tsFeeds (getTaskSupply s b) < tsLimit (getTaskSupply s b)
     \<and> \<not> needsInput s b \<and> \<not> hasUndeliveredMessage s b
     \<and> \<not> (\<exists>t \<in> set (tasks s). tList t = beeTaskList b \<and> taskInFlight t)"

definition feedable :: "core \<Rightarrow> string \<Rightarrow> task_row \<Rightarrow> bool" where
  "feedable s b t \<longleftrightarrow> t \<in> set (tasks s) \<and> tList t = beeTaskList b \<and> tStatus t = TPending \<and> tAuto t"

lemma set_eligible: "set (eligibleTasks collate (listTasks s (Some (beeTaskList b)) None [])) = {t. feedable s b t}"
  by (auto simp: eligibleTasks_def set_listTasks feedable_def)

lemma eligible_minimal:
  assumes "eligibleTasks collate ts = t # us" and "u \<in> set (eligibleTasks collate ts)"
  shows "tOrder t \<le> tOrder u"
proof -
  have "sorted (map (\<lambda>t. (tOrder t, collate (tId t))) (t # us))"
    unfolding assms(1) [symmetric] eligibleTasks_def by simp
  then show ?thesis using assms by (auto simp: less_eq_prod_def)
qed

lemma supplyDecision_iff:
  "supplyDecision collate s b =
    (if supply_open s b then (case eligibleTasks collate (listTasks s (Some (beeTaskList b)) None []) of [] \<Rightarrow> None | t # _ \<Rightarrow> Some t)
     else None)"
proof -
  let ?ts = "listTasks s (Some (beeTaskList b)) None []"
  have flight: "list_ex taskInFlight ?ts \<longleftrightarrow> (\<exists>t \<in> set (tasks s). tList t = beeTaskList b \<and> taskInFlight t)"
    by (auto simp: list_ex_iff set_listTasks)
  have nil: "?ts = [] \<Longrightarrow> eligibleTasks collate ?ts = []" by (simp add: eligibleTasks_def)
  show ?thesis
    unfolding supplyDecision_def Let_def evaluateSupplyGate_def flight supply_open_def
    using nil by (auto simp: not_le split: list.splits)
qed

text \<open>The row a feed leaves.\<close>

definition fedTask :: "task_row \<Rightarrow> nat \<Rightarrow> int \<Rightarrow> task_row" where
  "fedTask task m t =
     task\<lparr>tStatus := TQueued, tFedAt := Some t, tStalledAt := None, tMailboxMessageId := Some m, tUpdatedAt := t\<rparr>"

definition fedSupply :: "task_supply_row \<Rightarrow> task_supply_row" where
  "fedSupply r = r\<lparr>tsFeeds := tsFeeds r + 1, tsPaused := (tsPaused r \<or> tsLimit r \<le> tsFeeds r + 1)\<rparr>"

lemma put_row_put_row: "key r = key r' \<Longrightarrow> put_row key r' (put_row key r ts) = put_row key r' ts"
  by (simp add: put_row_def update_rows_def)

lemma frames_mailbox_wake: "frames mailbox (applyWakeIfNeeded b)"
  unfolding applyWakeIfNeeded_def scheduleWake_def applyEnqueue_def refuseMailboxOnlyRuntime_def audit_def Let_def
  by (intro frame) simp_all

lemma frames_mailbox_reset: "frames mailbox (applyResetTaskSupplyFeeds b)"
  unfolding applyResetTaskSupplyFeeds_def audit_def Let_def by (intro frame) simp_all

lemma send_delivers:
  assumes "send b body opts s = Inr (sent, s')"
  shows "srMessage sent \<in> set (mailbox s') \<and> mBeeId (srMessage sent) = b \<and> mBody (srMessage sent) = body
    \<and> mUrgency (srMessage sent) = soUrgency opts \<and> mSender (srMessage sent) = soSender opts \<and> mDeliveredAt (srMessage sent) = None"
  using assms unfolding send_def
  by (auto simp: bindM_Inr audit_def mustGetBee_def split: if_splits option.splits
      dest!: framesD [OF frames_mailbox_wake] framesD [OF frames_mailbox_reset])

lemma find_put_row: "find_row key ts k = Some t \<Longrightarrow> key r = k \<Longrightarrow> find_row key (put_row key r ts) k = Some r"
  by (simp add: find_row_put_row)

lemma feedTask_run:
  assumes run: "feedTask b supply ts task s = Inr ((fed, nxt), s')"
    and ok: "task_ok (tasks s)" and task: "task \<in> set (tasks s)"
    and stored: "find_row tsBeeId (taskSupplies s) b = Some supply"
  obtains msg where "fed = fedTask task (mId msg) (clock s)" and "tasks s' = put_row tId fed (tasks s)"
    and "nxt = fedSupply supply"
    and "\<And>b'. find_row tsBeeId (taskSupplies s') b' = (if b' = b then Some nxt else find_row tsBeeId (taskSupplies s) b')"
    and "msg \<in> set (mailbox s')" and "mBeeId msg = b" and "mUrgency msg = UIdle" and "mDeliveredAt msg = None"
proof -
  let ?i = "tId task" let ?t = "clock s"
  let ?f1 = "\<lambda>r. r\<lparr>tStatus := TQueued, tFedAt := Some ?t, tStalledAt := None, tUpdatedAt := ?t\<rparr>"
  let ?s1 = "s\<lparr>tasks := update_rows (\<lambda>r. tId r = ?i) ?f1 (tasks s)\<rparr>"
  have ids: "distinct (map tId (tasks s))" using ok by (simp add: task_ok_def)
  have find: "find_row tId (tasks s) ?i = Some task" by (rule task_ok_find [OF ok task])
  have t1: "tasks ?s1 = put_row tId (?f1 task) (tasks s)"
    using update_task [OF ids find, of ?f1] by simp
  have get1: "getTask ?s1 ?i = Some (?f1 task)"
    unfolding getTask_def t1 by (rule find_put_row [OF find]) simp
  let ?rem = "length (filter (\<lambda>r. tStatus r = TPending \<and> tId r \<noteq> ?i) ts)"
  let ?feeds = "tsFeeds supply + 1" let ?paused = "tsPaused supply \<or> tsLimit supply \<le> tsFeeds supply + 1"
  let ?upd = "\<lambda>r. r\<lparr>tsFeeds := ?feeds, tsPaused := ?paused\<rparr>"
  from run get1 obtain sent s2 where send: "send b (buildTaskFeedBody (?f1 task) ?rem) taskMail ?s1 = Inr (sent, s2)"
    and rest: "bindM (modifyM (\<lambda>s. s\<lparr>tasks := update_rows (\<lambda>r. tId r = ?i)
                    (\<lambda>r. r\<lparr>tMailboxMessageId := Some (mId (srMessage sent)), tUpdatedAt := ?t\<rparr>) (tasks s)\<rparr>)) (\<lambda>_.
              bindM (upsertSupply \<lparr>tsBeeId = b, tsOn = True, tsLimit = tsLimit supply, tsFeeds = ?feeds, tsPaused = ?paused\<rparr> ?upd) (\<lambda>_.
                 bindM (mustGetTask ?i) (\<lambda>fed.
                 bindM (audit (EvTaskPut fed ''updated'')) (\<lambda>_.
                 bindM (auditSupply b) (\<lambda>nxt. returnM (fed, nxt)))))) s2 = Inr ((fed, nxt), s')"
    unfolding feedTask_def Let_def bindM_Inr by (auto simp: mustGetTask_Inr)
  have same: "tasks s2 = tasks ?s1" "taskSupplies s2 = taskSupplies s"
    using framesD [OF task_tables.frames_send_supply send] by (simp_all add: taskMail_def)
  let ?f3 = "\<lambda>r. r\<lparr>tMailboxMessageId := Some (mId (srMessage sent)), tUpdatedAt := ?t\<rparr>"
  let ?fed = "fedTask task (mId (srMessage sent)) ?t"
  have ids2: "distinct (map tId (tasks s2))" using ids unfolding same t1 by simp
  have find2: "find_row tId (tasks s2) ?i = Some (?f1 task)"
    unfolding same using get1 by (simp add: getTask_def)
  have upd2: "update_rows (\<lambda>r. tId r = ?i) ?f3 (tasks s2) = put_row tId ?fed (tasks s)"
    unfolding update_task [OF ids2 find2, of ?f3, simplified] unfolding same t1
    by (simp add: put_row_put_row fedTask_def)
  have find3: "find_row tId (put_row tId ?fed (tasks s)) ?i = Some ?fed"
    by (rule find_put_row [OF find]) (simp add: fedTask_def)
  have sup: "find_row tsBeeId (update_rows (\<lambda>r. tsBeeId r = b) ?upd (taskSupplies s)) b'
      = (if b' = b then Some (fedSupply supply) else find_row tsBeeId (taskSupplies s) b')" for b'
    using stored by (simp add: find_row_update_key fedSupply_def)
  have out: "fed = ?fed" "tasks s' = put_row tId ?fed (tasks s)" "nxt = fedSupply supply"
    "taskSupplies s' = update_rows (\<lambda>r. tsBeeId r = b) ?upd (taskSupplies s)" "mailbox s' = mailbox s2"
    using rest stored find3 sup [of b]
    by (auto simp: bindM_Inr upsertSupply_def same(2) upd2 mustGetTask_Inr getTask_def audit_def auditSupply_def getTaskSupply_def)
  have msg: "srMessage sent \<in> set (mailbox s')" "mBeeId (srMessage sent) = b" "mUrgency (srMessage sent) = UIdle"
    "mDeliveredAt (srMessage sent) = None"
    using send_delivers [OF send] out(5) by (simp_all add: taskMail_def)
  show thesis
    by (rule that [of "srMessage sent"]) (use out sup msg in simp_all)
qed

lemma supply_open_stored:
  assumes "supply_open s b"
  shows "find_row tsBeeId (taskSupplies s) b = Some (getTaskSupply s b)"
  using assms by (cases "find_row tsBeeId (taskSupplies s) b") (auto simp: supply_open_def getTaskSupply_def defaultTaskSupply_def)

lemma tryFeed_run:
  assumes run: "tryFeedTaskSupply collate b s = Inr (out, s')" and ok: "task_ok (tasks s)"
  shows "case out of
           None \<Rightarrow> s' = s \<and> \<not> (supply_open s b \<and> (\<exists>t. feedable s b t))
         | Some (fed, supply) \<Rightarrow> supply_open s b
             \<and> (\<exists>t msg. feedable s b t \<and> (\<forall>u. feedable s b u \<longrightarrow> tOrder t \<le> tOrder u)
                  \<and> fed = fedTask t (mId msg) (clock s) \<and> tasks s' = put_row tId fed (tasks s)
                  \<and> msg \<in> set (mailbox s') \<and> mBeeId msg = b \<and> mUrgency msg = UIdle \<and> mDeliveredAt msg = None)
             \<and> supply = fedSupply (getTaskSupply s b)
             \<and> (\<forall>b'. getTaskSupply s' b' = (if b' = b then supply else getTaskSupply s b'))"
proof (cases "supplyDecision collate s b")
  case None
  then have "\<not> (supply_open s b \<and> (\<exists>t. feedable s b t))"
    using set_eligible [of collate s b] by (auto simp: supplyDecision_iff split: if_splits list.splits)
  then show ?thesis using run None by (simp add: tryFeedTaskSupply_def)
next
  case (Some t)
  let ?ts = "listTasks s (Some (beeTaskList b)) None []"
  from Some have op: "supply_open s b" and elig: "\<exists>us. eligibleTasks collate ?ts = t # us"
    by (auto simp: supplyDecision_iff split: if_splits list.splits)
  then have t: "feedable s b t" "\<forall>u. feedable s b u \<longrightarrow> tOrder t \<le> tOrder u"
    using set_eligible [of collate s b] eligible_minimal by force+
  from run Some obtain fed nxt where out: "out = Some (fed, nxt)"
    and feed: "feedTask b (getTaskSupply s b) ?ts t s = Inr ((fed, nxt), s')"
    by (auto simp: tryFeedTaskSupply_def bindM_Inr)
  have mem: "t \<in> set (tasks s)" using t(1) by (simp add: feedable_def)
  obtain msg where fed: "fed = fedTask t (mId msg) (clock s)" "tasks s' = put_row tId fed (tasks s)"
    and nxt: "nxt = fedSupply (getTaskSupply s b)"
    and sup: "\<And>b'. find_row tsBeeId (taskSupplies s') b' = (if b' = b then Some nxt else find_row tsBeeId (taskSupplies s) b')"
    and msg: "msg \<in> set (mailbox s')" "mBeeId msg = b" "mUrgency msg = UIdle" "mDeliveredAt msg = None"
    by (rule feedTask_run [OF feed ok mem supply_open_stored [OF op]]) blast
  have "getTaskSupply s' b' = (if b' = b then nxt else getTaskSupply s b')" for b'
    unfolding getTaskSupply_def sup by simp
  then show ?thesis using op t fed nxt msg unfolding out by auto
qed

lemma fedTask_change: "task_row_ok t \<Longrightarrow> tStatus t = TPending \<Longrightarrow> task_change t (fedTask t m c)"
  by (simp add: task_change_def task_identity_def task_row_ok_def closed_task_def fedTask_def)

lemma tryFeed_writes:
  assumes run: "tryFeedTaskSupply collate b s = Inr (out, s')" and ok: "task_ok (tasks s)"
  shows "task_write\<^sup>*\<^sup>* (tasks s) (tasks s')"
proof (cases out)
  case None
  then show ?thesis using tryFeed_run [OF run ok] by simp
next
  case (Some p)
  then obtain t m where t: "feedable s b t" and s': "tasks s' = put_row tId (fedTask t m (clock s)) (tasks s)"
    using tryFeed_run [OF run ok] by (cases p) auto
  have mem: "t \<in> set (tasks s)" "tStatus t = TPending" using t by (simp_all add: feedable_def)
  have "task_change t (fedTask t m (clock s))" using fedTask_change task_row_of [OF ok mem(1)] mem(2) by blast
  then show ?thesis
    unfolding s' by (intro r_into_rtranclp task_write_put [OF ok mem(1)]) (simp_all add: fedTask_def)
qed

section \<open>All runs\<close>

inductive task_step :: "core \<Rightarrow> core \<Rightarrow> bool" where
  add: "addTask input s = Inr (out, s') \<Longrightarrow> task_step s s'"
| transition: "transitionTask i act reason s = Inr (out, s') \<Longrightarrow> task_step s s'"
| claim: "claimTask l who s = Inr (out, s') \<Longrightarrow> task_step s s'"
| move: "moveTask i bef aft s = Inr (out, s') \<Longrightarrow> task_step s s'"
| edit: "editTask i title body auto s = Inr (out, s') \<Longrightarrow> task_step s s'"
| set_supply: "setTaskSupply b on limit s = Inr (out, s') \<Longrightarrow> task_step s s'"
| feed: "tryFeedTaskSupply collate b s = Inr (out, s') \<Longrightarrow> task_step s s'"
| stall: "maybeStallFedTask b s = Inr (out, s') \<Longrightarrow> task_step s s'"
| mail: "send b body opts s = Inr (out, s') \<Longrightarrow> task_step s s'"
| relink: "tasks s' = map (\<lambda>t. t\<lparr>tMailboxMessageId := g (tMailboxMessageId t)\<rparr>) (tasks s) \<Longrightarrow> task_step s s'"
| other: "tasks s' = tasks s \<Longrightarrow> task_step s s'"

text \<open>The deletion of a bee deletes its tasks (a cascade of the schema).\<close>

inductive task_reachable :: "core \<Rightarrow> bool" where
  start: "tasks s = [] \<Longrightarrow> task_reachable s"
| step: "task_reachable s \<Longrightarrow> task_step s s' \<Longrightarrow> task_reachable s'"
| delete_bee: "task_reachable s \<Longrightarrow> tasks s' = filter (\<lambda>t. tBeeId t \<noteq> Some b) (tasks s) \<Longrightarrow> task_reachable s'"

inductive_cases task_stepE: "task_step s s'"

lemma setTaskSupply_tasks: "setTaskSupply b on limit s = Inr (out, s') \<Longrightarrow> tasks s' = tasks s"
  by (auto simp: setTaskSupply_def Let_def bindM_Inr mustGetBee_def upsertSupply_def auditSupply_def audit_def split: option.splits)

lemma task_step_writes:
  assumes "task_step s s'" and ok: "task_ok (tasks s)"
  shows "task_write\<^sup>*\<^sup>* (tasks s) (tasks s')"
  using assms
proof (cases rule: task_step.cases)
  case (add input out)
  then show ?thesis using addTask_writes(1) by (blast intro: r_into_rtranclp)
next
  case (transition i act reason out)
  then show ?thesis using transitionTask_writes ok by (blast intro: r_into_rtranclp)
next
  case (claim l who out)
  then show ?thesis using claimTask_writes ok by blast
next
  case (move i bef aft out)
  then show ?thesis using moveTask_writes(1) ok by (blast intro: r_into_rtranclp)
next
  case (edit i title body auto out)
  then show ?thesis using editTask_writes(1) ok by (blast intro: r_into_rtranclp)
next
  case (set_supply b on limit out)
  then show ?thesis using setTaskSupply_tasks by simp
next
  case (feed collate b out)
  then show ?thesis using tryFeed_writes ok by blast
next
  case (stall b out)
  then show ?thesis using maybeStall_writes(1) ok by blast
next
  case (mail b body opts out)
  then show ?thesis using framesD [OF task_table.frames_send] by simp
next
  case (relink g)
  then show ?thesis using task_write.relink [of "tasks s" g] by (simp add: r_into_rtranclp)
qed simp

lemma task_steps:
  assumes "task_step\<^sup>*\<^sup>* s s'" and "task_ok (tasks s)"
  shows "task_write\<^sup>*\<^sup>* (tasks s) (tasks s') \<and> task_ok (tasks s')"
  using assms
proof (induction rule: rtranclp_induct)
  case (step s1 s2)
  then have IH: "task_write\<^sup>*\<^sup>* (tasks s) (tasks s1)" "task_ok (tasks s1)" by blast+
  have later: "task_write\<^sup>*\<^sup>* (tasks s1) (tasks s2)" by (rule task_step_writes [OF step.hyps(2) IH(2)])
  show ?case using rtranclp_trans [OF IH(1) later] task_writes [OF later IH(2)] by blast
qed simp

lemma task_reachable_ok: "task_reachable s \<Longrightarrow> task_ok (tasks s)"
proof (induction rule: task_reachable.induct)
  case (step s s')
  then show ?case using task_steps [of s s'] by blast
next
  case (delete_bee s s' b)
  then show ?case by (auto simp: task_ok_def distinct_map_filter)
qed (simp add: task_ok_def)

lemma task_run_evolves:
  assumes "task_reachable s" and "task_step\<^sup>*\<^sup>* s s'" and "getTask s i = Some t"
  shows "\<exists>t'. getTask s' i = Some t' \<and> task_evolves t t'"
proof -
  have ok: "task_ok (tasks s)" by (rule task_reachable_ok [OF assms(1)])
  note steps = task_steps [OF assms(2) ok]
  have t: "t \<in> set (tasks s)" "tId t = i" using getTask_Some [OF assms(3)] by simp_all
  obtain t' where t': "t' \<in> set (tasks s')" "task_evolves t t'"
    using task_writes [of "tasks s" "tasks s'"] steps ok t(1) by blast
  have "tId t' = i" using t'(2) t(2) by (simp add: task_evolves_def task_identity_def)
  then show ?thesis using task_ok_find [of "tasks s'" t'] steps t' by (auto simp: getTask_def)
qed

text \<open>
  The table of tasks is well formed in every state that any sequence of requests, feeds, mail and
  deletions of bees reaches: ids are unique, the orders within a list are distinct, a task a bee made
  for itself is never automatic, a task has a closing time exactly when it is done, blocked or
  cancelled, and a pending task is unclaimed and was never fed.
\<close>

theorem task_reachable_inv:
  assumes "task_reachable s"
  shows "distinct (map tId (tasks s)) \<and> distinct (map (\<lambda>t. (tList t, tOrder t)) (tasks s))
    \<and> list_all (\<lambda>t. (tOriginKind t = ToSelf \<longrightarrow> \<not> tAuto t)
         \<and> (tClosedAt t \<noteq> None \<longleftrightarrow> tStatus t \<in> {TDone, TBlocked, TCancelled})
         \<and> (tStatus t = TPending \<longrightarrow> tClaimedBy t = None \<and> tFedAt t = None)) (tasks s)"
proof -
  have row: "(tOriginKind t = ToSelf \<longrightarrow> \<not> tAuto t) \<and> (tClosedAt t \<noteq> None \<longleftrightarrow> tStatus t \<in> {TDone, TBlocked, TCancelled})
      \<and> (tStatus t = TPending \<longrightarrow> tClaimedBy t = None \<and> tFedAt t = None)" if "task_row_ok t" for t
    using that by (cases "tStatus t") (auto simp: task_row_ok_def)
  show ?thesis
    using task_reachable_ok [OF assms] row unfolding task_ok_def list_all_iff by blast
qed

text \<open>
  C15. What is settled about a task stays settled, whatever happens later: its identity (list, owner,
  provenance, context, quest) never changes, a task that is done or cancelled keeps its status and its
  closing time, and a task that has left the pending status never returns to it, so it keeps the
  claimant and the time it was fed at.
\<close>

theorem task_history:
  assumes "task_reachable s" and "task_step\<^sup>*\<^sup>* s s'" and "getTask s i = Some t"
  shows "\<exists>t'. getTask s' i = Some t' \<and> tList t' = tList t \<and> tBeeId t' = tBeeId t \<and> tOriginKind t' = tOriginKind t
    \<and> tOriginSender t' = tOriginSender t \<and> tContext t' = tContext t \<and> tQuestId t' = tQuestId t \<and> tCreatedAt t' = tCreatedAt t
    \<and> (tStatus t \<in> {TDone, TCancelled} \<longrightarrow> tStatus t' = tStatus t \<and> tClosedAt t' = tClosedAt t)
    \<and> (tStatus t \<noteq> TPending \<longrightarrow> tStatus t' \<noteq> TPending \<and> tClaimedBy t' = tClaimedBy t \<and> tFedAt t' = tFedAt t)"
proof -
  obtain t' where "getTask s' i = Some t'" "task_evolves t t'" using task_run_evolves [OF assms] by blast
  then show ?thesis by (auto simp: task_evolves_def task_identity_def closed_task_def)
qed

text \<open>
  C14. A task is claimed once. A claim takes the pending task of the least order in the list, and from
  then on no claim, on any list and by anyone, takes that task again.
\<close>

theorem claimTask_exclusive:
  assumes "task_reachable s" and "claimTask l who s = Inr (Some r, s1)"
    and "task_step\<^sup>*\<^sup>* s1 s2" and "claimTask l' who' s2 = Inr (Some r', s3)"
  shows "tId r' \<noteq> tId r \<and> tClaimedBy r = Some who \<and> tList r = l
    \<and> (\<forall>u \<in> set (tasks s). tList u = l \<longrightarrow> tStatus u = TPending \<longrightarrow> tOrder r \<le> tOrder u)"
proof -
  have ok: "task_ok (tasks s)" by (rule task_reachable_ok [OF assms(1)])
  let ?pending = "listTasks s (Some l) None [TPending]"
  have unclaimed: "tClaimedBy u = None" if "u \<in> set ?pending" for u
    using that task_row_of [OF ok, of u] by (auto simp: set_listTasks task_row_ok_def)
  obtain t where t: "List.find (\<lambda>t. tClaimedBy t = None) ?pending = Some t" and r: "r = claimedTask t who (clock s)"
    and s1: "tasks s1 = put_row tId r (tasks s)" and mem: "t \<in> set (tasks s)"
    using claimTask_run [OF assms(2) ok] by (auto split: option.splits)
  obtain us where hd: "?pending = t # us"
    using t unclaimed by (cases ?pending) (auto split: if_splits)
  have least: "tOrder r \<le> tOrder u" if "u \<in> set (tasks s)" "tList u = l" "tStatus u = TPending" for u
  proof -
    have "u \<in> set (t # us)" unfolding hd [symmetric] using that by (simp add: set_listTasks)
    moreover have "sorted (map (\<lambda>t. (tOrder t, tId t)) (t # us))"
      unfolding hd [symmetric] listTasks_def by simp
    ultimately show ?thesis by (auto simp: r claimedTask_def less_eq_prod_def)
  qed
  have tl: "tList t = l" using hd set_listTasks [of s "Some l" None "[TPending]"] by force
  have reach1: "task_reachable s1" by (rule task_reachable.step [OF assms(1) task_step.claim [OF assms(2)]])
  have id: "tId r = tId t" by (simp add: r claimedTask_def)
  have "getTask s1 (tId r) = Some r"
    unfolding getTask_def s1 using find_put_row [OF task_ok_find [OF ok mem], of r] id by simp
  from task_run_evolves [OF reach1 assms(3) this] obtain r2 where r2: "getTask s2 (tId r) = Some r2" "tStatus r2 \<noteq> TPending"
    by (auto simp: task_evolves_def r claimedTask_def)
  have ok2: "task_ok (tasks s2)" using task_steps [OF assms(3) task_reachable_ok [OF reach1]] by blast
  obtain t' where t': "t' \<in> set (tasks s2)" "tStatus t' = TPending" "tId r' = tId t'"
    using claimTask_run [OF assms(4) ok2] by (auto simp: claimedTask_def split: option.splits)
  have "tId r' \<noteq> tId r"
    using r2 t' task_ok_find [OF ok2 t'(1)] by (auto simp: getTask_def)
  then show ?thesis using least tl by (auto simp: r claimedTask_def)
qed

text \<open>
  C12. The supply feeds exactly under its conditions. An attempt to feed either changes nothing, and
  then some condition fails (the supply is off, its breaker is open or its limit reached, a question
  is open, mail waits, a fed task is in flight, or no pending automatic task exists), or all of them
  held: it took the eligible task of the least order, which no bee made for itself, marked it fed and
  left an idle mail for the bee in its mailbox, and counted the feed.
\<close>

theorem supply_feeds:
  assumes "task_reachable s" and "tryFeedTaskSupply collate b s = Inr (out, s')"
  shows "case out of
           None \<Rightarrow> s' = s \<and> \<not> (supply_open s b \<and> (\<exists>t. feedable s b t))
         | Some (fed, supply) \<Rightarrow> supply_open s b
             \<and> (\<exists>t msg. feedable s b t \<and> (\<forall>u. feedable s b u \<longrightarrow> tOrder t \<le> tOrder u) \<and> tOriginKind t \<noteq> ToSelf
                  \<and> fed = fedTask t (mId msg) (clock s) \<and> tasks s' = put_row tId fed (tasks s)
                  \<and> msg \<in> set (mailbox s') \<and> mBeeId msg = b \<and> mUrgency msg = UIdle \<and> mDeliveredAt msg = None)
             \<and> supply = fedSupply (getTaskSupply s b)
             \<and> (\<forall>b'. getTaskSupply s' b' = (if b' = b then supply else getTaskSupply s b'))"
proof -
  have ok: "task_ok (tasks s)" by (rule task_reachable_ok [OF assms(1)])
  have "tOriginKind t \<noteq> ToSelf" if "feedable s b t" for t
    using that task_row_of [OF ok, of t] by (auto simp: feedable_def task_row_ok_def)
  then show ?thesis using tryFeed_run [OF assms(2) ok] by (cases out) fastforce+
qed

text \<open>
  The feeds of one bee along a run: a step that feeds counts, and between the feeds anything may
  happen that does not write the supply row of the bee.
\<close>

inductive feed_run :: "string \<Rightarrow> core \<Rightarrow> nat \<Rightarrow> core \<Rightarrow> bool" for b where
  none: "feed_run b s 0 s"
| feed: "\<lbrakk>feed_run b s n s'; tryFeedTaskSupply collate b s' = Inr (Some out, s'')\<rbrakk> \<Longrightarrow> feed_run b s (Suc n) s''"
| quiet: "\<lbrakk>feed_run b s n s'; task_step s' s''; getTaskSupply s'' b = getTaskSupply s' b\<rbrakk> \<Longrightarrow> feed_run b s n s''"

lemma feed_run_reachable: "feed_run b s n s' \<Longrightarrow> task_reachable s \<Longrightarrow> task_reachable s'"
proof (induction rule: feed_run.induct)
  case (feed s n s' collate out s'')
  then show ?case using task_reachable.step task_step.feed by blast
next
  case (quiet s n s' s'')
  then show ?case using task_reachable.step by blast
qed simp

text \<open>
  C13. The breaker bounds the feeds: in a run in which nothing resets the supply of a bee, at most as
  many tasks are fed to it as its limit had left, the counter counts exactly them, and the feed that
  reaches the limit opens the breaker.
\<close>

theorem feed_bound:
  assumes "feed_run b s n s'" and "task_reachable s"
  shows "tsFeeds (getTaskSupply s' b) = tsFeeds (getTaskSupply s b) + n \<and> tsLimit (getTaskSupply s' b) = tsLimit (getTaskSupply s b)
    \<and> (0 < n \<longrightarrow> tsFeeds (getTaskSupply s b) + n \<le> tsLimit (getTaskSupply s b)
         \<and> (tsPaused (getTaskSupply s' b) \<longleftrightarrow> tsFeeds (getTaskSupply s b) + n = tsLimit (getTaskSupply s b)))"
  using assms
proof (induction rule: feed_run.induct)
  case (feed s n s' collate out s'')
  then have ok: "task_ok (tasks s')" using feed_run_reachable task_reachable_ok by blast
  have out: "supply_open s' b" "getTaskSupply s'' b = fedSupply (getTaskSupply s' b)"
    using tryFeed_run [OF feed.hyps(2) ok] by (cases out; auto)+
  then show ?case using feed by (auto simp: supply_open_def fedSupply_def)
qed auto

section \<open>Instances\<close>

lemma feed_returns:
  assumes ok: "task_ok (tasks s)" and t: "supplyDecision collate s b = Some t" "t \<in> set (tasks s)"
    and bee: "getBee s b = Some bee" "bId bee = b" "bLifecycle bee = LActive"
    and run: "currentRuntime s b = Some r" "rState r \<in> set LIVE_STATES"
    and clean: "\<And>u n. tTitle u = tTitle t \<Longrightarrow> tId u = tId t \<Longrightarrow> tList u = tList t \<Longrightarrow> tBody u = tBody t \<Longrightarrow> tContext u = tContext t
      \<Longrightarrow> tOriginKind u = tOriginKind t \<Longrightarrow> tOriginSender u = tOriginSender t \<Longrightarrow> tQuestId u = tQuestId t
      \<Longrightarrow> CHR 0x00 \<notin> set (buildTaskFeedBody u n)"
  shows "\<exists>out s'. tryFeedTaskSupply collate b s = Inr (Some out, s')"
proof -
  let ?i = "tId t" let ?c = "clock s"
  let ?f1 = "\<lambda>r. r\<lparr>tStatus := TQueued, tFedAt := Some ?c, tStalledAt := None, tUpdatedAt := ?c\<rparr>"
  let ?s1 = "s\<lparr>tasks := update_rows (\<lambda>r. tId r = ?i) ?f1 (tasks s)\<rparr>"
  have ids: "distinct (map tId (tasks s))" using ok by (simp add: task_ok_def)
  have find: "find_row tId (tasks s) ?i = Some t" by (rule task_ok_find [OF ok t(2)])
  have t1: "tasks ?s1 = put_row tId (?f1 t) (tasks s)" using update_task [OF ids find, of ?f1] by simp
  have get1: "getTask ?s1 ?i = Some (?f1 t)" unfolding getTask_def t1 by (rule find_put_row [OF find]) simp
  let ?ts = "listTasks s (Some (beeTaskList b)) None []"
  let ?rem = "length (filter (\<lambda>r. tStatus r = TPending \<and> tId r \<noteq> ?i) ?ts)"
  have "CHR 0x00 \<notin> set (buildTaskFeedBody (?f1 t) ?rem)" by (rule clean) simp_all
  moreover have "CHR 0x00 \<notin> set (soSender taskMail)" by (simp add: taskMail_def TASK_SUPPLY_SENDER_NAME_def)
  moreover have "getBee ?s1 b = Some bee" "currentRuntime ?s1 b = Some r"
    using bee run by (simp_all add: getBee_def currentRuntime_def)
  ultimately obtain sent s2 where send: "send b (buildTaskFeedBody (?f1 t) ?rem) taskMail ?s1 = Inr (sent, s2)"
    using send_live bee(2,3) run(2) by blast
  have same: "tasks s2 = tasks ?s1"
    using framesD [OF task_tables.frames_send_supply send] by (simp add: taskMail_def)
  have find2: "find_row tId (tasks s2) ?i = Some (?f1 t)" unfolding same using get1 by (simp add: getTask_def)
  let ?f3 = "\<lambda>r. r\<lparr>tMailboxMessageId := Some (mId (srMessage sent)), tUpdatedAt := ?c\<rparr>"
  have find3: "find_row tId (update_rows (\<lambda>r. tId r = ?i) ?f3 (tasks s2)) ?i = Some (?f3 (?f1 t))"
    using find2 by (simp add: find_row_update_key)
  show ?thesis
    using t(1) get1 send find3
    by (simp add: tryFeedTaskSupply_def feedTask_def bindM_def mustGetTask_def Let_def upsertSupply_def getTask_def audit_def auditSupply_def)
qed

definition sampleAdd :: "string \<Rightarrow> string \<Rightarrow> add_task_input" where
  "sampleAdd l i = \<lparr>adList = l, adTitle = Some ''ship'', adBody = None, adContext = None, adOriginKind = ToUser,
     adOriginSender = ''me'', adAutoRequested = None, adQuestId = None, adId = Some i\<rparr>"

definition sampleTask :: "string \<Rightarrow> rat \<Rightarrow> task_row" where
  "sampleTask i ord = newTask i ''bee:bee1'' (Some ''bee1'') ''ship'' None True ord (sampleAdd ''bee:bee1'' i) 1000"

definition taskCore :: "task_row list \<Rightarrow> core" where
  "taskCore ts = (sampleCore [])\<lparr>tasks := ts,
     taskSupplies := [\<lparr>tsBeeId = ''bee1'', tsOn = True, tsLimit = 1, tsFeeds = 0, tsPaused = False\<rparr>]\<rparr>"

lemma taskCore_simps [simp]: "tasks (taskCore ts) = ts" "clock (taskCore ts) = 1000" "mailbox (taskCore ts) = []"
  by (simp_all add: taskCore_def sampleCore_def)

lemma sampleTask_simps [simp]: "tId (sampleTask i x) = i" "tList (sampleTask i x) = ''bee:bee1''" "tOrder (sampleTask i x) = x"
  "tStatus (sampleTask i x) = TPending" "tClaimedBy (sampleTask i x) = None" "tAuto (sampleTask i x)" "tFedAt (sampleTask i x) = None"
  by (simp_all add: sampleTask_def newTask_def)

lemma sample_add:
  assumes "i \<notin> tId ` set ts"
  shows "\<exists>s'. addTask (sampleAdd ''bee:bee1'' i) (taskCore ts)
      = Inr ((sampleTask i (maxOrder (listTasks (taskCore ts) (Some ''bee:bee1'') None []) + 10), False), s')
    \<and> tasks s' = ts @ [sampleTask i (maxOrder (listTasks (taskCore ts) (Some ''bee:bee1'') None []) + 10)]"
proof -
  have parse: "parseTaskListRef ''bee:bee1'' = Inr (LkBee, ''bee1'')" by code_simp
  have title: "utf16_length ''ship'' \<le> MAX_TASK_TITLE_LENGTH" by code_simp
  have "getTask (taskCore ts) i = None" using assms by (simp add: getTask_def find_row_None)
  moreover have "getBee (taskCore ts) ''bee1'' = Some sampleBee" by (simp add: getBee_def taskCore_def sampleBee_def)
  ultimately show ?thesis
    using parse title
    by (simp add: addTask_def sampleAdd_def requireNonEmpty_def checkTitle_def requireM_def liftError_def insertTask_def bindM_def
        mustGetBee_def resolveTaskAuto_def audit_def beeTaskList_def BEE_PREFIX_def ORDER_STEP_def sampleTask_def Let_def)
qed

lemma sample_reachable: "task_reachable (taskCore [sampleTask ''task_1'' 10, sampleTask ''task_2'' 20])"
proof -
  have swap: "task_reachable s \<Longrightarrow> tasks s = ts \<Longrightarrow> task_reachable (taskCore ts)" for s ts
    by (rule task_reachable.step, assumption, rule task_step.other) simp
  have "task_reachable (taskCore [])" by (rule task_reachable.start) simp
  moreover obtain s1 where s1: "addTask (sampleAdd ''bee:bee1'' ''task_1'') (taskCore []) = Inr ((sampleTask ''task_1'' 10, False), s1)"
      "tasks s1 = [sampleTask ''task_1'' 10]"
    using sample_add [of "''task_1''" "[]"] by (auto simp: listTasks_def maxOrder_def)
  ultimately have "task_reachable (taskCore [sampleTask ''task_1'' 10])"
    using task_reachable.step [OF _ task_step.add [OF s1(1)]] swap s1(2) by blast
  moreover obtain s2 where s2: "addTask (sampleAdd ''bee:bee1'' ''task_2'') (taskCore [sampleTask ''task_1'' 10]) = Inr ((sampleTask ''task_2'' 20, False), s2)"
      "tasks s2 = [sampleTask ''task_1'' 10, sampleTask ''task_2'' 20]"
    using sample_add [of "''task_2''" "[sampleTask ''task_1'' 10]"] by (auto simp: listTasks_def maxOrder_def)
  ultimately show ?thesis
    using task_reachable.step [OF _ task_step.add [OF s2(1)]] swap s2(2) by blast
qed

abbreviation (input) twoTasks :: core where
  "twoTasks \<equiv> taskCore [sampleTask ''task_1'' 10, sampleTask ''task_2'' 20]"

lemma twoTasks_list: "listTasks twoTasks (Some ''bee:bee1'') None [] = [sampleTask ''task_1'' 10, sampleTask ''task_2'' 20]"
  by (simp add: listTasks_def)

theorem task_reachable_inv_witness: "distinct (map tId (tasks twoTasks))"
  using task_reachable_inv [OF sample_reachable] by blast


lemma claim_returns:
  assumes "task_ok (tasks s)" and "List.find (\<lambda>t. tClaimedBy t = None) (listTasks s (Some l) None [TPending]) = Some t" and "who \<noteq> []"
  shows "\<exists>s'. claimTask l who s = Inr (Some (claimedTask t who (clock s)), s')"
proof -
  have t: "t \<in> set (tasks s)" using find_SomeD [OF assms(2)] by (auto simp: set_listTasks)
  have find: "find_row tId (tasks s) (tId t) = Some t" by (rule task_ok_find [OF assms(1) t])
  then show ?thesis
    using assms(2,3)
    by (cases who) (auto simp: claimTask_def requireNonEmpty_def writeTask_def bindM_def mustGetTask_def getTask_def
        find_row_update_key audit_def claimedTask_def)
qed

lemma twoTasks_pending: "listTasks twoTasks (Some ''bee:bee1'') None [TPending] = [sampleTask ''task_1'' 10, sampleTask ''task_2'' 20]"
  by (simp add: listTasks_def)

lemma claim_twoTasks:
  obtains s1 where "claimTask ''bee:bee1'' ''ann'' twoTasks = Inr (Some (claimedTask (sampleTask ''task_1'' 10) ''ann'' 1000), s1)"
    and "tasks s1 = [claimedTask (sampleTask ''task_1'' 10) ''ann'' 1000, sampleTask ''task_2'' 20]" and "clock s1 = 1000"
proof -
  have ok: "task_ok (tasks twoTasks)" by (rule task_reachable_ok [OF sample_reachable])
  have find: "List.find (\<lambda>t. tClaimedBy t = None) (listTasks twoTasks (Some ''bee:bee1'') None [TPending]) = Some (sampleTask ''task_1'' 10)"
    unfolding twoTasks_pending by simp
  obtain s1 where s1: "claimTask ''bee:bee1'' ''ann'' twoTasks = Inr (Some (claimedTask (sampleTask ''task_1'' 10) ''ann'' 1000), s1)"
    using claim_returns [OF ok find, of "''ann''"] by auto
  have "tasks s1 = [claimedTask (sampleTask ''task_1'' 10) ''ann'' 1000, sampleTask ''task_2'' 20]"
    using claimTask_run [OF s1 ok] find by (simp add: put_row_def update_rows_def claimedTask_def)
  moreover have "clock s1 = 1000"
    using s1 find by (auto simp: claimTask_def requireNonEmpty_def writeTask_def bindM_Inr mustGetTask_Inr audit_def)
  ultimately show thesis using that s1 by blast
qed

theorem task_history_witness:
  "\<exists>s' t'. task_step twoTasks s' \<and> getTask s' ''task_2'' = Some t' \<and> tList t' = ''bee:bee1'' \<and> tOriginKind t' = ToUser"
proof -
  obtain s1 where "claimTask ''bee:bee1'' ''ann'' twoTasks = Inr (Some (claimedTask (sampleTask ''task_1'' 10) ''ann'' 1000), s1)"
    by (rule claim_twoTasks)
  then have step: "task_step twoTasks s1" by (rule task_step.claim)
  have "getTask twoTasks ''task_2'' = Some (sampleTask ''task_2'' 20)" by (simp add: getTask_def)
  from task_history [OF sample_reachable r_into_rtranclp [where r = task_step, OF step] this] step show ?thesis
    by (auto simp: sampleTask_def newTask_def sampleAdd_def)
qed

theorem claimTask_exclusive_witness:
  "\<exists>r s1 r' s2. claimTask ''bee:bee1'' ''ann'' twoTasks = Inr (Some r, s1) \<and> claimTask ''bee:bee1'' ''bob'' s1 = Inr (Some r', s2)
     \<and> tId r' \<noteq> tId r"
proof -
  let ?r = "claimedTask (sampleTask ''task_1'' 10) ''ann'' 1000"
  obtain s1 where s1: "claimTask ''bee:bee1'' ''ann'' twoTasks = Inr (Some ?r, s1)" and t1: "tasks s1 = [?r, sampleTask ''task_2'' 20]"
    by (rule claim_twoTasks)
  have ok: "task_ok (tasks s1)"
    using task_reachable_ok [OF task_reachable.step [OF sample_reachable task_step.claim [OF s1]]] .
  have "List.find (\<lambda>t. tClaimedBy t = None) (listTasks s1 (Some ''bee:bee1'') None [TPending]) = Some (sampleTask ''task_2'' 20)"
    by (simp add: listTasks_def t1 claimedTask_def)
  from claim_returns [OF ok this, of "''bob''"] obtain r' s2 where s2: "claimTask ''bee:bee1'' ''bob'' s1 = Inr (Some r', s2)" by auto
  show ?thesis using claimTask_exclusive [OF sample_reachable s1 rtranclp.rtrancl_refl s2] s1 s2 by blast
qed

lemma twoTasks_open: "supply_open twoTasks ''bee1''"
  by (simp add: supply_open_def getTaskSupply_def taskCore_def needsInput_def hasUndeliveredMessage_def sampleCore_def taskInFlight_def)

lemma twoTasks_decision: "supplyDecision (\<lambda>_. []) twoTasks ''bee1'' = Some (sampleTask ''task_1'' 10)"
proof -
  have "listTasks twoTasks (Some (beeTaskList ''bee1'')) None [] = [sampleTask ''task_1'' 10, sampleTask ''task_2'' 20]"
    using twoTasks_list by (simp add: beeTaskList_def BEE_PREFIX_def)
  then show ?thesis using twoTasks_open by (simp add: supplyDecision_iff eligibleTasks_def)
qed

lemma twoTasks_feed: "\<exists>out s'. tryFeedTaskSupply (\<lambda>_. []) ''bee1'' twoTasks = Inr (Some out, s')"
proof (rule feed_returns [OF task_reachable_ok [OF sample_reachable] twoTasks_decision])
  show "getBee twoTasks ''bee1'' = Some sampleBee" by (simp add: getBee_def taskCore_def sampleBee_def)
  show "bId sampleBee = ''bee1''" "bLifecycle sampleBee = LActive" by (simp_all add: sampleBee_def)
  show "currentRuntime twoTasks ''bee1'' = Some sampleRuntime"
    by (simp add: currentRuntime_def taskCore_def sampleCore_def sampleRuntime_def)
  show "rState sampleRuntime \<in> set LIVE_STATES" by (simp add: sampleRuntime_def LIVE_STATES_def)
next
  fix u :: task_row and n
  assume u: "tTitle u = tTitle (sampleTask ''task_1'' 10)" "tId u = tId (sampleTask ''task_1'' 10)" "tList u = tList (sampleTask ''task_1'' 10)"
    "tBody u = tBody (sampleTask ''task_1'' 10)" "tContext u = tContext (sampleTask ''task_1'' 10)"
    "tOriginKind u = tOriginKind (sampleTask ''task_1'' 10)" "tOriginSender u = tOriginSender (sampleTask ''task_1'' 10)"
    "tQuestId u = tQuestId (sampleTask ''task_1'' 10)"
  have "digit_char d \<noteq> CHR 0x00" if "d < 10" for d
  proof
    assume "digit_char d = CHR 0x00"
    then have "of_char (digit_char d) = (0 :: nat)" by simp
    then show False using that by (simp add: digit_char_def)
  qed
  then have digit: "CHR 0x00 \<notin> set (nat_text n)"
    by (induction n rule: nat_text.induct) (subst nat_text.simps, auto simp: eq_commute [of "CHR 0x00"])
  have "taskFeedPayload u = taskFeedPayload (sampleTask ''task_1'' 10)" "tId u = ''task_1''"
    using u by (simp_all add: taskFeedPayload_def)
  moreover have "CHR 0x00 \<notin> set (json_text (JObj (taskFeedPayload (sampleTask ''task_1'' 10))))" by code_simp
  ultimately show "CHR 0x00 \<notin> set (buildTaskFeedBody u n)"
    using digit by (simp add: buildTaskFeedBody_def TASK_FEED_PROMPT_MARKER_def backquoted_def)
qed simp

theorem supply_feeds_witness:
  "\<exists>fed sup s'. tryFeedTaskSupply (\<lambda>_. []) ''bee1'' twoTasks = Inr (Some (fed, sup), s') \<and> tStatus fed = TQueued
     \<and> tsFeeds sup = 1 \<and> tsPaused sup"
proof -
  obtain fed sup s' where run: "tryFeedTaskSupply (\<lambda>_. []) ''bee1'' twoTasks = Inr (Some (fed, sup), s')"
    using twoTasks_feed by fastforce
  show ?thesis
    using supply_feeds [OF sample_reachable run] run
    by (auto simp: fedTask_def fedSupply_def getTaskSupply_def taskCore_def)
qed

theorem feed_bound_witness:
  "\<exists>s'. feed_run ''bee1'' twoTasks 1 s' \<and> tsFeeds (getTaskSupply s' ''bee1'') = 1 \<and> tsPaused (getTaskSupply s' ''bee1'')"
proof -
  obtain out s' where run: "tryFeedTaskSupply (\<lambda>_. []) ''bee1'' twoTasks = Inr (Some out, s')"
    using twoTasks_feed by blast
  have "feed_run ''bee1'' twoTasks (Suc 0) s'" by (rule feed_run.feed [OF feed_run.none run])
  from feed_bound [OF this sample_reachable] this show ?thesis
    by (auto simp: getTaskSupply_def taskCore_def)
qed

section \<open>Transitions\<close>

lemma transitionTask_returns:
  assumes "getTask s i = Some cur" and "tStatus cur \<in> set (snd (TASK_TRANSITIONS act))" and "tStatus cur \<noteq> TQueued"
  shows "\<exists>r s'. transitionTask i act reason s = Inr (r, s')"
  using assms
  by (simp add: transitionTask_def bindM_def mustGetTask_def requireM_def Let_def whenM_def writeTask_def getTask_def find_row_update_key audit_def)

text \<open>
  A transition does what its table says. An unknown task is an error, and so is a transition that
  the status of the task does not allow; neither changes anything. A transition that returns leaves
  exactly the row \<open>transitioned\<close> (its status, its closing time, its reason, and no mail id any more when
  the fed mail was withdrawn) and no other row changed; and it always returns for a task that has no
  mail waiting.
\<close>

theorem transitionTask_correct:
  assumes "task_reachable s"
  shows "case getTask s i of
           None \<Rightarrow> transitionTask i act reason s = Inl (TaskNotFoundError i)
         | Some cur \<Rightarrow>
             if tStatus cur \<notin> set (snd (TASK_TRANSITIONS act))
             then transitionTask i act reason s = Inl (CoreError ''task transition refused'')
             else (case transitionTask i act reason s of
                     Inl _ \<Rightarrow> tStatus cur = TQueued
                   | Inr (r, s') \<Rightarrow> r = transitioned cur act reason (clock s) \<and> tasks s' = put_row tId r (tasks s))"
proof (cases "getTask s i")
  case None
  then show ?thesis by (simp add: transitionTask_def bindM_def mustGetTask_def)
next
  case (Some cur)
  show ?thesis
  proof (cases "tStatus cur \<in> set (snd (TASK_TRANSITIONS act))")
    case False
    then show ?thesis using Some by (simp add: transitionTask_def bindM_def mustGetTask_def requireM_def)
  next
    case True
    have ids: "distinct (map tId (tasks s))" using task_reachable_ok [OF assms] by (simp add: task_ok_def)
    show ?thesis
    proof (cases "transitionTask i act reason s")
      case (Inl e)
      then have "tStatus cur = TQueued" using transitionTask_returns [OF Some True, of reason] by auto
      then show ?thesis using Some True Inl by simp
    next
      case (Inr p)
      obtain r s' where p: "p = (r, s')" by fastforce
      have "r = transitioned cur act reason (clock s) \<and> tasks s' = put_row tId r (tasks s)"
        by (rule transitionTask_run [OF Inr [unfolded p] ids]) (simp add: Some)
      then show ?thesis using Some True Inr p by simp
    qed
  qed
qed

theorem transitionTask_correct_witness:
  "transitionTask ''task_9'' TtDone None twoTasks = Inl (TaskNotFoundError ''task_9'')
   \<and> (\<exists>s'. transitionTask ''task_1'' TtDone None twoTasks = Inr (transitioned (sampleTask ''task_1'' 10) TtDone None 1000, s')
        \<and> tasks s' = [transitioned (sampleTask ''task_1'' 10) TtDone None 1000, sampleTask ''task_2'' 20])"
proof -
  have get: "getTask twoTasks ''task_9'' = None" "getTask twoTasks ''task_1'' = Some (sampleTask ''task_1'' 10)"
    by (simp_all add: getTask_def)
  obtain r s' where run: "transitionTask ''task_1'' TtDone None twoTasks = Inr (r, s')"
    using transitionTask_returns [OF get(2), of TtDone None] by auto
  show ?thesis
    using transitionTask_correct [OF sample_reachable, of "''task_9''" TtDone None] get(1)
      transitionTask_correct [OF sample_reachable, of "''task_1''" TtDone None] get(2) run
    by (auto simp: put_row_def update_rows_def transitioned_def Let_def)
qed

end
