(* ===== verification/Fenced_Admission.thy ===== *)
theory Fenced_Admission
  imports Executions
begin

text \<open>
  The store's side of fenced executions (v2/core/src/store.ts, \<open>beginFencedSpawn\<close> to \<open>executeWithFence\<close>
  and \<open>resolveExecution\<close>): a request under a claim runs its effect in the transaction that records it.
  The effect is a parameter: the daemon passes the send, the archive or the spawn that the request asks for.
\<close>

section \<open>The admission of a claim\<close>

datatype admission = AdRefused exec_receipt | AdPrior exec_receipt | AdFresh

text \<open>\<open>prepare\<close> under try: a stale claim is recorded as refused, any other error is thrown again.\<close>

definition tryPrepare :: "exec_claim \<Rightarrow> admission store_op" where
  "tryPrepare claim =
     (\<lambda>s. case prepareExecution claim s of
            Inl e \<Rightarrow>
              if e = ExecutionFenceError XcStale
              then bindM (refusedAdmission claim) (\<lambda>r. returnM (AdRefused r)) s else Inl e
          | Inr (Some r, s') \<Rightarrow> Inr (AdPrior r, s')
          | Inr (None, s') \<Rightarrow> Inr (AdFresh, s'))"

text \<open>\<open>this.executionKey\<close> names the key of the request while its effect runs.\<close>

definition withExecutionKey :: "string \<Rightarrow> 'a store_op \<Rightarrow> 'a store_op" where
  "withExecutionKey k m =
     (\<lambda>s. case m (s\<lparr>executionKey := Some k\<rparr>) of
            Inl e \<Rightarrow> Inl e
          | Inr (x, s') \<Rightarrow> Inr (x, s'\<lparr>executionKey := executionKey s\<rparr>))"

definition unboundKey :: "string \<Rightarrow> unit store_op" where
  "unboundKey k =
     bindM (lookupRpcResult k) (\<lambda>hit.
     bindM (readM (\<lambda>s. getCommandByIdempotencyKey s k)) (\<lambda>command.
       requireM (hit = None \<and> command = None) (ExecutionFenceError XcHistoryUnknown)))"

text \<open>An effect answers the command it enqueued, if any, and the result to record.\<close>

type_synonym fenced_effect = "exec_request \<Rightarrow> (nat option \<times> json) store_op"

definition runFenced :: "exec_request \<Rightarrow> fenced_effect \<Rightarrow> exec_receipt store_op" where
  "runFenced q effect =
     withExecutionKey (xcKey (xqClaim q))
       (bindM (effect q) (\<lambda>(commandId, result).
        bindM (recordRpcResult (xcKey (xqClaim q)) (exec_verb_text (xcVerb (xqClaim q))) commandId result) (\<lambda>_.
          recordExecution (xqClaim q) commandId result)))"

text \<open>The transaction: \<open>Inl\<close> of the refusal it recorded, or \<open>Inr\<close> of the receipt.\<close>

definition fencedTx :: "exec_request \<Rightarrow> nat \<Rightarrow> fenced_effect \<Rightarrow> (exec_receipt + exec_receipt) store_op" where
  "fencedTx q uid effect =
     bindM (requireCoordinator (xcIssuer (xqClaim q)) uid) (\<lambda>_.
     bindM (tryPrepare (xqClaim q)) (\<lambda>outcome.
       case outcome of
         AdRefused r \<Rightarrow> returnM (Inl r)
       | AdPrior r \<Rightarrow> returnM (Inr r)
       | AdFresh \<Rightarrow>
           bindM (unboundKey (xcKey (xqClaim q))) (\<lambda>_.
           bindM (runFenced q effect) (\<lambda>r. returnM (Inr r)))))"

text \<open>A refusal commits its record and then throws.\<close>

definition executeWithFence ::
  "(string \<Rightarrow> string) \<Rightarrow> json \<Rightarrow> nat \<Rightarrow> fenced_effect \<Rightarrow> core \<Rightarrow> (core_error + exec_receipt) \<times> core" where
  "executeWithFence sha value uid effect s =
     (case executionRequest sha value s of
        Inl e \<Rightarrow> (Inl e, s)
      | Inr (q, _) \<Rightarrow>
          if xcVerb (xqClaim q) = XvSpawn then (Inl (ExecutionFenceError XcUnsupported), s)
          else
            (case fencedTx q uid effect s of
               Inl e \<Rightarrow> (Inl e, s)
             | Inr (Inl r, s') \<Rightarrow> (Inl (ExecutionFenceError XcStale), s')
             | Inr (Inr r, s') \<Rightarrow> (Inr r, s')))"

section \<open>Fenced spawns\<close>

text \<open>\<open>String(x)\<close> of a received value.\<close>

fun js_string :: "json \<Rightarrow> string" where
  "js_string JNull = ''null''"
| "js_string (JBool b) = (if b then ''true'' else ''false'')"
| "js_string (JNum n) = int_text n"
| "js_string (JStr x) = x"
| "js_string (JArr vs) = join_with '','' (map (\<lambda>v. if v = JNull then '''' else js_string v) vs)"
| "js_string (JObj obj) = ''[object Object]''"
| "js_string (JFun f) = ''function''"

definition spawnSubstrate :: "jobject \<Rightarrow> string" where
  "spawnSubstrate args =
     (case map_of args ''substrate'' of None \<Rightarrow> ''hsr'' | Some JNull \<Rightarrow> ''hsr'' | Some v \<Rightarrow> js_string v)"

text \<open>The request, its receipt and whether it is a new one.\<close>

definition beginSpawnTx :: "exec_request \<Rightarrow> nat \<Rightarrow> (exec_receipt + exec_receipt \<times> bool) store_op" where
  "beginSpawnTx q uid =
     bindM (requireCoordinator (xcIssuer (xqClaim q)) uid) (\<lambda>_.
     bindM (tryPrepare (xqClaim q)) (\<lambda>outcome.
       case outcome of
         AdRefused r \<Rightarrow> returnM (Inl r)
       | AdPrior r \<Rightarrow> returnM (Inr (r, False))
       | AdFresh \<Rightarrow>
           bindM (unboundKey (xcKey (xqClaim q))) (\<lambda>_.
           bindM (beginSpawn (xqClaim q)) (\<lambda>r.
           bindM (bindBee (xqClaim q)) (\<lambda>_. returnM (Inr (r, True)))))))"

definition beginFencedSpawn ::
  "(string \<Rightarrow> string) \<Rightarrow> json \<Rightarrow> nat \<Rightarrow> core \<Rightarrow> (core_error + exec_request \<times> exec_receipt \<times> bool) \<times> core" where
  "beginFencedSpawn sha value uid s =
     (case executionRequest sha value s of
        Inl e \<Rightarrow> (Inl e, s)
      | Inr (q, _) \<Rightarrow>
          if xcVerb (xqClaim q) \<noteq> XvSpawn \<or> spawnSubstrate (xqArgs q) \<noteq> ''hsr''
          then (Inl (ExecutionFenceError XcUnsupported), s)
          else
            (case beginSpawnTx q uid s of
               Inl e \<Rightarrow> (Inl e, s)
             | Inr (Inl r, s') \<Rightarrow> (Inl (ExecutionFenceError XcStale), s')
             | Inr (Inr (r, fresh), s') \<Rightarrow> (Inr (q, r, fresh), s')))"

definition checkSpawnPreparation :: "exec_claim \<Rightarrow> string \<Rightarrow> unit store_op" where
  "checkSpawnPreparation request operation =
     bindM (readM (\<lambda>s. executionBee s (xcBeeId request))) (\<lambda>bound.
       case bound of
         None \<Rightarrow> throwM (ExecutionFenceError XcHistoryUnknown)
       | Some claim \<Rightarrow>
           bindM (requireM (xcKey claim = xcKey request) (ExecutionFenceError XcHistoryUnknown)) (\<lambda>_.
           bindM (prepareExecution request) (\<lambda>receipt.
           bindM (requireM (map_option xrStatus receipt = Some XsPreparing) (ExecutionFenceError XcHistoryUnknown)) (\<lambda>_.
           bindM (validateCurrent claim) (\<lambda>_.
             audit (EvExec (XvSpawnPreparationChecked (xcBeeId request) (xcKey request) operation)))))))"

definition admitFencedSpawn :: "exec_claim \<Rightarrow> (nat option \<times> json) store_op \<Rightarrow> json store_op" where
  "admitFencedSpawn request effect =
     bindM (checkSpawnPreparation request ''admission'') (\<lambda>_.
       withExecutionKey (xcKey request)
         (bindM effect (\<lambda>(commandId, result).
            case commandId of
              None \<Rightarrow> throwM (ExecutionFenceError XcUnsupported)
            | Some c \<Rightarrow>
                bindM (recordRpcResult (xcKey request) ''spawn'' (Some c) result) (\<lambda>_.
                bindM (admitSpawn request c result) (\<lambda>_. returnM result)))))"

section \<open>Observing an execution\<close>

datatype execution_observation =
    ObExecution "rpc_result option" exec_receipt
  | ObEffect effect_resolution

definition resolveExecution :: "(string \<Rightarrow> string) \<Rightarrow> json \<Rightarrow> nat \<Rightarrow> execution_observation store_op" where
  "resolveExecution sha value uid =
     bindM (executionRequest sha value) (\<lambda>q.
     bindM (requireCoordinator (xcIssuer (xqClaim q)) uid) (\<lambda>_.
     bindM (observeExecution (xqClaim q)) (\<lambda>receipt.
       case receipt of
         Some r \<Rightarrow> bindM (lookupRpcResult (xcKey (xqClaim q))) (\<lambda>hit. returnM (ObExecution hit r))
       | None \<Rightarrow>
           bindM (effectObserve (xcKey (xqClaim q)) (exec_verb_text (xcVerb (xqClaim q)))) (\<lambda>observation.
             case observation of
               ErCommitted _ \<Rightarrow> throwM (ExecutionFenceError XcHistoryUnknown)
             | _ \<Rightarrow> returnM (ObEffect observation)))))"

end
