(* ===== verification/Fenced_Runs.thy ===== *)
theory Fenced_Runs
  imports Fenced_Admission Samples
begin

text \<open>
  What the fence promises over any run of the store: the claims of a continuation are installed one
  generation at a time, a request runs its effect at most once, an advance leaves nothing of the claim
  before it pending, and a fenced bee is dispatched at most once.
\<close>

section \<open>Reading a request does not depend on the store\<close>

named_theorems pure_op "operations that neither read nor write the store"

definition pureM :: "('s, 'e, 'a) op \<Rightarrow> bool" where
  "pureM m \<longleftrightarrow> (\<exists>r. \<forall>s. m s = (case r of Inl e \<Rightarrow> Inl e | Inr x \<Rightarrow> Inr (x, s)))"

lemma pureM_return [pure_op]: "pureM (returnM x)"
  unfolding pureM_def by (rule exI [of _ "Inr x"]) simp

lemma pureM_throw [pure_op]: "pureM (throwM e)"
  unfolding pureM_def by (rule exI [of _ "Inl e"]) simp

lemma pureM_require [pure_op]: "pureM (requireM b e)"
  unfolding requireM_def by (simp add: pure_op)

lemma pureM_bind [pure_op]:
  assumes "pureM m" and "\<And>x. pureM (k x)"
  shows "pureM (bindM m k)"
proof -
  obtain r where r: "\<And>s. m s = (case r of Inl e \<Rightarrow> Inl e | Inr x \<Rightarrow> Inr (x, s))"
    using assms(1) by (auto simp: pureM_def)
  show ?thesis
  proof (cases r)
    case (Inl e)
    then show ?thesis unfolding pureM_def by (intro exI [of _ "Inl e"]) (simp add: bindM_def r)
  next
    case (Inr x)
    obtain r' where "\<And>s. k x s = (case r' of Inl e \<Rightarrow> Inl e | Inr y \<Rightarrow> Inr (y, s))"
      using assms(2) [of x] by (auto simp: pureM_def)
    with Inr show ?thesis unfolding pureM_def by (intro exI [of _ r']) (simp add: bindM_def r)
  qed
qed

lemma pureM_if [pure_op]: "pureM m \<Longrightarrow> pureM k \<Longrightarrow> pureM (if b then m else k)"
  by simp

lemma pureD: "pureM m \<Longrightarrow> m s = Inr (x, s') \<Longrightarrow> s' = s \<and> m t = Inr (x, t)"
  unfolding pureM_def by (elim exE, rename_tac r, case_tac r) simp_all

lemma pure_invalid [pure_op]: "pureM fenceInvalid"
  unfolding fenceInvalid_def by (rule pure_op)

lemma pure_orInvalid [pure_op]: "pureM (orInvalid x)"
  unfolding orInvalid_def by (cases x) (simp_all add: pure_op)

lemma pure_closedObject [pure_op]: "pureM (closedObject v ks)"
  unfolding closedObject_def by (cases v) (simp_all add: pure_op)

lemma pure_token [pure_op]: "pureM (executionToken v)"
  unfolding executionToken_def by (intro pure_op)

lemma pure_binding [pure_op]: "pureM (executionBinding v)"
  unfolding executionBinding_def by (intro pure_op)

lemma pure_claim [pure_op]: "pureM (executionClaim v)"
  unfolding executionClaim_def by (intro pure_op)

lemma pure_args: "(\<And>a. pureM (f a)) \<Longrightarrow> pureM (case v of Some (JObj a) \<Rightarrow> f a | _ \<Rightarrow> fenceInvalid)"
  by (cases v; cases "the v") (auto simp: pure_op)

lemma pure_request [pure_op]: "pureM (executionRequest sha v)"
  unfolding executionRequest_def by (intro pure_op pure_args)

section \<open>The writes to the tables of executions\<close>

text \<open>A status settles; \<open>XsCompleted\<close> is final.\<close>

definition status_step :: "exec_status \<Rightarrow> exec_status \<Rightarrow> bool" where
  "status_step a b \<longleftrightarrow>
     (a = XsQueued \<and> (b = XsRefusedStale \<or> b = XsCompleted)) \<or> (a \<noteq> XsCompleted \<and> b = XsOutcomeUnknown)"

text \<open>A start is dispatched only from the prepared state, and no state leads back to it.\<close>

definition start_step :: "start_state \<Rightarrow> start_state \<Rightarrow> bool" where
  "start_step a b \<longleftrightarrow> b \<noteq> SsPrepared \<and> (b = SsDispatching \<longrightarrow> a = SsPrepared)"

definition ledger_part :: "core \<Rightarrow> exec_claim list \<times> exec_transition list \<times> exec_effect list \<times> exec_start_row list" where
  "ledger_part s = (execClaims s, execTransitions s, execEffects s, execStarts s)"

inductive exec_write :: "core \<Rightarrow> core \<Rightarrow> bool" where
  EwSame: "ledger_part s' = ledger_part s \<Longrightarrow> exec_write s s'"
| EwStatus: "find_row xeKey (execEffects s) k = Some e \<Longrightarrow> status_step (xrStatus (xeReceipt e)) st \<Longrightarrow>
    ledger_part s' = (execClaims s, execTransitions s,
      update_rows (\<lambda>e. xeKey e = k) (setReceipt ((xeReceipt e)\<lparr>xrStatus := st\<rparr>)) (execEffects s), execStarts s) \<Longrightarrow> exec_write s s'"
| EwAdmit: "find_row xeKey (execEffects s) k = Some e \<Longrightarrow> xrStatus (xeReceipt e) = XsPreparing \<Longrightarrow>
    ledger_part s' = (execClaims s, execTransitions s,
      update_rows (\<lambda>e. xeKey e = k)
        (\<lambda>x. x\<lparr>xeReceipt := (xeReceipt e)\<lparr>xrStatus := XsQueued, xrCommandId := Some c, xrResult := r\<rparr>, xeCommand := Some c\<rparr>)
        (execEffects s), execStarts s) \<Longrightarrow> exec_write s s'"
| EwNew: "currentClaim s claim = Some claim \<Longrightarrow> xcKey claim \<notin> xeKey ` set (execEffects s) \<Longrightarrow> xrClaim receipt = claim \<Longrightarrow>
    ledger_part s' = (execClaims s, execTransitions s,
      execEffects s @ [\<lparr>xeKey = xcKey claim, xeBinding = claim, xeReceipt = receipt, xeCommand = c\<rparr>], execStarts s) \<Longrightarrow>
    exec_write s s'"
| EwClaim: "xcGeneration claim = nextGeneration (currentClaim s claim) \<Longrightarrow>
    (\<And>old. currentClaim s claim = Some old \<Longrightarrow> sameGrant old claim) \<Longrightarrow>
    (xcIssuer claim, i) \<notin> (\<lambda>t. (xtIssuer t, xtTransition t)) ` set (execTransitions s) \<Longrightarrow>
    ledger_part s' = (upsert_row (\<lambda>c. (xcIssuer c, xcContinuation c)) claim (execClaims s),
      execTransitions s @ [\<lparr>xtIssuer = xcIssuer claim, xtTransition = i, xtRequest = v, xtClaim = claim\<rparr>],
      execEffects s, execStarts s) \<Longrightarrow> exec_write s s'"
| EwStart: "esBee st \<notin> (\<lambda>r. esBee (esStart r)) ` set (execStarts s) \<Longrightarrow>
    esIntent st \<notin> (\<lambda>r. esIntent (esStart r)) ` set (execStarts s) \<Longrightarrow>
    ledger_part s' = (execClaims s, execTransitions s, execEffects s,
      execStarts s @ [\<lparr>esStart = st, esState = SsPrepared, esHost = None, esAgent = None\<rparr>]) \<Longrightarrow> exec_write s s'"
| EwState: "find_row (\<lambda>r. esIntent (esStart r)) (execStarts s) i = Some row \<Longrightarrow> start_step (esState row) (esState (f row)) \<Longrightarrow>
    (\<And>r. esStart (f r) = esStart r) \<Longrightarrow> (\<And>r r'. esState (f r) = esState (f r')) \<Longrightarrow>
    ledger_part s' = (execClaims s, execTransitions s, execEffects s,
      update_rows (\<lambda>r. esIntent (esStart r) = i) f (execStarts s)) \<Longrightarrow> exec_write s s'"

abbreviation writes_to :: "core \<Rightarrow> core \<Rightarrow> bool" where
  "writes_to \<equiv> exec_write\<^sup>*\<^sup>*"

text \<open>An operation whose changes are writes of this kind.\<close>

abbreviation writes :: "'a store_op \<Rightarrow> bool" where
  "writes m \<equiv> runs_in exec_write m"

lemma writes_frame: "frames ledger_part m \<Longrightarrow> writes m"
  by (rule runs_frame) (rule EwSame)

lemma frames_ledger_audit [frame]: "frames ledger_part (audit ev)"
  unfolding audit_def by (intro frame) (simp add: ledger_part_def)

lemma writes_audit [writing]: "writes (audit ev)"
  by (rule writes_frame) (rule frame)

lemma writes_pure: "pureM m \<Longrightarrow> writes m"
  by (rule runsI) (auto dest: pureD)

section \<open>The operations write this way\<close>

lemma writes_execRow:
  assumes "\<And>e s x s'. find_row xeKey (execEffects s) key = Some e \<Longrightarrow> k (Some e) s = Inr (x, s') \<Longrightarrow> writes_to s s'"
    and "writes (k None)"
  shows "writes (bindM (execRow key) k)"
proof (rule runsI)
  fix s x s' assume run: "bindM (execRow key) k s = Inr (x, s')"
  show "writes_to s s'"
  proof (cases "find_row xeKey (execEffects s) key")
    case None
    with run have "k None s = Inr (x, s')" by (simp add: execRow_def bindM_def)
    with assms(2) show ?thesis by (rule runsD)
  next
    case (Some e)
    with run have "k (Some e) s = Inr (x, s')" by (simp add: execRow_def bindM_def requireM_def split: if_splits)
    with Some show ?thesis by (rule assms(1))
  qed
qed

lemma step_then: "exec_write s s1 \<Longrightarrow> writes m \<Longrightarrow> m s1 = Inr (x, s') \<Longrightarrow> writes_to s s'"
  by (meson converse_rtranclp_into_rtranclp runsD)

lemma status_then:
  assumes "find_row xeKey (execEffects s) k = Some e" and "status_step (xrStatus (xeReceipt e)) st" and "writes (m ())"
    and "bindM (updateExecEffect k (setReceipt ((xeReceipt e)\<lparr>xrStatus := st\<rparr>))) m s = Inr (x, s')"
  shows "writes_to s s'"
proof -
  let ?s1 = "s\<lparr>execEffects := update_rows (\<lambda>e. xeKey e = k) (setReceipt ((xeReceipt e)\<lparr>xrStatus := st\<rparr>)) (execEffects s)\<rparr>"
  have "exec_write s ?s1" by (rule EwStatus [OF assms(1,2)]) (simp add: ledger_part_def)
  moreover have "m () ?s1 = Inr (x, s')" using assms(4) by (simp add: updateExecEffect_def)
  ultimately show ?thesis by (rule step_then [OF _ assms(3)])
qed

lemma frames_finishPending [frame]: "frames ledger_part (finishPending i)"
  unfolding finishPending_def by (intro frame) (simp add: ledger_part_def)

lemma writes_finishPending [writing]: "writes (finishPending i)"
  by (rule writes_frame) (rule frame)

lemma writes_refuse [writing]: "writes (refuseExecution key)"
  unfolding refuseExecution_def
proof (rule writes_execRow)
  fix e s x s'
  assume row: "find_row xeKey (execEffects s) key = Some e"
    and run: "(case Some e of None \<Rightarrow> throwM (JsError ''TypeError'')
       | Some e \<Rightarrow>
           whenM (xrStatus (xeReceipt e) = XsQueued)
             (bindM (updateExecEffect key (setReceipt ((xeReceipt e)\<lparr>xrStatus := XsRefusedStale\<rparr>))) (\<lambda>_.
              bindM (finishPending (xrCommandId (xeReceipt e))) (\<lambda>_.
                audit (EvExec (XvRefusedStale (xcBeeId (xeBinding e)) key (xrCommandId (xeReceipt e)))))))) s = Inr (x, s')"
  show "writes_to s s'"
  proof (cases "xrStatus (xeReceipt e) = XsQueued")
    case True
    with run have "bindM (updateExecEffect key (setReceipt ((xeReceipt e)\<lparr>xrStatus := XsRefusedStale\<rparr>))) (\<lambda>_.
        bindM (finishPending (xrCommandId (xeReceipt e))) (\<lambda>_.
          audit (EvExec (XvRefusedStale (xcBeeId (xeBinding e)) key (xrCommandId (xeReceipt e)))))) s = Inr (x, s')"
      by (simp add: whenM_def)
    then show ?thesis
      by (rule status_then [OF row, rotated 2]) (simp add: status_step_def True, intro writing)
  next
    case False
    with run show ?thesis by (simp add: whenM_def)
  qed
qed (simp add: writing)

lemma frames_execRow [frame]: "frames f (execRow key)"
  unfolding execRow_def by (intro frame)

lemma writes_execRow_read [writing]: "writes (execRow key)"
  by (rule writes_frame) (rule frame)

lemma writes_commandAllowed [writing]: "writes (commandAllowed i)"
  unfolding commandAllowed_def by (intro writing)

lemma writes_settle:
  assumes step: "\<And>e. b e \<Longrightarrow> status_step (xrStatus (xeReceipt e)) st" and none: "writes m"
  shows "writes (bindM (execRow k) (\<lambda>found. case found of None \<Rightarrow> m
       | Some e \<Rightarrow> whenM (b e) (thenM (updateExecEffect k (setReceipt ((xeReceipt e)\<lparr>xrStatus := st\<rparr>))) (audit (ev e)))))"
proof (rule writes_execRow)
  fix e s x s'
  assume found: "find_row xeKey (execEffects s) k = Some e"
    and run: "(case Some e of None \<Rightarrow> m
       | Some e \<Rightarrow> whenM (b e) (thenM (updateExecEffect k (setReceipt ((xeReceipt e)\<lparr>xrStatus := st\<rparr>))) (audit (ev e)))) s = Inr (x, s')"
  show "writes_to s s'"
  proof (cases "b e")
    case True
    with run have "bindM (updateExecEffect k (setReceipt ((xeReceipt e)\<lparr>xrStatus := st\<rparr>))) (\<lambda>_. audit (ev e)) s = Inr (x, s')"
      by (simp add: whenM_def thenM_def)
    then show ?thesis by (rule status_then [OF found step [OF True] writes_audit])
  qed (use run in \<open>simp add: whenM_def\<close>)
qed (simp add: none)

lemma writes_completed [writing]: "writes (executionCompleted i)"
  unfolding executionCompleted_def
  by (rule runs_bind [OF runs_read], rule runs_option, rule writing, rule writes_settle)
     (simp_all add: status_step_def writing)

lemma writes_spawnUnknown [writing]: "writes (spawnUnknown key)"
  unfolding spawnUnknown_def by (rule writes_settle) (simp_all add: status_step_def writing)

lemma writes_spawnStarted [writing]: "writes (spawnStarted key)"
  unfolding spawnStarted_def
proof (rule writes_execRow)
  fix e s x s'
  assume found: "find_row xeKey (execEffects s) key = Some e"
    and run: "(case Some e of None \<Rightarrow> throwM (ExecutionFenceError XcHistoryUnknown)
       | Some e \<Rightarrow>
           bindM (requireM (xcVerb (xeBinding e) = XvSpawn \<and> xrStatus (xeReceipt e) = XsQueued)
                    (ExecutionFenceError XcHistoryUnknown)) (\<lambda>_.
             updateExecEffect key (setReceipt ((xeReceipt e)\<lparr>xrStatus := XsCompleted\<rparr>)))) s = Inr (x, s')"
  from run have ok: "status_step (xrStatus (xeReceipt e)) XsCompleted"
    and "bindM (updateExecEffect key (setReceipt ((xeReceipt e)\<lparr>xrStatus := XsCompleted\<rparr>))) returnM s = Inr (x, s')"
    by (auto simp: bindM_Inr status_step_def updateExecEffect_def)
  then show "writes_to s s'" by (intro status_then [OF found ok]) (simp_all add: writing)
qed (simp add: writing)

lemma writes_admitSpawn [writing]: "writes (admitSpawn claim c r)"
  unfolding admitSpawn_def
proof (rule writes_execRow)
  fix e s x s'
  assume found: "find_row xeKey (execEffects s) (xcKey claim) = Some e"
    and run: "(case Some e of None \<Rightarrow> throwM (ExecutionFenceError XcHistoryUnknown)
       | Some e \<Rightarrow>
           bindM (requireM (xrStatus (xeReceipt e) = XsPreparing) (ExecutionFenceError XcHistoryUnknown)) (\<lambda>_.
           bindM (validateCurrent (xeBinding e)) (\<lambda>_.
           bindM (readM (\<lambda>s. list_ex (\<lambda>x. xeCommand x = Some c \<and> xeKey x \<noteq> xcKey claim) (execEffects s))) (\<lambda>clash.
           bindM (requireM (\<not> clash) SqliteConstraintError) (\<lambda>_.
             (let receipt = (xeReceipt e)\<lparr>xrStatus := XsQueued, xrCommandId := Some c, xrResult := r\<rparr>
              in bindM (updateExecEffect (xcKey claim) (\<lambda>x. x\<lparr>xeReceipt := receipt, xeCommand := Some c\<rparr>)) (\<lambda>_.
                   returnM receipt))))))) s = Inr (x, s')"
  have valid: "validateCurrent w s0 = Inr (u, s1) \<Longrightarrow> s1 = s0" for w s0 u s1
    by (auto simp: validateCurrent_def bindM_Inr)
  from run have prep: "xrStatus (xeReceipt e) = XsPreparing"
    and s': "s' = s\<lparr>execEffects := update_rows (\<lambda>e. xeKey e = xcKey claim)
        (\<lambda>x. x\<lparr>xeReceipt := (xeReceipt e)\<lparr>xrStatus := XsQueued, xrCommandId := Some c, xrResult := r\<rparr>, xeCommand := Some c\<rparr>)
        (execEffects s)\<rparr>"
    by (auto simp: bindM_Inr updateExecEffect_def Let_def dest!: valid)
  show "writes_to s s'"
    by (rule r_into_rtranclp, rule EwAdmit [OF found prep]) (simp add: s' ledger_part_def)
qed (simp add: writing)

lemma currentClaim_part: "execClaims s' = execClaims s \<Longrightarrow> currentClaim s' c = currentClaim s c"
  by (simp add: currentClaim_def)

lemma recordExecution_run:
  "recordExecution claim c r s = Inr (x, s') \<Longrightarrow>
    xcKey claim \<notin> xeKey ` set (execEffects s) \<and> xrClaim x = claim \<and> (xrStatus x = XsCompleted \<longrightarrow> xcVerb claim = XvSend)
    \<and> (\<exists>column. ledger_part s' = (execClaims s, execTransitions s,
         execEffects s @ [\<lparr>xeKey = xcKey claim, xeBinding = claim, xeReceipt = x, xeCommand = column\<rparr>], execStarts s))"
  by (auto simp: recordExecution_def Let_def bindM_Inr audit_def ledger_part_def)

lemma recordExecution_writes:
  assumes "currentClaim s claim = Some claim" and "recordExecution claim c r s = Inr (x, s')"
  shows "writes_to s s'"
  using recordExecution_run [OF assms(2)] EwNew [OF assms(1)] by (blast intro: r_into_rtranclp)

lemma beginSpawn_writes:
  assumes "currentClaim s claim = Some claim" and run: "beginSpawn claim s = Inr (x, s')"
  shows "writes_to s s' \<and> xrClaim x = claim"
proof -
  obtain y s1 where rec: "recordExecution claim None JNull s = Inr (y, s1)"
    and x: "x = y\<lparr>xrStatus := XsPreparing\<rparr>"
    and s': "s' = s1\<lparr>execEffects := update_rows (\<lambda>e. xeKey e = xcKey claim) (setReceipt x) (execEffects s1)\<rparr>"
    using run by (auto simp: beginSpawn_def bindM_Inr updateExecEffect_def)
  from recordExecution_run [OF rec] obtain column where fresh: "xcKey claim \<notin> xeKey ` set (execEffects s)" and y: "xrClaim y = claim"
    and s1: "ledger_part s1 = (execClaims s, execTransitions s,
         execEffects s @ [\<lparr>xeKey = xcKey claim, xeBinding = claim, xeReceipt = y, xeCommand = column\<rparr>], execStarts s)" by blast
  have "update_rows (\<lambda>e. xeKey e = xcKey claim) (setReceipt x) (execEffects s) = execEffects s"
    using fresh unfolding update_rows_def by (intro map_idI) (metis image_eqI)
  then have part: "ledger_part s' = (execClaims s, execTransitions s,
         execEffects s @ [\<lparr>xeKey = xcKey claim, xeBinding = claim, xeReceipt = x, xeCommand = column\<rparr>], execStarts s)"
    using s1 by (auto simp: s' ledger_part_def setReceipt_def update_rows_def)
  have "xrClaim x = claim" using x y by simp
  with EwNew [OF assms(1) fresh this part] show ?thesis by (blast intro: r_into_rtranclp)
qed

section \<open>The start intents\<close>

definition startIn :: "core \<Rightarrow> string \<Rightarrow> exec_start_row option" where
  "startIn s i = find_row (\<lambda>r. esIntent (esStart r)) (execStarts s) i"

lemma startRow_run: "startRow st s = Inr (r, s') \<Longrightarrow> s' = s \<and> startIn s (esIntent st) = Some r \<and> esStart r = st"
  by (auto simp: startRow_def startContext_def startIn_def find_row_def bindM_Inr split: option.splits)

text \<open>The part that the tests of a start and its preparation operations leave alone.\<close>

lemma frames_start_reads [frame]:
  "frames f (startRow st)" "frames f (validateCurrent c)" "frames f (quiescent st)" "frames f (exactProcess p)"
  unfolding startRow_def startContext_def validateCurrent_def quiescent_def exactProcess_def by (intro frame)+

lemma frames_ledger_modify: "(\<And>s. ledger_part (g s) = ledger_part s) \<Longrightarrow> frames ledger_part (modifyM g)"
  by (rule frame)

lemma frames_checkStart [frame]: "frames ledger_part (checkStart st op)"
  unfolding checkStart_def by (intro frame)

lemma frames_randomUUID_ledger [frame]: "frames ledger_part randomUUID"
  unfolding randomUUID_def by (intro frame) (simp add: ledger_part_def)

lemma frames_preparation [frame]:
  "frames ledger_part (beginPreparation st op)" "frames ledger_part (finishPreparation st l q)"
  unfolding beginPreparation_def finishPreparation_def by (intro frame, simp add: ledger_part_def)+

lemma checkStart_run:
  assumes "checkStart st op s = Inr (u, s')"
  shows "\<exists>r. startIn s (esIntent st) = Some r \<and> esStart r = st \<and> esState r = SsPrepared"
  using assms by (auto simp: checkStart_def bindM_Inr validateCurrent_def dest!: startRow_run)

lemma startIn_part: "ledger_part s' = ledger_part s \<Longrightarrow> startIn s' i = startIn s i"
  by (simp add: startIn_def ledger_part_def)

text \<open>A change of state, then the rest.\<close>

lemma state_then:
  assumes "startIn s i = Some row" and "start_step (esState row) st" and "\<And>r. esStart (f r) = esStart r" "\<And>r. esState (f r) = st"
    and "writes (m ())" and "bindM (updateStart i f) m s = Inr (x, s')"
  shows "writes_to s s'"
proof -
  let ?s1 = "s\<lparr>execStarts := update_rows (\<lambda>r. esIntent (esStart r) = i) f (execStarts s)\<rparr>"
  have "exec_write s ?s1"
    using assms(1-4) by (intro EwState [where i = i and row = row and f = f]) (simp_all add: ledger_part_def startIn_def)
  moreover have "m () ?s1 = Inr (x, s')" using assms(6) by (simp add: updateStart_def)
  ultimately show ?thesis by (rule step_then [OF _ assms(5)])
qed

lemma writes_updateStart:
  assumes "\<And>r. esStart (f r) = esStart r" "\<And>r. esState (f r) = st" and "st \<noteq> SsPrepared" "st \<noteq> SsDispatching"
  shows "writes (updateStart i f)"
proof (rule runsI)
  fix s x s' assume run: "updateStart i f s = Inr (x, s')"
  show "writes_to s s'"
  proof (cases "startIn s i")
    case None
    then have "update_rows (\<lambda>r. esIntent (esStart r) = i) f (execStarts s) = execStarts s"
      unfolding update_rows_def startIn_def find_row_None by (intro map_idI) (auto simp: image_iff)
    with run have "s' = s" by (simp add: updateStart_def)
    then show ?thesis by simp
  next
    case (Some row)
    have "bindM (updateStart i f) returnM s = Inr (x, s')" using run by (simp add: bindM_def)
    with assms show ?thesis
      by (intro state_then [OF Some, where st = st and f = f]) (simp_all add: start_step_def writing)
  qed
qed

lemma writes_outcomeUnknown [writing]: "writes (startOutcomeUnknown st)"
  unfolding startOutcomeUnknown_def by (intro writing writes_updateStart) auto

lemma writes_assertAdvance [writing]: "writes (assertAdvance c)"
  unfolding assertAdvance_def by (intro writing writes_updateStart) auto

lemma writes_startRow [writing]: "writes (startRow st)"
  by (rule writes_frame) (rule frame)

lemma writes_exactProcess [writing]: "writes (exactProcess p)"
  by (rule writes_frame) (rule frame)

lemma writes_validateCurrent [writing]: "writes (validateCurrent c)"
  by (rule writes_frame) (rule frame)

lemma writes_hostExited [writing]: "writes (hostExited st host)"
  unfolding hostExited_def by (intro writing writes_updateStart) auto

lemma writes_bindAndRelease [writing]: "writes (bindAndRelease st host)"
  unfolding bindAndRelease_def by (intro writing writes_updateStart) auto

lemma writes_agentStarted [writing]: "writes (agentStarted st host agent)"
  unfolding agentStarted_def by (intro writing writes_updateStart) auto

lemma dispatchStart_run:
  assumes run: "dispatchStart st s = Inr (u, s')"
  shows "\<exists>r. startIn s (esIntent st) = Some r \<and> esStart r = st \<and> esState r = SsPrepared
    \<and> ledger_part s' = (execClaims s, execTransitions s, execEffects s,
         update_rows (\<lambda>r. esIntent (esStart r) = esIntent st) (\<lambda>r. r\<lparr>esState := SsDispatching\<rparr>) (execStarts s))"
proof -
  obtain v s1 w s2 where c: "checkStart st ''host_dispatch'' s = Inr (v, s1)" and q: "quiescent st s1 = Inr (w, s2)"
    and last: "bindM (updateStart (esIntent st) (\<lambda>r. r\<lparr>esState := SsDispatching\<rparr>))
        (\<lambda>_. audit (EvExec (XvHostDispatch (esBee st) (esIntent st)))) s2 = Inr (u, s')"
    using run unfolding dispatchStart_def by (erule_tac bindM_InrE, erule_tac bindM_InrE) blast
  have "ledger_part s2 = ledger_part s"
    using framesD [OF frames_checkStart c] framesD [OF frames_start_reads(3) q, of ledger_part] by simp
  with last checkStart_run [OF c] show ?thesis
    by (auto simp: updateStart_def audit_def ledger_part_def)
qed

lemma writes_dispatchStart [writing]: "writes (dispatchStart st)"
proof (rule runsI)
  fix s u s' assume "dispatchStart st s = Inr (u, s')"
  from dispatchStart_run [OF this] obtain r where r: "startIn s (esIntent st) = Some r" "esState r = SsPrepared"
    and part: "ledger_part s' = (execClaims s, execTransitions s, execEffects s,
         update_rows (\<lambda>r. esIntent (esStart r) = esIntent st) (\<lambda>r. r\<lparr>esState := SsDispatching\<rparr>) (execStarts s))" by blast
  show "writes_to s s'"
    using r by (intro r_into_rtranclp EwState [OF _ _ _ _ part]) (auto simp: startIn_def start_step_def)
qed

lemma writes_prepareStart [writing]: "writes (prepareStart b g)"
proof (rule runsI)
  fix s x s' assume run: "prepareStart b g s = Inr (x, s')"
  have val: "validateCurrent c s0 = Inr (u, s1) \<Longrightarrow> s1 = s0" for c s0 u s1
    by (auto simp: validateCurrent_def bindM_Inr)
  have uuid: "randomUUID s0 = Inr (i, s1) \<Longrightarrow> ledger_part s1 = ledger_part s0" for s0 i s1
    by (rule framesD [OF frames_randomUUID_ledger])
  show "writes_to s s'"
  proof (cases "ledger_part s' = ledger_part s")
    case True
    then show ?thesis by (intro r_into_rtranclp EwSame)
  next
    case False
    have "\<exists>i c. \<not> list_ex (\<lambda>r. esBee (esStart r) = b) (execStarts s)
        \<and> \<not> list_ex (\<lambda>r. esIntent (esStart r) = i) (execStarts s)
        \<and> ledger_part s' = (execClaims s, execTransitions s, execEffects s, execStarts s @
            [\<lparr>esStart = \<lparr>esIntent = i, esBee = b, esGeneration = g, esClaim = c\<rparr>, esState = SsPrepared, esHost = None, esAgent = None\<rparr>])"
      using run False
      by (auto simp: prepareStart_def bindM_Inr Let_def audit_def startContext_def ledger_part_def
          split: option.splits dest!: val uuid)
    then obtain i c where "\<not> list_ex (\<lambda>r. esBee (esStart r) = b) (execStarts s)"
      and "\<not> list_ex (\<lambda>r. esIntent (esStart r) = i) (execStarts s)"
      and "ledger_part s' = (execClaims s, execTransitions s, execEffects s, execStarts s @
            [\<lparr>esStart = \<lparr>esIntent = i, esBee = b, esGeneration = g, esClaim = c\<rparr>, esState = SsPrepared, esHost = None, esAgent = None\<rparr>])"
      by blast
    then show ?thesis
      by (intro r_into_rtranclp EwStart [where st = "\<lparr>esIntent = i, esBee = b, esGeneration = g, esClaim = c\<rparr>"]) (auto simp: list_ex_iff)
  qed
qed

section \<open>Advancing a claim\<close>

lemma bind_require_Inr: "bindM (requireM b e) k s = Inr y \<longleftrightarrow> b \<and> k () s = Inr y"
  by (simp add: requireM_def)

lemma bind_audit: "bindM (audit ev) k s = k () (s\<lparr>auditLog := auditLog s @ [ev]\<rparr>)"
  by (simp add: audit_def)

definition claims_part :: "core \<Rightarrow> exec_claim list \<times> exec_transition list" where
  "claims_part s = (execClaims s, execTransitions s)"

lemma frames_claims [frame]:
  "frames claims_part (audit ev)" "frames claims_part (updateExecEffect k f)" "frames claims_part (finishPending i)"
  "frames claims_part (updateStart j g)"
  unfolding audit_def updateExecEffect_def finishPending_def updateStart_def
  by (intro frame, simp add: claims_part_def)+

lemma frames_claims_refuse [frame]: "frames claims_part (refuseExecution k)"
  unfolding refuseExecution_def by (intro frame)

lemma frames_claims_advance [frame]: "frames claims_part (advanceOver old claim)"
  unfolding advanceOver_def assertAdvance_def by (intro frame)

lemma writes_advanceOver [writing]: "writes (advanceOver old claim)"
  unfolding advanceOver_def by (intro writing)

lemma advanceOver_grant: "advanceOver old claim s = Inr (u, s') \<Longrightarrow> sameGrant old claim"
  by (auto simp: advanceOver_def bindM_Inr)

lemma currentClaim_claims: "claims_part s' = claims_part s \<Longrightarrow> currentClaim s' c = currentClaim s c"
  by (simp add: claims_part_def currentClaim_def)

text \<open>A claim is installed over the store that the refusals have left.\<close>

lemma installClaim_run:
  assumes "installClaim i v claim expected s = Inr (x, s')"
  shows "x = claim \<and> expected = currentClaim s claim \<and> xcGeneration claim = nextGeneration (currentClaim s claim)
    \<and> (\<exists>s1. (case currentClaim s claim of None \<Rightarrow> s1 = s | Some old \<Rightarrow> advanceOver old claim s = Inr ((), s1))
        \<and> s' = s1\<lparr>execClaims := upsert_row (\<lambda>c. (xcIssuer c, xcContinuation c)) claim (execClaims s1),
                 execTransitions := execTransitions s1 @ [\<lparr>xtIssuer = xcIssuer claim, xtTransition = i, xtRequest = v, xtClaim = claim\<rparr>],
                 auditLog := auditLog s1 @ [EvExec (XvClaimAdvanced i claim)]\<rparr>)"
proof -
  let ?advance = "case currentClaim s claim of None \<Rightarrow> returnM () | Some old \<Rightarrow> advanceOver old claim"
  have now: "expected = currentClaim s claim" "xcGeneration claim = nextGeneration (currentClaim s claim)"
    and run: "bindM ?advance (\<lambda>_.
     bindM (modifyM (\<lambda>s. s\<lparr>
              execClaims := upsert_row (\<lambda>c. (xcIssuer c, xcContinuation c)) claim (execClaims s),
              execTransitions := execTransitions s @
                [\<lparr>xtIssuer = xcIssuer claim, xtTransition = i, xtRequest = v, xtClaim = claim\<rparr>]\<rparr>)) (\<lambda>_.
     bindM (audit (EvExec (XvClaimAdvanced i claim))) (\<lambda>_.
       returnM claim))) s = Inr (x, s')"
    using assms by (simp_all only: installClaim_def bindM_simps bind_require_Inr simp_thms)
  from run obtain u s1 where adv: "?advance s = Inr (u, s1)"
    and last: "x = claim" "s' = s1\<lparr>execClaims := upsert_row (\<lambda>c. (xcIssuer c, xcContinuation c)) claim (execClaims s1),
                 execTransitions := execTransitions s1 @ [\<lparr>xtIssuer = xcIssuer claim, xtTransition = i, xtRequest = v, xtClaim = claim\<rparr>],
                 auditLog := auditLog s1 @ [EvExec (XvClaimAdvanced i claim)]\<rparr>"
    by (rule bindM_InrE) (auto simp: bind_audit)
  have "case currentClaim s claim of None \<Rightarrow> s1 = s | Some old \<Rightarrow> advanceOver old claim s = Inr ((), s1)"
    using adv by (cases "currentClaim s claim") simp_all
  with now last show ?thesis by blast
qed

lemma installClaim_writes:
  assumes run: "installClaim i v claim expected s = Inr (x, s')"
    and fresh: "(xcIssuer claim, i) \<notin> (\<lambda>t. (xtIssuer t, xtTransition t)) ` set (execTransitions s)"
  shows "writes_to s s'"
proof -
  obtain s1 where gen: "xcGeneration claim = nextGeneration (currentClaim s claim)"
    and adv: "case currentClaim s claim of None \<Rightarrow> s1 = s | Some old \<Rightarrow> advanceOver old claim s = Inr ((), s1)"
    and s': "s' = s1\<lparr>execClaims := upsert_row (\<lambda>c. (xcIssuer c, xcContinuation c)) claim (execClaims s1),
                 execTransitions := execTransitions s1 @ [\<lparr>xtIssuer = xcIssuer claim, xtTransition = i, xtRequest = v, xtClaim = claim\<rparr>],
                 auditLog := auditLog s1 @ [EvExec (XvClaimAdvanced i claim)]\<rparr>"
    using installClaim_run [OF run] by blast
  have s1: "writes_to s s1 \<and> claims_part s1 = claims_part s \<and> (\<forall>old. currentClaim s claim = Some old \<longrightarrow> sameGrant old claim)"
  proof (cases "currentClaim s claim")
    case None
    with adv show ?thesis by simp
  next
    case (Some old)
    with adv have a: "advanceOver old claim s = Inr ((), s1)" by simp
    from runsD [OF writes_advanceOver a] framesD [OF frames_claims_advance a] advanceOver_grant [OF a] Some
    show ?thesis by simp
  qed
  then have same: "currentClaim s1 c = currentClaim s c" "execTransitions s1 = execTransitions s" for c
    using currentClaim_claims [of s1 s] by (auto simp: claims_part_def)
  have "exec_write s1 s'"
    by (rule EwClaim [of claim s1 i s' v]) (use gen s1 fresh same in \<open>auto simp: s' ledger_part_def\<close>)
  with s1 show ?thesis by (meson rtranclp.rtrancl_into_rtrancl)
qed

lemma compareAndSet_run:
  assumes run: "compareAndSet v uid s = Inr (x, s')"
  obtains (replay) r where "r \<in> set (execTransitions s)" and "sortValue (xtRequest r) = sortValue v" and "x = xtClaim r" and "s' = s"
    | (fresh) i claim expected where "installClaim i v claim expected s = Inr (x, s')" and "claimCovered s claim"
      and "map_of (execCoordinators s) (xcIssuer claim) = Some uid"
      and "(xcIssuer claim, i) \<notin> (\<lambda>t. (xtIssuer t, xtTransition t)) ` set (execTransitions s)"
proof -
  obtain params claim i where uid: "map_of (execCoordinators s) (xcIssuer claim) = Some uid"
    and rest: "(case List.find (\<lambda>r. xtIssuer r = xcIssuer claim \<and> xtTransition r = i) (execTransitions s) of
         Some r \<Rightarrow>
           bindM (requireM (sortValue (xtRequest r) = sortValue v) (ExecutionFenceError XcConflict)) (\<lambda>_.
             returnM (xtClaim r))
       | None \<Rightarrow>
           bindM (readM (\<lambda>s. claimCovered s claim)) (\<lambda>covered.
           bindM (requireM covered (ExecutionFenceError XcHistoryUnknown)) (\<lambda>_.
           bindM (case map_of params ''expectedClaim'' of
                    Some JNull \<Rightarrow> returnM None
                  | v \<Rightarrow> bindM (executionClaim (the v)) (\<lambda>c. returnM (Some c))) (\<lambda>expected.
             installClaim i v claim expected)))) s = Inr (x, s')"
    using run unfolding compareAndSet_def requireCoordinator_def
    apply (elim bindM_InrE)
    apply (drule pureD [OF pure_closedObject], drule pureD [OF pure_claim], drule pureD [OF pure_orInvalid])
    apply simp
    done
  show thesis
  proof (cases "List.find (\<lambda>r. xtIssuer r = xcIssuer claim \<and> xtTransition r = i) (execTransitions s)")
    case (Some r)
    then have "r \<in> set (execTransitions s)" by (auto simp: find_Some_iff)
    with Some rest show ?thesis by (intro replay) (auto simp: bindM_Inr)
  next
    case None
    then have "(xcIssuer claim, i) \<notin> (\<lambda>t. (xtIssuer t, xtTransition t)) ` set (execTransitions s)"
      by (auto simp: find_None_iff)
    moreover have pure: "pureM (case w of Some JNull \<Rightarrow> returnM None
        | v \<Rightarrow> bindM (executionClaim (the v)) (\<lambda>c. returnM (Some c)))" for w
      by (cases w; cases "the w") (auto intro: pure_op)
    obtain expected where "claimCovered s claim" "installClaim i v claim expected s = Inr (x, s')"
      using rest None by (simp only: option.case bindM_simps) (elim bindM_InrE, drule pureD [OF pure], simp)
    ultimately show ?thesis using uid by (intro fresh)
  qed
qed

lemma writes_compareAndSet [writing]: "writes (compareAndSet v uid)"
  by (rule runsI, erule compareAndSet_run) (auto intro: installClaim_writes)

section \<open>The admission of a request\<close>

lemma frames_admission [frame]:
  "frames ledger_part (requireCoordinator i uid)" "frames ledger_part (unboundKey k)" "frames ledger_part (recordRpcResult k v c r)"
  unfolding requireCoordinator_def unboundKey_def lookupRpcResult_def recordRpcResult_def effectRecord_def
  by (intro frame, simp_all add: ledger_part_def)+

lemma frames_withExecutionKey:
  assumes "frames ledger_part m"
  shows "frames ledger_part (withExecutionKey k m)"
proof (rule framesI)
  fix s x s' assume "withExecutionKey k m s = Inr (x, s')"
  then obtain s1 where "m (s\<lparr>executionKey := Some k\<rparr>) = Inr (x, s1)" and "s' = s1\<lparr>executionKey := executionKey s\<rparr>"
    by (auto simp: withExecutionKey_def split: sum.splits)
  with framesD [OF assms this(1)] show "ledger_part s' = ledger_part s" by (simp add: ledger_part_def)
qed

lemma prepareExecution_run:
  assumes "prepareExecution claim s = Inr (x, s')"
  shows "s' = s \<and> (case x of
      None \<Rightarrow> find_row xeKey (execEffects s) (xcKey claim) = None \<and> currentClaim s claim = Some claim \<and> claimCovered s claim
    | Some r \<Rightarrow> \<exists>e. find_row xeKey (execEffects s) (xcKey claim) = Some e \<and> xeBinding e = claim \<and> r = xeReceipt e)"
  using assms
  by (cases "find_row xeKey (execEffects s) (xcKey claim)")
     (auto simp: prepareExecution_def execRow_def bindM_Inr)

lemma refusedAdmission_part: "refusedAdmission claim s = Inr (r, s') \<Longrightarrow> ledger_part s' = ledger_part s \<and> xrClaim r = claim"
  using find_row_Some [of xrClaim "execRefusals s" claim]
  by (auto simp: refusedAdmission_def Let_def bindM_Inr audit_def ledger_part_def split: option.splits)

lemma tryPrepare_run:
  assumes "tryPrepare claim s = Inr (out, s')"
  shows "case out of
      AdFresh \<Rightarrow> s' = s \<and> find_row xeKey (execEffects s) (xcKey claim) = None \<and> currentClaim s claim = Some claim
    | AdPrior r \<Rightarrow> s' = s \<and> (\<exists>e. find_row xeKey (execEffects s) (xcKey claim) = Some e \<and> xeBinding e = claim \<and> r = xeReceipt e)
    | AdRefused r \<Rightarrow> ledger_part s' = ledger_part s"
proof (cases "prepareExecution claim s")
  case (Inl e)
  with assms show ?thesis
    by (auto simp: tryPrepare_def bindM_Inr split: if_splits dest!: refusedAdmission_part)
next
  case (Inr p)
  obtain x s1 where p: "p = (x, s1)" by (cases p)
  with Inr have "prepareExecution claim s = Inr (x, s1)" by simp
  from prepareExecution_run [OF this] Inr p assms show ?thesis
    by (cases x) (auto simp: tryPrepare_def)
qed

lemma runFenced_run:
  assumes eff: "frames ledger_part (effect q)" and cur: "currentClaim s (xqClaim q) = Some (xqClaim q)"
    and run: "runFenced q effect s = Inr (r, s')"
  shows "writes_to s s' \<and> xrClaim r = xqClaim q \<and> (xrStatus r = XsCompleted \<longrightarrow> xcVerb (xqClaim q) = XvSend)
    \<and> (\<exists>e \<in> set (execEffects s'). xeKey e = xcKey (xqClaim q) \<and> xeReceipt e = r)"
proof -
  let ?c = "xqClaim q"
  let ?s0 = "s\<lparr>executionKey := Some (xcKey ?c)\<rparr>"
  obtain s1 where body: "bindM (effect q) (\<lambda>(commandId, result).
        bindM (recordRpcResult (xcKey ?c) (exec_verb_text (xcVerb ?c)) commandId result) (\<lambda>_.
          recordExecution ?c commandId result)) ?s0 = Inr (r, s1)"
    and s': "s' = s1\<lparr>executionKey := executionKey s\<rparr>"
    using run by (auto simp: runFenced_def withExecutionKey_def split: sum.splits)
  obtain p s2 u s3 where e: "effect q ?s0 = Inr (p, s2)"
    and rec: "recordRpcResult (xcKey ?c) (exec_verb_text (xcVerb ?c)) (fst p) (snd p) s2 = Inr (u, s3)"
    and last: "recordExecution ?c (fst p) (snd p) s3 = Inr (r, s1)"
    using body by (auto simp: bindM_Inr split: prod.splits)
  have part: "ledger_part s3 = ledger_part s"
    using framesD [OF eff e] framesD [OF frames_admission(3) rec] by (simp add: ledger_part_def)
  then have cur3: "currentClaim s3 ?c = Some ?c" using cur by (simp add: ledger_part_def currentClaim_def)
  have "writes_to s s3" using part by (intro r_into_rtranclp EwSame) simp
  also have "writes_to s3 s1" by (rule recordExecution_writes [OF cur3 last])
  also have "writes_to s1 s'" by (intro r_into_rtranclp EwSame) (simp add: s' ledger_part_def)
  finally show ?thesis
    using recordExecution_run [OF last] by (auto simp: s' ledger_part_def)
qed

lemma fencedTx_run:
  assumes eff: "frames ledger_part (effect q)" and run: "fencedTx q uid effect s = Inr (out, s')"
  shows "writes_to s s'"
    and "out = Inr r \<Longrightarrow> (s' = s \<and> (\<exists>e. find_row xeKey (execEffects s) (xcKey (xqClaim q)) = Some e \<and> xeBinding e = xqClaim q \<and> r = xeReceipt e))
      \<or> (xrClaim r = xqClaim q \<and> (xrStatus r = XsCompleted \<longrightarrow> xcVerb (xqClaim q) = XvSend) \<and> (\<exists>e \<in> set (execEffects s'). xeKey e = xcKey (xqClaim q) \<and> xeReceipt e = r))"
proof -
  have coord: "requireCoordinator i uid s0 = Inr (u, s1) \<Longrightarrow> s1 = s0" for i s0 u s1
    by (auto simp: requireCoordinator_def bindM_Inr)
  have unbound: "unboundKey k s0 = Inr (u, s1) \<Longrightarrow> ledger_part s1 = ledger_part s0" for k s0 u s1
    by (rule framesD [OF frames_admission(2)])
  obtain ad s1 where att: "tryPrepare (xqClaim q) s = Inr (ad, s1)"
    and rest: "(case ad of AdRefused r \<Rightarrow> returnM (Inl r) | AdPrior r \<Rightarrow> returnM (Inr r)
       | AdFresh \<Rightarrow> bindM (unboundKey (xcKey (xqClaim q))) (\<lambda>_. bindM (runFenced q effect) (\<lambda>r. returnM (Inr r)))) s1 = Inr (out, s')"
    using run unfolding fencedTx_def by (auto simp: bindM_Inr dest!: coord)
  note T = tryPrepare_run [OF att]
  have "writes_to s s' \<and> (out = Inr r \<longrightarrow>
      (s' = s \<and> (\<exists>e. find_row xeKey (execEffects s) (xcKey (xqClaim q)) = Some e \<and> xeBinding e = xqClaim q \<and> r = xeReceipt e))
      \<or> (xrClaim r = xqClaim q \<and> (xrStatus r = XsCompleted \<longrightarrow> xcVerb (xqClaim q) = XvSend) \<and> (\<exists>e \<in> set (execEffects s'). xeKey e = xcKey (xqClaim q) \<and> xeReceipt e = r)))"
  proof (cases ad)
    case (AdRefused w)
    with rest T show ?thesis by (auto intro: r_into_rtranclp EwSame)
  next
    case (AdPrior w)
    with rest T show ?thesis by auto
  next
    case AdFresh
    then obtain u s2 w where un: "unboundKey (xcKey (xqClaim q)) s = Inr (u, s2)"
      and r: "runFenced q effect s2 = Inr (w, s')" "out = Inr w"
      using rest T by (auto simp: bindM_Inr)
    have part: "ledger_part s2 = ledger_part s" by (rule unbound [OF un])
    then have "currentClaim s2 (xqClaim q) = Some (xqClaim q)"
      using T AdFresh by (simp add: ledger_part_def currentClaim_def)
    from runFenced_run [of effect, OF eff this r(1)] EwSame [OF part] r(2) show ?thesis
      by (auto intro: converse_rtranclp_into_rtranclp)
  qed
  then show "writes_to s s'" and "out = Inr r \<Longrightarrow> (s' = s \<and> (\<exists>e. find_row xeKey (execEffects s) (xcKey (xqClaim q)) = Some e \<and> xeBinding e = xqClaim q \<and> r = xeReceipt e))
      \<or> (xrClaim r = xqClaim q \<and> (xrStatus r = XsCompleted \<longrightarrow> xcVerb (xqClaim q) = XvSend) \<and> (\<exists>e \<in> set (execEffects s'). xeKey e = xcKey (xqClaim q) \<and> xeReceipt e = r))"
    by blast+
qed

lemma executeWithFence_writes:
  assumes "\<And>q. frames ledger_part (effect q)" and "executeWithFence sha v uid effect s = (out, s')"
  shows "writes_to s s'"
  using assms(2) fencedTx_run(1) [of effect, OF assms(1)]
  by (auto simp: executeWithFence_def split: sum.splits prod.splits if_splits)

lemma beginFencedSpawn_writes:
  assumes "beginFencedSpawn sha v uid s = (out, s')"
  shows "writes_to s s'"
proof -
  have "writes_to s s'" if run: "beginSpawnTx q uid s = Inr (x, s')" for q x
  proof -
    have coord: "requireCoordinator i uid s0 = Inr (u, s1) \<Longrightarrow> s1 = s0" for i s0 u s1
      by (auto simp: requireCoordinator_def bindM_Inr)
    have unbound: "unboundKey k s0 = Inr (u, s1) \<Longrightarrow> ledger_part s1 = ledger_part s0" for k s0 u s1
      by (rule framesD [OF frames_admission(2)])
    have bind: "frames ledger_part (bindBee c)" for c
      unfolding bindBee_def by (intro frame) (simp add: ledger_part_def)
    obtain ad s1 where att: "tryPrepare (xqClaim q) s = Inr (ad, s1)"
      and rest: "(case ad of AdRefused r \<Rightarrow> returnM (Inl r) | AdPrior r \<Rightarrow> returnM (Inr (r, False))
         | AdFresh \<Rightarrow> bindM (unboundKey (xcKey (xqClaim q))) (\<lambda>_. bindM (beginSpawn (xqClaim q)) (\<lambda>r.
             bindM (bindBee (xqClaim q)) (\<lambda>_. returnM (Inr (r, True)))))) s1 = Inr (x, s')"
      using run unfolding beginSpawnTx_def by (auto simp: bindM_Inr dest!: coord)
    note T = tryPrepare_run [OF att]
    show ?thesis
    proof (cases ad)
      case (AdRefused w)
      with rest T show ?thesis by (auto intro: r_into_rtranclp EwSame)
    next
      case (AdPrior w)
      with rest T show ?thesis by auto
    next
      case AdFresh
      then obtain u s2 w s3 u' where un: "unboundKey (xcKey (xqClaim q)) s = Inr (u, s2)"
        and b: "beginSpawn (xqClaim q) s2 = Inr (w, s3)" and bee: "bindBee (xqClaim q) s3 = Inr (u', s')"
        using rest T by (auto simp: bindM_Inr)
      have part: "ledger_part s2 = ledger_part s" by (rule unbound [OF un])
      then have "currentClaim s2 (xqClaim q) = Some (xqClaim q)"
        using T AdFresh by (simp add: ledger_part_def currentClaim_def)
      from beginSpawn_writes [OF this b] EwSame [OF part] EwSame [OF framesD [OF bind bee]] show ?thesis
        by (meson converse_rtranclp_into_rtranclp rtranclp.rtrancl_into_rtrancl)
    qed
  qed
  then show ?thesis
    using assms by (auto simp: beginFencedSpawn_def split: sum.splits prod.splits if_splits)
qed

lemma writes_checkSpawn [writing]: "writes (checkSpawnPreparation c op)"
proof (rule runsI)
  fix s u s' assume "checkSpawnPreparation c op s = Inr (u, s')"
  then have "ledger_part s' = ledger_part s"
    by (auto simp: checkSpawnPreparation_def bindM_Inr validateCurrent_def audit_def ledger_part_def
        split: option.splits dest!: prepareExecution_run)
  then show "writes_to s s'" by (intro r_into_rtranclp EwSame)
qed

lemma writes_withExecutionKey:
  assumes "writes m"
  shows "writes (withExecutionKey k m)"
proof (rule runsI)
  fix s x s' assume "withExecutionKey k m s = Inr (x, s')"
  then obtain s1 where run: "m (s\<lparr>executionKey := Some k\<rparr>) = Inr (x, s1)" and s': "s' = s1\<lparr>executionKey := executionKey s\<rparr>"
    by (auto simp: withExecutionKey_def split: sum.splits)
  have "exec_write s (s\<lparr>executionKey := Some k\<rparr>)" "exec_write s1 s'"
    by (auto intro: EwSame simp: s' ledger_part_def)
  with runsD [OF assms run] show "writes_to s s'"
    by (meson converse_rtranclp_into_rtranclp rtranclp.rtrancl_into_rtrancl)
qed

lemma writes_admitFencedSpawn:
  assumes "frames ledger_part effect"
  shows "writes (admitFencedSpawn c effect)"
  unfolding admitFencedSpawn_def
  by (intro writing writes_withExecutionKey writes_frame [OF assms] writes_frame [OF frames_admission(3)])

section \<open>The steps of the store\<close>

text \<open>The operations of the ledger and of the start intents, and everything else the store does.\<close>

inductive exec_step :: "core \<Rightarrow> core \<Rightarrow> bool" where
  EsAdvance: "compareAndSet v uid s = Inr (c, s') \<Longrightarrow> exec_step s s'"
| EsExecute: "executeWithFence sha v uid effect s = (out, s') \<Longrightarrow> (\<And>q. frames ledger_part (effect q)) \<Longrightarrow> exec_step s s'"
| EsBeginSpawn: "beginFencedSpawn sha v uid s = (sout, s') \<Longrightarrow> exec_step s s'"
| EsAdmitSpawn: "admitFencedSpawn claim eff s = Inr (r, s') \<Longrightarrow> frames ledger_part eff \<Longrightarrow> exec_step s s'"
| EsSpawnUnknown: "spawnUnknown k s = Inr (u, s') \<Longrightarrow> exec_step s s'"
| EsAllowed: "commandAllowed i s = Inr (b, s') \<Longrightarrow> exec_step s s'"
| EsCompleted: "executionCompleted i s = Inr (u, s') \<Longrightarrow> exec_step s s'"
| EsPrepare: "prepareStart bee g s = Inr (st, s') \<Longrightarrow> exec_step s s'"
| EsDispatch: "dispatchStart start s = Inr (u, s') \<Longrightarrow> exec_step s s'"
| EsRelease: "bindAndRelease start host s = Inr (u, s') \<Longrightarrow> exec_step s s'"
| EsStarted: "agentStarted start host agent s = Inr (u, s') \<Longrightarrow> exec_step s s'"
| EsExited: "hostExited start ohost s = Inr (u, s') \<Longrightarrow> exec_step s s'"
| EsOther: "ledger_part s' = ledger_part s \<Longrightarrow> exec_step s s'"

inductive exec_reachable :: "core \<Rightarrow> bool" where
  ErInit: "ledger_part s = ([], [], [], []) \<Longrightarrow> exec_reachable s"
| ErStep: "exec_reachable s \<Longrightarrow> exec_step s s' \<Longrightarrow> exec_reachable s'"

lemma exec_step_writes: "exec_step s s' \<Longrightarrow> writes_to s s'"
proof (induction rule: exec_step.induct)
  case EsExecute
  then show ?case by (rule executeWithFence_writes [rotated])
next
  case EsBeginSpawn
  then show ?case by (rule beginFencedSpawn_writes)
next
  case EsAdmitSpawn
  then show ?case by (intro runsD [OF writes_admitFencedSpawn])
next
  case EsOther
  then show ?case by (intro r_into_rtranclp EwSame)
qed (auto intro: writing elim!: runsD [rotated])

lemma exec_steps_writes: "exec_step\<^sup>*\<^sup>* s s' \<Longrightarrow> writes_to s s'"
  by (induction rule: rtranclp_induct) (auto dest: exec_step_writes intro: rtranclp_trans)

section \<open>The invariant\<close>

text \<open>The claims that were installed for a continuation, in order.\<close>

definition claim_history :: "core \<Rightarrow> string \<Rightarrow> string \<Rightarrow> exec_claim list" where
  "claim_history s i c =
     filter (\<lambda>k. xcIssuer k = i \<and> xcContinuation k = c) (map xtClaim (execTransitions s))"

definition claims_ok :: "core \<Rightarrow> bool" where
  "claims_ok s \<longleftrightarrow>
     (\<forall>i c. let h = claim_history s i c
             in map xcGeneration h = [1..<Suc (length h)]
                \<and> (\<forall>x \<in> set h. \<forall>y \<in> set h. sameGrant x y)
                \<and> find_row (\<lambda>c. (xcIssuer c, xcContinuation c)) (execClaims s) (i, c) = (if h = [] then None else Some (last h)))"

definition effects_ok :: "core \<Rightarrow> bool" where
  "effects_ok s \<longleftrightarrow>
     distinct (map xeKey (execEffects s))
     \<and> (\<forall>e \<in> set (execEffects s). xcKey (xeBinding e) = xeKey e \<and> xrClaim (xeReceipt e) = xeBinding e
          \<and> xeBinding e \<in> xtClaim ` set (execTransitions s))"

definition starts_ok :: "core \<Rightarrow> bool" where
  "starts_ok s \<longleftrightarrow>
     distinct (map (\<lambda>r. esBee (esStart r)) (execStarts s)) \<and> distinct (map (\<lambda>r. esIntent (esStart r)) (execStarts s))"

definition exec_inv :: "core \<Rightarrow> bool" where
  "exec_inv s \<longleftrightarrow> claims_ok s \<and> effects_ok s \<and> starts_ok s"

lemma currentClaim_find:
  "currentClaim s t = find_row (\<lambda>c. (xcIssuer c, xcContinuation c)) (execClaims s) (xcIssuer t, xcContinuation t)"
  by (simp add: currentClaim_def find_row_def)

lemma sameGrant_refl: "sameGrant x x"
  by (simp add: sameGrant_def)

lemma sameGrant_fields:
  "sameGrant x y \<longleftrightarrow> xcIssuer x = xcIssuer y \<and> xcContinuation x = xcContinuation y \<and> xcGrantDigest x = xcGrantDigest y
     \<and> xcOwnerStore x = xcOwnerStore y \<and> xcCoverage x = xcCoverage y \<and> xcVerb x = xcVerb y \<and> xcBeeId x = xcBeeId y
     \<and> xcRequestDigest x = xcRequestDigest y \<and> xcKey x = xcKey y"
  by (cases x; cases y) (auto simp: sameGrant_def)

lemma ledger_part_eq:
  "ledger_part s' = (a, b, c, d) \<longleftrightarrow> execClaims s' = a \<and> execTransitions s' = b \<and> execEffects s' = c \<and> execStarts s' = d"
  by (simp add: ledger_part_def)

lemma claims_ok_same: "execClaims s' = execClaims s \<Longrightarrow> execTransitions s' = execTransitions s \<Longrightarrow> claims_ok s \<Longrightarrow> claims_ok s'"
  by (simp add: claims_ok_def claim_history_def)

lemma claims_ok_install:
  assumes ok: "claims_ok s" and gen: "xcGeneration claim = nextGeneration (currentClaim s claim)"
    and grant: "\<And>old. currentClaim s claim = Some old \<Longrightarrow> sameGrant old claim"
    and claims: "execClaims s' = upsert_row (\<lambda>c. (xcIssuer c, xcContinuation c)) claim (execClaims s)"
    and trans: "map xtClaim (execTransitions s') = map xtClaim (execTransitions s) @ [claim]"
  shows "claims_ok s'"
  unfolding claims_ok_def Let_def
proof (intro allI)
  fix i c
  let ?h = "claim_history s i c" and ?h' = "claim_history s' i c"
  let ?key = "\<lambda>c. (xcIssuer c, xcContinuation c)"
  have old: "map xcGeneration ?h = [1..<Suc (length ?h)]" "\<forall>x \<in> set ?h. \<forall>y \<in> set ?h. sameGrant x y"
    "find_row ?key (execClaims s) (i, c) = (if ?h = [] then None else Some (last ?h))"
    using ok by (simp_all add: claims_ok_def Let_def)
  have find': "find_row ?key (execClaims s') (i, c) = (if ?key claim = (i, c) then Some claim else find_row ?key (execClaims s) (i, c))"
    using find_row_upsert [of ?key claim "execClaims s" "(i, c)"] by (simp add: claims)
  have h': "?h' = ?h @ (if ?key claim = (i, c) then [claim] else [])"
    by (simp add: claim_history_def trans)
  show "map xcGeneration ?h' = [1..<Suc (length ?h')] \<and> (\<forall>x \<in> set ?h'. \<forall>y \<in> set ?h'. sameGrant x y)
      \<and> find_row ?key (execClaims s') (i, c) = (if ?h' = [] then None else Some (last ?h'))"
  proof (cases "?key claim = (i, c)")
    case False
    have "?h' = ?h" using h' by (simp only: False if_False append_Nil2)
    moreover have "find_row ?key (execClaims s') (i, c) = find_row ?key (execClaims s) (i, c)"
      using find' by (simp only: False if_False)
    ultimately show ?thesis using old by simp
  next
    case True
    have cur: "currentClaim s claim = (if ?h = [] then None else Some (last ?h))"
      using old(3) True by (simp add: currentClaim_find)
    have "xcGeneration claim = Suc (length ?h)"
    proof (cases "?h = []")
      case True
      with cur gen show ?thesis by (simp add: nextGeneration_def)
    next
      case False
      with old(1) have "xcGeneration (last ?h) = length ?h"
        by (metis last_map last_upt length_greater_0_conv less_Suc_eq_le diff_Suc_1 Suc_leI One_nat_def)
      with False cur gen show ?thesis by (simp add: nextGeneration_def)
    qed
    moreover have "sameGrant x claim" if "x \<in> set ?h" for x
    proof -
      from that have "?h \<noteq> []" by auto
      then have "sameGrant (last ?h) claim" using grant cur by simp
      moreover have "sameGrant x (last ?h)" using old(2) that \<open>?h \<noteq> []\<close> by simp
      ultimately show ?thesis by (simp add: sameGrant_fields)
    qed
    ultimately show ?thesis
      using old find' h' True sameGrant_refl by (auto simp: sameGrant_fields)
  qed
qed

lemma update_rows_mem: "e' \<in> set (update_rows p f rows) \<longleftrightarrow> (\<exists>e \<in> set rows. e' = (if p e then f e else e))"
  by (auto simp: update_rows_def)

lemma effects_ok_update:
  assumes ok: "effects_ok s" and row: "find_row xeKey (execEffects s) k = Some e"
    and upd: "execEffects s' = update_rows (\<lambda>e. xeKey e = k) f (execEffects s)" "execTransitions s' = execTransitions s"
    and f: "\<And>x. xeKey (f x) = xeKey x" "\<And>x. xeBinding (f x) = xeBinding x" "xrClaim (xeReceipt (f e)) = xeBinding e"
  shows "effects_ok s'"
proof -
  have same: "x = e" if "x \<in> set (execEffects s)" "xeKey x = k" for x
    using find_row_mem [of xeKey "execEffects s" x] that row ok by (simp add: effects_ok_def)
  have "xcKey (xeBinding y) = xeKey y \<and> xrClaim (xeReceipt y) = xeBinding y \<and> xeBinding y \<in> xtClaim ` set (execTransitions s)"
    if "y \<in> set (execEffects s')" for y
  proof -
    from that obtain x where x: "x \<in> set (execEffects s)" "y = (if xeKey x = k then f x else x)"
      by (auto simp: upd update_rows_mem)
    have "xcKey (xeBinding x) = xeKey x \<and> xrClaim (xeReceipt x) = xeBinding x \<and> xeBinding x \<in> xtClaim ` set (execTransitions s)"
      using ok x(1) by (simp add: effects_ok_def)
    with x same [OF x(1)] f show ?thesis by (cases "xeKey x = k") auto
  qed
  then show ?thesis using ok f(1) by (simp add: effects_ok_def upd map_update_rows)
qed

lemma exec_write_inv:
  assumes "exec_write s s'" and inv: "exec_inv s"
  shows "exec_inv s'"
  using assms(1)
proof cases
  case EwSame
  with inv show ?thesis
    by (simp add: exec_inv_def claims_ok_def claim_history_def effects_ok_def starts_ok_def ledger_part_def)
next
  case (EwStatus k e st)
  then have "effects_ok s'"
    by (intro effects_ok_update [of s k e s' "setReceipt ((xeReceipt e)\<lparr>xrStatus := st\<rparr>)"]) (use inv find_row_Some [OF EwStatus(1)] in
        \<open>auto simp: exec_inv_def effects_ok_def ledger_part_eq setReceipt_def\<close>)
  with EwStatus inv show ?thesis
    by (auto simp: exec_inv_def starts_ok_def ledger_part_eq intro: claims_ok_same)
next
  case (EwAdmit k e c r)
  then have "effects_ok s'"
    by (intro effects_ok_update [of s k e s' "\<lambda>x. x\<lparr>xeReceipt := (xeReceipt e)\<lparr>xrStatus := XsQueued, xrCommandId := Some c,
           xrResult := r\<rparr>, xeCommand := Some c\<rparr>"]) (use inv find_row_Some [OF EwAdmit(1)] in
        \<open>auto simp: exec_inv_def effects_ok_def ledger_part_eq\<close>)
  with EwAdmit inv show ?thesis
    by (auto simp: exec_inv_def starts_ok_def ledger_part_eq intro: claims_ok_same)
next
  case (EwNew claim receipt c)
  have "claim \<in> xtClaim ` set (execTransitions s)"
  proof -
    let ?h = "claim_history s (xcIssuer claim) (xcContinuation claim)"
    have "Some claim = (if ?h = [] then None else Some (last ?h))"
      using inv EwNew(1) by (simp add: exec_inv_def claims_ok_def Let_def currentClaim_find)
    then have "claim \<in> set ?h" by (metis last_in_set option.inject option.distinct(1))
    then show ?thesis by (auto simp: claim_history_def)
  qed
  with EwNew inv show ?thesis
    by (auto simp: exec_inv_def effects_ok_def starts_ok_def ledger_part_eq intro: claims_ok_same)
next
  case (EwClaim claim i v)
  have "claims_ok s'"
    by (rule claims_ok_install [of s claim s']) (use EwClaim inv in \<open>auto simp: exec_inv_def ledger_part_eq\<close>)
  with EwClaim inv show ?thesis
    by (auto simp: exec_inv_def effects_ok_def starts_ok_def ledger_part_eq)
next
  case (EwStart st)
  with inv show ?thesis
    by (auto simp: exec_inv_def effects_ok_def starts_ok_def ledger_part_eq intro: claims_ok_same)
next
  case (EwState i row f)
  with inv show ?thesis
    by (auto simp: exec_inv_def effects_ok_def starts_ok_def ledger_part_eq map_update_rows intro: claims_ok_same)
qed

lemma writes_inv: "writes_to s s' \<Longrightarrow> exec_inv s \<Longrightarrow> exec_inv s'"
  by (induction rule: rtranclp_induct) (auto intro: exec_write_inv)

lemma exec_reachable_inv: "exec_reachable s \<Longrightarrow> exec_inv s"
proof (induction rule: exec_reachable.induct)
  case (ErInit s)
  then show ?case
    by (simp add: exec_inv_def claims_ok_def claim_history_def effects_ok_def starts_ok_def ledger_part_eq Let_def find_row_def)
next
  case (ErStep s s')
  then show ?case by (blast intro: writes_inv exec_step_writes)
qed

section \<open>What stays\<close>

definition effect_evolves :: "exec_effect \<Rightarrow> exec_effect \<Rightarrow> bool" where
  "effect_evolves e e' \<longleftrightarrow>
     xeKey e' = xeKey e \<and> xeBinding e' = xeBinding e
     \<and> (xrStatus (xeReceipt e) = XsCompleted \<longrightarrow> xeReceipt e' = xeReceipt e \<and> xeCommand e' = xeCommand e)"

definition start_evolves :: "exec_start_row \<Rightarrow> exec_start_row \<Rightarrow> bool" where
  "start_evolves r r' \<longleftrightarrow> esStart r' = esStart r \<and> (esState r \<noteq> SsPrepared \<longrightarrow> esState r' \<noteq> SsPrepared)"

lemma effect_evolves_refl: "effect_evolves e e"
  by (simp add: effect_evolves_def)

lemma start_evolves_refl: "start_evolves r r"
  by (simp add: start_evolves_def)

lemma update_evolves:
  assumes "e \<in> set rows" and "\<And>e. e \<in> set rows \<Longrightarrow> p e \<Longrightarrow> R e (f e)" and "\<And>e. R e e"
  shows "\<exists>e' \<in> set (update_rows p f rows). R e e'"
  using assms by (intro bexI [of _ "if p e then f e else e"]) (auto simp: update_rows_mem)

lemma same_row:
  assumes "distinct (map key rows)" and "find_row key rows k = Some e" and "x \<in> set rows" and "key x = k"
  shows "x = e"
  using find_row_mem [OF assms(1,3)] assms(2,4) by simp

lemma exec_write_effect:
  assumes "exec_write s s'" and inv: "exec_inv s" and e: "e \<in> set (execEffects s)"
  shows "\<exists>e' \<in> set (execEffects s'). effect_evolves e e'"
  using assms(1)
proof cases
  case (EwStatus k x st)
  have keys: "distinct (map xeKey (execEffects s))" using inv by (simp add: exec_inv_def effects_ok_def)
  have "effect_evolves y (setReceipt ((xeReceipt x)\<lparr>xrStatus := st\<rparr>) y)" if "y \<in> set (execEffects s)" "xeKey y = k" for y
    using same_row [OF keys EwStatus(1) that] EwStatus(2) by (auto simp: effect_evolves_def setReceipt_def status_step_def)
  from update_evolves [where R = effect_evolves, OF e this effect_evolves_refl] EwStatus(3) show ?thesis
    by (simp add: ledger_part_eq)
next
  case (EwAdmit k x c r)
  have keys: "distinct (map xeKey (execEffects s))" using inv by (simp add: exec_inv_def effects_ok_def)
  have "effect_evolves y (y\<lparr>xeReceipt := (xeReceipt x)\<lparr>xrStatus := XsQueued, xrCommandId := Some c, xrResult := r\<rparr>, xeCommand := Some c\<rparr>)"
    if "y \<in> set (execEffects s)" "xeKey y = k" for y
    using same_row [OF keys EwAdmit(1) that] EwAdmit(2) by (auto simp: effect_evolves_def)
  from update_evolves [where R = effect_evolves, OF e this effect_evolves_refl] EwAdmit(3) show ?thesis
    by (simp add: ledger_part_eq)
next
  case EwNew
  with e effect_evolves_refl show ?thesis by (auto simp: ledger_part_eq)
next
  case (EwState i row f)
  then have "execEffects s' = execEffects s" by (simp add: ledger_part_eq)
  with e effect_evolves_refl show ?thesis by auto
qed (use e effect_evolves_refl in \<open>auto simp: ledger_part_eq ledger_part_def\<close>)

lemma exec_write_start:
  assumes "exec_write s s'" and inv: "exec_inv s" and r: "r \<in> set (execStarts s)"
  shows "\<exists>r' \<in> set (execStarts s'). start_evolves r r'"
  using assms(1)
proof cases
  case (EwState i row f)
  have "start_evolves y (f y)" if "y \<in> set (execStarts s)" "esIntent (esStart y) = i" for y
  proof -
    have "start_step (esState row) (esState (f y))" using EwState(2,4) by metis
    with EwState(3) show ?thesis by (auto simp: start_evolves_def start_step_def)
  qed
  from update_evolves [where R = start_evolves, OF r this start_evolves_refl] EwState(5) show ?thesis
    by (simp add: ledger_part_eq)
qed (use r start_evolves_refl in \<open>auto simp: ledger_part_eq ledger_part_def\<close>)

lemma writes_evolve:
  assumes "writes_to s s'" and "exec_inv s"
  shows "e \<in> set (execEffects s) \<Longrightarrow> \<exists>e' \<in> set (execEffects s'). effect_evolves e e'"
    and "r \<in> set (execStarts s) \<Longrightarrow> \<exists>r' \<in> set (execStarts s'). start_evolves r r'"
proof -
  have "exec_inv s' \<and> (\<forall>e \<in> set (execEffects s). \<exists>e' \<in> set (execEffects s'). effect_evolves e e')
      \<and> (\<forall>r \<in> set (execStarts s). \<exists>r' \<in> set (execStarts s'). start_evolves r r')"
    using assms
  proof (induction rule: rtranclp_induct)
    case base
    then show ?case using effect_evolves_refl start_evolves_refl by blast
  next
    case (step s1 s2)
    then have inv: "exec_inv s1" by blast
    have et: "effect_evolves a b \<Longrightarrow> effect_evolves b c \<Longrightarrow> effect_evolves a c" for a b c
      by (simp add: effect_evolves_def)
    have st: "start_evolves a b \<Longrightarrow> start_evolves b c \<Longrightarrow> start_evolves a c" for a b c
      by (simp add: start_evolves_def)
    from exec_write_inv [OF step.hyps(2) inv] exec_write_effect [OF step.hyps(2) inv] exec_write_start [OF step.hyps(2) inv]
    show ?case using step.IH step.prems et st by meson
  qed
  then show "e \<in> set (execEffects s) \<Longrightarrow> \<exists>e' \<in> set (execEffects s'). effect_evolves e e'"
    and "r \<in> set (execStarts s) \<Longrightarrow> \<exists>r' \<in> set (execStarts s'). start_evolves r r'" by blast+
qed

section \<open>Properties\<close>

text \<open>
  C23. The claims of a continuation come one generation at a time. In every reachable store the claims that
  were ever installed for a continuation have the generations 1, 2, 3 and so on, all under one grant, and
  the last of them is the current one.
\<close>

theorem claims_in_generations:
  assumes "exec_reachable s"
  shows "map xcGeneration (claim_history s i c) = [1..<Suc (length (claim_history s i c))]
    \<and> (\<forall>x \<in> set (claim_history s i c). \<forall>y \<in> set (claim_history s i c). sameGrant x y)
    \<and> find_row (\<lambda>c. (xcIssuer c, xcContinuation c)) (execClaims s) (i, c) =
        (if claim_history s i c = [] then None else Some (last (claim_history s i c)))"
  using exec_reachable_inv [OF assms] by (simp add: exec_inv_def claims_ok_def Let_def)

text \<open>
  C25. A stale request does nothing. A request whose claim is covered but not the current one, and whose key
  was never admitted, is refused; all that changes is the record of the refusal and its audit event,
  whatever the effect is.
\<close>

theorem stale_request_refused:
  assumes "executionRequest sha v s = Inr (q, s)" and "xcVerb (xqClaim q) \<noteq> XvSpawn"
    and "map_of (execCoordinators s) (xcIssuer (xqClaim q)) = Some uid"
    and "find_row xeKey (execEffects s) (xcKey (xqClaim q)) = None"
    and "claimCovered s (xqClaim q)" and "currentClaim s (xqClaim q) \<noteq> Some (xqClaim q)"
    and "find_row xrClaim (execRefusals s) (xqClaim q) = None"
  shows "executeWithFence sha v uid effect s =
    (let r = \<lparr>xrClaim = xqClaim q, xrStatus = XsRefusedStale, xrCommandId = None, xrResult = JNull\<rparr>
     in (Inl (ExecutionFenceError XcStale),
         s\<lparr>execRefusals := execRefusals s @ [r], auditLog := auditLog s @ [EvExec (XvRefusedAdmission r)]\<rparr>))"
proof -
  have "prepareExecution (xqClaim q) s = Inl (ExecutionFenceError XcStale)"
    using assms by (simp add: prepareExecution_def execRow_def requireM_def bindM_def)
  then show ?thesis
    using assms
    by (simp add: executeWithFence_def fencedTx_def requireCoordinator_def requireM_def tryPrepare_def
        refusedAdmission_def Let_def bindM_def audit_def)
qed

text \<open>An answered request has a row of its key that is bound to it and holds the receipt of the answer.\<close>

lemma answered_row:
  assumes inv: "exec_inv s" and framed: "\<And>q. frames ledger_part (effect q)"
    and q: "executionRequest sha v s = Inr (q, s)" and run: "executeWithFence sha v uid effect s = (Inr r, s1)"
  shows "xcVerb (xqClaim q) \<noteq> XvSpawn \<and> exec_inv s1
    \<and> (\<exists>e \<in> set (execEffects s1). xeKey e = xcKey (xqClaim q) \<and> xeReceipt e = r \<and> xeBinding e = xqClaim q
         \<and> (xrStatus r = XsCompleted \<longrightarrow> execRowSound (xcKey (xqClaim q)) e))"
proof -
  let ?k = "xcKey (xqClaim q)"
  have notspawn: "xcVerb (xqClaim q) \<noteq> XvSpawn" and tx: "fencedTx q uid effect s = Inr (Inr r, s1)"
    using q run by (auto simp: executeWithFence_def split: if_splits sum.splits prod.splits)
  have inv1: "exec_inv s1" by (rule writes_inv [OF fencedTx_run(1) inv]) (rule framed, rule tx)
  note keys1 = inv1 [unfolded exec_inv_def effects_ok_def]
  obtain x s0 where prep: "prepareExecution (xqClaim q) s = Inr (x, s0)"
    using tx by (cases "prepareExecution (xqClaim q) s")
      (auto simp: fencedTx_def requireCoordinator_def tryPrepare_def bindM_Inr split: if_splits)
  have "\<exists>e \<in> set (execEffects s1). xeKey e = ?k \<and> xeReceipt e = r \<and> xeBinding e = xqClaim q
      \<and> (xrStatus r = XsCompleted \<longrightarrow> execRowSound ?k e)"
  proof (cases x)
    case (Some w)
    with prepareExecution_run [OF prep] obtain e where e: "find_row xeKey (execEffects s) ?k = Some e"
      "xeBinding e = xqClaim q" "w = xeReceipt e" "s0 = s" by auto
    from e Some prep have "execRowSound ?k e"
      by (simp add: prepareExecution_def execRow_def bindM_def requireM_def split: if_splits)
    moreover have "r = w" "s1 = s"
      using tx prep Some e(4) by (auto simp: fencedTx_def requireCoordinator_def tryPrepare_def bindM_Inr)
    ultimately show ?thesis using e find_row_Some [OF e(1)] by auto
  next
    case None
    with prepareExecution_run [OF prep] have fresh: "find_row xeKey (execEffects s) ?k = None" by auto
    have "xrClaim r = xqClaim q \<and> (xrStatus r = XsCompleted \<longrightarrow> xcVerb (xqClaim q) = XvSend)
        \<and> (\<exists>e \<in> set (execEffects s1). xeKey e = ?k \<and> xeReceipt e = r)"
      using fencedTx_run(2) [of effect, OF framed tx refl] fresh by auto
    then obtain e where e: "e \<in> set (execEffects s1)" "xeKey e = ?k" "xeReceipt e = r" "xrClaim r = xqClaim q"
      "xrStatus r = XsCompleted \<longrightarrow> xcVerb (xqClaim q) = XvSend" by blast
    have "xeBinding e = xqClaim q" using keys1 e by auto
    with e show ?thesis by (intro bexI [OF _ e(1)]) (auto simp: execRowSound_def)
  qed
  with notspawn inv1 show ?thesis by blast
qed

text \<open>
  C24. A request runs at most once. When a request was answered with a receipt, then whatever happens later
  the same request changes nothing any more, with whatever effect it is retried, and a receipt that says
  completed is answered again as it is.
\<close>

theorem request_runs_once:
  assumes "exec_reachable s" and "\<And>q. frames ledger_part (effect q)"
    and "executionRequest sha v s = Inr (q, s)" and "executeWithFence sha v uid effect s = (Inr r, s1)"
    and "exec_step\<^sup>*\<^sup>* s1 s2"
  shows "snd (executeWithFence sha v uid effect' s2) = s2
    \<and> (xrStatus r = XsCompleted \<and> map_of (execCoordinators s2) (xcIssuer (xqClaim q)) = Some uid
       \<longrightarrow> executeWithFence sha v uid effect' s2 = (Inr r, s2))"
proof -
  let ?k = "xcKey (xqClaim q)"
  from answered_row [OF exec_reachable_inv [OF assms(1)] assms(2-4)]
  obtain e where e: "e \<in> set (execEffects s1)" "xeKey e = ?k" "xeReceipt e = r" and bound: "xeBinding e = xqClaim q"
    and sound: "xrStatus r = XsCompleted \<longrightarrow> execRowSound ?k e" and notspawn: "xcVerb (xqClaim q) \<noteq> XvSpawn"
    and inv1: "exec_inv s1" by blast
  obtain e2 where e2: "e2 \<in> set (execEffects s2)" and ev: "effect_evolves e e2"
    using writes_evolve(1) [OF exec_steps_writes [OF assms(5)] inv1 e(1)] by blast
  have inv2: "exec_inv s2" by (rule writes_inv [OF exec_steps_writes [OF assms(5)] inv1])
  then have find2: "find_row xeKey (execEffects s2) ?k = Some e2"
    using find_row_mem [of xeKey "execEffects s2" e2] e2 ev e(2) by (simp add: exec_inv_def effects_ok_def effect_evolves_def)
  have b2: "xeBinding e2 = xqClaim q" using ev bound by (simp add: effect_evolves_def)
  have prep2: "prepareExecution (xqClaim q) s2 =
      (if execRowSound ?k e2 then Inr (Some (xeReceipt e2), s2) else Inl (ExecutionFenceError XcHistoryUnknown))"
    using find2 b2 by (simp add: prepareExecution_def execRow_def bindM_def requireM_def)
  have req2: "executionRequest sha v s2 = Inr (q, s2)" using pureD [OF pure_request assms(3)] by blast
  have run2: "executeWithFence sha v uid effect' s2 =
      (if map_of (execCoordinators s2) (xcIssuer (xqClaim q)) \<noteq> Some uid then (Inl (ExecutionFenceError XcUntrusted), s2)
       else if execRowSound ?k e2 then (Inr (xeReceipt e2), s2) else (Inl (ExecutionFenceError XcHistoryUnknown), s2))"
    using req2 notspawn prep2
    by (simp add: executeWithFence_def fencedTx_def requireCoordinator_def requireM_def tryPrepare_def bindM_def)
  have "xrStatus r = XsCompleted \<Longrightarrow> execRowSound ?k e2 \<and> xeReceipt e2 = r"
    using sound ev e(3) by (cases "xeCommand e") (auto simp: effect_evolves_def execRowSound_def)
  then show ?thesis using run2 by simp
qed

text \<open>
  C27. A fenced bee is dispatched at most once. After a start intent was dispatched, whatever happens later
  it is not dispatched again, no preparation begins under it, and its bee is given no other start.
\<close>

theorem dispatched_once:
  assumes "exec_reachable s" and "dispatchStart st s = Inr (u, s1)" and "exec_step\<^sup>*\<^sup>* s1 s2"
  shows "(\<forall>x. dispatchStart st s2 \<noteq> Inr x) \<and> (\<forall>op x. beginPreparation st op s2 \<noteq> Inr x)
    \<and> (\<forall>g x s3. prepareStart (esBee st) g s2 \<noteq> Inr (Some x, s3))"
proof -
  from dispatchStart_run [OF assms(2)] obtain r where r: "startIn s (esIntent st) = Some r" "esStart r = st"
    and s1: "execStarts s1 = update_rows (\<lambda>r. esIntent (esStart r) = esIntent st) (\<lambda>r. r\<lparr>esState := SsDispatching\<rparr>) (execStarts s)"
    by (auto simp: ledger_part_eq)
  have "r \<in> set (execStarts s)" using find_row_Some [OF r(1) [unfolded startIn_def]] by simp
  then have r1: "r\<lparr>esState := SsDispatching\<rparr> \<in> set (execStarts s1)" using r by (auto simp: s1 update_rows_mem)
  have inv1: "exec_inv s1"
    by (rule writes_inv [OF runsD [OF writes_dispatchStart assms(2)] exec_reachable_inv [OF assms(1)]])
  note w2 = exec_steps_writes [OF assms(3)]
  obtain r2 where r2: "r2 \<in> set (execStarts s2)" "start_evolves (r\<lparr>esState := SsDispatching\<rparr>) r2"
    using writes_evolve(2) [OF w2 inv1 r1] by blast
  have inv2: "starts_ok s2" using writes_inv [OF w2 inv1] by (simp add: exec_inv_def)
  have st: "esStart r2 = st" and state: "esState r2 \<noteq> SsPrepared" using r2(2) r(2) by (auto simp: start_evolves_def)
  have find: "startIn s2 (esIntent st) = Some r2"
    using find_row_mem [of "\<lambda>r. esIntent (esStart r)" "execStarts s2" r2] inv2 r2(1) st by (simp add: startIn_def starts_ok_def)
  have check: "checkStart st op s2 \<noteq> Inr x" for op x
    using checkStart_run [of st op s2] find state by (cases x) auto
  have "dispatchStart st s2 \<noteq> Inr x" for x
    using check by (auto simp: dispatchStart_def bindM_def split: sum.splits)
  moreover have "beginPreparation st op s2 \<noteq> Inr x" for op x
    using check by (auto simp: beginPreparation_def bindM_def split: sum.splits)
  moreover have "prepareStart (esBee st) g s2 \<noteq> Inr (Some x, s3)" for g x s3
  proof
    assume run: "prepareStart (esBee st) g s2 = Inr (Some x, s3)"
    have one: "r' = r2" if "r' \<in> set (execStarts s2)" "esBee (esStart r') = esBee st" for r'
      using that inv2 r2(1) st by (auto simp: starts_ok_def distinct_map inj_on_def)
    have prev: "list_ex (\<lambda>r. esBee (esStart r) = esBee st) (execStarts s2)" using r2(1) st by (auto simp: list_ex_iff)
    have "startOf s2 (esBee st) g = Some r' \<Longrightarrow> esState r' \<noteq> SsPrepared" for r'
      using one [of r'] state by (auto simp: startOf_def find_Some_iff)
    then show False
      using run prev
      by (auto simp: prepareStart_def bindM_Inr validateCurrent_def startContext_def split: option.splits)
  qed
  ultimately show ?thesis by blast
qed

end
