(* ===== verification/Fenced_Claims.thy ===== *)
theory Fenced_Claims
  imports Fenced_Runs
begin

text \<open>
  Claims as values and as authority: a claim reads back from its JSON, whatever parses is the JSON of what
  it parses to, and an advance settles everything that was still pending under the claim before it.
\<close>

section \<open>Refusing what is pending\<close>

lemma list_all2_back: "list_all2 R xs ys \<Longrightarrow> y \<in> set ys \<Longrightarrow> \<exists>x \<in> set xs. R x y"
  by (induction rule: list_all2_induct) auto

definition refused_by :: "string set \<Rightarrow> exec_effect \<Rightarrow> exec_effect \<Rightarrow> bool" where
  "refused_by K e e' \<longleftrightarrow>
     (e' = e \<or> e' = setReceipt ((xeReceipt e)\<lparr>xrStatus := XsRefusedStale\<rparr>) e)
     \<and> (xeKey e \<in> K \<longrightarrow> xrStatus (xeReceipt e') \<noteq> XsQueued)"

lemma refused_by_trans: "refused_by K a b \<Longrightarrow> refused_by L b c \<Longrightarrow> refused_by (K \<union> L) a c"
  by (auto simp: refused_by_def setReceipt_def)

lemma refused_by_keys: "list_all2 (refused_by K) es es' \<Longrightarrow> map xeKey es' = map xeKey es"
  by (induction rule: list_all2_induct) (auto simp: refused_by_def setReceipt_def)

lemma refuse_run:
  assumes run: "refuseExecution k s = Inr (u, s')" and keys: "distinct (map xeKey (execEffects s))"
  shows "list_all2 (refused_by {k}) (execEffects s) (execEffects s') \<and> execStarts s' = execStarts s
    \<and> map cId (commands s') = map cId (commands s)"
proof -
  obtain e where found: "find_row xeKey (execEffects s) k = Some e"
    and rest: "whenM (xrStatus (xeReceipt e) = XsQueued)
             (bindM (updateExecEffect k (setReceipt ((xeReceipt e)\<lparr>xrStatus := XsRefusedStale\<rparr>))) (\<lambda>_.
              bindM (finishPending (xrCommandId (xeReceipt e))) (\<lambda>_.
                audit (EvExec (XvRefusedStale (xcBeeId (xeBinding e)) k (xrCommandId (xeReceipt e))))))) s = Inr (u, s')"
    using run by (cases "find_row xeKey (execEffects s) k")
      (simp_all add: refuseExecution_def execRow_def bindM_assoc bind_require_Inr)
  have same: "x = e" if "x \<in> set (execEffects s)" "xeKey x = k" for x
    using same_row [OF keys found that] .
  show ?thesis
  proof (cases "xrStatus (xeReceipt e) = XsQueued")
    case True
    have s': "execEffects s' = update_rows (\<lambda>e. xeKey e = k) (setReceipt ((xeReceipt e)\<lparr>xrStatus := XsRefusedStale\<rparr>)) (execEffects s)"
      "execStarts s' = execStarts s" "map cId (commands s') = map cId (commands s)"
      using rest True by (auto simp: whenM_def updateExecEffect_def finishPending_def audit_def bindM_def map_update_rows)
    have "refused_by {k} x (if xeKey x = k then setReceipt ((xeReceipt e)\<lparr>xrStatus := XsRefusedStale\<rparr>) x else x)"
      if "x \<in> set (execEffects s)" for x
      using same [OF that] by (auto simp: refused_by_def setReceipt_def)
    with s' show ?thesis by (simp add: update_rows_def list_all2_map2 list_all2_same)
  next
    case False
    with rest have "s' = s" by (simp add: whenM_def)
    moreover have "refused_by {k} x x" if "x \<in> set (execEffects s)" for x
      using same [OF that] False by (auto simp: refused_by_def)
    ultimately show ?thesis by (simp add: list_all2_same)
  qed
qed

lemma refuse_each_run:
  assumes "eachM pending (\<lambda>(e, c). refuseExecution (xeKey e)) s = Inr (u, s')" and "distinct (map xeKey (execEffects s))"
  shows "list_all2 (refused_by ((\<lambda>(e, c). xeKey e) ` set pending)) (execEffects s) (execEffects s') \<and> execStarts s' = execStarts s
    \<and> map cId (commands s') = map cId (commands s)"
  using assms
proof (induction pending arbitrary: s)
  case Nil
  then show ?case by (simp add: list_all2_same refused_by_def)
next
  case (Cons p ps)
  obtain e c where p: "p = (e, c)" by (cases p)
  with Cons.prems(1) obtain v s1 where first: "refuseExecution (xeKey e) s = Inr (v, s1)"
    and rest: "eachM ps (\<lambda>(e, c). refuseExecution (xeKey e)) s1 = Inr (u, s')"
    by (auto simp: thenM_def bindM_Inr)
  from refuse_run [OF first Cons.prems(2)]
  have one: "list_all2 (refused_by {xeKey e}) (execEffects s) (execEffects s1)" "execStarts s1 = execStarts s"
    "map cId (commands s1) = map cId (commands s)" by auto
  have "distinct (map xeKey (execEffects s1))" using Cons.prems(2) refused_by_keys [OF one(1)] by simp
  from Cons.IH [OF rest this]
  have more: "list_all2 (refused_by ((\<lambda>(e, c). xeKey e) ` set ps)) (execEffects s1) (execEffects s')"
    "execStarts s' = execStarts s1" "map cId (commands s') = map cId (commands s1)" by auto
  have "list_all2 (refused_by ({xeKey e} \<union> (\<lambda>(e, c). xeKey e) ` set ps)) (execEffects s) (execEffects s')"
    by (rule list_all2_trans [OF refused_by_trans one(1) more(1)])
  with one more p show ?case by simp
qed

text \<open>The intents of the continuation that were prepared.\<close>

definition stopped_by :: "string set \<Rightarrow> exec_start_row \<Rightarrow> exec_start_row \<Rightarrow> bool" where
  "stopped_by K r r' \<longleftrightarrow>
     (r' = r \<or> r' = r\<lparr>esState := SsRefusedStale\<rparr>) \<and> (esIntent (esStart r) \<in> K \<longrightarrow> esState r' = SsRefusedStale)"

lemma stop_each_run:
  assumes "eachM rows (\<lambda>r. updateStart (esIntent (esStart r)) (\<lambda>r. r\<lparr>esState := SsRefusedStale\<rparr>)) s = Inr (u, s')"
  shows "list_all2 (stopped_by ((\<lambda>r. esIntent (esStart r)) ` set rows)) (execStarts s) (execStarts s')
    \<and> execEffects s' = execEffects s \<and> commands s' = commands s"
  using assms
proof (induction rows arbitrary: s)
  case Nil
  then show ?case by (simp add: list_all2_same stopped_by_def)
next
  case (Cons r rs)
  let ?i = "esIntent (esStart r)"
  let ?s1 = "s\<lparr>execStarts := update_rows (\<lambda>x. esIntent (esStart x) = ?i) (\<lambda>r. r\<lparr>esState := SsRefusedStale\<rparr>) (execStarts s)\<rparr>"
  have "updateStart ?i (\<lambda>r. r\<lparr>esState := SsRefusedStale\<rparr>) s = Inr ((), ?s1)"
    by (simp add: updateStart_def)
  with Cons.prems have "eachM rs (\<lambda>r. updateStart (esIntent (esStart r)) (\<lambda>r. r\<lparr>esState := SsRefusedStale\<rparr>)) ?s1 = Inr (u, s')"
    by (simp add: thenM_def bindM_def)
  from Cons.IH [OF this] have rest: "list_all2 (stopped_by ((\<lambda>r. esIntent (esStart r)) ` set rs)) (execStarts ?s1) (execStarts s')"
    "execEffects s' = execEffects s" "commands s' = commands s" by simp_all
  have one: "list_all2 (stopped_by {?i}) (execStarts s) (execStarts ?s1)"
    by (simp add: update_rows_def list_all2_map2 list_all2_same stopped_by_def)
  have "stopped_by {?i} a b \<Longrightarrow> stopped_by ((\<lambda>r. esIntent (esStart r)) ` set rs) b c \<Longrightarrow>
      stopped_by ((\<lambda>r. esIntent (esStart r)) ` set (r # rs)) a c" for a b c
    by (auto simp: stopped_by_def)
  from list_all2_trans [OF this one rest(1)] rest show ?case by simp
qed

section \<open>What an advance leaves\<close>

definition settled_status :: "exec_status \<Rightarrow> bool" where
  "settled_status st \<longleftrightarrow> st = XsCompleted \<or> st = XsRefusedStale"

definition settled_start :: "start_state \<Rightarrow> bool" where
  "settled_start st \<longleftrightarrow> st = SsStarted \<or> st = SsHostExited \<or> st = SsRefusedStale"

lemma advanceOver_settles:
  assumes run: "advanceOver old claim s = Inr (u, s')" and inv: "exec_inv s"
  shows "(\<forall>e \<in> set (execEffects s'). xcIssuer (xeBinding e) = xcIssuer old \<and> xcContinuation (xeBinding e) = xcContinuation old
        \<longrightarrow> settled_status (xrStatus (xeReceipt e)) \<or> Option.bind (xeCommand e) (getCommand s') = None)
    \<and> (\<forall>r \<in> set (startsOf s' old). settled_start (esState r))"
proof -
  let ?stale = "filter (\<lambda>r. esState r \<in> {SsPrepared, SsDispatching}) (startsOf s old)"
  have keys: "distinct (map xeKey (execEffects s))" using inv by (simp add: exec_inv_def effects_ok_def)
  obtain v s1 where adv: "assertAdvance old s = Inr (v, s1)" and un: "\<not> unresolvedSpawn s1 old"
    and grant: "sameGrant old claim"
    and last: "eachM (pendingExecutions s1 claim) (\<lambda>(e, c). refuseExecution (xeKey e)) s1 = Inr (u, s')"
    using run unfolding advanceOver_def by (elim bindM_InrE) (simp add: bind_require_Inr)
  from adv have calm: "\<not> list_ex (startBusy s) (startsOf s old)"
    and stop: "eachM ?stale (\<lambda>r. updateStart (esIntent (esStart r)) (\<lambda>r. r\<lparr>esState := SsRefusedStale\<rparr>)) s = Inr (v, s1)"
    by (simp_all add: assertAdvance_def bind_require_Inr)
  from stop_each_run [OF stop]
  have starts1: "list_all2 (stopped_by ((\<lambda>r. esIntent (esStart r)) ` set ?stale)) (execStarts s) (execStarts s1)"
    and eff1: "execEffects s1 = execEffects s" "commands s1 = commands s" by auto
  from refuse_each_run [OF last] keys eff1
  have eff: "list_all2 (refused_by ((\<lambda>(e, c). xeKey e) ` set (pendingExecutions s1 claim))) (execEffects s) (execEffects s')"
    and st: "execStarts s' = execStarts s1" and ids: "map cId (commands s') = map cId (commands s)" by auto
  have present: "(getCommand s' i = None) = (getCommand s i = None)" for i
    using ids find_row_None [of cId "commands s'" i] find_row_None [of cId "commands s" i]
    by (simp add: getCommand_def flip: set_map)
  have effects: "settled_status (xrStatus (xeReceipt e')) \<or> Option.bind (xeCommand e') (getCommand s') = None"
    if e': "e' \<in> set (execEffects s')" and of': "xcIssuer (xeBinding e') = xcIssuer old" "xcContinuation (xeBinding e') = xcContinuation old" for e'
  proof -
    from list_all2_back [OF eff e'] obtain e where e: "e \<in> set (execEffects s)"
      and by': "refused_by ((\<lambda>(e, c). xeKey e) ` set (pendingExecutions s1 claim)) e e'" by blast
    show ?thesis
    proof (cases "e' = e")
      case False
      with by' show ?thesis by (auto simp: refused_by_def setReceipt_def settled_status_def)
    next
      case True
      have "xrStatus (xeReceipt e) \<notin> {XsPreparing, XsOutcomeUnknown}"
        using un e of' True eff1 by (auto simp: unresolvedSpawn_def list_ex_iff)
      moreover have "Option.bind (xeCommand e) (getCommand s') = None" if q: "xrStatus (xeReceipt e) = XsQueued"
      proof (rule ccontr)
        assume "Option.bind (xeCommand e) (getCommand s') \<noteq> None"
        then obtain i where i: "xeCommand e = Some i" "getCommand s' i \<noteq> None"
          by (cases "xeCommand e") auto
        with present [of i] obtain c where "getCommand s i = Some c" by auto
        with eff1 have "getCommand s1 i = Some c" by (simp add: getCommand_def)
        then have "(e, c) \<in> set (pendingExecutions s1 claim)"
          using e i eff1 of' True q grant by (auto simp: pendingExecutions_def sameGrant_fields intro!: bexI [of _ e])
        then have "xeKey e \<in> (\<lambda>(e, c). xeKey e) ` set (pendingExecutions s1 claim)" by force
        with by' True q show False by (simp add: refused_by_def)
      qed
      ultimately show ?thesis using True by (cases "xrStatus (xeReceipt e)") (auto simp: settled_status_def)
    qed
  qed
  have starts: "settled_start (esState r')" if r': "r' \<in> set (startsOf s' old)" for r'
  proof -
    from r' st have "r' \<in> set (execStarts s1)" by (simp add: startsOf_def)
    from list_all2_back [OF starts1 this] obtain r where r: "r \<in> set (execStarts s)"
      and by': "stopped_by ((\<lambda>r. esIntent (esStart r)) ` set ?stale) r r'" by blast
    from by' r' have own: "r \<in> set (startsOf s old)" using r by (auto simp: startsOf_def stopped_by_def)
    with calm have "esState r \<notin> {SsDispatching, SsReleaseCommitted, SsOutcomeUnknown}"
      by (auto simp: list_ex_iff startBusy_def)
    moreover have "esState r = SsPrepared \<Longrightarrow> esState r' = SsRefusedStale"
      using own by' by (auto simp: stopped_by_def)
    ultimately show ?thesis using by' by (cases "esState r") (auto simp: stopped_by_def settled_start_def)
  qed
  show ?thesis
  proof (intro conjI ballI impI)
    fix e' assume "e' \<in> set (execEffects s')" "xcIssuer (xeBinding e') = xcIssuer old \<and> xcContinuation (xeBinding e') = xcContinuation old"
    then show "settled_status (xrStatus (xeReceipt e')) \<or> Option.bind (xeCommand e') (getCommand s') = None"
      by (intro effects) simp_all
  qed (rule starts)
qed

text \<open>
  C26. Moving a claim on leaves nothing behind. A successful compare-and-set either repeats an earlier
  transition and changes nothing, or it installs the claim as the next generation of the same grant, and
  then no execution of the continuation whose command exists is pending, and no start intent of it can
  still fork a host.
\<close>

theorem advance_settles:
  assumes "exec_reachable s" and "compareAndSet v uid s = Inr (c, s')"
  shows "s' = s \<and> c \<in> xtClaim ` set (execTransitions s)
    \<or> (claimCovered s c \<and> currentClaim s' c = Some c \<and> xcGeneration c = nextGeneration (currentClaim s c)
       \<and> (case currentClaim s c of None \<Rightarrow> True
          | Some old \<Rightarrow> sameGrant old c
              \<and> (\<forall>e \<in> set (execEffects s'). xcIssuer (xeBinding e) = xcIssuer c \<and> xcContinuation (xeBinding e) = xcContinuation c
                   \<longrightarrow> settled_status (xrStatus (xeReceipt e)) \<or> Option.bind (xeCommand e) (getCommand s') = None)
              \<and> (\<forall>r \<in> set (startsOf s' c). settled_start (esState r))))"
  using assms(2)
proof (cases rule: compareAndSet_run)
  case (replay r)
  then show ?thesis by auto
next
  case (fresh i claim expected)
  from installClaim_run [OF fresh(1)] obtain s1 where c: "c = claim" and gen: "xcGeneration claim = nextGeneration (currentClaim s claim)"
    and adv: "case currentClaim s claim of None \<Rightarrow> s1 = s | Some old \<Rightarrow> advanceOver old claim s = Inr ((), s1)"
    and s': "s' = s1\<lparr>execClaims := upsert_row (\<lambda>c. (xcIssuer c, xcContinuation c)) claim (execClaims s1),
                 execTransitions := execTransitions s1 @ [\<lparr>xtIssuer = xcIssuer claim, xtTransition = i, xtRequest = v, xtClaim = claim\<rparr>],
                 auditLog := auditLog s1 @ [EvExec (XvClaimAdvanced i claim)]\<rparr>" by blast
  have "currentClaim s' c = Some c"
    using find_row_upsert [of "\<lambda>c. (xcIssuer c, xcContinuation c)" claim "execClaims s1" "(xcIssuer claim, xcContinuation claim)"]
    by (simp add: currentClaim_find s' c)
  moreover have "case currentClaim s c of None \<Rightarrow> True
          | Some old \<Rightarrow> sameGrant old c
              \<and> (\<forall>e \<in> set (execEffects s'). xcIssuer (xeBinding e) = xcIssuer c \<and> xcContinuation (xeBinding e) = xcContinuation c
                   \<longrightarrow> settled_status (xrStatus (xeReceipt e)) \<or> Option.bind (xeCommand e) (getCommand s') = None)
              \<and> (\<forall>r \<in> set (startsOf s' c). settled_start (esState r))"
  proof (cases "currentClaim s c")
    case None
    then show ?thesis by simp
  next
    case (Some old)
    with adv c have run: "advanceOver old c s = Inr ((), s1)" by simp
    have grant: "sameGrant old c" by (rule advanceOver_grant [OF run])
    have same: "startsOf s' c = startsOf s1 old" "getCommand s' = getCommand s1" "execEffects s' = execEffects s1"
      "xcIssuer c = xcIssuer old" "xcContinuation c = xcContinuation old"
      using grant by (simp_all add: s' startsOf_def getCommand_def fun_eq_iff sameGrant_fields)
    from advanceOver_settles [OF run exec_reachable_inv [OF assms(1)]] grant Some show ?thesis by (simp only: same option.case)
  qed
  ultimately show ?thesis using gen c fresh(2) by simp
qed

section \<open>Claims as values\<close>

text \<open>A claim every member of which the fence accepts.\<close>

definition fence_ok :: "string \<Rightarrow> bool" where
  "fence_ok x \<longleftrightarrow> js_trim x \<noteq> [] \<and> utf16_length x \<le> 1024"

definition wf_claim :: "exec_claim \<Rightarrow> bool" where
  "wf_claim c \<longleftrightarrow>
     fence_ok (xcIssuer c) \<and> fence_ok (xcContinuation c) \<and> 1 \<le> xcGeneration c \<and> int (xcGeneration c) \<le> MAX_SAFE_INTEGER
     \<and> fence_ok (xcClaimId c) \<and> is_sha256 (xcGrantDigest c) \<and> fence_ok (xcOwnerStore c) \<and> fence_ok (xcCoverage c)
     \<and> fence_ok (xcBeeId c) \<and> is_sha256 (xcRequestDigest c) \<and> fence_ok (xcKey c)"

lemma fence_text_Some: "fence_text v = Some x \<longleftrightarrow> v = Some (JStr x) \<and> fence_ok x"
  by (auto simp: fence_text_def fence_ok_def split: option.splits json.splits)

lemma fence_digest_Some: "fence_digest v = Some x \<longleftrightarrow> v = Some (JStr x) \<and> is_sha256 x"
  by (auto simp: fence_digest_def split: option.splits json.splits)

lemma fence_generation_Some:
  "fence_generation v = Some n \<longleftrightarrow> v = Some (JNum (int n)) \<and> 1 \<le> n \<and> int n \<le> MAX_SAFE_INTEGER"
  by (auto simp: fence_generation_def split: option.splits json.splits)

lemma orInvalid_Some: "orInvalid (Some x) = returnM x"
  by (simp add: orInvalid_def)

lemma orInvalid_Inr: "orInvalid x s = Inr (y, s') \<longleftrightarrow> x = Some y \<and> s' = s"
  by (cases x) (auto simp: orInvalid_def fenceInvalid_def)

lemma token_run:
  "executionToken v s = Inr (t, s') \<Longrightarrow>
     fence_ok (xkIssuer t) \<and> fence_ok (xkContinuation t) \<and> 1 \<le> xkGeneration t \<and> int (xkGeneration t) \<le> MAX_SAFE_INTEGER
     \<and> fence_ok (xkClaimId t) \<and> is_sha256 (xkGrantDigest t) \<and> fence_ok (xkOwnerStore t) \<and> fence_ok (xkCoverage t)"
  unfolding executionToken_def
  by (auto simp: bindM_Inr orInvalid_Inr fence_text_Some fence_digest_Some fence_generation_Some)

lemma binding_run:
  "executionBinding v s = Inr (b, s') \<Longrightarrow> fence_ok (xbBeeId b) \<and> is_sha256 (xbRequestDigest b) \<and> fence_ok (xbKey b)"
  unfolding executionBinding_def
  by (auto simp: bindM_Inr orInvalid_Inr fence_text_Some fence_digest_Some)

lemma claim_run:
  assumes "executionClaim v s = Inr (c, s')"
  shows "wf_claim c \<and> s' = s"
proof -
  obtain row t b s1 s2 s3 where c: "c = claimOf t b" and t: "executionToken (JObj (map (\<lambda>k. (k, case map_of row k of Some x \<Rightarrow> x | None \<Rightarrow> JNull)) TOKEN_KEYS)) s1 = Inr (t, s2)"
    and b: "executionBinding row s2 = Inr (b, s3)"
    using assms unfolding executionClaim_def by (auto simp: bindM_Inr)
  from token_run [OF t] binding_run [OF b] pureD [OF pure_claim assms] show ?thesis
    by (simp add: c claimOf_def wf_claim_def)
qed

lemma binding_json:
  assumes "map_of row ''verb'' = Some (JStr (exec_verb_text v))" "map_of row ''digestVersion'' = Some (JNum 1)"
    "map_of row ''resource'' = Some (JObj [(''beeId'', JStr b)])" "map_of row ''requestDigest'' = Some (JStr d)"
    "map_of row ''idempotencyKey'' = Some (JStr k)"
    and "fence_ok b" "is_sha256 d" "fence_ok k"
  shows "executionBinding row s = Inr (\<lparr>xbVerb = v, xbBeeId = b, xbRequestDigest = d, xbKey = k\<rparr>, s)"
proof -
  have "parse_exec_verb (Some (JStr (exec_verb_text v))) = Some v"
    by (cases v) (simp_all add: parse_exec_verb_def exec_verb_text_def)
  moreover have "fence_text (Some (JStr b)) = Some b" "fence_text (Some (JStr k)) = Some k" "fence_digest (Some (JStr d)) = Some d"
    using assms by (simp_all add: fence_text_Some fence_digest_Some)
  ultimately show ?thesis
    using assms(1-5) by (simp add: executionBinding_def orInvalid_Some bindM_def requireM_def closedObject_def)
qed

lemma token_json:
  assumes "fence_ok i" "fence_ok c" "1 \<le> g" "int g \<le> MAX_SAFE_INTEGER" "fence_ok cl" "is_sha256 gr" "fence_ok ow" "fence_ok co"
  shows "executionToken (JObj [(''version'', JNum 1), (''issuerId'', JStr i), (''continuationId'', JStr c),
      (''generation'', JNum (int g)), (''claimId'', JStr cl), (''grantDigest'', JStr gr), (''ownerStoreId'', JStr ow),
      (''coverageId'', JStr co)]) s
    = Inr (\<lparr>xkIssuer = i, xkContinuation = c, xkGeneration = g, xkClaimId = cl, xkGrantDigest = gr, xkOwnerStore = ow, xkCoverage = co\<rparr>, s)"
proof -
  have "fence_text (Some (JStr x)) = Some x" if "fence_ok x" for x using that by (simp add: fence_text_Some)
  moreover have "fence_digest (Some (JStr gr)) = Some gr" "fence_generation (Some (JNum (int g))) = Some g"
    using assms by (simp_all add: fence_generation_Some fence_digest_Some)
  ultimately show ?thesis
    using assms by (simp add: executionToken_def orInvalid_Some bindM_def requireM_def closedObject_def TOKEN_KEYS_def)
qed

lemma claim_json_run:
  assumes "wf_claim c"
  shows "executionClaim (claim_json c) s = Inr (c, s)"
proof -
  let ?row = "case claim_json c of JObj row \<Rightarrow> row"
  have closed: "closedObject (claim_json c) (TOKEN_KEYS @ BINDING_KEYS) = returnM ?row"
    by (simp add: closedObject_def claim_json_def TOKEN_KEYS_def BINDING_KEYS_def)
  have "executionToken (JObj (map (\<lambda>k. (k, case map_of ?row k of Some x \<Rightarrow> x | None \<Rightarrow> JNull)) TOKEN_KEYS)) s
      = Inr (\<lparr>xkIssuer = xcIssuer c, xkContinuation = xcContinuation c, xkGeneration = xcGeneration c, xkClaimId = xcClaimId c,
          xkGrantDigest = xcGrantDigest c, xkOwnerStore = xcOwnerStore c, xkCoverage = xcCoverage c\<rparr>, s)"
    using assms token_json [of "xcIssuer c" "xcContinuation c" "xcGeneration c" "xcClaimId c" "xcGrantDigest c" "xcOwnerStore c" "xcCoverage c" s]
    by (simp add: claim_json_def TOKEN_KEYS_def wf_claim_def)
  moreover have "executionBinding ?row s = Inr (\<lparr>xbVerb = xcVerb c, xbBeeId = xcBeeId c, xbRequestDigest = xcRequestDigest c, xbKey = xcKey c\<rparr>, s)"
    using assms by (intro binding_json) (simp_all add: claim_json_def wf_claim_def)
  ultimately show ?thesis
    by (simp add: executionClaim_def closed bindM_def claimOf_def)
qed

text \<open>
  C28. Claims read back. The stored text of a claim reads back as that claim exactly when every member of
  the claim is one the fence accepts, and whatever text is read, the claim it gives has that form.
\<close>

theorem claim_reads_back:
  "(executionClaim (claim_json c) s = Inr (c, s) \<longleftrightarrow> wf_claim c) \<and> ((\<exists>v. executionClaim v s = Inr (c, s')) \<longleftrightarrow> wf_claim c \<and> s' = s)"
  using claim_json_run claim_run by blast

end
