(* ===== verification/Command_Port.thy ===== *)
theory Command_Port
  imports Commands
begin

text \<open>
  The admission of a command as the ledgers of keyed effects see it: whatever it supersedes, withdraws or
  wakes, it adds commands under no other key than the one it was given and settles commands in place. The
  first locale is what touches no command at all; the second joins it with the port of the wake.
\<close>

locale control_port = quiet_port part silent for part :: "core \<Rightarrow> 'p" and silent +
  assumes part_moves: "part (moves_update g1 s) = part s"
    and part_handoffs: "part (handoffs_update g2 s) = part s"
    and part_authRows: "part (authRows_update g3 s) = part s"
    and part_quotaRows: "part (quotaRows_update g4 s) = part s"
    and part_actions: "part (actions_update g5 s) = part s"
    and silent_all: "silent ev"
begin

lemmas command_simps = wake_simps part_moves part_handoffs part_authRows part_quotaRows part_actions

lemma frames_log [frame]: "frames part (audit ev)"
  by (rule frames_audit) (rule silent_all)

lemma frames_updateActionRow [frame]: "frames part (updateActionRow i f m k)"
  unfolding updateActionRow_def mustGetAction_def putAction_def Let_def
  by (intro frame) (simp_all add: command_simps)

lemma port_laneAudit: "frames part m \<Longrightarrow> frames part (withActionLaneAudit b reason m)"
  unfolding withActionLaneAudit_def auditActionViews_def auditActionQueue_def Let_def by (intro frame)

lemma port_dispatchCanceled [frame]: "frames part (applyActionDispatchCanceled m t)"
  unfolding applyActionDispatchCanceled_def failActionRow_def mustGetAction_def by (intro frame port_laneAudit)

lemma frames_cancelMessageInternal [frame]: "frames part (cancelMessageInternal b m x owner)"
  unfolding cancelMessageInternal_def by (intro frame)

lemma frames_updates [frame]:
  "frames part (updateMove i f1)" "frames part (updateHandoff i f2)" "frames part (updateBee p f3)"
  unfolding updateMove_def updateHandoff_def updateBee_def by (intro frame, simp add: command_simps)+

lemma frames_mustBee [frame]: "frames part (mustBeeMove i)" "frames part (mustBeeHandoff i)"
  unfolding mustBeeMove_def mustBeeHandoff_def by (intro frame)+

lemma frames_moves [frame]: "frames part (applySetBeeMovePhase i ph)" "frames part (applyFailBeeMove i f)"
  unfolding applyFailBeeMove_def applySetBeeMovePhase_def by (intro frame)+

lemma frames_handoffs [frame]: "frames part (applySetBeeHandoffPhase i ph)" "frames part (applyFailBeeHandoff i f)"
  unfolding applyFailBeeHandoff_def applySetBeeHandoffPhase_def by (intro frame)+

lemma frames_quota [frame]: "frames part (cancelQuotaRecovery i reason)"
  unfolding cancelQuotaRecovery_def putQuotaRecovery_def Let_def by (intro frame) (simp_all add: command_simps)

lemma frames_settleAuth [frame]: "frames part (settleAuthInterruption i st reason)"
  unfolding settleAuthInterruption_def putAuthInterruption_def by (intro frame) (simp_all add: command_simps)

end

locale command_port = wake_port part silent keyed + control_port part silent
  for part :: "core \<Rightarrow> 'p" and silent and keyed +
  assumes part_settle: "(\<And>c. cIdempotencyKey (f c) = cIdempotencyKey c) \<Longrightarrow>
        part (s\<lparr>commands := update_rows p f (commands s)\<rparr>) = part s"
begin

lemma frames_settle:
  "(\<And>c. cIdempotencyKey (f c) = cIdempotencyKey c) \<Longrightarrow>
    frames part (modifyM (\<lambda>s. s\<lparr>commands := update_rows p f (commands s)\<rparr>))"
  by (intro frame) (simp add: part_settle)

lemma port_mootCommand [frame]: "frames part (mootCommand c b g reason)"
  unfolding mootCommand_def by (intro frame frames_settle) simp

lemma port_supersedeCommands [frame]: "frames part (supersedeCommands ks reason)"
  unfolding supersedeCommands_def by (intro frame)

lemma frames_supersede [frame]:
  "frames part (applySupersedeBeeMove i f)" "frames part (applySupersedeBeeHandoff i f)"
  unfolding applySupersedeBeeMove_def applySupersedeBeeHandoff_def by (intro frame)+

lemma frames_rearm [frame]: "frames part (rearmWakeIfFencedMail b)"
  unfolding rearmWakeIfFencedMail_def by (intro frame)

lemma frames_cancelAuthDeath [frame]: "frames part (cancelAuthDeathRecovery b reason)"
  unfolding cancelAuthDeathRecovery_def cancelQuotaRecoveries_def Let_def by (intro frame)

lemma port_supersedePlacement [frame]: "frames part (supersedePlacement v b k)"
  unfolding supersedePlacement_def by (intro frame)

lemma port_mootPendingStarts [frame]: "frames part (mootPendingStarts b g)"
  unfolding mootPendingStarts_def by (intro frame)

lemma frames_admitCommand: "keyed k \<Longrightarrow> frames part (admitCommand v b args k n)"
  unfolding admitCommand_def by (intro frame frames_enqueue) simp_all

end

end
