(* ===== verification/Effect_Ledger.thy ===== *)
theory Effect_Ledger
  imports Command_Port Samples
begin

text \<open>
  What the ledger of keyed effects promises. Seen from outside, a key is free, done with a receipt, or
  fenced, and it leaves the first state once and for ever; the ledger refines this write-once map, through
  every operation of the store, the eviction of recorded results included.
\<close>

section \<open>The abstract state of a key\<close>

datatype key_state = KFree | KDone effect_receipt | KFenced string

definition keyState :: "core \<Rightarrow> string \<Rightarrow> key_state" where
  "keyState s k =
     (case effectRow s k of
        None \<Rightarrow> (case legacyEffect s k of None \<Rightarrow> KFree | Some r \<Rightarrow> KDone (legacyReceipt k r))
      | Some e \<Rightarrow> if efState e = EfFenced then KFenced (efVerb e)
                  else (case efReceipt e of Some v \<Rightarrow> KDone v | None \<Rightarrow> KFree))"

inductive key_step :: "key_state \<Rightarrow> key_state \<Rightarrow> bool" where
  "key_step x x"
| "key_step KFree (KDone v)"
| "key_step KFree (KFenced v)"

inductive_cases key_step_done: "key_step (KDone v) y"
inductive_cases key_step_fenced: "key_step (KFenced v) y"

text \<open>What a lookup answers, from the abstract state of the key alone.\<close>

definition sound_receipt :: "effect_receipt \<Rightarrow> bool" where
  "sound_receipt v \<longleftrightarrow> 0 \<le> ecCreatedAt v \<and> validCommandId (ecCommandId v)
     \<and> validEffectResult (ecVerb v) (ecResult v) (ecCommandId v)"

definition lookupSpec :: "core \<Rightarrow> string \<Rightarrow> string option \<Rightarrow> core_error + effect_receipt option" where
  "lookupSpec s k verb =
     (if k = [] then Inl EffectInvalidError
      else (case keyState s k of
              KFenced _ \<Rightarrow> Inl EffectFencedError
            | KDone v \<Rightarrow>
                if \<not> sound_receipt v then Inl EffectHistoryUnknownError
                else if (\<forall>x \<in> set_option verb. ecVerb v = x) then Inr (Some v) else Inl EffectConflictError
            | KFree \<Rightarrow> if starts_with ''effect-v1:'' k \<and> \<not> effectCovered s k then Inl EffectHistoryUnknownError
                       else Inr None))"

section \<open>The steps of the store\<close>

text \<open>
  The operations on the ledger, the commands with a key, and everything else the store does: an operation
  that leaves the two tables alone and enqueues commands under keys that are no effect keys, if any (a stop
  of a move or the revive of a recovery).
\<close>

inductive ledger_step :: "core \<Rightarrow> core \<Rightarrow> bool" where
  LsRecord: "recordRpcResult k v c r s = Inr ((), s') \<Longrightarrow> ledger_step s s'"
| LsLookup: "lookupRpcResult k s = Inr (x, s') \<Longrightarrow> ledger_step s s'"
| LsResolve: "resolveEffect k v inFlight s = Inr (x, s') \<Longrightarrow> v \<in> set EFFECT_VERBS \<Longrightarrow> ledger_step s s'"
| LsUpdate: "updateRpcResult k r s = Inr ((), s') \<Longrightarrow> ledger_step s s'"
| LsCommand: "enqueueCommand v b args key notBefore s = Inr (x, s') \<Longrightarrow> ledger_step s s'"
| LsReopen: "openEffects s = Inr ((), s') \<Longrightarrow> ledger_step s s'"
| LsOther: "effectRows s' = effectRows s \<Longrightarrow> rpcResults s' = rpcResults s \<Longrightarrow>
    (\<And>k. Some k \<in> cIdempotencyKey ` set (commands s') \<Longrightarrow>
       Some k \<in> cIdempotencyKey ` set (commands s) \<or> \<not> starts_with ''effect-v1:'' k) \<Longrightarrow> ledger_step s s'"

inductive ledger_reachable :: "core \<Rightarrow> bool" where
  LrInit: "effectRows s = [] \<Longrightarrow> rpcResults s = [] \<Longrightarrow> ledger_reachable s"
| LrStep: "ledger_reachable s \<Longrightarrow> ledger_step s s' \<Longrightarrow> ledger_reachable s'"

section \<open>The invariant\<close>

definition no_command :: "core \<Rightarrow> string \<Rightarrow> bool" where
  "no_command s k \<longleftrightarrow> Some k \<notin> cIdempotencyKey ` set (commands s)"

definition effect_row_ok :: "core \<Rightarrow> string \<Rightarrow> effect_row \<Rightarrow> bool" where
  "effect_row_ok s k e \<longleftrightarrow>
     efVerb e \<in> set EFFECT_VERBS
     \<and> (case efState e of
          EfCommitted \<Rightarrow> (\<exists>v. efReceipt e = Some v \<and> ecKey v = k \<and> ecVerb v = efVerb e)
        | EfFenced \<Rightarrow> efReceipt e = None \<and> rpcRow s k = None \<and> no_command s k \<and> starts_with ''effect-v1:'' k)"

definition ledger_inv :: "core \<Rightarrow> bool" where
  "ledger_inv s \<longleftrightarrow>
     (\<forall>k e. effectRow s k = Some e \<longrightarrow> effect_row_ok s k e)
     \<and> (\<forall>k r. legacyEffect s k = Some r \<longrightarrow> map_option efState (effectRow s k) = Some EfCommitted)"

lemma ledger_invD:
  assumes "ledger_inv s"
  shows "effectRow s k = Some e \<Longrightarrow> effect_row_ok s k e"
    and "legacyEffect s k = Some r \<Longrightarrow> map_option efState (effectRow s k) = Some EfCommitted"
  using assms unfolding ledger_inv_def by blast+

text \<open>In a store with the invariant \<open>raw\<close> only reads.\<close>

lemma effectRaw_inv:
  assumes inv: "ledger_inv s"
  shows "effectRaw k s =
    (if k = [] then Inl EffectInvalidError
     else (case keyState s k of
             KFree \<Rightarrow> Inr (None, s)
           | KFenced v \<Rightarrow> Inr (Some (v, EfFenced, None), s)
           | KDone v \<Rightarrow> if sound_receipt v then Inr (Some (ecVerb v, EfCommitted, Some v), s)
                        else Inl EffectHistoryUnknownError))"
proof (cases "effectRow s k")
  case None
  with ledger_invD(2) [OF inv, of k] have "legacyEffect s k = None" by (cases "legacyEffect s k") auto
  with None show ?thesis by (simp add: effectRaw_def keyState_def requireM_def)
next
  case (Some e)
  from ledger_invD(1) [OF inv Some] have ok: "effect_row_ok s k e" .
  show ?thesis
  proof (cases "efState e")
    case EfFenced
    with ledger_invD(2) [OF inv, of k] Some have "legacyEffect s k = None" by (cases "legacyEffect s k") auto
    with EfFenced Some ok show ?thesis
      by (simp add: effectRaw_def keyState_def requireM_def effect_row_ok_def)
  next
    case EfCommitted
    with ok obtain v where v: "efReceipt e = Some v" "ecKey v = k" "ecVerb v = efVerb e" "efVerb e \<in> set EFFECT_VERBS"
      by (auto simp: effect_row_ok_def)
    have "validReceipt k (Some e) v \<longleftrightarrow> sound_receipt v"
      using v by (simp add: validReceipt_def sound_receipt_def conj_ac)
    with EfCommitted Some v show ?thesis
      by (simp add: effectRaw_def keyState_def requireM_def rawReceipt_def whenM_def)
  qed
qed

lemma keyState_done_row:
  "ledger_inv s \<Longrightarrow> keyState s k = KDone v \<Longrightarrow> \<exists>e. effectRow s k = Some e \<and> efState e = EfCommitted \<and> efReceipt e = Some v"
  using ledger_invD(2) [of s k]
  by (cases "effectRow s k"; cases "legacyEffect s k") (auto simp: keyState_def split: if_splits option.splits intro: effect_state.exhaust)

lemma effectLookup_inv:
  assumes inv: "ledger_inv s"
  shows "effectLookup k verb s = (case lookupSpec s k verb of Inl e \<Rightarrow> Inl e | Inr x \<Rightarrow> Inr (x, s))"
  by (cases "keyState s k") (auto simp: effectLookup_def lookupSpec_def effectRaw_inv [OF inv] bindM_def requireM_def)

lemma effectLookup_same: "ledger_inv s \<Longrightarrow> effectLookup k verb s = Inr (x, s') \<Longrightarrow> s' = s \<and> lookupSpec s k verb = Inr x"
  by (auto simp: effectLookup_inv split: sum.splits)

section \<open>The invariant is kept\<close>

lemma keys_settled:
  "(\<And>c. cIdempotencyKey (f c) = cIdempotencyKey c) \<Longrightarrow>
    cIdempotencyKey ` set (update_rows p f rows) = cIdempotencyKey ` set rows"
  by (induction rows) (simp_all add: update_rows_def)

interpretation keyed_command: command_port
  "\<lambda>s. (effectRows s, rpcResults s, Some k \<in> cIdempotencyKey ` set (commands s))" "\<lambda>_. True" "\<lambda>x. x \<noteq> Some k"
  for k
  by unfold_locales (simp_all add: keys_settled)

lemma keyState_same:
  "effectRows s' = effectRows s \<Longrightarrow> rpcResults s' = rpcResults s \<Longrightarrow> keyState s' k = keyState s k"
  by (simp add: keyState_def effectRow_def legacyEffect_def rpcRow_def split: option.split)

text \<open>A step that leaves the tables alone and adds no command under a fenced key.\<close>

lemma ledger_inv_other:
  assumes inv: "ledger_inv s" and same: "effectRows s' = effectRows s" "rpcResults s' = rpcResults s"
    and new: "\<And>k. Some k \<in> cIdempotencyKey ` set (commands s') \<Longrightarrow> Some k \<in> cIdempotencyKey ` set (commands s)
        \<or> \<not> starts_with ''effect-v1:'' k \<or> (\<forall>e. effectRow s k = Some e \<longrightarrow> efState e \<noteq> EfFenced)"
  shows "ledger_inv s'"
proof -
  have rows: "effectRow s' k = effectRow s k" "legacyEffect s' k = legacyEffect s k" "rpcRow s' k = rpcRow s k" for k
    using same by (simp_all add: effectRow_def legacyEffect_def rpcRow_def)
  have "effect_row_ok s' k e" if e: "effectRow s k = Some e" for k e
    using ledger_invD(1) [OF inv e] new [of k] e rows
    by (auto simp: effect_row_ok_def no_command_def split: effect_state.splits)
  then show ?thesis
    using inv rows by (simp add: ledger_inv_def)
qed

lemma requireLegacyKey_same: "requireLegacyKey k s = Inr (u, s') \<Longrightarrow> s' = s"
  by (auto simp: requireLegacyKey_def assertLegacyKey_def bindM_Inr whenM_def split: if_splits)

text \<open>What an enqueued command changes.\<close>

lemma admitCommand_parts:
  assumes run: "admitCommand v b args key nb s = Inr (y, s')"
  shows "effectRows s' = effectRows s \<and> rpcResults s' = rpcResults s
    \<and> (\<forall>k. key \<noteq> Some k \<longrightarrow> (Some k \<in> cIdempotencyKey ` set (commands s')) = (Some k \<in> cIdempotencyKey ` set (commands s)))"
proof -
  have other: "key \<noteq> Some k \<Longrightarrow> effectRows s' = effectRows s \<and> rpcResults s' = rpcResults s
      \<and> (Some k \<in> cIdempotencyKey ` set (commands s')) = (Some k \<in> cIdempotencyKey ` set (commands s))" for k
    using framesD [OF keyed_command.frames_admitCommand run] by simp
  have "key \<noteq> Some (CHR ''k'' # (case key of Some k \<Rightarrow> k | None \<Rightarrow> []))" by (cases key) simp_all
  from other [OF this] other show ?thesis by blast
qed

lemma enqueueCommand_parts:
  assumes inv: "ledger_inv s" and run: "enqueueCommand v b args key nb s = Inr (x, s')"
  shows "effectRows s' = effectRows s" and "rpcResults s' = rpcResults s"
    and "Some k \<in> cIdempotencyKey ` set (commands s') \<Longrightarrow> key \<noteq> Some k \<Longrightarrow> Some k \<in> cIdempotencyKey ` set (commands s)"
    and "key = Some k \<Longrightarrow> \<exists>y. lookupSpec s k (Some (verb_text v)) = Inr y"
  using run
  by (auto simp: enqueueCommand_def bindM_Inr thenM_def audit_def split: option.splits
      dest!: requireLegacyKey_same effectLookup_same [OF inv] admitCommand_parts)

text \<open>Eviction keeps or removes all the rows of a key.\<close>

lemma find_row_filter_key:
  "find_row key (filter (\<lambda>r. P (key r)) rows) k = (if P k then find_row key rows k else None)"
  by (induction rows) (auto simp: find_row_def)

lemma find_row_evict:
  "find_row rxKey (evictResults n rs) k = Some r \<Longrightarrow> find_row rxKey rs k = Some r"
  using find_row_filter_key [of rxKey "\<lambda>x. x \<notin> rxKey ` set (take (length rs - n) (sort_key rxCreatedAt rs))" rs k]
  by (simp add: evictResults_def split: if_splits)

definition committed_row :: "effect_receipt \<Rightarrow> effect_row" where
  "committed_row v = \<lparr>efKey = ecKey v, efVerb = ecVerb v, efState = EfCommitted, efReceipt = Some v\<rparr>"

definition new_receipt :: "core \<Rightarrow> string \<Rightarrow> string \<Rightarrow> nat option \<Rightarrow> json \<Rightarrow> effect_receipt" where
  "new_receipt s k v c r = \<lparr>ecKey = k, ecVerb = v, ecCommandId = c, ecResult = r, ecCreatedAt = clock s\<rparr>"

definition new_result :: "core \<Rightarrow> string \<Rightarrow> string \<Rightarrow> nat option \<Rightarrow> json \<Rightarrow> rpc_result" where
  "new_result s k v c r = \<lparr>rxKey = k, rxVerb = v, rxCommandId = c, rxResult = r, rxCreatedAt = clock s\<rparr>"

lemma effectRecord_inv:
  assumes inv: "ledger_inv s" and run: "effectRecord v s = Inr (u, s')"
  shows "s' = (if ecVerb v \<in> set EFFECT_VERBS then s\<lparr>effectRows := effectRows s @ [committed_row v]\<rparr> else s)
    \<and> (ecVerb v \<in> set EFFECT_VERBS \<longrightarrow> keyState s (ecKey v) = KFree)"
  using run
  by (cases "keyState s (ecKey v)")
     (auto simp: effectRecord_def effectRaw_inv [OF inv] bindM_def committed_row_def split: if_splits)

lemma recordRpcResult_run:
  assumes inv: "ledger_inv s" and run: "recordRpcResult k v c r s = Inr ((), s')"
  shows "(\<exists>x. lookupSpec s k (Some v) = Inr x) \<and> rpcRow s k = None
    \<and> (v \<in> set EFFECT_VERBS \<longrightarrow> keyState s k = KFree)
    \<and> effectRows s' = effectRows s @ (if v \<in> set EFFECT_VERBS then [committed_row (new_receipt s k v c r)] else [])
    \<and> rpcResults s' = evictResults (maxRpcResults s) (rpcResults s @ [new_result s k v c r]) \<and> commands s' = commands s"
proof -
  obtain x s2 u s3 where look: "effectLookup k (Some v) s = Inr (x, s2)"
    and rec: "effectRecord (new_receipt s2 k v c r) s2 = Inr (u, s3)" and free: "rpcRow s3 k = None"
    and last: "s' = s3\<lparr>rpcResults := evictResults (maxRpcResults s3) (rpcResults s3 @ [new_result s2 k v c r])\<rparr>"
    using run unfolding recordRpcResult_def new_receipt_def new_result_def
    by (elim bindM_InrE) (drule requireLegacyKey_same, simp)
  from effectLookup_same [OF inv look] have same: "s2 = s" and spec: "lookupSpec s k (Some v) = Inr x" by auto
  note rec = rec [unfolded same] and s' = last [unfolded same]
  from effectRecord_inv [OF inv rec] spec free s' show ?thesis
    by (auto simp: new_receipt_def rpcRow_def split: if_splits)
qed

lemma keyState_free_row: "ledger_inv s \<Longrightarrow> keyState s k = KFree \<Longrightarrow> effectRow s k = None \<and> legacyEffect s k = None"
  using ledger_invD(1) [of s k]
  by (cases "effectRow s k"; cases "legacyEffect s k")
     (auto simp: keyState_def effect_row_ok_def split: if_splits option.splits effect_state.splits)

lemma keyState_fenced_row: "ledger_inv s \<Longrightarrow> effectRow s k = Some e \<Longrightarrow> efState e = EfFenced \<Longrightarrow> keyState s k = KFenced (efVerb e)"
  by (simp add: keyState_def)

lemma effectRow_append:
  "effectRows s' = effectRows s @ [r] \<Longrightarrow>
    effectRow s' k = (case effectRow s k of Some e \<Rightarrow> Some e | None \<Rightarrow> if efKey r = k then Some r else None)"
  by (auto simp: effectRow_def find_row_append split: option.splits)

lemma record_inv:
  assumes inv: "ledger_inv s" and run: "recordRpcResult k v c r s = Inr ((), s')"
  shows "ledger_inv s'" and "key_step (keyState s k') (keyState s' k')"
    and "v \<in> set EFFECT_VERBS \<Longrightarrow> keyState s' k = KDone (new_receipt s k v c r)"
proof -
  note R = recordRpcResult_run [OF inv run]
  have rpc: "rpcRow s' j = Some x \<Longrightarrow> rpcRow s j = Some x \<or> (j = k \<and> x = new_result s k v c r)" for j x
    using R find_row_evict [of "maxRpcResults s" "rpcResults s @ [new_result s k v c r]" j x]
    by (auto simp: rpcRow_def find_row_append new_result_def split: option.splits if_splits)
  have row: "effectRow s' j = (case effectRow s j of Some e \<Rightarrow> Some e
      | None \<Rightarrow> if v \<in> set EFFECT_VERBS \<and> j = k then Some (committed_row (new_receipt s k v c r)) else None)" for j
    using R effectRow_append [of s' s "committed_row (new_receipt s k v c r)" j]
    by (cases "effectRow s j") (auto simp: effectRow_def committed_row_def new_receipt_def)
  have unfenced: "effectRow s k = Some e \<Longrightarrow> efState e \<noteq> EfFenced" for e
    using R keyState_fenced_row [OF inv, of k e] by (auto simp: lookupSpec_def split: if_splits)
  show inv': "ledger_inv s'"
    unfolding ledger_inv_def
  proof (intro conjI allI impI)
    fix j e assume e: "effectRow s' j = Some e"
    show "effect_row_ok s' j e"
    proof (cases "effectRow s j")
      case None
      with e row [of j] show ?thesis
        by (auto simp: effect_row_ok_def committed_row_def new_receipt_def split: if_splits)
    next
      case (Some e')
      with e row [of j] have "e' = e" by simp
      with Some have old: "effectRow s j = Some e" by simp
      have "efState e = EfFenced \<Longrightarrow> rpcRow s' j = None"
        using ledger_invD(1) [OF inv old] rpc [of j] unfenced [of e] old
        by (cases "rpcRow s' j") (auto simp: effect_row_ok_def)
      with ledger_invD(1) [OF inv old] R show ?thesis
        by (auto simp: effect_row_ok_def no_command_def split: effect_state.splits)
    qed
  next
    fix j x assume leg: "legacyEffect s' j = Some x"
    then have x: "rpcRow s' j = Some x" "rxVerb x \<in> set EFFECT_VERBS"
      by (auto simp: legacyEffect_def split: option.splits if_splits)
    from rpc [OF x(1)] show "map_option efState (effectRow s' j) = Some EfCommitted"
    proof
      assume "rpcRow s j = Some x"
      with x have "legacyEffect s j = Some x" by (simp add: legacyEffect_def)
      from ledger_invD(2) [OF inv this] row [of j] show ?thesis by (auto split: option.splits)
    next
      assume new: "j = k \<and> x = new_result s k v c r"
      with x have "v \<in> set EFFECT_VERBS" by (simp add: new_result_def)
      with R keyState_free_row [OF inv, of k] row [of k] new show ?thesis by (simp add: committed_row_def)
    qed
  qed
  show done': "keyState s' k = KDone (new_receipt s k v c r)" if "v \<in> set EFFECT_VERBS"
    using that R keyState_free_row [OF inv, of k] row [of k] by (simp add: keyState_def committed_row_def)
  show "key_step (keyState s k') (keyState s' k')"
  proof (cases "effectRow s k'")
    case (Some e)
    with row [of k'] have "keyState s' k' = keyState s k'" by (simp add: keyState_def)
    then show ?thesis by (simp add: key_step.intros)
  next
    case None
    with ledger_invD(2) [OF inv, of k'] have leg: "legacyEffect s k' = None" by (cases "legacyEffect s k'") auto
    have "keyState s k' = KFree" using None leg by (simp add: keyState_def)
    moreover have "keyState s' k' = KFree \<or> (\<exists>x. keyState s' k' = KDone x)"
      by (auto simp: keyState_def row None committed_row_def split: option.splits)
    ultimately show ?thesis by (auto intro: key_step.intros)
  qed
qed

lemma resolveEffect_run:
  assumes inv: "ledger_inv s" and run: "resolveEffect k v inFlight s = Inr ((res, st), s')" and v: "v \<in> set EFFECT_VERBS"
  shows "(s' = s \<and> (res = ErNeverSeenFenced \<longrightarrow> keyState s k = KFenced v))
    \<or> (keyState s k = KFree \<and> effectCovered s k \<and> no_command s k \<and> rpcRow s k = None \<and> res = ErNeverSeenFenced
       \<and> s' = s\<lparr>effectRows := effectRows s @ [\<lparr>efKey = k, efVerb = v, efState = EfFenced, efReceipt = None\<rparr>]\<rparr>)"
proof -
  have none: "getCommandByIdempotencyKey s k = None \<Longrightarrow> no_command s k"
    by (auto simp: getCommandByIdempotencyKey_def find_None_iff no_command_def)
  have seen: "rpcRow s k = Some r \<Longrightarrow> rxVerb r = v \<Longrightarrow> legacyEffect s k = Some r" for r
    using v by (simp add: legacyEffect_def)
  show ?thesis
  proof (cases "keyState s k")
    case KFree
    then have "rpcRow s k = Some r \<Longrightarrow> rxVerb r \<noteq> v" for r
      using keyState_free_row [OF inv KFree] seen by fastforce
    with KFree run none show ?thesis
      by (cases "rpcRow s k") (auto simp: resolveEffect_def effectResolve_def effectRaw_inv [OF inv] bindM_Inr thenM_def split: if_splits)
  next
    case (KDone r)
    with run show ?thesis
      by (auto simp: resolveEffect_def effectResolve_def effectRaw_inv [OF inv] bindM_Inr split: if_splits)
  next
    case (KFenced v')
    with run show ?thesis
      by (auto simp: resolveEffect_def effectResolve_def effectRaw_inv [OF inv] bindM_Inr split: if_splits)
  qed
qed

lemma starts_with_append: "starts_with (p @ q) k \<Longrightarrow> starts_with p k"
proof -
  assume "starts_with (p @ q) k"
  then have "take (length p) (take (length (p @ q)) k) = p" by (simp add: starts_with_def)
  then show "starts_with p k" by (simp add: starts_with_def min_def)
qed

lemma covered_prefix: "effectCovered s k \<Longrightarrow> starts_with ''effect-v1:'' k"
  unfolding effectCovered_def covered_key_def Let_def by (blast dest: starts_with_append)

lemma resolve_inv:
  assumes inv: "ledger_inv s" and run: "resolveEffect k v inFlight s = Inr ((res, st), s')" and v: "v \<in> set EFFECT_VERBS"
  shows "ledger_inv s'" and "key_step (keyState s k') (keyState s' k')"
    and "res = ErNeverSeenFenced \<Longrightarrow> keyState s' k = KFenced v"
proof -
  let ?row = "\<lparr>efKey = k, efVerb = v, efState = EfFenced, efReceipt = None\<rparr>"
  from resolveEffect_run [OF inv run v]
  have "ledger_inv s' \<and> key_step (keyState s k') (keyState s' k') \<and> (res = ErNeverSeenFenced \<longrightarrow> keyState s' k = KFenced v)"
  proof (elim disjE)
    assume "s' = s \<and> (res = ErNeverSeenFenced \<longrightarrow> keyState s k = KFenced v)"
    then show ?thesis using inv by (simp add: key_step.intros)
  next
    assume "keyState s k = KFree \<and> effectCovered s k \<and> no_command s k \<and> rpcRow s k = None \<and> res = ErNeverSeenFenced
       \<and> s' = s\<lparr>effectRows := effectRows s @ [?row]\<rparr>"
    then have 2: "keyState s k = KFree" "effectCovered s k" "no_command s k" "rpcRow s k = None"
      "s' = s\<lparr>effectRows := effectRows s @ [?row]\<rparr>" by blast+
    have none: "effectRow s k = None" "legacyEffect s k = None" using keyState_free_row [OF inv 2(1)] by auto
    have row: "effectRow s' j = (if j = k then Some ?row else effectRow s j)" for j
      using 2(5) none effectRow_append [of s' s ?row j] by (auto split: option.splits)
    have same: "rpcRow s' j = rpcRow s j" "legacyEffect s' j = legacyEffect s j" "no_command s' j = no_command s j" for j
      using 2(5) by (simp_all add: rpcRow_def legacyEffect_def no_command_def)
    have "ledger_inv s'"
      unfolding ledger_inv_def
    proof (intro conjI allI impI)
      fix j e assume "effectRow s' j = Some e"
      with row [of j] 2 v same covered_prefix [of s k] show "effect_row_ok s' j e"
        using ledger_invD(1) [OF inv, of j e] by (auto simp: effect_row_ok_def split: if_splits effect_state.splits)
    next
      fix j x assume "legacyEffect s' j = Some x"
      with same none row [of j] ledger_invD(2) [OF inv, of j x] show "map_option efState (effectRow s' j) = Some EfCommitted"
        by (auto split: if_splits)
    qed
    moreover have "keyState s' k = KFenced v" using row [of k] by (simp add: keyState_def)
    moreover have "keyState s' j = keyState s j" if "j \<noteq> k" for j
      using that row [of j] same by (simp add: keyState_def split: option.split)
    ultimately show ?thesis using 2(1) by (cases "k' = k") (auto intro: key_step.intros)
  qed
  then show "ledger_inv s'" "key_step (keyState s k') (keyState s' k')"
    "res = ErNeverSeenFenced \<Longrightarrow> keyState s' k = KFenced v" by auto
qed

lemma update_inv:
  assumes inv: "ledger_inv s" and run: "updateRpcResult k r s = Inr ((), s')"
  shows "ledger_inv s' \<and> key_step (keyState s k') (keyState s' k')"
proof -
  have s': "s' = s\<lparr>rpcResults := update_rows (\<lambda>x. rxKey x = k) (\<lambda>x. x\<lparr>rxResult := r\<rparr>) (rpcResults s)\<rparr>"
    using run by (auto simp: updateRpcResult_def bindM_Inr)
  have rows: "find_row rxKey (update_rows (\<lambda>x. rxKey x = k) (\<lambda>x. x\<lparr>rxResult := r\<rparr>) rs) j =
      map_option (\<lambda>x. if j = k then x\<lparr>rxResult := r\<rparr> else x) (find_row rxKey rs j)" for rs j
    by (induction rs) (auto simp: update_rows_def find_row_def)
  have rpc: "rpcRow s' j = map_option (\<lambda>x. if j = k then x\<lparr>rxResult := r\<rparr> else x) (rpcRow s j)" for j
    by (simp add: rpcRow_def s' rows)
  have leg: "(legacyEffect s' j = None) = (legacyEffect s j = None)" for j
    by (cases "rpcRow s j") (auto simp: legacyEffect_def rpc)
  have row: "effectRow s' j = effectRow s j" "no_command s' j = no_command s j" for j
    by (simp_all add: effectRow_def no_command_def s')
  have "ledger_inv s'"
    unfolding ledger_inv_def
  proof (intro conjI allI impI)
    fix j e assume "effectRow s' j = Some e"
    with row rpc [of j] ledger_invD(1) [OF inv, of j e] show "effect_row_ok s' j e"
      by (auto simp: effect_row_ok_def split: effect_state.splits)
  next
    fix j x assume "legacyEffect s' j = Some x"
    with leg [of j] obtain y where "legacyEffect s j = Some y" by (cases "legacyEffect s j") auto
    from ledger_invD(2) [OF inv this] row show "map_option efState (effectRow s' j) = Some EfCommitted" by simp
  qed
  moreover have "keyState s' k' = keyState s k'"
  proof (cases "effectRow s k'")
    case None
    with ledger_invD(2) [OF inv, of k'] have "legacyEffect s k' = None" by (cases "legacyEffect s k'") auto
    with None leg [of k'] row show ?thesis by (simp add: keyState_def)
  next
    case (Some e)
    with row show ?thesis by (simp add: keyState_def)
  qed
  ultimately show ?thesis by (simp add: key_step.intros)
qed

lemma command_inv:
  assumes inv: "ledger_inv s" and run: "enqueueCommand v b args key nb s = Inr (x, s')"
  shows "ledger_inv s' \<and> keyState s' k' = keyState s k'"
proof -
  note P = enqueueCommand_parts [OF inv run]
  have "efState e \<noteq> EfFenced" if "key = Some k" "effectRow s k = Some e" for k e
    using P(4) [OF that(1)] keyState_fenced_row [OF inv that(2)] by (auto simp: lookupSpec_def split: if_splits)
  then have "ledger_inv s'"
    using P(3) by (intro ledger_inv_other [OF inv P(1) P(2)]) blast
  then show ?thesis using keyState_same [OF P(1) P(2)] by simp
qed

lemma lookup_same: "ledger_inv s \<Longrightarrow> lookupRpcResult k s = Inr (x, s') \<Longrightarrow> s' = s"
  by (auto simp: lookupRpcResult_def bindM_Inr split: option.splits dest!: effectLookup_same)

lemma reopen_parts:
  "openEffects s = Inr ((), s') \<Longrightarrow> effectRows s' = effectRows s \<and> rpcResults s' = rpcResults s \<and> commands s' = commands s"
  by (auto simp: openEffects_def bindM_Inr randomUUID_def thenM_def split: if_splits)

lemma ledger_step_inv:
  assumes step: "ledger_step s s'" and inv: "ledger_inv s"
  shows "ledger_inv s' \<and> key_step (keyState s k) (keyState s' k)"
  using step
proof cases
  case (LsRecord j v c r)
  with record_inv(1,2) [OF inv] show ?thesis by blast
next
  case (LsLookup j x)
  with lookup_same [OF inv] inv show ?thesis by (auto intro: key_step.intros)
next
  case (LsResolve j v fl x)
  then show ?thesis using resolve_inv(1,2) [OF inv] by (cases x) blast
next
  case (LsUpdate j r)
  with update_inv [OF inv] show ?thesis by blast
next
  case (LsCommand v b args key nb x)
  with command_inv [OF inv] show ?thesis by (auto intro: key_step.intros)
next
  case LsReopen
  from reopen_parts [OF this] have same: "effectRows s' = effectRows s" "rpcResults s' = rpcResults s" "commands s' = commands s" by auto
  with ledger_inv_other [OF inv, of s'] keyState_same [of s' s k] show ?thesis by (auto intro: key_step.intros)
next
  case LsOther
  with ledger_inv_other [OF inv, of s'] keyState_same [of s' s k] show ?thesis by (auto intro: key_step.intros)
qed

lemma ledger_reachable_inv: "ledger_reachable s \<Longrightarrow> ledger_inv s"
  by (induction rule: ledger_reachable.induct)
     (auto simp: ledger_inv_def effectRow_def legacyEffect_def rpcRow_def find_row_def dest: ledger_step_inv)

lemma ledger_steps_inv:
  assumes "ledger_step\<^sup>*\<^sup>* s s'" and "ledger_inv s"
  shows "ledger_inv s' \<and> (\<forall>v. keyState s k = KDone v \<longrightarrow> keyState s' k = KDone v)
    \<and> (\<forall>v. keyState s k = KFenced v \<longrightarrow> keyState s' k = KFenced v)"
  using assms
proof (induction rule: rtranclp_induct)
  case base
  then show ?case by simp
next
  case (step s1 s2)
  then have inv: "ledger_inv s1" by blast
  from ledger_step_inv [OF step.hyps(2) inv, of k] step show ?case
    by (auto elim: key_step_done key_step_fenced)
qed

section \<open>Properties\<close>

text \<open>
  C19. The ledger refines a write-once map. In a store reached by any operations, what a lookup of a key
  answers is a function of the abstract state of the key, the lookup changes nothing, and a step of the
  store changes the abstract state of a key only from free to done or to fenced.
\<close>

theorem ledger_refines:
  assumes "ledger_reachable s"
  shows "(\<forall>k verb. effectLookup k verb s = (case lookupSpec s k verb of Inl e \<Rightarrow> Inl e | Inr x \<Rightarrow> Inr (x, s)))
    \<and> (\<forall>k. \<forall>s' \<in> Collect (ledger_step s). key_step (keyState s k) (keyState s' k))"
  using effectLookup_inv ledger_step_inv ledger_reachable_inv [OF assms] by auto

text \<open>
  C20. A fence holds. When the owner has answered that a key was never seen and is fenced, then whatever
  happens later no command carries the key, no result is recorded under it, and neither a command nor a
  result with it is accepted.
\<close>

theorem fenced_never_runs:
  assumes "ledger_reachable s" and "v \<in> set EFFECT_VERBS"
    and "resolveEffect k v inFlight s = Inr ((ErNeverSeenFenced, st), s1)" and "ledger_step\<^sup>*\<^sup>* s1 s2"
  shows "Some k \<notin> cIdempotencyKey ` set (commands s2) \<and> rpcRow s2 k = None
    \<and> (\<forall>v' c r x. recordRpcResult k v' c r s2 \<noteq> Inr x) \<and> (\<forall>v' b a n x. enqueueCommand v' b a (Some k) n s2 \<noteq> Inr x)"
proof -
  note inv = ledger_reachable_inv [OF assms(1)]
  from resolve_inv [OF inv assms(3,2)] have s1: "ledger_inv s1" "keyState s1 k = KFenced v" by auto
  with ledger_steps_inv [OF assms(4), of k] have s2: "ledger_inv s2" "keyState s2 k = KFenced v" by auto
  then obtain e where e: "effectRow s2 k = Some e" "efState e = EfFenced"
    by (auto simp: keyState_def split: option.splits if_splits)
  have look: "lookupSpec s2 k w \<noteq> Inr y" for w y using s2(2) by (simp add: lookupSpec_def)
  have "recordRpcResult k v' c r s2 \<noteq> Inr x" for v' c r x
    using recordRpcResult_run [OF s2(1), of k v' c r] look by (cases x) auto
  moreover have "enqueueCommand v' b a (Some k) n s2 \<noteq> Inr x" for v' b a n x
    using enqueueCommand_parts(4) [OF s2(1), of v' b a "Some k" n _ _ k] look by (cases x) blast
  ultimately show ?thesis
    using ledger_invD(1) [OF s2(1) e(1)] e(2) by (simp add: effect_row_ok_def no_command_def)
qed


section \<open>The bound of the recorded results\<close>

lemma frames_effectRecord [frame]: "(\<And>s g. f (effectRows_update g s) = f s) \<Longrightarrow> frames f (effectRecord v)"
  unfolding effectRecord_def by (intro frame) simp_all

lemma recordRpcResult_results:
  assumes "recordRpcResult k v c r s = Inr ((), s')"
  shows "rpcRow s k = None" and "maxRpcResults s' = maxRpcResults s"
    and "rpcResults s' = evictResults (maxRpcResults s) (rpcResults s @ [new_result s k v c r])"
proof -
  let ?part = "\<lambda>s. (rpcResults s, maxRpcResults s, clock s)"
  have look: "effectLookup k (Some v) s0 = Inr (x, s1) \<Longrightarrow> ?part s1 = ?part s0" for s0 x s1
    using framesD [OF frames_effectLookup [of ?part k "Some v"], of s0 x s1] by simp
  have rec: "effectRecord w s0 = Inr (x, s1) \<Longrightarrow> ?part s1 = ?part s0" for w s0 x s1
    using framesD [OF frames_effectRecord [of ?part w], of s0 x s1] by simp
  show "rpcRow s k = None" "maxRpcResults s' = maxRpcResults s"
    "rpcResults s' = evictResults (maxRpcResults s) (rpcResults s @ [new_result s k v c r])"
    using assms unfolding recordRpcResult_def new_result_def
    by (auto simp: bindM_Inr rpcRow_def dest!: requireLegacyKey_same look rec)
qed

lemma evictResults_spec:
  assumes keys: "distinct (map rxKey rs)"
  shows "length (evictResults n rs) = min (length rs) n"
    and "x \<in> set rs \<Longrightarrow> x \<notin> set (evictResults n rs) \<Longrightarrow> y \<in> set (evictResults n rs) \<Longrightarrow> rxCreatedAt x \<le> rxCreatedAt y"
proof -
  let ?ys = "sort_key rxCreatedAt rs" and ?m = "length rs - n"
  have inj: "inj_on rxKey (set rs)" and dist: "distinct rs" using keys by (auto simp: distinct_map)
  have dys: "distinct ?ys" using dist by simp
  have split: "set ?ys = set (take ?m ?ys) \<union> set (drop ?m ?ys)" by (metis append_take_drop_id set_append)
  have disj: "set (take ?m ?ys) \<inter> set (drop ?m ?ys) = {}"
    using dys by (metis append_take_drop_id distinct_append)
  have set_rs: "set rs = set (take ?m ?ys) \<union> set (drop ?m ?ys)" using split by simp
  have gone: "rxKey x \<in> rxKey ` set (take ?m ?ys) \<longleftrightarrow> x \<in> set (take ?m ?ys)" if "x \<in> set rs" for x
    by (rule inj_on_image_mem_iff [OF inj that]) (use set_rs in blast)
  have kept: "set (evictResults n rs) = set (drop ?m ?ys)"
  proof -
    have "set (evictResults n rs) = {x \<in> set rs. x \<notin> set (take ?m ?ys)}"
      using gone by (auto simp: evictResults_def)
    then show ?thesis using set_rs disj by blast
  qed
  have "distinct (evictResults n rs)" using dist by (simp add: evictResults_def Let_def)
  then have "length (evictResults n rs) = card (set (drop ?m ?ys))" using kept distinct_card by fastforce
  also have "\<dots> = length (drop ?m ?ys)" by (rule distinct_card) (rule distinct_drop [OF dys])
  finally show "length (evictResults n rs) = min (length rs) n" by (simp add: min_def)
  assume x: "x \<in> set rs" "x \<notin> set (evictResults n rs)" and y: "y \<in> set (evictResults n rs)"
  have "x \<in> set (take ?m ?ys)" "y \<in> set (drop ?m ?ys)" using x y kept set_rs by auto
  moreover have "sorted (map rxCreatedAt (take ?m ?ys @ drop ?m ?ys))" by simp
  ultimately show "rxCreatedAt x \<le> rxCreatedAt y" by (simp only: map_append sorted_append set_map) blast
qed

text \<open>
  C22. The table of recorded results is bounded, and what goes is what is oldest. Recording a result leaves
  at most the configured number of rows, one per key, all of them rows of before or the new one, and every
  row that was dropped is no newer than every row that stays.
\<close>

theorem recordRpcResult_bound:
  assumes "recordRpcResult k v c r s = Inr ((), s')" and "distinct (map rxKey (rpcResults s))"
  shows "length (rpcResults s') = min (Suc (length (rpcResults s))) (maxRpcResults s)
    \<and> distinct (map rxKey (rpcResults s')) \<and> set (rpcResults s') \<subseteq> insert (new_result s k v c r) (set (rpcResults s))
    \<and> (\<forall>y \<in> set (rpcResults s'). \<forall>x \<in> insert (new_result s k v c r) (set (rpcResults s)) - set (rpcResults s').
         rxCreatedAt x \<le> rxCreatedAt y)"
proof -
  let ?rs = "rpcResults s @ [new_result s k v c r]"
  note R = recordRpcResult_results [OF assms(1)]
  have keys: "distinct (map rxKey ?rs)"
    using assms(2) R(1) by (auto simp: rpcRow_def find_row_None new_result_def image_iff)
  have "distinct (map rxKey (rpcResults s'))" "set (rpcResults s') \<subseteq> set ?rs"
    using keys by (auto simp: R(3) evictResults_def Let_def intro: distinct_map_filter)
  then show ?thesis
    using evictResults_spec [OF keys, where n = "maxRpcResults s"] by (auto simp: R(3))
qed

section \<open>The properties at work\<close>

definition sampleKey :: string where
  "sampleKey = ''effect-v1:coverage:k1''"

definition archiveResult :: json where
  "archiveResult = JObj [(''commandId'', JNum 7)]"

lemma sample_ledger_reachable: "ledger_reachable (sampleCore [])"
  by (rule LrInit) (simp_all add: sampleCore_def)

lemma sample_covered: "effectCovered (sampleCore []) sampleKey"
  by (simp add: effectCovered_def covered_key_def sampleKey_def sampleCore_def starts_with_def is_token_char_def)

lemma sample_effectRaw: "effectRaw sampleKey (sampleCore []) = Inr (None, sampleCore [])"
  by (simp add: effectRaw_def effectRow_def legacyEffect_def rpcRow_def sampleCore_def sampleKey_def requireM_def)

theorem ledger_refines_witness:
  "effectLookup sampleKey None (sampleCore []) = Inr (None, sampleCore [])"
proof -
  have "keyState (sampleCore []) sampleKey = KFree"
    by (simp add: keyState_def effectRow_def legacyEffect_def rpcRow_def sampleCore_def)
  then have "lookupSpec (sampleCore []) sampleKey None = Inr None"
    using sample_covered by (simp add: lookupSpec_def sampleKey_def)
  with ledger_refines [OF sample_ledger_reachable] show ?thesis by simp
qed

theorem fenced_never_runs_witness:
  "\<exists>s1. resolveEffect sampleKey ''send'' False (sampleCore []) = Inr ((ErNeverSeenFenced, None), s1)
    \<and> (\<forall>args n x. enqueueCommand VSendWake ''bee1'' args (Some sampleKey) n s1 \<noteq> Inr x)"
proof -
  let ?s1 = "(sampleCore [])\<lparr>effectRows := [\<lparr>efKey = sampleKey, efVerb = ''send'', efState = EfFenced, efReceipt = None\<rparr>]\<rparr>"
  have run: "resolveEffect sampleKey ''send'' False (sampleCore []) = Inr ((ErNeverSeenFenced, None), ?s1)"
    using sample_effectRaw sample_covered
    by (simp add: resolveEffect_def effectResolve_def bindM_def thenM_def requireM_def rpcRow_def
        getCommandByIdempotencyKey_def sampleCore_def)
  have "''send'' \<in> set EFFECT_VERBS" by (simp add: EFFECT_VERBS_def)
  from fenced_never_runs [OF sample_ledger_reachable this run rtranclp.rtrancl_refl] run show ?thesis by blast
qed

lemma sample_record:
  "\<exists>s1. recordRpcResult sampleKey ''archive'' (Some 7) archiveResult (sampleCore []) = Inr ((), s1)"
  using sample_effectRaw sample_covered
  by (simp add: recordRpcResult_def requireLegacyKey_def assertLegacyKey_def fencedKey_def effectLookup_def
      effectRecord_def bindM_def requireM_def whenM_def rpcRow_def EFFECT_VERBS_def sampleCore_def)


theorem recordRpcResult_bound_witness:
  "\<exists>s1. recordRpcResult sampleKey ''archive'' (Some 7) archiveResult (sampleCore []) = Inr ((), s1)
    \<and> length (rpcResults s1) = 1"
proof -
  obtain s1 where run: "recordRpcResult sampleKey ''archive'' (Some 7) archiveResult (sampleCore []) = Inr ((), s1)"
    using sample_record by blast
  have "distinct (map rxKey (rpcResults (sampleCore [])))" by (simp add: sampleCore_def)
  from recordRpcResult_bound [OF run this] run show ?thesis by (auto simp: sampleCore_def)
qed

end
