(* ===== verification/Fenced_Samples.thy ===== *)
theory Fenced_Samples
  imports Fenced_Claims Effect_Ledger
begin

text \<open>
  The properties of fenced executions at a concrete store: a coordinator installs a claim, a request under
  it runs once, a start under it is dispatched once, and a second claim makes the first one stale.
\<close>

section \<open>A claim and its installation\<close>

abbreviation sampleHash :: string where
  "sampleHash \<equiv> replicate 64 (CHR ''a'')"

definition sampleDigest :: string where
  "sampleDigest = ''sha256:'' @ sampleHash"

definition sampleClaim :: "exec_verb \<Rightarrow> nat \<Rightarrow> exec_claim" where
  "sampleClaim v n =
     \<lparr>xcIssuer = ''iss'', xcContinuation = ''cont'', xcGeneration = n, xcClaimId = ''claim'', xcGrantDigest = sampleDigest,
      xcOwnerStore = ''owner'', xcCoverage = ''coverage'', xcVerb = v, xcBeeId = ''bee1'',
      xcRequestDigest = sampleDigest, xcKey = sampleKey\<rparr>"

lemma sampleClaim_simps [simp]:
  "xcIssuer (sampleClaim v n) = ''iss''" "xcContinuation (sampleClaim v n) = ''cont''" "xcGeneration (sampleClaim v n) = n"
  "xcOwnerStore (sampleClaim v n) = ''owner''" "xcCoverage (sampleClaim v n) = ''coverage''" "xcVerb (sampleClaim v n) = v"
  "xcBeeId (sampleClaim v n) = ''bee1''" "xcKey (sampleClaim v n) = sampleKey"
  "xcRequestDigest (sampleClaim v n) = sampleDigest"
  "sampleClaim v n = sampleClaim w m \<longleftrightarrow> v = w \<and> n = m"
  by (simp_all add: sampleClaim_def conj_commute)

lemma sample_sha: "is_sha256 sampleDigest"
  unfolding sampleDigest_def by code_simp

text \<open>A text that starts and ends with visible ASCII has nothing to trim.\<close>

definition visible :: "char \<Rightarrow> bool" where
  "visible c \<longleftrightarrow> (let n = of_char c :: nat in 33 \<le> n \<and> n \<le> 126)"

lemma white_not_visible: "\<forall>p \<in> set js_white. p \<noteq> [] \<and> \<not> visible (hd p) \<and> \<not> visible (last p)"
  by (auto simp: js_white_def visible_def Let_def)

lemma white_prefix_visible:
  assumes "\<forall>p \<in> set ws. p \<noteq> [] \<and> \<not> visible (hd p)" and "x \<noteq> []" and "visible (hd x)"
  shows "white_prefix ws x = 0"
proof -
  have "\<not> starts_with p x" if "p \<in> set ws" for p
    using assms that by (cases x; cases p) (auto simp: starts_with_def)
  then have "List.find (\<lambda>p. starts_with p x) ws = None" by (simp add: find_None_iff)
  then show ?thesis by (simp add: white_prefix_def)
qed

lemma fence_okI:
  assumes "x \<noteq> []" and "visible (hd x)" and "visible (last x)" and "utf16_length x \<le> 1024"
  shows "fence_ok x"
proof -
  have front: "trim_front js_white x n = x" for n
    using white_prefix_visible [of js_white x] white_not_visible assms by (cases n) simp_all
  have rear: "trim_front (map rev js_white) (rev x) n = rev x" for n
    using white_prefix_visible [of "map rev js_white" "rev x"] white_not_visible assms
    by (cases n) (simp_all add: hd_rev)
  have "js_trim x = x" by (simp add: js_trim_def front rear)
  with assms show ?thesis by (simp add: fence_ok_def)
qed

lemma sample_fence: "fence_ok ''iss''" "fence_ok ''cont''" "fence_ok ''claim''" "fence_ok ''owner''" "fence_ok ''coverage''"
  "fence_ok ''bee1''" "fence_ok sampleKey" "fence_ok ''t1''" "fence_ok ''t2''"
  by (rule fence_okI; simp add: sampleKey_def visible_def utf16_length_def)+

lemma sample_wf: "n \<in> {1, 2} \<Longrightarrow> wf_claim (sampleClaim v n)"
  using sample_sha sample_fence by (auto simp: wf_claim_def sampleClaim_def MAX_SAFE_INTEGER_def)

definition casJson :: "string \<Rightarrow> json \<Rightarrow> exec_claim \<Rightarrow> json" where
  "casJson i expected c = JObj [(''transitionId'', JStr i), (''expectedClaim'', expected), (''claim'', claim_json c)]"

definition fenceCore :: core where
  "fenceCore = (sampleCore [])\<lparr>execCoordinators := [(''iss'', 501)]\<rparr>"

lemma fenceCore_simps [simp]:
  "execCoordinators fenceCore = [(''iss'', 501)]" "execTransitions fenceCore = []" "ownerStoreId fenceCore = ''owner''"
  "coverageId fenceCore = ''coverage''"
  by (simp_all add: fenceCore_def sampleCore_def)

definition installed :: "exec_verb \<Rightarrow> core" where
  "installed v = fenceCore\<lparr>execClaims := [sampleClaim v 1],
     execTransitions := [\<lparr>xtIssuer = ''iss'', xtTransition = ''t1'', xtRequest = casJson ''t1'' JNull (sampleClaim v 1), xtClaim = sampleClaim v 1\<rparr>],
     auditLog := [EvExec (XvClaimAdvanced ''t1'' (sampleClaim v 1))]\<rparr>"

lemma closed_cas: "closedObject (casJson i x c) [''transitionId'', ''expectedClaim'', ''claim''] =
    returnM [(''transitionId'', JStr i), (''expectedClaim'', x), (''claim'', claim_json c)]"
  by (simp add: closedObject_def casJson_def)

lemma sample_key_covered: "covered_key ''coverage'' sampleKey"
  by code_simp

lemma install_sample: "compareAndSet (casJson ''t1'' JNull (sampleClaim v 1)) 501 fenceCore = Inr (sampleClaim v 1, installed v)"
proof -
  have tid: "fence_text (Some (JStr ''t1'')) = Some ''t1''" using sample_fence by (simp add: fence_text_Some)
  have claim: "executionClaim (claim_json (sampleClaim v 1)) s = Inr (sampleClaim v 1, s)" for s
    by (rule claim_json_run) (simp add: sample_wf)
  have install: "installClaim ''t1'' p (sampleClaim v 1) None fenceCore = Inr (sampleClaim v 1, fenceCore\<lparr>execClaims := [sampleClaim v 1],
     execTransitions := [\<lparr>xtIssuer = ''iss'', xtTransition = ''t1'', xtRequest = p, xtClaim = sampleClaim v 1\<rparr>],
     auditLog := [EvExec (XvClaimAdvanced ''t1'' (sampleClaim v 1))]\<rparr>)" for p
    using sample_key_covered
    by (simp add: installClaim_def currentClaim_def fenceCore_def sampleCore_def nextGeneration_def audit_def
        bindM_def requireM_def upsert_row_def del: One_nat_def)
  show ?thesis
    by (simp add: compareAndSet_def closed_cas tid claim install orInvalid_Some requireCoordinator_def claimCovered_def
        bindM_def requireM_def installed_def del: One_nat_def)
qed

lemma fence_reachable: "exec_reachable fenceCore"
  by (rule ErInit) (simp add: fenceCore_def sampleCore_def ledger_part_def)

lemma installed_reachable: "exec_reachable (installed v)"
  by (rule ErStep [OF fence_reachable EsAdvance [OF install_sample]])

lemma installed_simps [simp]:
  "execClaims (installed v) = [sampleClaim v 1]" "execEffects (installed v) = []" "execStarts (installed v) = []"
  "execStartOps (installed v) = []" "execRefusals (installed v) = []" "execCoordinators (installed v) = [(''iss'', 501)]"
  "ownerStoreId (installed v) = ''owner''" "coverageId (installed v) = ''coverage''"
  by (simp_all add: installed_def fenceCore_def sampleCore_def)

lemma installed_current: "currentClaim (installed v) (sampleClaim w n) = Some (sampleClaim v 1)"
  by (simp add: currentClaim_def)

theorem claims_in_generations_witness:
  "exec_reachable (installed XvSend) \<and> map xcGeneration (claim_history (installed XvSend) ''iss'' ''cont'') = [1]"
proof -
  have "claim_history (installed XvSend) ''iss'' ''cont'' = [sampleClaim XvSend 1]"
    by (simp add: claim_history_def installed_def)
  with claims_in_generations [OF installed_reachable, of XvSend "''iss''" "''cont''"] show ?thesis
    by (simp add: installed_reachable)
qed

theorem advance_settles_witness:
  "exec_reachable fenceCore \<and> compareAndSet (casJson ''t1'' JNull (sampleClaim XvSend 1)) 501 fenceCore = Inr (sampleClaim XvSend 1, installed XvSend)
   \<and> currentClaim (installed XvSend) (sampleClaim XvSend 1) = Some (sampleClaim XvSend 1)"
proof -
  have "sampleClaim XvSend 1 \<notin> xtClaim ` set (execTransitions fenceCore)" by (simp add: fenceCore_def sampleCore_def)
  with advance_settles [OF fence_reachable install_sample] show ?thesis
    using fence_reachable install_sample by blast
qed


section \<open>Requests\<close>

abbreviation sampleSha :: "string \<Rightarrow> string" where
  "sampleSha \<equiv> \<lambda>_. sampleHash"

definition sendArgs :: jobject where
  "sendArgs = [(''beeId'', JStr ''bee1''), (''body'', JStr ''go'')]"

text \<open>A send under the claim of generation n.\<close>

definition sendJson :: "nat \<Rightarrow> json" where
  "sendJson n = JObj [(''verb'', JStr ''send''), (''resource'', JObj [(''beeId'', JStr ''bee1'')]), (''digestVersion'', JNum 1),
     (''requestDigest'', JStr sampleDigest), (''idempotencyKey'', JStr sampleKey),
     (''executionFence'', JObj [(''version'', JNum 1), (''issuerId'', JStr ''iss''), (''continuationId'', JStr ''cont''),
        (''generation'', JNum (int n)), (''claimId'', JStr ''claim''), (''grantDigest'', JStr sampleDigest),
        (''ownerStoreId'', JStr ''owner''), (''coverageId'', JStr ''coverage'')]),
     (''args'', JObj sendArgs)]"

definition sendRequest :: "nat \<Rightarrow> exec_request" where
  "sendRequest n = \<lparr>xqClaim = sampleClaim XvSend n, xqArgs = sendArgs\<rparr>"

lemma send_request:
  assumes "n \<in> {1, 2}"
  shows "executionRequest sampleSha (sendJson n) s = Inr (sendRequest n, s)"
proof -
  let ?row = "case sendJson n of JObj row \<Rightarrow> row"
  have closed: "closedObject (sendJson n) (BINDING_KEYS @ [''executionFence'', ''args'']) = returnM ?row"
    by (simp add: closedObject_def sendJson_def BINDING_KEYS_def)
  have b: "executionBinding ?row s = Inr (\<lparr>xbVerb = XvSend, xbBeeId = ''bee1'', xbRequestDigest = sampleDigest, xbKey = sampleKey\<rparr>, s)"
    using sample_fence sample_sha by (intro binding_json) (simp_all add: sendJson_def exec_verb_text_def)
  have matches: "requestMatches \<lparr>xbVerb = XvSend, xbBeeId = ''bee1'', xbRequestDigest = sampleDigest, xbKey = sampleKey\<rparr> sendArgs"
    by (simp add: requestMatches_def sendArgs_def requestArgs_def)
  have data: "canonical_data (JObj sendArgs)" by (simp add: sendArgs_def)
  have digest: "executionRequestDigest sampleSha v bee args = sampleDigest" for v bee args
    by (simp add: executionRequestDigest_def canonicalDigest_def sampleDigest_def)
  have t: "executionToken (the (map_of ?row ''executionFence'')) s = Inr (\<lparr>xkIssuer = ''iss'', xkContinuation = ''cont'', xkGeneration = n,
      xkClaimId = ''claim'', xkGrantDigest = sampleDigest, xkOwnerStore = ''owner'', xkCoverage = ''coverage''\<rparr>, s)"
    using sample_fence sample_sha assms
      token_json [of "''iss''" "''cont''" n "''claim''" "sampleDigest" "''owner''" "''coverage''" s]
    by (auto simp: sendJson_def MAX_SAFE_INTEGER_def)
  have args: "map_of ?row ''args'' = Some (JObj sendArgs)" by (simp add: sendJson_def)
  show ?thesis
    by (simp add: executionRequest_def closed bindM_def b args matches data digest t requireM_def claimOf_def sendRequest_def
        sampleClaim_def del: canonical_data.simps)
qed

theorem stale_request_refused_witness:
  "fst (executeWithFence sampleSha (sendJson 2) 501 (\<lambda>q. returnM (None, JNull)) (installed XvSend))
   = Inl (ExecutionFenceError XcStale)"
proof -
  have "executionRequest sampleSha (sendJson 2) (installed XvSend) = Inr (sendRequest 2, installed XvSend)"
    by (rule send_request) simp
  from stale_request_refused [OF this, of 501 "\<lambda>q. returnM (None, JNull)"] show ?thesis
    by (simp add: sendRequest_def claimCovered_def installed_current Let_def)
qed


definition sendResult :: json where
  "sendResult = JObj [(''messageId'', JNum 1), (''commandId'', JNull), (''unarchived'', JBool False)]"

definition sendEffect :: fenced_effect where
  "sendEffect q = returnM (None, sendResult)"

definition sendReceipt :: exec_receipt where
  "sendReceipt = \<lparr>xrClaim = sampleClaim XvSend 1, xrStatus = XsCompleted, xrCommandId = None, xrResult = sendResult\<rparr>"

lemma send_runs: "\<exists>s1. executeWithFence sampleSha (sendJson 1) 501 sendEffect (installed XvSend) = (Inr sendReceipt, s1)
    \<and> execCoordinators s1 = [(''iss'', 501)]"
proof -
  let ?s = "installed XvSend"
  have q: "executionRequest sampleSha (sendJson 1) ?s = Inr (sendRequest 1, ?s)" by (rule send_request) simp
  have fields: "xqClaim (sendRequest 1) = sampleClaim XvSend 1" by (simp add: sendRequest_def)
  have prep: "tryPrepare (sampleClaim XvSend 1) ?s = Inr (AdFresh, ?s)"
    by (simp add: tryPrepare_def prepareExecution_def execRow_def claimCovered_def installed_current bindM_def requireM_def
        find_row_def del: One_nat_def)
  have cov: "effectCovered (installed XvSend) sampleKey" using sample_key_covered by (simp add: effectCovered_def)
  have rows: "effectRow ?s sampleKey = None" "legacyEffect ?s sampleKey = None" "rpcRow ?s sampleKey = None"
    "getCommandByIdempotencyKey ?s sampleKey = None"
    by (simp_all add: installed_def fenceCore_def sampleCore_def effectRow_def legacyEffect_def rpcRow_def
        getCommandByIdempotencyKey_def find_row_def)
  have key: "sampleKey \<noteq> []" by (simp add: sampleKey_def)
  have raw: "effectRaw sampleKey ?s = Inr (None, ?s)"
    using rows key by (simp add: effectRaw_def bindM_def requireM_def)
  have unbound: "unboundKey sampleKey ?s = Inr ((), ?s)"
    using rows raw cov
    by (simp add: unboundKey_def lookupRpcResult_def effectLookup_def bindM_def requireM_def)
  have run: "\<exists>s1. runFenced (sendRequest 1) sendEffect ?s = Inr (sendReceipt, s1) \<and> execCoordinators s1 = [(''iss'', 501)]"
  proof -
    let ?k = "?s\<lparr>executionKey := Some sampleKey\<rparr>"
    have rows': "effectRow ?k sampleKey = None" "legacyEffect ?k sampleKey = None" "rpcRow ?k sampleKey = None" "effectCovered ?k sampleKey"
      using rows cov by (simp_all add: effectRow_def legacyEffect_def rpcRow_def effectCovered_def)
    have raw': "effectRaw sampleKey ?k = Inr (None, ?k)"
      using rows' key by (simp add: effectRaw_def bindM_def requireM_def)
    have "\<exists>s1. recordRpcResult sampleKey ''send'' None sendResult ?k = Inr ((), s1) \<and> execCoordinators s1 = [(''iss'', 501)]
        \<and> execEffects s1 = []"
      using raw' rows'
      by (simp add: recordRpcResult_def requireLegacyKey_def whenM_def effectLookup_def effectRecord_def EFFECT_VERBS_def
          rpcRow_def bindM_def requireM_def)
    then obtain s1 where "recordRpcResult sampleKey ''send'' None sendResult ?k = Inr ((), s1)"
      "execCoordinators s1 = [(''iss'', 501)]" "execEffects s1 = []" by blast
    then show ?thesis
      by (simp add: runFenced_def withExecutionKey_def fields sendEffect_def exec_verb_text_def bindM_def requireM_def
          recordExecution_def sendReceipt_def audit_def Let_def del: One_nat_def)
  qed
  from run obtain s1 where "runFenced (sendRequest 1) sendEffect ?s = Inr (sendReceipt, s1)" "execCoordinators s1 = [(''iss'', 501)]" by blast
  then have "fencedTx (sendRequest 1) 501 sendEffect ?s = Inr (Inr sendReceipt, s1)"
    by (simp add: fencedTx_def fields prep unbound requireCoordinator_def bindM_def requireM_def del: One_nat_def)
  with \<open>execCoordinators s1 = _\<close> show ?thesis
    by (simp add: executeWithFence_def q fields del: One_nat_def)
qed

theorem request_runs_once_witness:
  "\<exists>s1. executeWithFence sampleSha (sendJson 1) 501 sendEffect (installed XvSend) = (Inr sendReceipt, s1)
    \<and> executeWithFence sampleSha (sendJson 1) 501 (\<lambda>q. throwM (JsError ''Error'')) s1 = (Inr sendReceipt, s1)"
proof -
  obtain s1 where run: "executeWithFence sampleSha (sendJson 1) 501 sendEffect (installed XvSend) = (Inr sendReceipt, s1)"
    and coord: "execCoordinators s1 = [(''iss'', 501)]" using send_runs by blast
  have q: "executionRequest sampleSha (sendJson 1) (installed XvSend) = Inr (sendRequest 1, installed XvSend)"
    by (rule send_request) simp
  have frame: "frames ledger_part (sendEffect q)" for q unfolding sendEffect_def by (rule frame)
  have "xrStatus sendReceipt = XsCompleted" "map_of (execCoordinators s1) (xcIssuer (xqClaim (sendRequest 1))) = Some 501"
    using coord by (simp_all add: sendReceipt_def sendRequest_def)
  with request_runs_once [OF installed_reachable frame q run rtranclp.rtrancl_refl] run show ?thesis by blast
qed

section \<open>Starts\<close>

definition boundCore :: core where
  "boundCore = (installed XvSpawn)\<lparr>execBees := [sampleClaim XvSpawn 1]\<rparr>"

definition sampleStart :: exec_start where
  "sampleStart = \<lparr>esIntent = ''uuid-'' @ nat_text 0, esBee = ''bee1'', esGeneration = 1, esClaim = sampleClaim XvSpawn 1\<rparr>"

definition preparedCore :: core where
  "preparedCore = boundCore\<lparr>uuidPos := 1,
     execStarts := [\<lparr>esStart = sampleStart, esState = SsPrepared, esHost = None, esAgent = None\<rparr>],
     auditLog := auditLog boundCore @ [EvExec (XvStartIntent sampleStart)]\<rparr>"

lemma prepare_sample: "prepareStart ''bee1'' 1 boundCore = Inr (Some sampleStart, preparedCore)"
proof -
  have "validateCurrent (sampleClaim XvSpawn 1) boundCore = Inr ((), boundCore)"
    by (simp add: validateCurrent_def boundCore_def claimCovered_def currentClaim_def bindM_def requireM_def)
  moreover have "executionBee boundCore ''bee1'' = Some (sampleClaim XvSpawn 1)"
    by (simp add: executionBee_def boundCore_def find_row_def)
  moreover have "randomUUID boundCore = Inr (''uuid-'' @ nat_text 0, boundCore\<lparr>uuidPos := 1\<rparr>)"
    by (simp add: randomUUID_def boundCore_def installed_def fenceCore_def sampleCore_def)
  moreover have "execStarts boundCore = []" by (simp add: boundCore_def)
  ultimately show ?thesis
    by (simp add: prepareStart_def startOf_def bindM_def requireM_def audit_def preparedCore_def sampleStart_def Let_def)
qed

lemma prepared_reachable: "exec_reachable preparedCore"
proof -
  have "exec_step (installed XvSpawn) boundCore" by (rule EsOther) (simp add: boundCore_def ledger_part_def)
  with installed_reachable have "exec_reachable boundCore" by (rule ErStep)
  then show ?thesis by (rule ErStep [OF _ EsPrepare [OF prepare_sample]])
qed

theorem dispatched_once_witness:
  "\<exists>s1. dispatchStart sampleStart preparedCore = Inr ((), s1) \<and> (\<forall>x. dispatchStart sampleStart s1 \<noteq> Inr x)"
proof -
  have row: "startRow sampleStart s = Inr (\<lparr>esStart = sampleStart, esState = SsPrepared, esHost = None, esAgent = None\<rparr>, s)"
    if "execStarts s = execStarts preparedCore" for s
    using that by (simp add: startRow_def startContext_def preparedCore_def sampleStart_def bindM_def requireM_def)
  have "validateCurrent (esClaim sampleStart) preparedCore = Inr ((), preparedCore)"
    by (simp add: validateCurrent_def preparedCore_def boundCore_def sampleStart_def claimCovered_def currentClaim_def bindM_def requireM_def)
  then have "\<exists>s1. dispatchStart sampleStart preparedCore = Inr ((), s1)"
    by (simp add: dispatchStart_def checkStart_def row startOps_def quiescent_def updateStart_def audit_def bindM_def requireM_def)
       (simp add: preparedCore_def boundCore_def)
  then obtain s1 where run: "dispatchStart sampleStart preparedCore = Inr ((), s1)" by blast
  from dispatched_once [OF prepared_reachable run rtranclp.rtrancl_refl] run show ?thesis by blast
qed

end
