(* ===== verification/Runtimes.thy ===== *)
theory Runtimes
  imports Commands
begin

text \<open>
  The lifecycle of bees and of their runtimes (v2/core/src/store.ts): the generations of a runtime and
  its state machine, the evidence that a boot was real, the budget of failed boots, the flags, the process
  identity and the observation cursor of a runtime, revival, the arguments of a bee, archiving, naming
  and the reconciliation of the runtimes after a restart of the machine.
\<close>

section \<open>Rows of runtimes\<close>

definition runtimeKey :: "runtime_row \<Rightarrow> string \<times> nat" where
  "runtimeKey r = (rBeeId r, rGeneration r)"

definition updateRuntime :: "string \<Rightarrow> nat \<Rightarrow> (runtime_row \<Rightarrow> runtime_row) \<Rightarrow> unit store_op" where
  "updateRuntime b g f = modifyM (\<lambda>s. s\<lparr>runtimes := update_rows (\<lambda>r. runtimeKey r = (b, g)) f (runtimes s)\<rparr>)"

definition auditRuntime :: "string \<Rightarrow> turn_trigger option \<Rightarrow> unit store_op" where
  "auditRuntime b trigger = bindM (readM (\<lambda>s. currentRuntime s b)) (\<lambda>r. audit (EvRun (RvRuntimeUpdated r trigger)))"

text \<open>The primary key of the table is the bee and the generation.\<close>

definition insertRuntime :: "string \<Rightarrow> nat \<Rightarrow> (int \<times> int) option \<Rightarrow> runtime_state \<Rightarrow> runtime_row store_op" where
  "insertRuntime b generation proc initial =
     bindM (readM (\<lambda>s. (clock s, (b, generation) \<in> runtimeKey ` set (runtimes s)))) (\<lambda>(t, clash).
     bindM (requireM (\<not> clash) SqliteConstraintError) (\<lambda>_.
     bindM (modifyM (\<lambda>s. s\<lparr>runtimes := runtimes s @
              [\<lparr>rBeeId = b, rGeneration = generation, rState = initial,
                rExitCause = (if initial = RStopped then Some ExClean else None), rUpdatedAt = t, rCredentialStamp = False,
                rPid = map_option fst proc, rPidStartedAt = map_option snd proc, rBootEvidence = None, rStartedAt = t,
                rIdentity = (if proc = None then None else Some IdPendingStart)\<rparr>]\<rparr>)) (\<lambda>_.
     bindM (readM (\<lambda>s. currentRuntime s b)) (\<lambda>runtime.
       case runtime of
         None \<Rightarrow> throwM (CoreError ''runtime insert lost'')
       | Some r \<Rightarrow>
           bindM (requireM (rGeneration r = generation) (CoreError ''runtime insert lost'')) (\<lambda>_.
           bindM (audit (EvRun (RvRuntimeCreated r))) (\<lambda>_. returnM r))))))"

section \<open>What opened a turn\<close>

definition answeredQuestionId :: "core \<Rightarrow> nat \<Rightarrow> string option" where
  "answeredQuestionId s m = map_option qId (List.find (\<lambda>q. qDeliveryMessageId q = Some m) (questions s))"

definition writeTurnTrigger :: "string \<Rightarrow> turn_trigger \<Rightarrow> turn_trigger store_op" where
  "writeTurnTrigger b trigger =
     bindM (updateBee (\<lambda>r. bId r = b) (\<lambda>r. r\<lparr>bLastTurnTrigger := Some trigger\<rparr>)) (\<lambda>_. returnM trigger)"

text \<open>A message that answers a question opens a turn of the kind answer, from its own sender.\<close>

definition turnSource ::
  "nat option \<Rightarrow> turn_trigger_kind \<times> string option \<Rightarrow> (turn_trigger_kind \<times> string option) store_op" where
  "turnSource messageId source =
     bindM (readM (\<lambda>s. (Option.bind messageId (answeredQuestionId s), Option.bind messageId (getMessage s)))) (\<lambda>(question, message).
       if question = None then returnM source
       else (case message of None \<Rightarrow> throwM (JsError ''TypeError'') | Some m \<Rightarrow> returnM (TgAnswer, Some (mSender m))))"

definition openTurnTrigger ::
  "string \<Rightarrow> nat \<Rightarrow> turn_trigger_kind \<times> string option \<Rightarrow> nat option \<Rightarrow> turn_trigger store_op" where
  "openTurnTrigger b generation source messageId =
     bindM (turnSource messageId source) (\<lambda>(kind, from').
     bindM (readM clock) (\<lambda>t.
       writeTurnTrigger b
         \<lparr>ttKind = kind, ttFrom = from', ttMessageId = messageId, ttGeneration = generation, ttStartedAt = t,
          ttHumanAt = (if kind = TgHuman \<or> kind = TgAnswer then Some t else None), ttEndedAt = None, ttEndedQuiet = None\<rparr>))"

definition openTurnOf :: "string \<Rightarrow> nat \<Rightarrow> turn_trigger option store_op" where
  "openTurnOf b generation =
     bindM (mustGetBee b) (\<lambda>bee. returnM
       (case bLastTurnTrigger bee of
          None \<Rightarrow> None
        | Some t \<Rightarrow> if ttGeneration t = generation \<and> ttEndedAt t = None then Some t else None))"

type_synonym turn_opener = "turn_trigger_kind \<times> string option \<times> nat"

definition applyTurnStartTrigger :: "string \<Rightarrow> nat \<Rightarrow> turn_opener option \<Rightarrow> turn_trigger option store_op" where
  "applyTurnStartTrigger b generation opener =
     bindM (openTurnOf b generation) (\<lambda>current.
       if (case current of None \<Rightarrow> False
           | Some t \<Rightarrow> (case opener of None \<Rightarrow> True | Some (_, _, m) \<Rightarrow> ttMessageId t = Some m))
       then returnM None
       else
         bindM (case opener of
                  None \<Rightarrow> openTurnTrigger b generation (TgOther, None) None
                | Some (kind, from', m) \<Rightarrow> openTurnTrigger b generation (kind, from') (Some m)) (\<lambda>t. returnM (Some t)))"

definition applyTurnEndTrigger :: "string \<Rightarrow> nat \<Rightarrow> bool option \<Rightarrow> turn_trigger option store_op" where
  "applyTurnEndTrigger b generation quiet =
     bindM (openTurnOf b generation) (\<lambda>current.
     bindM (readM clock) (\<lambda>t.
       case current of
         None \<Rightarrow> returnM None
       | Some turn \<Rightarrow>
           bindM (writeTurnTrigger b (turn\<lparr>ttEndedAt := Some t,
                    ttEndedQuiet := (if quiet = None then ttEndedQuiet turn else quiet)\<rparr>)) (\<lambda>w. returnM (Some w))))"

text \<open>The trigger of a message that is delivered into a runtime.\<close>

definition applyDeliveryTurnTrigger ::
  "string \<Rightarrow> nat \<Rightarrow> nat \<Rightarrow> turn_trigger_kind \<times> string option \<Rightarrow> turn_trigger option store_op" where
  "applyDeliveryTurnTrigger b generation messageId given =
     bindM (turnSource (Some messageId) given) (\<lambda>source.
     bindM (mustGetBee b) (\<lambda>bee.
     bindM (readM clock) (\<lambda>t.
       case bLastTurnTrigger bee of
         None \<Rightarrow> bindM (openTurnTrigger b generation source (Some messageId)) (\<lambda>w. returnM (Some w))
       | Some prev \<Rightarrow>
           if ttGeneration prev = generation \<and> ttMessageId prev = Some messageId then returnM None
           else if ttGeneration prev \<noteq> generation \<or> ttEndedAt prev \<noteq> None
           then bindM (openTurnTrigger b generation source (Some messageId)) (\<lambda>w. returnM (Some w))
           else if (fst source \<noteq> TgHuman \<and> fst source \<noteq> TgAnswer) \<or> ttHumanAt prev \<noteq> None then returnM None
           else bindM (writeTurnTrigger b (prev\<lparr>ttHumanAt := Some t\<rparr>)) (\<lambda>w. returnM (Some w)))))"

section \<open>Output\<close>

text \<open>The last human output moves only in the legacy mode, inside a turn that a person opened.\<close>

definition humanOutput :: "core \<Rightarrow> nat option \<Rightarrow> bee_row \<Rightarrow> int option" where
  "humanOutput s generation bee =
     (if (case map_of (humanOutputModes s) (bId bee) of None \<Rightarrow> True | Some m \<Rightarrow> m = ''legacy'')
         \<and> (case bLastTurnTrigger bee of
              None \<Rightarrow> False
            | Some t \<Rightarrow> ttHumanAt t \<noteq> None \<and> generation = Some (ttGeneration t) \<and> ttEndedQuiet t \<noteq> Some True)
      then Some (clock s) else bLastHumanOutputAt bee)"

definition applyRecordOutput :: "string \<Rightarrow> nat option \<Rightarrow> unit store_op" where
  "applyRecordOutput b generation =
     bindM (readM (\<lambda>s. s)) (\<lambda>s0.
     bindM (updateBee (\<lambda>r. bId r = b)
              (\<lambda>r. r\<lparr>bLastOutputAt := Some (clock s0), bLastHumanOutputAt := humanOutput s0 generation r\<rparr>)) (\<lambda>_.
     bindM (mustGetBee b) (\<lambda>bee. audit (EvRun (RvOutputRecorded b (clock s0) (bLastHumanOutputAt bee))))))"

definition recordOutput :: "string \<Rightarrow> unit store_op" where
  "recordOutput b =
     bindM (mustGetBee b) (\<lambda>_. bindM (readM (\<lambda>s. currentGeneration s b)) (\<lambda>g. applyRecordOutput b g))"

section \<open>Flags\<close>

definition openFlag :: "core \<Rightarrow> string \<Rightarrow> flag_name \<Rightarrow> flag_row option" where
  "openFlag s b f = List.find (\<lambda>r. fBeeId r = b \<and> fFlag r = f \<and> fClearedAt r = None) (flags s)"

definition updateFlag :: "nat \<Rightarrow> (flag_row \<Rightarrow> flag_row) \<Rightarrow> unit store_op" where
  "updateFlag i f = modifyM (\<lambda>s. s\<lparr>flags := update_rows (\<lambda>r. fId r = i) f (flags s)\<rparr>)"

definition applySetFlag :: "string \<Rightarrow> flag_name \<Rightarrow> string \<Rightarrow> int option \<Rightarrow> flag_row store_op" where
  "applySetFlag b f detail resetsAt =
     bindM (readM (\<lambda>s. (openFlag s b f, clock s, nextFlagId s))) (\<lambda>(existing, t, i).
       case existing of
         Some r \<Rightarrow>
           (let row = r\<lparr>fDetail := detail, fResetsAt := resetsAt\<rparr>
            in bindM (updateFlag (fId r) (\<lambda>x. x\<lparr>fDetail := detail, fResetsAt := resetsAt\<rparr>)) (\<lambda>_.
               bindM (audit (EvRun (RvFlagSet row))) (\<lambda>_. returnM row)))
       | None \<Rightarrow>
           (let row = \<lparr>fId = i, fBeeId = b, fFlag = f, fDetail = detail, fSetAt = t, fClearedAt = None, fResetsAt = resetsAt\<rparr>
            in bindM (modifyM (\<lambda>s. s\<lparr>flags := flags s @ [row], nextFlagId := i + 1\<rparr>)) (\<lambda>_.
               bindM (audit (EvRun (RvFlagSet row))) (\<lambda>_. returnM row))))"

definition setFlag :: "string \<Rightarrow> flag_name \<Rightarrow> string \<Rightarrow> int option \<Rightarrow> flag_row store_op" where
  "setFlag b f detail resetsAt = bindM (mustGetBee b) (\<lambda>_. applySetFlag b f detail resetsAt)"

definition applyClearFlag :: "string \<Rightarrow> flag_name \<Rightarrow> string option \<Rightarrow> bool \<Rightarrow> bool store_op" where
  "applyClearFlag b f detail auditNoop =
     bindM (readM (\<lambda>s. (openFlag s b f, clock s))) (\<lambda>(existing, t).
       case existing of
         None \<Rightarrow> bindM (whenM auditNoop (audit (EvRun (RvFlagClearNoop b f)))) (\<lambda>_. returnM False)
       | Some r \<Rightarrow>
           bindM (updateFlag (fId r) (\<lambda>x. x\<lparr>fClearedAt := Some t\<rparr>)) (\<lambda>_.
           bindM (audit (EvRun (RvFlagCleared (fId r) b f t detail))) (\<lambda>_. returnM True)))"

definition clearFlag :: "string \<Rightarrow> flag_name \<Rightarrow> string option \<Rightarrow> bool store_op" where
  "clearFlag b f detail = bindM (mustGetBee b) (\<lambda>_. applyClearFlag b f detail True)"

text \<open>The flags whose declared reset has passed; \<open>isoText\<close> renders an instant (\<open>Date.toISOString\<close>).\<close>

definition dueFlags :: "core \<Rightarrow> int \<Rightarrow> flag_row list" where
  "dueFlags s t =
     sort_key fId (filter (\<lambda>r. fClearedAt r = None \<and> (case fResetsAt r of None \<Rightarrow> False | Some x \<Rightarrow> x \<le> t)) (flags s))"

definition expireFlags :: "(int \<Rightarrow> string) \<Rightarrow> int \<Rightarrow> flag_row list store_op" where
  "expireFlags isoText t =
     bindM (readM (\<lambda>s. dueFlags s t)) (\<lambda>due.
     bindM (eachM due (\<lambda>r.
              bindM (applyClearFlag (fBeeId r) (fFlag r)
                       (Some (''provider-declared reset '' @ isoText (the (fResetsAt r)) @ '' passed'')) False) (\<lambda>_. returnM ()))) (\<lambda>_.
       returnM due))"

definition activeFlags :: "core \<Rightarrow> string \<Rightarrow> flag_row list" where
  "activeFlags s b = sort_key fId (filter (\<lambda>r. fBeeId r = b \<and> fClearedAt r = None) (flags s))"

section \<open>The budget of failed boots\<close>

definition exit_cause_text :: "exit_cause \<Rightarrow> string" where
  "exit_cause_text c =
     (case c of ExClean \<Rightarrow> ''clean'' | ExCrashed \<Rightarrow> ''crashed'' | ExStoppedByUser \<Rightarrow> ''stopped_by_user''
      | ExStoppedBySystem \<Rightarrow> ''stopped_by_system'' | ExMachineRestart \<Rightarrow> ''machine_restart'')"

definition spawnFailedDetail :: "nat \<Rightarrow> nat \<Rightarrow> exit_cause \<Rightarrow> string option \<Rightarrow> string" where
  "spawnFailedDetail failures generation cause detail =
     ''runtime exited during boot '' @ nat_text failures @ '' times in a row (generation '' @ nat_text generation @ '', ''
       @ exit_cause_text cause @ (case non_empty detail of None \<Rightarrow> [] | Some d \<Rightarrow> '': '' @ d) @ ''); ''
       @ ''not reviving again until it boots or an operator revives it''"

definition applySpawnFailure :: "string \<Rightarrow> nat \<Rightarrow> exit_cause \<Rightarrow> string option \<Rightarrow> unit store_op" where
  "applySpawnFailure b generation cause detail =
     bindM (mustGetBee b) (\<lambda>bee.
     (let failures = bSpawnFailures bee + 1
      in bindM (updateBee (\<lambda>r. bId r = b) (\<lambda>r. r\<lparr>bSpawnFailures := failures\<rparr>)) (\<lambda>_.
         bindM (audit (EvRun (RvSpawnFailures b failures (Some (generation, cause, non_empty detail))))) (\<lambda>_.
         bindM (readM maxAttempts) (\<lambda>budget.
           whenM (budget \<le> failures)
             (bindM (applySetFlag b FSpawnFailed (spawnFailedDetail failures generation cause detail) None)
                (\<lambda>_. returnM ())))))))"

definition applySpawnFailuresReset :: "string \<Rightarrow> string \<Rightarrow> bool store_op" where
  "applySpawnFailuresReset b reason =
     bindM (mustGetBee b) (\<lambda>bee.
     bindM (whenM (bSpawnFailures bee \<noteq> 0)
              (thenM (updateBee (\<lambda>r. bId r = b) (\<lambda>r. r\<lparr>bSpawnFailures := 0\<rparr>))
                 (audit (EvRun (RvSpawnFailures b 0 None))))) (\<lambda>_.
     bindM (applyClearFlag b FSpawnFailed (Some reason) False) (\<lambda>cleared.
       returnM (bSpawnFailures bee \<noteq> 0 \<or> cleared))))"

definition resetSpawnFailures :: "string \<Rightarrow> string \<Rightarrow> bool store_op" where
  "resetSpawnFailures b reason = bindM (mustGetBee b) (\<lambda>_. applySpawnFailuresReset b reason)"

definition enqueueBootRetry :: "string \<Rightarrow> (command_row option \<times> wake_outcome) store_op" where
  "enqueueBootRetry b = bindM (mustGetBee b) (\<lambda>_. applyWakeIfNeeded b)"

text \<open>
  A stop of this generation that the boot deadline asked for: its arguments name the policy. The test of
  an executed one leaves out the stops that the policy skipped (\<open>hangPolicySkipped\<close> absent, null, false or 0).
\<close>

definition hangStop :: "command_row \<Rightarrow> string \<Rightarrow> nat \<Rightarrow> bool" where
  "hangStop c b generation \<longleftrightarrow>
     cBeeId c = b \<and> cVerb c = VStop \<and> cTargetGeneration c = Some generation
     \<and> map_of (cArgs c) ''cause'' = Some (JStr ''stopped_by_system'')
     \<and> map_of (cArgs c) ''reason'' = Some (JStr ''hang_policy'')"

definition hasBootHangStopCommand :: "core \<Rightarrow> string \<Rightarrow> nat \<Rightarrow> bool" where
  "hasBootHangStopCommand s b generation \<longleftrightarrow>
     list_ex (\<lambda>c. hangStop c b generation \<and> cStatus c \<noteq> CFailed) (commands s)"

definition hasExecutedBootHangStopCommand :: "core \<Rightarrow> string \<Rightarrow> nat \<Rightarrow> bool" where
  "hasExecutedBootHangStopCommand s b generation \<longleftrightarrow>
     list_ex (\<lambda>c. hangStop c b generation \<and> (cStatus c = CRunning \<or> cStatus c = CDone)
                  \<and> map_of (cArgs c) ''hangPolicySkipped'' \<in> {None, Some JNull, Some (JBool False), Some (JNum 0)}) (commands s)"

section \<open>The state of a runtime\<close>

record runtime_update =
  uoExitCause :: "exit_cause option"
  uoExitDetail :: "string option"
  uoPid :: "int option"
  uoPidStartedAt :: "int option"
  uoSynthetic :: bool
  uoRecordOutput :: bool
  uoEndedQuiet :: "bool option"
  uoTurnOpener :: "turn_opener option"

text \<open>What the arguments of an update of the current generation are refused for.\<close>

definition updateRefusal :: "runtime_row \<Rightarrow> runtime_state \<Rightarrow> runtime_update \<Rightarrow> core_error option" where
  "updateRefusal current state opts =
     (if state \<notin> set (RUNTIME_TRANSITIONS (rState current)) then Some (IllegalTransitionError (rBeeId current))
      else if (state = RStopped) \<noteq> (uoExitCause opts \<noteq> None) then Some (IllegalTransitionError (rBeeId current))
      else if uoRecordOutput opts \<and> state \<noteq> RIdle then Some (IllegalTransitionError (rBeeId current))
      else if uoPid opts \<noteq> None \<and> uoPidStartedAt opts = None
           then Some (CoreError ''pid updates require pidStartedAt (boot re-adoption needs both)'')
      else None)"

text \<open>The boot evidence is set on the edge from booting to running and never taken back.\<close>

definition nextEvidence :: "runtime_row \<Rightarrow> runtime_state \<Rightarrow> runtime_update \<Rightarrow> boot_evidence option" where
  "nextEvidence current state opts =
     (if rState current = RBooting \<and> state = RRunning \<and> rBootEvidence current \<noteq> Some BeReal
      then Some (if uoSynthetic opts then BeSynthetic else BeReal) else rBootEvidence current)"

definition updatedRuntime :: "int \<Rightarrow> runtime_state \<Rightarrow> runtime_update \<Rightarrow> runtime_row \<Rightarrow> runtime_row" where
  "updatedRuntime t state opts r =
     r\<lparr>rState := state, rExitCause := uoExitCause opts,
       rPid := (if uoPid opts = None then rPid r else uoPid opts),
       rPidStartedAt := (if uoPidStartedAt opts = None then rPidStartedAt r else uoPidStartedAt opts),
       rBootEvidence := nextEvidence r state opts, rUpdatedAt := t,
       rIdentity := (if uoPid opts \<noteq> None \<and> rIdentity r = None then Some IdPendingStart else rIdentity r)\<rparr>"

definition pauseMultilineDeliveryBee :: "string \<Rightarrow> unit store_op" where
  "pauseMultilineDeliveryBee b = modifyM (\<lambda>s. s\<lparr>multilineActive := filter (\<lambda>(_, x). x \<noteq> b) (multilineActive s)\<rparr>)"

text \<open>An exit of a boot that proved nothing counts; a real boot gives the budget back.\<close>

definition settleBoot :: "runtime_row \<Rightarrow> runtime_state \<Rightarrow> runtime_update \<Rightarrow> unit store_op" where
  "settleBoot current state opts =
     (let b = rBeeId current; generation = rGeneration current;
          unprovenBoot = (rState current = RBooting \<or> rBootEvidence current = Some BeSynthetic);
          naturalBootExit = (uoExitCause opts = Some ExCrashed \<or> uoExitCause opts = Some ExClean)
      in bindM (readM (\<lambda>s. uoExitCause opts = Some ExStoppedBySystem \<and> hasExecutedBootHangStopCommand s b generation)) (\<lambda>hangStopped.
         if state = RStopped \<and> unprovenBoot \<and> (naturalBootExit \<or> hangStopped)
         then applySpawnFailure b generation (the (uoExitCause opts))
                (if uoExitDetail opts \<noteq> None then uoExitDetail opts else if hangStopped then Some ''hang_policy'' else None)
         else whenM (rState current = RBooting \<and> state = RRunning \<and> nextEvidence current state opts = Some BeReal)
                (bindM (applySpawnFailuresReset b (''runtime booted (generation '' @ nat_text generation @ '')''))
                   (\<lambda>_. returnM ()))))"

definition updateRuntimeState :: "string \<Rightarrow> nat \<Rightarrow> runtime_state \<Rightarrow> runtime_update \<Rightarrow> bool store_op" where
  "updateRuntimeState b generation state opts =
     bindM (mustGetBee b) (\<lambda>_.
     bindM (readM (\<lambda>s. (currentRuntime s b, clock s))) (\<lambda>(found, t).
       case found of
         None \<Rightarrow> throwM (CoreError ''bee has no runtime rows'')
       | Some current \<Rightarrow>
           if generation \<noteq> rGeneration current
           then thenM (audit (EvRun (RvRuntimeStale b generation (Some (rGeneration current)) (Some state)))) (returnM False)
           else
             bindM (case updateRefusal current state opts of None \<Rightarrow> returnM () | Some e \<Rightarrow> throwM e) (\<lambda>_.
             bindM (updateRuntime b generation (updatedRuntime t state opts)) (\<lambda>_.
             bindM (whenM (state = RStopped) (pauseMultilineDeliveryBee b)) (\<lambda>_.
             bindM (if rState current = RIdle \<and> state = RRunning
                    then applyTurnStartTrigger b generation (uoTurnOpener opts)
                    else if rState current = RRunning \<and> state = RIdle
                    then applyTurnEndTrigger b generation (uoEndedQuiet opts) else returnM None) (\<lambda>trigger.
             bindM (auditRuntime b trigger) (\<lambda>_.
             bindM (whenM (uoRecordOutput opts) (applyRecordOutput b (Some generation))) (\<lambda>_.
             bindM (settleBoot current state opts) (\<lambda>_. returnM True)))))))))"

definition recordBootEvidence :: "string \<Rightarrow> nat \<Rightarrow> string option \<Rightarrow> bool store_op" where
  "recordBootEvidence b generation reason =
     bindM (mustGetBee b) (\<lambda>_.
     bindM (readM (\<lambda>s. currentRuntime s b)) (\<lambda>found.
       case found of
         None \<Rightarrow> returnM False
       | Some current \<Rightarrow>
           if rGeneration current \<noteq> generation \<or> rState current = RStopped then returnM False
           else
             bindM (whenM (rBootEvidence current \<noteq> Some BeReal)
                      (thenM (updateRuntime b generation (\<lambda>r. r\<lparr>rBootEvidence := Some BeReal\<rparr>)) (auditRuntime b None))) (\<lambda>_.
             bindM (applySpawnFailuresReset b
                      (case reason of Some x \<Rightarrow> x
                       | None \<Rightarrow> ''runtime produced real output (generation '' @ nat_text generation @ '')'')) (\<lambda>applied.
               returnM (applied \<or> rBootEvidence current \<noteq> Some BeReal)))))"

section \<open>The process of a runtime\<close>

definition lower_hex :: "nat \<Rightarrow> string \<Rightarrow> bool" where
  "lower_hex n x \<longleftrightarrow> length x = n \<and> list_all is_hex_char x"

text \<open>A kernel boot id: 8, 4, 4, 4 and 12 lower-case hexadecimal digits, with dashes between.\<close>

definition boot_id :: "string \<Rightarrow> bool" where
  "boot_id x \<longleftrightarrow>
     length x = 36 \<and> lower_hex 8 (take 8 x) \<and> lower_hex 4 (take 4 (drop 9 x)) \<and> lower_hex 4 (take 4 (drop 14 x))
     \<and> lower_hex 4 (take 4 (drop 19 x)) \<and> lower_hex 12 (drop 24 x)
     \<and> list_all (\<lambda>n. x ! n = CHR ''-'') [8, 13, 18, 23]"

definition digit_value :: "string \<Rightarrow> nat" where
  "digit_value x = foldl (\<lambda>n c. 10 * n + (of_char c - 48)) 0 x"

text \<open>\<open>processIdentityValue\<close>: an exact process, of Linux with its boot id or of macOS without one.\<close>

definition processIdentityValue :: "process_identity \<Rightarrow> bool" where
  "processIdentityValue v \<longleftrightarrow>
     0 < piPid v \<and> piPid v \<le> MAX_SAFE_INTEGER
     \<and> ((starts_with ''darwin:'' (piBirth v) \<and> piBootId v = []
         \<and> (let rest = drop 7 (piBirth v); a = takeWhile (\<lambda>c. c \<noteq> CHR '':'') rest; tl' = dropWhile (\<lambda>c. c \<noteq> CHR '':'') rest
            in digits a \<and> length a \<le> 20 \<and> digit_value a < 2 ^ 64
               \<and> tl' \<noteq> [] \<and> digits (tl tl') \<and> length (tl tl') \<le> 6 \<and> digit_value (tl tl') < 1000000))
        \<or> (starts_with ''linux:'' (piBirth v) \<and> boot_id (piBootId v)
           \<and> (let a = drop 6 (piBirth v) in digits a \<and> length a \<le> 20 \<and> digit_value a < 2 ^ 64)))"

datatype identity_read = IrBound process_identity int | IrLegacy | IrPendingStart | IrUnavailable

definition findRuntime :: "core \<Rightarrow> string \<Rightarrow> nat \<Rightarrow> runtime_row option" where
  "findRuntime s b generation = find_row runtimeKey (runtimes s) (b, generation)"

text \<open>The bound identity must be that of the recorded process. The schema mark is that of an open store.\<close>

definition runtimeProcessIdentity :: "core \<Rightarrow> string \<Rightarrow> nat \<Rightarrow> identity_read" where
  "runtimeProcessIdentity s b generation =
     (case findRuntime s b generation of
        None \<Rightarrow> IrUnavailable
      | Some r \<Rightarrow>
          (case rIdentity r of
             None \<Rightarrow> IrLegacy
           | Some IdPendingStart \<Rightarrow> IrPendingStart
           | Some (IdBound v) \<Rightarrow>
               (case rPidStartedAt r of
                  None \<Rightarrow> IrUnavailable
                | Some t \<Rightarrow> if processIdentityValue v \<and> rPid r = Some (piPid v) then IrBound v t else IrUnavailable)))"

record runtime_proc =
  rpPid :: int
  rpPidStartedAt :: int
  rpCursor :: "int option"
  rpIdentity :: "process_identity option"

definition setCursor :: "string \<Rightarrow> nat \<Rightarrow> (int option \<Rightarrow> int) \<Rightarrow> unit store_op" where
  "setCursor b generation f =
     modifyM (\<lambda>s. s\<lparr>observationCursors :=
       upsert_row fst ((b, generation), f (map_of (observationCursors s) (b, generation))) (observationCursors s)\<rparr>)"

definition safe_cursor :: "int \<Rightarrow> bool" where
  "safe_cursor c \<longleftrightarrow> 0 \<le> c \<and> c \<le> MAX_SAFE_INTEGER"

text \<open>Binding a given identity, or marking a start whose process is not bound yet.\<close>

definition bindProcess :: "runtime_row \<Rightarrow> runtime_proc \<Rightarrow> unit store_op" where
  "bindProcess current proc =
     (let b = rBeeId current; generation = rGeneration current
      in case rpIdentity proc of
           Some v \<Rightarrow>
             bindM (readM (\<lambda>s. runtimeProcessIdentity s b generation)) (\<lambda>prior.
             bindM (requireM (processIdentityValue v \<and> piPid v = rpPid proc \<and> prior \<noteq> IrUnavailable
                              \<and> (case prior of IrBound w _ \<Rightarrow> w = v | _ \<Rightarrow> True))
                      (CoreError ''Runtime process identity cannot be replaced'')) (\<lambda>_.
               updateRuntime b generation (\<lambda>r. r\<lparr>rIdentity := Some (IdBound v)\<rparr>)))
         | None \<Rightarrow>
             whenM (rIdentity current = None \<and> rPid current = None)
               (updateRuntime b generation (\<lambda>r. r\<lparr>rIdentity := Some IdPendingStart\<rparr>)))"

definition recordRuntimeProc :: "string \<Rightarrow> nat \<Rightarrow> runtime_proc \<Rightarrow> bool store_op" where
  "recordRuntimeProc b generation proc =
     bindM (mustGetBee b) (\<lambda>_.
     bindM (readM (\<lambda>s. currentRuntime s b)) (\<lambda>found.
       case found of
         None \<Rightarrow> thenM (audit (EvRun (RvRuntimeStale b generation None None))) (returnM False)
       | Some current \<Rightarrow>
           if rGeneration current \<noteq> generation \<or> rState current = RStopped
           then thenM (audit (EvRun (RvRuntimeStale b generation (Some (rGeneration current)) None))) (returnM False)
           else
             bindM (requireM (\<forall>c \<in> set_option (rpCursor proc). safe_cursor c)
                      (CoreError ''runtime observation cursor must be a non-negative safe integer'')) (\<lambda>_.
             bindM (requireM (\<not> (rIdentity current = None \<and> rPid current \<noteq> None
                                 \<and> (rpIdentity proc \<noteq> None \<or> Some (rpPid proc) \<noteq> rPid current
                                    \<or> Some (rpPidStartedAt proc) \<noteq> rPidStartedAt current)))
                      (CoreError ''Legacy process identity requires authenticated one-time binding'')) (\<lambda>_.
             bindM (updateRuntime b generation (\<lambda>r. r\<lparr>rPid := Some (rpPid proc), rPidStartedAt := Some (rpPidStartedAt proc)\<rparr>)) (\<lambda>_.
             bindM (bindProcess current proc) (\<lambda>_.
             bindM (case rpCursor proc of
                      None \<Rightarrow> returnM ()
                    | Some c \<Rightarrow> setCursor b generation (\<lambda>old. case old of None \<Rightarrow> c | Some o' \<Rightarrow> max o' c)) (\<lambda>_.
             bindM (auditRuntime b None) (\<lambda>_. returnM True))))))))"

definition runtimeObservationCursor :: "core \<Rightarrow> string \<Rightarrow> nat \<Rightarrow> int option" where
  "runtimeObservationCursor s b generation = map_of (observationCursors s) (b, generation)"

definition advanceRuntimeObservationCursor :: "string \<Rightarrow> nat \<Rightarrow> int \<Rightarrow> bool store_op" where
  "advanceRuntimeObservationCursor b generation cursor =
     bindM (requireM (safe_cursor cursor) (CoreError ''runtime observation cursor must be a non-negative safe integer'')) (\<lambda>_.
     bindM (mustGetBee b) (\<lambda>_.
     bindM (readM (\<lambda>s. (currentRuntime s b, runtimeObservationCursor s b generation))) (\<lambda>(found, previous).
       case found of
         None \<Rightarrow> returnM False
       | Some current \<Rightarrow>
           if rGeneration current \<noteq> generation \<or> rState current = RStopped
              \<or> (case previous of None \<Rightarrow> False | Some p \<Rightarrow> cursor \<le> p)
           then returnM False
           else bindM (setCursor b generation (\<lambda>_. cursor)) (\<lambda>_. returnM True))))"

text \<open>The two hooks that bind the process of a runtime once, for a pending start and for a legacy row.\<close>

definition bindIdentity :: "string \<Rightarrow> nat \<Rightarrow> int \<Rightarrow> process_identity \<Rightarrow> bool \<Rightarrow> bool store_op" where
  "bindIdentity b generation stamp v legacy =
     bindM (readM (\<lambda>s. (currentRuntime s b, runtimeProcessIdentity s b generation))) (\<lambda>(found, binding).
       case found of
         None \<Rightarrow> returnM False
       | Some current \<Rightarrow>
           if \<not> processIdentityValue v \<or> rGeneration current \<noteq> generation \<or> rState current = RStopped
              \<or> rPid current \<noteq> Some (piPid v) \<or> rPidStartedAt current \<noteq> Some stamp
              \<or> binding \<noteq> (if legacy then IrLegacy else IrPendingStart)
           then returnM False
           else
             bindM (updateRuntime b generation (\<lambda>r. r\<lparr>rIdentity := Some (IdBound v)\<rparr>)) (\<lambda>_.
             bindM (audit (EvRun (if legacy then RvLegacyBound else RvPendingStartBound b generation))) (\<lambda>_.
               returnM True)))"

definition bindPendingStart :: "string \<Rightarrow> nat \<Rightarrow> int \<Rightarrow> process_identity \<Rightarrow> bool store_op" where
  "bindPendingStart b generation stamp v = bindIdentity b generation stamp v False"

definition bindLegacy :: "string \<Rightarrow> nat \<Rightarrow> int \<Rightarrow> process_identity \<Rightarrow> bool \<Rightarrow> bool store_op" where
  "bindLegacy b generation stamp v authenticated =
     (if authenticated then bindIdentity b generation stamp v True else returnM False)"

text \<open>A fenced start releases its host together with the process it records for the runtime.\<close>

definition releaseHost :: "exec_start \<Rightarrow> exec_process \<Rightarrow> unit store_op" where
  "releaseHost st host =
     bindM (bindAndRelease st host) (\<lambda>_.
     bindM (readM clock) (\<lambda>t.
     bindM (recordRuntimeProc (esBee st) (esGeneration st)
              \<lparr>rpPid = epPid host, rpPidStartedAt = t, rpCursor = None, rpIdentity = None\<rparr>) (\<lambda>applied.
       requireM applied (ExecutionFenceError XcHistoryUnknown))))"

section \<open>The arguments of a bee\<close>

text \<open>\<open>releaseAuthDeathRecovery\<close>; the account's status is the column of its row, if it has one.\<close>

definition releaseAuthDeathRecovery :: "nat \<Rightarrow> string \<Rightarrow> auth_row option store_op" where
  "releaseAuthDeathRecovery i reason =
     bindM (readM (\<lambda>s. getAuthInterruption s i)) (\<lambda>found.
       case found of
         None \<Rightarrow> returnM None
       | Some row \<Rightarrow>
           (case auDeathRecovery row of
              None \<Rightarrow> returnM (Some row)
            | Some d \<Rightarrow>
                if auState row \<notin> set AUTH_INTERRUPTION_LIVE_STATES then returnM (Some row)
                else
                  bindM (readM (\<lambda>s. (Option.bind (drCommandId d) (getCommand s), currentGeneration s (auBeeId row)))) (\<lambda>(command, gen).
                  (let queued = (map_option cStatus command = Some CQueued)
                   in bindM (whenM queued
                          (thenM (mootCommand (the command) (auBeeId row) (case gen of Some g \<Rightarrow> g | None \<Rightarrow> 0) reason)
                             (eachM (auContinuationMessageIds row)
                                (\<lambda>m. bindM (cancelMessageInternal (auBeeId row) m True ''auth.release'') (\<lambda>_. returnM ()))))) (\<lambda>_.
                      bindM (readM (\<lambda>s. queued \<and> reason = ''deadline_expired'' \<and> map_of (accountStatuses s) (auAccount row) = Some AcPaused)) (\<lambda>pauseHold.
                      bindM (putAuthInterruption
                        (if queued
                         then row\<lparr>auDeathRecovery := (if pauseHold then Some (d\<lparr>drReleasedWhilePaused := True\<rparr>) else None),
                                  auState := AuRestored, auContinuationKind := None, auContinuationMessageIds := []\<rparr>
                         else row\<lparr>auDeathRecovery := None\<rparr>)) (\<lambda>released.
                      bindM (audit (EvRun (RvAuthReleased (auBeeId row) (auId row) (auGeneration row) reason))) (\<lambda>_.
                        returnM (Some released)))))))))"

definition invalidateAuthDeathRecovery :: "string \<Rightarrow> unit store_op" where
  "invalidateAuthDeathRecovery b =
     bindM (mustGetBee b) (\<lambda>bee.
     bindM (readM (\<lambda>s. (liveAuthInterruption s b,
                        (case currentRuntime s b of Some r \<Rightarrow> rCredentialStamp r | None \<Rightarrow> False)
                        \<or> list_ex (\<lambda>q. qrState q = QWaiting \<or> qrState q = QRotating) (listQuotaRecoveries s b)))) (\<lambda>(row, held).
       if \<not> held \<and> Option.bind row auDeathRecovery = None then returnM ()
       else
         bindM (updateBee (\<lambda>r. bId r = b) (\<lambda>r. r\<lparr>bAuthControlFence := bAuthControlFence bee + 1\<rparr>)) (\<lambda>_.
         bindM (audit (EvAuthControl b (bAuthControlFence bee + 1))) (\<lambda>_.
           case row of
             None \<Rightarrow> returnM ()
           | Some r \<Rightarrow> bindM (releaseAuthDeathRecovery (auId r) ''provenance_changed'') (\<lambda>_. returnM ())))))"

definition applyArgs :: "string \<Rightarrow> string list option \<Rightarrow> bool store_op" where
  "applyArgs b nxt =
     bindM (mustGetBee b) (\<lambda>bee.
       if bArgs bee = nxt then returnM False
       else
         bindM (invalidateAuthDeathRecovery b) (\<lambda>_.
         bindM (updateBee (\<lambda>r. bId r = b) (\<lambda>r. r\<lparr>bArgs := nxt\<rparr>)) (\<lambda>_.
         bindM (audit (EvRun (RvBeeArgsSet b nxt (bArgs bee)))) (\<lambda>_. returnM True))))"

definition updateBeeArgs :: "string \<Rightarrow> string list option \<Rightarrow> (bee_row \<times> bool) store_op" where
  "updateBeeArgs b args =
     bindM (mustGetBee b) (\<lambda>_.
     bindM (applyArgs b args) (\<lambda>applied. bindM (mustGetBee b) (\<lambda>bee. returnM (bee, applied))))"

text \<open>The arguments of a bee as a member of a command's arguments, and back.\<close>

definition args_json :: "string list option \<Rightarrow> json" where
  "args_json a = (case a of None \<Rightarrow> JNull | Some xs \<Rightarrow> JArr (map JStr xs))"

definition json_args :: "json option \<Rightarrow> string list option" where
  "json_args v =
     (case v of Some (JArr xs) \<Rightarrow> Some (map (\<lambda>x. case x of JStr t \<Rightarrow> t | _ \<Rightarrow> []) xs) | _ \<Rightarrow> None)"

definition pendingModelChange :: "core \<Rightarrow> string \<Rightarrow> command_row option" where
  "pendingModelChange s b =
     List.find (\<lambda>c. (cStatus c = CQueued \<or> cStatus c = CRunning) \<and> cBeeId c = b \<and> cVerb c = VStop
        \<and> cTargetGeneration c = Some (case currentGeneration s b of Some g \<Rightarrow> g | None \<Rightarrow> 0)
        \<and> map_of (cArgs c) ''replacementArgs'' \<noteq> None) (commands s)"

definition mootModelChange :: "command_row \<Rightarrow> string \<Rightarrow> unit store_op" where
  "mootModelChange command reason =
     bindM (readM (\<lambda>s. (clock s, case currentGeneration s (cBeeId command) of Some g \<Rightarrow> g | None \<Rightarrow> 0))) (\<lambda>(t, gen).
     bindM (modifyM (\<lambda>s. s\<lparr>commands := update_rows (\<lambda>c. cId c = cId command)
              (\<lambda>c. c\<lparr>cStatus := CDone, cFinishedAt := Some t, cArgs := filter (\<lambda>(k, _). k \<noteq> ''thenRevive'') (cArgs command)\<rparr>)
              (commands s)\<rparr>)) (\<lambda>_.
       audit (EvCommandMoot (cBeeId command) (cId command) (cVerb command) (cTargetGeneration command) gen t reason)))"

datatype reconfigure_outcome = RcQueued nat | RcRecorded bee_row | RcUnchanged bee_row

definition reconfigureBee :: "string \<Rightarrow> string list option \<Rightarrow> reconfigure_outcome store_op" where
  "reconfigureBee b nxt =
     bindM (mustGetBee b) (\<lambda>bee.
     bindM (readM (\<lambda>s. (currentRuntime s b, pendingModelChange s b))) (\<lambda>(rt, pending).
     bindM (requireM (map_option cStatus pending \<noteq> Some CRunning) (IllegalTransitionError b)) (\<lambda>_.
     (let applied = (case pending of Some p \<Rightarrow> js_get (cArgs p) ''argsApplied'' = Some (JBool True) | None \<Rightarrow> False);
          runningArgs = (if applied then json_args (js_get (cArgs (the pending)) ''previousArgs'') else bArgs bee);
          live = (case rt of None \<Rightarrow> False | Some r \<Rightarrow> rState r \<noteq> RStopped);
          settle = (case pending of None \<Rightarrow> returnM () | Some p \<Rightarrow> mootModelChange p ''superseded_by_model_change'')
      in if \<not> live \<or> runningArgs = nxt
         then bindM settle (\<lambda>_.
              bindM (applyArgs b nxt) (\<lambda>changed.
              bindM (mustGetBee b) (\<lambda>now.
                returnM (if changed then RcRecorded now else RcUnchanged now))))
         else if applied \<and> bArgs bee = nxt then returnM (RcQueued (cId (the pending)))
         else
           bindM (applyArgs b nxt) (\<lambda>_.
           bindM settle (\<lambda>_.
           bindM (enqueueCommand VStop b
                    [(''cause'', JStr ''stopped_by_system''), (''replacementArgs'', args_json nxt),
                     (''previousArgs'', args_json runningArgs), (''argsApplied'', JBool True), (''thenRevive'', JBool True)]
                    None None) (\<lambda>(command, _).
             returnM (RcQueued (cId command)))))))))"

section \<open>Reviving, archiving and naming\<close>

definition applyArchive :: "string \<Rightarrow> bee_row store_op" where
  "applyArchive b =
     bindM (cancelAuthDeathRecovery b ''auth_recovery_cancelled'') (\<lambda>_.
     bindM (readM clock) (\<lambda>t.
     bindM (updateBee (\<lambda>r. bId r = b) (\<lambda>r. r\<lparr>bLifecycle := LArchived, bArchivedAt := Some t\<rparr>)) (\<lambda>_.
     bindM (audit (EvRun (RvBeeArchived b t))) (\<lambda>_. mustGetBee b))))"

definition archiveActive :: "string \<Rightarrow> bee_row store_op" where
  "archiveActive b =
     bindM (mustGetBee b) (\<lambda>bee.
     bindM (requireM (bLifecycle bee = LActive) (IllegalTransitionError b)) (\<lambda>_. applyArchive b))"

text \<open>An archive that a command of the queue executes asks the fence first.\<close>

definition archiveBee :: "string \<Rightarrow> nat option \<Rightarrow> bee_row store_op" where
  "archiveBee b executionCommandId =
     (case executionCommandId of
        None \<Rightarrow> archiveActive b
      | Some i \<Rightarrow>
          bindM (readM (\<lambda>s. getCommand s i)) (\<lambda>command.
          bindM (requireM (case command of None \<Rightarrow> False
                   | Some c \<Rightarrow> cBeeId c = b \<and> cVerb c = VArchive \<and> cStatus c = CRunning)
                   (ExecutionFenceError XcStale)) (\<lambda>_.
          bindM (commandAllowed i) (\<lambda>allowed.
            if allowed then archiveActive b else mustGetBee b))))"

definition executeArchiveCommand :: "nat \<Rightarrow> bool store_op" where
  "executeArchiveCommand i =
     bindM (readM (\<lambda>s. getCommand s i)) (\<lambda>command.
       case command of
         None \<Rightarrow> throwM (ExecutionFenceError XcStale)
       | Some c \<Rightarrow>
           bindM (requireM (cVerb c = VArchive \<and> cStatus c = CRunning) (ExecutionFenceError XcStale)) (\<lambda>_.
           bindM (commandAllowed i) (\<lambda>allowed.
             if \<not> allowed then returnM False
             else
               bindM (mustGetBee (cBeeId c)) (\<lambda>bee.
               bindM (whenM (bLifecycle bee = LActive) (bindM (archiveBee (bId bee) (Some i)) (\<lambda>_. returnM ()))) (\<lambda>_.
               bindM (executionCompleted i) (\<lambda>_. returnM True))))))"

definition unarchiveBee :: "string \<Rightarrow> bee_row store_op" where
  "unarchiveBee b =
     bindM (mustGetBee b) (\<lambda>bee.
     bindM (requireM (bLifecycle bee = LArchived) (IllegalTransitionError b)) (\<lambda>_. applyUnarchive b))"

text \<open>The arguments are given (possibly as null) or not.\<close>

definition reviveBee :: "string \<Rightarrow> (int \<times> int) option \<Rightarrow> string list option option \<Rightarrow> runtime_row store_op" where
  "reviveBee b proc args =
     bindM (mustGetBee b) (\<lambda>bee.
     bindM (refuseMailboxOnlyRuntime bee) (\<lambda>_.
     bindM (whenM (bLifecycle bee = LArchived) (bindM (applyUnarchive b) (\<lambda>_. returnM ()))) (\<lambda>_.
     bindM (readM (\<lambda>s. currentRuntime s b)) (\<lambda>current.
     bindM (requireM (case current of None \<Rightarrow> True | Some r \<Rightarrow> rState r = RStopped) (IllegalTransitionError b)) (\<lambda>_.
     bindM (case args of None \<Rightarrow> returnM () | Some nxt \<Rightarrow> bindM (applyArgs b nxt) (\<lambda>_. returnM ())) (\<lambda>_.
       insertRuntime b ((case current of None \<Rightarrow> 0 | Some r \<Rightarrow> rGeneration r) + 1) proc RBooting))))))"

definition renameBee :: "string \<Rightarrow> string \<Rightarrow> (bee_row \<times> bool) store_op" where
  "renameBee b name =
     bindM (requireNonEmpty (Some name) ''renameBee: name'') (\<lambda>_.
     bindM (mustGetBee b) (\<lambda>bee.
       if bName bee = name then returnM (bee, False)
       else
         bindM (updateBee (\<lambda>r. bId r = b) (\<lambda>r. r\<lparr>bName := name\<rparr>)) (\<lambda>_.
         bindM (audit (EvRun (RvBeeRenamed b name (bName bee)))) (\<lambda>_.
         bindM (mustGetBee b) (\<lambda>now. returnM (now, True))))))"

definition setBeeTitle :: "string \<Rightarrow> string \<Rightarrow> string \<Rightarrow> (bee_row \<times> bool) store_op" where
  "setBeeTitle b title source =
     bindM (requireNonEmpty (Some title) ''setBeeTitle: title'') (\<lambda>_.
     bindM (mustGetBee b) (\<lambda>bee.
       if bTitle bee = Some title then returnM (bee, False)
       else
         bindM (updateBee (\<lambda>r. bId r = b) (\<lambda>r. r\<lparr>bTitle := Some title\<rparr>)) (\<lambda>_.
         bindM (audit (EvRun (RvBeeTitled b title (bTitle bee) source))) (\<lambda>_.
         bindM (mustGetBee b) (\<lambda>now. returnM (now, True))))))"

fun append_new :: "string list \<Rightarrow> string list \<Rightarrow> string list" where
  "append_new acc [] = acc"
| "append_new acc (t # ts) = append_new (if t \<in> set acc then acc else acc @ [t]) ts"

definition editTags :: "string list \<Rightarrow> string list \<Rightarrow> string list \<Rightarrow> string list" where
  "editTags tags add remove = append_new (append_new [] (filter (\<lambda>t. t \<notin> set remove) tags)) add"

text \<open>The bee, whether it changed, and the tags it gained and lost.\<close>

definition tagBee :: "string \<Rightarrow> string list \<Rightarrow> string list \<Rightarrow> (bee_row \<times> bool \<times> string list \<times> string list) store_op" where
  "tagBee b add remove =
     bindM (mustGetBee b) (\<lambda>bee.
     (let nxt = editTags (bTags bee) add remove;
          removed = filter (\<lambda>t. t \<notin> set nxt) (bTags bee);
          added = filter (\<lambda>t. t \<notin> set (bTags bee)) nxt
      in if nxt = bTags bee then returnM (bee, False, [], [])
         else
           bindM (updateBee (\<lambda>r. bId r = b) (\<lambda>r. r\<lparr>bTags := nxt\<rparr>)) (\<lambda>_.
           bindM (audit (EvRun (RvBeeTagged b nxt (bTags bee) added removed))) (\<lambda>_.
           bindM (mustGetBee b) (\<lambda>now. returnM (now, True, added, removed))))))"

section \<open>After a restart of the machine\<close>

definition alive :: "(int \<times> int) list \<Rightarrow> runtime_row \<Rightarrow> bool" where
  "alive live r \<longleftrightarrow> (case (rPid r, rPidStartedAt r) of (Some p, Some t) \<Rightarrow> (p, t) \<in> set live | _ \<Rightarrow> False)"

definition stopAtBoot :: "runtime_row \<Rightarrow> unit store_op" where
  "stopAtBoot r =
     bindM (readM clock) (\<lambda>t.
     bindM (updateRuntime (rBeeId r) (rGeneration r)
              (\<lambda>x. x\<lparr>rState := RStopped, rExitCause := Some ExMachineRestart, rUpdatedAt := t\<rparr>)) (\<lambda>_.
     bindM (pauseMultilineDeliveryBee (rBeeId r)) (\<lambda>_.
     bindM (readM (\<lambda>s. findRuntime s (rBeeId r) (rGeneration r))) (\<lambda>updated.
       audit (EvRun (RvRuntimeUpdated updated None))))))"

text \<open>
  \<open>unresolved\<close> names the runtimes whose process could not be looked up. The commands that opening the
  store put back in the queue are part of the answer of the code and not of the model.
\<close>

definition reconcileAtBoot ::
  "(int \<times> int) list \<Rightarrow> (string \<times> nat) list \<Rightarrow> ((string \<times> nat) list \<times> (string \<times> nat \<times> int) list) store_op" where
  "reconcileAtBoot live unresolved =
     bindM (readM (\<lambda>s. sort_key runtimeKey (filter (\<lambda>r. rState r \<noteq> RStopped) (runtimes s)))) (\<lambda>rows.
     (let gone = filter (\<lambda>r. \<not> alive live r \<and> runtimeKey r \<notin> set unresolved) rows;
          stopped = map runtimeKey gone;
          adopted = map (\<lambda>r. (rBeeId r, rGeneration r, the (rPid r))) (filter (alive live) rows)
      in bindM (eachM gone stopAtBoot) (\<lambda>_.
         bindM (audit (EvRun (RvBootReconciled stopped adopted))) (\<lambda>_.
           returnM (stopped, adopted)))))"

end
