(* ===== verification/Command_Queue.thy ===== *)
theory Command_Queue
  imports Runtimes
begin

text \<open>
  The queue of commands (v2/core/src/store.ts): which queued command may run, claiming the next one with what
  it settles on the way, holding and deferring, the receipts of a tool reconnection, and finishing with
  bounded retries.
\<close>

section \<open>Rows\<close>

definition updateCommand :: "nat \<Rightarrow> (command_row \<Rightarrow> command_row) \<Rightarrow> unit store_op" where
  "updateCommand i f = modifyM (\<lambda>s. s\<lparr>commands := update_rows (\<lambda>c. cId c = i) f (commands s)\<rparr>)"

definition START_VERBS :: "verb list" where
  "START_VERBS = [VSpawn, VSendWake, VRevive]"

definition listDueRuntimeStartCommands :: "core \<Rightarrow> command_row list" where
  "listDueRuntimeStartCommands s =
     filter (\<lambda>c. cStatus c = CQueued \<and> cNextAttemptAt c \<le> clock s \<and> cVerb c \<in> set START_VERBS) (commands s)"

definition hasPendingReconnect :: "core \<Rightarrow> string \<Rightarrow> nat \<Rightarrow> bool" where
  "hasPendingReconnect s b generation \<longleftrightarrow>
     list_ex (\<lambda>c. cBeeId c = b \<and> cTargetGeneration c = Some generation \<and> cVerb c = VReconnectTools
                  \<and> (cStatus c = CQueued \<or> cStatus c = CRunning)) (commands s)"

section \<open>Which command may run\<close>

text \<open>The target generation of a command is booting or running a turn.\<close>

definition targetBusy :: "core \<Rightarrow> command_row \<Rightarrow> bool" where
  "targetBusy s c \<longleftrightarrow>
     list_ex (\<lambda>r. rBeeId r = cBeeId c \<and> Some (rGeneration r) = cTargetGeneration c
                  \<and> (rState r = RBooting \<or> rState r = RRunning)) (runtimes s)"

definition activeMove :: "core \<Rightarrow> string \<Rightarrow> move_row option" where
  "activeMove s b = Option.bind (Option.bind (getBee s b) bActiveMoveId) (getBeeMove s)"

definition activeHandoff :: "core \<Rightarrow> string \<Rightarrow> handoff_row option" where
  "activeHandoff s b = Option.bind (Option.bind (getBee s b) bActiveHandoffId) (getBeeHandoff s)"

definition threadIn :: "core \<Rightarrow> string \<Rightarrow> thread_phase list \<Rightarrow> bool" where
  "threadIn s b phases \<longleftrightarrow> list_ex (\<lambda>t. thSuccessorBeeId t = b \<and> thPhase t \<notin> set phases) (threads s)"

text \<open>The WHERE clause of the selection, one conjunct per condition; \<open>bl\<close> and \<open>ib\<close> are the two blocked sets of bees.\<close>

definition claimable :: "core \<Rightarrow> string list \<Rightarrow> string list \<Rightarrow> command_row \<Rightarrow> bool" where
  "claimable s bl ib c \<longleftrightarrow>
     cStatus c = CQueued \<and> cNextAttemptAt c \<le> clock s
     \<and> \<not> (cBeeId c \<in> set bl
          \<and> list_ex (\<lambda>p. cBeeId p = cBeeId c \<and> cStatus p = CQueued \<and> cVerb p \<in> set START_VERBS \<and> cId p \<le> cId c) (commands s))
     \<and> \<not> (cBeeId c \<in> set ib \<and> cVerb c \<in> {VStop, VArchive, VDelete, VSpawn, VSendWake, VRevive, VReconnectTools})
     \<and> \<not> (cVerb c = VReconnectTools \<and> targetBusy s c)
     \<and> \<not> (cVerb c = VReconnectTools
          \<and> list_ex (\<lambda>p. cBeeId p = cBeeId c \<and> cVerb p = VReconnectTools \<and> cStatus p = CRunning) (commands s))
     \<and> \<not> (cVerb c \<in> set START_VERBS \<and> threadIn s (cBeeId c) [ThStarting, ThReady])
     \<and> \<not> (cVerb c = VArchive \<and> threadIn s (cBeeId c) [ThReady])
     \<and> \<not> (cVerb c = VStop \<and> map_of (cArgs c) ''replacementArgs'' \<noteq> None \<and> targetBusy s c)
     \<and> \<not> (cVerb c = VStop \<and> map_of (cArgs c) ''waitForIdle'' \<in> {Some (JBool True), Some (JNum 1)} \<and> targetBusy s c)
     \<and> (case activeMove s (cBeeId c) of
          None \<Rightarrow> True
        | Some m \<Rightarrow>
            \<not> (cVerb c \<in> {VSpawn, VSendWake} \<and> mvPhase m \<in> {MvStopping, MvPlacing})
            \<and> \<not> (cVerb c = VRevive \<and> (mvPhase m \<noteq> MvStarting \<or> cIdempotencyKey c \<noteq> Some (mvReviveCommandKey m))))
     \<and> (case activeHandoff s (cBeeId c) of
          None \<Rightarrow> True
        | Some h \<Rightarrow>
            \<not> (cVerb c \<in> {VSpawn, VSendWake} \<and> hoPhase h \<in> {HoStopping, HoSummarizing})
            \<and> \<not> (cVerb c = VRevive \<and> (hoPhase h \<noteq> HoStarting \<or> cIdempotencyKey c \<noteq> Some (hoReviveCommandKey h))))"

text \<open>\<open>ORDER BY id LIMIT 1\<close>: rows are in the order of their ids.\<close>

definition nextClaimable :: "core \<Rightarrow> string list \<Rightarrow> string list \<Rightarrow> command_row option" where
  "nextClaimable s bl ib = List.find (claimable s bl ib) (commands s)"

section \<open>The receipts of a reconnection\<close>

record reconnect_receipt =
  rcOutcome :: string
  rcThreadId :: "string option"
  rcTargets :: json
  rcModelTools :: string

type_synonym reconnect_error = "string \<times> string"

definition receipt_json :: "reconnect_receipt \<Rightarrow> json" where
  "receipt_json r =
     JObj [(''outcome'', JStr (rcOutcome r)), (''threadId'', case rcThreadId r of None \<Rightarrow> JNull | Some t \<Rightarrow> JStr t),
           (''targets'', rcTargets r), (''modelTools'', JStr (rcModelTools r))]"

definition reconnect_result :: "reconnect_receipt option \<Rightarrow> reconnect_error option \<Rightarrow> json" where
  "reconnect_result receipt err =
     JObj [(''receipt'', case receipt of None \<Rightarrow> JNull | Some r \<Rightarrow> receipt_json r),
           (''error'', case err of None \<Rightarrow> JNull | Some (code, msg) \<Rightarrow> JObj [(''code'', JStr code), (''message'', JStr msg)])]"

definition staleReceipt :: reconnect_receipt where
  "staleReceipt = \<lparr>rcOutcome = ''stale_generation'', rcThreadId = None, rcTargets = JArr [], rcModelTools = ''not_refreshed''\<rparr>"

definition setReconnectResult :: "nat \<Rightarrow> reconnect_receipt option \<Rightarrow> reconnect_error option \<Rightarrow> unit store_op" where
  "setReconnectResult i receipt err =
     bindM (readM (\<lambda>s. getCommand s i)) (\<lambda>command.
       case command of
         None \<Rightarrow> throwM (CoreError ''not a reconnect command'')
       | Some c \<Rightarrow>
           bindM (requireM (cVerb c = VReconnectTools) (CoreError ''not a reconnect command'')) (\<lambda>_.
           (let args = js_set (cArgs c) ''reconnectResult'' (reconnect_result receipt err)
            in bindM (updateCommand i (\<lambda>x. x\<lparr>cArgs := args\<rparr>)) (\<lambda>_. audit (EvRun (RvCommandArgs (cBeeId c) i args))))))"

definition setReconnectTargets :: "nat \<Rightarrow> string list \<Rightarrow> unit store_op" where
  "setReconnectTargets i targets =
     bindM (readM (\<lambda>s. getCommand s i)) (\<lambda>command.
       case command of
         None \<Rightarrow> throwM (CoreError ''not a running reconnect command'')
       | Some c \<Rightarrow>
           bindM (requireM (cVerb c = VReconnectTools \<and> cStatus c = CRunning) (CoreError ''not a running reconnect command'')) (\<lambda>_.
             if js_get (cArgs c) ''reconnectTargets'' = Some (JArr (map JStr targets)) then returnM ()
             else
               (let args = js_set (cArgs c) ''reconnectTargets'' (JArr (map JStr targets))
                in bindM (updateCommand i (\<lambda>x. x\<lparr>cArgs := args\<rparr>)) (\<lambda>_. audit (EvRun (RvCommandArgs (cBeeId c) i args))))))"

section \<open>Claiming\<close>

definition normalizeBeeArgs :: "json option \<Rightarrow> string \<Rightarrow> string list option store_op" where
  "normalizeBeeArgs v where' =
     (if is_undef_or_null v then returnM None
      else bindM (requireM (case v of Some (JArr xs) \<Rightarrow> list_all (\<lambda>x. case x of JStr _ \<Rightarrow> True | _ \<Rightarrow> False) xs | _ \<Rightarrow> False)
                    (CoreError (where' @ '': args must be an array of strings or null''))) (\<lambda>_. returnM (json_args v)))"

text \<open>An empty reason is one that the event does not carry.\<close>

definition mootStale :: "command_row \<Rightarrow> string \<Rightarrow> unit store_op" where
  "mootStale c reason =
     bindM (readM (\<lambda>s. case currentGeneration s (cBeeId c) of Some g \<Rightarrow> g | None \<Rightarrow> 0)) (\<lambda>g.
       mootCommand c (cBeeId c) g reason)"

definition LIFECYCLE_VERBS :: "verb list" where
  "LIFECYCLE_VERBS = [VStop, VArchive, VDelete, VRevive]"

definition restarts :: "command_row \<Rightarrow> bool" where
  "restarts c \<longleftrightarrow> cVerb c = VRevive \<or> js_get (cArgs c) ''thenRevive'' = Some (JBool True)"

text \<open>
  An operator's lifecycle command supersedes a move that it is not older than; an older restart is moot. True
  means that the command was settled and the loop goes on. The same for a handoff.
\<close>

definition claimDuringMove :: "command_row \<Rightarrow> string option \<Rightarrow> bool store_op" where
  "claimDuringMove c moveId =
     bindM (readM (\<lambda>s. Option.bind moveId (getBeeMove s))) (\<lambda>move.
       case move of
         None \<Rightarrow> returnM False
       | Some m \<Rightarrow>
           if cIdempotencyKey c = Some (mvStopCommandKey m) \<or> cIdempotencyKey c = Some (mvReviveCommandKey m) then returnM False
           else if mvCreatedAt m \<le> cEnqueuedAt c \<and> lifecycleCommandSupersedesMove (cVerb c) (cArgs c)
           then bindM (applySupersedeBeeMove (mvId m) (supersedeFailure (cVerb c))) (\<lambda>_.
                bindM (rearmWakeIfFencedMail (cBeeId c)) (\<lambda>_. returnM False))
           else if restarts c then bindM (mootStale c ''stale_before_move'') (\<lambda>_. returnM True)
           else returnM False)"

definition claimDuringHandoff :: "command_row \<Rightarrow> string option \<Rightarrow> bool store_op" where
  "claimDuringHandoff c handoffId =
     bindM (readM (\<lambda>s. Option.bind handoffId (getBeeHandoff s))) (\<lambda>handoff.
       case handoff of
         None \<Rightarrow> returnM False
       | Some h \<Rightarrow>
           if cIdempotencyKey c = Some (hoStopCommandKey h) \<or> cIdempotencyKey c = Some (hoReviveCommandKey h) then returnM False
           else if hoCreatedAt h \<le> cEnqueuedAt c \<and> lifecycleCommandSupersedesMove (cVerb c) (cArgs c)
           then bindM (applySupersedeBeeHandoff (hoId h) (supersedeFailure (cVerb c))) (\<lambda>_.
                bindM (rearmWakeIfFencedMail (cBeeId c)) (\<lambda>_. returnM False))
           else if restarts c then bindM (mootStale c ''stale_before_handoff'') (\<lambda>_. returnM True)
           else returnM False)"

definition claimPlacement :: "command_row \<Rightarrow> bool store_op" where
  "claimPlacement c =
     (if cVerb c \<notin> set LIFECYCLE_VERBS then returnM False
      else
        bindM (readM (\<lambda>s. getBee s (cBeeId c))) (\<lambda>bee.
        bindM (claimDuringMove c (Option.bind bee bActiveMoveId)) (\<lambda>moot.
          if moot then returnM True else claimDuringHandoff c (Option.bind bee bActiveHandoffId))))"

text \<open>A command for another generation, a stop of what is stopped and a model change that outlived its runtime are moot.\<close>

definition claimForTarget :: "command_row \<Rightarrow> bool store_op" where
  "claimForTarget c =
     (case cTargetGeneration c of
        None \<Rightarrow> returnM False
      | Some target \<Rightarrow>
          bindM (readM (\<lambda>s. currentRuntime s (cBeeId c))) (\<lambda>current.
          (let generation = (case current of Some r \<Rightarrow> rGeneration r | None \<Rightarrow> 0);
               stopped = (case current of Some r \<Rightarrow> rState r = RStopped | None \<Rightarrow> False);
               replacement = js_get (cArgs c) ''replacementArgs''
           in if generation \<noteq> target
              then bindM (whenM (cVerb c = VReconnectTools) (setReconnectResult (cId c) (Some staleReceipt) None)) (\<lambda>_.
                   bindM (mootCommand c (cBeeId c) generation '''') (\<lambda>_. returnM True))
              else if cVerb c = VStop \<and> stopped \<and> replacement = None
              then bindM (mootCommand c (cBeeId c) generation ''already_stopped'') (\<lambda>_. returnM True)
              else if cVerb c = VStop \<and> stopped \<and> rExitCause (the current) \<notin> {Some ExStoppedBySystem, Some ExMachineRestart}
              then bindM (whenM (js_get (cArgs c) ''argsApplied'' \<noteq> Some (JBool True))
                            (bindM (normalizeBeeArgs replacement ''claimNextCommand'') (\<lambda>nxt.
                             bindM (applyArgs (cBeeId c) nxt) (\<lambda>_. returnM ())))) (\<lambda>_.
                   bindM (mootModelChange c ''runtime_ended_before_restart'') (\<lambda>_. returnM True))
              else returnM False)))"

datatype claim_round = ClAgain | ClNothing | ClClaimed command_row

text \<open>One pass of the loop.\<close>

definition claimRound :: "string list \<Rightarrow> string list \<Rightarrow> claim_round store_op" where
  "claimRound bl ib =
     bindM (readM (\<lambda>s. nextClaimable s bl ib)) (\<lambda>row.
       case row of
         None \<Rightarrow> returnM ClNothing
       | Some c \<Rightarrow>
           bindM (commandAllowed (cId c)) (\<lambda>allowed.
             if \<not> allowed then returnM ClAgain
             else
               bindM (claimPlacement c) (\<lambda>moot.
                 if moot then returnM ClAgain
                 else
                   bindM (claimForTarget c) (\<lambda>stale.
                     if stale then returnM ClAgain
                     else
                       bindM (updateCommand (cId c) (\<lambda>x. x\<lparr>cStatus := CRunning\<rparr>)) (\<lambda>_.
                       bindM (audit (EvRun (RvCommandClaimed (cBeeId c) (cId c)))) (\<lambda>_.
                         returnM (ClClaimed (c\<lparr>cStatus := CRunning\<rparr>))))))))"

text \<open>The loop in its transaction; a loop that does not end has no value.\<close>

partial_function (option) claimNextCommand ::
  "string list \<Rightarrow> string list \<Rightarrow> core \<Rightarrow> (core_error + command_row option \<times> core) option" where
  "claimNextCommand bl ib s =
     (case claimRound bl ib s of
        Inl e \<Rightarrow> Some (Inl e)
      | Inr (ClNothing, s') \<Rightarrow> Some (Inr (None, s'))
      | Inr (ClClaimed c, s') \<Rightarrow> Some (Inr (Some c, s'))
      | Inr (ClAgain, s') \<Rightarrow> claimNextCommand bl ib s')"

section \<open>Finishing, holding and deferring\<close>

definition completeCommand :: "nat \<Rightarrow> bool store_op" where
  "completeCommand i =
     bindM (readM (\<lambda>s. (getCommand s i, clock s))) (\<lambda>(command, t).
       case command of
         None \<Rightarrow> throwM (CoreError ''command not found'')
       | Some c \<Rightarrow>
           if cStatus c = CDone then bindM (audit (EvRun (RvCommandCompleteNoop (cBeeId c) i))) (\<lambda>_. returnM False)
           else
             bindM (requireM (cStatus c = CRunning) CommandProtocolError) (\<lambda>_.
             bindM (updateCommand i (\<lambda>x. x\<lparr>cStatus := CDone, cFinishedAt := Some t\<rparr>)) (\<lambda>_.
             bindM (audit (EvRun (RvCommandCompleted (cBeeId c) i t))) (\<lambda>_. returnM True))))"

definition cause_name :: "flag_name \<Rightarrow> string" where
  "cause_name f =
     (case f of FAuthNeeded \<Rightarrow> ''auth_needed'' | FResourceBlocked \<Rightarrow> ''resource_blocked''
      | FSpawnFailed \<Rightarrow> ''spawn_failed'' | FNodeUnreachable \<Rightarrow> ''node_unreachable'')"

definition cause_of :: "string \<Rightarrow> flag_name option" where
  "cause_of x = List.find (\<lambda>f. cause_name f = x) [FAuthNeeded, FResourceBlocked, FSpawnFailed, FNodeUnreachable]"

definition failureText :: "command_row \<Rightarrow> nat \<Rightarrow> flag_name \<Rightarrow> string option \<Rightarrow> string" where
  "failureText c attempts cause detail =
     (case detail of
        Some d \<Rightarrow> d
      | None \<Rightarrow> verb_text (cVerb c) @ '' failed after '' @ nat_text attempts @ '' attempts: '' @ cause_name cause)"

text \<open>The status, the attempts and the time of the next one.\<close>

definition reportCommandFailure ::
  "nat \<Rightarrow> string \<Rightarrow> string option \<Rightarrow> (command_status \<times> nat \<times> int option) store_op" where
  "reportCommandFailure i causeName detail =
     (case cause_of causeName of
        None \<Rightarrow> throwM UnknownFailureCauseError
      | Some cause \<Rightarrow>
          bindM (readM (\<lambda>s. s)) (\<lambda>s.
            case getCommand s i of
              None \<Rightarrow> throwM (CoreError ''command not found'')
            | Some c \<Rightarrow>
                bindM (requireM (cStatus c = CRunning) CommandProtocolError) (\<lambda>_.
                (let attempts = cAttempts c + 1
                 in if maxAttempts s \<le> attempts
                    then
                      bindM (updateCommand i (\<lambda>x. x\<lparr>cStatus := CFailed, cAttempts := attempts,
                               cFinishedAt := Some (clock s), cFailureCause := Some cause\<rparr>)) (\<lambda>_.
                      bindM (audit (EvRun (RvCommandFailed (cBeeId c) i attempts (clock s) cause))) (\<lambda>_.
                      bindM (readM (\<lambda>s1. getBee s1 (cBeeId c) \<noteq> None)) (\<lambda>known.
                      bindM (whenM known (bindM (applySetFlag (cBeeId c) cause (failureText c attempts cause detail) None) (\<lambda>_. returnM ()))) (\<lambda>_.
                        returnM (CFailed, attempts, None)))))
                    else
                      (let nxt = clock s + backoffBaseMs s * 2 ^ (attempts - 1)
                       in bindM (updateCommand i (\<lambda>x. x\<lparr>cStatus := CQueued, cAttempts := attempts, cNextAttemptAt := nxt\<rparr>)) (\<lambda>_.
                          bindM (audit (EvRun (RvCommandRequeued (cBeeId c) i attempts nxt (Some (cause, detail))))) (\<lambda>_.
                            returnM (CQueued, attempts, Some nxt))))))))"

definition holdIdentityCommand :: "nat \<Rightarrow> unit store_op" where
  "holdIdentityCommand i =
     bindM (readM (\<lambda>s. (getCommand s i, clock s))) (\<lambda>(command, t).
       case command of
         None \<Rightarrow> returnM ()
       | Some c \<Rightarrow>
           whenM (cStatus c = CRunning)
             (thenM (updateCommand i (\<lambda>x. x\<lparr>cStatus := CQueued, cNextAttemptAt := t + 1000\<rparr>))
                (audit (EvRun (RvCommandIdentityPending (cBeeId c) i)))))"

definition holdExecutionCommand :: "nat \<Rightarrow> string \<Rightarrow> unit store_op" where
  "holdExecutionCommand i code =
     bindM (readM (\<lambda>s. getCommand s i)) (\<lambda>command.
       case command of
         None \<Rightarrow> returnM ()
       | Some c \<Rightarrow>
           whenM (cStatus c = CRunning)
             (thenM (updateCommand i (\<lambda>x. x\<lparr>cStatus := CQueued, cArgs := js_set (cArgs c) ''executionHold'' (JStr code)\<rparr>))
                (whenM (js_get (cArgs c) ''executionHold'' \<noteq> Some (JStr code)) (audit (EvRun (RvCommandHeld (cBeeId c) i code))))))"

definition bootHangStop :: "command_row option \<Rightarrow> bool" where
  "bootHangStop command =
     (case command of
        None \<Rightarrow> False
      | Some c \<Rightarrow> cStatus c = CRunning \<and> cVerb c = VStop
          \<and> js_get (cArgs c) ''cause'' = Some (JStr ''stopped_by_system'') \<and> js_get (cArgs c) ''reason'' = Some (JStr ''hang_policy''))"

definition deferBootHangStop :: "nat \<Rightarrow> int \<Rightarrow> unit store_op" where
  "deferBootHangStop i nextAttemptAt =
     bindM (readM (\<lambda>s. (getCommand s i, clock s))) (\<lambda>(command, t).
     bindM (requireM (bootHangStop command \<and> t < nextAttemptAt) CommandProtocolError) (\<lambda>_.
     bindM (updateCommand i (\<lambda>x. x\<lparr>cStatus := CQueued, cNextAttemptAt := nextAttemptAt\<rparr>)) (\<lambda>_.
       audit (EvRun (RvCommandDeferred (cBeeId (the command)) i (cTargetGeneration (the command)) nextAttemptAt)))))"

definition skipBootHangStop :: "nat \<Rightarrow> unit store_op" where
  "skipBootHangStop i =
     bindM (readM (\<lambda>s. getCommand s i)) (\<lambda>command.
     bindM (requireM (bootHangStop command) CommandProtocolError) (\<lambda>_.
     bindM (updateCommand i (\<lambda>x. x\<lparr>cArgs := js_set (cArgs (the command)) ''hangPolicySkipped'' (JBool True)\<rparr>)) (\<lambda>_.
     bindM (audit (EvRun (RvCommandReady (cBeeId (the command)) i (cTargetGeneration (the command))))) (\<lambda>_.
     bindM (completeCommand i) (\<lambda>_. returnM ())))))"

text \<open>A reconnection settles with its receipt; an error of the tool control is a blocked resource.\<close>

definition settleReconnect :: "nat \<Rightarrow> reconnect_receipt option \<Rightarrow> reconnect_error option \<Rightarrow> unit store_op" where
  "settleReconnect i receipt err =
     bindM (readM (\<lambda>s. s)) (\<lambda>s.
       case getCommand s i of
         None \<Rightarrow> returnM ()
       | Some c \<Rightarrow>
           if cStatus c \<noteq> CRunning then returnM ()
           else
             (let generation = currentGeneration s (cBeeId c);
                  stale = (generation = None \<or> generation \<noteq> cTargetGeneration c);
                  receipt' =
                    (if stale then Some staleReceipt
                     else case receipt of
                       None \<Rightarrow> None
                     | Some r \<Rightarrow>
                         if rcOutcome r = ''reloaded''
                         then Some (r\<lparr>rcTargets := (case js_get (cArgs c) ''reconnectTargets'' of
                                None \<Rightarrow> rcTargets r | Some JNull \<Rightarrow> rcTargets r | Some v \<Rightarrow> v)\<rparr>)
                         else Some r);
                  err' = (if stale then None else err)
              in bindM (setReconnectResult i receipt' err') (\<lambda>_.
                 if err' = None then bindM (completeCommand i) (\<lambda>_. returnM ())
                 else
                   bindM (updateCommand i (\<lambda>x. x\<lparr>cStatus := CFailed, cFinishedAt := Some (clock s),
                            cFailureCause := Some FResourceBlocked\<rparr>)) (\<lambda>_.
                     audit (EvRun (RvCommandFailed (cBeeId c) i (cAttempts c) (clock s) FResourceBlocked))))))"

definition deferReconnect :: "nat \<Rightarrow> unit store_op" where
  "deferReconnect i =
     bindM (readM (\<lambda>s. s)) (\<lambda>s.
       case getCommand s i of
         None \<Rightarrow> returnM ()
       | Some c \<Rightarrow>
           if cStatus c \<noteq> CRunning then returnM ()
           else
             (let attempts = cAttempts c + 1; nxt = clock s + 1000 * 2 ^ cAttempts c
              in if maxAttempts s \<le> attempts
                 then settleReconnect i None
                        (Some (''reconnect_not_ready'', ''Runtime control did not become ready after bounded retries''))
                 else
                   bindM (updateCommand i (\<lambda>x. x\<lparr>cStatus := CQueued, cAttempts := attempts, cNextAttemptAt := nxt\<rparr>)) (\<lambda>_.
                     audit (EvRun (RvCommandRequeued (cBeeId c) i attempts nxt None)))))"

end
