(* ===== verification/Runtime_History.thy ===== *)
theory Runtime_History
  imports Runtimes Command_Port Samples
begin

text \<open>
  What the operations on runtimes do to the table over any run: its rows stay well formed, one generation of
  a bee is alive at a time, a stopped generation never changes again, and a boot that was real stays so.
\<close>

section \<open>The current runtime\<close>

lemma current_fold:
  "foldl (\<lambda>best r. if rBeeId r \<noteq> b then best else case best of None \<Rightarrow> Some r
      | Some c \<Rightarrow> if rGeneration c < rGeneration r then Some r else best) best rs = out \<Longrightarrow>
   (\<forall>c. best = Some c \<longrightarrow> rBeeId c = b) \<Longrightarrow>
   (case out of
      None \<Rightarrow> best = None \<and> (\<forall>r \<in> set rs. rBeeId r \<noteq> b)
    | Some c \<Rightarrow> rBeeId c = b \<and> (best = Some c \<or> c \<in> set rs) \<and> (\<forall>r \<in> set rs \<union> set_option best. rBeeId r = b \<longrightarrow> rGeneration r \<le> rGeneration c))"
proof (induction rs arbitrary: best)
  case Nil
  then show ?case by (cases best) auto
next
  case (Cons r rs)
  let ?next = "if rBeeId r \<noteq> b then best else case best of None \<Rightarrow> Some r
      | Some c \<Rightarrow> if rGeneration c < rGeneration r then Some r else best"
  have fold: "foldl (\<lambda>best r. if rBeeId r \<noteq> b then best else case best of None \<Rightarrow> Some r
      | Some c \<Rightarrow> if rGeneration c < rGeneration r then Some r else best) ?next rs = out"
    using Cons.prems(1) by simp
  have "\<forall>c. ?next = Some c \<longrightarrow> rBeeId c = b" using Cons.prems(2) by (auto split: option.splits if_splits)
  from Cons.IH [OF fold this] Cons.prems(2) show ?case
    by (cases out; cases best; cases "rBeeId r = b") (auto split: if_splits)
qed

lemma currentRuntime_Some:
  "currentRuntime s b = Some r \<Longrightarrow> r \<in> set (runtimes s) \<and> rBeeId r = b
     \<and> (\<forall>x \<in> set (runtimes s). rBeeId x = b \<longrightarrow> rGeneration x \<le> rGeneration r)"
  using current_fold [of b None "runtimes s" "currentRuntime s b"] by (simp add: currentRuntime_def)

lemma currentRuntime_None: "currentRuntime s b = None \<longleftrightarrow> (\<forall>x \<in> set (runtimes s). rBeeId x \<noteq> b)"
  using current_fold [of b None "runtimes s" "currentRuntime s b"] by (auto simp: currentRuntime_def split: option.splits)

section \<open>The writes to the table\<close>

text \<open>What one write does to a row that is not stopped.\<close>

definition row_step :: "runtime_row \<Rightarrow> runtime_row \<Rightarrow> bool" where
  "row_step r r' \<longleftrightarrow>
     runtimeKey r' = runtimeKey r \<and> rStartedAt r' = rStartedAt r
     \<and> (if rState r' = rState r then rExitCause r' = rExitCause r
        else rState r' \<in> set (RUNTIME_TRANSITIONS (rState r)) \<and> (rState r' = RStopped \<longleftrightarrow> rExitCause r' \<noteq> None))
     \<and> (rBootEvidence r = Some BeReal \<longrightarrow> rBootEvidence r' = Some BeReal)"

definition new_row :: "string \<Rightarrow> nat \<Rightarrow> runtime_row \<Rightarrow> bool" where
  "new_row b g r \<longleftrightarrow>
     runtimeKey r = (b, g) \<and> (rState r = RBooting \<or> rState r = RStopped) \<and> (rState r = RStopped \<longleftrightarrow> rExitCause r \<noteq> None)
     \<and> rBootEvidence r = None"

definition nextRuntime :: "core \<Rightarrow> string \<Rightarrow> nat" where
  "nextRuntime s b = (case currentRuntime s b of None \<Rightarrow> 0 | Some r \<Rightarrow> rGeneration r) + 1"

inductive rt_write :: "core \<Rightarrow> core \<Rightarrow> bool" where
  RtSame: "runtimes s' = runtimes s \<Longrightarrow> rt_write s s'"
| RtNew: "(\<And>r. currentRuntime s b = Some r \<Longrightarrow> rState r = RStopped) \<Longrightarrow> new_row b (nextRuntime s b) r \<Longrightarrow>
    runtimes s' = runtimes s @ [r] \<Longrightarrow> rt_write s s'"
| RtRow: "r \<in> set (runtimes s) \<Longrightarrow> rState r \<noteq> RStopped \<Longrightarrow> row_step r (f r) \<Longrightarrow>
    runtimes s' = update_rows (\<lambda>x. runtimeKey x = runtimeKey r) f (runtimes s) \<Longrightarrow> rt_write s s'"

abbreviation rt_writes :: "'a store_op \<Rightarrow> bool" where
  "rt_writes m \<equiv> runs_in rt_write m"

lemma rt_frame: "frames runtimes m \<Longrightarrow> rt_writes m"
  by (rule runs_frame) (rule RtSame)

text \<open>The table as the schema and the code keep it.\<close>

definition rt_ok :: "runtime_row list \<Rightarrow> bool" where
  "rt_ok rs \<longleftrightarrow>
     distinct (map runtimeKey rs)
     \<and> (\<forall>r \<in> set rs. 1 \<le> rGeneration r \<and> (rState r = RStopped \<longleftrightarrow> rExitCause r \<noteq> None)
          \<and> (\<forall>g. 1 \<le> g \<and> g < rGeneration r \<longrightarrow> (rBeeId r, g) \<in> runtimeKey ` set rs)
          \<and> (\<forall>x \<in> set rs. rBeeId x = rBeeId r \<and> rGeneration r < rGeneration x \<longrightarrow> rState r = RStopped))"

text \<open>A row of before and the same row later.\<close>

definition rt_evolves :: "runtime_row \<Rightarrow> runtime_row \<Rightarrow> bool" where
  "rt_evolves r r' \<longleftrightarrow>
     runtimeKey r' = runtimeKey r \<and> rStartedAt r' = rStartedAt r
     \<and> (rState r = RStopped \<longrightarrow> r' = r) \<and> (rState r \<noteq> RBooting \<longrightarrow> rState r' \<noteq> RBooting)
     \<and> (rBootEvidence r = Some BeReal \<longrightarrow> rBootEvidence r' = Some BeReal)"

lemma row_step_evolves: "rState r \<noteq> RStopped \<Longrightarrow> row_step r r' \<Longrightarrow> rt_evolves r r'"
  by (cases "rState r") (auto simp: row_step_def rt_evolves_def split: if_splits)

lemma key_row: "rt_ok rs \<Longrightarrow> r \<in> set rs \<Longrightarrow> x \<in> set rs \<Longrightarrow> runtimeKey x = runtimeKey r \<Longrightarrow> x = r"
  by (auto simp: rt_ok_def distinct_map inj_on_def)

lemma rt_okD:
  assumes "rt_ok rs" "r \<in> set rs"
  shows "1 \<le> rGeneration r" and "rState r = RStopped \<longleftrightarrow> rExitCause r \<noteq> None"
    and "1 \<le> g \<Longrightarrow> g < rGeneration r \<Longrightarrow> (rBeeId r, g) \<in> runtimeKey ` set rs"
    and "x \<in> set rs \<Longrightarrow> rBeeId x = rBeeId r \<Longrightarrow> rGeneration r < rGeneration x \<Longrightarrow> rState r = RStopped"
  using assms by (auto simp: rt_ok_def)

lemma update_row_cases:
  assumes "rt_ok rs" "r \<in> set rs" "x \<in> set (update_rows (\<lambda>x. runtimeKey x = runtimeKey r) f rs)"
  shows "x = f r \<or> (x \<in> set rs \<and> runtimeKey x \<noteq> runtimeKey r)"
  using assms key_row [OF assms(1,2)] by (auto simp: update_rows_def split: if_splits)

lemma rt_ok_new:
  assumes ok: "rt_ok (runtimes s)" and stopped: "\<And>r. currentRuntime s b = Some r \<Longrightarrow> rState r = RStopped"
    and new: "new_row b (nextRuntime s b) r"
  shows "rt_ok (runtimes s @ [r])"
proof -
  let ?rs = "runtimes s" and ?g = "nextRuntime s b"
  have key: "rBeeId r = b" "rGeneration r = ?g" and cause: "rState r = RStopped \<longleftrightarrow> rExitCause r \<noteq> None"
    using new by (auto simp: new_row_def runtimeKey_def)
  have below: "rGeneration x < ?g" if "x \<in> set ?rs" "rBeeId x = b" for x
  proof (cases "currentRuntime s b")
    case None
    with that show ?thesis by (simp add: currentRuntime_None)
  next
    case (Some c)
    with currentRuntime_Some [OF Some] that show ?thesis by (simp add: nextRuntime_def less_Suc_eq_le)
  qed
  have allstopped: "rState x = RStopped" if x: "x \<in> set ?rs" "rBeeId x = b" for x
  proof (cases "currentRuntime s b")
    case None
    with x show ?thesis by (simp add: currentRuntime_None)
  next
    case (Some c)
    note C = currentRuntime_Some [OF Some]
    show ?thesis
    proof (cases "rGeneration x = rGeneration c")
      case True
      with C x have "x = c" by (intro key_row [OF ok]) (auto simp: runtimeKey_def)
      with stopped [OF Some] show ?thesis by simp
    next
      case False
      with C x have "rGeneration x < rGeneration c" by (simp add: order_le_neq_trans)
      with ok C x show ?thesis by (auto simp: rt_ok_def)
    qed
  qed
  have fill: "(b, h) \<in> runtimeKey ` set ?rs" if h: "1 \<le> h" "h < ?g" for h
  proof (cases "currentRuntime s b")
    case None
    with h show ?thesis by (simp add: nextRuntime_def)
  next
    case (Some c)
    note C = currentRuntime_Some [OF Some]
    show ?thesis
    proof (cases "h = rGeneration c")
      case True
      with C show ?thesis by (auto simp: runtimeKey_def image_iff)
    next
      case False
      with h Some have "h < rGeneration c" by (simp add: nextRuntime_def)
      with ok C h(1) show ?thesis by (auto simp: rt_ok_def)
    qed
  qed
  have fresh: "runtimeKey r \<notin> runtimeKey ` set ?rs"
  proof
    assume "runtimeKey r \<in> runtimeKey ` set ?rs"
    then obtain x where "x \<in> set ?rs" "runtimeKey x = runtimeKey r" by auto
    with below [of x] key show False by (simp add: runtimeKey_def)
  qed
  have one: "1 \<le> rGeneration r" using key by (simp add: nextRuntime_def)
  have old: "1 \<le> rGeneration x \<and> (rState x = RStopped \<longleftrightarrow> rExitCause x \<noteq> None)
      \<and> (\<forall>g. 1 \<le> g \<and> g < rGeneration x \<longrightarrow> (rBeeId x, g) \<in> runtimeKey ` set (?rs @ [r]))
      \<and> (\<forall>y \<in> set (?rs @ [r]). rBeeId y = rBeeId x \<and> rGeneration x < rGeneration y \<longrightarrow> rState x = RStopped)"
    if x: "x \<in> set ?rs" for x
    using ok x allstopped [OF x] key by (auto simp: rt_ok_def)
  have last: "(\<forall>g. 1 \<le> g \<and> g < rGeneration r \<longrightarrow> (rBeeId r, g) \<in> runtimeKey ` set (?rs @ [r]))
      \<and> (\<forall>y \<in> set (?rs @ [r]). rBeeId y = rBeeId r \<and> rGeneration r < rGeneration y \<longrightarrow> rState r = RStopped)"
  proof -
    have "\<not> rGeneration r < rGeneration y" if "y \<in> set (?rs @ [r])" "rBeeId y = rBeeId r" for y
      using that below [of y] key by auto
    then show ?thesis using fill key by auto
  qed
  have "distinct (map runtimeKey (?rs @ [r]))" using ok fresh by (simp add: rt_ok_def)
  then show ?thesis using old last one cause unfolding rt_ok_def by simp
qed

lemma rt_ok_row:
  assumes ok: "rt_ok rs" and r: "r \<in> set rs" "rState r \<noteq> RStopped" and step: "row_step r (f r)"
  shows "rt_ok (update_rows (\<lambda>x. runtimeKey x = runtimeKey r) f rs)"
proof -
  let ?rs' = "update_rows (\<lambda>x. runtimeKey x = runtimeKey r) f rs"
  have f: "runtimeKey (f r) = runtimeKey r" using step by (simp add: row_step_def)
  have keys: "map runtimeKey ?rs' = map runtimeKey rs"
    using key_row [OF ok r(1)] f by (auto simp: update_rows_def)
  then have keyset: "runtimeKey ` set ?rs' = runtimeKey ` set rs" by (metis set_map)
  have same: "rBeeId (f r) = rBeeId r" "rGeneration (f r) = rGeneration r" using f by (simp_all add: runtimeKey_def)
  have top: "\<not> (rBeeId x = rBeeId r \<and> rGeneration r < rGeneration x)" if "x \<in> set rs" for x
    using rt_okD(4) [OF ok r(1) that] r(2) by blast
  have row: "1 \<le> rGeneration x \<and> (rState x = RStopped \<longleftrightarrow> rExitCause x \<noteq> None)
      \<and> (\<forall>g. 1 \<le> g \<and> g < rGeneration x \<longrightarrow> (rBeeId x, g) \<in> runtimeKey ` set rs)
      \<and> (\<forall>y \<in> set ?rs'. rBeeId y = rBeeId x \<and> rGeneration x < rGeneration y \<longrightarrow> rState x = RStopped)"
    if x: "x \<in> set ?rs'" for x
  proof -
    have old: "\<exists>z \<in> set rs. runtimeKey z = runtimeKey y \<and> (z = y \<or> y = f r \<and> z = r)" if "y \<in> set ?rs'" for y
      using update_row_cases [OF ok r(1) that] r(1) f by auto
    from update_row_cases [OF ok r(1) x] show ?thesis
    proof
      assume x': "x = f r"
      have "\<not> (rBeeId y = rBeeId x \<and> rGeneration x < rGeneration y)" if y: "y \<in> set ?rs'" for y
      proof -
        obtain z where "z \<in> set rs" "rBeeId z = rBeeId y" "rGeneration z = rGeneration y"
          using old [OF y] by (auto simp: runtimeKey_def)
        with top [of z] show ?thesis by (simp only: x' same) simp
      qed
      moreover have "rState x = RStopped \<longleftrightarrow> rExitCause x \<noteq> None" 
        using step x' rt_okD(2) [OF ok r(1)] by (auto simp: row_step_def split: if_splits)
      moreover have "(rBeeId x, g) \<in> runtimeKey ` set rs" if "1 \<le> g" "g < rGeneration x" for g
        using rt_okD(3) [OF ok r(1), of g] that x' same by simp
      moreover have "1 \<le> rGeneration x" using rt_okD(1) [OF ok r(1)] x' same by simp
      ultimately show ?thesis by blast
    next
      assume x': "x \<in> set rs \<and> runtimeKey x \<noteq> runtimeKey r"
      have "rState x = RStopped" if y: "y \<in> set ?rs'" "rBeeId y = rBeeId x \<and> rGeneration x < rGeneration y" for y
      proof -
        obtain z where "z \<in> set rs" "runtimeKey z = runtimeKey y" using old [OF y(1)] by blast
        with y(2) rt_okD(4) [OF ok, of x z] x' show ?thesis by (simp add: runtimeKey_def)
      qed
      moreover have "(rBeeId x, g) \<in> runtimeKey ` set rs" if "1 \<le> g" "g < rGeneration x" for g
        using rt_okD(3) [OF ok, of x g] that x' by blast
      moreover have "1 \<le> rGeneration x" "rState x = RStopped \<longleftrightarrow> rExitCause x \<noteq> None"
        using rt_okD(1,2) [OF ok, of x] x' by blast+
      ultimately show ?thesis by blast
    qed
  qed
  show ?thesis using ok row unfolding rt_ok_def keys keyset by blast
qed

lemma rt_write_ok: "rt_write s s' \<Longrightarrow> rt_ok (runtimes s) \<Longrightarrow> rt_ok (runtimes s')"
  by (induction rule: rt_write.induct) (auto intro: rt_ok_new rt_ok_row)

lemma rt_evolves_refl: "rt_evolves r r"
  by (simp add: rt_evolves_def)

lemma rt_evolves_trans: "rt_evolves a b \<Longrightarrow> rt_evolves b c \<Longrightarrow> rt_evolves a c"
  by (auto simp: rt_evolves_def)

lemma rt_write_evolves:
  assumes "rt_write s s'" "rt_ok (runtimes s)" "x \<in> set (runtimes s)"
  shows "\<exists>x' \<in> set (runtimes s'). rt_evolves x x'"
  using assms(1)
proof cases
  case (RtRow r f)
  show ?thesis
  proof (cases "runtimeKey x = runtimeKey r")
    case True
    with key_row [OF assms(2) RtRow(1) assms(3)] have "x = r" by simp
    with RtRow assms(3) show ?thesis
      by (intro bexI [of _ "f r"]) (auto simp: row_step_evolves update_rows_def)
  next
    case False
    with RtRow assms(3) show ?thesis
      by (intro bexI [of _ x]) (auto simp: rt_evolves_refl update_rows_def image_iff intro!: bexI [of _ x])
  qed
qed (use assms(3) rt_evolves_refl in auto)

lemma rt_writes_ok: "rt_write\<^sup>*\<^sup>* s s' \<Longrightarrow> rt_ok (runtimes s) \<Longrightarrow> rt_ok (runtimes s')"
  by (induction rule: rtranclp_induct) (auto intro: rt_write_ok)

lemma rt_writes_evolve:
  assumes "rt_write\<^sup>*\<^sup>* s s'" "rt_ok (runtimes s)" "x \<in> set (runtimes s)"
  shows "\<exists>x' \<in> set (runtimes s'). rt_evolves x x'"
  using assms(1)
proof (induction rule: rtranclp_induct)
  case base
  then show ?case using assms(3) rt_evolves_refl by blast
next
  case (step s1 s2)
  then show ?case using rt_write_evolves [OF step.hyps(2)] rt_writes_ok [OF step.hyps(1) assms(2)] rt_evolves_trans by meson
qed

section \<open>What leaves the table alone\<close>

interpretation rt: command_port runtimes "\<lambda>_. True" "\<lambda>_. True"
  by unfold_locales simp_all

lemma rt_updateBee [frame]: "frames runtimes (updateBee p f)"
  by (rule rt.frames_updates)

lemma rt_turns [frame]:
  "frames runtimes (turnSource m src)" "frames runtimes (writeTurnTrigger b w)" "frames runtimes (openTurnOf b g)"
  unfolding turnSource_def writeTurnTrigger_def openTurnOf_def by (intro frame)+

lemma rt_openTurn [frame]: "frames runtimes (openTurnTrigger b g src m)"
  unfolding openTurnTrigger_def by (intro frame)

lemma rt_triggers [frame]:
  "frames runtimes (applyTurnStartTrigger b g opener)" "frames runtimes (applyTurnEndTrigger b g q)"
  "frames runtimes (applyDeliveryTurnTrigger b g m src)"
  unfolding applyTurnStartTrigger_def applyTurnEndTrigger_def applyDeliveryTurnTrigger_def by (intro frame)+

lemma rt_output [frame]: "frames runtimes (applyRecordOutput b g)"
  unfolding applyRecordOutput_def by (intro frame)

lemma rt_flags [frame]:
  "frames runtimes (applySetFlag b f d x)" "frames runtimes (applyClearFlag b f d' n)"
  unfolding applySetFlag_def applyClearFlag_def updateFlag_def Let_def by (intro frame; simp)+

lemma rt_budget [frame]:
  "frames runtimes (applySpawnFailure b g c d)" "frames runtimes (applySpawnFailuresReset b reason)"
  unfolding applySpawnFailure_def applySpawnFailuresReset_def Let_def by (intro frame)+

lemma rt_settleBoot [frame]: "frames runtimes (settleBoot r st opts)"
  unfolding settleBoot_def Let_def by (intro frame)

lemma rt_pause [frame]: "frames runtimes (pauseMultilineDeliveryBee b)"
  unfolding pauseMultilineDeliveryBee_def by (intro frame) simp

lemma rt_audit [frame]: "frames runtimes (auditRuntime b w)"
  unfolding auditRuntime_def by (intro frame)

lemma rt_release [frame]: "frames runtimes (releaseAuthDeathRecovery i reason)"
  unfolding releaseAuthDeathRecovery_def putAuthInterruption_def Let_def by (intro frame) simp_all

lemma rt_args [frame]: "frames runtimes (applyArgs b nxt)"
  unfolding applyArgs_def invalidateAuthDeathRecovery_def by (intro frame)

lemma rt_unarchive [frame]: "frames runtimes (applyUnarchive b)"
  by (rule rt.frames_applyUnarchive)

lemma rt_cursor [frame]: "frames runtimes (setCursor b g f)"
  unfolding setCursor_def by (intro frame) simp

section \<open>The operations write this way\<close>

lemma current_row: "currentRuntime s b = Some r \<Longrightarrow> r \<in> set (runtimes s) \<and> rBeeId r = b"
  using currentRuntime_Some by blast

lemma updateRuntime_run:
  "updateRuntime b g f s = Inr ((), s\<lparr>runtimes := update_rows (\<lambda>r. runtimeKey r = (b, g)) f (runtimes s)\<rparr>)"
  by (simp add: updateRuntime_def)

lemma row_then:
  assumes row: "r \<in> set (runtimes s)" "rState r \<noteq> RStopped" "row_step r (f r)" and key: "runtimeKey r = (b, g)"
    and rest: "rt_writes (m ())" and run: "bindM (updateRuntime b g f) m s = Inr (x, s')"
  shows "rt_write\<^sup>*\<^sup>* s s'"
proof -
  let ?s1 = "s\<lparr>runtimes := update_rows (\<lambda>x. runtimeKey x = runtimeKey r) f (runtimes s)\<rparr>"
  have "rt_write s ?s1" using row by (intro RtRow) simp_all
  moreover have "m () ?s1 = Inr (x, s')" using run key by (simp add: bindM_def updateRuntime_run)
  ultimately show ?thesis using rest by (meson converse_rtranclp_into_rtranclp runsD)
qed

text \<open>An operation on the current runtime of a bee, when it is alive.\<close>

lemma writes_current:
  assumes "rt_writes m"
    and "\<And>s r x s'. currentRuntime s b = Some r \<Longrightarrow> k r (h s) s = Inr (x, s') \<Longrightarrow> rt_write\<^sup>*\<^sup>* s s'"
  shows "rt_writes (bindM (readM (\<lambda>s. (currentRuntime s b, h s))) (\<lambda>(found, t). case found of None \<Rightarrow> m | Some r \<Rightarrow> k r t))"
proof (rule runsI)
  fix s x s'
  assume "bindM (readM (\<lambda>s. (currentRuntime s b, h s))) (\<lambda>(found, t). case found of None \<Rightarrow> m | Some r \<Rightarrow> k r t) s = Inr (x, s')"
  with assms(1) show "rt_write\<^sup>*\<^sup>* s s'"
    by (cases "currentRuntime s b") (auto intro: assms(2) dest: runsD)
qed

lemma refusal_step:
  assumes "updateRefusal r st opts = None"
  shows "row_step r (updatedRuntime t st opts r)" and "rState r \<noteq> RStopped"
  using assms by (cases "rState r"; auto simp: updateRefusal_def updatedRuntime_def row_step_def runtimeKey_def nextEvidence_def split: if_splits)+

lemma writes_updateRuntimeState: "rt_writes (updateRuntimeState b g st opts)"
  unfolding updateRuntimeState_def
proof (rule runs_bind [OF rt_frame [OF frames_mustGetBee]], rule writes_current)
  show "rt_writes (throwM (CoreError ''bee has no runtime rows''))" by (rule writing)
next
  fix s r x s'
  let ?rest = "\<lambda>_. bindM (whenM (st = RStopped) (pauseMultilineDeliveryBee b)) (\<lambda>_.
             bindM (if rState r = RIdle \<and> st = RRunning
                    then applyTurnStartTrigger b g (uoTurnOpener opts)
                    else if rState r = RRunning \<and> st = RIdle
                    then applyTurnEndTrigger b g (uoEndedQuiet opts) else returnM None) (\<lambda>trigger.
             bindM (auditRuntime b trigger) (\<lambda>_.
             bindM (whenM (uoRecordOutput opts) (applyRecordOutput b (Some g))) (\<lambda>_.
             bindM (settleBoot r st opts) (\<lambda>_. returnM True)))))"
  assume cur: "currentRuntime s b = Some r"
    and run: "(if g \<noteq> rGeneration r
           then thenM (audit (EvRun (RvRuntimeStale b g (Some (rGeneration r)) (Some st)))) (returnM False)
           else
             bindM (case updateRefusal r st opts of None \<Rightarrow> returnM () | Some e \<Rightarrow> throwM e) (\<lambda>_.
             bindM (updateRuntime b g (updatedRuntime (clock s) st opts)) ?rest)) s = Inr (x, s')"
  show "rt_write\<^sup>*\<^sup>* s s'"
  proof (cases "g = rGeneration r")
    case False
    with run show ?thesis by (auto simp: thenM_def audit_def bindM_def intro!: r_into_rtranclp RtSame)
  next
    case True
    with run have ok: "updateRefusal r st opts = None"
      and rest: "bindM (updateRuntime b g (updatedRuntime (clock s) st opts)) ?rest s = Inr (x, s')"
      by (auto split: option.splits)
    have frame_rest: "frames runtimes (?rest ())" by (intro frame)
    show ?thesis
      by (rule row_then [OF _ _ _ _ rt_frame [OF frame_rest] rest])
         (use current_row [OF cur] refusal_step [OF ok] True in \<open>auto simp: runtimeKey_def\<close>)
  qed
qed

lemma writes_whenRow:
  assumes "r \<in> set (runtimes s)" "rState r \<noteq> RStopped" "row_step r (f r)" "runtimeKey r = (b, g)" and rest: "rt_writes (m ())"
    and run: "bindM (whenM c (thenM (updateRuntime b g f) (auditRuntime b w))) m s = Inr (x, s')"
  shows "rt_write\<^sup>*\<^sup>* s s'"
proof (cases c)
  case True
  with run have "bindM (updateRuntime b g f) (\<lambda>_. bindM (auditRuntime b w) m) s = Inr (x, s')"
    by (simp add: whenM_def thenM_def bindM_assoc)
  moreover have "rt_writes (bindM (auditRuntime b w) m)"
    using rest by (intro runs_bind rt_frame [OF rt_audit]) simp
  ultimately show ?thesis
    using row_then [where r = r and f = f and b = b and g = g and m = "\<lambda>_. bindM (auditRuntime b w) m" and s = s] assms(1-4)
    by blast
next
  case False
  with run rest show ?thesis by (auto simp: whenM_def dest: runsD)
qed

lemma writes_recordBootEvidence: "rt_writes (recordBootEvidence b g reason)"
  unfolding recordBootEvidence_def
proof (rule runs_bind [OF rt_frame [OF frames_mustGetBee]], rule runsI)
  fix s x s'
  let ?rest = "\<lambda>r _. bindM (applySpawnFailuresReset b
                      (case reason of Some x \<Rightarrow> x
                       | None \<Rightarrow> ''runtime produced real output (generation '' @ nat_text g @ '')'')) (\<lambda>applied.
               returnM (applied \<or> rBootEvidence r \<noteq> Some BeReal))"
  assume run: "bindM (readM (\<lambda>s. currentRuntime s b)) (\<lambda>found.
       case found of
         None \<Rightarrow> returnM False
       | Some r \<Rightarrow>
           if rGeneration r \<noteq> g \<or> rState r = RStopped then returnM False
           else
             bindM (whenM (rBootEvidence r \<noteq> Some BeReal)
                      (thenM (updateRuntime b g (\<lambda>r. r\<lparr>rBootEvidence := Some BeReal\<rparr>)) (auditRuntime b None))) (?rest r)) s = Inr (x, s')"
  show "rt_write\<^sup>*\<^sup>* s s'"
  proof (cases "currentRuntime s b")
    case (Some r)
    show ?thesis
    proof (cases "rGeneration r \<noteq> g \<or> rState r = RStopped")
      case False
      with run Some have rest: "bindM (whenM (rBootEvidence r \<noteq> Some BeReal)
          (thenM (updateRuntime b g (\<lambda>r. r\<lparr>rBootEvidence := Some BeReal\<rparr>)) (auditRuntime b None))) (?rest r) s = Inr (x, s')"
        by simp
      have frame_rest: "frames runtimes (?rest r ())" by (intro frame)
      show ?thesis
        by (rule writes_whenRow [where r = r, OF _ _ _ _ rt_frame [OF frame_rest] rest])
           (use False current_row [OF Some] in \<open>auto simp: row_step_def runtimeKey_def\<close>)
    qed (use run Some in simp)
  qed (use run in simp)
qed

text \<open>The columns of the process are written one after the other to a row that is alive.\<close>

definition live_row :: "core \<Rightarrow> string \<Rightarrow> nat \<Rightarrow> bool" where
  "live_row s b g \<longleftrightarrow> (\<exists>r \<in> set (runtimes s). runtimeKey r = (b, g) \<and> rState r \<noteq> RStopped)"

lemma current_live: "currentRuntime s b = Some r \<Longrightarrow> rState r \<noteq> RStopped \<Longrightarrow> live_row s b (rGeneration r)"
  using current_row [of s b r] by (auto simp: live_row_def runtimeKey_def)

lemma column_write:
  assumes live: "live_row s b g" and f: "\<And>r. row_step r (f r) \<and> rState (f r) = rState r"
    and run: "updateRuntime b g f s = Inr (u, s')"
  shows "rt_write s s' \<and> live_row s' b g"
proof -
  from live obtain r where r: "r \<in> set (runtimes s)" "runtimeKey r = (b, g)" "rState r \<noteq> RStopped" by (auto simp: live_row_def)
  have s': "runtimes s' = update_rows (\<lambda>x. runtimeKey x = runtimeKey r) f (runtimes s)"
    using run r(2) by (simp add: updateRuntime_run) auto
  have "f r \<in> set (runtimes s')" using r by (auto simp: s' update_rows_def)
  moreover have "runtimeKey (f r) = (b, g)" "rState (f r) \<noteq> RStopped" using f [of r] r by (simp_all add: row_step_def)
  ultimately have "live_row s' b g" by (auto simp: live_row_def)
  with RtRow [OF r(1,3) _ s'] f [of r] show ?thesis by simp
qed

lemma bindProcess_writes:
  assumes "bindProcess current proc s = Inr (u, s')" and "live_row s (rBeeId current) (rGeneration current)"
  shows "rt_write\<^sup>*\<^sup>* s s'"
proof (cases "rpIdentity proc")
  case None
  with assms(1) show ?thesis
    using column_write [OF assms(2), of "\<lambda>r. r\<lparr>rIdentity := Some IdPendingStart\<rparr>" u s']
    by (auto simp: bindProcess_def Let_def whenM_def row_step_def runtimeKey_def split: if_splits)
next
  case (Some v)
  with assms(1) have "updateRuntime (rBeeId current) (rGeneration current) (\<lambda>r. r\<lparr>rIdentity := Some (IdBound v)\<rparr>) s = Inr (u, s')"
    by (auto simp: bindProcess_def Let_def bindM_Inr)
  from column_write [OF assms(2) _ this] show ?thesis by (auto simp: row_step_def runtimeKey_def)
qed

lemma rt_rest:
  fixes m :: "'a store_op"
  assumes "frames runtimes m" and "m s = Inr (x, s')"
  shows "rt_write\<^sup>*\<^sup>* s s'"
  using runsD [OF rt_frame [OF assms(1)] assms(2)] .

lemma writes_recordRuntimeProc: "rt_writes (recordRuntimeProc b g proc)"
  unfolding recordRuntimeProc_def
proof (rule runs_bind [OF rt_frame [OF frames_mustGetBee]], rule runsI)
  fix s x s'
  let ?rest = "bindM (case rpCursor proc of
                      None \<Rightarrow> returnM ()
                    | Some c \<Rightarrow> setCursor b g (\<lambda>old. case old of None \<Rightarrow> c | Some o' \<Rightarrow> max o' c)) (\<lambda>_.
             bindM (auditRuntime b None) (\<lambda>_. returnM True))"
  assume run: "bindM (readM (\<lambda>s. currentRuntime s b)) (\<lambda>found.
       case found of
         None \<Rightarrow> thenM (audit (EvRun (RvRuntimeStale b g None None))) (returnM False)
       | Some current \<Rightarrow>
           if rGeneration current \<noteq> g \<or> rState current = RStopped
           then thenM (audit (EvRun (RvRuntimeStale b g (Some (rGeneration current)) None))) (returnM False)
           else
             bindM (requireM (\<forall>c \<in> set_option (rpCursor proc). safe_cursor c)
                      (CoreError ''runtime observation cursor must be a non-negative safe integer'')) (\<lambda>_.
             bindM (requireM (\<not> (rIdentity current = None \<and> rPid current \<noteq> None
                                 \<and> (rpIdentity proc \<noteq> None \<or> Some (rpPid proc) \<noteq> rPid current
                                    \<or> Some (rpPidStartedAt proc) \<noteq> rPidStartedAt current)))
                      (CoreError ''Legacy process identity requires authenticated one-time binding'')) (\<lambda>_.
             bindM (updateRuntime b g (\<lambda>r. r\<lparr>rPid := Some (rpPid proc), rPidStartedAt := Some (rpPidStartedAt proc)\<rparr>)) (\<lambda>_.
             bindM (bindProcess current proc) (\<lambda>_. ?rest))))) s = Inr (x, s')"
  show "rt_write\<^sup>*\<^sup>* s s'"
  proof (cases "currentRuntime s b")
    case None
    with run show ?thesis by (auto simp: thenM_def audit_def bindM_def intro!: r_into_rtranclp RtSame)
  next
    case (Some r)
    show ?thesis
    proof (cases "rGeneration r \<noteq> g \<or> rState r = RStopped")
      case True
      with run Some show ?thesis by (auto simp: thenM_def audit_def bindM_def intro!: r_into_rtranclp RtSame)
    next
      case False
      note live = current_live [OF Some]
      have b: "rBeeId r = b" using current_row [OF Some] by simp
      from run Some False obtain s1 u s2 where
        one: "updateRuntime b g (\<lambda>r. r\<lparr>rPid := Some (rpPid proc), rPidStartedAt := Some (rpPidStartedAt proc)\<rparr>) s = Inr ((), s1)"
        and two: "bindProcess r proc s1 = Inr (u, s2)" and rest: "?rest s2 = Inr (x, s')"
        by (auto simp: bindM_Inr updateRuntime_run)
      from column_write [OF _ _ one] live False have w: "rt_write s s1" and l1: "live_row s1 b g"
        by (auto simp: row_step_def runtimeKey_def)
      from bindProcess_writes [OF two] l1 b False have "rt_write\<^sup>*\<^sup>* s1 s2" by simp
      moreover have "frames runtimes ?rest" by (intro frame)
      from rt_rest [OF this rest] have "rt_write\<^sup>*\<^sup>* s2 s'" .
      ultimately show ?thesis using w by (meson converse_rtranclp_into_rtranclp rtranclp_trans)
    qed
  qed
qed

lemma writes_bindIdentity: "rt_writes (bindIdentity b g stamp v legacy)"
proof (rule runsI)
  fix s x s' assume run: "bindIdentity b g stamp v legacy s = Inr (x, s')"
  show "rt_write\<^sup>*\<^sup>* s s'"
  proof (cases "x \<and> (\<exists>r. currentRuntime s b = Some r)")
    case True
    with run obtain r s1 where r: "currentRuntime s b = Some r" "rGeneration r = g" "rState r \<noteq> RStopped"
      and one: "updateRuntime b g (\<lambda>r. r\<lparr>rIdentity := Some (IdBound v)\<rparr>) s = Inr ((), s1)" and s': "runtimes s' = runtimes s1"
      by (auto simp: bindIdentity_def bindM_Inr updateRuntime_run audit_def split: if_splits)
    from column_write [OF _ _ one] current_live [OF r(1,3)] r(2) have "rt_write s s1"
      by (auto simp: row_step_def runtimeKey_def)
    moreover have "rt_write s1 s'" by (rule RtSame [OF s'])
    ultimately show ?thesis by (meson converse_rtranclp_into_rtranclp r_into_rtranclp)
  next
    case False
    with run have "s' = s" by (auto simp: bindIdentity_def bindM_Inr split: option.splits if_splits)
    then show ?thesis by simp
  qed
qed

lemma insertRuntime_run:
  "insertRuntime b g proc st s = Inr (x, s') \<Longrightarrow> st = RBooting \<or> st = RStopped \<Longrightarrow>
     \<exists>r. new_row b g r \<and> runtimes s' = runtimes s @ [r] \<and> rState r = st"
  by (auto simp: insertRuntime_def bindM_Inr new_row_def runtimeKey_def audit_def split: option.splits)

lemma writes_reviveBee: "rt_writes (reviveBee b proc args)"
proof (rule runsI)
  fix s x s' assume run: "reviveBee b proc args s = Inr (x, s')"
  obtain s1 s2 where same: "runtimes s1 = runtimes s" "runtimes s2 = runtimes s1"
    and stopped: "case currentRuntime s1 b of None \<Rightarrow> True | Some r \<Rightarrow> rState r = RStopped"
    and ins: "insertRuntime b (nextRuntime s1 b) proc RBooting s2 = Inr (x, s')"
  proof -
    obtain bee s0 u s1 where s0: "mustGetBee b s = Inr (bee, s0)"
      and un: "whenM (bLifecycle bee = LArchived) (bindM (applyUnarchive b) (\<lambda>_. returnM ())) s0 = Inr (u, s1)"
      and rest: "bindM (readM (\<lambda>s. currentRuntime s b)) (\<lambda>current.
     bindM (requireM (case current of None \<Rightarrow> True | Some r \<Rightarrow> rState r = RStopped) (IllegalTransitionError b)) (\<lambda>_.
     bindM (case args of None \<Rightarrow> returnM () | Some nxt \<Rightarrow> bindM (applyArgs b nxt) (\<lambda>_. returnM ())) (\<lambda>_.
       insertRuntime b ((case current of None \<Rightarrow> 0 | Some r \<Rightarrow> rGeneration r) + 1) proc RBooting))) s1 = Inr (x, s')"
      using run unfolding reviveBee_def
      by (elim bindM_InrE) (auto simp: refuseMailboxOnlyRuntime_def bindM_Inr)
    from rest obtain v s2 where stopped: "case currentRuntime s1 b of None \<Rightarrow> True | Some r \<Rightarrow> rState r = RStopped"
      and args: "(case args of None \<Rightarrow> returnM () | Some nxt \<Rightarrow> bindM (applyArgs b nxt) (\<lambda>_. returnM ())) s1 = Inr (v, s2)"
      and ins: "insertRuntime b (nextRuntime s1 b) proc RBooting s2 = Inr (x, s')"
      by (auto simp: bindM_Inr nextRuntime_def)
    have "frames runtimes (whenM (bLifecycle bee = LArchived) (bindM (applyUnarchive b) (\<lambda>_. returnM ())))"
      "frames runtimes (case args of None \<Rightarrow> returnM () | Some nxt \<Rightarrow> bindM (applyArgs b nxt) (\<lambda>_. returnM ()))"
      by (intro frame)+
    with framesD un args framesD [OF frames_mustGetBee s0] have "runtimes s1 = runtimes s" "runtimes s2 = runtimes s1"
      by metis+
    then show ?thesis using stopped ins by (rule that)
  qed
  from insertRuntime_run [OF ins] obtain r where r: "new_row b (nextRuntime s1 b) r" "runtimes s' = runtimes s2 @ [r]" by blast
  have cur: "currentRuntime s1 b = currentRuntime s b" using same by (simp add: currentRuntime_def)
  have "rt_write s s'"
    using r same stopped by (intro RtNew [of s b r]) (auto simp: nextRuntime_def cur split: option.splits)
  then show "rt_write\<^sup>*\<^sup>* s s'" ..
qed

section \<open>After a restart\<close>

definition stoppedAtBoot :: "int \<Rightarrow> runtime_row \<Rightarrow> runtime_row" where
  "stoppedAtBoot t r = r\<lparr>rState := RStopped, rExitCause := Some ExMachineRestart, rUpdatedAt := t\<rparr>"

definition stopsAtBoot :: "(int \<times> int) list \<Rightarrow> (string \<times> nat) list \<Rightarrow> runtime_row \<Rightarrow> bool" where
  "stopsAtBoot live unresolved r \<longleftrightarrow> rState r \<noteq> RStopped \<and> \<not> alive live r \<and> runtimeKey r \<notin> set unresolved"

text \<open>What the pass does not touch.\<close>

definition boot_frame :: "core \<Rightarrow> int \<times> bee_row list \<times> flag_row list \<times> command_row list" where
  "boot_frame s = (clock s, bees s, flags s, commands s)"

lemma stopAtBoot_run:
  "\<exists>s'. stopAtBoot r s = Inr ((), s') \<and> boot_frame s' = boot_frame s
     \<and> runtimes s' = update_rows (\<lambda>x. runtimeKey x = runtimeKey r) (stoppedAtBoot (clock s)) (runtimes s)"
  by (simp add: stopAtBoot_def updateRuntime_def pauseMultilineDeliveryBee_def audit_def boot_frame_def runtimeKey_def
      stoppedAtBoot_def [abs_def])

lemma stop_each_atBoot:
  "\<exists>s'. eachM gone stopAtBoot s = Inr ((), s') \<and> boot_frame s' = boot_frame s
     \<and> runtimes s' = update_rows (\<lambda>r. runtimeKey r \<in> runtimeKey ` set gone) (stoppedAtBoot (clock s)) (runtimes s)"
proof (induction gone arbitrary: s)
  case Nil
  then show ?case by (simp add: update_rows_def)
next
  case (Cons r rs)
  obtain s1 where one: "stopAtBoot r s = Inr ((), s1)" "boot_frame s1 = boot_frame s"
    "runtimes s1 = update_rows (\<lambda>x. runtimeKey x = runtimeKey r) (stoppedAtBoot (clock s)) (runtimes s)"
    using stopAtBoot_run [of r s] by blast
  obtain s2 where two: "eachM rs stopAtBoot s1 = Inr ((), s2)" "boot_frame s2 = boot_frame s1"
    "runtimes s2 = update_rows (\<lambda>r. runtimeKey r \<in> runtimeKey ` set rs) (stoppedAtBoot (clock s1)) (runtimes s1)"
    using Cons.IH [of s1] by blast
  have "clock s1 = clock s" using one(2) by (simp add: boot_frame_def)
  moreover have "stoppedAtBoot t (stoppedAtBoot t r) = stoppedAtBoot t r" "runtimeKey (stoppedAtBoot t r) = runtimeKey r" for t r
    by (simp_all add: stoppedAtBoot_def runtimeKey_def)
  ultimately have "runtimes s2 = update_rows (\<lambda>x. runtimeKey x \<in> runtimeKey ` set (r # rs)) (stoppedAtBoot (clock s)) (runtimes s)"
    by (auto simp: two(3) one(3) update_rows_def)
  with one two show ?case by (simp add: thenM_def bindM_def)
qed

lemma reconcile_run:
  assumes ok: "rt_ok (runtimes s)"
  shows "\<exists>s'. reconcileAtBoot live unresolved s =
      Inr ((map runtimeKey (sort_key runtimeKey (filter (stopsAtBoot live unresolved) (runtimes s))),
            map (\<lambda>r. (rBeeId r, rGeneration r, the (rPid r)))
              (sort_key runtimeKey (filter (\<lambda>r. rState r \<noteq> RStopped \<and> alive live r) (runtimes s)))), s')
    \<and> boot_frame s' = boot_frame s
    \<and> runtimes s' = map (\<lambda>r. if stopsAtBoot live unresolved r then stoppedAtBoot (clock s) r else r) (runtimes s)"
proof -
  let ?rows = "sort_key runtimeKey (filter (\<lambda>r. rState r \<noteq> RStopped) (runtimes s))"
  let ?gone = "filter (\<lambda>r. \<not> alive live r \<and> runtimeKey r \<notin> set unresolved) ?rows"
  obtain s1 where run: "eachM ?gone stopAtBoot s = Inr ((), s1)" and same: "boot_frame s1 = boot_frame s"
    and rows: "runtimes s1 = update_rows (\<lambda>r. runtimeKey r \<in> runtimeKey ` set ?gone) (stoppedAtBoot (clock s)) (runtimes s)"
    using stop_each_atBoot [of ?gone s] by blast
  have gone: "?gone = sort_key runtimeKey (filter (stopsAtBoot live unresolved) (runtimes s))"
    by (simp add: filter_sort stopsAtBoot_def [abs_def] conj_commute conj_left_commute)
  have adopted: "filter (alive live) ?rows = sort_key runtimeKey (filter (\<lambda>r. rState r \<noteq> RStopped \<and> alive live r) (runtimes s))"
    by (simp add: filter_sort conj_commute)
  have "runtimeKey r \<in> runtimeKey ` set ?gone \<longleftrightarrow> stopsAtBoot live unresolved r" if r: "r \<in> set (runtimes s)" for r
    using key_row [OF ok r] r unfolding gone by auto
  then have "runtimes s1 = map (\<lambda>r. if stopsAtBoot live unresolved r then stoppedAtBoot (clock s) r else r) (runtimes s)"
    unfolding rows update_rows_def by (intro map_cong) auto
  with run same gone adopted show ?thesis
    by (simp add: reconcileAtBoot_def Let_def bindM_def audit_def boot_frame_def)
qed

lemma stop_each_writes:
  assumes "eachM gone stopAtBoot s = Inr (u, s')" and "distinct (map runtimeKey gone)"
    and "\<And>r. r \<in> set gone \<Longrightarrow> live_row s (rBeeId r) (rGeneration r)"
  shows "rt_write\<^sup>*\<^sup>* s s'"
  using assms
proof (induction gone arbitrary: s)
  case Nil
  then show ?case by simp
next
  case (Cons r rs)
  obtain s1 where one: "stopAtBoot r s = Inr ((), s1)"
    and rows: "runtimes s1 = update_rows (\<lambda>x. runtimeKey x = runtimeKey r) (stoppedAtBoot (clock s)) (runtimes s)"
    using stopAtBoot_run [of r s] by blast
  from Cons.prems(1) one have rest: "eachM rs stopAtBoot s1 = Inr (u, s')" by (simp add: thenM_def bindM_def)
  from Cons.prems(3) [of r] obtain x where x: "x \<in> set (runtimes s)" "runtimeKey x = runtimeKey r" "rState x \<noteq> RStopped"
    by (auto simp: live_row_def runtimeKey_def)
  have "row_step x (stoppedAtBoot (clock s) x)"
    using x(3) by (cases "rState x") (auto simp: row_step_def stoppedAtBoot_def runtimeKey_def)
  then have "rt_write s s1" using x rows by (intro RtRow [of x]) simp_all
  moreover have "live_row s1 (rBeeId y) (rGeneration y)" if y: "y \<in> set rs" for y
  proof -
    from Cons.prems(3) [of y] y obtain z where z: "z \<in> set (runtimes s)" "runtimeKey z = runtimeKey y" "rState z \<noteq> RStopped"
      by (auto simp: live_row_def runtimeKey_def)
    have "runtimeKey y \<noteq> runtimeKey r" using Cons.prems(2) y by (metis distinct.simps(2) imageI list.simps(9) list.set_map)
    with z have "z \<in> set (runtimes s1)" by (auto simp: rows update_rows_def image_iff intro!: bexI [of _ z])
    with z show ?thesis by (auto simp: live_row_def runtimeKey_def)
  qed
  with Cons.IH [OF rest] Cons.prems(2) have "rt_write\<^sup>*\<^sup>* s1 s'" by simp
  ultimately show ?case by (rule converse_rtranclp_into_rtranclp)
qed

lemma reconcile_writes:
  assumes run: "reconcileAtBoot live unresolved s = Inr (x, s')" and ok: "rt_ok (runtimes s)"
  shows "rt_write\<^sup>*\<^sup>* s s'"
proof -
  let ?rows = "sort_key runtimeKey (filter (\<lambda>r. rState r \<noteq> RStopped) (runtimes s))"
  let ?gone = "filter (\<lambda>r. \<not> alive live r \<and> runtimeKey r \<notin> set unresolved) ?rows"
  obtain u s1 where each: "eachM ?gone stopAtBoot s = Inr (u, s1)" and s': "runtimes s' = runtimes s1"
    using run by (auto simp: reconcileAtBoot_def Let_def bindM_Inr audit_def)
  have "distinct (map runtimeKey (runtimes s))" using ok by (simp add: rt_ok_def)
  then have "distinct (map runtimeKey ?gone)" by (simp add: distinct_map inj_on_def)
  moreover have "live_row s (rBeeId r) (rGeneration r)" if "r \<in> set ?gone" for r
    using that by (auto simp: live_row_def runtimeKey_def)
  ultimately have "rt_write\<^sup>*\<^sup>* s s1" by (rule stop_each_writes [OF each])
  moreover have "rt_write s1 s'" by (rule RtSame [OF s'])
  ultimately show ?thesis by (rule rtranclp.rtrancl_into_rtrancl)
qed

section \<open>Runs of the store\<close>

text \<open>
  A bee is created with its first runtime; every operation of this theory; and whatever else leaves the table
  alone. Runtimes go only with their bee, which deletes the rows; the runs are those before.
\<close>

inductive rt_step :: "core \<Rightarrow> core \<Rightarrow> bool" where
  RsCreate: "currentRuntime s b = None \<Longrightarrow> insertRuntime b 1 proc st s = Inr (r, s') \<Longrightarrow> st = RBooting \<or> st = RStopped \<Longrightarrow> rt_step s s'"
| RsUpdate: "updateRuntimeState b g st opts s = Inr (x, s') \<Longrightarrow> rt_step s s'"
| RsEvidence: "recordBootEvidence b g reason s = Inr (x, s') \<Longrightarrow> rt_step s s'"
| RsProc: "recordRuntimeProc b g p s = Inr (x, s') \<Longrightarrow> rt_step s s'"
| RsBindPending: "bindPendingStart b g stamp v s = Inr (x, s') \<Longrightarrow> rt_step s s'"
| RsBindLegacy: "bindLegacy b g stamp v ok s = Inr (x, s') \<Longrightarrow> rt_step s s'"
| RsRevive: "reviveBee b proc args s = Inr (r, s') \<Longrightarrow> rt_step s s'"
| RsBoot: "reconcileAtBoot live unresolved s = Inr (y, s') \<Longrightarrow> rt_step s s'"
| RsOther: "runtimes s' = runtimes s \<Longrightarrow> rt_step s s'"

inductive rt_reachable :: "core \<Rightarrow> bool" where
  RrInit: "runtimes s = [] \<Longrightarrow> rt_reachable s"
| RrStep: "rt_reachable s \<Longrightarrow> rt_step s s' \<Longrightarrow> rt_reachable s'"

lemma rt_step_writes:
  assumes "rt_step s s'" and ok: "rt_ok (runtimes s)"
  shows "rt_write\<^sup>*\<^sup>* s s'"
  using assms(1)
proof cases
  case (RsCreate b proc st r)
  from insertRuntime_run [OF RsCreate(2,3)] obtain r where "new_row b 1 r" "runtimes s' = runtimes s @ [r]" by blast
  with RsCreate(1) have "rt_write s s'" by (intro RtNew [of s b r]) (auto simp: nextRuntime_def)
  then show ?thesis ..
next
  case (RsBoot live unresolved y)
  then show ?thesis using reconcile_writes ok by blast
next
  case RsOther
  then have "rt_write s s'" by (rule RtSame)
  then show ?thesis ..
next
  case (RsBindLegacy b g stamp v ok x)
  then have "bindIdentity b g stamp v True s = Inr (x, s') \<or> s' = s" by (auto simp: bindLegacy_def split: if_splits)
  then show ?thesis by (auto intro: runsD [OF writes_bindIdentity])
qed (auto simp: bindPendingStart_def intro: runsD [OF writes_updateRuntimeState] runsD [OF writes_recordBootEvidence]
       runsD [OF writes_recordRuntimeProc] runsD [OF writes_bindIdentity] runsD [OF writes_reviveBee])

lemma rt_reachable_ok: "rt_reachable s \<Longrightarrow> rt_ok (runtimes s)"
proof (induction rule: rt_reachable.induct)
  case (RrInit s)
  then show ?case by (simp add: rt_ok_def)
next
  case (RrStep s s')
  then show ?case using rt_writes_ok rt_step_writes by blast
qed

lemma rt_steps_writes:
  assumes "rt_step\<^sup>*\<^sup>* s s'" and "rt_ok (runtimes s)"
  shows "rt_write\<^sup>*\<^sup>* s s'"
  using assms(1)
proof (induction rule: rtranclp_induct)
  case base
  then show ?case by simp
next
  case (step s1 s2)
  then show ?case using rt_step_writes [OF step.hyps(2)] rt_writes_ok assms(2) by (meson rtranclp_trans)
qed

section \<open>The properties\<close>

text \<open>
  C29. In every state the store reaches, the rows of runtimes have distinct keys, a row is stopped exactly when it
  has an exit cause, the generations of a bee are 1 to n without a gap, and at most its last generation is
  alive.
\<close>

theorem runtime_rows_ok:
  assumes "rt_reachable s"
  shows "distinct (map runtimeKey (runtimes s))
    \<and> (\<forall>r \<in> set (runtimes s). rState r = RStopped \<longleftrightarrow> rExitCause r \<noteq> None)
    \<and> (\<forall>r \<in> set (runtimes s). \<forall>g. 1 \<le> g \<and> g < rGeneration r \<longrightarrow>
         (\<exists>x \<in> set (runtimes s). rBeeId x = rBeeId r \<and> rGeneration x = g \<and> rState x = RStopped))"
proof (intro conjI ballI allI impI)
  note ok = rt_reachable_ok [OF assms]
  show "distinct (map runtimeKey (runtimes s))" using ok by (simp add: rt_ok_def)
  show "rState r = RStopped \<longleftrightarrow> rExitCause r \<noteq> None" if "r \<in> set (runtimes s)" for r
    using that by (rule rt_okD(2) [OF ok])
  fix r g assume r: "r \<in> set (runtimes s)" and g: "1 \<le> g \<and> g < rGeneration r"
  with rt_okD(3) [OF ok r] have "(rBeeId r, g) \<in> runtimeKey ` set (runtimes s)" by blast
  then obtain x where x: "x \<in> set (runtimes s)" "rBeeId x = rBeeId r" "rGeneration x = g" by (auto simp: runtimeKey_def)
  with rt_okD(4) [OF ok x(1) r] g have "rState x = RStopped" by simp
  with x show "\<exists>x \<in> set (runtimes s). rBeeId x = rBeeId r \<and> rGeneration x = g \<and> rState x = RStopped" by blast
qed

text \<open>The empty store, the same with a runtime of the bee, and that runtime stopped and revived.\<close>

definition emptyRuns :: core where
  "emptyRuns = (sampleCore [])\<lparr>runtimes := []\<rparr>"

definition noUpdate :: runtime_update where
  "noUpdate = \<lparr>uoExitCause = None, uoExitDetail = None, uoPid = None, uoPidStartedAt = None, uoSynthetic = False,
     uoRecordOutput = False, uoEndedQuiet = None, uoTurnOpener = None\<rparr>"

definition outcome :: "'a store_op \<Rightarrow> core \<Rightarrow> core" where
  "outcome m s = (case m s of Inr (x, s') \<Rightarrow> s' | Inl e \<Rightarrow> s)"

definition bootedRuns :: core where
  "bootedRuns = outcome (insertRuntime ''bee1'' 1 (Some (70, 900)) RBooting) emptyRuns"

definition stoppedRuns :: core where
  "stoppedRuns = outcome (updateRuntimeState ''bee1'' 1 RStopped (noUpdate\<lparr>uoExitCause := Some ExCrashed\<rparr>)) bootedRuns"

definition revivedRuns :: core where
  "revivedRuns = outcome (reviveBee ''bee1'' None None) stoppedRuns"


end
