(* ===== verification/Runtime_Updates.thy ===== *)
theory Runtime_Updates
  imports Runtime_History
begin

text \<open>
  What an update of the state of a runtime does to the store, on every branch, and with it the budget of
  failed boots and the flag of a bee that spent it.
\<close>

section \<open>An update of the state\<close>

text \<open>The exits that count against the budget, and the boots that give it back.\<close>

definition failedBoot :: "core \<Rightarrow> runtime_row \<Rightarrow> runtime_state \<Rightarrow> runtime_update \<Rightarrow> bool" where
  "failedBoot s r st opts \<longleftrightarrow>
     st = RStopped \<and> (rState r = RBooting \<or> rBootEvidence r = Some BeSynthetic)
     \<and> (uoExitCause opts \<in> {Some ExCrashed, Some ExClean}
        \<or> (uoExitCause opts = Some ExStoppedBySystem \<and> hasExecutedBootHangStopCommand s (rBeeId r) (rGeneration r)))"

definition provenBoot :: "runtime_row \<Rightarrow> runtime_state \<Rightarrow> runtime_update \<Rightarrow> bool" where
  "provenBoot r st opts \<longleftrightarrow> rState r = RBooting \<and> st = RRunning \<and> nextEvidence r st opts = Some BeReal"

definition failures :: "core \<Rightarrow> string \<Rightarrow> nat option" where
  "failures s b = map_option bSpawnFailures (getBee s b)"

text \<open>At most one open flag of a kind per bee, and no id twice.\<close>

definition flags_ok :: "core \<Rightarrow> bool" where
  "flags_ok s \<longleftrightarrow> distinct (map fId (flags s)) \<and> (\<forall>r \<in> set (flags s). fId r < nextFlagId s)
     \<and> (\<forall>r \<in> set (flags s). \<forall>x \<in> set (flags s). fBeeId r = fBeeId x \<and> fFlag r = fFlag x \<and> fClearedAt r = None
          \<and> fClearedAt x = None \<longrightarrow> r = x)"

text \<open>The part that settles a boot changes or reads: flags, failures, commands and the budget.\<close>

definition budget_part :: "core \<Rightarrow> (string \<times> nat) list \<times> flag_row list \<times> nat \<times> command_row list \<times> nat" where
  "budget_part s = (map (\<lambda>b. (bId b, bSpawnFailures b)) (bees s), flags s, nextFlagId s, commands s, maxAttempts s)"

lemma budget_updateBee: "(\<And>r. bId (f r) = bId r \<and> bSpawnFailures (f r) = bSpawnFailures r) \<Longrightarrow> frames budget_part (updateBee p f)"
  unfolding updateBee_def by (intro frame) (simp add: budget_part_def map_update_rows)

lemma budget_audit [frame]: "frames budget_part (audit ev)"
  unfolding audit_def by (intro frame) (simp add: budget_part_def)

lemma budget_turns [frame]:
  "frames budget_part (turnSource m src)" "frames budget_part (writeTurnTrigger b w)" "frames budget_part (openTurnOf b g)"
  unfolding turnSource_def writeTurnTrigger_def openTurnOf_def by (intro frame budget_updateBee; simp)+

lemma budget_openTurn [frame]: "frames budget_part (openTurnTrigger b g src m)"
  unfolding openTurnTrigger_def by (intro frame)

lemma budget_triggers [frame]:
  "frames budget_part (applyTurnStartTrigger b g opener)" "frames budget_part (applyTurnEndTrigger b g q)"
  unfolding applyTurnStartTrigger_def applyTurnEndTrigger_def by (intro frame)+

lemma budget_output [frame]: "frames budget_part (applyRecordOutput b g)"
  unfolding applyRecordOutput_def by (intro frame budget_updateBee; simp)

lemma budget_rest [frame]:
  "frames budget_part (pauseMultilineDeliveryBee b)" "frames budget_part (auditRuntime b w)" "frames budget_part (updateRuntime b g f)"
  unfolding pauseMultilineDeliveryBee_def auditRuntime_def updateRuntime_def by (intro frame; simp add: budget_part_def)+

lemma find_map_of: "map_option bSpawnFailures (find_row bId bs b) = map_of (map (\<lambda>b. (bId b, bSpawnFailures b)) bs) b"
  by (induction bs) (simp_all add: find_row_def)

lemma failures_part: "budget_part s' = budget_part s \<Longrightarrow> failures s' b = failures s b"
  by (simp add: failures_def getBee_def find_map_of budget_part_def)

lemma openFlag_part: "budget_part s' = budget_part s \<Longrightarrow> openFlag s' b k = openFlag s b k"
  by (simp add: openFlag_def budget_part_def)

section \<open>That an update returns\<close>

text \<open>The bee is there, and so is the message of each answered question that may open a turn.\<close>

definition can_update :: "string \<Rightarrow> core \<Rightarrow> bool" where
  "can_update b s \<longleftrightarrow> getBee s b \<noteq> None \<and> (\<forall>m. answeredQuestionId s m \<noteq> None \<longrightarrow> getMessage s m \<noteq> None)"

lemma can_update_frame:
  "getBee s' b = getBee s b \<Longrightarrow> questions s' = questions s \<Longrightarrow> mailbox s' = mailbox s \<Longrightarrow> can_update b s \<Longrightarrow> can_update b s'"
  by (simp add: can_update_def answeredQuestionId_def getMessage_def)

lemma can_update_bee [returning]:
  "(\<And>r. bId (f r) = bId r) \<Longrightarrow> returns_in (can_update b) (updateBee (\<lambda>r. bId r = b) f)"
  unfolding updateBee_def
  by (rule returns_modify)
    (auto simp: can_update_def answeredQuestionId_def getMessage_def getBee_def find_row_update_key)

lemma can_update_mustGetBee [returning]: "returns_in (can_update b) (mustGetBee b)"
  by (rule returnsI) (auto simp: can_update_def mustGetBee_def)

lemma can_update_rest [returning]:
  "returns_in (can_update b) (audit ev)" "returns_in (can_update b) (updateRuntime b' g h)"
  "returns_in (can_update b) (pauseMultilineDeliveryBee b')" "returns_in (can_update b) (updateFlag i h')"
  unfolding audit_def updateRuntime_def pauseMultilineDeliveryBee_def updateFlag_def
  by (rule returns_modify, erule can_update_frame [rotated -1]; simp add: getBee_def)+

lemma can_update_auditRuntime [returning]: "returns_in (can_update b) (auditRuntime b' w)"
  unfolding auditRuntime_def by (intro returning)

lemma can_update_turnSource [returning]: "returns_in (can_update b) (turnSource m src)"
proof (rule returnsI)
  fix s assume "can_update b s"
  then show "\<exists>x s'. turnSource m src s = Inr (x, s') \<and> can_update b s'"
    by (cases m) (auto simp: turnSource_def can_update_def split: option.splits)
qed

lemma can_update_turns [returning]:
  "returns_in (can_update b) (openTurnTrigger b g src m)" "returns_in (can_update b) (openTurnOf b g)"
  unfolding openTurnTrigger_def writeTurnTrigger_def openTurnOf_def by (intro returning; simp)+

lemma can_update_triggers [returning]:
  "returns_in (can_update b) (applyTurnStartTrigger b g opener)" "returns_in (can_update b) (applyTurnEndTrigger b g q)"
  unfolding applyTurnStartTrigger_def applyTurnEndTrigger_def writeTurnTrigger_def by (intro returning; simp)+

lemma can_update_output [returning]: "returns_in (can_update b) (applyRecordOutput b g)"
  unfolding applyRecordOutput_def by (intro returning; simp)

section \<open>Flags\<close>

definition hasFlag :: "core \<Rightarrow> string \<Rightarrow> flag_name \<Rightarrow> bool" where
  "hasFlag s b k \<longleftrightarrow> openFlag s b k \<noteq> None"

lemma hasFlag_iff: "hasFlag s b k \<longleftrightarrow> (\<exists>r \<in> set (flags s). fBeeId r = b \<and> fFlag r = k \<and> fClearedAt r = None)"
  by (auto simp: hasFlag_def openFlag_def find_None_iff)

lemma openFlag_Some: "openFlag s b k = Some r \<Longrightarrow> r \<in> set (flags s) \<and> fBeeId r = b \<and> fFlag r = k \<and> fClearedAt r = None"
  by (auto simp: openFlag_def find_Some_iff)

lemma flags_okD:
  assumes "flags_ok s" "r \<in> set (flags s)"
  shows "fId r < nextFlagId s" and "x \<in> set (flags s) \<Longrightarrow> fId x = fId r \<Longrightarrow> x = r"
    and "x \<in> set (flags s) \<Longrightarrow> fBeeId x = fBeeId r \<Longrightarrow> fFlag x = fFlag r \<Longrightarrow> fClearedAt r = None \<Longrightarrow> fClearedAt x = None \<Longrightarrow> x = r"
  using assms by (auto simp: flags_ok_def distinct_map inj_on_def)

lemma bex_update_rows: "(\<And>y. P (f y) = P y) \<Longrightarrow> (\<exists>y \<in> set (update_rows p f rows). P y) \<longleftrightarrow> (\<exists>y \<in> set rows. P y)"
  by (induction rows) (auto simp: update_rows_def)

lemma set_flag_run: "\<exists>row s'. applySetFlag b k d x s = Inr (row, s') \<and> bees s' = bees s \<and> runtimes s' = runtimes s
    \<and> multilineActive s' = multilineActive s \<and> commands s' = commands s \<and> (\<forall>c j. hasFlag s' c j \<longleftrightarrow> (c = b \<and> j = k) \<or> hasFlag s c j)"
proof (cases "openFlag s b k")
  case None
  then show ?thesis by (auto simp: applySetFlag_def audit_def Let_def hasFlag_iff)
next
  case (Some r)
  note R = openFlag_Some [OF Some]
  have "hasFlag s b k" using Some by (simp add: hasFlag_def)
  with Some show ?thesis
    by (auto simp: applySetFlag_def audit_def Let_def updateFlag_def hasFlag_iff bex_update_rows)
qed

lemma clear_flag_run:
  assumes ok: "flags_ok s"
  shows "\<exists>x s'. applyClearFlag b k d n s = Inr (x, s') \<and> bees s' = bees s \<and> runtimes s' = runtimes s
    \<and> multilineActive s' = multilineActive s \<and> (\<forall>c j. hasFlag s' c j \<longleftrightarrow> \<not> (c = b \<and> j = k) \<and> hasFlag s c j)"
proof (cases "openFlag s b k")
  case None
  then have "\<not> hasFlag s b k" by (simp add: hasFlag_def)
  then show ?thesis using None by (auto simp: applyClearFlag_def audit_def whenM_def hasFlag_iff)
next
  case (Some r)
  note R = openFlag_Some [OF Some]
  let ?rows = "update_rows (\<lambda>x. fId x = fId r) (\<lambda>x. x\<lparr>fClearedAt := Some (clock s)\<rparr>) (flags s)"
  have "(\<exists>y \<in> set ?rows. fBeeId y = c \<and> fFlag y = j \<and> fClearedAt y = None)
     \<longleftrightarrow> \<not> (c = b \<and> j = k) \<and> hasFlag s c j" for c j
  proof
    assume "\<exists>y \<in> set ?rows. fBeeId y = c \<and> fFlag y = j \<and> fClearedAt y = None"
    then obtain y where y: "y \<in> set (flags s)" "fId y \<noteq> fId r" "fBeeId y = c" "fFlag y = j" "fClearedAt y = None"
      by (auto simp: update_rows_def split: if_splits)
    with flags_okD(3) [OF ok, of r y] R show "\<not> (c = b \<and> j = k) \<and> hasFlag s c j" by (auto simp: hasFlag_iff)
  next
    assume "\<not> (c = b \<and> j = k) \<and> hasFlag s c j"
    then obtain y where y: "y \<in> set (flags s)" "fBeeId y = c" "fFlag y = j" "fClearedAt y = None" "\<not> (c = b \<and> j = k)"
      by (auto simp: hasFlag_iff)
    with flags_okD(2) [OF ok, of r y] R have "fId y \<noteq> fId r" by auto
    with y show "\<exists>y \<in> set ?rows. fBeeId y = c \<and> fFlag y = j \<and> fClearedAt y = None"
      by (auto simp: update_rows_def intro!: bexI [of _ y])
  qed
  then have "hasFlag (s\<lparr>flags := ?rows, auditLog := log\<rparr>) c j \<longleftrightarrow> \<not> (c = b \<and> j = k) \<and> hasFlag s c j" for c j log
    by (simp add: hasFlag_iff [of "s\<lparr>flags := ?rows, auditLog := log\<rparr>"])
  moreover have "applyClearFlag b k d n s =
      Inr (True, s\<lparr>flags := ?rows, auditLog := auditLog s @ [EvRun (RvFlagCleared (fId r) b k (clock s) d)]\<rparr>)"
    by (simp add: applyClearFlag_def audit_def updateFlag_def Some)
  ultimately show ?thesis by simp blast
qed

section \<open>The budget\<close>

lemma failures_update:
  "bees s' = update_rows (\<lambda>r. bId r = b) f (bees s) \<Longrightarrow> (\<And>r. bId (f r) = bId r) \<Longrightarrow>
     failures s' c = (if c = b then map_option (\<lambda>r. bSpawnFailures (f r)) (getBee s b) else failures s c)"
  by (auto simp: failures_def getBee_def find_row_update_key option.map_comp comp_def)

lemma spawn_failure_run:
  assumes ok: "flags_ok s" and bee: "failures s b = Some n"
  shows "\<exists>s'. applySpawnFailure b g cause d s = Inr ((), s') \<and> runtimes s' = runtimes s
    \<and> multilineActive s' = multilineActive s \<and> failures s' b = Some (n + 1) \<and> (\<forall>c. c \<noteq> b \<longrightarrow> failures s' c = failures s c)
    \<and> (\<forall>c j. hasFlag s' c j \<longleftrightarrow> (c = b \<and> j = FSpawnFailed \<and> maxAttempts s \<le> n + 1) \<or> hasFlag s c j)"
proof -
  obtain r where r: "getBee s b = Some r" "bSpawnFailures r = n" using bee by (auto simp: failures_def)
  define ev where "ev = EvRun (RvSpawnFailures b (n + 1) (Some (g, cause, non_empty d)))"
  define s1 where "s1 = s\<lparr>bees := update_rows (\<lambda>r. bId r = b) (\<lambda>r. r\<lparr>bSpawnFailures := n + 1\<rparr>) (bees s), auditLog := auditLog s @ [ev]\<rparr>"
  have run: "applySpawnFailure b g cause d s =
    whenM (maxAttempts s \<le> n + 1) (bindM (applySetFlag b FSpawnFailed (spawnFailedDetail (n + 1) g cause d) None) (\<lambda>_. returnM ())) s1"
    by (simp add: applySpawnFailure_def mustGetBee_def r updateBee_def audit_def Let_def bindM_def s1_def ev_def)
  have fails: "failures s1 c = (if c = b then Some (n + 1) else failures s c)" for c
    using failures_update [of s1 b "\<lambda>r. r\<lparr>bSpawnFailures := n + 1\<rparr>" s c] r by (simp add: s1_def)
  have flags: "flags_ok s1" "hasFlag s1 = hasFlag s" using ok by (simp_all add: flags_ok_def s1_def hasFlag_iff [abs_def])
  have rest: "runtimes s1 = runtimes s" "multilineActive s1 = multilineActive s" by (simp_all add: s1_def)
  show ?thesis
  proof (cases "maxAttempts s \<le> n + 1")
    case True
    obtain row s' where set: "applySetFlag b FSpawnFailed (spawnFailedDetail (n + 1) g cause d) None s1 = Inr (row, s')"
      "bees s' = bees s1" "runtimes s' = runtimes s1" "multilineActive s' = multilineActive s1"
      "\<forall>c j. hasFlag s' c j \<longleftrightarrow> (c = b \<and> j = FSpawnFailed) \<or> hasFlag s1 c j"
      using set_flag_run by blast
    then have "failures s' = failures s1" by (simp add: failures_def getBee_def fun_eq_iff)
    with set True show ?thesis by (simp add: run whenM_def bindM_def fails flags rest)
  next
    case False
    then show ?thesis by (simp add: run whenM_def fails flags rest)
  qed
qed

lemma failures_reset_run:
  assumes ok: "flags_ok s" and bee: "failures s b = Some n"
  shows "\<exists>x s'. applySpawnFailuresReset b reason s = Inr (x, s') \<and> runtimes s' = runtimes s
    \<and> multilineActive s' = multilineActive s \<and> failures s' b = Some 0 \<and> (\<forall>c. c \<noteq> b \<longrightarrow> failures s' c = failures s c)
    \<and> (\<forall>c j. hasFlag s' c j \<longleftrightarrow> \<not> (c = b \<and> j = FSpawnFailed) \<and> hasFlag s c j)"
proof -
  obtain r where r: "getBee s b = Some r" "bSpawnFailures r = n" using bee by (auto simp: failures_def)
  let ?m = "whenM (n \<noteq> 0) (thenM (updateBee (\<lambda>r. bId r = b) (\<lambda>r. r\<lparr>bSpawnFailures := 0\<rparr>)) (audit (EvRun (RvSpawnFailures b 0 None))))"
  obtain s1 where one: "?m s = Inr ((), s1)" "failures s1 b = Some 0" "\<forall>c. c \<noteq> b \<longrightarrow> failures s1 c = failures s c"
    "flags s1 = flags s" "nextFlagId s1 = nextFlagId s" "runtimes s1 = runtimes s" "multilineActive s1 = multilineActive s"
  proof (cases "n = 0")
    case True
    then show ?thesis using bee by (intro that [of s]) (simp_all add: whenM_def)
  next
    case False
    define s1 where "s1 = s\<lparr>bees := update_rows (\<lambda>r. bId r = b) (\<lambda>r. r\<lparr>bSpawnFailures := 0\<rparr>) (bees s),
      auditLog := auditLog s @ [EvRun (RvSpawnFailures b 0 None)]\<rparr>"
    have "failures s1 c = (if c = b then Some 0 else failures s c)" for c
      using failures_update [of s1 b "\<lambda>r. r\<lparr>bSpawnFailures := 0\<rparr>" s c] r by (simp add: s1_def)
    then show ?thesis using False
      by (intro that [of s1]) (simp_all add: whenM_def updateBee_def audit_def thenM_def s1_def)
  qed
  have flags: "flags_ok s1" "hasFlag s1 = hasFlag s" using ok one(4,5) by (simp_all add: flags_ok_def hasFlag_iff [abs_def])
  obtain x s' where clear: "applyClearFlag b FSpawnFailed (Some reason) False s1 = Inr (x, s')" "bees s' = bees s1"
    "runtimes s' = runtimes s1" "multilineActive s' = multilineActive s1"
    "\<forall>c j. hasFlag s' c j \<longleftrightarrow> \<not> (c = b \<and> j = FSpawnFailed) \<and> hasFlag s1 c j"
    using clear_flag_run [OF flags(1)] by blast
  then have "failures s' = failures s1" by (simp add: failures_def getBee_def fun_eq_iff)
  with clear one flags show ?thesis
    by (simp add: applySpawnFailuresReset_def mustGetBee_def r bindM_def)
qed

section \<open>The update\<close>

lemma failedBoot_part: "budget_part s' = budget_part s \<Longrightarrow> failedBoot s' r st opts = failedBoot s r st opts"
  by (simp add: failedBoot_def hasExecutedBootHangStopCommand_def budget_part_def)

lemma settleBoot_run:
  assumes ok: "flags_ok s" and bee: "failures s (rBeeId r) = Some n"
  shows "\<exists>s'. settleBoot r st opts s = Inr ((), s') \<and> runtimes s' = runtimes s \<and> multilineActive s' = multilineActive s
    \<and> failures s' (rBeeId r) = Some (if failedBoot s r st opts then n + 1 else if provenBoot r st opts then 0 else n)
    \<and> (\<forall>c. c \<noteq> rBeeId r \<longrightarrow> failures s' c = failures s c)
    \<and> (\<forall>c j. hasFlag s' c j \<longleftrightarrow>
         (if c = rBeeId r \<and> j = FSpawnFailed
          then (if failedBoot s r st opts then maxAttempts s \<le> n + 1 \<or> hasFlag s c j
                else \<not> provenBoot r st opts \<and> hasFlag s c j)
          else hasFlag s c j))"
proof (cases "failedBoot s r st opts")
  case True
  from spawn_failure_run [OF ok bee] obtain s' where
    "applySpawnFailure (rBeeId r) (rGeneration r) (the (uoExitCause opts))
       (if uoExitDetail opts \<noteq> None then uoExitDetail opts
        else if uoExitCause opts = Some ExStoppedBySystem \<and> hasExecutedBootHangStopCommand s (rBeeId r) (rGeneration r) then Some ''hang_policy'' else None)
       s = Inr ((), s')"
    "runtimes s' = runtimes s" "multilineActive s' = multilineActive s" "failures s' (rBeeId r) = Some (n + 1)"
    "\<forall>c. c \<noteq> rBeeId r \<longrightarrow> failures s' c = failures s c"
    "\<forall>c j. hasFlag s' c j \<longleftrightarrow> (c = rBeeId r \<and> j = FSpawnFailed \<and> maxAttempts s \<le> n + 1) \<or> hasFlag s c j"
    by blast
  with True show ?thesis by (auto simp: settleBoot_def Let_def failedBoot_def)
next
  case False
  then have quiet: "settleBoot r st opts s = whenM (provenBoot r st opts)
      (bindM (applySpawnFailuresReset (rBeeId r) (''runtime booted (generation '' @ nat_text (rGeneration r) @ '')'')) (\<lambda>_. returnM ())) s"
    by (auto simp: settleBoot_def Let_def failedBoot_def provenBoot_def)
  show ?thesis
  proof (cases "provenBoot r st opts")
    case True
    from failures_reset_run [OF ok bee] obtain x s' where
      "applySpawnFailuresReset (rBeeId r) (''runtime booted (generation '' @ nat_text (rGeneration r) @ '')'') s = Inr (x, s')"
      "runtimes s' = runtimes s" "multilineActive s' = multilineActive s" "failures s' (rBeeId r) = Some 0"
      "\<forall>c. c \<noteq> rBeeId r \<longrightarrow> failures s' c = failures s c"
      "\<forall>c j. hasFlag s' c j \<longleftrightarrow> \<not> (c = rBeeId r \<and> j = FSpawnFailed) \<and> hasFlag s c j" by blast
    with True False show ?thesis by (simp add: quiet whenM_def bindM_def)
  next
    case prv: False
    with False show ?thesis using bee by (simp add: quiet whenM_def)
  qed
qed

text \<open>What comes between the write to the row and the settling of the boot.\<close>

definition afterUpdate :: "runtime_row \<Rightarrow> runtime_state \<Rightarrow> runtime_update \<Rightarrow> unit store_op" where
  "afterUpdate c st opts =
     (let b = rBeeId c; g = rGeneration c in
      bindM (if rState c = RIdle \<and> st = RRunning then applyTurnStartTrigger b g (uoTurnOpener opts)
             else if rState c = RRunning \<and> st = RIdle then applyTurnEndTrigger b g (uoEndedQuiet opts) else returnM None) (\<lambda>trigger.
      bindM (auditRuntime b trigger) (\<lambda>_.
        whenM (uoRecordOutput opts) (applyRecordOutput b (Some g)))))"

lemma afterUpdate_frames:
  "frames budget_part (afterUpdate c st opts)" "frames runtimes (afterUpdate c st opts)"
  "frames multilineActive (afterUpdate c st opts)"
proof -
  show "frames budget_part (afterUpdate c st opts)" unfolding afterUpdate_def Let_def by (intro frame)
  show "frames runtimes (afterUpdate c st opts)" unfolding afterUpdate_def Let_def by (intro frame)
  show "frames multilineActive (afterUpdate c st opts)"
    unfolding afterUpdate_def Let_def applyTurnStartTrigger_def applyTurnEndTrigger_def openTurnTrigger_def openTurnOf_def
      turnSource_def writeTurnTrigger_def auditRuntime_def applyRecordOutput_def updateBee_def audit_def
    by (intro frame; simp)
qed

lemma afterUpdate_returns: "returns_in (can_update (rBeeId c)) (afterUpdate c st opts)"
  unfolding afterUpdate_def Let_def by (intro returning)

text \<open>The update of the current generation, as its write, the rest and the settling of the boot.\<close>

lemma mustGetBee_found: "getBee s b = Some bee \<Longrightarrow> bindM (mustGetBee b) k s = k bee s"
  by (simp add: mustGetBee_def bindM_def)

lemma update_split:
  assumes c: "currentRuntime s b = Some c" and bee: "getBee s b \<noteq> None" and ref: "updateRefusal c st opts = None"
  shows "updateRuntimeState b (rGeneration c) st opts s =
    bindM (updateRuntime b (rGeneration c) (updatedRuntime (clock s) st opts)) (\<lambda>_.
    bindM (whenM (st = RStopped) (pauseMultilineDeliveryBee b)) (\<lambda>_.
    bindM (afterUpdate c st opts) (\<lambda>_.
    bindM (settleBoot c st opts) (\<lambda>_. returnM True)))) s"
proof -
  obtain row where "getBee s b = Some row" using bee by blast
  then show ?thesis using c ref currentRuntime_Some [OF c]
    by (simp add: updateRuntimeState_def mustGetBee_found afterUpdate_def bindM_assoc Let_def)
qed

lemma update_run:
  assumes ok: "flags_ok s" and c: "currentRuntime s b = Some c" and can: "can_update b s" and bee: "failures s b = Some n"
    and ref: "updateRefusal c st opts = None"
  shows "\<exists>s'. updateRuntimeState b (rGeneration c) st opts s = Inr (True, s')
    \<and> runtimes s' = update_rows (\<lambda>r. runtimeKey r = (b, rGeneration c)) (updatedRuntime (clock s) st opts) (runtimes s)
    \<and> multilineActive s' = (if st = RStopped then filter (\<lambda>(_, x). x \<noteq> b) (multilineActive s) else multilineActive s)
    \<and> failures s' b = Some (if failedBoot s c st opts then n + 1 else if provenBoot c st opts then 0 else n)
    \<and> (\<forall>x. x \<noteq> b \<longrightarrow> failures s' x = failures s x)
    \<and> (\<forall>x k. hasFlag s' x k \<longleftrightarrow>
         (if x = b \<and> k = FSpawnFailed
          then (if failedBoot s c st opts then maxAttempts s \<le> n + 1 \<or> hasFlag s x k else \<not> provenBoot c st opts \<and> hasFlag s x k)
          else hasFlag s x k))"
proof -
  have cb: "rBeeId c = b" using currentRuntime_Some [OF c] by simp
  define s1 where "s1 = s\<lparr>runtimes := update_rows (\<lambda>r. runtimeKey r = (b, rGeneration c)) (updatedRuntime (clock s) st opts) (runtimes s),
    multilineActive := (if st = RStopped then filter (\<lambda>(_, x). x \<noteq> b) (multilineActive s) else multilineActive s)\<rparr>"
  have run: "updateRuntimeState b (rGeneration c) st opts s =
      bindM (afterUpdate c st opts) (\<lambda>_. bindM (settleBoot c st opts) (\<lambda>_. returnM True)) s1"
    using can by (simp add: update_split [OF c _ ref] can_update_def updateRuntime_def pauseMultilineDeliveryBee_def whenM_def s1_def)
  have "can_update (rBeeId c) s1" using can unfolding cb by (rule can_update_frame [rotated -1]) (simp_all add: s1_def getBee_def)
  with afterUpdate_returns obtain x s2 where two: "afterUpdate c st opts s1 = Inr (x, s2)" by (rule returnsE)
  note F = afterUpdate_frames [THEN framesD, OF two]
  have part: "budget_part s2 = budget_part s" using F(1) by (simp add: budget_part_def s1_def)
  have same: "flags_ok s2" "failures s2 (rBeeId c) = Some n" "hasFlag s2 = hasFlag s" "maxAttempts s2 = maxAttempts s"
    "failures s2 = failures s"
    using ok bee part failures_part [OF part] openFlag_part [OF part] cb
    by (auto simp: flags_ok_def budget_part_def hasFlag_def fun_eq_iff)
  obtain s' where settled: "settleBoot c st opts s2 = Inr ((), s')" "runtimes s' = runtimes s2" "multilineActive s' = multilineActive s2"
    "failures s' b = Some (if failedBoot s c st opts then n + 1 else if provenBoot c st opts then 0 else n)"
    "\<forall>x. x \<noteq> b \<longrightarrow> failures s' x = failures s x"
    "\<forall>x k. hasFlag s' x k \<longleftrightarrow>
         (if x = b \<and> k = FSpawnFailed
          then (if failedBoot s c st opts then maxAttempts s \<le> n + 1 \<or> hasFlag s x k else \<not> provenBoot c st opts \<and> hasFlag s x k)
          else hasFlag s x k)"
    using settleBoot_run [OF same(1,2), of st opts] by (auto simp: failedBoot_part [OF part] same(3-5) cb)
  moreover have "updateRuntimeState b (rGeneration c) st opts s = Inr (True, s')"
    by (simp add: run bindM_def two settled(1))
  moreover have "runtimes s2 = runtimes s1" "multilineActive s2 = multilineActive s1" using F(2,3) by simp_all
  ultimately show ?thesis by (simp add: s1_def)
qed

text \<open>
  C31. An update of the state of a runtime, in full. For another generation than the current one nothing but an entry of
  the audit log changes. For the current one it is refused exactly when \<open>updateRefusal\<close> says so (an illegal
  transition, a stop without a cause or a cause without a stop, output outside the idle edge, a pid without its
  start time); else it succeeds, writes exactly that row, stops multi-line delivery with the runtime, and settles the
  budget of boots: a boot that failed adds one failure and opens the flag \<open>spawn_failed\<close> once the budget is spent,
  a boot that was proven real resets the count and closes the flag, and nothing else touches counts or flags.
\<close>

theorem updateRuntimeState_correct:
  assumes "flags_ok s" and "currentRuntime s b = Some c" and "can_update b s" and "failures s b = Some n"
  shows "(\<forall>g. g \<noteq> rGeneration c \<longrightarrow> updateRuntimeState b g st opts s =
       Inr (False, s\<lparr>auditLog := auditLog s @ [EvRun (RvRuntimeStale b g (Some (rGeneration c)) (Some st))]\<rparr>))
    \<and> (\<forall>e. updateRefusal c st opts = Some e \<longrightarrow> updateRuntimeState b (rGeneration c) st opts s = Inl e)
    \<and> (updateRefusal c st opts = None \<longrightarrow>
        (\<exists>s'. updateRuntimeState b (rGeneration c) st opts s = Inr (True, s')
          \<and> runtimes s' = update_rows (\<lambda>r. runtimeKey r = (b, rGeneration c)) (updatedRuntime (clock s) st opts) (runtimes s)
          \<and> multilineActive s' = (if st = RStopped then filter (\<lambda>(_, x). x \<noteq> b) (multilineActive s) else multilineActive s)
          \<and> failures s' b = Some (if failedBoot s c st opts then n + 1 else if provenBoot c st opts then 0 else n)
          \<and> (\<forall>x. x \<noteq> b \<longrightarrow> failures s' x = failures s x)
          \<and> (\<forall>x k. hasFlag s' x k \<longleftrightarrow>
               (if x = b \<and> k = FSpawnFailed
                then (if failedBoot s c st opts then maxAttempts s \<le> n + 1 \<or> hasFlag s x k
                      else \<not> provenBoot c st opts \<and> hasFlag s x k)
                else hasFlag s x k))))"
proof -
  obtain bee where bee: "getBee s b = Some bee" using assms(3) by (auto simp: can_update_def)
  have "updateRuntimeState b g st opts s =
      Inr (False, s\<lparr>auditLog := auditLog s @ [EvRun (RvRuntimeStale b g (Some (rGeneration c)) (Some st))]\<rparr>)" if "g \<noteq> rGeneration c" for g
    using that assms(2) bee by (simp add: updateRuntimeState_def mustGetBee_found audit_def)
  moreover have "updateRuntimeState b (rGeneration c) st opts s = Inl e" if "updateRefusal c st opts = Some e" for e
    using that assms(2) bee by (simp add: updateRuntimeState_def mustGetBee_found)
  ultimately show ?thesis using update_run [OF assms] by blast
qed

section \<open>A runtime that booted, crashed and was revived\<close>

lemma booted_run: "insertRuntime ''bee1'' 1 (Some (70, 900)) RBooting emptyRuns = Inr (hd (runtimes bootedRuns), bootedRuns)"
  by (simp add: insertRuntime_def emptyRuns_def bootedRuns_def outcome_def bindM_def requireM_def audit_def currentRuntime_def)

lemma booted_rows: "runtimes bootedRuns =
   [\<lparr>rBeeId = ''bee1'', rGeneration = 1, rState = RBooting, rExitCause = None, rUpdatedAt = 1000, rCredentialStamp = False,
      rPid = Some 70, rPidStartedAt = Some 900, rBootEvidence = None, rStartedAt = 1000, rIdentity = Some IdPendingStart\<rparr>]"
  by (simp add: insertRuntime_def emptyRuns_def bootedRuns_def outcome_def bindM_def requireM_def audit_def currentRuntime_def)

definition crashUpdate :: runtime_update where
  "crashUpdate = noUpdate\<lparr>uoExitCause := Some ExCrashed\<rparr>"

lemma booted_part:
  "clock bootedRuns = 1000" "bees bootedRuns = [sampleBee]" "flags bootedRuns = []" "nextFlagId bootedRuns = 1"
  "multilineActive bootedRuns = []" "commands bootedRuns = []" "maxAttempts bootedRuns = 5" "questions bootedRuns = []"
  "currentRuntime bootedRuns ''bee1'' = Some (hd (runtimes bootedRuns))"
  by (simp_all add: insertRuntime_def emptyRuns_def bootedRuns_def outcome_def bindM_def requireM_def audit_def currentRuntime_def)
     (simp_all add: sampleCore_def)

lemma booted_conditions: "flags_ok bootedRuns" "can_update ''bee1'' bootedRuns" "failures bootedRuns ''bee1'' = Some 0"
  by (simp_all add: flags_ok_def can_update_def failures_def getBee_def answeredQuestionId_def booted_part find_row_def sampleBee_def)

lemma crash_failed: "failedBoot bootedRuns (hd (runtimes bootedRuns)) RStopped crashUpdate"
  by (simp add: failedBoot_def crashUpdate_def noUpdate_def booted_rows)

lemma crash_allowed: "updateRefusal (hd (runtimes bootedRuns)) RStopped crashUpdate = None"
  by (simp add: updateRefusal_def crashUpdate_def noUpdate_def booted_rows)

theorem updateRuntimeState_correct_witness:
  "\<exists>s'. updateRuntimeState ''bee1'' 1 RStopped crashUpdate bootedRuns = Inr (True, s') \<and> failures s' ''bee1'' = Some 1
     \<and> \<not> hasFlag s' ''bee1'' FSpawnFailed \<and> map rState (runtimes s') = [RStopped]"
proof -
  have g: "rGeneration (hd (runtimes bootedRuns)) = 1" by (simp add: booted_rows)
  have flag: "\<not> hasFlag bootedRuns ''bee1'' FSpawnFailed" by (simp add: hasFlag_iff booted_part)
  obtain s' where "updateRuntimeState ''bee1'' 1 RStopped crashUpdate bootedRuns = Inr (True, s')"
    "runtimes s' = update_rows (\<lambda>r. runtimeKey r = (''bee1'', 1)) (updatedRuntime (clock bootedRuns) RStopped crashUpdate) (runtimes bootedRuns)"
    "failures s' ''bee1'' = Some 1" "hasFlag s' ''bee1'' FSpawnFailed \<longleftrightarrow> maxAttempts bootedRuns \<le> 1 \<or> hasFlag bootedRuns ''bee1'' FSpawnFailed"
    using updateRuntimeState_correct [OF booted_conditions(1) booted_part(9) booted_conditions(2,3), of RStopped crashUpdate]
      crash_allowed crash_failed unfolding g by auto
  then show ?thesis using flag by (simp add: booted_rows booted_part update_rows_def runtimeKey_def updatedRuntime_def)
qed

text \<open>The store after the crash, which the library's lemma of the update gives, and after the revival.\<close>

lemma stopped_run:
  "\<exists>s'. updateRuntimeState ''bee1'' 1 RStopped crashUpdate bootedRuns = Inr (True, s')
     \<and> runtimes s' = map (updatedRuntime 1000 RStopped crashUpdate) (runtimes bootedRuns)"
proof -
  have g: "rGeneration (hd (runtimes bootedRuns)) = 1" by (simp add: booted_rows)
  from update_run [OF booted_conditions(1) booted_part(9) booted_conditions(2,3) crash_allowed]
  show ?thesis unfolding g by (auto simp: booted_rows booted_part(1) update_rows_def runtimeKey_def)
qed

lemma booted_reachable: "rt_reachable emptyRuns" "rt_step emptyRuns bootedRuns" "rt_reachable bootedRuns"
proof -
  show init: "rt_reachable emptyRuns" by (rule RrInit) (simp add: emptyRuns_def)
  show boot: "rt_step emptyRuns bootedRuns"
    by (rule RsCreate [OF _ booted_run]) (simp_all add: currentRuntime_def emptyRuns_def)
  show "rt_reachable bootedRuns" by (rule RrStep [OF init boot])
qed

theorem runtime_rows_ok_witness:
  "runtimes bootedRuns \<noteq> [] \<and> distinct (map runtimeKey (runtimes bootedRuns))
     \<and> list_all (\<lambda>r. (rState r = RStopped) = (rExitCause r \<noteq> None)) (runtimes bootedRuns)"
  using runtime_rows_ok [OF booted_reachable(3)] by (simp add: booted_rows)

section \<open>The history of a runtime\<close>

text \<open>
  C30. Whatever the store does from a reachable state on, each runtime keeps its row, its key and its start: a stopped
  one never changes again, none goes back to booting, and the evidence that its boot was real is never taken
  back.
\<close>

theorem runtime_history:
  assumes "rt_reachable s" and "rt_step\<^sup>*\<^sup>* s s'" and "r \<in> set (runtimes s)"
  shows "\<exists>r' \<in> set (runtimes s').
      runtimeKey r' = runtimeKey r \<and> rStartedAt r' = rStartedAt r
      \<and> (rState r = RStopped \<longrightarrow> r' = r) \<and> (rState r \<noteq> RBooting \<longrightarrow> rState r' \<noteq> RBooting)
      \<and> (rBootEvidence r = Some BeReal \<longrightarrow> rBootEvidence r' = Some BeReal)"
proof -
  note ok = rt_reachable_ok [OF assms(1)]
  from rt_writes_evolve [OF rt_steps_writes [OF assms(2) ok] ok assms(3)]
  show ?thesis unfolding rt_evolves_def .
qed

theorem runtime_history_witness:
  "\<exists>s' r'. rt_step\<^sup>*\<^sup>* bootedRuns s' \<and> r' \<in> set (runtimes s') \<and> rState r' = RStopped
     \<and> {s''. rt_step\<^sup>*\<^sup>* s' s''} \<subseteq> {s''. r' \<in> set (runtimes s'')}"
proof -
  obtain s' where run: "updateRuntimeState ''bee1'' 1 RStopped crashUpdate bootedRuns = Inr (True, s')"
    and rows: "runtimes s' = map (updatedRuntime 1000 RStopped crashUpdate) (runtimes bootedRuns)" using stopped_run by blast
  let ?r = "updatedRuntime 1000 RStopped crashUpdate (hd (runtimes bootedRuns))"
  have r: "?r \<in> set (runtimes s')" "rState ?r = RStopped" by (simp_all add: rows booted_rows updatedRuntime_def)
  have step: "rt_step bootedRuns s'" by (rule RsUpdate [OF run])
  have reach: "rt_reachable s'" by (rule RrStep [OF booted_reachable(3) step])
  have "?r \<in> set (runtimes s'')" if "rt_step\<^sup>*\<^sup>* s' s''" for s''
    using runtime_history [OF reach that r(1)] r(2) by auto
  then show ?thesis using step r by blast
qed

section \<open>After a restart of the machine\<close>

text \<open>
  C32. After a restart the store finishes and stops exactly the runtimes whose process is gone, all those that
  are not stopped, not among the live processes and not unresolved, with the cause machine restart, answers them and the adopted ones in
  the order of their keys, and leaves the bees with their boot budgets, the flags and the commands as they were.
\<close>

theorem reconcileAtBoot_correct:
  assumes "rt_reachable s"
  shows "\<exists>s' stopped adopted. reconcileAtBoot live unresolved s = Inr ((stopped, adopted), s')
    \<and> set stopped = {runtimeKey r | r. r \<in> set (runtimes s) \<and> rState r \<noteq> RStopped \<and> \<not> alive live r \<and> runtimeKey r \<notin> set unresolved}
    \<and> sorted stopped \<and> distinct stopped
    \<and> set adopted = {(rBeeId r, rGeneration r, the (rPid r)) | r. r \<in> set (runtimes s) \<and> rState r \<noteq> RStopped \<and> alive live r}
    \<and> runtimes s' = map (\<lambda>r. if runtimeKey r \<in> set stopped
         then r\<lparr>rState := RStopped, rExitCause := Some ExMachineRestart, rUpdatedAt := clock s\<rparr> else r) (runtimes s)
    \<and> bees s' = bees s \<and> flags s' = flags s \<and> commands s' = commands s"
proof -
  note ok = rt_reachable_ok [OF assms]
  let ?gone = "sort_key runtimeKey (filter (stopsAtBoot live unresolved) (runtimes s))"
  obtain s' where run: "reconcileAtBoot live unresolved s = Inr ((map runtimeKey ?gone,
      map (\<lambda>r. (rBeeId r, rGeneration r, the (rPid r))) (sort_key runtimeKey (filter (\<lambda>r. rState r \<noteq> RStopped \<and> alive live r) (runtimes s)))), s')"
    and same: "boot_frame s' = boot_frame s"
    and rows: "runtimes s' = map (\<lambda>r. if stopsAtBoot live unresolved r then stoppedAtBoot (clock s) r else r) (runtimes s)"
    using reconcile_run [OF ok] by blast
  have keys: "set (map runtimeKey ?gone) = {runtimeKey r | r. r \<in> set (runtimes s) \<and> rState r \<noteq> RStopped \<and> \<not> alive live r \<and> runtimeKey r \<notin> set unresolved}"
    by (auto simp: stopsAtBoot_def)
  have "stopsAtBoot live unresolved r \<longleftrightarrow> runtimeKey r \<in> set (map runtimeKey ?gone)" if r: "r \<in> set (runtimes s)" for r
    using key_row [OF ok r] r by auto
  then have "runtimes s' = map (\<lambda>r. if runtimeKey r \<in> set (map runtimeKey ?gone) then stoppedAtBoot (clock s) r else r) (runtimes s)"
    unfolding rows by (intro map_cong) auto
  moreover have "distinct (map runtimeKey ?gone)" using ok by (simp add: rt_ok_def distinct_map inj_on_def)
  moreover have "set (map (\<lambda>r. (rBeeId r, rGeneration r, the (rPid r))) (sort_key runtimeKey (filter (\<lambda>r. rState r \<noteq> RStopped \<and> alive live r) (runtimes s))))
      = {(rBeeId r, rGeneration r, the (rPid r)) | r. r \<in> set (runtimes s) \<and> rState r \<noteq> RStopped \<and> alive live r}" by auto
  ultimately show ?thesis using run same keys unfolding stoppedAtBoot_def boot_frame_def
    by (intro exI [of _ s'] exI [of _ "map runtimeKey ?gone"] exI conjI) (assumption | simp)+
qed

theorem reconcileAtBoot_correct_witness:
  "(\<exists>s' stopped. reconcileAtBoot [] [] bootedRuns = Inr ((stopped, []), s') \<and> set stopped = {(''bee1'', 1)}
      \<and> map rState (runtimes s') = [RStopped])
   \<and> (\<exists>s' adopted. reconcileAtBoot [(70, 900)] [] bootedRuns = Inr (([], adopted), s') \<and> set adopted = {(''bee1'', 1, 70)}
      \<and> map rState (runtimes s') = [RBooting])"
proof -
  have gone: "\<not> alive [] (hd (runtimes bootedRuns))" and here: "alive [(70, 900)] (hd (runtimes bootedRuns))"
    by (simp_all add: alive_def booted_rows)
  show ?thesis
    using reconcileAtBoot_correct [OF booted_reachable(3), of "[]" "[]"]
      reconcileAtBoot_correct [OF booted_reachable(3), of "[(70, 900)]" "[]"] gone here
    by (auto simp: booted_rows runtimeKey_def alive_def)
qed

end
