(* ===== verification/Command_Runs.thy ===== *)
theory Command_Runs
  imports Command_Queue Command_Port Runtime_Updates
begin

text \<open>
  What the queue of commands promises: the claim ends and what it claims may run, and a command that fails is
  retried a bounded number of times, each time later.
\<close>

section \<open>The backlog\<close>

text \<open>
  A queued command weighs one when it is a wake and three otherwise, because a claim that supersedes a move and a
  handoff may queue a wake for each.
\<close>

definition weight :: "command_row \<Rightarrow> nat" where
  "weight c = (if cStatus c \<noteq> CQueued then 0 else if cVerb c = VSendWake then 1 else 3)"

definition backlog :: "core \<Rightarrow> nat" where
  "backlog s = sum_list (map weight (commands s))"

definition others :: "nat \<Rightarrow> command_row list \<Rightarrow> nat" where
  "others i cs = sum_list (map weight (filter (\<lambda>c. cId c \<noteq> i) cs))"

definition settled :: "nat \<Rightarrow> core \<Rightarrow> bool" where
  "settled i s \<longleftrightarrow> (\<forall>c \<in> set (commands s). cId c = i \<longrightarrow> cStatus c \<noteq> CQueued)"

text \<open>A run that leaves the fence alone and queues at most \<open>n\<close> commands, wakes all of them.\<close>

definition cm_le :: "nat \<Rightarrow> core \<Rightarrow> core \<Rightarrow> bool" where
  "cm_le n s s' \<longleftrightarrow>
     execEffects s' = execEffects s \<and> nextCommandId s \<le> nextCommandId s'
     \<and> cId ` set (commands s) \<subseteq> cId ` set (commands s')
     \<and> (\<forall>i. others i (commands s') \<le> others i (commands s) + n)
     \<and> (\<forall>c \<in> set (commands s'). cStatus c = CQueued \<longrightarrow>
          (\<exists>c0 \<in> set (commands s). cId c0 = cId c \<and> cStatus c0 = CQueued) \<or> nextCommandId s \<le> cId c)"

lemma cm_leD:
  assumes "cm_le n s s'"
  shows "execEffects s' = execEffects s" "nextCommandId s \<le> nextCommandId s'" "cId ` set (commands s) \<subseteq> cId ` set (commands s')"
    "others i (commands s') \<le> others i (commands s) + n"
    "c \<in> set (commands s') \<Longrightarrow> cStatus c = CQueued \<Longrightarrow>
       (\<exists>c0 \<in> set (commands s). cId c0 = cId c \<and> cStatus c0 = CQueued) \<or> nextCommandId s \<le> cId c"
  using assms by (auto simp: cm_le_def)

lemma cm_le_refl [simp]: "cm_le n s s"
  by (auto simp: cm_le_def)

lemma cm_le_trans:
  assumes "cm_le m s s1" "cm_le n s1 s2"
  shows "cm_le (m + n) s s2"
  unfolding cm_le_def
proof (intro conjI allI ballI impI)
  note A = cm_leD [OF assms(1)] and B = cm_leD [OF assms(2)]
  show "execEffects s2 = execEffects s" "nextCommandId s \<le> nextCommandId s2" "cId ` set (commands s) \<subseteq> cId ` set (commands s2)"
    using A(1-3) B(1-3) by auto
  show "others i (commands s2) \<le> others i (commands s) + (m + n)" for i using A(4) [of i] B(4) [of i] by simp
  fix c assume "c \<in> set (commands s2)" "cStatus c = CQueued"
  from B(5) [OF this] show "(\<exists>c0 \<in> set (commands s). cId c0 = cId c \<and> cStatus c0 = CQueued) \<or> nextCommandId s \<le> cId c"
    using A(2,5) by (metis le_trans)
qed

lemma cm_le_mono: "cm_le m s s' \<Longrightarrow> m \<le> n \<Longrightarrow> cm_le n s s'"
  by (auto simp: cm_le_def intro: le_trans)

lemma cm_le_star: "(cm_le 0)\<^sup>*\<^sup>* s s' \<Longrightarrow> cm_le 0 s s'"
proof (induction rule: rtranclp_induct)
  case (step s1 s2)
  then show ?case using cm_le_trans [of 0 s s1 0 s2] by simp
qed simp

text \<open>Operations that queue nothing.\<close>

abbreviation calm :: "'a store_op \<Rightarrow> bool" where
  "calm m \<equiv> runs_in (cm_le 0) m"

lemma calmD: "calm m \<Longrightarrow> m s = Inr (x, s') \<Longrightarrow> cm_le 0 s s'"
  by (rule cm_le_star) (rule runsD)

definition cm_part :: "core \<Rightarrow> command_row list \<times> nat \<times> exec_effect list" where
  "cm_part s = (commands s, nextCommandId s, execEffects s)"

lemma calm_frame: "frames cm_part m \<Longrightarrow> calm m"
  by (erule runs_frame [rotated]) (auto simp: cm_part_def cm_le_def)

interpretation cm: control_port cm_part "\<lambda>_. True"
  by unfold_locales (simp_all add: cm_part_def)

lemma others_update:
  assumes "\<And>c. cId (f c) = cId c \<and> weight (f c) \<le> weight c"
  shows "others i (update_rows p f cs) \<le> others i cs"
  using assms by (induction cs) (auto simp: others_def update_rows_def intro: add_mono trans_le_add2)

text \<open>The UPDATE of a command that does not queue it.\<close>

lemma settle_le:
  assumes f: "\<And>c. cId (f c) = cId c \<and> cVerb (f c) = cVerb c \<and> (cStatus (f c) = CQueued \<longrightarrow> cStatus c = CQueued)"
  shows "cm_le 0 s (s\<lparr>commands := update_rows p f (commands s)\<rparr>)"
proof -
  have "weight (f c) \<le> weight c" for c using f [of c] by (auto simp: weight_def)
  with f have "others i (update_rows p f (commands s)) \<le> others i (commands s)" for i by (intro others_update) simp
  moreover have "cId ` set (update_rows p f (commands s)) = cId ` set (commands s)"
    using f by (simp add: map_update_rows flip: set_map)
  moreover have "\<exists>c0 \<in> set (commands s). cId c0 = cId c \<and> cStatus c0 = CQueued"
    if "c \<in> set (update_rows p f (commands s))" "cStatus c = CQueued" for c
    using that f by (auto simp: update_rows_def split: if_splits)
  ultimately show ?thesis by (simp add: cm_le_def)
qed

lemma calm_settle:
  assumes "\<And>c. cId (f c) = cId c \<and> cVerb (f c) = cVerb c \<and> (cStatus (f c) = CQueued \<longrightarrow> cStatus c = CQueued)"
  shows "calm (modifyM (\<lambda>s. s\<lparr>commands := update_rows p f (commands s)\<rparr>))" and "calm (updateCommand i f)"
  unfolding updateCommand_def by (rule runsI; auto intro!: r_into_rtranclp settle_le [OF assms])+

lemma calm_audit [writing]: "calm (audit ev)"
  by (rule calm_frame) (rule cm.frames_log)

lemma calm_reads [writing]:
  "calm (mustGetBee b)" "calm (mustBeeMove i)" "calm (mustBeeHandoff i)" "calm (updateBee p f)"
  by (rule calm_frame, intro frame)+

lemma calm_mootCommand [writing]: "calm (mootCommand c b g reason)"
  unfolding mootCommand_def by (intro writing calm_settle) simp

lemma calm_supersede [writing]: "calm (applySupersedeBeeMove i f)" "calm (applySupersedeBeeHandoff i f)"
proof -
  have [writing]: "calm (applyFailBeeMove i f)" "calm (applyFailBeeHandoff i f)" by (rule calm_frame, intro frame)+
  show "calm (applySupersedeBeeMove i f)" "calm (applySupersedeBeeHandoff i f)"
    unfolding applySupersedeBeeMove_def applySupersedeBeeHandoff_def supersedeCommands_def by (intro writing)+
qed

lemma calm_release [writing]: "calm (releaseAuthDeathRecovery i reason)"
proof -
  have [writing]: "calm (cancelMessageInternal b m x owner)" for b m x owner by (rule calm_frame, intro frame)
  have [writing]: "calm (putAuthInterruption row)" for row
    by (rule calm_frame) (unfold putAuthInterruption_def, intro frame, simp add: cm_part_def)
  show ?thesis unfolding releaseAuthDeathRecovery_def Let_def by (intro writing)
qed

lemma calm_args [writing]: "calm (applyArgs b nxt)"
  unfolding applyArgs_def invalidateAuthDeathRecovery_def by (intro writing)

lemma calm_reconnect [writing]: "calm (setReconnectResult i r e)"
  unfolding setReconnectResult_def Let_def by (intro writing calm_settle) simp

lemma calm_mootModelChange [writing]: "calm (mootModelChange c reason)"
  unfolding mootModelChange_def by (intro writing calm_settle) simp

lemma calm_normalize [writing]: "calm (normalizeBeeArgs v w)"
  unfolding normalizeBeeArgs_def by (intro writing)

section \<open>A wake queues one command\<close>

lemma enqueue_run:
  assumes "applyEnqueue v b args g k n s = Inr (x, s')"
  shows "cId x = nextCommandId s \<and> cVerb x = v \<and> commands s' = commands s @ [x] \<and> nextCommandId s' = nextCommandId s + 1
    \<and> execEffects s' = execEffects s"
proof -
  have guard: "(if v \<in> set MAILBOX_ONLY_REFUSED_VERBS then bindM (mustGetBee b) refuseMailboxOnlyRuntime else returnM ()) s0
      = Inr (u, s1) \<Longrightarrow> s1 = s0" for s0 u s1
    by (auto simp: bindM_Inr mustGetBee_def refuseMailboxOnlyRuntime_def split: if_splits option.splits)
  show ?thesis using assms by (auto simp: applyEnqueue_def bindM_Inr thenM_def audit_def dest!: guard)
qed

lemma wake_le:
  assumes "applyEnqueue VSendWake b args g k n s = Inr (x, s')"
  shows "cm_le 1 s s'"
proof -
  note run = enqueue_run [OF assms]
  have "others i (commands s @ [x]) \<le> others i (commands s) + 1" for i
    using run by (simp add: others_def weight_def)
  with run show ?thesis unfolding cm_le_def by auto
qed

lemma scheduleWake_le: "scheduleWake bee s = Inr (x, s') \<Longrightarrow> cm_le 1 s s'"
proof -
  assume run: "scheduleWake bee s = Inr (x, s')"
  have quiet: "thenM (audit e) (returnM y) s = Inr (x, s') \<Longrightarrow> cm_le 1 s s'" for e y
    by (auto simp: audit_def cm_le_def)
  show ?thesis using run
    by (auto simp: scheduleWake_def bindM_Inr Let_def simp del: One_nat_def intro: wake_le quiet split: if_splits option.splits)
qed

lemma applyWake_le: "applyWakeIfNeeded b s = Inr (x, s') \<Longrightarrow> cm_le 1 s s'"
proof -
  assume run: "applyWakeIfNeeded b s = Inr (x, s')"
  have quiet: "thenM (audit e) (returnM y) s = Inr (x, s') \<Longrightarrow> cm_le 1 s s'" for e y
    by (auto simp: audit_def cm_le_def)
  have bee: "mustGetBee b s = Inr (r, s1) \<Longrightarrow> s1 = s" for r s1
    by (auto simp: mustGetBee_def split: option.splits)
  show ?thesis using run
    by (auto simp: applyWakeIfNeeded_def bindM_Inr Let_def simp del: One_nat_def intro: scheduleWake_le quiet dest!: bee split: if_splits option.splits)
qed

lemma rearm_le: "rearmWakeIfFencedMail b s = Inr (x, s') \<Longrightarrow> cm_le 1 s s'"
  by (auto simp: rearmWakeIfFencedMail_def bindM_Inr simp del: One_nat_def intro: applyWake_le split: if_splits)

section \<open>The parts of a round\<close>

lemma moot_settled: "mootCommand c b g reason s = Inr (x, s') \<Longrightarrow> settled (cId c) s'"
  by (auto simp: mootCommand_def bindM_Inr thenM_def audit_def settled_def update_rows_def)

lemma mootModel_settled: "mootModelChange c reason s = Inr (x, s') \<Longrightarrow> settled (cId c) s'"
  by (auto simp: mootModelChange_def bindM_Inr audit_def settled_def update_rows_def)

lemma mootStale_run: "mootStale c reason s = Inr (x, s') \<Longrightarrow> cm_le 0 s s' \<and> settled (cId c) s'"
  using moot_settled calmD [OF calm_mootCommand] by (fastforce simp: mootStale_def)

lemma duringMove_run:
  assumes "claimDuringMove c mv s = Inr (moot, s')"
  shows "cm_le 1 s s' \<and> (moot \<longrightarrow> settled (cId c) s')"
proof -
  have sup: "cm_le 1 s s2" if "applySupersedeBeeMove i f s = Inr (x, s1)" "rearmWakeIfFencedMail b s1 = Inr (y, s2)" for i f b x y s1 s2
    using cm_le_trans [OF calmD [OF calm_supersede(1) that(1)] rearm_le [OF that(2)]] by simp
  have stale: "cm_le 1 s s1 \<and> settled (cId c) s1" if "mootStale c r s = Inr (x, s1)" for r x s1
    using mootStale_run [OF that] cm_le_mono by auto
  show ?thesis using assms
    by (auto simp: claimDuringMove_def bindM_Inr simp del: One_nat_def dest: sup stale split: option.splits if_splits)
qed

lemma duringHandoff_run:
  assumes "claimDuringHandoff c ho s = Inr (moot, s')"
  shows "cm_le 1 s s' \<and> (moot \<longrightarrow> settled (cId c) s')"
proof -
  have sup: "cm_le 1 s s2" if "applySupersedeBeeHandoff i f s = Inr (x, s1)" "rearmWakeIfFencedMail b s1 = Inr (y, s2)" for i f b x y s1 s2
    using cm_le_trans [OF calmD [OF calm_supersede(2) that(1)] rearm_le [OF that(2)]] by simp
  have stale: "cm_le 1 s s1 \<and> settled (cId c) s1" if "mootStale c r s = Inr (x, s1)" for r x s1
    using mootStale_run [OF that] cm_le_mono by auto
  show ?thesis using assms
    by (auto simp: claimDuringHandoff_def bindM_Inr simp del: One_nat_def dest: sup stale split: option.splits if_splits)
qed

lemma placement_run:
  assumes "claimPlacement c s = Inr (moot, s')"
  shows "cm_le 2 s s' \<and> (moot \<longrightarrow> settled (cId c) s') \<and> (cVerb c \<notin> set LIFECYCLE_VERBS \<longrightarrow> s' = s \<and> \<not> moot)"
proof (cases "cVerb c \<in> set LIFECYCLE_VERBS")
  case True
  with assms obtain x s1 where mv: "claimDuringMove c (Option.bind (getBee s (cBeeId c)) bActiveMoveId) s = Inr (x, s1)"
    and rest: "(if x then returnM True else claimDuringHandoff c (Option.bind (getBee s (cBeeId c)) bActiveHandoffId)) s1 = Inr (moot, s')"
    by (auto simp: claimPlacement_def bindM_Inr)
  note M = duringMove_run [OF mv]
  show ?thesis
  proof (cases x)
    case True
    with M rest show ?thesis using cm_le_mono \<open>cVerb c \<in> set LIFECYCLE_VERBS\<close> by auto
  next
    case False
    with rest have "claimDuringHandoff c (Option.bind (getBee s (cBeeId c)) bActiveHandoffId) s1 = Inr (moot, s')" by simp
    from duringHandoff_run [OF this] M cm_le_trans [of 1 s s1 1 s'] show ?thesis using True by (simp del: One_nat_def)
  qed
qed (use assms in \<open>simp add: claimPlacement_def\<close>)

lemma target_run:
  assumes run: "claimForTarget c s = Inr (stale, s')"
  shows "cm_le 0 s s' \<and> (stale \<longrightarrow> settled (cId c) s') \<and> (\<not> stale \<longrightarrow> s' = s)"
proof -
  have 1: "cm_le 0 s s2 \<and> settled (cId c) s2"
    if "whenM p (setReconnectResult i r e) s = Inr (x, s1)" "mootCommand c b g reason s1 = Inr (y, s2)" for p i r e x s1 b g reason y s2
  proof -
    have "calm (whenM p (setReconnectResult i r e))" by (intro writing)
    then have "cm_le 0 s s1" using that(1) by (rule calmD)
    from cm_le_trans [OF this calmD [OF calm_mootCommand that(2)]] moot_settled [OF that(2)] show ?thesis by simp
  qed
  have 2: "cm_le 0 s s2 \<and> settled (cId c) s2"
    if "whenM p (bindM (normalizeBeeArgs v w) (\<lambda>nxt. bindM (applyArgs b nxt) (\<lambda>_. returnM ()))) s = Inr (x, s1)"
      "mootModelChange c reason s1 = Inr (y, s2)" for p v w b x s1 reason y s2
  proof -
    have "calm (whenM p (bindM (normalizeBeeArgs v w) (\<lambda>nxt. bindM (applyArgs b nxt) (\<lambda>_. returnM ()))))" by (intro writing)
    then have "cm_le 0 s s1" using that(1) by (rule calmD)
    from cm_le_trans [OF this calmD [OF calm_mootModelChange that(2)]] mootModel_settled [OF that(2)] show ?thesis by simp
  qed
  have 3: "cm_le 0 s s1 \<and> settled (cId c) s1" if "mootCommand c b g reason s = Inr (y, s1)" for b g reason y s1
    using calmD [OF calm_mootCommand that] moot_settled [OF that] by simp
  show ?thesis
  proof (cases "cTargetGeneration c")
    case (Some target)
    show ?thesis using run
      by (auto simp: claimForTarget_def Some bindM_Inr Let_def dest: 1 2 3 split: if_splits)
  qed (use run in \<open>simp add: claimForTarget_def\<close>)
qed

section \<open>The claim ends\<close>

text \<open>
  The fence answers for every queued command it is bound to: its effect is completed, or it is queued and
  names the command. A queued command whose effect is in any other state is never settled by the claim.
\<close>

definition fence_settles :: "core \<Rightarrow> bool" where
  "fence_settles s \<longleftrightarrow>
     distinct (map xeKey (execEffects s))
     \<and> (\<forall>e \<in> set (execEffects s). \<forall>i. xeCommand e = Some i \<longrightarrow> i < nextCommandId s
          \<and> (settled i s \<or> xrStatus (xeReceipt e) = XsCompleted
             \<or> (xrStatus (xeReceipt e) = XsQueued \<and> xrCommandId (xeReceipt e) = Some i)))"

lemma settles_le:
  assumes ok: "fence_settles s" and le: "cm_le n s s'"
  shows "fence_settles s'"
  unfolding fence_settles_def
proof (intro conjI ballI allI impI)
  note L = cm_leD [OF le]
  show "distinct (map xeKey (execEffects s'))" using ok L(1) by (simp add: fence_settles_def)
  fix e i assume e: "e \<in> set (execEffects s')" "xeCommand e = Some i"
  with ok L(1) have old: "i < nextCommandId s" "settled i s \<or> xrStatus (xeReceipt e) = XsCompleted
      \<or> (xrStatus (xeReceipt e) = XsQueued \<and> xrCommandId (xeReceipt e) = Some i)" by (auto simp: fence_settles_def)
  then show "i < nextCommandId s'" using L(2) by simp
  have "settled i s'" if "settled i s" unfolding settled_def
  proof (intro ballI impI notI)
    fix c assume c: "c \<in> set (commands s')" "cId c = i" "cStatus c = CQueued"
    from L(5) [OF c(1,3)] c(2) old(1) that show False by (auto simp: settled_def)
  qed
  with old(2) show "settled i s' \<or> xrStatus (xeReceipt e) = XsCompleted
      \<or> (xrStatus (xeReceipt e) = XsQueued \<and> xrCommandId (xeReceipt e) = Some i)" by blast
qed

lemma backlog_split: "backlog s = others i (commands s) + sum_list (map weight (filter (\<lambda>c. cId c = i) (commands s)))"
proof -
  have "sum_list (map weight cs) = others i cs + sum_list (map weight (filter (\<lambda>c. cId c = i) cs))" for cs
    by (induction cs) (simp_all add: others_def)
  then show ?thesis unfolding backlog_def by (rule meta_spec)
qed

lemma backlog_less:
  assumes c: "c \<in> set (commands s)" "cStatus c = CQueued" and le: "cm_le n s s'" and done': "settled (cId c) s'"
    and n: "n < weight c"
  shows "backlog s' < backlog s"
proof -
  let ?mine = "\<lambda>s. sum_list (map weight (filter (\<lambda>x. cId x = cId c) (commands s)))"
  have "?mine s' = 0" using done' by (auto simp: settled_def weight_def sum_list_eq_0_iff)
  moreover have "weight c \<le> ?mine s" using c(1) by (intro member_le_sum_list) auto
  moreover have "others (cId c) (commands s') \<le> others (cId c) (commands s) + n" by (rule cm_leD(4) [OF le])
  ultimately show ?thesis using n backlog_split [of s "cId c"] backlog_split [of s' "cId c"] by linarith
qed

text \<open>What a refusal of the fence settles.\<close>

lemma in_update_rows: "x \<in> set (update_rows p f rows) \<Longrightarrow> \<exists>r \<in> set rows. x = (if p r then f r else r)"
  by (auto simp: update_rows_def)

lemma finish_run:
  "finishPending i s = Inr ((), s\<lparr>commands := update_rows (\<lambda>c. Some (cId c) = i \<and> (cStatus c = CQueued \<or> cStatus c = CRunning))
     (\<lambda>c. c\<lparr>cStatus := CDone, cFinishedAt := Some (clock s)\<rparr>) (commands s)\<rparr>)"
  by (simp add: finishPending_def)

lemma finish_le:
  assumes "finishPending i s = Inr (x, s')"
  shows "cm_le 0 s s' \<and> (\<forall>n. i = Some n \<longrightarrow> settled n s')"
proof -
  let ?f = "\<lambda>c. c\<lparr>cStatus := CDone, cFinishedAt := Some (clock s)\<rparr>"
  let ?p = "\<lambda>c. Some (cId c) = i \<and> (cStatus c = CQueued \<or> cStatus c = CRunning)"
  have s': "s' = s\<lparr>commands := update_rows ?p ?f (commands s)\<rparr>" using assms by (simp add: finish_run)
  have "cm_le 0 s (s\<lparr>commands := update_rows ?p ?f (commands s)\<rparr>)" by (rule settle_le) simp
  moreover have "settled n (s\<lparr>commands := update_rows ?p ?f (commands s)\<rparr>)" if n: "i = Some n" for n
    unfolding settled_def
  proof (intro ballI impI)
    fix c assume c: "c \<in> set (commands (s\<lparr>commands := update_rows ?p ?f (commands s)\<rparr>))" "cId c = n"
    from c(1) have "c \<in> set (update_rows ?p ?f (commands s))" by simp
    from in_update_rows [OF this] obtain c0 where "c = (if ?p c0 then ?f c0 else c0)" by blast
    with c(2) n show "cStatus c \<noteq> CQueued" by (cases "?p c0") auto
  qed
  ultimately show ?thesis unfolding s' by blast
qed

lemma execRow_run: "execRow k s = Inr (r, s1) \<Longrightarrow> s1 = s \<and> r = find_row xeKey (execEffects s) k"
  by (auto simp: execRow_def bindM_Inr split: option.splits)

text \<open>The fence with the row it finds, and without one.\<close>

definition fenceAnswer :: "nat \<Rightarrow> command_row option \<Rightarrow> string \<Rightarrow> exec_effect \<Rightarrow> bool store_op" where
  "fenceAnswer i command k e =
     bindM (requireM (case command of
              None \<Rightarrow> False
            | Some c \<Rightarrow> verb_text (cVerb c) = exec_verb_text (xcVerb (xeBinding e))
                \<and> cBeeId c = xcBeeId (xeBinding e) \<and> cIdempotencyKey c = Some (xcKey (xeBinding e)))
              (ExecutionFenceError XcHistoryUnknown)) (\<lambda>_.
       if xrStatus (xeReceipt e) = XsCompleted
       then bindM (finishPending (Some i)) (\<lambda>_.
            bindM (audit (EvExec (XvCompletedReplay (xcBeeId (xeBinding e)) i))) (\<lambda>_. returnM False))
       else if xrStatus (xeReceipt e) = XsRefusedStale then returnM False
       else
         bindM (readM (\<lambda>s. claimCovered s (xeBinding e) \<and> currentClaim s (xeBinding e) = Some (xeBinding e))) (\<lambda>live.
           if live then returnM True
           else bindM (refuseExecution k) (\<lambda>_. returnM False)))"

lemma allowed_cases:
  assumes run: "commandAllowed i s = Inr (x, s')"
  obtains "List.find (\<lambda>e. xeCommand e = Some i) (execEffects s) = None" "x" "s' = s"
  | r e where "List.find (\<lambda>e. xeCommand e = Some i) (execEffects s) = Some r"
      "find_row xeKey (execEffects s) (xeKey r) = Some e" "fenceAnswer i (getCommand s i) (xeKey r) e s = Inr (x, s')"
proof (cases "List.find (\<lambda>e. xeCommand e = Some i) (execEffects s)")
  case None
  with run have "x \<and> s' = s" by (cases "Option.bind (getCommand s i) cIdempotencyKey") (auto simp: commandAllowed_def bindM_Inr)
  with None that(1) show ?thesis by blast
next
  case (Some r)
  then have "commandAllowed i s = bindM (execRow (xeKey r)) (\<lambda>found. case found of None \<Rightarrow> throwM (JsError ''TypeError'')
      | Some e \<Rightarrow> fenceAnswer i (getCommand s i) (xeKey r) e) s"
    unfolding commandAllowed_def fenceAnswer_def by simp
  with run obtain found s1 where "execRow (xeKey r) s = Inr (found, s1)"
    and "(case found of None \<Rightarrow> throwM (JsError ''TypeError'') | Some e \<Rightarrow> fenceAnswer i (getCommand s i) (xeKey r) e) s1 = Inr (x, s')"
    by (auto simp: bindM_Inr)
  moreover from this obtain e where "found = Some e" by (cases found) auto
  ultimately have "find_row xeKey (execEffects s) (xeKey r) = Some e"
    "fenceAnswer i (getCommand s i) (xeKey r) e s = Inr (x, s')" using execRow_run by fastforce+
  with Some that(2) show ?thesis by blast
qed

lemma answer_true: "fenceAnswer i command k e s = Inr (True, s') \<Longrightarrow> s' = s"
  by (auto simp: fenceAnswer_def bindM_Inr split: if_splits)

lemma allowed_true: "commandAllowed i s = Inr (True, s') \<Longrightarrow> s' = s"
  by (erule allowed_cases) (auto dest: answer_true)

text \<open>The row the fence finds, and what it does with a command that it does not let run.\<close>

lemma allowed_false:
  assumes keys: "distinct (map xeKey (execEffects s))" and run: "commandAllowed i s = Inr (False, s')"
  shows "\<exists>e \<in> set (execEffects s). xeCommand e = Some i \<and> find_row xeKey (execEffects s) (xeKey e) = Some e
    \<and> (if xrStatus (xeReceipt e) = XsCompleted
        then \<exists>s1. finishPending (Some i) s = Inr ((), s1) \<and> cm_part s' = cm_part s1
        else xrStatus (xeReceipt e) = XsRefusedStale \<and> s' = s \<or> refuseExecution (xeKey e) s = Inr ((), s'))"
  using run
proof (cases rule: allowed_cases)
  case (2 r e)
  then have r: "r \<in> set (execEffects s)" "xeCommand r = Some i" by (auto simp: find_Some_iff)
  with 2 find_row_mem [OF keys r(1)] have [simp]: "e = r" by simp
  from 2 r show ?thesis
    by (intro bexI [of _ r]) (auto simp: fenceAnswer_def bindM_Inr audit_def cm_part_def split: if_splits)
qed simp

lemma refuse_finishes:
  assumes row: "find_row xeKey (execEffects s) k = Some e" and q: "xrStatus (xeReceipt e) = XsQueued"
    and run: "refuseExecution k s = Inr (x, s')"
  shows "\<exists>s1. finishPending (xrCommandId (xeReceipt e)) (s\<lparr>execEffects := update_rows (\<lambda>x. xeKey x = k)
      (setReceipt ((xeReceipt e)\<lparr>xrStatus := XsRefusedStale\<rparr>)) (execEffects s)\<rparr>) = Inr ((), s1) \<and> cm_part s' = cm_part s1"
  using run q by (auto simp: refuseExecution_def execRow_def row bindM_Inr updateExecEffect_def whenM_def audit_def cm_part_def)

lemma refused_round:
  assumes ok: "fence_settles s" and c: "c \<in> set (commands s)" "cStatus c = CQueued"
    and run: "commandAllowed (cId c) s = Inr (False, s')"
  shows "backlog s' < backlog s \<and> fence_settles s'"
proof -
  have w: "0 < weight c" using c(2) by (simp add: weight_def)
  have keys: "distinct (map xeKey (execEffects s))" using ok by (simp add: fence_settles_def)
  from allowed_false [OF keys run] obtain e where e: "e \<in> set (execEffects s)" "xeCommand e = Some (cId c)"
    and row: "find_row xeKey (execEffects s) (xeKey e) = Some e"
    and how: "if xrStatus (xeReceipt e) = XsCompleted
        then \<exists>s1. finishPending (Some (cId c)) s = Inr ((), s1) \<and> cm_part s' = cm_part s1
        else xrStatus (xeReceipt e) = XsRefusedStale \<and> s' = s \<or> refuseExecution (xeKey e) s = Inr ((), s')" by blast
  have "\<not> settled (cId c) s" using c by (auto simp: settled_def)
  then have st: "xrStatus (xeReceipt e) = XsCompleted \<or> (xrStatus (xeReceipt e) = XsQueued \<and> xrCommandId (xeReceipt e) = Some (cId c))"
    using ok e by (auto simp: fence_settles_def)
  show ?thesis
  proof (cases "xrStatus (xeReceipt e) = XsCompleted")
    case True
    with how obtain s1 where fin: "finishPending (Some (cId c)) s = Inr ((), s1)" and aud: "cm_part s' = cm_part s1" by auto
    have "cm_le 0 s s'" "settled (cId c) s'" using finish_le [OF fin] aud by (auto simp: settled_def cm_part_def cm_le_def)
    then show ?thesis using backlog_less [OF c _ _ w] settles_le [OF ok] by blast
  next
    case False
    with st how have q: "xrStatus (xeReceipt e) = XsQueued" "xrCommandId (xeReceipt e) = Some (cId c)"
      and ref: "refuseExecution (xeKey e) s = Inr ((), s')" by auto
    let ?es = "update_rows (\<lambda>x. xeKey x = xeKey e) (setReceipt ((xeReceipt e)\<lparr>xrStatus := XsRefusedStale\<rparr>)) (execEffects s)"
    from refuse_finishes [OF row q(1) ref] q(2) obtain s1 where
      fin: "finishPending (Some (cId c)) (s\<lparr>execEffects := ?es\<rparr>) = Inr ((), s1)" and aud: "cm_part s' = cm_part s1" by auto
    let ?t = "s'\<lparr>execEffects := execEffects s\<rparr>"
    have es: "execEffects s' = ?es" and le: "cm_le 0 s ?t" and set: "settled (cId c) s'"
      using finish_le [OF fin] aud by (auto simp: cm_le_def cm_part_def settled_def)
    have same: "settled i ?t = settled i s'" "backlog ?t = backlog s'" for i by (simp_all add: settled_def backlog_def)
    have old: "fence_settles ?t" by (rule settles_le [OF ok le])
    have "fence_settles s'" unfolding fence_settles_def
    proof (intro conjI ballI allI impI)
      show "distinct (map xeKey (execEffects s'))" using keys by (simp add: es map_update_rows setReceipt_def)
      fix x i assume "x \<in> set (execEffects s')" "xeCommand x = Some i"
      then obtain y where y: "y \<in> set (execEffects s)" "xeCommand y = Some i" "x = y \<or> xeKey y = xeKey e"
        by (auto simp: es update_rows_def setReceipt_def split: if_splits)
      with old show "i < nextCommandId s'" by (auto simp: fence_settles_def)
      have "i = cId c" if "xeKey y = xeKey e" using find_row_mem [OF keys y(1)] that row y(2) e(2) by simp
      with set y old show "settled i s' \<or> xrStatus (xeReceipt x) = XsCompleted
          \<or> (xrStatus (xeReceipt x) = XsQueued \<and> xrCommandId (xeReceipt x) = Some i)"
        by (auto simp: fence_settles_def same)
    qed
    moreover have "backlog ?t < backlog s" using backlog_less [OF c le _ w] set by (simp add: same)
    ultimately show ?thesis by (simp add: same)
  qed
qed

lemma nextClaimable_in: "nextClaimable s bl ib = Some c \<Longrightarrow> c \<in> set (commands s) \<and> claimable s bl ib c"
  by (auto simp: nextClaimable_def find_Some_iff)

lemma claimable_queued: "claimable s bl ib c \<Longrightarrow> cStatus c = CQueued"
  by (simp add: claimable_def)

text \<open>A pass that goes on found a command, and the fence, the placement or the target settled it.\<close>

lemma again_cases:
  assumes "claimRound bl ib s = Inr (ClAgain, s')"
  obtains c where "nextClaimable s bl ib = Some c" "commandAllowed (cId c) s = Inr (False, s')"
  | c where "nextClaimable s bl ib = Some c" "claimPlacement c s = Inr (True, s')"
  | c s1 where "nextClaimable s bl ib = Some c" "claimPlacement c s = Inr (False, s1)" "claimForTarget c s1 = Inr (True, s')"
  using assms by (auto simp: claimRound_def bindM_Inr dest: allowed_true split: option.splits if_splits)

lemma again_less:
  assumes ok: "fence_settles s" and run: "claimRound bl ib s = Inr (ClAgain, s')"
  shows "backlog s' < backlog s \<and> fence_settles s'"
  using run
proof (cases rule: again_cases)
  case (1 c)
  with nextClaimable_in claimable_queued refused_round [OF ok] show ?thesis by blast
next
  case (2 c)
  note N = nextClaimable_in [OF 2(1)] and P = placement_run [OF 2(2)]
  then have "cVerb c \<in> set LIFECYCLE_VERBS" by auto
  then have "2 < weight c" using claimable_queued N by (auto simp: weight_def LIFECYCLE_VERBS_def)
  with N P backlog_less claimable_queued settles_le [OF ok] show ?thesis by blast
next
  case (3 c s1)
  note N = nextClaimable_in [OF 3(1)] and P = placement_run [OF 3(2)] and T = target_run [OF 3(3)]
  from P T have le: "cm_le 2 s s'" "settled (cId c) s'" using cm_le_trans [of 2 s s1 0 s'] by simp_all
  have q: "cStatus c = CQueued" using N claimable_queued by blast
  have "backlog s' < backlog s"
  proof (cases "cVerb c \<in> set LIFECYCLE_VERBS")
    case True
    then have "2 < weight c" using q by (auto simp: weight_def LIFECYCLE_VERBS_def)
    with N q le backlog_less show ?thesis by blast
  next
    case False
    with P T have "cm_le 0 s s'" "0 < weight c" using q by (simp_all add: weight_def)
    with N q le backlog_less show ?thesis by blast
  qed
  with le settles_le [OF ok] show ?thesis by blast
qed

text \<open>
  C33. Claiming the next command ends: from every state in which the fence answers for the commands it is bound to, the
  loop over the queue comes to an answer (a command, none, or an error), whatever moves, handoffs, stale
  commands and outlived model changes it settles and whatever wakes it queues on the way.
\<close>

theorem claimNextCommand_ends:
  assumes "fence_settles s"
  shows "\<exists>r. claimNextCommand bl ib s = Some r"
  using assms
proof (induction "backlog s" arbitrary: s rule: less_induct)
  case less
  show ?case
  proof (cases "claimRound bl ib s")
    case (Inl e)
    then show ?thesis by (subst claimNextCommand.simps) simp
  next
    case (Inr out)
    obtain x s' where out: "out = (x, s')" by (cases out)
    show ?thesis
    proof (cases x)
      case ClAgain
      with Inr out have run: "claimRound bl ib s = Inr (ClAgain, s')" by simp
      from again_less [OF less.prems run] less.hyps [of s'] show ?thesis
        by (subst claimNextCommand.simps) (simp add: run)
    qed (subst claimNextCommand.simps, simp add: Inr out)+
  qed
qed

text \<open>
  Without that the loop may not end: a queued command whose effect is refused already is selected again and
  again.
\<close>

lemma claimNextCommand_stuck:
  assumes again: "claimRound bl ib s = Inr (ClAgain, s)"
  shows "claimNextCommand bl ib s = None"
proof (rule ccontr)
  assume "claimNextCommand bl ib s \<noteq> None"
  then obtain r where r: "claimNextCommand bl ib s = Some r" by blast
  have "bl = bl \<longrightarrow> ib = ib \<longrightarrow> s \<noteq> s"
  proof (rule claimNextCommand.raw_induct [where P = "\<lambda>bl' ib' s0 r0. bl' = bl \<longrightarrow> ib' = ib \<longrightarrow> s0 \<noteq> s", OF _ r])
    fix f bl' ib' s0 r0
    assume IH: "\<And>bl' ib' s0 r0. f bl' ib' s0 = Some r0 \<Longrightarrow> bl' = bl \<longrightarrow> ib' = ib \<longrightarrow> s0 \<noteq> s"
      and body: "(case claimRound bl' ib' s0 of Inl e \<Rightarrow> Some (Inl e) | Inr (ClNothing, s') \<Rightarrow> Some (Inr (None, s'))
        | Inr (ClClaimed c, s') \<Rightarrow> Some (Inr (Some c, s')) | Inr (ClAgain, s') \<Rightarrow> f bl' ib' s') = Some r0"
    show "bl' = bl \<longrightarrow> ib' = ib \<longrightarrow> s0 \<noteq> s" using body IH [of bl ib s r0] by (auto simp: again)
  qed
  then show False by simp
qed

text \<open>
  So it is with a start whose effect is being prepared, refused or of unknown outcome while its claim is no longer
  the current one.
\<close>

lemma claim_loops:
  assumes c: "nextClaimable s bl ib = Some c" and no: "commandAllowed (cId c) s = Inr (False, s)"
  shows "claimNextCommand bl ib s = None"
  by (rule claimNextCommand_stuck) (simp add: claimRound_def bindM_def c no)

lemma fence_keeps:
  assumes found: "List.find (\<lambda>e. xeCommand e = Some i) (execEffects s) = Some e"
    and row: "execRow (xeKey e) s = Inr (Some e, s)"
    and cmd: "getCommand s i = Some c" "verb_text (cVerb c) = exec_verb_text (xcVerb (xeBinding e))"
      "cBeeId c = xcBeeId (xeBinding e)" "cIdempotencyKey c = Some (xcKey (xeBinding e))"
    and st: "xrStatus (xeReceipt e) \<notin> {XsQueued, XsCompleted}" and old: "currentClaim s (xeBinding e) \<noteq> Some (xeBinding e)"
  shows "commandAllowed i s = Inr (False, s)"
  using assms by (simp add: commandAllowed_def bindM_def requireM_def refuseExecution_def whenM_def)

section \<open>What is claimed may run\<close>

definition claim_frame :: "core \<Rightarrow> int \<times> runtime_row list \<times> thread_row list" where
  "claim_frame s = (clock s, runtimes s, threads s)"

interpretation cq: command_port claim_frame "\<lambda>_. True" "\<lambda>_. True"
  by unfold_locales (simp_all add: claim_frame_def)

lemma keeps_update [frame]: "frames claim_frame (updateCommand i f)" "frames claim_frame (finishPending x)"
  "frames claim_frame (updateExecEffect k g)"
  unfolding updateCommand_def finishPending_def updateExecEffect_def by (intro frame; simp add: claim_frame_def)+

lemma keeps_mustBee [frame]: "frames claim_frame (updateBee p f)" "frames claim_frame (audit ev)"
  by (rule cq.frames_updates cq.frames_log)+

lemma keeps_allowed [frame]: "frames claim_frame (commandAllowed i)"
  unfolding commandAllowed_def refuseExecution_def execRow_def by (intro frame)

lemma keeps_placement [frame]: "frames claim_frame (claimPlacement c)"
  unfolding claimPlacement_def claimDuringMove_def claimDuringHandoff_def mootStale_def by (intro frame)

lemma keeps_args [frame]: "frames claim_frame (applyArgs b nxt)"
proof -
  have [frame]: "frames claim_frame (putAuthInterruption row)" for row
    unfolding putAuthInterruption_def by (intro frame) (simp add: claim_frame_def)
  show ?thesis unfolding applyArgs_def invalidateAuthDeathRecovery_def releaseAuthDeathRecovery_def Let_def by (intro frame)
qed

lemma keeps_target [frame]: "frames claim_frame (claimForTarget c)"
proof -
  have [frame]: "frames claim_frame (mootModelChange c r)" for r
    unfolding mootModelChange_def by (intro frame) (simp add: claim_frame_def)
  show ?thesis unfolding claimForTarget_def setReconnectResult_def normalizeBeeArgs_def Let_def by (intro frame)
qed

lemma keeps_round: "frames claim_frame (claimRound bl ib)"
  unfolding claimRound_def by (intro frame)

definition may_run :: "string list \<Rightarrow> string list \<Rightarrow> core \<Rightarrow> command_row \<Rightarrow> bool" where
  "may_run bl ib s c \<longleftrightarrow>
     cNextAttemptAt c \<le> clock s
     \<and> (cTargetGeneration c = None
        \<or> cTargetGeneration c = Some (case currentRuntime s (cBeeId c) of Some r \<Rightarrow> rGeneration r | None \<Rightarrow> 0))
     \<and> (cVerb c = VReconnectTools
        \<or> (cVerb c = VStop \<and> (map_of (cArgs c) ''replacementArgs'' \<noteq> None \<or> map_of (cArgs c) ''waitForIdle'' = Some (JBool True)))
        \<longrightarrow> \<not> targetBusy s c)
     \<and> (\<forall>r. cVerb c = VStop \<and> cTargetGeneration c \<noteq> None \<and> currentRuntime s (cBeeId c) = Some r \<and> rState r = RStopped
        \<longrightarrow> js_get (cArgs c) ''replacementArgs'' \<noteq> None \<and> rExitCause r \<in> {Some ExStoppedBySystem, Some ExMachineRestart})
     \<and> (cVerb c \<in> set START_VERBS \<longrightarrow> cBeeId c \<notin> set bl \<and> \<not> threadIn s (cBeeId c) [ThStarting, ThReady])
     \<and> (cVerb c = VArchive \<longrightarrow> \<not> threadIn s (cBeeId c) [ThReady])
     \<and> (cBeeId c \<in> set ib \<longrightarrow> cVerb c = VUnarchive)"

lemma may_run_frame: "claim_frame s' = claim_frame s \<Longrightarrow> may_run bl ib s' c = may_run bl ib s c"
  by (simp add: may_run_def claim_frame_def currentRuntime_def targetBusy_def threadIn_def)

lemma may_run_status: "may_run bl ib s (c\<lparr>cStatus := st\<rparr>) = may_run bl ib s c"
  by (simp add: may_run_def targetBusy_def)

lemma claimable_runs:
  assumes c: "c \<in> set (commands s)" "claimable s bl ib c" and t: "claimForTarget c s1 = Inr (False, s1)" and same: "claim_frame s1 = claim_frame s"
  shows "may_run bl ib s c"
proof -
  have rt: "runtimes s1 = runtimes s" using same by (simp add: claim_frame_def)
  have target: "cTargetGeneration c = None \<or> cTargetGeneration c = Some (case currentRuntime s (cBeeId c) of Some r \<Rightarrow> rGeneration r | None \<Rightarrow> 0)"
    "\<forall>r. cVerb c = VStop \<and> cTargetGeneration c \<noteq> None \<and> currentRuntime s (cBeeId c) = Some r \<and> rState r = RStopped
        \<longrightarrow> js_get (cArgs c) ''replacementArgs'' \<noteq> None \<and> rExitCause r \<in> {Some ExStoppedBySystem, Some ExMachineRestart}"
    using t by (auto simp: claimForTarget_def bindM_Inr Let_def currentRuntime_def rt split: option.splits if_splits)
  have "cVerb c \<in> set START_VERBS \<longrightarrow> cBeeId c \<notin> set bl"
    using c claimable_queued [OF c(2)] by (auto simp: claimable_def list_ex_iff)
  moreover have "cBeeId c \<in> set ib \<longrightarrow> cVerb c = VUnarchive"
    using c(2) by (cases "cVerb c") (auto simp: claimable_def)
  moreover have "cNextAttemptAt c \<le> clock s" "cVerb c = VReconnectTools \<longrightarrow> \<not> targetBusy s c"
    "cVerb c = VStop \<and> map_of (cArgs c) ''replacementArgs'' \<noteq> None \<longrightarrow> \<not> targetBusy s c"
    "cVerb c = VStop \<and> map_of (cArgs c) ''waitForIdle'' = Some (JBool True) \<longrightarrow> \<not> targetBusy s c"
    "cVerb c \<in> set START_VERBS \<longrightarrow> \<not> threadIn s (cBeeId c) [ThStarting, ThReady]"
    "cVerb c = VArchive \<longrightarrow> \<not> threadIn s (cBeeId c) [ThReady]"
    using c(2) unfolding claimable_def by blast+
  ultimately show ?thesis using target unfolding may_run_def by blast
qed

lemma round_claims:
  assumes "claimRound bl ib s = Inr (ClClaimed c, s')"
  shows "cStatus c = CRunning \<and> may_run bl ib s c \<and> (\<exists>x \<in> set (commands s'). cId x = cId c \<and> cStatus x = CRunning)"
proof -
  obtain q s0 s1 s2 where q0: "nextClaimable s bl ib = Some q" "commandAllowed (cId q) s = Inr (True, s0)"
    "claimPlacement q s0 = Inr (False, s1)" "claimForTarget q s1 = Inr (False, s2)"
    and c: "c = q\<lparr>cStatus := CRunning\<rparr>"
    and s2: "commands s' = update_rows (\<lambda>x. cId x = cId q) (\<lambda>x. x\<lparr>cStatus := CRunning\<rparr>) (commands s2)"
    using assms by (auto simp: claimRound_def bindM_Inr updateCommand_def audit_def split: option.splits if_splits)
  have "s0 = s" "s2 = s1" using allowed_true [OF q0(2)] target_run [OF q0(4)] by simp_all
  with q0 s2 have q: "nextClaimable s bl ib = Some q" "claimPlacement q s = Inr (False, s1)" "claimForTarget q s1 = Inr (False, s1)"
    and s': "commands s' = update_rows (\<lambda>x. cId x = cId q) (\<lambda>x. x\<lparr>cStatus := CRunning\<rparr>) (commands s1)" by simp_all
  note N = nextClaimable_in [OF q(1)]
  have "cId q \<in> cId ` set (commands s1)" using N cm_leD(3) placement_run [OF q(2)] by blast
  then obtain x where x: "x \<in> set (commands s1)" "cId x = cId q" by auto
  then have "x\<lparr>cStatus := CRunning\<rparr> \<in> set (commands s')" by (force simp: s' update_rows_def)
  moreover have "cId (x\<lparr>cStatus := CRunning\<rparr>) = cId c" "cStatus (x\<lparr>cStatus := CRunning\<rparr>) = CRunning" using x(2) by (simp_all add: c)
  ultimately have "\<exists>x \<in> set (commands s'). cId x = cId c \<and> cStatus x = CRunning" by blast
  moreover have "may_run bl ib s q" using N q(3) framesD [OF keeps_placement q(2)] claimable_runs by blast
  ultimately show ?thesis by (simp add: c may_run_status)
qed

lemma claim_safe_run:
  "claimNextCommand bl ib s = Some r \<Longrightarrow> (\<forall>c s'. r = Inr (Some c, s') \<longrightarrow>
     cStatus c = CRunning \<and> may_run bl ib s c \<and> (\<exists>x \<in> set (commands s'). cId x = cId c \<and> cStatus x = CRunning)
     \<and> claim_frame s' = claim_frame s)"
proof (rule claimNextCommand.raw_induct [where P = "\<lambda>bl ib s r. \<forall>c s'. r = Inr (Some c, s') \<longrightarrow>
     cStatus c = CRunning \<and> may_run bl ib s c \<and> (\<exists>x \<in> set (commands s'). cId x = cId c \<and> cStatus x = CRunning)
     \<and> claim_frame s' = claim_frame s"])
  fix f bl ib s r
  assume IH: "\<And>bl ib s r. f bl ib s = Some r \<Longrightarrow> \<forall>c s'. r = Inr (Some c, s') \<longrightarrow>
     cStatus c = CRunning \<and> may_run bl ib s c \<and> (\<exists>x \<in> set (commands s'). cId x = cId c \<and> cStatus x = CRunning)
     \<and> claim_frame s' = claim_frame s"
    and body: "(case claimRound bl ib s of Inl e \<Rightarrow> Some (Inl e) | Inr (ClNothing, s') \<Rightarrow> Some (Inr (None, s'))
        | Inr (ClClaimed c, s') \<Rightarrow> Some (Inr (Some c, s')) | Inr (ClAgain, s') \<Rightarrow> f bl ib s') = Some r"
  show "\<forall>c s'. r = Inr (Some c, s') \<longrightarrow> cStatus c = CRunning \<and> may_run bl ib s c
      \<and> (\<exists>x \<in> set (commands s'). cId x = cId c \<and> cStatus x = CRunning) \<and> claim_frame s' = claim_frame s"
  proof (cases "claimRound bl ib s")
    case (Inr out)
    obtain x s1 where out: "out = (x, s1)" by (cases out)
    have same: "claim_frame s1 = claim_frame s" by (rule framesD [OF keeps_round Inr [unfolded out]])
    show ?thesis
    proof (cases x)
      case ClAgain
      with body Inr out have "f bl ib s1 = Some r" by simp
      from IH [OF this] show ?thesis using same by (simp add: may_run_frame [OF same])
    next
      case ClNothing
      with body Inr out show ?thesis by auto
    next
      case (ClClaimed c)
      with body Inr out same round_claims [of bl ib s c s1] show ?thesis by auto
    qed
  qed (use body in auto)
qed

text \<open>
  C34. A command that the queue hands out may run: it is marked running in the store, it is due, its generation is
  the current one of its bee, no reconnection, model change or stop that waits for idle meets a runtime that boots
  or runs a turn, no stop meets a stopped runtime unless it is the queue's own restart, no start goes to a blocked
  bee or ahead of its thread, and no lifecycle command to a bee whose identity is in doubt; and the claim changes
  no runtime.
\<close>

theorem claimed_may_run:
  assumes "claimNextCommand bl ib s = Some (Inr (Some c, s'))"
  shows "cStatus c = CRunning \<and> (\<exists>x \<in> set (commands s'). cId x = cId c \<and> cStatus x = CRunning) \<and> runtimes s' = runtimes s
    \<and> cNextAttemptAt c \<le> clock s
    \<and> (cTargetGeneration c = None
       \<or> cTargetGeneration c = Some (case currentRuntime s (cBeeId c) of Some r \<Rightarrow> rGeneration r | None \<Rightarrow> 0))
    \<and> (cVerb c = VReconnectTools
       \<or> (cVerb c = VStop \<and> (map_of (cArgs c) ''replacementArgs'' \<noteq> None \<or> map_of (cArgs c) ''waitForIdle'' = Some (JBool True)))
       \<longrightarrow> \<not> targetBusy s c)
    \<and> (\<forall>r. cVerb c = VStop \<and> cTargetGeneration c \<noteq> None \<and> currentRuntime s (cBeeId c) = Some r \<and> rState r = RStopped
       \<longrightarrow> js_get (cArgs c) ''replacementArgs'' \<noteq> None \<and> rExitCause r \<in> {Some ExStoppedBySystem, Some ExMachineRestart})
    \<and> (cVerb c \<in> set START_VERBS \<longrightarrow> cBeeId c \<notin> set bl \<and> \<not> threadIn s (cBeeId c) [ThStarting, ThReady])
    \<and> (cVerb c = VArchive \<longrightarrow> \<not> threadIn s (cBeeId c) [ThReady])
    \<and> (cBeeId c \<in> set ib \<longrightarrow> cVerb c = VUnarchive)"
proof -
  have "cStatus c = CRunning \<and> may_run bl ib s c \<and> (\<exists>x \<in> set (commands s'). cId x = cId c \<and> cStatus x = CRunning)
      \<and> claim_frame s' = claim_frame s" using claim_safe_run [OF assms] by blast
  then show ?thesis unfolding may_run_def claim_frame_def prod.inject by blast
qed

section \<open>Retries\<close>

lemma getCommand_update: "getCommand s i = Some c \<Longrightarrow> cId c = i \<and> c \<in> set (commands s)"
  by (auto simp: getCommand_def dest: find_row_Some)

text \<open>
  C35. A failure that is reported for a command: an unknown cause and a command that is not running are refused
  with nothing changed. A running one goes back to the queue with one more attempt, not before the exponential
  backoff, as long as attempts are left, and opens no flag; the last attempt settles it as failed with the cause, and opens the
  flag of that cause on its bee. In both cases no other command changes.
\<close>

theorem reportCommandFailure_correct:
  assumes cause: "cause_of name = Some f" and c: "getCommand s i = Some c"
  shows "(cStatus c \<noteq> CRunning \<longrightarrow> reportCommandFailure i name detail s = Inl CommandProtocolError)
    \<and> (cStatus c = CRunning \<and> cAttempts c + 1 < maxAttempts s \<longrightarrow>
        (let nxt = clock s + backoffBaseMs s * 2 ^ cAttempts c
         in \<exists>s'. reportCommandFailure i name detail s = Inr ((CQueued, cAttempts c + 1, Some nxt), s')
           \<and> commands s' = update_rows (\<lambda>x. cId x = i)
               (\<lambda>x. x\<lparr>cStatus := CQueued, cAttempts := cAttempts c + 1, cNextAttemptAt := nxt\<rparr>) (commands s)
           \<and> flags s' = flags s))
    \<and> (cStatus c = CRunning \<and> maxAttempts s \<le> cAttempts c + 1 \<longrightarrow>
        (\<exists>s'. reportCommandFailure i name detail s = Inr ((CFailed, cAttempts c + 1, None), s')
           \<and> commands s' = update_rows (\<lambda>x. cId x = i)
               (\<lambda>x. x\<lparr>cStatus := CFailed, cAttempts := cAttempts c + 1, cFinishedAt := Some (clock s), cFailureCause := Some f\<rparr>)
               (commands s)
           \<and> (\<forall>b k. hasFlag s' b k \<longleftrightarrow> (b = cBeeId c \<and> k = f \<and> getBee s b \<noteq> None) \<or> hasFlag s b k)))"
proof (intro conjI impI)
  show "reportCommandFailure i name detail s = Inl CommandProtocolError" if "cStatus c \<noteq> CRunning"
    using that by (simp add: reportCommandFailure_def cause c requireM_def)
  show "let nxt = clock s + backoffBaseMs s * 2 ^ cAttempts c
      in \<exists>s'. reportCommandFailure i name detail s = Inr ((CQueued, cAttempts c + 1, Some nxt), s')
        \<and> commands s' = update_rows (\<lambda>x. cId x = i)
            (\<lambda>x. x\<lparr>cStatus := CQueued, cAttempts := cAttempts c + 1, cNextAttemptAt := nxt\<rparr>) (commands s)
        \<and> flags s' = flags s" if "cStatus c = CRunning \<and> cAttempts c + 1 < maxAttempts s"
    using that by (simp add: reportCommandFailure_def cause c requireM_def updateCommand_def audit_def Let_def)
  assume run: "cStatus c = CRunning \<and> maxAttempts s \<le> cAttempts c + 1"
  let ?n = "cAttempts c + 1"
  let ?rows = "update_rows (\<lambda>x. cId x = i)
      (\<lambda>x. x\<lparr>cStatus := CFailed, cAttempts := ?n, cFinishedAt := Some (clock s), cFailureCause := Some f\<rparr>) (commands s)"
  define s1 where "s1 = s\<lparr>commands := ?rows, auditLog := auditLog s @ [EvRun (RvCommandFailed (cBeeId c) i ?n (clock s) f)]\<rparr>"
  have start: "reportCommandFailure i name detail s =
      bindM (whenM (getBee s (cBeeId c) \<noteq> None) (bindM (applySetFlag (cBeeId c) f (failureText c ?n f detail) None) (\<lambda>_. returnM ())))
        (\<lambda>_. returnM (CFailed, ?n, None)) s1"
    using run by (simp add: reportCommandFailure_def cause c requireM_def updateCommand_def audit_def Let_def s1_def getBee_def)
  have has: "hasFlag s1 b k = hasFlag s b k" "commands s1 = ?rows" for b k by (simp_all add: hasFlag_iff s1_def)
  show "\<exists>s'. reportCommandFailure i name detail s = Inr ((CFailed, ?n, None), s') \<and> commands s' = ?rows
      \<and> (\<forall>b k. hasFlag s' b k \<longleftrightarrow> (b = cBeeId c \<and> k = f \<and> getBee s b \<noteq> None) \<or> hasFlag s b k)"
  proof (cases "getBee s (cBeeId c)")
    case None
    then show ?thesis using has by (auto simp: start whenM_def)
  next
    case (Some bee)
    obtain row s2 where set: "applySetFlag (cBeeId c) f (failureText c ?n f detail) None s1 = Inr (row, s2)"
      "\<forall>b k. hasFlag s2 b k \<longleftrightarrow> (b = cBeeId c \<and> k = f) \<or> hasFlag s1 b k" "commands s2 = commands s1"
      using set_flag_run by blast
    then show ?thesis using Some has by (simp add: start whenM_def bindM_def) blast
  qed
qed

section \<open>A command of the sample store\<close>

definition sampleWake :: "command_status \<Rightarrow> nat \<Rightarrow> command_row" where
  "sampleWake st n =
     \<lparr>cId = 1, cVerb = VSendWake, cBeeId = ''bee1'', cArgs = [], cTargetGeneration = Some 1, cStatus = st, cAttempts = n,
      cNextAttemptAt = 900, cEnqueuedAt = 800, cFinishedAt = None, cFailureCause = None, cIdempotencyKey = None\<rparr>"

definition queueCore :: "command_status \<Rightarrow> nat \<Rightarrow> core" where
  "queueCore st n = (sampleCore [])\<lparr>commands := [sampleWake st n], nextCommandId := 2\<rparr>"

lemma queueCore_simps [simp]:
  "commands (queueCore st n) = [sampleWake st n]" "execEffects (queueCore st n) = []" "threads (queueCore st n) = []"
  "clock (queueCore st n) = 1000" "runtimes (queueCore st n) = [sampleRuntime]" "bees (queueCore st n) = [sampleBee]"
  "execClaims (queueCore st n) = []" "maxAttempts (queueCore st n) = 5" "backoffBaseMs (queueCore st n) = 1000" "flags (queueCore st n) = []"
  by (simp_all add: queueCore_def) (simp_all add: sampleCore_def)

lemma sampleWake_simps [simp]:
  "cId (sampleWake st n) = 1" "cVerb (sampleWake st n) = VSendWake" "cBeeId (sampleWake st n) = ''bee1''"
  "cTargetGeneration (sampleWake st n) = Some 1" "cStatus (sampleWake st n) = st" "cAttempts (sampleWake st n) = n"
  "cNextAttemptAt (sampleWake st n) = 900" "cIdempotencyKey (sampleWake st n) = None" "cArgs (sampleWake st n) = []"
  "cStatus_update (\<lambda>_. st') (sampleWake st n) = sampleWake st' n"
  by (simp_all add: sampleWake_def)

lemma queue_bee: "getBee (queueCore st n) ''bee1'' = Some sampleBee" "getCommand (queueCore st n) 1 = Some (sampleWake st n)"
  by (simp_all add: getBee_def getCommand_def sampleBee_def)

lemma queue_current: "currentRuntime (queueCore st n) ''bee1'' = Some sampleRuntime"
  by (simp add: currentRuntime_def sampleRuntime_def)

lemma queue_round: "\<exists>s'. claimRound [] [] (queueCore CQueued 0) = Inr (ClClaimed (sampleWake CRunning 0), s')"
proof -
  have "claimable (queueCore CQueued 0) [] [] (sampleWake CQueued 0)"
    by (simp add: claimable_def activeMove_def activeHandoff_def queue_bee threadIn_def START_VERBS_def) (simp add: sampleBee_def)
  then have "nextClaimable (queueCore CQueued 0) [] [] = Some (sampleWake CQueued 0)" by (simp add: nextClaimable_def)
  moreover have "commandAllowed 1 (queueCore CQueued 0) = Inr (True, queueCore CQueued 0)"
    using queue_bee(2) by (simp add: commandAllowed_def del: One_nat_def)
  moreover have "claimPlacement (sampleWake CQueued 0) = returnM False" by (simp add: claimPlacement_def LIFECYCLE_VERBS_def)
  moreover have "claimForTarget (sampleWake CQueued 0) (queueCore CQueued 0) = Inr (False, queueCore CQueued 0)"
    by (simp add: claimForTarget_def queue_current Let_def) (simp add: sampleRuntime_def)
  ultimately show ?thesis by (simp add: claimRound_def bindM_def updateCommand_def audit_def)
qed

lemma queue_claim: "\<exists>s'. claimNextCommand [] [] (queueCore CQueued 0) = Some (Inr (Some (sampleWake CRunning 0), s'))"
proof -
  obtain s' where "claimRound [] [] (queueCore CQueued 0) = Inr (ClClaimed (sampleWake CRunning 0), s')" using queue_round by blast
  then show ?thesis by (subst claimNextCommand.simps) simp
qed

theorem claimNextCommand_ends_witness: "\<exists>r. claimNextCommand [] [] (queueCore CQueued 0) = Some r \<and> fence_settles (queueCore CQueued 0)"
proof -
  have "fence_settles (queueCore CQueued 0)" by (simp add: fence_settles_def)
  with claimNextCommand_ends [OF this] show ?thesis by blast
qed

theorem claimed_may_run_witness:
  "\<exists>s'. claimNextCommand [] [] (queueCore CQueued 0) = Some (Inr (Some (sampleWake CRunning 0), s'))
     \<and> runtimes s' = [sampleRuntime] \<and> (\<exists>x \<in> set (commands s'). cId x = 1 \<and> cStatus x = CRunning)"
proof -
  obtain s' where run: "claimNextCommand [] [] (queueCore CQueued 0) = Some (Inr (Some (sampleWake CRunning 0), s'))"
    using queue_claim by blast
  from claimed_may_run [OF run] have "runtimes s' = [sampleRuntime]" "\<exists>x \<in> set (commands s'). cId x = 1 \<and> cStatus x = CRunning"
    by (simp_all del: One_nat_def)
  with run show ?thesis by blast
qed

theorem reportCommandFailure_correct_witness:
  "(\<exists>s'. reportCommandFailure 1 ''resource_blocked'' None (queueCore CRunning 2) = Inr ((CQueued, 3, Some 5000), s') \<and> flags s' = [])
   \<and> (\<exists>s'. reportCommandFailure 1 ''resource_blocked'' None (queueCore CRunning 4) = Inr ((CFailed, 5, None), s')
        \<and> hasFlag s' ''bee1'' FResourceBlocked)"
proof -
  have f: "cause_of ''resource_blocked'' = Some FResourceBlocked" by (simp add: cause_of_def cause_name_def)
  show ?thesis
    using reportCommandFailure_correct [OF f queue_bee(2), of CRunning 2 None]
      reportCommandFailure_correct [OF f queue_bee(2), of CRunning 4 None]
    by (auto simp: Let_def queue_bee)
qed

end
