(* ===== verification/Allocation.thy ===== *)
theory Allocation
  imports Prelude
begin

text \<open>
  The policy that admits new automatic work to an account (v2/core/src/accountAllocation.ts): the windows of a
  quota, the projection of a start, the headroom for completing work, the choice by weighted fair queueing, and
  the comparison of two accounts for a move of running work. A number that the code tests with
  Number.isFinite is an \<open>amount\<close>, which may be no finite number; a finite one is an exact rational, so the
  rounding of doubles is left out. \<open>collate\<close> is the collation key of \<open>localeCompare\<close>.
\<close>

section \<open>Numbers that may not be finite\<close>

datatype amount = Finite rat | NotFinite

fun amount_val :: "amount \<Rightarrow> rat" where
  "amount_val (Finite r) = r"
| "amount_val NotFinite = 0"

fun is_finite :: "amount \<Rightarrow> bool" where
  "is_finite (Finite r) = True"
| "is_finite NotFinite = False"

definition finiteNonNegative :: "amount \<Rightarrow> bool" where
  "finiteNonNegative a \<longleftrightarrow> is_finite a \<and> 0 \<le> amount_val a"

text \<open>\<open>Math.min(...xs)\<close> and \<open>Math.max(...xs)\<close> of a list that is not empty.\<close>

fun least_of :: "'a::linorder list \<Rightarrow> 'a" where
  "least_of [x] = x"
| "least_of (x # y # xs) = min x (least_of (y # xs))"

fun greatest_of :: "'a::linorder list \<Rightarrow> 'a" where
  "greatest_of [x] = x"
| "greatest_of (x # y # xs) = max x (greatest_of (y # xs))"

section \<open>The data\<close>

datatype window_kind = FiveHour | Weekly | FableWeekly

record admission_window =
  awKind :: window_kind
  awUsedPercent :: amount
  awResetsAt :: amount
  awVelocityPerHour :: amount
  awAdmissionCostPercent :: amount

record admission_quota =
  aqFetchedAt :: amount
  aqWindows :: "admission_window list"

datatype ineligible_reason = IrProvider | IrModel | IrAuth | IrGrants | IrPaused | IrCeiling | IrExhausted

datatype unknown_reason = UrModel | UrAuth | UrGrants

datatype eligibility = Eligible | Ineligible ineligible_reason | EligibilityUnknown unknown_reason

record admission_activity =
  ayComplete :: bool
  ayActive :: rat
  ayRecent :: rat
  ayPending :: rat
  ayOngoingUnits :: rat

record admission_candidate =
  cdAccountId :: string
  cdCapacityUnits :: amount
  cdEligibility :: eligibility
  cdQuota :: "admission_quota option"
  cdActivity :: admission_activity
  cdReservations :: rat

record admission_policy =
  plNow :: rat
  plModel :: "string option"
  plRequestUnits :: "rat option"
  plQuotaFreshMs :: rat
  plCompletionReservePercent :: rat
  plProjectionHorizonHours :: rat
  plNearResetFloorHours :: rat

definition DEFAULT_ACCOUNT_ADMISSION_POLICY :: "rat \<Rightarrow> admission_policy" where
  "DEFAULT_ACCOUNT_ADMISSION_POLICY now =
     \<lparr>plNow = now, plModel = None, plRequestUnits = Some 1, plQuotaFreshMs = 2 * 60 * 1000,
      plCompletionReservePercent = 90, plProjectionHorizonHours = 1, plNearResetFloorHours = 6\<rparr>"

datatype wait_reason = NoEligibleAccount | ActivityUnknown | QuotaUncertain | CompletionReserve

datatype receipt_status = RcEligible | RcIneligible | RcUncertain | RcProtected

datatype receipt_reason = RrIneligible ineligible_reason | RrUnknown unknown_reason | RrWait wait_reason

record candidate_receipt =
  rcAccountId :: string
  rcStatus :: receipt_status
  rcReason :: "receipt_reason option"
  rcRate :: "rat option"
  rcFairFinish :: "rat option"
  rcMaxProjectedPercent :: "rat option"

datatype decision =
    Selected string rat rat rat "candidate_receipt list"
  | Waits wait_reason "rat option" "candidate_receipt list"

section \<open>The model's name and the windows\<close>

text \<open>The regular expression \<open>(?:^|[-_/])fable(?:[-_/]|$)\<close>, without regard to case.\<close>

definition lower_char :: "char \<Rightarrow> char" where
  "lower_char c = (let n = (of_char c :: nat) in if 65 \<le> n \<and> n \<le> 90 then char_of (n + 32) else c)"

definition name_boundary :: "string \<Rightarrow> bool" where
  "name_boundary s = (case s of [] \<Rightarrow> True | c # _ \<Rightarrow> c \<in> set ''-_/'')"

fun fable_from :: "bool \<Rightarrow> string \<Rightarrow> bool" where
  "fable_from boundary [] = False"
| "fable_from boundary (c # cs) =
     (boundary \<and> map lower_char (take 5 (c # cs)) = ''fable'' \<and> name_boundary (drop 5 (c # cs))
      \<or> fable_from (c \<in> set ''-_/'') cs)"

definition fableModel :: "string option \<Rightarrow> bool" where
  "fableModel model = (case model of None \<Rightarrow> False | Some s \<Rightarrow> fable_from True s)"

definition applicableWindows :: "admission_candidate \<Rightarrow> string option \<Rightarrow> admission_window list" where
  "applicableWindows c model =
     (case cdQuota c of
        None \<Rightarrow> []
      | Some q \<Rightarrow> filter (\<lambda>w. awKind w \<noteq> FableWeekly \<or> fableModel model) (aqWindows q))"

definition usableWindow :: "rat \<Rightarrow> admission_window \<Rightarrow> bool" where
  "usableWindow now w \<longleftrightarrow>
     finiteNonNegative (awUsedPercent w) \<and> finiteNonNegative (awVelocityPerHour w)
     \<and> finiteNonNegative (awAdmissionCostPercent w) \<and> is_finite (awResetsAt w) \<and> now < amount_val (awResetsAt w)"

definition activityPresent :: "admission_candidate \<Rightarrow> bool" where
  "activityPresent c \<longleftrightarrow>
     0 < ayActive (cdActivity c) \<or> 0 < ayRecent (cdActivity c) \<or> 0 < ayPending (cdActivity c) \<or> 0 < cdReservations c"

definition waitReason :: "wait_reason list \<Rightarrow> wait_reason" where
  "waitReason reasons =
     (if CompletionReserve \<in> set reasons then CompletionReserve
      else if ActivityUnknown \<in> set reasons then ActivityUnknown
      else if QuotaUncertain \<in> set reasons then QuotaUncertain
      else NoEligibleAccount)"

definition requestUnits :: "admission_policy \<Rightarrow> rat" where
  "requestUnits p = (case plRequestUnits p of Some u \<Rightarrow> u | None \<Rightarrow> 1)"

definition hoursLeft :: "admission_policy \<Rightarrow> admission_window \<Rightarrow> rat" where
  "hoursLeft p w = (amount_val (awResetsAt w) - plNow p) / 3600000"

definition projectedWindowPercent :: "admission_policy \<Rightarrow> admission_candidate \<Rightarrow> admission_window \<Rightarrow> rat" where
  "projectedWindowPercent p c w =
     (let horizon = min (plProjectionHorizonHours p) (hoursLeft p w)
      in amount_val (awUsedPercent w) + amount_val (awVelocityPerHour w) * horizon
         + amount_val (awAdmissionCostPercent w) * horizon
           * (cdReservations c + ayPending (cdActivity c) + requestUnits p))"

section \<open>The headroom for completing work\<close>

datatype headroom_status = Uncertain | Protected | HasHeadroom

record headroom =
  hrStatus :: headroom_status
  hrMaxProjectedPercent :: "rat option"
  hrRetryAt :: "rat option"

definition quotaUncertain :: "admission_policy \<Rightarrow> admission_candidate \<Rightarrow> bool" where
  "quotaUncertain p c \<longleftrightarrow>
     (case cdQuota c of
        None \<Rightarrow> True
      | Some q \<Rightarrow>
          \<not> is_finite (aqFetchedAt q)
          \<or> plNow p + 60000 < amount_val (aqFetchedAt q)
          \<or> plQuotaFreshMs p < plNow p - amount_val (aqFetchedAt q)
          \<or> applicableWindows c (plModel p) = []
          \<or> list_ex (\<lambda>w. \<not> usableWindow (plNow p) w) (applicableWindows c (plModel p))
          \<or> \<not> (is_finite (cdCapacityUnits c) \<and> 0 < amount_val (cdCapacityUnits c)))"

definition completionHeadroom :: "admission_policy \<Rightarrow> admission_candidate \<Rightarrow> headroom" where
  "completionHeadroom p c =
     (if quotaUncertain p c then \<lparr>hrStatus = Uncertain, hrMaxProjectedPercent = None, hrRetryAt = None\<rparr>
      else
        let windows = applicableWindows c (plModel p);
            maxProjected = greatest_of (map (projectedWindowPercent p c) windows);
            full = (\<lambda>w. activityPresent c \<and> plCompletionReservePercent p \<le> amount_val (awUsedPercent w));
            protectedResets = map (amount_val \<circ> awResetsAt)
              (filter (\<lambda>w. plCompletionReservePercent p \<le> projectedWindowPercent p c w \<or> full w) windows)
        in \<lparr>hrStatus = (if list_ex full windows \<or> plCompletionReservePercent p \<le> maxProjected then Protected else HasHeadroom),
            hrMaxProjectedPercent = Some maxProjected,
            hrRetryAt = Some (if protectedResets \<noteq> [] then greatest_of protectedResets
                              else least_of (map (amount_val \<circ> awResetsAt) windows))\<rparr>)"

section \<open>The admission\<close>

definition rateWindows :: "admission_window list \<Rightarrow> admission_window list" where
  "rateWindows windows =
     (let weekly = filter (\<lambda>w. awKind w = Weekly \<or> awKind w = FableWeekly) windows
      in if weekly \<noteq> [] then weekly else windows)"

definition windowRate :: "admission_policy \<Rightarrow> admission_candidate \<Rightarrow> admission_window \<Rightarrow> rat" where
  "windowRate p c w =
     amount_val (cdCapacityUnits c) * max 0 (plCompletionReservePercent p - amount_val (awUsedPercent w)) / 100
     / max (plNearResetFloorHours p) (hoursLeft p w)"

definition allowanceRate :: "admission_policy \<Rightarrow> admission_candidate \<Rightarrow> rat" where
  "allowanceRate p c = least_of (map (windowRate p c) (rateWindows (applicableWindows c (plModel p))))"

definition fairFinish :: "admission_policy \<Rightarrow> admission_candidate \<Rightarrow> rat" where
  "fairFinish p c =
     (max 0 (ayOngoingUnits (cdActivity c)) + max 0 (cdReservations c) + requestUnits p) / allowanceRate p c"

definition refused_receipt :: "admission_candidate \<Rightarrow> receipt_status \<Rightarrow> receipt_reason \<Rightarrow> rat option \<Rightarrow> candidate_receipt" where
  "refused_receipt c st r projected =
     \<lparr>rcAccountId = cdAccountId c, rcStatus = st, rcReason = Some r, rcRate = None, rcFairFinish = None,
      rcMaxProjectedPercent = projected\<rparr>"

text \<open>
  The loop over the candidates: the receipts, the selectable ones, the reasons to wait and the time to try
  again. One round is \<open>admitRound\<close>; each \<open>continue\<close> of the code is a branch.
\<close>

record admission_loop =
  alReceipts :: "candidate_receipt list"
  alSelectable :: "candidate_receipt list"
  alReasons :: "wait_reason list"
  alRetryAt :: "rat option"

definition refuse_candidate :: "candidate_receipt \<Rightarrow> wait_reason \<Rightarrow> admission_loop \<Rightarrow> admission_loop" where
  "refuse_candidate r reason l = l\<lparr>alReceipts := alReceipts l @ [r], alReasons := alReasons l @ [reason]\<rparr>"

definition admitRound :: "admission_policy \<Rightarrow> admission_candidate \<Rightarrow> admission_loop \<Rightarrow> admission_loop" where
  "admitRound p c l =
     (case cdEligibility c of
        Ineligible r \<Rightarrow> refuse_candidate (refused_receipt c RcIneligible (RrIneligible r) None) NoEligibleAccount l
      | EligibilityUnknown r \<Rightarrow> refuse_candidate (refused_receipt c RcUncertain (RrUnknown r) None) NoEligibleAccount l
      | Eligible \<Rightarrow>
          if \<not> ayComplete (cdActivity c) then
            refuse_candidate (refused_receipt c RcUncertain (RrWait ActivityUnknown) None) ActivityUnknown l
          else
            let windows = applicableWindows c (plModel p);
                h = completionHeadroom p c;
                protectedReceipt = refused_receipt c RcProtected (RrWait CompletionReserve) (hrMaxProjectedPercent h);
                nextReset = least_of (map (amount_val \<circ> awResetsAt) windows)
            in if hrStatus h = Uncertain then
                 refuse_candidate (refused_receipt c RcUncertain (RrWait QuotaUncertain) None) QuotaUncertain l
               else if hrStatus h = Protected then
                 (refuse_candidate protectedReceipt CompletionReserve l)
                   \<lparr>alRetryAt := Some (case alRetryAt l of None \<Rightarrow> nextReset | Some t \<Rightarrow> min t nextReset)\<rparr>
               else if \<not> 0 < allowanceRate p c then refuse_candidate protectedReceipt CompletionReserve l
               else
                 let receipt = \<lparr>rcAccountId = cdAccountId c, rcStatus = RcEligible, rcReason = None,
                                rcRate = Some (allowanceRate p c), rcFairFinish = Some (fairFinish p c),
                                rcMaxProjectedPercent = hrMaxProjectedPercent h\<rparr>
                 in l\<lparr>alReceipts := alReceipts l @ [receipt], alSelectable := alSelectable l @ [receipt]\<rparr>)"

definition admitLoop :: "admission_policy \<Rightarrow> admission_candidate list \<Rightarrow> admission_loop" where
  "admitLoop p cs =
     fold (admitRound p) cs \<lparr>alReceipts = [], alSelectable = [], alReasons = [], alRetryAt = None\<rparr>"

definition selectAccountAdmission ::
  "(string \<Rightarrow> nat list) \<Rightarrow> admission_candidate list \<Rightarrow> admission_policy \<Rightarrow> decision" where
  "selectAccountAdmission collate cs p =
     (let l = admitLoop p cs
      in case sort_key (\<lambda>r. (the (rcFairFinish r), collate (rcAccountId r))) (alSelectable l) of
           [] \<Rightarrow> Waits (waitReason (alReasons l)) (alRetryAt l) (take 16 (alReceipts l))
         | r # _ \<Rightarrow> Selected (rcAccountId r) (the (rcRate r)) (the (rcFairFinish r)) (the (rcMaxProjectedPercent r))
                      (take 16 (alReceipts l)))"

section \<open>Comparing two accounts for work that runs\<close>

record headroom_score =
  hsRemaining :: rat
  hsRate :: rat
  hsHours :: rat
  hsCost :: rat

definition headroomScore :: "admission_policy \<Rightarrow> admission_candidate \<Rightarrow> admission_window list \<Rightarrow> headroom_score" where
  "headroomScore p c windows =
     (let capacity = amount_val (cdCapacityUnits c);
          remaining = map (\<lambda>w. max 0 (100 - projectedWindowPercent p c w) * capacity / 100) windows;
          hours = map (\<lambda>w. max (plNearResetFloorHours p) (hoursLeft p w)) windows;
          rates = map2 (\<lambda>value h. value / h) remaining hours
      in \<lparr>hsRemaining = least_of remaining, hsRate = least_of rates,
          hsHours = (case List.find (\<lambda>(r, h). r = least_of rates) (zip rates hours) of Some (r, h) \<Rightarrow> h | None \<Rightarrow> 0),
          hsCost = greatest_of (map (\<lambda>w. amount_val (awAdmissionCostPercent w)
                     * min (plProjectionHorizonHours p) (hoursLeft p w) * capacity / 100) windows)\<rparr>)"

definition longWindows :: "admission_policy \<Rightarrow> admission_candidate \<Rightarrow> admission_window list" where
  "longWindows p c = filter (\<lambda>w. plProjectionHorizonHours p < hoursLeft p w) (applicableWindows c (plModel p))"

definition relativeMargin ::
  "admission_policy \<Rightarrow> admission_candidate \<Rightarrow> admission_candidate \<Rightarrow> rat \<Rightarrow> headroom_score \<Rightarrow> headroom_score \<Rightarrow> rat" where
  "relativeMargin p source target multiplier current alternative =
     (let a = amount_val (cdCapacityUnits source); b = amount_val (cdCapacityUnits target)
      in multiplier * max ((100 - plCompletionReservePercent p) * min a b / 100)
           (max (hsCost current / a) (hsCost alternative / b) * min a b))"

definition relativeCompletionHeadroom ::
  "admission_candidate \<Rightarrow> admission_candidate \<Rightarrow> admission_policy \<Rightarrow> rat \<Rightarrow> bool" where
  "relativeCompletionHeadroom source target p multiplier =
     (if cdAccountId target = cdAccountId source \<or> cdEligibility target \<noteq> Eligible
         \<or> hrStatus (completionHeadroom p source) \<noteq> Protected \<or> hrStatus (completionHeadroom p target) \<noteq> HasHeadroom
      then False
      else
        let sourceWindows = longWindows p source; targetWindows = applicableWindows target (plModel p)
        in if \<not> list_ex (\<lambda>w. plCompletionReservePercent p \<le> projectedWindowPercent p source w) sourceWindows then False
           else if list_ex (\<lambda>w. \<not> list_ex (\<lambda>v. awKind v = awKind w) targetWindows) sourceWindows then False
           else
             let current = headroomScore p source sourceWindows; alternative = headroomScore p target targetWindows;
                 margin = relativeMargin p source target multiplier current alternative
             in hsRemaining current + margin < hsRemaining alternative
                \<and> hsRate current + margin / max (hsHours current) (hsHours alternative) < hsRate alternative)"

section \<open>Who may be chosen\<close>

lemma least_of_mem: "xs \<noteq> [] \<Longrightarrow> least_of xs \<in> set xs"
  by (induction xs rule: least_of.induct) (auto simp: min_def)

lemma least_of_le: "x \<in> set xs \<Longrightarrow> least_of xs \<le> x"
  by (induction xs rule: least_of.induct) (auto simp: min_le_iff_disj)

lemma greatest_of_mem: "xs \<noteq> [] \<Longrightarrow> greatest_of xs \<in> set xs"
  by (induction xs rule: greatest_of.induct) (auto simp: max_def)

lemma greatest_of_ge: "x \<in> set xs \<Longrightarrow> x \<le> greatest_of xs"
  by (induction xs rule: greatest_of.induct) (auto simp: le_max_iff_disj)

lemma greatest_of_less: "xs \<noteq> [] \<Longrightarrow> greatest_of xs < b \<longleftrightarrow> list_all (\<lambda>x. x < b) xs"
  by (induction xs rule: greatest_of.induct) auto

lemma least_of_greater: "xs \<noteq> [] \<Longrightarrow> b < least_of xs \<longleftrightarrow> list_all (\<lambda>x. b < x) xs"
  by (induction xs rule: least_of.induct) auto

text \<open>
  \<open>under_reserve\<close>: with this start, no applicable window is projected past the reserve, and none of an account
  that works is there already. \<open>admissible\<close>: the conditions under which an account may take the start.
\<close>

definition under_reserve :: "admission_policy \<Rightarrow> admission_candidate \<Rightarrow> bool" where
  "under_reserve p c \<longleftrightarrow>
     list_all (\<lambda>w. projectedWindowPercent p c w < plCompletionReservePercent p
        \<and> (activityPresent c \<longrightarrow> amount_val (awUsedPercent w) < plCompletionReservePercent p))
       (applicableWindows c (plModel p))"

definition admissible :: "admission_policy \<Rightarrow> admission_candidate \<Rightarrow> bool" where
  "admissible p c \<longleftrightarrow>
     cdEligibility c = Eligible \<and> ayComplete (cdActivity c) \<and> \<not> quotaUncertain p c \<and> under_reserve p c
     \<and> 0 < allowanceRate p c"

text \<open>Why the others are not: the reason that the code notes for each of them.\<close>

definition refusal :: "admission_policy \<Rightarrow> admission_candidate \<Rightarrow> wait_reason" where
  "refusal p c =
     (if cdEligibility c \<noteq> Eligible then NoEligibleAccount
      else if \<not> ayComplete (cdActivity c) then ActivityUnknown
      else if quotaUncertain p c then QuotaUncertain
      else CompletionReserve)"

lemma windows_certain: "\<not> quotaUncertain p c \<Longrightarrow> applicableWindows c (plModel p) \<noteq> []"
  by (auto simp: quotaUncertain_def split: option.splits)

lemma status_certain:
  assumes "\<not> quotaUncertain p c"
  shows "hrStatus (completionHeadroom p c) = (if under_reserve p c then HasHeadroom else Protected)"
    and "hrMaxProjectedPercent (completionHeadroom p c)
           = Some (greatest_of (map (projectedWindowPercent p c) (applicableWindows c (plModel p))))"
proof -
  let ?ws = "applicableWindows c (plModel p)"
  have ne: "map (projectedWindowPercent p c) ?ws \<noteq> []" using windows_certain [OF assms] by simp
  have "list_ex (\<lambda>w. activityPresent c \<and> plCompletionReservePercent p \<le> amount_val (awUsedPercent w)) ?ws
        \<or> plCompletionReservePercent p \<le> greatest_of (map (projectedWindowPercent p c) ?ws) \<longleftrightarrow> \<not> under_reserve p c"
    using greatest_of_less [OF ne, of "plCompletionReservePercent p"]
    by (auto simp: under_reserve_def list_ex_iff list_all_iff not_less)
  then show "hrStatus (completionHeadroom p c) = (if under_reserve p c then HasHeadroom else Protected)"
    using assms by (simp add: completionHeadroom_def Let_def)
  show "hrMaxProjectedPercent (completionHeadroom p c) = Some (greatest_of (map (projectedWindowPercent p c) ?ws))"
    using assms by (simp add: completionHeadroom_def Let_def)
qed

lemma status_uncertain [simp]: "quotaUncertain p c \<Longrightarrow> hrStatus (completionHeadroom p c) = Uncertain"
  by (simp add: completionHeadroom_def)

definition admission_receipt :: "admission_policy \<Rightarrow> admission_candidate \<Rightarrow> candidate_receipt" where
  "admission_receipt p c =
     \<lparr>rcAccountId = cdAccountId c, rcStatus = RcEligible, rcReason = None, rcRate = Some (allowanceRate p c),
      rcFairFinish = Some (fairFinish p c), rcMaxProjectedPercent = hrMaxProjectedPercent (completionHeadroom p c)\<rparr>"

lemma round_selectable:
  "alSelectable (admitRound p c l) = alSelectable l @ (if admissible p c then [admission_receipt p c] else [])"
  by (cases "quotaUncertain p c"; cases "under_reserve p c")
    (auto simp: admitRound_def admissible_def admission_receipt_def refuse_candidate_def status_certain Let_def split: eligibility.split)

lemma round_reasons:
  "alReasons (admitRound p c l) = alReasons l @ (if admissible p c then [] else [refusal p c])"
  by (cases "quotaUncertain p c"; cases "under_reserve p c")
    (auto simp: admitRound_def admissible_def refusal_def refuse_candidate_def status_certain Let_def split: eligibility.split)

lemma round_receipts: "map rcAccountId (alReceipts (admitRound p c l)) = map rcAccountId (alReceipts l) @ [cdAccountId c]"
  by (auto simp: admitRound_def refuse_candidate_def refused_receipt_def Let_def split: eligibility.split)

lemma loop_from:
  "alSelectable (fold (admitRound p) cs l) = alSelectable l @ map (admission_receipt p) (filter (admissible p) cs)
   \<and> alReasons (fold (admitRound p) cs l) = alReasons l @ map (refusal p) (filter (\<lambda>c. \<not> admissible p c) cs)
   \<and> map rcAccountId (alReceipts (fold (admitRound p) cs l)) = map rcAccountId (alReceipts l) @ map cdAccountId cs"
  by (induction cs arbitrary: l) (simp_all add: round_selectable round_reasons round_receipts)

lemma loop_result:
  "alSelectable (admitLoop p cs) = map (admission_receipt p) (filter (admissible p) cs)"
  "alReasons (admitLoop p cs) = map (refusal p) (filter (\<lambda>c. \<not> admissible p c) cs)"
  "map rcAccountId (alReceipts (admitLoop p cs)) = map cdAccountId cs"
  using loop_from [of p cs] by (simp_all add: admitLoop_def)

text \<open>The account is worth waiting for: it is held back only by the reserve.\<close>

definition reserve_bound :: "admission_policy \<Rightarrow> admission_candidate \<Rightarrow> bool" where
  "reserve_bound p c \<longleftrightarrow>
     cdEligibility c = Eligible \<and> ayComplete (cdActivity c) \<and> \<not> quotaUncertain p c \<and> \<not> under_reserve p c"

definition nextReset :: "admission_policy \<Rightarrow> admission_candidate \<Rightarrow> rat" where
  "nextReset p c = least_of (map (amount_val \<circ> awResetsAt) (applicableWindows c (plModel p)))"

lemma round_retry:
  "alRetryAt (admitRound p c l) =
     (if reserve_bound p c then Some (case alRetryAt l of None \<Rightarrow> nextReset p c | Some t \<Rightarrow> min t (nextReset p c)) else alRetryAt l)"
  by (cases "quotaUncertain p c"; cases "under_reserve p c")
    (auto simp: admitRound_def reserve_bound_def nextReset_def refuse_candidate_def status_certain Let_def
      split: eligibility.split option.split)

lemma least_of_Cons: "xs \<noteq> [] \<Longrightarrow> least_of (x # xs) = min x (least_of xs)"
  by (cases xs) simp_all

lemma retry_from:
  "alRetryAt (fold (admitRound p) cs l) =
     (case (case alRetryAt l of None \<Rightarrow> [] | Some t \<Rightarrow> [t]) @ map (nextReset p) (filter (reserve_bound p) cs) of
        [] \<Rightarrow> None | ts \<Rightarrow> Some (least_of ts))"
proof (induction cs arbitrary: l)
  case Nil
  show ?case by (cases "alRetryAt l") simp_all
next
  case (Cons c cs)
  then show ?case
    by (cases "alRetryAt l"; cases "map (nextReset p) (filter (reserve_bound p) cs)")
      (simp_all add: round_retry least_of_Cons min.assoc)
qed

lemma loop_retry:
  "alRetryAt (admitLoop p cs) =
     (case map (nextReset p) (filter (reserve_bound p) cs) of [] \<Rightarrow> None | ts \<Rightarrow> Some (least_of ts))"
  by (simp add: admitLoop_def retry_from)

lemma sort_key_head:
  assumes "sort_key f xs = y # ys"
  shows "y \<in> set xs" and "x \<in> set xs \<Longrightarrow> f y \<le> f x"
proof -
  have eq: "set (y # ys) = set xs" using assms by (metis set_sort)
  then show "y \<in> set xs" by auto
  have "sorted (map f (y # ys))" using assms by (metis sorted_sort_key)
  then show "f y \<le> f x" if "x \<in> set xs" using that eq by auto
qed

text \<open>
  \<open>best_admissible\<close>: an account that may take the start and whose virtual finish is the earliest of all that
  may, ties in the order of their ids.
\<close>

definition best_admissible ::
  "(string \<Rightarrow> nat list) \<Rightarrow> admission_candidate list \<Rightarrow> admission_policy \<Rightarrow> admission_candidate \<Rightarrow> bool" where
  "best_admissible collate cs p c \<longleftrightarrow>
     c \<in> set cs \<and> admissible p c
     \<and> (\<forall>d \<in> set cs. admissible p d \<longrightarrow>
          (fairFinish p c, collate (cdAccountId c)) \<le> (fairFinish p d, collate (cdAccountId d)))"

lemma selected_best:
  assumes "selectAccountAdmission collate cs p = Selected i rate finish projected receipts"
  obtains c where "best_admissible collate cs p c" and "cdAccountId c = i" and "rate = allowanceRate p c"
    and "finish = fairFinish p c"
    and "projected = greatest_of (map (projectedWindowPercent p c) (applicableWindows c (plModel p)))"
    and "receipts = take 16 (alReceipts (admitLoop p cs))"
proof -
  let ?key = "\<lambda>r. (the (rcFairFinish r), collate (rcAccountId r))"
  let ?rs = "map (admission_receipt p) (filter (admissible p) cs)"
  from assms obtain r rs where head: "sort_key ?key ?rs = r # rs"
    and res: "i = rcAccountId r" "rate = the (rcRate r)" "finish = the (rcFairFinish r)" "projected = the (rcMaxProjectedPercent r)"
      "receipts = take 16 (alReceipts (admitLoop p cs))"
    by (auto simp: selectAccountAdmission_def Let_def loop_result split: list.splits)
  from sort_key_head(1) [OF head] obtain c where c: "c \<in> set cs" "admissible p c" "r = admission_receipt p c" by auto
  have "?key r \<le> ?key (admission_receipt p d)" if "d \<in> set cs" "admissible p d" for d
    using sort_key_head(2) [OF head, of "admission_receipt p d"] that by auto
  then have "best_admissible collate cs p c" using c by (simp add: best_admissible_def admission_receipt_def)
  then show ?thesis
    using that [of c] c res by (simp add: admission_receipt_def admissible_def status_certain)
qed

lemma waits_for:
  assumes "selectAccountAdmission collate cs p = Waits reason retryAt receipts"
  shows "\<forall>c \<in> set cs. \<not> admissible p c" and "reason = waitReason (map (refusal p) cs)"
    and "retryAt = (case map (nextReset p) (filter (reserve_bound p) cs) of [] \<Rightarrow> None | ts \<Rightarrow> Some (least_of ts))"
    and "receipts = take 16 (alReceipts (admitLoop p cs))"
proof -
  let ?l = "admitLoop p cs"
  let ?key = "\<lambda>r. (the (rcFairFinish r), collate (rcAccountId r))"
  from assms have nil: "sort_key ?key (alSelectable ?l) = []"
    and res: "reason = waitReason (alReasons ?l)" "retryAt = alRetryAt ?l" "receipts = take 16 (alReceipts ?l)"
    by (auto simp: selectAccountAdmission_def Let_def split: list.splits)
  from nil have "alSelectable ?l = []" by (metis length_0_conv length_sort)
  then show no: "\<forall>c \<in> set cs. \<not> admissible p c" by (simp add: loop_result filter_empty_conv)
  then have "filter (\<lambda>c. \<not> admissible p c) cs = cs" by simp
  then show "reason = waitReason (map (refusal p) cs)" using res by (simp add: loop_result)
  show "retryAt = (case map (nextReset p) (filter (reserve_bound p) cs) of [] \<Rightarrow> None | ts \<Rightarrow> Some (least_of ts))"
    using res by (simp add: loop_retry)
  show "receipts = take 16 (alReceipts ?l)" using res by simp
qed

section \<open>Rates and projections\<close>

text \<open>
  Counts and horizon that are not negative, as every caller gives them. Then an account under its reserve has a
  rate, so the branch for a rate that is not positive is never taken, and no division is by zero.
\<close>

definition sane_counts :: "admission_policy \<Rightarrow> admission_candidate \<Rightarrow> bool" where
  "sane_counts p c \<longleftrightarrow>
     0 \<le> plProjectionHorizonHours p \<and> 0 \<le> requestUnits p \<and> 0 \<le> cdReservations c \<and> 0 \<le> ayPending (cdActivity c)"

lemma usable_windows:
  assumes "\<not> quotaUncertain p c" and "w \<in> set (applicableWindows c (plModel p))"
  shows "0 \<le> amount_val (awUsedPercent w)" and "0 \<le> amount_val (awVelocityPerHour w)"
    and "0 \<le> amount_val (awAdmissionCostPercent w)" and "0 < hoursLeft p w"
  using assms
  by (auto simp: quotaUncertain_def list_ex_iff usableWindow_def finiteNonNegative_def hoursLeft_def split: option.splits)

lemma certain_capacity: "\<not> quotaUncertain p c \<Longrightarrow> 0 < amount_val (cdCapacityUnits c)"
  by (auto simp: quotaUncertain_def split: option.splits)

lemma used_le_projected:
  assumes "\<not> quotaUncertain p c" and "w \<in> set (applicableWindows c (plModel p))" and "sane_counts p c"
  shows "amount_val (awUsedPercent w) \<le> projectedWindowPercent p c w"
  using usable_windows [OF assms(1,2)] assms(3)
  by (simp add: projectedWindowPercent_def Let_def sane_counts_def add.assoc add_nonneg_nonneg)

lemma rateWindows_subset: "set (rateWindows ws) \<subseteq> set ws"
  by (auto simp: rateWindows_def Let_def)

lemma rateWindows_ne: "ws \<noteq> [] \<Longrightarrow> rateWindows ws \<noteq> []"
  by (simp add: rateWindows_def Let_def)

lemma rate_positive:
  assumes certain: "\<not> quotaUncertain p c" and "sane_counts p c" and under: "under_reserve p c"
  shows "0 < allowanceRate p c"
proof -
  let ?ws = "applicableWindows c (plModel p)"
  have "0 < windowRate p c w" if w: "w \<in> set ?ws" for w
  proof -
    have "amount_val (awUsedPercent w) < plCompletionReservePercent p"
      using under w used_le_projected [OF certain w assms(2)] by (auto simp: under_reserve_def list_all_iff)
    moreover have "0 < max (plNearResetFloorHours p) (hoursLeft p w)"
      using usable_windows(4) [OF certain w] by (simp add: max_def)
    ultimately show ?thesis using certain_capacity [OF certain] by (simp add: windowRate_def)
  qed
  then show ?thesis
    using rateWindows_subset [of ?ws] rateWindows_ne [OF windows_certain [OF certain]]
    by (auto simp: allowanceRate_def least_of_greater list_all_iff)
qed

lemma admissible_sane:
  "sane_counts p c \<Longrightarrow> admissible p c \<longleftrightarrow>
     cdEligibility c = Eligible \<and> ayComplete (cdActivity c) \<and> \<not> quotaUncertain p c \<and> under_reserve p c"
  using rate_positive by (auto simp: admissible_def)

text \<open>The expression matches where the name \<open>fable\<close> stands between two boundaries.\<close>

lemma fable_from_iff:
  "fable_from boundary s \<longleftrightarrow>
     (\<exists>u x v. s = u @ x @ v \<and> map lower_char x = ''fable'' \<and> name_boundary v
        \<and> (if u = [] then boundary else last u \<in> set ''-_/''))"
proof (induction boundary s rule: fable_from.induct)
  case (1 boundary)
  then show ?case by auto
next
  case (2 boundary c cs)
  let ?at = "\<lambda>boundary s u. \<exists>x v. s = u @ x @ v \<and> map lower_char x = ''fable'' \<and> name_boundary v
        \<and> (if u = [] then boundary else last u \<in> set ''-_/'')"
  have here: "boundary \<and> map lower_char (take 5 (c # cs)) = ''fable'' \<and> name_boundary (drop 5 (c # cs)) \<longleftrightarrow> ?at boundary (c # cs) []"
  proof
    assume "?at boundary (c # cs) []"
    then obtain x v where "c # cs = [] @ x @ v" and x: "map lower_char x = ''fable''" "name_boundary v"
      and "if ([] :: string) = [] then boundary else last ([] :: string) \<in> set ''-_/''" by (elim exE conjE) (rule that)
    then have x1: "c # cs = x @ v" and b: boundary by simp_all
    from x(1) have "length x = 5" by (drule_tac arg_cong [where f = length]) simp
    then show "boundary \<and> map lower_char (take 5 (c # cs)) = ''fable'' \<and> name_boundary (drop 5 (c # cs))"
      using x x1 b by simp
  next
    assume match: "boundary \<and> map lower_char (take 5 (c # cs)) = ''fable'' \<and> name_boundary (drop 5 (c # cs))"
    have "c # cs = [] @ take 5 (c # cs) @ drop 5 (c # cs)" by (metis append_Nil append_take_drop_id)
    with match show "?at boundary (c # cs) []" by (intro exI [of _ "take 5 (c # cs)"] exI [of _ "drop 5 (c # cs)"]) simp_all
  qed
  have there: "(\<exists>u. ?at (c \<in> set ''-_/'') cs u) \<longleftrightarrow> (\<exists>u. ?at boundary (c # cs) (c # u))"
    by (rule ex_cong1) auto
  have split: "(\<exists>u. P u) \<longleftrightarrow> P [] \<or> (\<exists>u. P (c # u))" if "\<And>a u. P (a # u) \<Longrightarrow> a = c" for P :: "string \<Rightarrow> bool"
    using that by (metis neq_Nil_conv)
  have "(\<exists>u. ?at boundary (c # cs) u) \<longleftrightarrow> ?at boundary (c # cs) [] \<or> (\<exists>u. ?at boundary (c # cs) (c # u))"
    by (rule split) auto
  then show ?case unfolding fable_from.simps here "2.IH" there by (rule sym)
qed

text \<open>
  C36. The selection, on every branch. It selects an account that may take the start (eligible, all activity
  known, fresh quota, every applicable window projected below the reserve with this start), namely the one whose
  virtual finish is the earliest, ties in the order of the ids; and it waits only when no account may take it,
  with the most telling reason and the earliest reset of an account that only the reserve holds back.
\<close>

theorem selectAccountAdmission_correct:
  "case selectAccountAdmission collate cs p of
     Selected i rate finish projected receipts \<Rightarrow>
       list_ex (\<lambda>c. best_admissible collate cs p c \<and> i = cdAccountId c \<and> rate = allowanceRate p c \<and> finish = fairFinish p c
         \<and> projected = greatest_of (map (projectedWindowPercent p c) (applicableWindows c (plModel p)))) cs
       \<and> map rcAccountId receipts = take 16 (map cdAccountId cs)
   | Waits reason retryAt receipts \<Rightarrow>
       list_all (\<lambda>c. \<not> admissible p c) cs
       \<and> reason = waitReason (map (refusal p) cs)
       \<and> retryAt = (case map (nextReset p) (filter (reserve_bound p) cs) of [] \<Rightarrow> None | ts \<Rightarrow> Some (least_of ts))
       \<and> map rcAccountId receipts = take 16 (map cdAccountId cs)"
proof (cases "selectAccountAdmission collate cs p")
  case (Selected i rate finish projected receipts)
  from selected_best [OF this] obtain c where "best_admissible collate cs p c" "cdAccountId c = i" "rate = allowanceRate p c"
      "finish = fairFinish p c" "projected = greatest_of (map (projectedWindowPercent p c) (applicableWindows c (plModel p)))"
      "receipts = take 16 (alReceipts (admitLoop p cs))" .
  moreover from this have "c \<in> set cs" by (simp add: best_admissible_def)
  ultimately show ?thesis
    by (auto simp: Selected list_ex_iff take_map loop_result(3) [of p cs, symmetric])
next
  case (Waits reason retryAt receipts)
  from waits_for [OF this] show ?thesis
    by (simp add: Waits list_all_iff take_map loop_result(3) [of p cs, symmetric])
qed

end
