(* ===== verification/Admissions.thy ===== *)
theory Admissions
  imports Store
begin

text \<open>
  The durable holds of accounts for work that was admitted and has not started yet (the admissions of store.ts,
  table account_admission_reservations): reserving, binding to a bee, taking over a claim of another store,
  confirming, releasing, and the holds that still count.
\<close>

section \<open>Operations\<close>

definition admission_operation_text :: "admission_operation \<Rightarrow> string" where
  "admission_operation_text x =
     (case x of AoSpawn \<Rightarrow> ''spawn'' | AoSwap \<Rightarrow> ''swap'' | AoFork \<Rightarrow> ''fork'' | AoHandoff \<Rightarrow> ''handoff'')"

definition getAccountAdmission :: "core \<Rightarrow> string \<Rightarrow> admission_row option" where
  "getAccountAdmission s i = find_row amId (admissions s) i"

definition getAccountAdmissionByRequestKey :: "core \<Rightarrow> string \<Rightarrow> admission_row option" where
  "getAccountAdmissionByRequestKey s k = find_row amRequestKey (admissions s) k"

definition mustGetAccount :: "string \<Rightarrow> account_status store_op" where
  "mustGetAccount i = bindM (readM (\<lambda>s. map_of (accountStatuses s) i))
     (\<lambda>a. case a of Some a \<Rightarrow> returnM a | None \<Rightarrow> throwM (AccountNotFoundError i))"

record admission_input =
  aiId :: string
  aiRequestKey :: string
  aiScope :: string
  aiAccount :: string
  aiSourceAccount :: "string option"
  aiOperation :: admission_operation
  aiUnits :: rat
  aiExpiresAt :: int
  aiReconcileAfterGeneration :: int
  aiReceipt :: string

definition same_reservation :: "admission_row \<Rightarrow> admission_input \<Rightarrow> bool" where
  "same_reservation r i \<longleftrightarrow>
     amScope r = aiScope i \<and> amAccount r = aiAccount i \<and> amSourceAccount r = aiSourceAccount i
     \<and> amOperation r = aiOperation i \<and> amUnits r = aiUnits i
     \<and> amReconcileAfterGeneration r = aiReconcileAfterGeneration i"

definition newAdmission :: "admission_input \<Rightarrow> int \<Rightarrow> admission_row" where
  "newAdmission i createdAt =
     \<lparr>amId = aiId i, amRequestKey = aiRequestKey i, amScope = aiScope i, amAccount = aiAccount i,
      amSourceAccount = aiSourceAccount i, amOperation = aiOperation i, amUnits = aiUnits i, amBeeId = None,
      amReconcileAfterGeneration = aiReconcileAfterGeneration i, amReceipt = aiReceipt i, amCreatedAt = createdAt,
      amExpiresAt = aiExpiresAt i, amConfirmedAt = None, amReleasedAt = None\<rparr>"

text \<open>The INSERT: the id is the primary key. The request key is unique as well, which the caller has looked up.\<close>

definition insertAdmission :: "admission_row \<Rightarrow> unit store_op" where
  "insertAdmission r =
     bindM (readM (\<lambda>s. getAccountAdmission s (amId r))) (\<lambda>found.
     thenM (requireM (found = None) SqliteConstraintError)
       (modifyM (\<lambda>s. s\<lparr>admissions := admissions s @ [r]\<rparr>)))"

definition reserveAccountAdmission :: "admission_input \<Rightarrow> admission_row store_op" where
  "reserveAccountAdmission i =
     bindM (readM (\<lambda>s. getAccountAdmissionByRequestKey s (aiRequestKey i))) (\<lambda>previous.
     case previous of
       Some r \<Rightarrow> thenM (requireM (same_reservation r i) IdempotencyConflictError) (returnM r)
     | None \<Rightarrow>
         bindM (mustGetAccount (aiAccount i)) (\<lambda>_.
         thenM (requireM (0 < aiUnits i) (CoreError ''reserveAccountAdmission: units must be positive and finite''))
         (thenM (requireM (0 \<le> aiReconcileAfterGeneration i)
            (CoreError ''reserveAccountAdmission: reconcile generation must be a non-negative integer''))
         (bindM (readM clock) (\<lambda>createdAt.
         thenM (requireM (createdAt < aiExpiresAt i) (CoreError ''reserveAccountAdmission: expiresAt must be after creation''))
         (thenM (requireM (length (aiReceipt i) \<le> 16384) (CoreError ''reserveAccountAdmission: receipt exceeds 16 KiB''))
         (thenM (insertAdmission (newAdmission i createdAt))
         (thenM (audit (EvAdmission (AvReserved (newAdmission i createdAt))))
           (returnM (newAdmission i createdAt))))))))))"

definition updateAdmission :: "string \<Rightarrow> (admission_row \<Rightarrow> admission_row) \<Rightarrow> unit store_op" where
  "updateAdmission i f = modifyM (\<lambda>s. s\<lparr>admissions := update_rows (\<lambda>r. amId r = i) f (admissions s)\<rparr>)"

definition bindAccountAdmission :: "string \<Rightarrow> string \<Rightarrow> admission_row store_op" where
  "bindAccountAdmission i b =
     bindM (mustGetBee b) (\<lambda>_.
     bindM (readM (\<lambda>s. getAccountAdmission s i)) (\<lambda>found.
     case found of
       None \<Rightarrow> throwM (CoreError (''account admission not found: '' @ i))
     | Some r \<Rightarrow>
         (case amBeeId r of
            Some b' \<Rightarrow> if b' \<noteq> b then throwM (CoreError (''account admission '' @ i @ '' is already bound to '' @ b'))
                       else returnM r
          | None \<Rightarrow>
              thenM (updateAdmission i (\<lambda>r. r\<lparr>amBeeId := Some b\<rparr>))
              (thenM (audit (EvAdmission (AvBound b i))) (returnM (r\<lparr>amBeeId := Some b\<rparr>))))))"

text \<open>The request key of the imported claim is made of its id; the key of the input is not used.\<close>

definition consumeAccountAdmissionClaim :: "admission_input \<Rightarrow> string \<Rightarrow> admission_row store_op" where
  "consumeAccountAdmissionClaim i b =
     bindM (readM (\<lambda>s. getAccountAdmission s (aiId i))) (\<lambda>found.
     bindM (case found of
              Some r \<Rightarrow> returnM r
            | None \<Rightarrow> reserveAccountAdmission (i\<lparr>aiRequestKey := ''shared-account-claim:'' @ aiId i\<rparr>)) (\<lambda>r.
     thenM (requireM (same_reservation r i \<and> amExpiresAt r = aiExpiresAt i) IdempotencyConflictError)
     (thenM (requireM (amReleasedAt r = None) (CoreError (''account admission claim '' @ aiId i @ '' was released'')))
     (bindM (readM clock) (\<lambda>now.
     thenM (requireM (now < amExpiresAt r) (CoreError (''account admission claim '' @ aiId i @ '' expired'')))
       (bindAccountAdmission (amId r) b))))))"

definition confirmAccountAdmission :: "string \<Rightarrow> admission_row option store_op" where
  "confirmAccountAdmission i =
     bindM (readM (\<lambda>s. (getAccountAdmission s i, clock s))) (\<lambda>(found, now).
     case found of
       None \<Rightarrow> returnM None
     | Some r \<Rightarrow>
         if amConfirmedAt r \<noteq> None then returnM (Some r)
         else thenM (updateAdmission i (\<lambda>r. r\<lparr>amConfirmedAt := Some now\<rparr>))
              (thenM (audit (EvAdmission (AvConfirmed (amBeeId r) i now)))
                (returnM (Some (r\<lparr>amConfirmedAt := Some now\<rparr>)))))"

definition releaseAccountAdmission :: "string \<Rightarrow> admission_row option store_op" where
  "releaseAccountAdmission i =
     bindM (readM (\<lambda>s. (getAccountAdmission s i, clock s))) (\<lambda>(found, now).
     case found of
       None \<Rightarrow> returnM None
     | Some r \<Rightarrow>
         if amReleasedAt r \<noteq> None then returnM (Some r)
         else thenM (updateAdmission i (\<lambda>r. r\<lparr>amReleasedAt := Some now\<rparr>))
              (thenM (audit (EvAdmission (AvReleased (amBeeId r) i now)))
                (returnM (Some (r\<lparr>amReleasedAt := Some now\<rparr>)))))"

definition listAccountAdmissions :: "core \<Rightarrow> admission_row list" where
  "listAccountAdmissions s = sort_key (\<lambda>r. (amCreatedAt r, amId r)) (admissions s)"

text \<open>A hold counts until it expires, is released, or a later generation of its bee exists.\<close>

definition countedAdmission :: "core \<Rightarrow> int \<Rightarrow> string option \<Rightarrow> string option \<Rightarrow> admission_row \<Rightarrow> bool" where
  "countedAdmission s now scope account r \<longleftrightarrow>
     amReleasedAt r = None \<and> now < amExpiresAt r
     \<and> (scope = None \<or> Some (amScope r) = scope) \<and> (account = None \<or> Some (amAccount r) = account)
     \<and> (amBeeId r = None
        \<or> \<not> list_ex (\<lambda>g. Some (rBeeId g) = amBeeId r \<and> amReconcileAfterGeneration r < int (rGeneration g)) (runtimes s))"

definition listUnreconciledAccountAdmissions ::
  "core \<Rightarrow> int \<Rightarrow> string option \<Rightarrow> string option \<Rightarrow> admission_row list" where
  "listUnreconciledAccountAdmissions s now scope account =
     sort_key (\<lambda>r. (amCreatedAt r, amId r)) (filter (countedAdmission s now scope account) (admissions s))"

section \<open>The table of admissions\<close>

definition admission_row_ok :: "admission_row \<Rightarrow> bool" where
  "admission_row_ok r \<longleftrightarrow> 0 < amUnits r \<and> 0 \<le> amReconcileAfterGeneration r \<and> amCreatedAt r < amExpiresAt r"

definition admissions_ok :: "admission_row list \<Rightarrow> bool" where
  "admissions_ok rows \<longleftrightarrow>
     distinct (map amId rows) \<and> distinct (map amRequestKey rows) \<and> list_all admission_row_ok rows"

text \<open>
  \<open>amended r r'\<close>: what may happen to a row once it is there. Its meaning is fixed; a bee, a confirmation and
  a release are written once.
\<close>

definition amended :: "admission_row \<Rightarrow> admission_row \<Rightarrow> bool" where
  "amended r r' \<longleftrightarrow>
     r' = r\<lparr>amBeeId := amBeeId r', amConfirmedAt := amConfirmedAt r', amReleasedAt := amReleasedAt r'\<rparr>
     \<and> (amBeeId r = None \<or> amBeeId r' = amBeeId r)
     \<and> (amConfirmedAt r = None \<or> amConfirmedAt r' = amConfirmedAt r)
     \<and> (amReleasedAt r = None \<or> amReleasedAt r' = amReleasedAt r)"

definition admissions_later :: "admission_row list \<Rightarrow> admission_row list \<Rightarrow> bool" where
  "admissions_later rows rows' \<longleftrightarrow> (\<exists>old new. rows' = old @ new \<and> list_all2 amended rows old)"

section \<open>What may happen to the rows\<close>

lemma admissions_okI:
  "distinct (map amId rows) \<Longrightarrow> distinct (map amRequestKey rows) \<Longrightarrow> list_all admission_row_ok rows \<Longrightarrow> admissions_ok rows"
  by (simp add: admissions_ok_def)

lemma amended_refl [simp]: "amended r r"
  by (simp add: amended_def)

lemma amended_trans: "amended a b \<Longrightarrow> amended b c \<Longrightarrow> amended a c"
  by (cases a; cases b; cases c) (auto simp: amended_def)

lemma amended_meaning:
  assumes "amended r r'"
  shows "amId r' = amId r" and "amRequestKey r' = amRequestKey r" and "admission_row_ok r' = admission_row_ok r"
    and "amAccount r' = amAccount r" and "amScope r' = amScope r" and "amUnits r' = amUnits r"
  using assms by (cases r; cases r'; simp add: amended_def admission_row_ok_def)+

lemma later_refl: "admissions_later rows rows"
  unfolding admissions_later_def by (rule exI [of _ rows], rule exI [of _ "[]"]) (simp add: list_all2_same)

lemma later_append: "admissions_later rows (rows @ new)"
  unfolding admissions_later_def by (rule exI [of _ rows], rule exI [of _ new]) (simp add: list_all2_same)

lemma later_trans:
  assumes "admissions_later xs ys" and "admissions_later ys zs"
  shows "admissions_later xs zs"
proof -
  from assms(1) obtain old new where 1: "ys = old @ new" "list_all2 amended xs old" by (auto simp: admissions_later_def)
  from assms(2) 1(1) obtain old' new' where 2: "zs = old' @ new'" "list_all2 amended (old @ new) old'"
    by (auto simp: admissions_later_def)
  from 2(2) obtain a b where 3: "old' = a @ b" "list_all2 amended old a" by (auto simp: list_all2_append1)
  have "list_all2 amended xs a"
    using 1(2) 3(2) amended_trans by (rule list_all2_trans [rotated]) 
  then show ?thesis unfolding admissions_later_def using 2(1) 3(1) by (intro exI [of _ a] exI [of _ "b @ new'"]) simp
qed

lemma later_update:
  assumes "\<And>r. r \<in> set rows \<Longrightarrow> p r \<Longrightarrow> amended r (f r)"
  shows "admissions_later rows (update_rows p f rows)"
  unfolding admissions_later_def
  by (rule exI [of _ "update_rows p f rows"], rule exI [of _ "[]"])
    (use assms in \<open>auto simp: update_rows_def list_all2_conv_all_nth\<close>)

lemma later_row:
  assumes "admissions_later rows rows'" and "r \<in> set rows"
  obtains r' where "r' \<in> set rows'" and "amended r r'"
proof -
  from assms(1) obtain old new where old: "rows' = old @ new" "list_all2 amended rows old" by (auto simp: admissions_later_def)
  from assms(2) obtain n where "n < length rows" "r = rows ! n" by (auto simp: in_set_conv_nth)
  with old that [of "old ! n"] show ?thesis by (auto simp: list_all2_conv_all_nth)
qed

text \<open>The relation of the writes of an operation, as a frame of the whole store.\<close>

definition admission_write :: "core \<Rightarrow> core \<Rightarrow> bool" where
  "admission_write s s' \<longleftrightarrow>
     admissions_later (admissions s) (admissions s')
     \<and> (admissions_ok (admissions s) \<longrightarrow> admissions_ok (admissions s'))
     \<and> s' = s\<lparr>admissions := admissions s', auditLog := auditLog s'\<rparr>"

lemma write_refl [simp]: "admission_write s s"
  by (simp add: admission_write_def later_refl)

lemma write_trans: "admission_write a b \<Longrightarrow> admission_write b c \<Longrightarrow> admission_write a c"
  by (cases a; cases b; cases c) (auto simp: admission_write_def intro: later_trans)

lemma write_audit [simp]: "admission_write s (s\<lparr>auditLog := l\<rparr>)"
  by (simp add: admission_write_def later_refl)

lemma insert_write:
  assumes "insertAdmission r s = Inr (u, s')" and "admission_row_ok r" and "getAccountAdmissionByRequestKey s (amRequestKey r) = None"
  shows "admission_write s s'" and "s' = s\<lparr>admissions := admissions s @ [r]\<rparr>"
proof -
  from assms(1) have new: "getAccountAdmission s (amId r) = None" and s': "s' = s\<lparr>admissions := admissions s @ [r]\<rparr>"
    by (auto simp: insertAdmission_def thenM_def bindM_Inr)
  then show "s' = s\<lparr>admissions := admissions s @ [r]\<rparr>" by simp
  have "amId r \<notin> amId ` set (admissions s)" "amRequestKey r \<notin> amRequestKey ` set (admissions s)"
    using new assms(3) by (auto simp: getAccountAdmission_def getAccountAdmissionByRequestKey_def find_row_None)
  then show "admission_write s s'"
    using assms(2) by (simp add: s' admission_write_def later_append admissions_ok_def)
qed

text \<open>What a reservation does: it answers a row that was there, or appends the new one.\<close>

lemma reserve_cases:
  assumes "reserveAccountAdmission i s = Inr (r, s')"
  obtains (again) "getAccountAdmissionByRequestKey s (aiRequestKey i) = Some r" and "same_reservation r i" and "s' = s"
    | (fresh) "getAccountAdmissionByRequestKey s (aiRequestKey i) = None" and "getAccountAdmission s (aiId i) = None"
        and "r = newAdmission i (clock s)" and "admission_row_ok r" and "map_of (accountStatuses s) (aiAccount i) \<noteq> None"
        and "length (aiReceipt i) \<le> 16384"
        and "s' = s\<lparr>admissions := admissions s @ [r], auditLog := auditLog s @ [EvAdmission (AvReserved r)]\<rparr>"
proof (cases "getAccountAdmissionByRequestKey s (aiRequestKey i)")
  case (Some r0)
  with assms have "same_reservation r0 i" "r = r0" "s' = s"
    by (auto simp: reserveAccountAdmission_def thenM_def bindM_Inr)
  with Some show ?thesis by (intro again) simp_all
next
  case None
  let ?r = "newAdmission i (clock s)"
  from assms None have "map_of (accountStatuses s) (aiAccount i) \<noteq> None" and ok: "0 < aiUnits i" "0 \<le> aiReconcileAfterGeneration i"
      "clock s < aiExpiresAt i" and "length (aiReceipt i) \<le> 16384"
    and tail: "bindM (insertAdmission ?r) (\<lambda>_. bindM (audit (EvAdmission (AvReserved ?r))) (\<lambda>_. returnM ?r)) s = Inr (r, s')"
    by (simp_all add: reserveAccountAdmission_def thenM_def bindM_Inr mustGetAccount_def split: option.splits)
  moreover from tail have "r = ?r" "getAccountAdmission s (amId ?r) = None"
      "s' = s\<lparr>admissions := admissions s @ [?r], auditLog := auditLog s @ [EvAdmission (AvReserved ?r)]\<rparr>"
    by (auto simp: bindM_Inr thenM_def insertAdmission_def audit_def)
  moreover have "admission_row_ok ?r" using ok by (simp add: newAdmission_def admission_row_ok_def)
  moreover have "amId ?r = aiId i" by (simp add: newAdmission_def)
  ultimately show ?thesis using None by (intro fresh) simp_all
qed

lemma reserve_write:
  assumes "reserveAccountAdmission i s = Inr (r, s')"
  shows "admission_write s s'"
  using assms
proof (cases rule: reserve_cases)
  case fresh
  then have "insertAdmission r s = Inr ((), s\<lparr>admissions := admissions s @ [r]\<rparr>)"
    by (simp add: insertAdmission_def newAdmission_def requireM_def)
  from insert_write(1) [OF this fresh(4)] fresh(1,3,7) show ?thesis
    by (auto simp: newAdmission_def intro: write_trans [OF _ write_audit])
qed simp

lemma update_write:
  assumes "\<And>r. r \<in> set (admissions s) \<Longrightarrow> amId r = i \<Longrightarrow> amended r (f r)"
  shows "admission_write s (s\<lparr>admissions := update_rows (\<lambda>r. amId r = i) f (admissions s)\<rparr>)"
proof -
  let ?rows = "update_rows (\<lambda>r. amId r = i) f (admissions s)"
  have each: "g (if amId r = i then f r else r) = g r"
    if "r \<in> set (admissions s)" "\<And>r'. amended r r' \<Longrightarrow> g r' = g r" for r and g :: "admission_row \<Rightarrow> 'b"
    using assms [OF that(1)] that(2) [of "f r"] by (cases "amId r = i") simp_all
  have "map amId ?rows = map amId (admissions s)"
    unfolding update_rows_def map_map comp_def by (rule map_cong [OF refl], rule each, assumption, erule amended_meaning(1))
  moreover have "map amRequestKey ?rows = map amRequestKey (admissions s)"
    unfolding update_rows_def map_map comp_def by (rule map_cong [OF refl], rule each, assumption, erule amended_meaning(2))
  moreover have "list_all admission_row_ok ?rows = list_all admission_row_ok (admissions s)"
    unfolding update_rows_def list.pred_map comp_def
    by (rule list.pred_cong [OF refl], rule each, assumption, erule amended_meaning(3))
  ultimately have "admissions_ok ?rows = admissions_ok (admissions s)" by (simp add: admissions_ok_def)
  then show ?thesis by (simp add: admission_write_def later_update assms)
qed

lemma find_admission:
  assumes "getAccountAdmission s i = Some r"
  shows "r \<in> set (admissions s)" and "amId r = i"
  using assms by (auto simp: getAccountAdmission_def dest: find_row_Some)

lemma row_unique:
  assumes "admissions_ok (admissions s)" and "r \<in> set (admissions s)"
  shows "getAccountAdmission s (amId r) = Some r"
  using assms by (simp add: getAccountAdmission_def admissions_ok_def find_row_mem)

text \<open>An update of the one row with the id found.\<close>

lemma amend_write:
  assumes ok: "admissions_ok (admissions s)" and found: "getAccountAdmission s i = Some r" and am: "amended r (f r)"
  shows "admission_write s (s\<lparr>admissions := update_rows (\<lambda>r. amId r = i) f (admissions s), auditLog := l\<rparr>)"
    and "f r \<in> set (update_rows (\<lambda>r. amId r = i) f (admissions s))"
proof -
  have only: "r' = r" if "r' \<in> set (admissions s)" "amId r' = i" for r'
    using row_unique [OF ok that(1)] that(2) found by simp
  show "admission_write s (s\<lparr>admissions := update_rows (\<lambda>r. amId r = i) f (admissions s), auditLog := l\<rparr>)"
    using write_trans [OF update_write write_audit] only am by fastforce
  show "f r \<in> set (update_rows (\<lambda>r. amId r = i) f (admissions s))"
    using find_admission [OF found] by (auto simp: set_update_rows)
qed

lemma bind_write:
  assumes "bindAccountAdmission i b s = Inr (r, s')" and ok: "admissions_ok (admissions s)"
  shows "admission_write s s'" and "r \<in> set (admissions s')" and "amId r = i" and "amBeeId r = Some b"
proof -
  from assms(1) obtain r0 where found: "getAccountAdmission s i = Some r0"
    and "amBeeId r0 = Some b \<and> r = r0 \<and> s' = s
      \<or> amBeeId r0 = None \<and> r = r0\<lparr>amBeeId := Some b\<rparr>
        \<and> s' = s\<lparr>admissions := update_rows (\<lambda>r. amId r = i) (\<lambda>r. r\<lparr>amBeeId := Some b\<rparr>) (admissions s),
                 auditLog := auditLog s @ [EvAdmission (AvBound b i)]\<rparr>"
    by (auto simp: bindAccountAdmission_def mustGetBee_def bindM_Inr thenM_def updateAdmission_def audit_def
        split: option.splits if_splits)
  then show "admission_write s s'" "r \<in> set (admissions s')" "amId r = i" "amBeeId r = Some b"
    using amend_write [OF ok found, of "\<lambda>r. r\<lparr>amBeeId := Some b\<rparr>"] find_admission [OF found]
    by (auto simp: amended_def)
qed

lemma confirm_write:
  assumes "confirmAccountAdmission i s = Inr (r, s')" and ok: "admissions_ok (admissions s)"
  shows "admission_write s s'"
proof (cases "getAccountAdmission s i")
  case None
  with assms(1) show ?thesis by (simp add: confirmAccountAdmission_def)
next
  case (Some r0)
  with assms(1) have "s' = s \<or> amConfirmedAt r0 = None
      \<and> s' = s\<lparr>admissions := update_rows (\<lambda>r. amId r = i) (\<lambda>r. r\<lparr>amConfirmedAt := Some (clock s)\<rparr>) (admissions s),
               auditLog := auditLog s @ [EvAdmission (AvConfirmed (amBeeId r0) i (clock s))]\<rparr>"
    by (auto simp: confirmAccountAdmission_def bindM_Inr thenM_def updateAdmission_def audit_def split: if_splits)
  then show ?thesis
    using amend_write(1) [OF ok Some, of "\<lambda>r. r\<lparr>amConfirmedAt := Some (clock s)\<rparr>"] by (auto simp: amended_def)
qed

lemma release_write:
  assumes "releaseAccountAdmission i s = Inr (r, s')" and ok: "admissions_ok (admissions s)"
  shows "admission_write s s'"
proof (cases "getAccountAdmission s i")
  case None
  with assms(1) show ?thesis by (simp add: releaseAccountAdmission_def)
next
  case (Some r0)
  with assms(1) have "s' = s \<or> amReleasedAt r0 = None
      \<and> s' = s\<lparr>admissions := update_rows (\<lambda>r. amId r = i) (\<lambda>r. r\<lparr>amReleasedAt := Some (clock s)\<rparr>) (admissions s),
               auditLog := auditLog s @ [EvAdmission (AvReleased (amBeeId r0) i (clock s))]\<rparr>"
    by (auto simp: releaseAccountAdmission_def bindM_Inr thenM_def updateAdmission_def audit_def split: if_splits)
  then show ?thesis
    using amend_write(1) [OF ok Some, of "\<lambda>r. r\<lparr>amReleasedAt := Some (clock s)\<rparr>"] by (auto simp: amended_def)
qed

lemma same_reservation_key [simp]: "same_reservation r (i\<lparr>aiRequestKey := k\<rparr>) = same_reservation r i"
  by (simp add: same_reservation_def)

lemma write_ok: "admission_write s s' \<Longrightarrow> admissions_ok (admissions s) \<Longrightarrow> admissions_ok (admissions s')"
  by (simp add: admission_write_def)

text \<open>A claim that is taken over is there afterwards, for that bee, live, and with the meaning it was given.\<close>

lemma consume_write:
  assumes "consumeAccountAdmissionClaim i b s = Inr (r, s')" and ok: "admissions_ok (admissions s)"
  shows "admission_write s s'" and "r \<in> set (admissions s')" and "amBeeId r = Some b"
    and "\<exists>r0. amId r = amId r0 \<and> same_reservation r0 i \<and> amExpiresAt r0 = aiExpiresAt i \<and> amReleasedAt r0 = None \<and> clock s < amExpiresAt r0
          \<and> (getAccountAdmission s (aiId i) = Some r0
             \<or> getAccountAdmission s (aiId i) = None
               \<and> (\<exists>s1. reserveAccountAdmission (i\<lparr>aiRequestKey := ''shared-account-claim:'' @ aiId i\<rparr>) s = Inr (r0, s1)))"
proof -
  from assms(1) obtain r0 s1 where first: "getAccountAdmission s (aiId i) = Some r0 \<and> s1 = s
        \<or> getAccountAdmission s (aiId i) = None
          \<and> reserveAccountAdmission (i\<lparr>aiRequestKey := ''shared-account-claim:'' @ aiId i\<rparr>) s = Inr (r0, s1)"
    and mid: "same_reservation r0 i" "amExpiresAt r0 = aiExpiresAt i" "amReleasedAt r0 = None" "clock s1 < amExpiresAt r0"
    and last: "bindAccountAdmission (amId r0) b s1 = Inr (r, s')"
    by (auto simp: consumeAccountAdmissionClaim_def bindM_Inr thenM_def split: option.splits)
  have w1: "admission_write s s1" using first reserve_write by auto
  note w2 = bind_write [OF last write_ok [OF w1 ok]]
  show "admission_write s s'" using write_trans [OF w1 w2(1)] .
  show "r \<in> set (admissions s')" "amBeeId r = Some b" by (fact w2)+
  have "clock s1 = clock s" using w1 unfolding admission_write_def by (metis core.select_convs(1) core.surjective core.update_convs)
  then show "\<exists>r0. amId r = amId r0 \<and> same_reservation r0 i \<and> amExpiresAt r0 = aiExpiresAt i \<and> amReleasedAt r0 = None \<and> clock s < amExpiresAt r0
          \<and> (getAccountAdmission s (aiId i) = Some r0
             \<or> getAccountAdmission s (aiId i) = None
               \<and> (\<exists>s1. reserveAccountAdmission (i\<lparr>aiRequestKey := ''shared-account-claim:'' @ aiId i\<rparr>) s = Inr (r0, s1)))"
    using first mid w2(3) by auto
qed

section \<open>Runs\<close>

text \<open>Any operation on the holds, and anything that leaves them alone.\<close>

inductive admission_step :: "core \<Rightarrow> core \<Rightarrow> bool" where
  reserve: "reserveAccountAdmission i s = Inr (r, s') \<Longrightarrow> admission_step s s'"
| bind: "bindAccountAdmission j b s = Inr (r, s') \<Longrightarrow> admission_step s s'"
| consume: "consumeAccountAdmissionClaim i b s = Inr (r, s') \<Longrightarrow> admission_step s s'"
| confirm: "confirmAccountAdmission j s = Inr (found, s') \<Longrightarrow> admission_step s s'"
| release: "releaseAccountAdmission j s = Inr (found, s') \<Longrightarrow> admission_step s s'"
| other: "admissions s' = admissions s \<Longrightarrow> admission_step s s'"

definition admission_run :: "core \<Rightarrow> core \<Rightarrow> bool" where
  "admission_run = admission_step\<^sup>*\<^sup>*"

lemma write_later:
  "admission_write s s' \<Longrightarrow> admissions_ok (admissions s) \<Longrightarrow>
     admissions_later (admissions s) (admissions s') \<and> admissions_ok (admissions s')"
  by (simp add: admission_write_def)

lemma step_later:
  assumes "admission_step s s'" and ok: "admissions_ok (admissions s)"
  shows "admissions_later (admissions s) (admissions s') \<and> admissions_ok (admissions s')"
  using assms(1)
proof cases
  case (reserve i r)
  show ?thesis by (rule write_later [OF reserve_write [OF reserve] ok])
next
  case (bind j b r)
  show ?thesis by (rule write_later [OF bind_write(1) [OF bind ok] ok])
next
  case (consume i b r)
  show ?thesis by (rule write_later [OF consume_write(1) [OF consume ok] ok])
next
  case (confirm j found)
  show ?thesis by (rule write_later [OF confirm_write [OF confirm ok] ok])
next
  case (release j found)
  show ?thesis by (rule write_later [OF release_write [OF release ok] ok])
next
  case other
  then show ?thesis using ok by (simp add: later_refl)
qed

lemma run_later:
  assumes "admission_run s s'" and "admissions_ok (admissions s)"
  shows "admissions_later (admissions s) (admissions s')" and "admissions_ok (admissions s')"
proof -
  have "admissions_later (admissions s) (admissions s') \<and> admissions_ok (admissions s')"
    using assms unfolding admission_run_def
  proof (induction rule: rtranclp_induct)
    case base
    then show ?case by (simp add: later_refl)
  next
    case (step s1 s2)
    then show ?case using step_later [OF step.hyps(2)] later_trans by blast
  qed
  then show "admissions_later (admissions s) (admissions s')" "admissions_ok (admissions s')" by simp_all
qed

lemma row_later:
  assumes "admission_run s s'" and "admissions_ok (admissions s)" and "r \<in> set (admissions s)"
  obtains r' where "getAccountAdmission s' (amId r) = Some r'" and "amended r r'"
proof -
  from later_row [OF run_later(1) [OF assms(1,2)] assms(3)] obtain r' where r': "r' \<in> set (admissions s')" "amended r r'" .
  with row_unique [OF run_later(2) [OF assms(1,2)] r'(1)] amended_meaning(1) [OF r'(2)] that show ?thesis by simp
qed

lemma same_reservation_amended: "amended r r' \<Longrightarrow> same_reservation r' i = same_reservation r i"
  by (cases r; cases r'; simp add: amended_def same_reservation_def)

text \<open>Taking over a claim that is bound already: for its bee it answers the row, for another bee it throws.\<close>

lemma consume_bound:
  assumes "consumeAccountAdmissionClaim i b s = Inr (r, s')" and "getAccountAdmission s (aiId i) = Some r0" and "amBeeId r0 = Some b0"
  shows "b0 = b \<and> r = r0 \<and> s' = s \<and> same_reservation r0 i \<and> amExpiresAt r0 = aiExpiresAt i \<and> amReleasedAt r0 = None \<and> clock s < amExpiresAt r0"
proof -
  have "amId r0 = aiId i" using find_admission [OF assms(2)] by simp
  with assms have "same_reservation r0 i \<and> amExpiresAt r0 = aiExpiresAt i \<and> amReleasedAt r0 = None \<and> clock s < amExpiresAt r0"
    and bnd: "bindAccountAdmission (aiId i) b s = Inr (r, s')"
    by (auto simp: consumeAccountAdmissionClaim_def bindM_Inr thenM_def)
  moreover from bnd assms(2,3) have "b0 = b" "r = r0" "s' = s"
    by (auto simp: bindAccountAdmission_def mustGetBee_def bindM_Inr split: option.splits if_splits)
  ultimately show ?thesis by blast
qed


text \<open>A reservation answers again what it answered before, and never makes a second hold of one request.\<close>

lemma reserve_again:
  assumes "reserveAccountAdmission i s = Inr (r, s1)" and "admissions_ok (admissions s)" and "admission_run s1 s2"
    and "reserveAccountAdmission i' s2 = Inr (r', s3)" and "aiRequestKey i' = aiRequestKey i"
  shows "s3 = s2 \<and> amended r r' \<and> same_reservation r i'"
proof -
  have key: "amRequestKey r = aiRequestKey i" and r: "r \<in> set (admissions s1)"
    using assms(1) by (cases rule: reserve_cases; force simp: getAccountAdmissionByRequestKey_def newAdmission_def dest: find_row_Some)+
  have ok1: "admissions_ok (admissions s1)" using write_ok [OF reserve_write [OF assms(1)] assms(2)] .
  from row_later [OF assms(3) ok1 r] obtain r2 where r2: "getAccountAdmission s2 (amId r) = Some r2" "amended r r2" .
  have "getAccountAdmissionByRequestKey s2 (aiRequestKey i') = Some r2"
    using run_later(2) [OF assms(3) ok1] find_admission [OF r2(1)] amended_meaning(2) [OF r2(2)] key assms(5)
    by (metis admissions_ok_def find_row_mem getAccountAdmissionByRequestKey_def)
  with assms(4) have "r' = r2 \<and> s3 = s2 \<and> same_reservation r2 i'" by (cases rule: reserve_cases) auto
  then show ?thesis using r2(2) same_reservation_amended by auto
qed

end
