(* ===== verification/Allocation_Work.thy ===== *)
theory Allocation_Work
  imports Allocation Admissions
begin

text \<open>
  The admission of new automatic work (v2/daemon/src/accountsService.ts, allocation mode active): the facts of
  other nodes, the activity of this one, the candidate that an account is, and the selection that is reserved in
  the same transaction. What the service reads of an account outside the store (credentials, lease, ceiling,
  measured velocities) is a row of facts, a parameter. The text of a receipt is a parameter of its value.
\<close>

section \<open>Facts, options and configuration\<close>

text \<open>The row of limits as far as the allocation reads it (types.ts).\<close>

record limits_row =
  lrFetchedAt :: int
  lrReadable :: bool
  lrPlan :: "string option"
  lrFiveHourPct :: "rat option"
  lrFiveHourResetsAt :: "int option"
  lrWeeklyPct :: "rat option"
  lrWeeklyResetsAt :: "int option"
  lrFableWeeklyPct :: "rat option"
  lrFableResetsAt :: "int option"

record account_facts =
  afId :: string
  afLeaseUnknown :: bool
  afPaused :: bool
  afCeilingBreach :: bool
  afUsable :: bool
  afVerified :: bool
  afReady :: bool
  afExhaustedAt :: "int option"
  afRecoveryBoundary :: int
  afLimits :: "limits_row option"
  afVelocity :: "window_kind \<Rightarrow> rat option"

record allocation_config =
  cfQuotaFreshMs :: int
  cfActivityFreshMs :: int
  cfRecentGraceMs :: int
  cfReservationTtlMs :: int
  cfExhaustionCoolOffMs :: int
  cfPlanCapacityUnits :: "string \<Rightarrow> amount option"
  cfOwner :: "(string \<times> string) option"

record remote_fact =
  rmAccount :: string
  rmActive :: amount
  rmRecent :: amount
  rmPending :: amount
  rmOngoingUnits :: amount
  rmObservedClaimIds :: "string list option"

record allocation_context =
  cxVersion :: int
  cxAuthority :: "(string \<times> string) option"
  cxScope :: string
  cxRevision :: string
  cxObservedAt :: amount
  cxComplete :: bool
  cxAccounts :: "remote_fact list"

datatype quota_window = QwFiveHour | QwWeekly | QwOther

record source_recovery =
  srUsedPercentAtObservation :: "rat option"
  srUsedPercentObservedAt :: "int option"
  srObservedAt :: int
  srWindow :: quota_window
  srResetsAt :: "int option"

record work_options =
  woOperation :: admission_operation
  woRequestKey :: string
  woModel :: "string option"
  woContext :: "allocation_context option"
  woExcludeAccountIds :: "string list"
  woOnlyAccountIds :: "string list option"
  woSourceAccount :: "string option"
  woAllowSourceAccount :: bool
  woSourceQuotaRecovery :: "source_recovery option"
  woReservationId :: "string option"
  woReconcileAfterGeneration :: int

definition allocationScope :: "string \<Rightarrow> string" where
  "allocationScope harness = harness @ '':provider-accounts''"

definition allocation_policy :: "allocation_config \<Rightarrow> int \<Rightarrow> string option \<Rightarrow> admission_policy" where
  "allocation_policy cfg now model =
     (DEFAULT_ACCOUNT_ADMISSION_POLICY (of_int now))\<lparr>plModel := model, plQuotaFreshMs := of_int (cfQuotaFreshMs cfg)\<rparr>"

section \<open>The facts of the other nodes\<close>

definition is_safe_count :: "amount \<Rightarrow> bool" where
  "is_safe_count a \<longleftrightarrow>
     is_finite a \<and> snd (quotient_of (amount_val a)) = 1 \<and> 0 \<le> amount_val a \<and> amount_val a \<le> 2 ^ 53 - 1"

fun claims_fresh :: "string list \<Rightarrow> string list \<Rightarrow> string list option" where
  "claims_fresh seen [] = Some seen"
| "claims_fresh seen (c # cs) =
     (if c = [] \<or> 128 < length c \<or> c \<in> set seen then None else claims_fresh (c # seen) cs)"

fun facts_fresh :: "string list \<Rightarrow> remote_fact list \<Rightarrow> bool" where
  "facts_fresh seen [] = True"
| "facts_fresh seen (f # fs) =
     (if rmAccount f = [] \<or> \<not> is_safe_count (rmActive f) \<or> \<not> is_safe_count (rmRecent f) \<or> \<not> is_safe_count (rmPending f)
         \<or> \<not> finiteNonNegative (rmOngoingUnits f)
         \<or> (case rmObservedClaimIds f of Some cs \<Rightarrow> 256 < length cs | None \<Rightarrow> False)
      then False
      else case claims_fresh seen (case rmObservedClaimIds f of Some cs \<Rightarrow> cs | None \<Rightarrow> []) of
             None \<Rightarrow> False
           | Some seen' \<Rightarrow> facts_fresh seen' fs)"

definition contextIsFresh :: "allocation_config \<Rightarrow> allocation_context option \<Rightarrow> string \<Rightarrow> int \<Rightarrow> bool" where
  "contextIsFresh cfg context scope now =
     (case context of
        None \<Rightarrow> False
      | Some x \<Rightarrow>
          cxVersion x = 1 \<and> cxScope x = scope \<and> cxComplete x
          \<and> cfOwner cfg \<noteq> None \<and> cxAuthority x = cfOwner cfg
          \<and> is_finite (cxObservedAt x) \<and> amount_val (cxObservedAt x) \<le> of_int (now + 60000)
          \<and> of_int now - amount_val (cxObservedAt x) \<le> of_int (cfActivityFreshMs cfg)
          \<and> cxRevision x \<noteq> [] \<and> length (cxRevision x) \<le> 128
          \<and> length (cxAccounts x) \<le> 256 \<and> distinct (map rmAccount (cxAccounts x))
          \<and> facts_fresh [] (cxAccounts x))"

section \<open>The activity of this node\<close>

record local_activity =
  laActive :: nat
  laRecent :: nat
  laPending :: nat
  laOngoingUnits :: rat
  laObservedClaimIds :: "string list"

definition no_activity :: local_activity where
  "no_activity = \<lparr>laActive = 0, laRecent = 0, laPending = 0, laOngoingUnits = 0, laObservedClaimIds = []\<rparr>"

definition beesOnAccount :: "core \<Rightarrow> string \<Rightarrow> bee_row list" where
  "beesOnAccount s a = sort_key bId (filter (\<lambda>b. bAccount b = Some a) (bees s))"

text \<open>The live holds that are bound to a bee: \<open>reservationsByBee\<close>.\<close>

definition boundReservations :: "core \<Rightarrow> int \<Rightarrow> admission_row list" where
  "boundReservations s now =
     filter (\<lambda>r. amBeeId r \<noteq> None \<and> amReleasedAt r = None \<and> now < amExpiresAt r) (listAccountAdmissions s)"

definition reservationsOf :: "core \<Rightarrow> int \<Rightarrow> string \<Rightarrow> admission_row list" where
  "reservationsOf s now b = filter (\<lambda>r. amBeeId r = Some b) (boundReservations s now)"

text \<open>The bees on the accounts, and those with a hold whose source account is one of them.\<close>

definition activeBeeIds :: "core \<Rightarrow> int \<Rightarrow> string list \<Rightarrow> string list" where
  "activeBeeIds s now ids =
     remdups (map bId (concat (map (beesOnAccount s) ids))
       @ filter (\<lambda>b. getBee s b \<noteq> None)
           (map (\<lambda>r. the (amBeeId r))
             (filter (\<lambda>r. case amSourceAccount r of Some a \<Rightarrow> a \<in> set ids | None \<Rightarrow> False) (boundReservations s now))))"

definition runtimeAccount :: "core \<Rightarrow> int \<Rightarrow> bee_row \<Rightarrow> string option" where
  "runtimeAccount s now bee =
     (case List.find (\<lambda>r. amSourceAccount r \<noteq> None \<and> amSourceAccount r \<noteq> Some (amAccount r)
              \<and> int (case currentRuntime s (bId bee) of Some g \<Rightarrow> rGeneration g | None \<Rightarrow> 0) \<le> amReconcileAfterGeneration r)
            (reservationsOf s now (bId bee)) of
        Some r \<Rightarrow> amSourceAccount r
      | None \<Rightarrow> bAccount bee)"

definition pendingWork :: "core \<Rightarrow> string \<Rightarrow> bool" where
  "pendingWork s b \<longleftrightarrow>
     undeliveredMessages s b \<noteq> []
     \<or> list_ex (\<lambda>c. cBeeId c = b \<and> (cStatus c = CQueued \<or> cStatus c = CRunning)
          \<and> (cVerb c = VSpawn \<or> cVerb c = VRevive \<or> cVerb c = VSendWake)) (commands s)"

definition beeActivity :: "allocation_config \<Rightarrow> core \<Rightarrow> int \<Rightarrow> bee_row \<Rightarrow> local_activity \<Rightarrow> local_activity" where
  "beeActivity cfg s now bee a =
     (let runtime = currentRuntime s (bId bee);
          active = (case runtime of Some g \<Rightarrow> rState g = RBooting \<or> rState g = RRunning | None \<Rightarrow> False);
          latest = max (case runtime of Some g \<Rightarrow> rUpdatedAt g | None \<Rightarrow> 0) (case bLastOutputAt bee of Some t \<Rightarrow> t | None \<Rightarrow> 0);
          grace = cfRecentGraceMs cfg;
          represented = (\<lambda>a. a\<lparr>laObservedClaimIds := laObservedClaimIds a
            @ map amId (filter (\<lambda>r. Some (amAccount r) = runtimeAccount s now bee) (reservationsOf s now (bId bee)))\<rparr>)
      in if active then
           represented (a\<lparr>laActive := laActive a + 1,
             laOngoingUnits := laOngoingUnits a + max 1 (of_int (now - rStartedAt (the runtime)) / 3600000)\<rparr>)
         else if pendingWork s (bId bee) then
           represented (a\<lparr>laPending := laPending a + 1, laOngoingUnits := laOngoingUnits a + 1\<rparr>)
         else if 0 < latest \<and> now - latest \<le> grace then
           represented (a\<lparr>laRecent := laRecent a + 1,
             laOngoingUnits := laOngoingUnits a + max 0 (of_int (grace - (now - latest)) / of_int (max 1 grace))\<rparr>)
         else a)"

text \<open>The activity of one account: what its bees add up to.\<close>

definition localActivity :: "allocation_config \<Rightarrow> core \<Rightarrow> int \<Rightarrow> string list \<Rightarrow> string \<Rightarrow> local_activity" where
  "localActivity cfg s now ids account =
     fold (\<lambda>b a. case getBee s b of
                   Some bee \<Rightarrow> if runtimeAccount s now bee = Some account then beeActivity cfg s now bee a else a
                 | None \<Rightarrow> a)
       (activeBeeIds s now ids) no_activity"

definition localActivities :: "allocation_config \<Rightarrow> core \<Rightarrow> int \<Rightarrow> string list \<Rightarrow> (string \<times> local_activity) list" where
  "localActivities cfg s now ids = map (\<lambda>a. (a, localActivity cfg s now ids a)) ids"

section \<open>Restored quota\<close>

definition completion_reserve :: rat where
  "completion_reserve = plCompletionReservePercent (DEFAULT_ACCOUNT_ADMISSION_POLICY 0)"

definition observedPercents :: "string option \<Rightarrow> limits_row \<Rightarrow> rat option list" where
  "observedPercents model r =
     [lrFiveHourPct r, lrWeeklyPct r] @ (if fableModel model then [lrFableWeeklyPct r] else [])"

text \<open>The percents that are there, all below the reserve, and at least one of them.\<close>

definition percents_restored :: "string option \<Rightarrow> limits_row \<Rightarrow> bool" where
  "percents_restored model r =
     (let vs = List.map_filter id (observedPercents model r) in vs \<noteq> [] \<and> list_all (\<lambda>v. v < completion_reserve) vs)"

definition restoredQuotaHeadroom :: "allocation_config \<Rightarrow> int \<Rightarrow> account_facts \<Rightarrow> string option \<Rightarrow> bool" where
  "restoredQuotaHeadroom cfg now f model =
     (let boundary = max (case afExhaustedAt f of Some t \<Rightarrow> t | None \<Rightarrow> 0) (afRecoveryBoundary f)
      in case afLimits f of
           None \<Rightarrow> False
         | Some r \<Rightarrow>
             0 < boundary \<and> lrReadable r \<and> boundary < lrFetchedAt r \<and> now - lrFetchedAt r \<le> cfQuotaFreshMs cfg
             \<and> percents_restored model r)"

definition sourceQuotaRestored ::
  "allocation_config \<Rightarrow> int \<Rightarrow> account_facts \<Rightarrow> source_recovery option \<Rightarrow> string option \<Rightarrow> bool" where
  "sourceQuotaRestored cfg now f source model =
     (case (source, afLimits f) of
        (Some src, Some r) \<Rightarrow>
          let exhausted = (case srWindow src of QwWeekly \<Rightarrow> lrWeeklyPct r | QwFiveHour \<Rightarrow> lrFiveHourPct r | QwOther \<Rightarrow> None);
              vals = observedPercents model r
          in if \<not> lrReadable r \<or> lrFetchedAt r \<le> srObservedAt src \<or> now < lrFetchedAt r
                \<or> cfQuotaFreshMs cfg < now - lrFetchedAt r then False
             else if (case srResetsAt src of
                        Some t \<Rightarrow> now < t \<or> lrFetchedAt r < t
                      | None \<Rightarrow> \<not> ((case srUsedPercentAtObservation src of Some u \<Rightarrow> completion_reserve \<le> u | None \<Rightarrow> False)
                                  \<and> (case srUsedPercentObservedAt src of
                                       Some t \<Rightarrow> srObservedAt src < t \<and> t < lrFetchedAt r | None \<Rightarrow> False)))
             then False
             else if srWindow src \<noteq> QwOther \<and> exhausted = None then False
             else if srWindow src = QwOther \<and> None \<in> set vals then False
             else list_ex (\<lambda>v. v \<noteq> None) vals \<and> list_all (\<lambda>v. case v of None \<Rightarrow> True | Some x \<Rightarrow> x < completion_reserve) vals
      | _ \<Rightarrow> False)"

section \<open>An account as a candidate\<close>

definition eligibilityOf :: "allocation_config \<Rightarrow> int \<Rightarrow> account_facts \<Rightarrow> string option \<Rightarrow> eligibility" where
  "eligibilityOf cfg now f model =
     (let verifiedRestored = (case (afExhaustedAt f, afLimits f) of
            (Some t, Some r) \<Rightarrow> lrReadable r \<and> t < lrFetchedAt r \<and> percents_restored model r
          | _ \<Rightarrow> False)
      in if afLeaseUnknown f then EligibilityUnknown UrAuth
         else if afPaused f then Ineligible IrPaused
         else if afCeilingBreach f then Ineligible IrCeiling
         else if \<not> afUsable f then Ineligible IrAuth
         else if \<not> afVerified f then EligibilityUnknown UrAuth
         else if (case afExhaustedAt f of Some t \<Rightarrow> now - t < cfExhaustionCoolOffMs cfg | None \<Rightarrow> False) \<and> \<not> verifiedRestored
         then Ineligible IrExhausted
         else if fableModel model \<and> (case afLimits f of Some r \<Rightarrow> lrFableWeeklyPct r = None | None \<Rightarrow> True)
         then EligibilityUnknown UrGrants
         else Eligible)"

definition addWindow ::
  "rat \<Rightarrow> window_kind \<Rightarrow> rat option \<Rightarrow> int option \<Rightarrow> rat option \<Rightarrow> rat \<Rightarrow> admission_window list" where
  "addWindow active kind used resets measured cost =
     (case (used, resets) of
        (Some u, Some t) \<Rightarrow>
          [\<lparr>awKind = kind, awUsedPercent = Finite u, awResetsAt = Finite (of_int t),
            awVelocityPerHour = Finite (max (case measured of Some v \<Rightarrow> v | None \<Rightarrow> 0) (active * cost)),
            awAdmissionCostPercent = Finite cost\<rparr>]
      | _ \<Rightarrow> [])"

definition candidateWindows :: "account_facts \<Rightarrow> rat \<Rightarrow> limits_row \<Rightarrow> admission_window list" where
  "candidateWindows f active r =
     addWindow active FiveHour (lrFiveHourPct r) (lrFiveHourResetsAt r) (afVelocity f FiveHour) 4
     @ addWindow active Weekly (lrWeeklyPct r) (lrWeeklyResetsAt r) (afVelocity f Weekly) 1
     @ addWindow active FableWeekly (lrFableWeeklyPct r) (lrFableResetsAt r) (afVelocity f FableWeekly) 1"

definition readable_limits :: "account_facts \<Rightarrow> limits_row option" where
  "readable_limits f = (case afLimits f of Some r \<Rightarrow> if lrReadable r then Some r else None | None \<Rightarrow> None)"

definition planCapacity :: "allocation_config \<Rightarrow> account_facts \<Rightarrow> amount" where
  "planCapacity cfg f =
     (case cfPlanCapacityUnits cfg (case afLimits f of Some r \<Rightarrow> (case lrPlan r of Some t \<Rightarrow> map lower_char t | None \<Rightarrow> '''') | None \<Rightarrow> '''') of
        Some u \<Rightarrow> u | None \<Rightarrow> Finite 1)"

text \<open>The sum of the holds that no fact represents already.\<close>

definition heldUnits :: "core \<Rightarrow> int \<Rightarrow> string \<Rightarrow> string \<Rightarrow> string list \<Rightarrow> rat" where
  "heldUnits s now scope account observed =
     sum_list (map amUnits (filter (\<lambda>r. amId r \<notin> set observed)
       (listUnreconciledAccountAdmissions s now (Some scope) (Some account))))"

definition remoteFact :: "allocation_context option \<Rightarrow> bool \<Rightarrow> string \<Rightarrow> remote_fact option" where
  "remoteFact context fresh account =
     (if fresh then (case context of Some x \<Rightarrow> find_row rmAccount (cxAccounts x) account | None \<Rightarrow> None) else None)"

definition admissionCandidate ::
  "allocation_config \<Rightarrow> core \<Rightarrow> string \<Rightarrow> string option \<Rightarrow> allocation_context option \<Rightarrow> bool \<Rightarrow> int \<Rightarrow> local_activity
   \<Rightarrow> account_facts \<Rightarrow> admission_candidate" where
  "admissionCandidate cfg s scope model context fresh now a f =
     (let remote = remoteFact context fresh (afId f);
          plus = (\<lambda>x field. x + (case remote of Some m \<Rightarrow> amount_val (field m) | None \<Rightarrow> 0));
          activity = \<lparr>ayComplete = fresh, ayActive = plus (of_nat (laActive a)) rmActive,
                      ayRecent = plus (of_nat (laRecent a)) rmRecent, ayPending = plus (of_nat (laPending a)) rmPending,
                      ayOngoingUnits = plus (laOngoingUnits a) rmOngoingUnits\<rparr>;
          observed = laObservedClaimIds a
            @ (case remote of Some m \<Rightarrow> (case rmObservedClaimIds m of Some cs \<Rightarrow> cs | None \<Rightarrow> []) | None \<Rightarrow> [])
      in \<lparr>cdAccountId = afId f, cdCapacityUnits = planCapacity cfg f, cdEligibility = eligibilityOf cfg now f model,
          cdQuota = map_option (\<lambda>r. \<lparr>aqFetchedAt = Finite (of_int (lrFetchedAt r)),
              aqWindows = candidateWindows f (ayActive activity) r\<rparr>) (readable_limits f),
          cdActivity = activity,
          cdReservations = heldUnits s now scope (afId f) observed\<rparr>)"

section \<open>Admitting new work\<close>

record allocation_receipt =
  arScope :: string
  arRevision :: "string option"
  arObservedAt :: int
  arOperation :: admission_operation
  arAccount :: "string option"
  arReason :: "wait_reason option"
  arRetryAt :: "rat option"
  arCandidates :: "candidate_receipt list"

datatype admission_outcome = Admitted admission_row allocation_receipt | AdmissionWaits allocation_receipt

text \<open>The accounts of the harness that the options allow, in the order of listAccounts.\<close>

definition allowedAccounts :: "allocation_config \<Rightarrow> int \<Rightarrow> work_options \<Rightarrow> account_facts list \<Rightarrow> account_facts list" where
  "allowedAccounts cfg now opts fs =
     filter (\<lambda>f. afId f \<notin> set (woExcludeAccountIds opts)
          \<and> \<not> (woOperation opts = AoSwap \<and> \<not> woAllowSourceAccount opts \<and> woSourceAccount opts = Some (afId f))
          \<and> (case woOnlyAccountIds opts of Some ids \<Rightarrow> afId f \<in> set ids | None \<Rightarrow> True)
          \<and> (woSourceAccount opts \<noteq> Some (afId f) \<or> \<not> woAllowSourceAccount opts
             \<or> sourceQuotaRestored cfg now f (woSourceQuotaRecovery opts) (woModel opts))) fs"

definition admissionCandidates ::
  "allocation_config \<Rightarrow> core \<Rightarrow> string \<Rightarrow> string option \<Rightarrow> allocation_context option \<Rightarrow> account_facts list
   \<Rightarrow> admission_candidate list" where
  "admissionCandidates cfg s scope model context fs =
     (let now = clock s; fresh = contextIsFresh cfg context scope now; ids = map afId fs
      in map (\<lambda>f. admissionCandidate cfg s scope model context fresh now (localActivity cfg s now ids (afId f)) f) fs)"

definition percentReset :: "int \<Rightarrow> rat option \<times> int option \<Rightarrow> rat list" where
  "percentReset now w =
     (case w of (Some u, Some t) \<Rightarrow> if completion_reserve \<le> u \<and> now < t then [of_int t] else [] | _ \<Rightarrow> [])"

definition exhaustedAdmissionRetry ::
  "allocation_config \<Rightarrow> int \<Rightarrow> account_facts list \<Rightarrow> string option \<Rightarrow> rat option \<Rightarrow> rat option" where
  "exhaustedAdmissionRetry cfg now fs model hint =
     (let hinted = (case hint of Some t \<Rightarrow> if of_int now < t then [t] else [] | None \<Rightarrow> []);
          times = (\<lambda>f.
            if \<not> afReady f then []
            else case readable_limits f of
                   None \<Rightarrow> []
                 | Some r \<Rightarrow>
                     percentReset now (lrFiveHourPct r, lrFiveHourResetsAt r) @ percentReset now (lrWeeklyPct r, lrWeeklyResetsAt r)
                     @ (if fableModel model then percentReset now (lrFableWeeklyPct r, lrFableResetsAt r) else [])
                     @ (case afExhaustedAt f of
                          Some t \<Rightarrow>
                            if list_all (\<lambda>v. case v of Some u \<Rightarrow> u < completion_reserve | None \<Rightarrow> False) (observedPercents model r)
                               \<and> \<not> restoredQuotaHeadroom cfg now f model \<and> now < t + cfExhaustionCoolOffMs cfg
                            then [of_int (t + cfExhaustionCoolOffMs cfg)] else []
                        | None \<Rightarrow> []));
          all = hinted @ concat (map times fs)
      in if all = [] then None else Some (least_of all))"

definition reservationInput ::
  "allocation_config \<Rightarrow> string \<Rightarrow> work_options \<Rightarrow> int \<Rightarrow> string \<Rightarrow> string \<Rightarrow> string \<Rightarrow> admission_input" where
  "reservationInput cfg scope opts now account i receipt =
     \<lparr>aiId = i, aiRequestKey = ''account-admission:'' @ admission_operation_text (woOperation opts) @ '':'' @ woRequestKey opts,
      aiScope = scope, aiAccount = account, aiSourceAccount = woSourceAccount opts, aiOperation = woOperation opts,
      aiUnits = 1, aiExpiresAt = now + cfReservationTtlMs cfg,
      aiReconcileAfterGeneration = woReconcileAfterGeneration opts, aiReceipt = receipt\<rparr>"

definition admitNewWork ::
  "(string \<Rightarrow> nat list) \<Rightarrow> (allocation_receipt \<Rightarrow> string) \<Rightarrow> allocation_config \<Rightarrow> string \<Rightarrow> account_facts list
   \<Rightarrow> work_options \<Rightarrow> admission_outcome store_op" where
  "admitNewWork collate receiptText cfg harness fs opts =
     bindM (readM (\<lambda>s. s)) (\<lambda>s0.
     let now = clock s0; scope = allocationScope harness;
         fresh = contextIsFresh cfg (woContext opts) scope now;
         revision = (if fresh then map_option cxRevision (woContext opts) else None);
         accounts = allowedAccounts cfg now opts fs;
         candidates = admissionCandidates cfg s0 scope (woModel opts) (woContext opts) accounts
     in case selectAccountAdmission collate candidates (allocation_policy cfg now (woModel opts)) of
          Waits reason retryAt receipts \<Rightarrow>
            returnM (AdmissionWaits \<lparr>arScope = scope, arRevision = revision, arObservedAt = now, arOperation = woOperation opts,
              arAccount = None, arReason = Some reason,
              arRetryAt = exhaustedAdmissionRetry cfg now accounts (woModel opts) retryAt, arCandidates = receipts\<rparr>)
        | Selected account _ _ _ receipts \<Rightarrow>
            let receipt = \<lparr>arScope = scope, arRevision = revision, arObservedAt = now, arOperation = woOperation opts,
                  arAccount = Some account, arReason = None, arRetryAt = None, arCandidates = receipts\<rparr>
            in thenM (requireM (map_of (accountStatuses s0) account \<noteq> None) (JsError ''selected account disappeared''))
               (bindM (case woReservationId opts of Some i \<Rightarrow> returnM i | None \<Rightarrow> randomUUID) (\<lambda>i.
                bindM (reserveAccountAdmission (reservationInput cfg scope opts now account i (receiptText receipt))) (\<lambda>r.
                returnM (Admitted r receipt)))))"

end
