(* ===== verification/Allocation_Runs.thy ===== *)
theory Allocation_Runs
  imports Allocation_Work "HOL-Library.Multiset"
begin

text \<open>
  What the admission of new work keeps over a burst of starts: every account that was given a start stays under
  its reserve with all the starts it holds, and the starts are shared in proportion to the allowance rates.
\<close>

section \<open>A candidate and what it holds\<close>

definition candidateOf ::
  "allocation_config \<Rightarrow> core \<Rightarrow> string \<Rightarrow> string option \<Rightarrow> allocation_context option \<Rightarrow> account_facts list
   \<Rightarrow> account_facts \<Rightarrow> admission_candidate" where
  "candidateOf cfg s scope model context pool f =
     admissionCandidate cfg s scope model context (contextIsFresh cfg context scope (clock s)) (clock s)
       (localActivity cfg s (clock s) (map afId pool) (afId f)) f"

lemma candidates_map:
  "admissionCandidates cfg s scope model context pool = map (candidateOf cfg s scope model context pool) pool"
  by (simp add: admissionCandidates_def candidateOf_def Let_def)

lemma candidate_id [simp]: "cdAccountId (candidateOf cfg s scope model context pool f) = afId f"
  by (simp add: candidateOf_def admissionCandidate_def Let_def)

text \<open>Holding more makes nothing possible that was not.\<close>

lemma quotaUncertain_reservations [simp]: "quotaUncertain p (c\<lparr>cdReservations := x\<rparr>) = quotaUncertain p c"
  by (simp add: quotaUncertain_def applicableWindows_def split: option.split)

lemma applicable_reservations [simp]: "applicableWindows (c\<lparr>cdReservations := x\<rparr>) model = applicableWindows c model"
  by (simp add: applicableWindows_def)

lemma rate_reservations [simp]: "allowanceRate p (c\<lparr>cdReservations := x\<rparr>) = allowanceRate p c"
proof -
  have "windowRate p (c\<lparr>cdReservations := x\<rparr>) = windowRate p c" by (simp add: fun_eq_iff windowRate_def)
  then show ?thesis by (simp add: allowanceRate_def)
qed

lemma projected_mono:
  assumes "\<not> quotaUncertain p c" and "w \<in> set (applicableWindows c (plModel p))" and "0 \<le> plProjectionHorizonHours p" and "x \<le> y"
  shows "projectedWindowPercent p (c\<lparr>cdReservations := x\<rparr>) w \<le> projectedWindowPercent p (c\<lparr>cdReservations := y\<rparr>) w"
proof -
  have "0 \<le> amount_val (awAdmissionCostPercent w) * min (plProjectionHorizonHours p) (hoursLeft p w)"
    using usable_windows [OF assms(1,2)] assms(3) by simp
  then show ?thesis using assms(4) by (simp add: projectedWindowPercent_def Let_def mult_left_mono)
qed

lemma admissible_less:
  assumes adm: "admissible p (c\<lparr>cdReservations := y\<rparr>)" and "x \<le> y" and "0 \<le> plProjectionHorizonHours p"
  shows "admissible p (c\<lparr>cdReservations := x\<rparr>)"
proof -
  from adm have certain: "\<not> quotaUncertain p c" by (simp add: admissible_def)
  have "activityPresent (c\<lparr>cdReservations := x\<rparr>) \<Longrightarrow> activityPresent (c\<lparr>cdReservations := y\<rparr>)"
    using assms(2) by (auto simp: activityPresent_def)
  then have "under_reserve p (c\<lparr>cdReservations := x\<rparr>)"
    using adm projected_mono [OF certain _ assms(3,2)]
    by (fastforce simp: admissible_def under_reserve_def list_all_iff)
  then show ?thesis using adm by (simp add: admissible_def)
qed

section \<open>The holds of an account\<close>

lemma sum_list_sort_key: "sum_list (map g (sort_key f xs)) = sum_list (map g xs)" for g :: "'a \<Rightarrow> rat"
  by (metis mset_map mset_sort sum_mset_sum_list)

lemma heldUnits_eq:
  "heldUnits s now scope account observed =
     sum_list (map amUnits (filter (\<lambda>r. countedAdmission s now (Some scope) (Some account) r \<and> amId r \<notin> set observed) (admissions s)))"
  by (simp add: heldUnits_def listUnreconciledAccountAdmissions_def filter_sort sum_list_sort_key conj_commute)

text \<open>The store before and after a reservation: one row more, which no bee has yet.\<close>

definition one_hold_more :: "core \<Rightarrow> core \<Rightarrow> string \<Rightarrow> bool" where
  "one_hold_more s s' account \<longleftrightarrow>
     bees s' = bees s \<and> runtimes s' = runtimes s \<and> mailbox s' = mailbox s \<and> commands s' = commands s \<and> clock s' = clock s
     \<and> (admissions s' = admissions s
        \<or> (\<exists>r. admissions s' = admissions s @ [r] \<and> amAccount r = account \<and> amUnits r = 1 \<and> amBeeId r = None))"

lemma held_units_step:
  assumes "one_hold_more s s' account"
  shows "heldUnits s now scope a observed \<le> heldUnits s' now scope a observed"
    and "heldUnits s' now scope a observed \<le> heldUnits s now scope a observed + (if a = account then 1 else 0)"
proof -
  have counted: "countedAdmission s' now (Some scope) (Some a) = countedAdmission s now (Some scope) (Some a)"
    using assms by (auto simp: countedAdmission_def one_hold_more_def fun_eq_iff)
  from assms consider "admissions s' = admissions s"
    | r where "admissions s' = admissions s @ [r]" "amAccount r = account" "amUnits r = 1"
    by (auto simp: one_hold_more_def)
  then show "heldUnits s now scope a observed \<le> heldUnits s' now scope a observed"
    and "heldUnits s' now scope a observed \<le> heldUnits s now scope a observed + (if a = account then 1 else 0)"
    by (cases; simp add: heldUnits_eq counted; simp add: countedAdmission_def)+
qed

lemma bound_step:
  assumes "one_hold_more s s' account"
  shows "boundReservations s' now = boundReservations s now"
  using assms by (auto simp: boundReservations_def listAccountAdmissions_def filter_sort one_hold_more_def)

lemma localActivity_step:
  assumes "one_hold_more s s' account"
  shows "localActivity cfg s' now ids a = localActivity cfg s now ids a"
proof -
  note same = bound_step [OF assms]
  have eqs: "bees s' = bees s" "runtimes s' = runtimes s" "mailbox s' = mailbox s" "commands s' = commands s"
    using assms by (simp_all add: one_hold_more_def)
  have reads: "getBee s' = getBee s" "currentRuntime s' = currentRuntime s" "undeliveredMessages s' = undeliveredMessages s"
      "beesOnAccount s' = beesOnAccount s" "reservationsOf s' now = reservationsOf s now"
    by (simp_all add: fun_eq_iff getBee_def currentRuntime_def undeliveredMessages_def beesOnAccount_def reservationsOf_def eqs same)
  have work: "runtimeAccount s' now = runtimeAccount s now" "pendingWork s' = pendingWork s"
    by (simp_all add: fun_eq_iff runtimeAccount_def pendingWork_def reads eqs)
  have bee: "beeActivity cfg s' now = beeActivity cfg s now"
    by (intro ext) (unfold beeActivity_def reads work, rule refl)
  have "activeBeeIds s' now ids = activeBeeIds s now ids"
    by (simp add: activeBeeIds_def reads same)
  then show ?thesis by (unfold localActivity_def reads work bee) simp
qed

lemma candidate_step:
  assumes "one_hold_more s s' account"
  obtains h where "candidateOf cfg s' scope model context pool f = (candidateOf cfg s scope model context pool f)\<lparr>cdReservations := h\<rparr>"
    and "cdReservations (candidateOf cfg s scope model context pool f) \<le> h"
    and "h \<le> cdReservations (candidateOf cfg s scope model context pool f) + (if afId f = account then 1 else 0)"
proof
  let ?c = "candidateOf cfg s scope model context pool f" and ?c' = "candidateOf cfg s' scope model context pool f"
  have "clock s' = clock s" using assms by (simp add: one_hold_more_def)
  then show "?c' = ?c\<lparr>cdReservations := cdReservations ?c'\<rparr>"
    by (simp add: candidateOf_def admissionCandidate_def Let_def localActivity_step [OF assms])
  show "cdReservations ?c \<le> cdReservations ?c'" "cdReservations ?c' \<le> cdReservations ?c + (if afId f = account then 1 else 0)"
    using held_units_step [OF assms] \<open>clock s' = clock s\<close>
    by (simp_all add: candidateOf_def admissionCandidate_def Let_def localActivity_step [OF assms])
qed

section \<open>One admission\<close>

lemma uuid_hold: "randomUUID s = Inr (u, s') \<Longrightarrow> s' = s\<lparr>uuidPos := uuidPos s + 1\<rparr>"
  by (auto simp: randomUUID_def bindM_Inr thenM_def)

lemma admit_parts:
  assumes "admitNewWork collate rendered cfg harness fs opts s = Inr (Admitted r receipt, s')"
  obtains account rate finish projected receipts j s1
  where "selectAccountAdmission collate (admissionCandidates cfg s (allocationScope harness) (woModel opts) (woContext opts)
            (allowedAccounts cfg (clock s) opts fs)) (allocation_policy cfg (clock s) (woModel opts))
          = Selected account rate finish projected receipts"
    and "s1 = s \<or> s1 = s\<lparr>uuidPos := uuidPos s + 1\<rparr>"
    and "reserveAccountAdmission (reservationInput cfg (allocationScope harness) opts (clock s) account j (rendered receipt)) s1 = Inr (r, s')"
proof (cases "selectAccountAdmission collate (admissionCandidates cfg s (allocationScope harness) (woModel opts) (woContext opts)
            (allowedAccounts cfg (clock s) opts fs)) (allocation_policy cfg (clock s) (woModel opts))")
  case (Selected account rate finish projected receipts)
  with assms obtain j s1 where
      id: "(case woReservationId opts of Some i \<Rightarrow> returnM i | None \<Rightarrow> randomUUID) s = Inr (j, s1)"
      and res: "reserveAccountAdmission (reservationInput cfg (allocationScope harness) opts (clock s) account j (rendered receipt)) s1 = Inr (r, s')"
    by (auto simp: admitNewWork_def Let_def bindM_Inr thenM_def)
  have "s1 = s \<or> s1 = s\<lparr>uuidPos := uuidPos s + 1\<rparr>"
    using id by (cases "woReservationId opts") (auto dest: uuid_hold)
  from that [OF Selected this res] show ?thesis .
next
  case (Waits reason retryAt receipts)
  then show ?thesis using assms by (simp add: admitNewWork_def Let_def)
qed

lemma reserve_one_hold:
  assumes "reserveAccountAdmission i s = Inr (r, s')" and "aiUnits i = 1"
  shows "one_hold_more s s' (aiAccount i)" and "amAccount r = aiAccount i"
  using assms(1)
  by (cases rule: reserve_cases; use assms(2) in \<open>auto simp: one_hold_more_def newAdmission_def same_reservation_def\<close>)+

lemma admit_step:
  assumes "admitNewWork collate rendered cfg harness fs opts s = Inr (Admitted r receipt, s')"
    and pool: "allowedAccounts cfg (clock s) opts fs = pool"
  shows "one_hold_more s s' (amAccount r)"
    and "\<exists>c. best_admissible collate (admissionCandidates cfg s (allocationScope harness) (woModel opts) (woContext opts) pool)
              (allocation_policy cfg (clock s) (woModel opts)) c \<and> cdAccountId c = amAccount r"
proof -
  from admit_parts [OF assms(1)] pool obtain account rate finish projected receipts j s1
    where sel: "selectAccountAdmission collate (admissionCandidates cfg s (allocationScope harness) (woModel opts) (woContext opts) pool)
        (allocation_policy cfg (clock s) (woModel opts)) = Selected account rate finish projected receipts"
      and s1: "s1 = s \<or> s1 = s\<lparr>uuidPos := uuidPos s + 1\<rparr>"
      and res: "reserveAccountAdmission (reservationInput cfg (allocationScope harness) opts (clock s) account j (rendered receipt)) s1 = Inr (r, s')"
    by metis
  have "aiUnits (reservationInput cfg (allocationScope harness) opts (clock s) account j (rendered receipt)) = 1"
    "aiAccount (reservationInput cfg (allocationScope harness) opts (clock s) account j (rendered receipt)) = account"
    by (simp_all add: reservationInput_def)
  note hold = reserve_one_hold [OF res this(1), unfolded this(2)]
  from s1 hold show "one_hold_more s s' (amAccount r)" by (auto simp: one_hold_more_def)
  show "\<exists>c. best_admissible collate (admissionCandidates cfg s (allocationScope harness) (woModel opts) (woContext opts) pool)
              (allocation_policy cfg (clock s) (woModel opts)) c \<and> cdAccountId c = amAccount r"
    using selected_best [OF sel] hold(2) by metis
qed

section \<open>A burst of starts\<close>

text \<open>
  A burst: admissions of starts of one model at one time, from one pool of accounts with the same facts. The list
  is of the accounts that the starts were given.
\<close>

inductive burst ::
  "(string \<Rightarrow> nat list) \<Rightarrow> (allocation_receipt \<Rightarrow> string) \<Rightarrow> allocation_config \<Rightarrow> string \<Rightarrow> account_facts list \<Rightarrow> string option
   \<Rightarrow> allocation_context option \<Rightarrow> account_facts list \<Rightarrow> core \<Rightarrow> string list \<Rightarrow> core \<Rightarrow> bool"
  for collate rendered cfg harness fs model given pool s where
  none: "burst collate rendered cfg harness fs model given pool s [] s"
| admit: "\<lbrakk>burst collate rendered cfg harness fs model given pool s picks s';
    woModel opts = model; woContext opts = given; allowedAccounts cfg (clock s') opts fs = pool;
    admitNewWork collate rendered cfg harness fs opts s' = Inr (Admitted r receipt, s'')\<rbrakk>
    \<Longrightarrow> burst collate rendered cfg harness fs model given pool s (picks @ [amAccount r]) s''"

definition service :: "admission_candidate \<Rightarrow> rat" where
  "service c = max 0 (ayOngoingUnits (cdActivity c)) + max 0 (cdReservations c)"

text \<open>A window with the starts that the account holds, and no further one.\<close>

definition heldPercent :: "admission_policy \<Rightarrow> admission_candidate \<Rightarrow> admission_window \<Rightarrow> rat" where
  "heldPercent p c w = projectedWindowPercent (p\<lparr>plRequestUnits := Some 0\<rparr>) c w"

lemma policy_simps [simp]:
  "plModel (allocation_policy cfg now model) = model"
  "plNow (allocation_policy cfg now model) = of_int now"
  "plCompletionReservePercent (allocation_policy cfg now model) = 90"
  "plProjectionHorizonHours (allocation_policy cfg now model) = 1"
  "requestUnits (allocation_policy cfg now model) = 1"
  by (simp_all add: allocation_policy_def DEFAULT_ACCOUNT_ADMISSION_POLICY_def requestUnits_def)

lemma fairFinish_service: "fairFinish (allocation_policy cfg now model) c = (service c + 1) / allowanceRate (allocation_policy cfg now model) c"
  by (simp add: fairFinish_def service_def)

lemma held_le_projected:
  assumes "\<not> quotaUncertain p c" and "w \<in> set (applicableWindows c (plModel p))" and "0 \<le> plProjectionHorizonHours p"
    and "requestUnits p = 1" and "h \<le> cdReservations c + 1"
  shows "heldPercent p (c\<lparr>cdReservations := h\<rparr>) w \<le> projectedWindowPercent p c w"
proof -
  have "0 \<le> amount_val (awAdmissionCostPercent w) * min (plProjectionHorizonHours p) (hoursLeft p w)"
    using usable_windows [OF assms(1,2)] assms(3) by simp
  from mult_left_mono [OF _ this, of "h + ayPending (cdActivity c)" "cdReservations c + ayPending (cdActivity c) + 1"] assms(4,5)
  show ?thesis by (simp add: heldPercent_def projectedWindowPercent_def Let_def requestUnits_def hoursLeft_def)
qed

text \<open>
  \<open>fair_to\<close>: the starts and sessions that \<open>c\<close> has, at its rate, end before one start more of \<open>d\<close> would.
\<close>

definition fair_to :: "admission_policy \<Rightarrow> admission_candidate \<Rightarrow> admission_candidate \<Rightarrow> bool" where
  "fair_to p c d \<longleftrightarrow> service c / allowanceRate p c \<le> (service d + 1) / allowanceRate p d"

definition within_reserve :: "admission_policy \<Rightarrow> admission_candidate \<Rightarrow> bool" where
  "within_reserve p c \<longleftrightarrow>
     cdEligibility c = Eligible \<and> \<not> quotaUncertain p c
     \<and> list_all (\<lambda>w. heldPercent p c w < plCompletionReservePercent p) (applicableWindows c (plModel p))"

lemma service_mono: "h \<le> h' \<Longrightarrow> service (c\<lparr>cdReservations := h\<rparr>) \<le> service (c\<lparr>cdReservations := h'\<rparr>)"
  by (simp add: service_def)

lemma service_Suc: "h \<le> cdReservations c + 1 \<Longrightarrow> service (c\<lparr>cdReservations := h\<rparr>) \<le> service c + 1"
  by (simp add: service_def)

lemma eligibility_reservations [simp]: "cdEligibility (c\<lparr>cdReservations := h\<rparr>) = cdEligibility c"
  by simp

lemma reservations_eta: "c\<lparr>cdReservations := cdReservations c\<rparr> = c"
  by simp

text \<open>What a start does to the account that gets it, and to the others.\<close>

lemma hold_picked:
  assumes best: "best_admissible collate cs (allocation_policy cfg now model) c" and "h \<le> cdReservations c + 1"
  shows "within_reserve (allocation_policy cfg now model) (c\<lparr>cdReservations := h\<rparr>)"
    and "d \<in> set cs \<Longrightarrow> admissible (allocation_policy cfg now model) d \<Longrightarrow> fair_to (allocation_policy cfg now model) (c\<lparr>cdReservations := h\<rparr>) d"
proof -
  let ?p = "allocation_policy cfg now model"
  have adm: "admissible ?p c" using best by (simp add: best_admissible_def)
  then show "within_reserve ?p (c\<lparr>cdReservations := h\<rparr>)"
    using held_le_projected [of ?p c _ h] assms(2)
    by (fastforce simp: within_reserve_def admissible_def under_reserve_def list_all_iff)
  assume d: "d \<in> set cs" "admissible ?p d"
  have "fairFinish ?p c \<le> fairFinish ?p d" using best d by (auto simp: best_admissible_def)
  moreover have "service (c\<lparr>cdReservations := h\<rparr>) / allowanceRate ?p c \<le> fairFinish ?p c"
    using adm service_Suc [OF assms(2)] by (simp add: fairFinish_service divide_right_mono admissible_def)
  ultimately show "fair_to ?p (c\<lparr>cdReservations := h\<rparr>) d" by (simp add: fair_to_def fairFinish_service)
qed

lemma fair_to_more:
  assumes "fair_to p c (d\<lparr>cdReservations := h\<rparr>)" and "h \<le> h'" and "0 < allowanceRate p d"
  shows "fair_to p c (d\<lparr>cdReservations := h'\<rparr>)"
proof -
  have "(service (d\<lparr>cdReservations := h\<rparr>) + 1) / allowanceRate p d \<le> (service (d\<lparr>cdReservations := h'\<rparr>) + 1) / allowanceRate p d"
    using service_mono [OF assms(2), of d] assms(3) by (simp add: divide_right_mono)
  then show ?thesis using assms(1) by (simp add: fair_to_def)
qed

lemma pool_candidate:
  assumes "c \<in> set (admissionCandidates cfg s scope model given pool)" and "cdAccountId c = afId a"
    and "a \<in> set pool" and "distinct (map afId pool)"
  shows "c = candidateOf cfg s scope model given pool a"
  using assms by (auto simp: candidates_map distinct_map dest: inj_onD)

text \<open>The state of an account after a burst: within its reserve, and fair to those that could still take a start.\<close>

definition burst_state ::
  "allocation_config \<Rightarrow> string \<Rightarrow> string option \<Rightarrow> allocation_context option \<Rightarrow> account_facts list \<Rightarrow> core \<Rightarrow> account_facts \<Rightarrow> bool" where
  "burst_state cfg scope model given pool s a \<longleftrightarrow>
     (let p = allocation_policy cfg (clock s) model; cand = candidateOf cfg s scope model given pool
      in within_reserve p (cand a)
         \<and> (\<forall>b \<in> set pool. admissible p (cand b) \<longrightarrow> fair_to p (cand a) (cand b)))"

lemma burst_state_step:
  assumes hold: "one_hold_more s s' account" and best: "best_admissible collate (admissionCandidates cfg s scope model given pool)
      (allocation_policy cfg (clock s) model) c" and c: "cdAccountId c = account"
    and dist: "distinct (map afId pool)" and a: "a \<in> set pool"
    and before: "afId a \<noteq> account \<Longrightarrow> burst_state cfg scope model given pool s a"
  shows "burst_state cfg scope model given pool s' a"
proof -
  let ?p = "allocation_policy cfg (clock s) model"
  let ?c = "candidateOf cfg s scope model given pool" and ?c' = "candidateOf cfg s' scope model given pool"
  have clk: "clock s' = clock s" using hold by (simp add: one_hold_more_def)
  from candidate_step [OF hold] obtain h where h: "?c' a = (?c a)\<lparr>cdReservations := h\<rparr>" "cdReservations (?c a) \<le> h"
    "h \<le> cdReservations (?c a) + (if afId a = account then 1 else 0)" by metis
  have now: "within_reserve ?p (?c' a) \<and> (\<forall>b \<in> set pool. admissible ?p (?c b) \<longrightarrow> fair_to ?p (?c' a) (?c b))"
  proof (cases "afId a = account")
    case True
    then have "c = ?c a" using pool_candidate [OF _ _ a dist] best c by (auto simp: best_admissible_def)
    then show ?thesis
      using hold_picked [OF best, of h] h True by (auto simp: candidates_map)
  next
    case False
    then have "?c' a = ?c a" using h by simp
    then show ?thesis using before [OF False] by (simp add: burst_state_def Let_def)
  qed
  have "fair_to ?p (?c' a) (?c' b)" if b: "b \<in> set pool" and adm: "admissible ?p (?c' b)" for b
  proof -
    from candidate_step [OF hold] obtain k where k: "?c' b = (?c b)\<lparr>cdReservations := k\<rparr>" "cdReservations (?c b) \<le> k" by metis
    have ok: "admissible ?p (?c b)" using admissible_less [where p = ?p and c = "?c b" and y = k and x = "cdReservations (?c b)"] adm k by simp
    then have "fair_to ?p (?c' a) ((?c b)\<lparr>cdReservations := cdReservations (?c b)\<rparr>)" using now b by simp
    from fair_to_more [OF this k(2)] ok show ?thesis by (simp add: k(1) admissible_def)
  qed
  then show ?thesis using now by (simp add: burst_state_def clk)
qed

text \<open>An admission that is no replay counts at once: its account holds one unit more, whatever else is observed.\<close>

lemma start_counted:
  assumes "admitNewWork collate rendered cfg harness fs opts s = Inr (Admitted r receipt, s')" and "r \<notin> set (admissions s)"
    and "amId r \<notin> set observed"
  shows "heldUnits s' (clock s) (allocationScope harness) (amAccount r) observed
           = heldUnits s (clock s) (allocationScope harness) (amAccount r) observed + 1"
proof -
  from admit_parts [OF assms(1)] obtain account j s1 where s1: "s1 = s \<or> s1 = s\<lparr>uuidPos := uuidPos s + 1\<rparr>"
      and res: "reserveAccountAdmission (reservationInput cfg (allocationScope harness) opts (clock s) account j (rendered receipt)) s1 = Inr (r, s')"
    by metis
  let ?i = "reservationInput cfg (allocationScope harness) opts (clock s) account j (rendered receipt)"
  have adms: "admissions s1 = admissions s" and clk: "clock s1 = clock s" using s1 by auto
  have "s' = s1\<lparr>admissions := admissions s1 @ [r], auditLog := auditLog s1 @ [EvAdmission (AvReserved r)]\<rparr>
      \<and> r = newAdmission ?i (clock s1) \<and> admission_row_ok r"
    using res
  proof (cases rule: reserve_cases)
    case again
    then have "r \<in> set (admissions s)" using adms find_row_Some by (metis getAccountAdmissionByRequestKey_def)
    with assms(2) show ?thesis by blast
  qed simp
  then have s': "s' = s1\<lparr>admissions := admissions s1 @ [r], auditLog := auditLog s1 @ [EvAdmission (AvReserved r)]\<rparr>"
    and r: "r = newAdmission ?i (clock s)" and ok: "admission_row_ok r" unfolding clk by blast+
  have same: "countedAdmission s' = countedAdmission s" "admissions s' = admissions s @ [r]"
    using s' s1 by (auto simp: fun_eq_iff countedAdmission_def)
  have fields: "amAccount r = account" "amScope r = allocationScope harness" "amUnits r = 1" "amBeeId r = None" "amReleasedAt r = None"
    "amCreatedAt r = clock s"
    by (simp_all add: r newAdmission_def reservationInput_def)
  have "countedAdmission s (clock s) (Some (allocationScope harness)) (Some (amAccount r)) r"
    using ok by (simp add: countedAdmission_def admission_row_ok_def fields)
  then show ?thesis using assms(3) by (simp add: heldUnits_eq same fields(3))
qed

lemma burst_clock: "burst collate rendered cfg harness fs model given pool s picks s' \<Longrightarrow> clock s' = clock s"
  by (induction rule: burst.induct) (auto dest!: admit_step(1) [OF _ refl] simp: one_hold_more_def)

text \<open>
  C37. A burst of starts of one model from one pool of accounts: every account that was given a start is eligible,
  its quota is fresh, and with all the starts it holds each of its windows is projected below the reserve. And the
  starts are shared by the rates: what such an account has, sessions and starts, takes at its rate no longer than
  what any account that could still take a start would have with one start more.
\<close>

theorem burst_fair:
  assumes "burst collate rendered cfg harness fs model given pool s picks s'" and "distinct (map afId pool)"
    and "a \<in> set pool" and "afId a \<in> set picks"
  shows "let p = allocation_policy cfg (clock s) model; cand = candidateOf cfg s' (allocationScope harness) model given pool
         in cdEligibility (cand a) = Eligible \<and> \<not> quotaUncertain p (cand a)
            \<and> list_all (\<lambda>w. heldPercent p (cand a) w < plCompletionReservePercent p) (applicableWindows (cand a) model)
            \<and> list_all (\<lambda>b. admissible p (cand b) \<longrightarrow>
                 service (cand a) / allowanceRate p (cand a) \<le> (service (cand b) + 1) / allowanceRate p (cand b)) pool"
proof -
  have "burst_state cfg (allocationScope harness) model given pool s' a"
    using assms(1,4)
  proof (induction rule: burst.induct)
    case none
    then show ?case by simp
  next
    case (admit picks s' opts r receipt s'')
    note step = admit_step [OF admit.hyps(5,4), unfolded admit.hyps(2,3)]
    from step(2) obtain c where c: "best_admissible collate (admissionCandidates cfg s' (allocationScope harness) model given pool)
        (allocation_policy cfg (clock s') model) c" "cdAccountId c = amAccount r" by blast
    show ?case
      by (rule burst_state_step [OF step(1) c assms(2,3)]) (use admit in auto)
  qed
  then show ?thesis
    using burst_clock [OF assms(1)] by (simp add: burst_state_def within_reserve_def fair_to_def Let_def list_all_iff)
qed

end
