(* ===== verification/Allocation_Samples.thy ===== *)
theory Allocation_Samples
  imports Allocation_Runs Samples
begin

definition sampleLimits :: "rat \<Rightarrow> rat \<Rightarrow> limits_row" where
  "sampleLimits five week =
     \<lparr>lrFetchedAt = 900, lrReadable = True, lrPlan = Some ''max'', lrFiveHourPct = Some five, lrFiveHourResetsAt = Some 7201000,
      lrWeeklyPct = Some week, lrWeeklyResetsAt = Some 86401000, lrFableWeeklyPct = None, lrFableResetsAt = None\<rparr>"

definition sampleFacts :: "string \<Rightarrow> limits_row \<Rightarrow> account_facts" where
  "sampleFacts i r =
     \<lparr>afId = i, afLeaseUnknown = False, afPaused = False, afCeilingBreach = False, afUsable = True, afVerified = True,
      afReady = True, afExhaustedAt = None, afRecoveryBoundary = 0, afLimits = Some r, afVelocity = (\<lambda>_. None)\<rparr>"

definition samplePool :: "account_facts list" where
  "samplePool = [sampleFacts ''acc1'' (sampleLimits 20 30), sampleFacts ''acc2'' (sampleLimits 10 60)]"

definition sampleConfig :: allocation_config where
  "sampleConfig =
     \<lparr>cfQuotaFreshMs = 120000, cfActivityFreshMs = 60000, cfRecentGraceMs = 300000, cfReservationTtlMs = 600000,
      cfExhaustionCoolOffMs = 900000, cfPlanCapacityUnits = (\<lambda>t. if t = ''max'' then Some (Finite 3) else None),
      cfOwner = Some (''node1'', ''e1'')\<rparr>"

definition sampleContext :: allocation_context where
  "sampleContext =
     \<lparr>cxVersion = 1, cxAuthority = Some (''node1'', ''e1''), cxScope = ''claude:provider-accounts'', cxRevision = ''r1'',
      cxObservedAt = Finite 950, cxComplete = True,
      cxAccounts = [\<lparr>rmAccount = ''acc2'', rmActive = Finite 0, rmRecent = Finite 0, rmPending = Finite 0, rmOngoingUnits = Finite 0,
                     rmObservedClaimIds = None\<rparr>]\<rparr>"

definition sampleWork :: "string \<Rightarrow> work_options" where
  "sampleWork key =
     \<lparr>woOperation = AoSpawn, woRequestKey = key, woModel = Some ''opus'', woContext = Some sampleContext, woExcludeAccountIds = [],
      woOnlyAccountIds = None, woSourceAccount = None, woAllowSourceAccount = False, woSourceQuotaRecovery = None,
      woReservationId = Some (''claim-'' @ key), woReconcileAfterGeneration = 0\<rparr>"

definition allocationCore :: core where
  "allocationCore = (sampleCore [])\<lparr>accountStatuses := [(''acc1'', AcOk), (''acc2'', AcOk)]\<rparr>"

definition sampleCollate :: "string \<Rightarrow> nat list" where "sampleCollate = map of_char"


definition admitSample :: "string \<Rightarrow> admission_outcome store_op" where
  "admitSample key = admitNewWork sampleCollate (\<lambda>_. ''{}'') sampleConfig ''claude'' samplePool (sampleWork key)"


lemma sample_fresh: "contextIsFresh sampleConfig (Some sampleContext) (allocationScope ''claude'') 1000"
  by (simp add: contextIsFresh_def sampleConfig_def sampleContext_def allocationScope_def is_safe_count_def finiteNonNegative_def)

lemma sample_pool: "allowedAccounts sampleConfig 1000 (sampleWork k) samplePool = samplePool"
  by (simp add: allowedAccounts_def sampleWork_def samplePool_def)

lemma core_reads [simp]:
  "clock allocationCore = 1000" "bees allocationCore = [sampleBee]" "runtimes allocationCore = [sampleRuntime]"
  "mailbox allocationCore = []" "commands allocationCore = []" "admissions allocationCore = []" "auditLog allocationCore = []"
  "accountStatuses allocationCore = [(''acc1'', AcOk), (''acc2'', AcOk)]"
  by (simp_all add: allocationCore_def sampleCore_def)

lemma sample_reads [simp]:
  "bId sampleBee = ''bee1''" "bAccount sampleBee = Some ''acc1''" "bLastOutputAt sampleBee = None"
  "rBeeId sampleRuntime = ''bee1''" "rUpdatedAt sampleRuntime = 500" "rState sampleRuntime = RIdle"
  by (simp_all add: sampleBee_def sampleRuntime_def)

lemma activity_reads [simp]:
  "boundReservations allocationCore 1000 = []" "reservationsOf allocationCore 1000 b = []"
  "currentRuntime allocationCore ''bee1'' = Some sampleRuntime" "getBee allocationCore ''bee1'' = Some sampleBee"
  "\<not> pendingWork allocationCore b" "runtimeAccount allocationCore 1000 sampleBee = Some ''acc1''"
  "activeBeeIds allocationCore 1000 [''acc1'', ''acc2''] = [''bee1'']"
  by (simp_all add: boundReservations_def listAccountAdmissions_def reservationsOf_def currentRuntime_def getBee_def
      pendingWork_def undeliveredMessages_def runtimeAccount_def activeBeeIds_def beesOnAccount_def)

lemma sample_activity:
  "localActivity sampleConfig allocationCore 1000 [''acc1'', ''acc2''] ''acc1''
     = \<lparr>laActive = 0, laRecent = 1, laPending = 0, laOngoingUnits = 2995 / 3000, laObservedClaimIds = []\<rparr>"
  "localActivity sampleConfig allocationCore 1000 [''acc1'', ''acc2''] ''acc2'' = no_activity"
  by (simp_all add: localActivity_def beeActivity_def no_activity_def sampleConfig_def)

section \<open>Two accounts and a start\<close>

abbreviation "samplePolicy \<equiv> allocation_policy sampleConfig 1000 (Some ''opus'')"

abbreviation "sampleCandidate s f \<equiv> candidateOf sampleConfig s (allocationScope ''claude'') (Some ''opus'') (Some sampleContext) samplePool f"

definition sampleWindows :: "rat \<Rightarrow> rat \<Rightarrow> admission_window list" where
  "sampleWindows five week =
     [\<lparr>awKind = FiveHour, awUsedPercent = Finite five, awResetsAt = Finite 7201000, awVelocityPerHour = Finite 0, awAdmissionCostPercent = Finite 4\<rparr>,
      \<lparr>awKind = Weekly, awUsedPercent = Finite week, awResetsAt = Finite 86401000, awVelocityPerHour = Finite 0, awAdmissionCostPercent = Finite 1\<rparr>]"

definition sampleAdmissionCandidate :: "string \<Rightarrow> rat \<Rightarrow> rat \<Rightarrow> rat \<Rightarrow> rat \<Rightarrow> rat \<Rightarrow> admission_candidate" where
  "sampleAdmissionCandidate i five week recent ongoing held =
     \<lparr>cdAccountId = i, cdCapacityUnits = Finite 3, cdEligibility = Eligible,
      cdQuota = Some \<lparr>aqFetchedAt = Finite 900, aqWindows = sampleWindows five week\<rparr>,
      cdActivity = \<lparr>ayComplete = True, ayActive = 0, ayRecent = recent, ayPending = 0, ayOngoingUnits = ongoing\<rparr>,
      cdReservations = held\<rparr>"

lemma fable_opus: "\<not> fableModel (Some ''opus'')"
  by (simp add: fableModel_def lower_char_def name_boundary_def)

lemma sample_facts:
  "afId (sampleFacts i r) = i" "afLimits (sampleFacts i r) = Some r" "readable_limits (sampleFacts i (sampleLimits x y)) = Some (sampleLimits x y)"
  "planCapacity sampleConfig (sampleFacts i (sampleLimits x y)) = Finite 3"
  "eligibilityOf sampleConfig 1000 (sampleFacts i r) (Some ''opus'') = Eligible"
  "candidateWindows (sampleFacts i (sampleLimits x y)) 0 (sampleLimits x y) = sampleWindows x y"
  "lrFetchedAt (sampleLimits x y) = 900"
  by (simp_all add: sampleFacts_def readable_limits_def sampleLimits_def planCapacity_def sampleConfig_def lower_char_def
      eligibilityOf_def fable_opus candidateWindows_def addWindow_def sampleWindows_def)

lemma sample_remote:
  "remoteFact (Some sampleContext) True ''acc1'' = None"
  "remoteFact (Some sampleContext) True ''acc2''
     = Some \<lparr>rmAccount = ''acc2'', rmActive = Finite 0, rmRecent = Finite 0, rmPending = Finite 0, rmOngoingUnits = Finite 0,
             rmObservedClaimIds = None\<rparr>"
  by (simp_all add: remoteFact_def sampleContext_def)

lemma sample_ids: "map afId samplePool = [''acc1'', ''acc2'']"
  by (simp add: samplePool_def sample_facts)

lemma sample_candidates:
  "sampleCandidate allocationCore (sampleFacts ''acc1'' (sampleLimits 20 30)) = sampleAdmissionCandidate ''acc1'' 20 30 1 (2995 / 3000) 0"
  "sampleCandidate allocationCore (sampleFacts ''acc2'' (sampleLimits 10 60)) = sampleAdmissionCandidate ''acc2'' 10 60 0 0 0"
  by (simp_all add: candidateOf_def admissionCandidate_def sample_fresh sample_activity sample_ids sample_facts sample_remote
      heldUnits_def listUnreconciledAccountAdmissions_def sampleAdmissionCandidate_def no_activity_def)

text \<open>The numbers of a candidate.\<close>

lemma sample_numbers:
  fixes i :: string and five week recent ongoing held :: rat
  defines "c \<equiv> sampleAdmissionCandidate i five week recent ongoing held"
  assumes "0 \<le> five" and "five + 4 * (held + 1) < 90" and "0 \<le> week" and "week + (held + 1) < 90" and "0 \<le> held"
  shows "admissible samplePolicy c" and "allowanceRate samplePolicy c = 3 * (90 - week) / 2400"
    and "applicableWindows c (Some ''opus'') = sampleWindows five week" and "service c = max 0 ongoing + held"
proof -
  show windows: "applicableWindows c (Some ''opus'') = sampleWindows five week"
    by (simp add: applicableWindows_def c_def sampleAdmissionCandidate_def sampleWindows_def fable_opus)
  show rate: "allowanceRate samplePolicy c = 3 * (90 - week) / 2400"
    using windows assms(4-6)
    by (simp add: allowanceRate_def rateWindows_def sampleWindows_def windowRate_def hoursLeft_def c_def sampleAdmissionCandidate_def
        allocation_policy_def DEFAULT_ACCOUNT_ADMISSION_POLICY_def)
  have "\<not> quotaUncertain samplePolicy c"
    using windows assms(2,4)
    by (simp add: quotaUncertain_def sampleWindows_def usableWindow_def finiteNonNegative_def c_def sampleAdmissionCandidate_def
        allocation_policy_def DEFAULT_ACCOUNT_ADMISSION_POLICY_def sampleConfig_def)
  moreover have "under_reserve samplePolicy c"
    using windows assms(2-6)
    by (simp add: under_reserve_def sampleWindows_def projectedWindowPercent_def hoursLeft_def c_def sampleAdmissionCandidate_def)
  ultimately show "admissible samplePolicy c"
    using rate assms(4-6) by (simp add: admissible_def c_def sampleAdmissionCandidate_def)
  show "service c = max 0 ongoing + held" using assms(6) by (simp add: service_def c_def sampleAdmissionCandidate_def)
qed

lemma sample_selection:
  obtains rate finish projected receipts where
    "selectAccountAdmission sampleCollate (admissionCandidates sampleConfig allocationCore (allocationScope ''claude'') (Some ''opus'')
       (Some sampleContext) samplePool) samplePolicy = Selected ''acc1'' rate finish projected receipts"
proof -
  let ?c1 = "sampleAdmissionCandidate ''acc1'' 20 30 1 (2995 / 3000) 0" and ?c2 = "sampleAdmissionCandidate ''acc2'' 10 60 0 0 0"
  have cs: "admissionCandidates sampleConfig allocationCore (allocationScope ''claude'') (Some ''opus'') (Some sampleContext) samplePool = [?c1, ?c2]"
    using sample_candidates by (simp add: candidates_map samplePool_def)
  have adm: "admissible samplePolicy ?c1" by (rule sample_numbers) simp_all
  have f1: "fairFinish samplePolicy ?c1 = 1199 / 45" "fairFinish samplePolicy ?c2 = 80 / 3"
    by (simp_all add: fairFinish_service sample_numbers)
  show ?thesis
  proof (cases "selectAccountAdmission sampleCollate [?c1, ?c2] samplePolicy")
    case (Selected i rate finish projected receipts)
    from selected_best [OF this] obtain c where best: "best_admissible sampleCollate [?c1, ?c2] samplePolicy c" and i: "cdAccountId c = i" .
    have "c \<noteq> ?c2" using best adm f1 by (auto simp: best_admissible_def)
    then have "i = ''acc1''" using best i by (auto simp: best_admissible_def sampleAdmissionCandidate_def)
    with Selected cs that show ?thesis by simp
  next
    case (Waits reason retryAt receipts)
    from waits_for(1) [OF this] adm show ?thesis by simp
  qed
qed

lemma sample_admitted:
  obtains r receipt s' where "admitNewWork sampleCollate (\<lambda>_. ''{}'') sampleConfig ''claude'' samplePool (sampleWork ''k1'') allocationCore
      = Inr (Admitted r receipt, s')" and "amAccount r = ''acc1''" and "admissions s' = [r]" and "amUnits r = 1" and "amBeeId r = None"
proof -
  from sample_selection obtain rate finish projected receipts where
    sel: "selectAccountAdmission sampleCollate (admissionCandidates sampleConfig allocationCore (allocationScope ''claude'') (Some ''opus'')
       (Some sampleContext) samplePool) samplePolicy = Selected ''acc1'' rate finish projected receipts" .
  have opts: "woModel (sampleWork k) = Some ''opus''" "woContext (sampleWork k) = Some sampleContext" "woReservationId (sampleWork k) = Some (''claim-'' @ k)"
    for k by (simp_all add: sampleWork_def)
  let ?i = "\<lambda>t. reservationInput sampleConfig (allocationScope ''claude'') (sampleWork ''k1'') 1000 ''acc1'' ''claim-k1'' t"
  have "reserveAccountAdmission (?i ''{}'') allocationCore
    = Inr (newAdmission (?i ''{}'') 1000, allocationCore\<lparr>admissions := [newAdmission (?i ''{}'') 1000],
        auditLog := [EvAdmission (AvReserved (newAdmission (?i ''{}'') 1000))]\<rparr>)"
    by (simp add: reserveAccountAdmission_def getAccountAdmissionByRequestKey_def mustGetAccount_def insertAdmission_def getAccountAdmission_def
        audit_def thenM_def bindM_def requireM_def reservationInput_def sampleWork_def sampleConfig_def)
  then show ?thesis
    using that sel
    by (simp add: admitNewWork_def sample_pool opts thenM_def bindM_def requireM_def newAdmission_def reservationInput_def Let_def)
qed

lemma sample_burst:
  obtains s' where "burst sampleCollate (\<lambda>_. ''{}'') sampleConfig ''claude'' samplePool (Some ''opus'') (Some sampleContext) samplePool
      allocationCore [''acc1''] s'"
proof -
  from sample_admitted obtain r receipt s' where
    "admitNewWork sampleCollate (\<lambda>_. ''{}'') sampleConfig ''claude'' samplePool (sampleWork ''k1'') allocationCore = Inr (Admitted r receipt, s')"
    "amAccount r = ''acc1''" .
  from burst.admit [OF burst.none _ _ _ this(1), of "Some ''opus''" "Some sampleContext" samplePool] this(2) that show ?thesis
    by (simp add: sample_pool) (simp add: sampleWork_def)
qed

theorem burst_fair_witness:
  "\<exists>s'. burst sampleCollate (\<lambda>_. ''{}'') sampleConfig ''claude'' samplePool (Some ''opus'') (Some sampleContext) samplePool
          allocationCore [''acc1''] s'
      \<and> list_all (\<lambda>w. heldPercent samplePolicy (sampleCandidate s' (sampleFacts ''acc1'' (sampleLimits 20 30))) w < 90)
          (applicableWindows (sampleCandidate s' (sampleFacts ''acc1'' (sampleLimits 20 30))) (Some ''opus''))"
proof -
  from sample_burst obtain s' where b: "burst sampleCollate (\<lambda>_. ''{}'') sampleConfig ''claude'' samplePool (Some ''opus'') (Some sampleContext)
      samplePool allocationCore [''acc1''] s'" .
  let ?f = "sampleFacts ''acc1'' (sampleLimits 20 30)"
  have "?f \<in> set samplePool" by (simp add: samplePool_def)
  moreover have "distinct (map afId samplePool)" by (simp add: sample_ids)
  ultimately have "list_all (\<lambda>w. heldPercent samplePolicy (sampleCandidate s' ?f) w < 90) (applicableWindows (sampleCandidate s' ?f) (Some ''opus''))"
    using burst_fair [OF b, of ?f] by (simp add: Let_def sample_facts)
  with b show ?thesis by blast
qed

section \<open>A claim taken over\<close>

definition sampleHandedClaim :: admission_input where
  "sampleHandedClaim =
     \<lparr>aiId = ''claim9'', aiRequestKey = '''', aiScope = allocationScope ''claude'', aiAccount = ''acc2'', aiSourceAccount = None,
      aiOperation = AoHandoff, aiUnits = 1, aiExpiresAt = 5000, aiReconcileAfterGeneration = 1, aiReceipt = ''{}''\<rparr>"

definition sampleHold :: admission_row where
  "sampleHold = (newAdmission (sampleHandedClaim\<lparr>aiRequestKey := ''shared-account-claim:claim9''\<rparr>) 1000)\<lparr>amBeeId := Some ''bee1''\<rparr>"

definition claimedCore :: core where
  "claimedCore = allocationCore\<lparr>admissions := [sampleHold],
     auditLog := [EvAdmission (AvReserved (sampleHold\<lparr>amBeeId := None\<rparr>)), EvAdmission (AvBound ''bee1'' ''claim9'')]\<rparr>"

lemma sample_consume: "consumeAccountAdmissionClaim sampleHandedClaim ''bee1'' allocationCore = Inr (sampleHold, claimedCore)"
  by (simp add: consumeAccountAdmissionClaim_def reserveAccountAdmission_def getAccountAdmissionByRequestKey_def mustGetAccount_def
      insertAdmission_def getAccountAdmission_def audit_def thenM_def bindM_def requireM_def sampleHandedClaim_def newAdmission_def
      same_reservation_def bindAccountAdmission_def mustGetBee_def getBee_def updateAdmission_def update_rows_def sampleHold_def claimedCore_def)

lemma sample_consume_again: "consumeAccountAdmissionClaim sampleHandedClaim ''bee1'' claimedCore = Inr (sampleHold, claimedCore)"
  by (simp add: consumeAccountAdmissionClaim_def getAccountAdmission_def thenM_def bindM_def requireM_def sampleHandedClaim_def newAdmission_def
      same_reservation_def bindAccountAdmission_def mustGetBee_def getBee_def sampleHold_def claimedCore_def)


end
