(* ===== verification/Account_Select.thy ===== *)
theory Account_Select
  imports Allocation
begin

text \<open>
  The choice of an account for \<open>auto\<close> (v2/core/src/accountSelect.ts): the pace of a window, its effective load and
  projection, the order of the candidates, the rotation among near-ties, and the local load that the provider
  does not see yet. Numbers are exact rationals; a time is in the number form that the daemon passes. The text of a
  reason is the list of its parts.
\<close>

section \<open>Windows\<close>

record window_usage =
  wuUsedPercent :: rat
  wuResetsAt :: "amount option"
  wuWindowMinutes :: "rat option"
  wuVelocityPerHour :: "amount option"

record account_limits =
  lmOk :: bool
  lmError :: "string option"
  lmFiveHour :: "window_usage option"
  lmWeekly :: "window_usage option"
  lmFableWeekly :: "window_usage option"
  lmPlan :: "string option"
  lmFetchedAt :: "amount option"

record selectable_account =
  saId :: string
  saAddedAt :: int
  saPenalty :: "rat option"

definition HOUR_MS :: rat where "HOUR_MS = 60 * 60 * 1000"
definition AUTO_FIVE_HOUR_SATURATION_PERCENT :: rat where "AUTO_FIVE_HOUR_SATURATION_PERCENT = 80"
definition AUTO_WEEKLY_SATURATION_PERCENT :: rat where "AUTO_WEEKLY_SATURATION_PERCENT = 85"
definition AUTO_FABLE_WEEKLY_SATURATION_PERCENT :: rat where "AUTO_FABLE_WEEKLY_SATURATION_PERCENT = 75"
definition AUTO_PACE_FULL_WEIGHT_HEADROOM_PERCENT :: rat where "AUTO_PACE_FULL_WEIGHT_HEADROOM_PERCENT = 25"
definition AUTO_PACE_CREDIT_CAP_PERCENT :: rat where "AUTO_PACE_CREDIT_CAP_PERCENT = 25"
definition AUTO_PROJECTION_HORIZON_MS :: rat where "AUTO_PROJECTION_HORIZON_MS = HOUR_MS"
definition AUTO_AVERAGE_RATE_MIN_ELAPSED_HOURS :: rat where "AUTO_AVERAGE_RATE_MIN_ELAPSED_HOURS = 1 / 4"
definition AUTO_TIE_EPSILON_PERCENT :: rat where "AUTO_TIE_EPSILON_PERCENT = 3"

fun AUTO_BEE_BURN_PER_HOUR :: "window_kind \<Rightarrow> rat" where
  "AUTO_BEE_BURN_PER_HOUR FiveHour = 20"
| "AUTO_BEE_BURN_PER_HOUR Weekly = 4"
| "AUTO_BEE_BURN_PER_HOUR FableWeekly = 7"

definition resetMsOf :: "window_usage \<Rightarrow> rat option" where
  "resetMsOf w = (case wuResetsAt w of Some (Finite t) \<Rightarrow> Some t | _ \<Rightarrow> None)"

text \<open>A boundary of zero is falsy.\<close>

definition elapsedPercent :: "window_usage \<Rightarrow> rat \<Rightarrow> rat option" where
  "elapsedPercent w now =
     (case (resetMsOf w, wuWindowMinutes w) of
        (Some reset, Some minutes) \<Rightarrow>
          if reset = 0 \<or> minutes = 0 \<or> reset \<le> now then None
          else (let duration = minutes * 60000
                in Some (min 100 (max 0 ((duration - (reset - now)) / duration * 100))))
      | _ \<Rightarrow> None)"

definition remainingHours :: "window_usage \<Rightarrow> rat \<Rightarrow> rat option" where
  "remainingHours w now =
     (case resetMsOf w of Some reset \<Rightarrow> if reset \<le> now then None else Some ((reset - now) / HOUR_MS) | None \<Rightarrow> None)"

definition paceDelta :: "window_usage \<Rightarrow> rat \<Rightarrow> rat option" where
  "paceDelta w now = map_option (\<lambda>elapsed. wuUsedPercent w - elapsed) (elapsedPercent w now)"

definition windowRolledOver :: "window_usage \<Rightarrow> rat \<Rightarrow> bool" where
  "windowRolledOver w now \<longleftrightarrow> (case resetMsOf w of Some reset \<Rightarrow> reset \<noteq> 0 \<and> reset \<le> now | None \<Rightarrow> False)"

definition effectiveWindowLoad :: "window_usage \<Rightarrow> rat \<Rightarrow> rat option \<Rightarrow> rat" where
  "effectiveWindowLoad w now paceCreditCap =
     (if windowRolledOver w now then 0
      else case elapsedPercent w now of
             None \<Rightarrow> wuUsedPercent w
           | Some elapsed \<Rightarrow>
               let used = wuUsedPercent w;
                   credit = (case paceCreditCap of None \<Rightarrow> elapsed | Some c \<Rightarrow> min elapsed c);
                   adjusted = used - credit;
                   headroom = max 0 (100 - used);
                   paceWeight = min 1 (headroom / AUTO_PACE_FULL_WEIGHT_HEADROOM_PERCENT)
               in paceWeight * adjusted + (1 - paceWeight) * used)"

definition measured_velocity :: "window_usage \<Rightarrow> rat option" where
  "measured_velocity w = (case wuVelocityPerHour w of Some a \<Rightarrow> if finiteNonNegative a then Some (amount_val a) else None | None \<Rightarrow> None)"

definition windowVelocityPerHour :: "window_usage \<Rightarrow> window_kind \<Rightarrow> rat \<Rightarrow> rat \<Rightarrow> rat" where
  "windowVelocityPerHour w kind now activeBees =
     (case measured_velocity w of
        Some v \<Rightarrow> v
      | None \<Rightarrow>
          let beeRate = max 0 activeBees * AUTO_BEE_BURN_PER_HOUR kind;
              average = (case (elapsedPercent w now, wuWindowMinutes w) of
                           (Some elapsed, Some minutes) \<Rightarrow>
                             let elapsedHours = elapsed / 100 * (minutes / 60)
                             in if AUTO_AVERAGE_RATE_MIN_ELAPSED_HOURS \<le> elapsedHours then max 0 (wuUsedPercent w) / elapsedHours else 0
                         | _ \<Rightarrow> 0)
          in max beeRate average)"

record window_projection =
  wpUsedNow :: rat
  wpProjected :: rat
  wpVelocityPerHour :: rat
  wpHorizonHours :: rat

definition projectWindow :: "window_usage \<Rightarrow> window_kind \<Rightarrow> rat \<Rightarrow> rat \<Rightarrow> amount option \<Rightarrow> window_projection" where
  "projectWindow w kind now activeBees fetchedAt =
     (let full = AUTO_PROJECTION_HORIZON_MS / HOUR_MS;
          horizon = (case remainingHours w now of None \<Rightarrow> full | Some r \<Rightarrow> min full (max 0 r))
      in if windowRolledOver w now then
           \<lparr>wpUsedNow = 0, wpProjected = AUTO_BEE_BURN_PER_HOUR kind * horizon, wpVelocityPerHour = 0, wpHorizonHours = horizon\<rparr>
         else
           let velocity = windowVelocityPerHour w kind now activeBees;
               ageHours = (case fetchedAt of Some (Finite t) \<Rightarrow> min full (max 0 ((now - t) / HOUR_MS)) | _ \<Rightarrow> 0);
               usedNow = min 100 (max 0 (wuUsedPercent w) + velocity * ageHours)
           in \<lparr>wpUsedNow = usedNow, wpProjected = usedNow + (velocity + AUTO_BEE_BURN_PER_HOUR kind) * horizon,
               wpVelocityPerHour = velocity, wpHorizonHours = horizon\<rparr>)"

record window_snapshot =
  wsUsedPercent :: rat
  wsResetsAt :: "rat option"
  wsFetchedAt :: rat

definition measureWindowVelocity :: "window_snapshot \<Rightarrow> window_snapshot \<Rightarrow> rat \<Rightarrow> rat option" where
  "measureWindowVelocity previous nxt minIntervalMs =
     (case (wsResetsAt previous, wsResetsAt nxt) of
        (Some a, Some b) \<Rightarrow>
          if 5 * 60000 < \<bar>a - b\<bar> then None
          else if \<not> minIntervalMs \<le> wsFetchedAt nxt - wsFetchedAt previous then None
          else if wsUsedPercent nxt - wsUsedPercent previous < 0 then None
          else Some ((wsUsedPercent nxt - wsUsedPercent previous) / ((wsFetchedAt nxt - wsFetchedAt previous) / HOUR_MS))
      | _ \<Rightarrow> None)"

section \<open>The order of the candidates\<close>

record auto_candidate =
  acAccount :: selectable_account
  acLimits :: "account_limits option"
  acCommitment :: "rat option"
  acActiveBees :: "rat option"
  acExhausted :: bool

fun reserveOf :: "window_kind \<Rightarrow> rat" where
  "reserveOf FiveHour = AUTO_FIVE_HOUR_SATURATION_PERCENT"
| "reserveOf Weekly = AUTO_WEEKLY_SATURATION_PERCENT"
| "reserveOf FableWeekly = AUTO_FABLE_WEEKLY_SATURATION_PERCENT"

record scored_window =
  swAged :: window_usage
  swProjection :: window_projection
  swOvershoot :: rat
  swSaturated :: bool

definition scoreWindow :: "window_usage option \<Rightarrow> window_kind \<Rightarrow> rat \<Rightarrow> rat \<Rightarrow> amount option \<Rightarrow> scored_window option" where
  "scoreWindow window kind now activeBees fetchedAt =
     map_option (\<lambda>w.
       let projection = projectWindow w kind now activeBees fetchedAt
       in \<lparr>swAged = w\<lparr>wuUsedPercent := wpUsedNow projection\<rparr>, swProjection = projection,
           swOvershoot = max 0 (wpProjected projection - reserveOf kind), swSaturated = (reserveOf kind \<le> wpUsedNow projection)\<rparr>) window"

record scored_account =
  scAccount :: selectable_account
  scLimits :: "account_limits option"
  scOk :: bool
  scExhausted :: bool
  scWeeklySaturated :: bool
  scFiveHourSaturated :: bool
  scProjectedOverrun :: bool
  scOvershootRank :: rat
  scScore :: rat
  scFiveHourAhead :: rat
  scOvershoot :: rat
  scModelUsed :: rat
  scFiveHourUsed :: rat
  scCommitment :: rat
  scAccountPenalty :: rat
  scFiveHour :: "scored_window option"
  scWeekly :: "scored_window option"
  scFable :: "scored_window option"

definition or_zero :: "rat option \<Rightarrow> rat" where
  "or_zero x = (case x of Some r \<Rightarrow> r | None \<Rightarrow> 0)"

definition overshootOf :: "scored_window option \<Rightarrow> rat" where
  "overshootOf w = or_zero (map_option swOvershoot w)"

definition saturatedOf :: "scored_window option \<Rightarrow> bool" where
  "saturatedOf w = (case w of Some x \<Rightarrow> swSaturated x | None \<Rightarrow> False)"

definition usedNowOf :: "scored_window option \<Rightarrow> rat" where
  "usedNowOf w = or_zero (map_option (wpUsedNow \<circ> swProjection) w)"

definition scoreCandidate :: "rat \<Rightarrow> bool \<Rightarrow> auto_candidate \<Rightarrow> scored_account" where
  "scoreCandidate now fableAware c =
     (let limits = acLimits c;
          ok = (case limits of Some l \<Rightarrow> lmOk l | None \<Rightarrow> False);
          active = or_zero (acActiveBees c);
          fetchedAt = (case limits of Some l \<Rightarrow> lmFetchedAt l | None \<Rightarrow> None);
          scored = (\<lambda>field kind. if ok then scoreWindow (field (the limits)) kind now active fetchedAt else None);
          fiveHour = scored lmFiveHour FiveHour;
          weekly = scored lmWeekly Weekly;
          fable = (if fableAware then scored lmFableWeekly FableWeekly else None);
          load = (\<lambda>w. effectiveWindowLoad (swAged w) now (Some AUTO_PACE_CREDIT_CAP_PERCENT));
          generalWeekly = (case weekly of Some w \<Rightarrow> Some (load w) | None \<Rightarrow> map_option load fiveHour);
          weeklyLoad = (case fable of Some w \<Rightarrow> Some (max (or_zero generalWeekly) (load w)) | None \<Rightarrow> generalWeekly);
          ahead = (case fiveHour of Some w \<Rightarrow> max 0 (effectiveWindowLoad (swAged w) now None) | None \<Rightarrow> 0);
          overshoot = max (overshootOf fiveHour) (max (overshootOf weekly) (overshootOf fable));
          weeklySat = (saturatedOf weekly \<or> saturatedOf fable);
          fiveSat = saturatedOf fiveHour
      in \<lparr>scAccount = acAccount c, scLimits = limits, scOk = ok, scExhausted = acExhausted c,
          scWeeklySaturated = weeklySat, scFiveHourSaturated = fiveSat, scProjectedOverrun = (0 < overshoot),
          scOvershootRank = (if 0 < overshoot \<and> \<not> weeklySat \<and> \<not> fiveSat then overshoot else 0),
          scScore = or_zero weeklyLoad + ahead + overshoot + or_zero (acCommitment c) + or_zero (saPenalty (acAccount c)),
          scFiveHourAhead = ahead, scOvershoot = overshoot, scModelUsed = usedNowOf fable, scFiveHourUsed = usedNowOf fiveHour,
          scCommitment = or_zero (acCommitment c), scAccountPenalty = or_zero (saPenalty (acAccount c)),
          scFiveHour = fiveHour, scWeekly = weekly, scFable = fable\<rparr>)"

text \<open>The comparator of the sort as a key: false before true, and the keys one after the other.\<close>

definition selectionClass :: "scored_account \<Rightarrow> bool \<times> bool \<times> bool \<times> bool \<times> bool" where
  "selectionClass s = (\<not> scOk s, scExhausted s, scWeeklySaturated s, scFiveHourSaturated s, scProjectedOverrun s)"

definition selectionKey ::
  "(string \<Rightarrow> nat list) \<Rightarrow> scored_account \<Rightarrow> (bool \<times> bool \<times> bool \<times> bool \<times> bool) \<times> rat \<times> rat \<times> rat \<times> rat \<times> int \<times> nat list" where
  "selectionKey collate s =
     (selectionClass s, scOvershootRank s, scScore s, scModelUsed s, scFiveHourUsed s, saAddedAt (scAccount s), collate (saId (scAccount s)))"

section \<open>The choice and its reason\<close>

text \<open>Math.round\<close>

definition js_round :: "rat \<Rightarrow> int" where
  "js_round x = \<lfloor>x + 1 / 2\<rfloor>"

datatype reason_part =
    LimitsUnreadable
  | EveryExhausted
  | EveryPastReserve bool
  | EveryCloseToFiveHour
  | EveryProjected int
  | LeastUsage bool
  | BehindPace bool int
  | AheadOfPace bool int
  | OnPace bool
  | FiveHourAhead int
  | InFlight int
  | AutoPenalty rat
  | NearTieRotation nat

definition autoPickWeeklyReason :: "scored_account \<Rightarrow> rat \<Rightarrow> bool \<Rightarrow> reason_part" where
  "autoPickWeeklyReason best now fableAware =
     (let load = (\<lambda>w. effectiveWindowLoad w now (Some AUTO_PACE_CREDIT_CAP_PERCENT));
          fableWindow = (if fableAware then map_option swAged (scFable best) else None);
          generalWindow = map_option swAged (case scWeekly best of Some w \<Rightarrow> Some w | None \<Rightarrow> scFiveHour best);
          window = (case (fableWindow, generalWindow) of
                      (Some f, Some g) \<Rightarrow> if load g \<le> load f then Some f else Some g
                    | (Some f, None) \<Rightarrow> Some f
                    | (None, g) \<Rightarrow> g);
          label = (fableWindow \<noteq> None);
          pace = (case window of Some w \<Rightarrow> if windowRolledOver w now then None else paceDelta w now | None \<Rightarrow> None)
      in case pace of
           None \<Rightarrow> LeastUsage label
         | Some d \<Rightarrow> if d \<le> -3 then BehindPace label (js_round \<bar>d\<bar>) else if 3 \<le> d then AheadOfPace label (js_round \<bar>d\<bar>) else OnPace label)"

definition selectionReason :: "scored_account \<Rightarrow> rat \<Rightarrow> bool \<Rightarrow> reason_part list" where
  "selectionReason best now fableAware =
     [if \<not> scOk best then LimitsUnreadable
      else if scExhausted best then EveryExhausted
      else if scWeeklySaturated best then EveryPastReserve fableAware
      else if scFiveHourSaturated best then EveryCloseToFiveHour
      else if scProjectedOverrun best then EveryProjected (js_round (scOvershoot best))
      else autoPickWeeklyReason best now fableAware]
     @ (if scOk best \<and> \<not> scProjectedOverrun best \<and> 0 < scFiveHourAhead best then [FiveHourAhead (js_round (scFiveHourAhead best))] else [])
     @ (if 0 < scCommitment best then [InFlight (js_round (scCommitment best))] else [])
     @ (if 0 < scAccountPenalty best then [AutoPenalty (scAccountPenalty best)] else [])"

record auto_choice =
  chAccount :: selectable_account
  chLimits :: "account_limits option"
  chReason :: "reason_part list"
  chNearTieIds :: "string list"

definition nearTie :: "scored_account \<Rightarrow> scored_account \<Rightarrow> bool" where
  "nearTie best s \<longleftrightarrow> selectionClass s = selectionClass best \<and> scScore s - scScore best \<le> AUTO_TIE_EPSILON_PERCENT"

definition selectLeastLoadedAccount ::
  "(string \<Rightarrow> nat list) \<Rightarrow> auto_candidate list \<Rightarrow> rat \<Rightarrow> string option \<Rightarrow> auto_choice option" where
  "selectLeastLoadedAccount collate candidates now model =
     (let fableAware = fableModel model;
          scored = sort_key (selectionKey collate) (map (scoreCandidate now fableAware) candidates)
      in case scored of
           [] \<Rightarrow> None
         | best # _ \<Rightarrow>
             Some \<lparr>chAccount = scAccount best, chLimits = (if scOk best then scLimits best else None),
                   chReason = selectionReason best now fableAware,
                   chNearTieIds = map (saId \<circ> scAccount) (filter (nearTie best) scored)\<rparr>)"

section \<open>Rotation among near-ties\<close>

text \<open>\<open>new Map(candidates.map(...))\<close>: of two candidates with one id the last one counts.\<close>

definition candidateById :: "auto_candidate list \<Rightarrow> string \<Rightarrow> auto_candidate option" where
  "candidateById candidates i = find_row (saId \<circ> acAccount) (rev candidates) i"

fun indexOf :: "string list \<Rightarrow> string \<Rightarrow> nat option" where
  "indexOf [] x = None"
| "indexOf (y # ys) x = (if y = x then Some 0 else map_option Suc (indexOf ys x))"

definition rotateNearTie ::
  "auto_choice \<Rightarrow> auto_candidate list \<Rightarrow> string option \<Rightarrow> auto_choice \<times> string option" where
  "rotateNearTie choice candidates lastAccountId =
     (let tie = filter (\<lambda>i. candidateById candidates i \<noteq> None) (chNearTieIds choice)
      in if length tie < 2 then (choice, None)
         else
           let place = (case lastAccountId of
                          Some (c # cs) \<Rightarrow> (case indexOf tie (c # cs) of Some k \<Rightarrow> Suc k | None \<Rightarrow> 0)
                        | _ \<Rightarrow> 0);
               nextId = tie ! (place mod length tie);
               nxt = the (candidateById candidates nextId)
           in if nextId = saId (chAccount choice) then (choice, Some nextId)
              else (\<lparr>chAccount = acAccount nxt,
                     chLimits = (case acLimits nxt of Some l \<Rightarrow> if lmOk l then Some l else None | None \<Rightarrow> None),
                     chReason = NearTieRotation (length tie) # chReason choice, chNearTieIds = chNearTieIds choice\<rparr>, Some nextId))"

section \<open>Commitments and pending picks\<close>

definition AUTO_COMMITMENT_BUSY_PERCENT :: rat where "AUTO_COMMITMENT_BUSY_PERCENT = 8"
definition AUTO_COMMITMENT_PARKED_PERCENT :: rat where "AUTO_COMMITMENT_PARKED_PERCENT = 2"

datatype commitment_state = CoBooting | CoRunning | CoIdle | CoStopped

definition isBusyRuntimeState :: "commitment_state option \<Rightarrow> bool" where
  "isBusyRuntimeState state \<longleftrightarrow> state = Some CoBooting \<or> state = Some CoRunning"

definition runtimeCommitmentPercent :: "commitment_state option \<Rightarrow> rat" where
  "runtimeCommitmentPercent state =
     (if state = Some CoBooting \<or> state = Some CoRunning then AUTO_COMMITMENT_BUSY_PERCENT
      else if state = Some CoIdle then AUTO_COMMITMENT_PARKED_PERCENT else 0)"

text \<open>\<open>totals.set(key, (totals.get(key) ?? 0) + n)\<close>\<close>

fun add_total :: "string \<Rightarrow> rat \<Rightarrow> (string \<times> rat) list \<Rightarrow> (string \<times> rat) list" where
  "add_total k n [] = [(k, n)]"
| "add_total k n ((k', m) # totals) = (if k' = k then (k, m + n) # totals else (k', m) # add_total k n totals)"

text \<open>A bee's account is absent when it is null or the empty text.\<close>

fun accountCommitments_from :: "(string \<times> rat) list \<Rightarrow> (string option \<times> commitment_state option) list \<Rightarrow> (string \<times> rat) list" where
  "accountCommitments_from totals [] = totals"
| "accountCommitments_from totals ((account, state) # bees) =
     accountCommitments_from
       (case account of
          Some (c # cs) \<Rightarrow> if runtimeCommitmentPercent state \<le> 0 then totals else add_total (c # cs) (runtimeCommitmentPercent state) totals
        | _ \<Rightarrow> totals) bees"

definition accountCommitments :: "(string option \<times> commitment_state option) list \<Rightarrow> (string \<times> rat) list" where
  "accountCommitments bees = accountCommitments_from [] bees"

fun accountActiveBees_from :: "(string \<times> rat) list \<Rightarrow> (string option \<times> commitment_state option) list \<Rightarrow> (string \<times> rat) list" where
  "accountActiveBees_from totals [] = totals"
| "accountActiveBees_from totals ((account, state) # bees) =
     accountActiveBees_from
       (case account of
          Some (c # cs) \<Rightarrow> if \<not> isBusyRuntimeState state then totals else add_total (c # cs) 1 totals
        | _ \<Rightarrow> totals) bees"

definition accountActiveBees :: "(string option \<times> commitment_state option) list \<Rightarrow> (string \<times> rat) list" where
  "accountActiveBees bees = accountActiveBees_from [] bees"

definition AUTO_PICK_DEBIT_PERCENT :: rat where "AUTO_PICK_DEBIT_PERCENT = 10"
definition AUTO_PICK_DEBIT_TTL_MS :: rat where "AUTO_PICK_DEBIT_TTL_MS = 15 * 60 * 1000"

record pending_pick =
  ppAt :: amount
  ppPercent :: rat

definition decayedPickDebit :: "pending_pick \<Rightarrow> rat \<Rightarrow> rat \<Rightarrow> rat" where
  "decayedPickDebit pick now ttlMs =
     (if \<not> 0 < ppPercent pick then 0
      else case ppAt pick of
             NotFinite \<Rightarrow> ppPercent pick
           | Finite t \<Rightarrow>
               let age = now - t
               in if age < 0 then ppPercent pick else if ttlMs \<le> age then 0 else ppPercent pick * (1 - age / ttlMs))"

definition pendingPickDebit :: "pending_pick list \<Rightarrow> rat \<Rightarrow> rat \<Rightarrow> rat" where
  "pendingPickDebit picks now ttlMs = foldl (\<lambda>sum pick. sum + decayedPickDebit pick now ttlMs) 0 picks"

definition prunePendingPicks :: "pending_pick list \<Rightarrow> rat \<Rightarrow> rat \<Rightarrow> pending_pick list" where
  "prunePendingPicks picks now ttlMs = filter (\<lambda>pick. 0 < decayedPickDebit pick now ttlMs) picks"

section \<open>The stored limits\<close>

definition windowOf :: "rat option \<Rightarrow> rat option \<Rightarrow> rat option \<Rightarrow> amount option \<Rightarrow> window_usage option" where
  "windowOf pct resetsAt minutes velocity =
     map_option (\<lambda>p. \<lparr>wuUsedPercent = p, wuResetsAt = map_option Finite resetsAt, wuWindowMinutes = minutes, wuVelocityPerHour = velocity\<rparr>) pct"

record stored_limits =
  slReadable :: bool
  slError :: "string option"
  slPlan :: "string option"
  slFetchedAt :: "amount option"
  slFiveHour :: "rat option \<times> rat option \<times> rat option"
  slWeekly :: "rat option \<times> rat option \<times> rat option"
  slFableWeekly :: "rat option \<times> rat option \<times> rat option"

definition limitsFromRow :: "stored_limits \<Rightarrow> (window_kind \<Rightarrow> amount option) \<Rightarrow> account_limits" where
  "limitsFromRow row velocities =
     (let window = (\<lambda>(pct, resets, minutes) kind. windowOf pct resets minutes (velocities kind))
      in \<lparr>lmOk = slReadable row, lmError = non_empty (slError row), lmFiveHour = window (slFiveHour row) FiveHour,
          lmWeekly = window (slWeekly row) Weekly, lmFableWeekly = window (slFableWeekly row) FableWeekly,
          lmPlan = non_empty (slPlan row), lmFetchedAt = slFetchedAt row\<rparr>)"

section \<open>Loads\<close>

lemma elapsed_bounds: "elapsedPercent w now = Some e \<Longrightarrow> 0 \<le> e \<and> e \<le> 100"
  by (auto simp: elapsedPercent_def Let_def split: option.splits if_splits)

definition paceWeight :: "rat \<Rightarrow> rat" where
  "paceWeight used = min 1 (max 0 (100 - used) / AUTO_PACE_FULL_WEIGHT_HEADROOM_PERCENT)"

lemma paceWeight_bounds: "0 \<le> paceWeight used" "paceWeight used \<le> 1"
  by (simp_all add: paceWeight_def AUTO_PACE_FULL_WEIGHT_HEADROOM_PERCENT_def)

lemma paceWeight_antimono: "used \<le> used' \<Longrightarrow> paceWeight used' \<le> paceWeight used"
  by (auto simp: paceWeight_def AUTO_PACE_FULL_WEIGHT_HEADROOM_PERCENT_def min_def max_def)

text \<open>The load is what is used less the credit for the pace, whose weight fades as the headroom goes.\<close>

lemma load_eq:
  assumes "\<not> windowRolledOver w now" and "elapsedPercent w now = Some e"
  shows "effectiveWindowLoad w now cap = wuUsedPercent w - paceWeight (wuUsedPercent w) * (case cap of None \<Rightarrow> e | Some c \<Rightarrow> min e c)"
  using assms by (simp add: effectiveWindowLoad_def paceWeight_def Let_def algebra_simps)

lemma load_bounds:
  assumes "\<not> windowRolledOver w now" and "0 \<le> c"
  shows "wuUsedPercent w - c \<le> effectiveWindowLoad w now (Some c)" and "effectiveWindowLoad w now (Some c) \<le> wuUsedPercent w"
proof -
  have "wuUsedPercent w - c \<le> effectiveWindowLoad w now (Some c) \<and> effectiveWindowLoad w now (Some c) \<le> wuUsedPercent w"
  proof (cases "elapsedPercent w now")
    case None
    then show ?thesis using assms by (simp add: effectiveWindowLoad_def)
  next
    case (Some e)
    have credit: "0 \<le> min e c" "min e c \<le> c" using elapsed_bounds [OF Some] assms(2) by auto
    have "paceWeight (wuUsedPercent w) * min e c \<le> 1 * c"
      using paceWeight_bounds credit by (intro mult_mono) auto
    moreover have "0 \<le> paceWeight (wuUsedPercent w) * min e c" using paceWeight_bounds credit by simp
    ultimately show ?thesis using load_eq [OF assms(1) Some, of "Some c"] by simp
  qed
  then show "wuUsedPercent w - c \<le> effectiveWindowLoad w now (Some c)" "effectiveWindowLoad w now (Some c) \<le> wuUsedPercent w"
    by simp_all
qed

lemma reset_used [simp]: "resetMsOf (w\<lparr>wuUsedPercent := u\<rparr>) = resetMsOf w"
  by (simp add: resetMsOf_def)

lemma elapsed_used [simp]: "elapsedPercent (w\<lparr>wuUsedPercent := u\<rparr>) now = elapsedPercent w now"
  by (simp add: elapsedPercent_def)

lemma rolled_used [simp]: "windowRolledOver (w\<lparr>wuUsedPercent := u\<rparr>) now = windowRolledOver w now"
  by (simp add: windowRolledOver_def)

text \<open>Using more of a window never makes it look emptier.\<close>

lemma load_mono:
  assumes "u \<le> u'" and "0 \<le> c"
  shows "effectiveWindowLoad (w\<lparr>wuUsedPercent := u\<rparr>) now (Some c) \<le> effectiveWindowLoad (w\<lparr>wuUsedPercent := u'\<rparr>) now (Some c)"
proof (cases "windowRolledOver w now")
  case False
  show ?thesis
  proof (cases "elapsedPercent w now")
    case None
    with False assms show ?thesis by (simp add: effectiveWindowLoad_def)
  next
    case (Some e)
    have "paceWeight u' * min e c \<le> paceWeight u * min e c"
      using paceWeight_antimono [OF assms(1)] elapsed_bounds [OF Some] assms(2) by (intro mult_right_mono) auto
    with False Some assms(1) show ?thesis by (simp add: load_eq)
  qed
qed (simp add: effectiveWindowLoad_def)

section \<open>The choice is the least\<close>

lemma near_self: "nearTie s s"
  by (simp add: nearTie_def AUTO_TIE_EPSILON_PERCENT_def)

lemma choice_least:
  assumes "selectLeastLoadedAccount collate cs now model = Some ch"
  obtains c where "c \<in> set cs" and "chAccount ch = acAccount c"
    and "\<forall>d \<in> set cs. selectionKey collate (scoreCandidate now (fableModel model) c) \<le> selectionKey collate (scoreCandidate now (fableModel model) d)"
    and "chReason ch = selectionReason (scoreCandidate now (fableModel model) c) now (fableModel model)"
    and "chNearTieIds ch \<noteq> []" and "hd (chNearTieIds ch) = saId (acAccount c)"
    and "set (chNearTieIds ch) = (\<lambda>d. saId (acAccount d)) `
           {d \<in> set cs. nearTie (scoreCandidate now (fableModel model) c) (scoreCandidate now (fableModel model) d)}"
    and "length (chNearTieIds ch) \<le> length cs"
proof -
  let ?score = "scoreCandidate now (fableModel model)"
  let ?sorted = "sort_key (selectionKey collate) (map ?score cs)"
  have account: "scAccount (?score c) = acAccount c" for c by (simp add: scoreCandidate_def Let_def)
  from assms obtain best rest where head: "?sorted = best # rest"
    and ch: "ch = \<lparr>chAccount = scAccount best, chLimits = (if scOk best then scLimits best else None),
                   chReason = selectionReason best now (fableModel model),
                   chNearTieIds = map (saId \<circ> scAccount) (filter (nearTie best) ?sorted)\<rparr>"
    by (auto simp: selectLeastLoadedAccount_def Let_def split: list.splits)
  from sort_key_head(1) [OF head] obtain c where c: "c \<in> set cs" "best = ?score c" by auto
  have "selectionKey collate best \<le> selectionKey collate (?score d)" if "d \<in> set cs" for d
    using sort_key_head(2) [OF head] that by simp
  moreover have "set (chNearTieIds ch) = (\<lambda>d. saId (acAccount d)) ` {d \<in> set cs. nearTie best (?score d)}"
  proof -
    have "set (chNearTieIds ch) = (saId \<circ> scAccount) ` {x \<in> ?score ` set cs. nearTie best x}" unfolding ch by simp
    also have "\<dots> = (\<lambda>d. saId (acAccount d)) ` {d \<in> set cs. nearTie best (?score d)}" by (force simp: account)
    finally show ?thesis .
  qed
  moreover have "length (chNearTieIds ch) \<le> length cs"
    unfolding ch using length_filter_le [of "nearTie best" ?sorted] by simp
  moreover have "chNearTieIds ch = saId (scAccount best) # map (saId \<circ> scAccount) (filter (nearTie best) rest)"
    unfolding ch by (simp add: head near_self)
  moreover have "chAccount ch = acAccount c" "chReason ch = selectionReason best now (fableModel model)"
    unfolding ch c(2) by (simp_all add: account)
  ultimately show ?thesis using that [of c] c account by simp
qed

section \<open>A cursor that goes round\<close>

lemma indexOf_nth: "distinct xs \<Longrightarrow> k < length xs \<Longrightarrow> indexOf xs (xs ! k) = Some k"
  by (induction xs arbitrary: k) (auto simp: nth_Cons split: nat.splits)

lemma indexOf_less: "indexOf xs x = Some k \<Longrightarrow> k < length xs"
  by (induction xs arbitrary: k) (auto split: if_splits)

text \<open>Where a cursor stands in a list: after the id it holds, or at the head.\<close>

definition rotationPlace :: "string list \<Rightarrow> string option \<Rightarrow> nat" where
  "rotationPlace tie lastId =
     (case lastId of Some (c # cs) \<Rightarrow> (case indexOf tie (c # cs) of Some k \<Rightarrow> Suc k | None \<Rightarrow> 0) | _ \<Rightarrow> 0)"

lemma rotationPlace_Some: "x \<noteq> [] \<Longrightarrow> indexOf tie x = Some k \<Longrightarrow> rotationPlace tie (Some x) = Suc k"
  by (cases x) (simp_all add: rotationPlace_def)

text \<open>Picks one after the other, each with the cursor that the one before it left.\<close>

fun turns :: "(string option \<Rightarrow> string) \<Rightarrow> nat \<Rightarrow> string option \<Rightarrow> string list" where
  "turns pick 0 lastId = []"
| "turns pick (Suc n) lastId = pick lastId # turns pick n (Some (pick lastId))"

text \<open>
  What the near-ties of \<open>auto\<close> and the round robin promise: a situation \<open>c\<close> has a list of accounts, and a pick
  answers the one where the cursor stands.
\<close>

locale cursor_rotation =
  fixes accounts :: "'c \<Rightarrow> string list" and pickAt :: "'c \<Rightarrow> string option \<Rightarrow> string" and sound :: "'c \<Rightarrow> bool"
  assumes accounts_ne: "sound c \<Longrightarrow> accounts c \<noteq> []"
    and accounts_ids: "sound c \<Longrightarrow> distinct (accounts c) \<and> [] \<notin> set (accounts c)"
    and pick_place: "sound c \<Longrightarrow> pickAt c lastId = accounts c ! (rotationPlace (accounts c) lastId mod length (accounts c))"
begin

lemma turns_cycle:
  assumes c: "sound c"
  shows "turns (pickAt c) n lastId
           = map (\<lambda>k. accounts c ! ((rotationPlace (accounts c) lastId + k) mod length (accounts c))) [0..<n]"
proof (induction n arbitrary: lastId)
  case (Suc n)
  let ?tie = "accounts c"
  let ?k = "rotationPlace ?tie lastId mod length ?tie"
  have "0 < length ?tie" using accounts_ne [OF c] by simp
  then have less: "?k < length ?tie" by (rule mod_less_divisor)
  then have "?tie ! ?k \<noteq> []" using accounts_ids [OF c] nth_mem by metis
  then have place: "rotationPlace ?tie (Some (?tie ! ?k)) = Suc ?k"
    using indexOf_nth [OF _ less] accounts_ids [OF c] by (intro rotationPlace_Some) auto
  have "turns (pickAt c) (Suc n) lastId = ?tie ! ?k # turns (pickAt c) n (Some (?tie ! ?k))"
    by (simp add: pick_place [OF c])
  also have "\<dots> = ?tie ! ?k # map (\<lambda>k. ?tie ! ((Suc ?k + k) mod length ?tie)) [0..<n]" by (simp add: Suc.IH place)
  also have "\<dots> = map (\<lambda>k. ?tie ! ((rotationPlace ?tie lastId + k) mod length ?tie)) (0 # map Suc [0..<n])"
  proof -
    have "(Suc (p mod l) + k) mod l = (p + Suc k) mod l" for p k l :: nat
      by (metis add_Suc add_Suc_right mod_add_left_eq)
    then show ?thesis by simp
  qed
  also have "0 # map Suc [0..<n] = [0..<Suc n]" by (simp add: map_Suc_upt upt_conv_Cons del: upt_Suc)
  finally show ?case .
qed simp

text \<open>One round picks every account once, in the order of the list from where the cursor stands.\<close>

lemma turns_round:
  assumes "sound c"
  shows "turns (pickAt c) (length (accounts c)) lastId = rotate (rotationPlace (accounts c) lastId) (accounts c)"
  unfolding turns_cycle [OF assms] by (rule nth_equalityI) (simp_all add: nth_rotate)

end

section \<open>The rotation of near-ties\<close>

text \<open>The near-ties that are still candidates.\<close>

definition rotating :: "auto_choice \<Rightarrow> auto_candidate list \<Rightarrow> string list" where
  "rotating choice candidates = filter (\<lambda>i. candidateById candidates i \<noteq> None) (chNearTieIds choice)"

lemma candidateById_id: "candidateById candidates i = Some c \<Longrightarrow> saId (acAccount c) = i"
  by (auto simp: candidateById_def dest: find_row_Some)

lemma rotateNearTie_eq:
  "rotateNearTie choice candidates lastId =
     (let tie = rotating choice candidates
      in if length tie < 2 then (choice, None)
         else
           let nextId = tie ! (rotationPlace tie lastId mod length tie); nxt = the (candidateById candidates nextId)
           in if nextId = saId (chAccount choice) then (choice, Some nextId)
              else (\<lparr>chAccount = acAccount nxt,
                     chLimits = (case acLimits nxt of Some l \<Rightarrow> if lmOk l then Some l else None | None \<Rightarrow> None),
                     chReason = NearTieRotation (length tie) # chReason choice, chNearTieIds = chNearTieIds choice\<rparr>, Some nextId))"
  unfolding rotateNearTie_def rotating_def rotationPlace_def Let_def by (rule refl)

lemma rotate_next:
  assumes "2 \<le> length (rotating choice candidates)"
  shows "saId (chAccount (fst (rotateNearTie choice candidates lastId)))
           = rotating choice candidates ! (rotationPlace (rotating choice candidates) lastId mod length (rotating choice candidates))"
    and "snd (rotateNearTie choice candidates lastId)
           = Some (rotating choice candidates ! (rotationPlace (rotating choice candidates) lastId mod length (rotating choice candidates)))"
proof -
  let ?tie = "rotating choice candidates"
  let ?next = "?tie ! (rotationPlace ?tie lastId mod length ?tie)"
  have "0 < length ?tie" using assms by linarith
  then have "?next \<in> set ?tie" by (intro nth_mem mod_less_divisor)
  then obtain c where c: "candidateById candidates ?next = Some c" by (auto simp: rotating_def)
  have eq: "rotateNearTie choice candidates lastId =
      (if ?next = saId (chAccount choice) then (choice, Some ?next)
       else (\<lparr>chAccount = acAccount c, chLimits = (case acLimits c of Some l \<Rightarrow> if lmOk l then Some l else None | None \<Rightarrow> None),
              chReason = NearTieRotation (length ?tie) # chReason choice, chNearTieIds = chNearTieIds choice\<rparr>, Some ?next))"
    using assms c by (simp add: rotateNearTie_eq Let_def)
  show "saId (chAccount (fst (rotateNearTie choice candidates lastId))) = ?next"
    and "snd (rotateNearTie choice candidates lastId) = Some ?next"
    using candidateById_id [OF c] by (simp_all add: eq)
qed

definition tie_sound :: "auto_choice \<times> auto_candidate list \<Rightarrow> bool" where
  "tie_sound c \<longleftrightarrow>
     2 \<le> length (rotating (fst c) (snd c)) \<and> distinct (rotating (fst c) (snd c)) \<and> [] \<notin> set (rotating (fst c) (snd c))"

interpretation near_tie: cursor_rotation
  "\<lambda>c. rotating (fst c) (snd c)" "\<lambda>c lastId. saId (chAccount (fst (rotateNearTie (fst c) (snd c) lastId)))" tie_sound
  by unfold_locales (auto simp: tie_sound_def rotate_next)

section \<open>Debits of pending picks\<close>

lemma decayed_bounds:
  assumes "0 < ttl"
  shows "0 \<le> decayedPickDebit pick now ttl \<and> decayedPickDebit pick now ttl \<le> max 0 (ppPercent pick)"
proof -
  have "0 \<le> x * (1 - age / ttl) \<and> x * (1 - age / ttl) \<le> x" if "0 < x" "0 \<le> age" "age < ttl" for x age :: rat
  proof -
    have share: "0 \<le> age / ttl" "age / ttl \<le> 1" using that assms by simp_all
    then have "x * (1 - age / ttl) \<le> x * 1" "0 \<le> x * (1 - age / ttl)"
      using that by (intro mult_left_mono mult_nonneg_nonneg; simp)+
    then show ?thesis by simp
  qed
  then show ?thesis
    by (cases "ppAt pick") (auto simp: decayedPickDebit_def Let_def not_less not_le)
qed

lemma decayed_antimono:
  assumes "0 < ttl" and "now \<le> later"
  shows "decayedPickDebit pick later ttl \<le> decayedPickDebit pick now ttl"
proof (cases "ppAt pick")
  case (Finite t)
  consider "later - t < 0" | "now - t < 0" "0 \<le> later - t" "later - t < ttl" | "0 \<le> now - t" "later - t < ttl" | "ttl \<le> later - t"
    by linarith
  then show ?thesis
  proof cases
    case 2
    then show ?thesis using assms Finite by (simp add: decayedPickDebit_def Let_def field_simps)
  next
    case 3
    then have "ppPercent pick * (1 - (later - t) / ttl) \<le> ppPercent pick * (1 - (now - t) / ttl)" if "0 < ppPercent pick"
      using that assms by (intro mult_left_mono) (simp_all add: divide_right_mono)
    with 3 assms Finite show ?thesis by (simp add: decayedPickDebit_def Let_def)
  next
    case 4
    then show ?thesis using assms Finite decayed_bounds [OF assms(1), of pick now] by (simp add: decayedPickDebit_def Let_def)
  qed (use assms Finite in \<open>simp add: decayedPickDebit_def Let_def\<close>)
qed (simp add: decayedPickDebit_def)

lemma foldl_debit: "foldl (\<lambda>sum pick. sum + f pick) a xs = a + sum_list (map f xs)" for f :: "'a \<Rightarrow> rat"
  by (induction xs arbitrary: a) (simp_all add: add.assoc)

text \<open>Dropping the picks that carry no debit changes no sum, now or later.\<close>

lemma prune_debit:
  assumes "0 < ttl" and "now \<le> later"
  shows "pendingPickDebit (prunePendingPicks picks now ttl) later ttl = pendingPickDebit picks later ttl"
proof -
  have "decayedPickDebit p later ttl = 0" if "\<not> 0 < decayedPickDebit p now ttl" for p
    using that decayed_antimono [OF assms, of p] decayed_bounds [OF assms(1), of p later] by simp
  then show ?thesis
    by (simp add: pendingPickDebit_def prunePendingPicks_def foldl_debit) (induction picks; simp)
qed

section \<open>Commitments\<close>

definition totals_of :: "(string \<times> rat) list \<Rightarrow> string \<Rightarrow> rat" where
  "totals_of totals k = or_zero (map_of totals k)"

lemma totals_add: "totals_of (add_total k n totals) k' = totals_of totals k' + (if k' = k then n else 0)"
  by (induction k n totals rule: add_total.induct) (auto simp: totals_of_def or_zero_def)

text \<open>The commitment of an account is the sum over its bees; so is its count of busy bees.\<close>

lemma commitments_from:
  "k \<noteq> [] \<Longrightarrow> totals_of (accountCommitments_from totals bees) k
     = totals_of totals k + sum_list (map (\<lambda>(a, st). if a = Some k then runtimeCommitmentPercent st else 0) bees)"
  by (induction totals bees rule: accountCommitments_from.induct)
    (auto simp: totals_add runtimeCommitmentPercent_def AUTO_COMMITMENT_BUSY_PERCENT_def AUTO_COMMITMENT_PARKED_PERCENT_def
      split: option.splits list.splits)

lemma accountCommitments_sum:
  "k \<noteq> [] \<Longrightarrow> totals_of (accountCommitments bees) k
     = sum_list (map (\<lambda>(a, st). if a = Some k then runtimeCommitmentPercent st else 0) bees)"
  by (simp add: accountCommitments_def commitments_from) (simp add: totals_of_def or_zero_def)

lemma activeBees_from:
  "k \<noteq> [] \<Longrightarrow> totals_of (accountActiveBees_from totals bees) k
     = totals_of totals k + of_nat (length (filter (\<lambda>(a, st). a = Some k \<and> isBusyRuntimeState st) bees))"
  by (induction totals bees rule: accountActiveBees_from.induct)
    (auto simp: totals_add split: option.splits list.splits)

lemma accountActiveBees_count:
  "k \<noteq> [] \<Longrightarrow> totals_of (accountActiveBees bees) k
     = of_nat (length (filter (\<lambda>(a, st). a = Some k \<and> isBusyRuntimeState st) bees))"
  by (simp add: accountActiveBees_def activeBees_from) (simp add: totals_of_def or_zero_def)

section \<open>Properties\<close>


text \<open>
  C40. A burst of automatic picks that tie does not herd. When the near-ties of a choice are at least two, as many
  picks as there are near-ties give every one of them exactly once, in the order of their ranks from where the
  cursor stands.
\<close>

theorem rotateNearTie_fair:
  assumes "tie = filter (\<lambda>i. candidateById candidates i \<noteq> None) (chNearTieIds choice)" and "2 \<le> length tie"
    and "distinct tie" and "[] \<notin> set tie"
  shows "turns (\<lambda>lastId. saId (chAccount (fst (rotateNearTie choice candidates lastId)))) (length tie) lastId
           = rotate (rotationPlace tie lastId) tie
         \<and> (\<forall>i. snd (rotateNearTie choice candidates i) = Some (saId (chAccount (fst (rotateNearTie choice candidates i)))))"
proof -
  have tie: "rotating choice candidates = tie" using assms(1) by (simp add: rotating_def)
  then have "tie_sound (choice, candidates)" using assms(2-4) by (simp add: tie_sound_def)
  from near_tie.turns_round [OF this, of lastId] show ?thesis using assms(2) by (simp add: tie rotate_next)
qed

definition sampleChoice :: auto_choice where
  "sampleChoice = \<lparr>chAccount = \<lparr>saId = ''a'', saAddedAt = 1, saPenalty = None\<rparr>, chLimits = None, chReason = [LeastUsage False],
     chNearTieIds = [''a'', ''b'', ''gone'']\<rparr>"

definition sampleTies :: "auto_candidate list" where
  "sampleTies = map (\<lambda>i. \<lparr>acAccount = \<lparr>saId = i, saAddedAt = 1, saPenalty = None\<rparr>, acLimits = None, acCommitment = None,
     acActiveBees = None, acExhausted = False\<rparr>) [''a'', ''b'']"

theorem rotateNearTie_fair_witness:
  "turns (\<lambda>lastId. saId (chAccount (fst (rotateNearTie sampleChoice sampleTies lastId)))) 2 (Some ''a'') = [''b'', ''a'']"
proof -
  have tie: "filter (\<lambda>i. candidateById sampleTies i \<noteq> None) (chNearTieIds sampleChoice) = [''a'', ''b'']"
    by (simp add: sampleChoice_def sampleTies_def candidateById_def)
  from rotateNearTie_fair [OF tie [symmetric], of "Some ''a''"] show ?thesis
    by (simp add: rotationPlace_def numeral_2_eq_2 del: turns.simps)
qed

end
