(* ===== verification/Account_Picks.thy ===== *)
theory Account_Picks
  imports Account_Select Store
begin

text \<open>
  The picks of an account for \<open>auto\<close> and \<open>rr\<close> (\<open>pick\<close> and \<open>pickRoundRobin\<close> of v2/daemon/src/accountsService.ts).
  What the service reads of an account outside the store (credential file, home, pause, ceiling) is a row of facts,
  a parameter; so is the refusal of a harness that cannot be isolated. The state is the pending picks that the
  daemon keeps and the durable cursors of the selection.
\<close>

datatype credential_state = CredAbsent | CredPresent | CredUnusable string

record pick_account =
  pkId :: string
  pkAddedAt :: int
  pkPenalty :: rat
  pkPaused :: bool
  pkCeilingBreach :: bool
  pkCredential :: credential_state
  pkOwnedHomeRefused :: bool
  pkAuthNeeded :: bool
  pkUsable :: bool
  pkExhaustedAt :: "int option"
  pkRestored :: bool
  pkLimits :: "stored_limits option"
  pkVelocity :: "window_kind \<Rightarrow> amount option"

record pick_options =
  poExclude :: "string list"
  poOnly :: "string list option"
  poModel :: "string option"
  poExcludeRecentlyExhausted :: bool

record pick_config =
  pcExhaustionCoolOffMs :: int
  pcLimitsStaleMs :: rat

record pick_state =
  psPending :: "string \<Rightarrow> pending_pick list"
  psCursors :: "string \<Rightarrow> string option"

datatype pick_code = PcNoAccounts | PcAllPaused | PcNoUntried | PcAuthNeeded | PcNoCredentials

text \<open>A pick: the account, the parts of the reason (none for the only candidate), the accounts skipped for their
  health, the age of the limits and whether they are stale, and the number of candidates.\<close>

datatype pick_outcome =
    PickRefused pick_code
  | Picked string "reason_part list option" "string list" "rat option" bool nat

section \<open>The candidates\<close>

definition pickRegistered :: "pick_options \<Rightarrow> pick_account list \<Rightarrow> pick_account list" where
  "pickRegistered opts accounts = filter (\<lambda>a. case poOnly opts of Some ids \<Rightarrow> pkId a \<in> set ids | None \<Rightarrow> True) accounts"

definition pickPool :: "pick_options \<Rightarrow> pick_account list \<Rightarrow> pick_account list" where
  "pickPool opts accounts = filter (\<lambda>a. \<not> pkPaused a \<and> \<not> pkCeilingBreach a) (pickRegistered opts accounts)"

definition pickHealthy :: "pick_account \<Rightarrow> bool" where
  "pickHealthy a \<longleftrightarrow> pkCredential a = CredPresent \<and> \<not> pkOwnedHomeRefused a \<and> \<not> pkAuthNeeded a"

definition pickUnusable :: "pick_options \<Rightarrow> pick_account list \<Rightarrow> pick_account list" where
  "pickUnusable opts accounts = filter (\<lambda>a. pkCredential a \<noteq> CredAbsent \<and> \<not> pickHealthy a) (pickPool opts accounts)"

definition recentlyExhausted :: "pick_config \<Rightarrow> int \<Rightarrow> pick_account \<Rightarrow> bool" where
  "recentlyExhausted cfg now a \<longleftrightarrow> (case pkExhaustedAt a of Some t \<Rightarrow> now - t < pcExhaustionCoolOffMs cfg | None \<Rightarrow> False)"

definition pickEligible :: "pick_config \<Rightarrow> int \<Rightarrow> pick_options \<Rightarrow> pick_account list \<Rightarrow> pick_account list" where
  "pickEligible cfg now opts accounts =
     filter (\<lambda>a. pickHealthy a \<and> pkId a \<notin> set (poExclude opts)
       \<and> \<not> (poExcludeRecentlyExhausted opts \<and> recentlyExhausted cfg now a \<and> \<not> pkRestored a)) (pickPool opts accounts)"

definition commitmentState :: "runtime_state \<Rightarrow> commitment_state" where
  "commitmentState st = (case st of RBooting \<Rightarrow> CoBooting | RRunning \<Rightarrow> CoRunning | RIdle \<Rightarrow> CoIdle | RStopped \<Rightarrow> CoStopped)"

text \<open>The live bees of the harness with their accounts and the states of their runtimes.\<close>

definition pickRuntimes :: "core \<Rightarrow> string \<Rightarrow> (string option \<times> commitment_state option) list" where
  "pickRuntimes s harness =
     map (\<lambda>b. (bAccount b, map_option (commitmentState \<circ> rState) (currentRuntime s (bId b))))
       (filter (\<lambda>b. bAgent b = harness \<and> non_empty (bAccount b) \<noteq> None) (sort_key bId (bees s)))"

definition pickCandidate ::
  "pick_config \<Rightarrow> int \<Rightarrow> (string \<times> rat) list \<Rightarrow> (string \<times> rat) list \<Rightarrow> (string \<Rightarrow> pending_pick list) \<Rightarrow> pick_account \<Rightarrow> auto_candidate" where
  "pickCandidate cfg now commitments activeBees pending a =
     \<lparr>acAccount = \<lparr>saId = pkId a, saAddedAt = pkAddedAt a, saPenalty = Some (pkPenalty a)\<rparr>,
      acLimits = map_option (\<lambda>r. limitsFromRow r (pkVelocity a)) (pkLimits a),
      acCommitment = Some (or_zero (map_of commitments (pkId a)) + pendingPickDebit (pending (pkId a)) (of_int now) AUTO_PICK_DEBIT_TTL_MS),
      acActiveBees = Some (or_zero (map_of activeBees (pkId a)) + of_nat (length (pending (pkId a)))),
      acExhausted = recentlyExhausted cfg now a\<rparr>"

section \<open>The pick of auto\<close>

definition limitsAge :: "rat \<Rightarrow> stored_limits option \<Rightarrow> rat option" where
  "limitsAge now row = (case row of Some r \<Rightarrow> (case slFetchedAt r of Some (Finite t) \<Rightarrow> Some (max 0 (now - t)) | _ \<Rightarrow> None) | None \<Rightarrow> None)"

definition prunePending :: "int \<Rightarrow> pick_account list \<Rightarrow> (string \<Rightarrow> pending_pick list) \<Rightarrow> string \<Rightarrow> pending_pick list" where
  "prunePending now eligible pending i =
     (if i \<in> set (map pkId eligible) then prunePendingPicks (pending i) (of_int now) AUTO_PICK_DEBIT_TTL_MS else pending i)"

definition pickAmong ::
  "(string \<Rightarrow> nat list) \<Rightarrow> pick_config \<Rightarrow> string \<Rightarrow> pick_options \<Rightarrow> core \<Rightarrow> pick_account list \<Rightarrow> pick_account list \<Rightarrow> pick_state
   \<Rightarrow> pick_outcome \<times> pick_state" where
  "pickAmong collate cfg harness opts s unusable eligible st =
     (let now = clock s; runtimes = pickRuntimes s harness;
          pending = prunePending now eligible (psPending st);
          scored = map (pickCandidate cfg now (accountCommitments runtimes) (accountActiveBees runtimes) pending) eligible;
          st1 = st\<lparr>psPending := pending\<rparr>
      in case selectLeastLoadedAccount collate scored (of_int now) (poModel opts) of
           None \<Rightarrow> (PickRefused PcNoCredentials, st1)
         | Some choice \<Rightarrow>
             let (rotated, cursor) = rotateNearTie choice scored (psCursors st harness);
                 winner = saId (chAccount rotated);
                 age = limitsAge (of_int now) (Option.bind (find_row pkId eligible winner) pkLimits);
                 st2 = (case cursor of Some i \<Rightarrow> st1\<lparr>psCursors := (psCursors st1)(harness := Some i)\<rparr> | None \<Rightarrow> st1);
                 st3 = st2\<lparr>psPending := (psPending st2)(winner :=
                         psPending st2 winner @ [\<lparr>ppAt = Finite (of_int now), ppPercent = AUTO_PICK_DEBIT_PERCENT\<rparr>])\<rparr>
             in (Picked winner (Some (chReason rotated)) (map pkId unusable) age
                   (case age of Some t \<Rightarrow> pcLimitsStaleMs cfg < t | None \<Rightarrow> False) (length eligible), st3))"

definition pick ::
  "(string \<Rightarrow> nat list) \<Rightarrow> pick_config \<Rightarrow> string \<Rightarrow> (pick_account list \<Rightarrow> bool) \<Rightarrow> pick_options \<Rightarrow> core \<Rightarrow> pick_account list \<Rightarrow> pick_state
   \<Rightarrow> pick_outcome \<times> pick_state" where
  "pick collate cfg harness unrunnable opts s accounts st =
     (let registered = pickRegistered opts accounts; pool = pickPool opts accounts;
          unusable = pickUnusable opts accounts; eligible = pickEligible cfg (clock s) opts accounts
      in if unrunnable registered \<or> registered = [] then (PickRefused PcNoAccounts, st)
         else if pool = [] then (PickRefused PcAllPaused, st)
         else case eligible of
                [] \<Rightarrow>
                  (PickRefused
                     (if list_ex pickHealthy pool \<and> (poExclude opts \<noteq> [] \<or> poExcludeRecentlyExhausted opts) then PcNoUntried
                      else if unusable \<noteq> [] then PcAuthNeeded else PcNoCredentials), st)
              | [only] \<Rightarrow> (Picked (pkId only) None (map pkId unusable) None False 1, st)
              | _ \<Rightarrow> pickAmong collate cfg harness opts s unusable eligible st)"

section \<open>The pick of rr\<close>

definition roundRobinEligible :: "pick_options \<Rightarrow> pick_account list \<Rightarrow> pick_account list" where
  "roundRobinEligible opts accounts = filter (\<lambda>a. pkCredential a \<noteq> CredAbsent \<and> pkUsable a) (pickPool opts accounts)"

definition pickRoundRobin ::
  "string \<Rightarrow> (pick_account list \<Rightarrow> bool) \<Rightarrow> pick_options \<Rightarrow> pick_account list \<Rightarrow> pick_state \<Rightarrow> pick_outcome \<times> pick_state" where
  "pickRoundRobin harness unrunnable opts accounts st =
     (let registered = pickRegistered opts accounts; pool = pickPool opts accounts;
          candidates = filter (\<lambda>a. pkCredential a \<noteq> CredAbsent) pool;
          eligible = map pkId (roundRobinEligible opts accounts);
          skipped = map pkId (filter (\<lambda>a. \<not> pkUsable a) candidates);
          key = ''rr:'' @ harness
      in if unrunnable registered \<or> registered = [] then (PickRefused PcNoAccounts, st)
         else if pool = [] then (PickRefused PcAllPaused, st)
         else if candidates = [] then (PickRefused PcNoCredentials, st)
         else if eligible = [] then (PickRefused PcAuthNeeded, st)
         else
           let place = (case psCursors st key of
                          Some i \<Rightarrow> (case indexOf eligible i of Some k \<Rightarrow> Suc k | None \<Rightarrow> 0)
                        | None \<Rightarrow> 0);
               winner = eligible ! (place mod length eligible)
           in (Picked winner None skipped None False (length eligible), st\<lparr>psCursors := (psCursors st)(key := Some winner)\<rparr>))"

section \<open>What a pick may answer\<close>

definition pickAllowed :: "pick_config \<Rightarrow> int \<Rightarrow> pick_options \<Rightarrow> pick_account \<Rightarrow> bool" where
  "pickAllowed cfg now opts a \<longleftrightarrow>
     (case poOnly opts of Some ids \<Rightarrow> pkId a \<in> set ids | None \<Rightarrow> True) \<and> \<not> pkPaused a \<and> \<not> pkCeilingBreach a
     \<and> pkCredential a = CredPresent \<and> \<not> pkOwnedHomeRefused a \<and> \<not> pkAuthNeeded a \<and> pkId a \<notin> set (poExclude opts)
     \<and> \<not> (poExcludeRecentlyExhausted opts \<and> recentlyExhausted cfg now a \<and> \<not> pkRestored a)"

lemma eligible_allowed: "set (pickEligible cfg now opts accounts) = {a \<in> set accounts. pickAllowed cfg now opts a}"
  by (auto simp: pickEligible_def pickPool_def pickRegistered_def pickHealthy_def pickAllowed_def)

lemma rotating_candidate: "i \<in> set (rotating ch cs) \<Longrightarrow> i \<in> (\<lambda>c. saId (acAccount c)) ` set cs"
  unfolding rotating_def candidateById_def by (auto dest!: find_row_Some)

lemma rotated_candidate:
  assumes "selectLeastLoadedAccount collate cs now model = Some ch"
  shows "saId (chAccount (fst (rotateNearTie ch cs lastId))) \<in> (\<lambda>c. saId (acAccount c)) ` set cs"
proof (cases "2 \<le> length (rotating ch cs)")
  case True
  then have "0 < length (rotating ch cs)" by linarith
  then show ?thesis
    unfolding rotate_next(1) [OF True] by (intro rotating_candidate [where ch = ch] nth_mem mod_less_divisor)
next
  case False
  obtain c where "c \<in> set cs" "chAccount ch = acAccount c" by (rule choice_least [OF assms])
  with False show ?thesis by (auto simp: rotateNearTie_eq Let_def)
qed

text \<open>An automatic pick answers only an account that is allowed.\<close>

lemma pick_allowed:
  assumes "pick collate cfg harness unrunnable opts s accounts st = (Picked i reason skipped age stale n, st')"
  obtains a where "a \<in> set accounts" and "pkId a = i" and "pickAllowed cfg (clock s) opts a"
proof -
  let ?eligible = "pickEligible cfg (clock s) opts accounts"
  consider (none) "?eligible = []" | (one) a where "?eligible = [a]" | (more) a b rest where "?eligible = a # b # rest"
    by (metis list.exhaust)
  then have "i \<in> pkId ` set ?eligible"
  proof cases
    case none
    with assms show ?thesis by (auto simp: pick_def Let_def split: if_splits)
  next
    case one
    with assms show ?thesis by (auto simp: pick_def Let_def split: if_splits)
  next
    case more
    then have among: "pickAmong collate cfg harness opts s (pickUnusable opts accounts) ?eligible st = (Picked i reason skipped age stale n, st')"
      using assms by (auto simp: pick_def Let_def split: if_splits)
    let ?scored = "map (pickCandidate cfg (clock s) (accountCommitments (pickRuntimes s harness)) (accountActiveBees (pickRuntimes s harness))
        (prunePending (clock s) ?eligible (psPending st))) ?eligible"
    from among obtain ch where ch: "selectLeastLoadedAccount collate ?scored (of_int (clock s)) (poModel opts) = Some ch"
      and "i = saId (chAccount (fst (rotateNearTie ch ?scored (psCursors st harness))))"
      by (auto simp: pickAmong_def Let_def split: option.splits prod.splits)
    moreover have "(\<lambda>c. saId (acAccount c)) ` set ?scored = pkId ` set ?eligible"
      by (simp add: image_image pickCandidate_def)
    ultimately show ?thesis using rotated_candidate [OF ch, of "psCursors st harness"] by metis
  qed
  then obtain a where "a \<in> set ?eligible" "i = pkId a" by auto
  then have "a \<in> set accounts \<and> pickAllowed cfg (clock s) opts a" unfolding eligible_allowed by simp
  then show ?thesis using that \<open>i = pkId a\<close> by blast
qed

section \<open>The round robin goes round\<close>

definition roundRobinPick :: "string \<times> pick_options \<times> pick_account list \<Rightarrow> string option \<Rightarrow> string" where
  "roundRobinPick c lastId =
     (case pickRoundRobin (fst c) (\<lambda>_. False) (fst (snd c)) (snd (snd c))
             \<lparr>psPending = (\<lambda>_. []), psCursors = (\<lambda>_. lastId)\<rparr> of
        (Picked i _ _ _ _ _, _) \<Rightarrow> i | _ \<Rightarrow> '''')"

definition roundRobinIds :: "string \<times> pick_options \<times> pick_account list \<Rightarrow> string list" where
  "roundRobinIds c = map pkId (roundRobinEligible (fst (snd c)) (snd (snd c)))"

definition round_robin_sound :: "string \<times> pick_options \<times> pick_account list \<Rightarrow> bool" where
  "round_robin_sound c \<longleftrightarrow> roundRobinIds c \<noteq> [] \<and> distinct (roundRobinIds c) \<and> [] \<notin> set (roundRobinIds c)"

lemma indexOf_absent: "x \<notin> set xs \<Longrightarrow> indexOf xs x = None"
  by (induction xs) auto

lemma round_robin_place:
  assumes "round_robin_sound c"
  shows "roundRobinPick c lastId = roundRobinIds c ! (rotationPlace (roundRobinIds c) lastId mod length (roundRobinIds c))"
proof -
  let ?ids = "roundRobinIds c"
  from assms have ne: "roundRobinEligible (fst (snd c)) (snd (snd c)) \<noteq> []" and nil: "[] \<notin> set ?ids"
    by (auto simp: round_robin_sound_def roundRobinIds_def)
  then have "pickPool (fst (snd c)) (snd (snd c)) \<noteq> []" "pickRegistered (fst (snd c)) (snd (snd c)) \<noteq> []"
    "filter (\<lambda>a. pkCredential a \<noteq> CredAbsent) (pickPool (fst (snd c)) (snd (snd c))) \<noteq> []"
    by (auto simp: roundRobinEligible_def pickPool_def filter_empty_conv)
  moreover have "(case lastId of Some i \<Rightarrow> (case indexOf ?ids i of Some k \<Rightarrow> Suc k | None \<Rightarrow> 0) | None \<Rightarrow> 0) = rotationPlace ?ids lastId"
    using indexOf_absent [OF nil] by (auto simp: rotationPlace_def split: option.split list.split)
  ultimately show ?thesis
    using ne unfolding roundRobinIds_def by (simp add: roundRobinPick_def pickRoundRobin_def Let_def)
qed

interpretation round_robin: cursor_rotation roundRobinIds roundRobinPick round_robin_sound
  by unfold_locales (auto simp: round_robin_sound_def round_robin_place)

end
