(* ===== verification/Spec2Isabelle.thy ===== *)
theory Spec2Isabelle
  imports Action_Runs Task_Lists Fenced_Samples Command_Runs Allocation_Samples Account_Picks
begin

text \<open>
  A model of the durable core of Honeybee (v2/core/src), the library in which the daemon keeps its
  agents ("bees"), their mail, their queued actions and their tasks in one SQLite database, and of the selection of the provider
  account that new work runs on (v2/daemon/src/accountsService.ts over accountSelect.ts, accountAllocation.ts).

  \<^bold>\<open>How the code is put together.\<close> The class CoreStore (v2/core/src/store.ts) owns the database. Every
  operation runs in one transaction (withTransaction), reads and writes rows, appends to the audit log
  (recordAudit) and tells the listeners of the store. Pure helpers that the daemon and the command line
  share live in modules of their own (actions.ts, tasks.ts). The loops of the daemon (v2/daemon/src/loops.ts)
  read the store on a tick and call its operations; a listener of the audit log marks the lanes that
  changed.

  \<^bold>\<open>The correspondence.\<close> A row of a table is a record, a table is the list of its rows in rowid order, an
  enumerated column a datatype and a nullable column an option. The store is the record \<open>core\<close> (theory
  Store); an operation is a function from a store to an error or an answer and the store afterwards
  (\<open>store_op\<close>, theory Prelude). An exception of the code is a value \<open>Inl\<close> that carries its kind. The
  transaction of the code is \<open>atomicM\<close>: when the body throws, the rows are those of before, whatever the
  body did. Where the code throws and also wants a record to survive (withActionLaneAudit), so does the
  model. Clock and randomness are in the state: the clock stands still inside an operation, a minted id
  is an element of a stream the hypotheses of the theorems do not constrain more than the code relies on.

  \<^bold>\<open>The theories.\<close>
  \<^item> Prelude: results, store operations and their rules, JSON values with their text, lists and sorting.
  \<^item> Rows, Action_Rows: the rows of the tables (types.ts, schema.ts).
  \<^item> Actions: actions.ts. Built-in definitions, validation of inputs and outputs, the reference
    resolution, the controls a row advertises and the projections of a lane.
  \<^item> Store: the state, the audit log and the minted ids. Samples: concrete stores for the witnesses.
  \<^item> Action_Table: the reads and the one writer of the table of actions.
  \<^item> Mailbox: sending, withdrawing and expediting mail, and what wakes a bee. Mail_Port: the interface
    between mail and its clients, as the locales \<open>mail_port\<close> and \<open>supply_port\<close>: which parts of the
    store no operation of the mailbox touches.
  \<^item> Effects: effectResolve.ts and the recorded results of keyed requests (recordRpcResult and its readers).
    Executions: executionFence.ts, executionStart.ts and canonical.ts. Fenced_Admission: the store's side
    of them (executeWithFence, beginFencedSpawn, admitFencedSpawn, resolveExecution), with the effect that
    a request runs as a parameter.
  \<^item> Commands: the admission of commands (enqueueCommand) with what it supersedes. Command_Port: which
    parts of the store it leaves alone, as the locales \<open>control_port\<close> and \<open>command_port\<close>. Command_Queue:
    the queue after the admission (claimNextCommand, completeCommand, reportCommandFailure, holds, deferrals and
    the receipts of a reconnection). Command_Runs: that the claim ends, what it may hand out, and the
    retries. Questions: asking, answering and
    withdrawing questions.
  \<^item> Effect_Ledger: the ledger of effects as an abstract map from keys to free, fenced or committed.
    Fenced_Runs: the writes of the fenced operations as a relation, the invariant of claims, effects and
    starts, and what it gives for any run. Fenced_Claims: claims as text, and what an advance leaves
    behind. Fenced_Samples: a concrete coordinator, claim, request and start.
  \<^item> Runtimes: the lifecycle of bees and runtimes (updateRuntimeState, recordBootEvidence, recordRuntimeProc,
    reviveBee, archiveBee, reconfigureBee, reconcileAtBoot and what they call: flags, turn triggers, the budget of
    failed boots, the process identity). Runtime_History: the writes to the table of runtimes as a relation, its
    invariant and the pass after a restart. Runtime_Updates: an update of the state on every branch, and the
    history of a runtime.
  \<^item> Action_Queue: the operations on a lane, from enqueueActions to the hooks that mail and questions
    call. Action_Lane: how each of them changes the table, as the locale of lane changes, interpreted
    for every operation. Action_Invariant, Action_Accept: the invariant of a lane and its preservation.
  \<^item> Action_Scheduler: the pass of the daemon over the lanes. Action_System: store and scheduler as one
    step relation, with its reachable states. Action_Runs: concrete runs and the cancellation.
  \<^item> Action_Fencing: what a report, a settlement and a retry may do to an attempt. Action_Enqueue: what
    accepting a sequence stores, and that a replay changes nothing.
  \<^item> Tasks: tasks.ts and the operations on tasks and their supplies. Task_Lists: tasks as a step
    relation, the history of a task, the bound on the feeds and the order of a list.

  \<^item> Allocation: accountAllocation.ts. The windows of a quota, the projected headroom and the weighted-fair
    selection. Admissions: the holds that an accepted start has in the store, with the claims that one node
    takes over from another. Allocation_Work: the admission of new work, which measures the activity of this
    node, selects and reserves in one transaction (admitNewWork). Allocation_Runs: a burst of admissions as a
    relation and its invariant. Allocation_Samples: a concrete store, accounts and claims.
  \<^item> Account_Select: accountSelect.ts. Pace, velocity and projection of a window, the score, the choice and the
    rotation of near-ties; the locale \<open>cursor_rotation\<close> says that a rotation by a cursor gives every member its
    turn. Account_Picks: the picks of the service (pick, pickRoundRobin), the second interpretation of that locale.

  \<^bold>\<open>What the lemmas show.\<close> For actions: one action of a bee is active at a time, a lane runs in order, what
  the scheduler releases is ready, and an attempt is settled only by who holds it. For tasks: what is
  settled about a task stays settled, a claim is exclusive, the supply feeds under its six conditions
  and no more often than its limit. For both: each operation does what its table of transitions says
  on every branch, the refusals included. For keyed requests: a key is free, fenced or committed and never
  goes back, a recorded result is read back, a fenced request runs at most once and only under the current
  claim, and moving a claim on settles what was pending under the one before it. For runtimes: one generation of a
  bee is alive at a time, what stopped never changes, boots that fail spend a budget that only a real boot or an
  operator gives back. For commands: the claim ends (its measure is the weight of the queue, where a command that
  can queue wakes weighs more than they do), and what it hands out may run in the state it was claimed in. For accounts: new work goes to an account that has the
  headroom for it and by the rates at which the accounts have allowance left, a claim is bound to one bee, the
  choice is the least loaded of the best class, and the picks that tie take turns.

  \<^bold>\<open>Where the model departs from the code.\<close>
  \<^item> Strings are their UTF-8 bytes; a JSON number is an integer; localeCompare is a parameter \<open>collate\<close>.
  \<^item> The order of a task is an exact rational; the code keeps a double, whose midpoints meet in the end.
  \<^item> A listener that throws is not modelled. When an operation throws in a pass of the scheduler, the
    code may have told the listeners about audits that were then rolled back; the model adds no lane.
  \<^item> The Cell owner that captures and probes (driver-cell) is a parameter, a function of the calls so far.
  \<^item> A row has the columns that the modelled operations read; an error has its kind, not its message.
  \<^item> \<open>send\<close> is modelled without the options of the phone and of the human chat.

  \<^item> The SHA-256 of a request is a parameter, from a text to its digits; where the code compares digests
    of two values the model compares the sorted values. Object keys sort by bytes (by UTF-16 in the code).
  \<^item> \<open>isoText\<close> renders an instant. reconcileAtBoot answers also the commands that opening the store put back
    in the queue, which the model leaves out; so are the cache of bound starts and the audited arguments of a
    settled model change. The schema mark of the process identities is that of an open store. A moot
    command with no reason in the audit has the empty one. Loops over a transaction that may not end are
    partial functions to an option, whose absence is the loop that goes on.
  \<^item> A lookup that promotes an old recorded result into the ledger and throws afterwards keeps the
    promotion in the code when no transaction is open; an operation of the model that throws keeps nothing.

  \<^item> The numbers of a quota are exact rationals where the code computes in doubles; a number that a caller may
    make infinite or NaN is an \<open>amount\<close>, with a constructor for what is not finite. The reason of a choice is the
    list of its parts, not their text, and the text of an admission receipt is a parameter.
  \<^item> admitNewWork is modelled in the mode active. What it reads of an account outside the tables (credential, lease,
    pause, ceiling, limits, measured velocities) is a row of facts, a parameter.

  \<^bold>\<open>Not modelled.\<close> Delivery of mail into a runtime, the creation and deletion of bees, provider sessions, the
  shadow mode of the allocation, the refresh of the limits and the leases of accounts, the moves and handoffs past
  their admission; the RPC surface, the credentials, the command line, the drivers and the adapters, which are I/O
  around the store.
\<close>

end
